(* ===== verification/Prelude.thy ===== *)
theory Prelude
  imports Main "HOL-Library.Word"
begin

text \<open>
  Shared vocabulary of the development: machine integers at their Rust widths, the result of a
  fallible Rust function (a value, an error value, or a panic), byte slices with their range
  checks, and big-endian conversions (\<^verbatim>\<open>to_be_bytes\<close>, \<^verbatim>\<open>from_be_bytes\<close>).

  Conventions used by every component:
  \<^item> \<^verbatim>\<open>usize\<close> and lengths are natural numbers; the 64-bit bound of \<^verbatim>\<open>usize\<close> appears where the code
    names it (\<^verbatim>\<open>usize::MAX\<close>);
  \<^item> fixed-width integers are words, and an arithmetic overflow that Rust's checked arithmetic
    turns into a panic is a panic of the model;
  \<^item> an operation with a mutable receiver returns its result together with the new state.
\<close>

unbundle bit_operations_syntax

subsection \<open>Machine integers and bytes\<close>

type_synonym u8 = "8 word"
type_synonym u16 = "16 word"
type_synonym u32 = "32 word"
type_synonym u64 = "64 word"
type_synonym bytes = "u8 list"
type_synonym ComponentId = u64

named_theorems res_simps
named_theorems slice_simps

subsection \<open>Results: values, errors and panics\<close>

datatype ('e, 'a) res = Ok (the_ok: 'a) | Err 'e | Panic

fun res_bind :: "('e, 'a) res \<Rightarrow> ('a \<Rightarrow> ('e, 'b) res) \<Rightarrow> ('e, 'b) res" where
  "res_bind (Ok x) f = f x"
| "res_bind (Err e) f = Err e"
| "res_bind Panic f = Panic"

fun res_map :: "('a \<Rightarrow> 'b) \<Rightarrow> ('e, 'a) res \<Rightarrow> ('e, 'b) res" where
  "res_map f (Ok x) = Ok (f x)"
| "res_map f (Err e) = Err e"
| "res_map f Panic = Panic"

fun res_map_err :: "('e \<Rightarrow> 'f) \<Rightarrow> ('e, 'a) res \<Rightarrow> ('f, 'a) res" where
  "res_map_err f (Ok x) = Ok x"
| "res_map_err f (Err e) = Err (f e)"
| "res_map_err f Panic = Panic"

text \<open>\<^verbatim>\<open>Result::unwrap\<close> and \<^verbatim>\<open>Result::expect\<close>: an error becomes a panic.\<close>

fun res_unwrap :: "('e, 'a) res \<Rightarrow> ('f, 'a) res" where
  "res_unwrap (Ok x) = Ok x"
| "res_unwrap (Err e) = Panic"
| "res_unwrap Panic = Panic"

fun is_ok :: "('e, 'a) res \<Rightarrow> bool" where
  "is_ok (Ok x) = True"
| "is_ok (Err e) = False"
| "is_ok Panic = False"

fun is_err :: "('e, 'a) res \<Rightarrow> bool" where
  "is_err (Ok x) = False"
| "is_err (Err e) = True"
| "is_err Panic = False"

text \<open>
  The conversion error of the \<^verbatim>\<open>spacepackets\<close> crate, with the two constructors and the named
  fields the code builds it with.
\<close>

datatype ByteConversionError =
    ToSliceTooSmall (tsts_found: nat) (tsts_expected: nat)
  | FromSliceTooSmall (fsts_found: nat) (fsts_expected: nat)

lemma res_bind_eq_Ok [res_simps]:
  "res_bind r f = Ok y \<longleftrightarrow> (\<exists>x. r = Ok x \<and> f x = Ok y)"
  by (cases r) auto

lemma res_map_eq_Ok [res_simps]: "res_map f r = Ok y \<longleftrightarrow> (\<exists>x. r = Ok x \<and> y = f x)"
  by (cases r) auto

lemma res_map_err_eq_Ok [res_simps]: "res_map_err f r = Ok y \<longleftrightarrow> r = Ok y"
  by (cases r) auto

lemma is_ok_iff [res_simps]: "is_ok r \<longleftrightarrow> (\<exists>x. r = Ok x)"
  by (cases r) auto

lemma is_err_iff [res_simps]: "is_err r \<longleftrightarrow> (\<exists>e. r = Err e)"
  by (cases r) auto

text \<open>The \<^verbatim>\<open>?\<close> operator in an operation with a mutable receiver: an error leaves with the state.\<close>

fun res_try :: "('e, 'a) res \<Rightarrow> 's \<Rightarrow> ('a \<Rightarrow> ('e, 'b) res \<times> 's) \<Rightarrow> ('e, 'b) res \<times> 's" where
  "res_try (Ok x) s f = f x"
| "res_try (Err e) s f = (Err e, s)"
| "res_try Panic s f = (Panic, s)"

text \<open>\<^verbatim>\<open>Option::unwrap\<close>, \<^verbatim>\<open>Option::ok_or\<close>, \<^verbatim>\<open>slice::get\<close> and indexing.\<close>

fun opt_unwrap :: "'a option \<Rightarrow> ('e, 'a) res" where
  "opt_unwrap (Some x) = Ok x"
| "opt_unwrap None = Panic"

fun opt_ok_or :: "'a option \<Rightarrow> 'e \<Rightarrow> ('e, 'a) res" where
  "opt_ok_or (Some x) e = Ok x"
| "opt_ok_or None e = Err e"

definition get :: "'a list \<Rightarrow> nat \<Rightarrow> 'a option" where
  "get xs i = (if i < length xs then Some (xs ! i) else None)"

definition index :: "'a list \<Rightarrow> nat \<Rightarrow> ('e, 'a) res" where
  "index xs i = (if i < length xs then Ok (xs ! i) else Panic)"

lemma get_in [simp]: "i < length xs \<Longrightarrow> get xs i = Some (xs ! i)"
  by (simp add: get_def)

lemma get_map [simp]: "get (map f xs) i = map_option f (get xs i)"
  by (simp add: get_def)

lemma index_in [simp]: "i < length xs \<Longrightarrow> index xs i = Ok (xs ! i)"
  by (simp add: index_def)

lemma res_try_case:
  "res_try r s f = (case r of Ok x \<Rightarrow> f x | Err e \<Rightarrow> (Err e, s) | Panic \<Rightarrow> (Panic, s))"
  by (cases r) simp_all

lemma res_map_Panic: "res_map f r = Panic \<longleftrightarrow> r = Panic"
  by (cases r) simp_all

lemma res_map_err_Panic: "res_map_err f r = Panic \<longleftrightarrow> r = Panic"
  by (cases r) simp_all

lemma res_bind_Ok_Panic: "res_bind r (\<lambda>x. Ok (f x)) = Panic \<longleftrightarrow> r = Panic"
  by (cases r) simp_all

lemma fst_res_try: "fst (res_try r s f) = res_bind r (\<lambda>x. fst (f x))"
  by (cases r) auto

text \<open>Statements in sequence, the first of which may not end.\<close>

fun and_then :: "((unit, unit) res \<times> 's) option \<Rightarrow> ('s \<Rightarrow> ((unit, unit) res \<times> 's) option) \<Rightarrow>
    ((unit, unit) res \<times> 's) option" where
  "and_then None f = None"
| "and_then (Some (Ok _, s)) f = f s"
| "and_then (Some (Err e, s)) f = Some (Err e, s)"
| "and_then (Some (Panic, s)) f = Some (Panic, s)"

lemma and_then_total: "(\<And>s. f s \<noteq> None) \<Longrightarrow> and_then (Some x) f \<noteq> None"
  by (cases x; cases "fst x") auto

subsection \<open>Slices\<close>

text \<open>\<^verbatim>\<open>&buf[a..b]\<close>: a panic when the range is not inside the buffer.\<close>

definition slice :: "nat \<Rightarrow> nat \<Rightarrow> 'a list \<Rightarrow> ('e, 'a list) res" where
  "slice a b xs = (if a \<le> b \<and> b \<le> length xs then Ok (take (b - a) (drop a xs)) else Panic)"

text \<open>
  \<^verbatim>\<open>buf[a..a + data.len()].copy_from_slice(data)\<close>: the window at \<^term>\<open>a\<close> is overwritten, and the
  range check is the only failure, because the window and the data have the same length.
\<close>

definition overwrite :: "nat \<Rightarrow> 'a list \<Rightarrow> 'a list \<Rightarrow> 'a list" where
  "overwrite a ys xs = take a xs @ ys @ drop (a + length ys) xs"

definition copy_into :: "nat \<Rightarrow> 'a list \<Rightarrow> 'a list \<Rightarrow> ('e, 'a list) res" where
  "copy_into a ys xs = (if a + length ys \<le> length xs then Ok (overwrite a ys xs) else Panic)"

text \<open>\<^verbatim>\<open>dst.copy_from_slice(src)\<close> on whole slices: a panic unless the lengths agree.\<close>

definition copy_from_slice :: "'a list \<Rightarrow> 'a list \<Rightarrow> ('e, 'a list) res" where
  "copy_from_slice src dst = (if length src = length dst then Ok src else Panic)"

lemma slice_Ok [slice_simps]:
  "slice a b xs = Ok ys \<longleftrightarrow> a \<le> b \<and> b \<le> length xs \<and> ys = take (b - a) (drop a xs)"
  by (auto simp: slice_def)

lemma slice_not_Err [simp]: "slice a b xs \<noteq> Err e"
  by (simp add: slice_def)

lemma length_overwrite [simp]: "a + length ys \<le> length xs \<Longrightarrow> length (overwrite a ys xs) = length xs"
  by (simp add: overwrite_def)

lemma window_overwrite_same [slice_simps]:
  "a + length ys \<le> length xs \<Longrightarrow> take (length ys) (drop a (overwrite a ys xs)) = ys"
  by (simp add: overwrite_def)

lemma window_overwrite_before [slice_simps]:
  "b + n \<le> a \<Longrightarrow> a + length ys \<le> length xs \<Longrightarrow>
   take n (drop b (overwrite a ys xs)) = take n (drop b xs)"
  by (rule nth_equalityI) (auto simp: overwrite_def nth_append)

lemma window_overwrite_after [slice_simps]:
  "a + length ys \<le> b \<Longrightarrow> a + length ys \<le> length xs \<Longrightarrow>
   take n (drop b (overwrite a ys xs)) = take n (drop b xs)"
  by (simp add: overwrite_def add.commute)

lemma window_overwrite_prefix:
  assumes "a + length ys \<le> length xs" and "n \<le> length ys"
  shows "take n (drop a (overwrite a ys xs)) = take n ys"
  using assms by (simp add: overwrite_def)

lemma window_disjoint:
  assumes "a' + n \<le> a \<or> a + length ys \<le> a'" and "a + length ys \<le> length xs"
  shows "take n (drop a' (overwrite a ys xs)) = take n (drop a' xs)"
  using assms window_overwrite_before window_overwrite_after by blast

lemma slots_disjoint:
  fixes j j' b :: nat
  assumes "j \<noteq> j'"
  shows "j' * b + b \<le> j * b \<or> j * b + b \<le> j' * b"
proof (cases "j < j'")
  case True
  then have "Suc j * b \<le> j' * b" by (intro mult_le_mono1) simp
  then show ?thesis by simp
next
  case False
  then have "Suc j' * b \<le> j * b" using assms by (intro mult_le_mono1) simp
  then show ?thesis by simp
qed

subsection \<open>Big-endian bytes\<close>

fun be_bytes :: "nat \<Rightarrow> nat \<Rightarrow> bytes" where
  "be_bytes 0 n = []"
| "be_bytes (Suc k) n = be_bytes k (n div 256) @ [word_of_nat n]"

definition from_be :: "bytes \<Rightarrow> nat" where
  "from_be bs = foldl (\<lambda>acc b. acc * 256 + unat b) 0 bs"

text \<open>\<^verbatim>\<open>x.to_be_bytes()\<close> of an integer whose width is a multiple of 8, and its inverse.\<close>

definition to_be_bytes :: "'a::len word \<Rightarrow> bytes" where
  "to_be_bytes w = be_bytes (LENGTH('a) div 8) (unat w)"

definition from_be_bytes :: "bytes \<Rightarrow> 'a::len word" where
  "from_be_bytes bs = word_of_nat (from_be bs)"

lemma length_be_bytes [simp]: "length (be_bytes k n) = k"
  by (induction k arbitrary: n) auto

lemma be_bytes_numeral [simp]:
  "be_bytes (numeral k) n = be_bytes (pred_numeral k) (n div 256) @ [word_of_nat n]"
  using be_bytes.simps(2) [of "pred_numeral k" n] by (simp only: numeral_eq_Suc [of k, symmetric])

lemma length_to_be_bytes [simp]: "length (to_be_bytes (w :: 'a::len word)) = LENGTH('a) div 8"
  by (simp add: to_be_bytes_def)

lemma from_be_Nil [simp]: "from_be [] = 0"
  by (simp add: from_be_def)

lemma from_be_snoc [simp]: "from_be (bs @ [b]) = from_be bs * 256 + unat b"
  by (simp add: from_be_def)

lemma from_be_be_bytes: "from_be (be_bytes k n) = n mod 256 ^ k"
proof (induction k arbitrary: n)
  case (Suc k)
  have "unat (word_of_nat n :: u8) = n mod 256"
    by (simp add: unat_of_nat)
  then have "from_be (be_bytes (Suc k) n) = (n div 256) mod 256 ^ k * 256 + n mod 256"
    by (simp add: Suc.IH)
  also have "\<dots> = n mod (256 * 256 ^ k)"
    by (simp add: mod_mult2_eq mult.commute)
  finally show ?case by simp
qed simp

lemma pow256_div8:
  assumes "8 dvd n"
  shows "(256::nat) ^ (n div 8) = 2 ^ n"
proof -
  have "(256::nat) ^ (n div 8) = 2 ^ (8 * (n div 8))"
    by (simp add: power_mult)
  then show ?thesis using assms by simp
qed

lemma from_be_bytes_to_be_bytes [simp]:
  assumes "8 dvd LENGTH('a::len)"
  shows "from_be_bytes (to_be_bytes (w :: 'a word)) = w"
proof -
  have "(256::nat) ^ (LENGTH('a) div 8) = 2 ^ LENGTH('a)"
    using assms by (rule pow256_div8)
  then show ?thesis
    by (simp add: from_be_bytes_def to_be_bytes_def from_be_be_bytes mod_less unsigned_less)
qed

lemma u8_lt: "unat (b :: u8) < 256"
  using unsigned_less [of b] by simp

lemma from_be_bound: "from_be bs < 256 ^ length bs"
proof (induction bs rule: rev_induct)
  case (snoc b bs)
  have "unat b < 256" by (rule u8_lt)
  with snoc.IH have "from_be bs * 256 + unat b < (from_be bs + 1) * 256"
    by simp
  also have "\<dots> \<le> 256 ^ length bs * 256"
    using snoc.IH by (intro mult_right_mono) auto
  finally show ?case by (simp add: mult.commute)
qed simp

lemma be_bytes_from_be: "be_bytes (length bs) (from_be bs) = bs"
proof (induction bs rule: rev_induct)
  case (snoc b bs)
  have "unat b < 256" by (rule u8_lt)
  then have d: "(from_be bs * 256 + unat b) div 256 = from_be bs"
    by simp
  have "word_of_nat (from_be bs * 256 + unat b) = (word_of_nat (256 * from_be bs) :: u8) + b"
    by (simp add: mult.commute)
  also have "(word_of_nat (256 * from_be bs) :: u8) = 0"
    by (simp only: word_of_nat_eq_0_iff) simp
  finally show ?case
    using snoc.IH d by simp
qed simp

lemma to_be_bytes_from_be_bytes:
  assumes "length bs = LENGTH('a::len) div 8" and "8 dvd LENGTH('a)"
  shows "to_be_bytes (from_be_bytes bs :: 'a word) = bs"
proof -
  have "(256::nat) ^ length bs = 2 ^ LENGTH('a)"
    by (rule pow256_div8 [OF assms(2), folded assms(1)])
  then have "unat (word_of_nat (from_be bs) :: 'a word) = from_be bs"
    using from_be_bound [of bs] by (simp add: unat_of_nat)
  then show ?thesis
    using be_bytes_from_be [of bs] by (simp add: to_be_bytes_def from_be_bytes_def assms(1))
qed

end
