(* ===== verification/Pool_Provider.thy ===== *)
theory Pool_Provider
  imports Prelude
begin

text \<open>
  The pool interface of \<^verbatim>\<open>satrs/src/pool.rs\<close>: store addresses and their raw encodings, the pool
  errors, the \<^verbatim>\<open>PoolProvider\<close> trait as a record of operations, the guard objects built on it, and
  the locale \<open>pool_provider\<close> that states what a provider promises to its clients. The two providers
  of the crate interpret the locale in \<^verbatim>\<open>Static_Pool\<close> and \<^verbatim>\<open>Heapless_Pool\<close>.
\<close>

unbundle bit_operations_syntax

subsection \<open>Addresses\<close>

type_synonym PoolAddr = u64
type_synonym NumBlocks = u16

record StaticPoolAddr =
  pool_idx :: u16
  packet_idx :: NumBlocks

definition StaticPoolAddr_raw :: "StaticPoolAddr \<Rightarrow> u32" where
  "StaticPoolAddr_raw a = push_bit 16 (ucast (pool_idx a)) OR ucast (packet_idx a)"

definition PoolAddr_from :: "StaticPoolAddr \<Rightarrow> PoolAddr" where
  "PoolAddr_from a = push_bit 16 (ucast (pool_idx a)) OR ucast (packet_idx a)"

definition StaticPoolAddr_from :: "PoolAddr \<Rightarrow> StaticPoolAddr" where
  "StaticPoolAddr_from v =
     \<lparr>pool_idx = ucast (drop_bit 16 v AND 0xff), packet_idx = ucast (v AND 0xff)\<rparr>"

subsection \<open>Errors\<close>

datatype StoreIdError = InvalidSubpool u16 | InvalidPacketIdx u16

datatype PoolError =
    DataTooLarge nat
  | StoreFull u16
  | NoCapacity
  | InvalidStoreId StoreIdError "PoolAddr option"
  | DataDoesNotExist PoolAddr
  | PoolByteConversionError ByteConversionError
  | LockError
  | InternalError u32

subsection \<open>The trait and its default method\<close>

text \<open>
  A \<^verbatim>\<open>&mut [u8]\<close> closure is a function from the block it is given to the block it leaves, which has
  the same length; a caller's buffer that is written is passed in and returned.
\<close>

record 'p PoolProvider =
  pp_add :: "'p \<Rightarrow> bytes \<Rightarrow> (PoolError, PoolAddr) res \<times> 'p"
  pp_free_element :: "'p \<Rightarrow> nat \<Rightarrow> (bytes \<Rightarrow> bytes) \<Rightarrow> (PoolError, PoolAddr) res \<times> 'p"
  pp_modify :: "'p \<Rightarrow> PoolAddr \<Rightarrow> (bytes \<Rightarrow> bytes) \<Rightarrow> (PoolError, unit) res \<times> 'p"
  pp_read :: "'p \<Rightarrow> PoolAddr \<Rightarrow> bytes \<Rightarrow> (PoolError, nat) res \<times> bytes"
  pp_delete :: "'p \<Rightarrow> PoolAddr \<Rightarrow> (PoolError, unit) res \<times> 'p"
  pp_has_element_at :: "'p \<Rightarrow> PoolAddr \<Rightarrow> (PoolError, bool) res"
  pp_len_of_data :: "'p \<Rightarrow> PoolAddr \<Rightarrow> (PoolError, nat) res"

definition PoolProvider_read_as_vec ::
    "'p PoolProvider \<Rightarrow> 'p \<Rightarrow> PoolAddr \<Rightarrow> (PoolError, bytes) res" where
  "PoolProvider_read_as_vec ops p addr =
     res_bind (pp_len_of_data ops p addr) (\<lambda>n.
       let (r, vec) = pp_read ops p addr (replicate n 0)
       in res_bind r (\<lambda>_. Ok vec))"

subsection \<open>Guards\<close>

record 'p PoolGuard =
  g_pool :: 'p
  g_addr :: PoolAddr
  no_deletion :: bool
  deletion_failed_error :: "PoolError option"

definition PoolGuard_new :: "'p \<Rightarrow> PoolAddr \<Rightarrow> 'p PoolGuard" where
  "PoolGuard_new p addr =
     \<lparr>g_pool = p, g_addr = addr, no_deletion = False, deletion_failed_error = None\<rparr>"

definition PoolGuard_read ::
    "'p PoolProvider \<Rightarrow> 'p PoolGuard \<Rightarrow> bytes \<Rightarrow> (PoolError, nat) res \<times> bytes" where
  "PoolGuard_read ops g buf = pp_read ops (g_pool g) (g_addr g) buf"

definition PoolGuard_read_as_vec ::
    "'p PoolProvider \<Rightarrow> 'p PoolGuard \<Rightarrow> (PoolError, bytes) res" where
  "PoolGuard_read_as_vec ops g = PoolProvider_read_as_vec ops (g_pool g) (g_addr g)"

definition PoolGuard_release :: "'p PoolGuard \<Rightarrow> 'p PoolGuard" where
  "PoolGuard_release g = g\<lparr>no_deletion := True\<rparr>"

text \<open>\<^verbatim>\<open>Drop::drop\<close>: the guard gives its pool back, with the element deleted unless released.\<close>

definition PoolGuard_drop :: "'p PoolProvider \<Rightarrow> 'p PoolGuard \<Rightarrow> 'p PoolGuard" where
  "PoolGuard_drop ops g =
     (if \<not> no_deletion g then
        (case pp_delete ops (g_pool g) (g_addr g) of
           (Err e, p') \<Rightarrow> g\<lparr>g_pool := p', deletion_failed_error := Some e\<rparr>
         | (_, p') \<Rightarrow> g\<lparr>g_pool := p'\<rparr>)
      else g)"

definition PoolRwGuard_update ::
    "'p PoolProvider \<Rightarrow> 'p PoolGuard \<Rightarrow> (bytes \<Rightarrow> bytes) \<Rightarrow> (PoolError, unit) res \<times> 'p PoolGuard"
  where
  "PoolRwGuard_update ops g updater =
     (let (r, p') = pp_modify ops (g_pool g) (g_addr g) updater in (r, g\<lparr>g_pool := p'\<rparr>))"

subsection \<open>Address encodings\<close>

lemma unat_u16_lt: "unat (x :: u16) < 65536"
  using unsigned_less [of x] by simp

lemma PoolAddr_from_fields:
  "ucast (PoolAddr_from a) = packet_idx a"
  "ucast (drop_bit 16 (PoolAddr_from a)) = pool_idx a"
  by (auto simp: PoolAddr_from_def bit_eq_iff bit_simps dest: bit_imp_le_length)

lemma PoolAddr_from_inj: "PoolAddr_from a = PoolAddr_from b \<Longrightarrow> a = b"
  using PoolAddr_from_fields [of a] PoolAddr_from_fields [of b]
  by (cases a, cases b) auto

lemma mask8_u16: "x AND 0xff = x \<longleftrightarrow> unat x < 256" for x :: u16
proof -
  have "x AND 0xff = take_bit 8 x"
    by (simp add: take_bit_eq_mask mask_eq_exp_minus_1)
  moreover have "take_bit 8 x = x \<longleftrightarrow> unat x < 2 ^ 8"
    by (metis take_bit_nat_eq_self_iff unsigned_take_bit_eq word_unat_eq_iff)
  ultimately show ?thesis by simp
qed

lemma bit_0xff [simp]: "bit (0xff :: 'a::len word) n \<longleftrightarrow> n < 8 \<and> n < LENGTH('a)"
proof -
  have "(0xff :: 'a word) = mask 8"
    by (simp add: mask_eq_exp_minus_1)
  then show ?thesis by (simp only: bit_mask_iff) auto
qed

text \<open>What decoding an encoded address gives: only the low eight bits of each index survive.\<close>

lemma StaticPoolAddr_from_PoolAddr_from:
  "StaticPoolAddr_from (PoolAddr_from a) =
     \<lparr>pool_idx = pool_idx a AND 0xff, packet_idx = packet_idx a AND 0xff\<rparr>"
  by (auto simp: StaticPoolAddr_from_def PoolAddr_from_def bit_eq_iff bit_simps
      dest: bit_imp_le_length)

text \<open>An address is canonical when decoding and encoding it again gives it back.\<close>

definition canonical_addr :: "PoolAddr \<Rightarrow> bool" where
  "canonical_addr v \<longleftrightarrow> PoolAddr_from (StaticPoolAddr_from v) = v"

lemma decode_PoolAddr_from:
  assumes "unat (pool_idx a) < 256" and "unat (packet_idx a) < 256"
  shows "StaticPoolAddr_from (PoolAddr_from a) = a"
  using assms by (cases a) (simp add: StaticPoolAddr_from_PoolAddr_from mask8_u16)

lemma canonical_PoolAddr_from:
  "unat (pool_idx a) < 256 \<Longrightarrow> unat (packet_idx a) < 256 \<Longrightarrow> canonical_addr (PoolAddr_from a)"
  by (simp add: canonical_addr_def decode_PoolAddr_from)

lemma decode_bounds:
  "unat (pool_idx (StaticPoolAddr_from v)) < 256"
  "unat (packet_idx (StaticPoolAddr_from v)) < 256"
proof -
  have "pool_idx (StaticPoolAddr_from v) AND 0xff = pool_idx (StaticPoolAddr_from v)"
    "packet_idx (StaticPoolAddr_from v) AND 0xff = packet_idx (StaticPoolAddr_from v)"
    by (auto simp: StaticPoolAddr_from_def bit_eq_iff bit_simps)
  then show "unat (pool_idx (StaticPoolAddr_from v)) < 256"
    "unat (packet_idx (StaticPoolAddr_from v)) < 256"
    by (simp_all only: mask8_u16)
qed

text \<open>
  The decoding of a store address inverts its encoding exactly when both indices are below 256.
\<close>

lemma store_addr_roundtrip_iff:
  "StaticPoolAddr_from (PoolAddr_from a) = a \<longleftrightarrow>
     unat (pool_idx a) < 256 \<and> unat (packet_idx a) < 256"
proof
  assume "StaticPoolAddr_from (PoolAddr_from a) = a"
  then show "unat (pool_idx a) < 256 \<and> unat (packet_idx a) < 256"
    using decode_bounds [of "PoolAddr_from a"] by simp
qed (simp add: decode_PoolAddr_from)

subsection \<open>Sequences of operations and their specification\<close>

datatype pool_op =
    OpAdd bytes
  | OpFree nat "bytes \<Rightarrow> bytes"
  | OpModify PoolAddr "bytes \<Rightarrow> bytes"
  | OpDelete PoolAddr

definition provider_exec ::
    "'p PoolProvider \<Rightarrow> 'p \<Rightarrow> pool_op \<Rightarrow> (PoolError, PoolAddr option) res \<times> 'p" where
  "provider_exec ops p op =
     (case op of
        OpAdd d \<Rightarrow> apfst (res_map Some) (pp_add ops p d)
      | OpFree n w \<Rightarrow> apfst (res_map Some) (pp_free_element ops p n w)
      | OpModify a u \<Rightarrow> apfst (res_map (\<lambda>_. None)) (pp_modify ops p a u)
      | OpDelete a \<Rightarrow> apfst (res_map (\<lambda>_. None)) (pp_delete ops p a))"

fun provider_run ::
    "'p PoolProvider \<Rightarrow> 'p \<Rightarrow> pool_op list \<Rightarrow> (PoolError, PoolAddr option) res list \<times> 'p" where
  "provider_run ops p [] = ([], p)"
| "provider_run ops p (op # os) =
     (let (r, p1) = provider_exec ops p op; (rs, p2) = provider_run ops p1 os in (r # rs, p2))"

text \<open>
  The specification of a pool is a partial map: a new element gets an unused address, an element is
  modified or deleted under its address only, a failing operation changes nothing, and no operation
  panics.
\<close>

inductive map_exec ::
    "(PoolAddr \<Rightarrow> bytes option) \<Rightarrow> pool_op \<Rightarrow> (PoolError, PoolAddr option) res \<Rightarrow>
     (PoolAddr \<Rightarrow> bytes option) \<Rightarrow> bool" where
  spec_add: "m a = None \<Longrightarrow> map_exec m (OpAdd d) (Ok (Some a)) (m(a \<mapsto> d))"
| spec_add_err: "map_exec m (OpAdd d) (Err e) m"
| spec_free: "m a = None \<Longrightarrow> length b = n \<Longrightarrow> map_exec m (OpFree n w) (Ok (Some a)) (m(a \<mapsto> w b))"
| spec_free_err: "map_exec m (OpFree n w) (Err e) m"
| spec_modify: "m a = Some d \<Longrightarrow> map_exec m (OpModify a u) (Ok None) (m(a \<mapsto> u d))"
| spec_modify_err: "m a = None \<Longrightarrow> map_exec m (OpModify a u) (Err e) m"
| spec_delete: "m a = Some d \<Longrightarrow> map_exec m (OpDelete a) (Ok None) (m(a := None))"
| spec_delete_err: "m a = None \<Longrightarrow> map_exec m (OpDelete a) (Err e) m"

inductive map_run ::
    "(PoolAddr \<Rightarrow> bytes option) \<Rightarrow> pool_op list \<Rightarrow> (PoolError, PoolAddr option) res list \<Rightarrow>
     (PoolAddr \<Rightarrow> bytes option) \<Rightarrow> bool" where
  run_nil: "map_run m [] [] m"
| run_cons: "map_exec m op r m1 \<Longrightarrow> map_run m1 os rs m2 \<Longrightarrow> map_run m (op # os) (r # rs) m2"

inductive_cases map_exec_addE: "map_exec m (OpAdd d) r m'"
inductive_cases map_exec_panicE: "map_exec m op Panic m'"
inductive_cases map_run_consE: "map_run m (op # os) rs m'"

lemma map_run_no_panic: "map_run m os rs m' \<Longrightarrow> Panic \<notin> set rs"
  by (induction rule: map_run.induct) (auto elim: map_exec_panicE)

text \<open>Closures keep the length of the block they are given; addresses were handed out by the pool.\<close>

definition op_ok :: "(PoolAddr \<Rightarrow> bool) \<Rightarrow> pool_op \<Rightarrow> bool" where
  "op_ok issued op =
     (case op of
        OpAdd d \<Rightarrow> True
      | OpFree n w \<Rightarrow> (\<forall>b. length (w b) = length b)
      | OpModify a u \<Rightarrow> issued a \<and> (\<forall>b. length (u b) = length b)
      | OpDelete a \<Rightarrow> issued a)"

subsection \<open>The contract of a provider\<close>

text \<open>
  \<open>content p\<close> is the abstract state of a pool: a partial map from store addresses to the data stored
  under them. \<open>issued\<close> marks the addresses a provider can hand out.
\<close>

locale pool_provider =
  fixes ops :: "'p PoolProvider"
    and inv :: "'p \<Rightarrow> bool"
    and content :: "'p \<Rightarrow> PoolAddr \<Rightarrow> bytes option"
    and issued :: "PoolAddr \<Rightarrow> bool"
  assumes content_issued: "content p a = Some d \<Longrightarrow> issued a"
    and add_ok: "inv p \<Longrightarrow> pp_add ops p d = (Ok a, p') \<Longrightarrow>
      inv p' \<and> issued a \<and> content p a = None \<and> content p' = (content p)(a \<mapsto> d)"
    and add_fail: "inv p \<Longrightarrow> pp_add ops p d = (r, p') \<Longrightarrow> \<not> is_ok r \<Longrightarrow> p' = p \<and> r \<noteq> Panic"
    and free_element_ok: "inv p \<Longrightarrow> (\<And>b. length (w b) = length b) \<Longrightarrow>
      pp_free_element ops p n w = (Ok a, p') \<Longrightarrow>
      inv p' \<and> issued a \<and> content p a = None \<and>
      (\<exists>b. length b = n \<and> content p' = (content p)(a \<mapsto> w b))"
    and free_element_fail: "inv p \<Longrightarrow> pp_free_element ops p n w = (r, p') \<Longrightarrow> \<not> is_ok r \<Longrightarrow>
      p' = p \<and> r \<noteq> Panic"
    and modify_some: "inv p \<Longrightarrow> (\<And>b. length (u b) = length b) \<Longrightarrow> content p a = Some d \<Longrightarrow>
      \<exists>p'. pp_modify ops p a u = (Ok (), p') \<and> inv p' \<and> content p' = (content p)(a \<mapsto> u d)"
    and modify_none: "inv p \<Longrightarrow> issued a \<Longrightarrow> content p a = None \<Longrightarrow>
      \<exists>e. pp_modify ops p a u = (Err e, p)"
    and delete_some: "inv p \<Longrightarrow> content p a = Some d \<Longrightarrow>
      \<exists>p'. pp_delete ops p a = (Ok (), p') \<and> inv p' \<and> content p' = (content p)(a := None)"
    and delete_none: "inv p \<Longrightarrow> issued a \<Longrightarrow> content p a = None \<Longrightarrow>
      \<exists>e. pp_delete ops p a = (Err e, p)"
    and read_some: "inv p \<Longrightarrow> content p a = Some d \<Longrightarrow>
      pp_read ops p a buf =
        (if length d \<le> length buf then (Ok (length d), d @ drop (length d) buf)
         else (Err (PoolByteConversionError (ToSliceTooSmall (length buf) (length d))), buf))"
    and read_none: "inv p \<Longrightarrow> issued a \<Longrightarrow> content p a = None \<Longrightarrow>
      \<exists>e. pp_read ops p a buf = (Err e, buf)"
    and len_some: "inv p \<Longrightarrow> content p a = Some d \<Longrightarrow> pp_len_of_data ops p a = Ok (length d)"
    and len_none: "inv p \<Longrightarrow> issued a \<Longrightarrow> content p a = None \<Longrightarrow>
      pp_len_of_data ops p a = Ok 0 \<or> (\<exists>e. pp_len_of_data ops p a = Err e)"
    and has_element: "inv p \<Longrightarrow> issued a \<Longrightarrow>
      pp_has_element_at ops p a = Ok (content p a \<noteq> None) \<or>
      content p a = None \<and> (\<exists>e. pp_has_element_at ops p a = Err e)"
begin

lemma read_as_vec_some:
  assumes "inv p" and "content p a = Some d"
  shows "PoolProvider_read_as_vec ops p a = Ok d"
  using assms by (simp add: PoolProvider_read_as_vec_def len_some read_some)

lemma read_as_vec_none:
  assumes "inv p" and "issued a" and "content p a = None"
  shows "\<exists>e. PoolProvider_read_as_vec ops p a = Err e"
proof (cases "pp_len_of_data ops p a")
  case (Ok n)
  obtain e where "pp_read ops p a (replicate n 0) = (Err e, replicate n 0)"
    using read_none [OF assms] by blast
  then show ?thesis by (simp add: PoolProvider_read_as_vec_def Ok)
next
  case (Err e)
  then show ?thesis by (simp add: PoolProvider_read_as_vec_def)
next
  case Panic
  then show ?thesis using len_none [OF assms] by simp
qed

lemma delete_cases:
  assumes "inv p" and "issued a"
  obtains (deleted) p' d where "content p a = Some d" "pp_delete ops p a = (Ok (), p')" "inv p'"
      "content p' = (content p)(a := None)"
    | (absent) e where "content p a = None" "pp_delete ops p a = (Err e, p)"
proof (cases "content p a")
  case None
  then show ?thesis using delete_none [OF assms] absent by blast
next
  case (Some d)
  then show ?thesis using delete_some [OF assms(1)] deleted by blast
qed

lemma exec_refines:
  assumes inv: "inv p" and op: "op_ok issued op" and ex: "provider_exec ops p op = (r, p')"
  shows "inv p' \<and> map_exec (content p) op r (content p')"
proof (cases op)
  case (OpAdd d)
  obtain r0 where r0: "pp_add ops p d = (r0, p')" "r = res_map Some r0"
    using ex OpAdd by (cases "pp_add ops p d") (auto simp: provider_exec_def)
  then show ?thesis using add_ok [OF inv] add_fail [OF inv r0(1)] inv OpAdd
    by (cases r0) (auto intro: map_exec.intros)
next
  case (OpFree n w)
  obtain r0 where r0: "pp_free_element ops p n w = (r0, p')" "r = res_map Some r0"
    using ex OpFree by (cases "pp_free_element ops p n w") (auto simp: provider_exec_def)
  have w: "length (w b) = length b" for b using op OpFree by (simp add: op_ok_def)
  show ?thesis
  proof (cases r0)
    case (Ok a)
    then obtain b where "inv p'" "content p a = None" "length b = n"
      "content p' = (content p)(a \<mapsto> w b)"
      using free_element_ok [OF inv w r0(1) [unfolded Ok]] by blast
    then show ?thesis by (simp add: OpFree r0(2) Ok spec_free)
  qed (use free_element_fail [OF inv r0(1)] inv OpFree r0 in \<open>auto intro: map_exec.intros\<close>)
next
  case (OpModify a u)
  then have u: "length (u b) = length b" "issued a" for b using op by (auto simp: op_ok_def)
  show ?thesis
  proof (cases "content p a")
    case None
    then obtain e where "pp_modify ops p a u = (Err e, p)" using modify_none [OF inv u(2)] by blast
    then show ?thesis using ex inv None by (auto simp: provider_exec_def OpModify spec_modify_err)
  next
    case (Some d)
    then obtain p1 where "pp_modify ops p a u = (Ok (), p1)" "inv p1"
      "content p1 = (content p)(a \<mapsto> u d)"
      using modify_some [OF inv u(1)] by blast
    then show ?thesis using ex Some by (auto simp: provider_exec_def OpModify spec_modify)
  qed
next
  case (OpDelete a)
  then have "issued a" using op by (simp add: op_ok_def)
  then show ?thesis using inv ex OpDelete
    by (cases rule: delete_cases [OF inv, of a]) (auto simp: provider_exec_def intro: map_exec.intros)
qed

lemma run_refines:
  "inv p \<Longrightarrow> \<forall>op \<in> set os. op_ok issued op \<Longrightarrow> provider_run ops p os = (rs, p') \<Longrightarrow>
   inv p' \<and> map_run (content p) os rs (content p')"
proof (induction os arbitrary: p rs)
  case (Cons op os)
  obtain r p1 rs' where st: "provider_exec ops p op = (r, p1)" "provider_run ops p1 os = (rs', p')"
      "rs = r # rs'"
    using Cons.prems(3) by (auto simp: Let_def split: prod.splits)
  have "inv p1 \<and> map_exec (content p) op r (content p1)"
    using exec_refines [OF Cons.prems(1) _ st(1)] Cons.prems(2) by simp
  then show ?case using Cons.IH [OF _ _ st(2)] Cons.prems(2) st(3) by (auto intro: map_run.intros)
qed (auto intro: map_run.intros)

lemma guard_drop_deletes:
  assumes "inv p" and "content p a = Some d"
  shows "inv (g_pool (PoolGuard_drop ops (PoolGuard_new p a)))"
    and "content (g_pool (PoolGuard_drop ops (PoolGuard_new p a))) = (content p)(a := None)"
  using delete_some [OF assms] by (auto simp: PoolGuard_drop_def PoolGuard_new_def)

lemma guard_release_keeps:
  "g_pool (PoolGuard_drop ops (PoolGuard_release (PoolGuard_new p a))) = p"
  by (simp add: PoolGuard_drop_def PoolGuard_release_def PoolGuard_new_def)

end

end
