(* ===== verification/Static_Pool.thy ===== *)
theory Static_Pool
  imports Pool_Provider "HOL-Library.Multiset"
begin

text \<open>
  The heap-allocated static memory pool of \<^verbatim>\<open>satrs/src/pool.rs\<close> (module \<^verbatim>\<open>alloc_mod\<close>): its
  configuration, its constructor, the private helpers and the \<^verbatim>\<open>PoolProvider\<close> operations, followed
  by the pool invariant, the abstraction of a pool to a partial map from addresses to data, and the
  interpretation of \<open>pool_provider\<close>.
\<close>

subsection \<open>Configuration\<close>

definition STORE_FREE :: nat where
  "STORE_FREE = 2 ^ 64 - 1"

definition MAX_BLOCK_SIZE :: nat where
  "MAX_BLOCK_SIZE = STORE_FREE - 1"

record SubpoolConfig =
  num_blocks :: NumBlocks
  block_size :: nat

record StaticPoolConfig =
  cfg :: "SubpoolConfig list"
  spill_to_higher_subpools :: bool

definition StaticPoolConfig_new :: "SubpoolConfig list \<Rightarrow> bool \<Rightarrow> StaticPoolConfig" where
  "StaticPoolConfig_new cs spill = \<lparr>cfg = cs, spill_to_higher_subpools = spill\<rparr>"

definition StaticPoolConfig_new_from_subpool_cfg_tuples ::
    "(NumBlocks \<times> nat) list \<Rightarrow> bool \<Rightarrow> StaticPoolConfig" where
  "StaticPoolConfig_new_from_subpool_cfg_tuples cs spill =
     \<lparr>cfg = map (\<lambda>(n, sz). \<lparr>num_blocks = n, block_size = sz\<rparr>) cs,
      spill_to_higher_subpools = spill\<rparr>"

text \<open>
  \<^verbatim>\<open>sort_unstable_by\<close> orders by the comparison but leaves the order of equal elements open, so the
  sort is an argument, of which only \<open>unstable_sort\<close> is assumed.
\<close>

definition unstable_sort :: "(SubpoolConfig list \<Rightarrow> SubpoolConfig list) \<Rightarrow> bool" where
  "unstable_sort srt \<longleftrightarrow> (\<forall>xs. mset (srt xs) = mset xs \<and> sorted (map block_size (srt xs)))"

definition StaticPoolConfig_sanitize ::
    "(SubpoolConfig list \<Rightarrow> SubpoolConfig list) \<Rightarrow> StaticPoolConfig \<Rightarrow> nat \<times> StaticPoolConfig" where
  "StaticPoolConfig_sanitize srt c =
     (let retained = filter (\<lambda>s. num_blocks s > 0 \<and> block_size s < MAX_BLOCK_SIZE) (cfg c);
          sorted_cfg = srt retained
      in (length sorted_cfg, c\<lparr>cfg := sorted_cfg\<rparr>))"

subsection \<open>The pool and its constructor\<close>

record StaticMemoryPool =
  pool_cfg :: StaticPoolConfig
  pool :: "u8 list list"
  sizes_lists :: "nat list list"

text \<open>An allocation of more than \<^verbatim>\<open>isize::MAX\<close> bytes panics (capacity overflow).\<close>

definition ISIZE_MAX :: nat where
  "ISIZE_MAX = 2 ^ 63 - 1"

fun push_subpools ::
    "SubpoolConfig list \<Rightarrow> StaticMemoryPool \<Rightarrow> ('e, StaticMemoryPool) res" where
  "push_subpools [] p = Ok p"
| "push_subpools (c # cs) p =
     (let next_pool_len = unat (num_blocks c) * block_size c;
          next_sizes_list_len = unat (num_blocks c)
      in if next_pool_len > ISIZE_MAX then Panic
         else push_subpools cs
           (p\<lparr>pool := pool p @ [replicate next_pool_len 0],
              sizes_lists := sizes_lists p @ [replicate next_sizes_list_len STORE_FREE]\<rparr>))"

definition StaticMemoryPool_new ::
    "(SubpoolConfig list \<Rightarrow> SubpoolConfig list) \<Rightarrow> StaticPoolConfig \<Rightarrow>
     ('e, StaticMemoryPool) res" where
  "StaticMemoryPool_new srt c =
     (let (subpools_num, c') = StaticPoolConfig_sanitize srt c
      in push_subpools (cfg c') \<lparr>pool_cfg = c', pool = [], sizes_lists = []\<rparr>)"

subsection \<open>Private helpers\<close>

definition validate_addr :: "StaticMemoryPool \<Rightarrow> StaticPoolAddr \<Rightarrow> (PoolError, unit) res" where
  "validate_addr p addr =
     (let i = unat (pool_idx addr)
      in if i \<ge> length (cfg (pool_cfg p)) then
           Err (InvalidStoreId (InvalidSubpool (pool_idx addr)) (Some (PoolAddr_from addr)))
         else if packet_idx addr \<ge> num_blocks (cfg (pool_cfg p) ! i) then
           Err (InvalidStoreId (InvalidPacketIdx (packet_idx addr)) (Some (PoolAddr_from addr)))
         else Ok ())"

definition addr_check :: "StaticMemoryPool \<Rightarrow> StaticPoolAddr \<Rightarrow> (PoolError, nat) res" where
  "addr_check p addr =
     res_bind (validate_addr p addr) (\<lambda>_.
     res_bind (opt_unwrap (get (sizes_lists p) (unat (pool_idx addr)))) (\<lambda>szs.
     res_bind (index szs (unat (packet_idx addr))) (\<lambda>curr_size.
       if curr_size = STORE_FREE then Err (DataDoesNotExist (PoolAddr_from addr))
       else Ok curr_size)))"

fun find_subpool_from ::
    "nat \<Rightarrow> SubpoolConfig list \<Rightarrow> nat \<Rightarrow> u16 \<Rightarrow> (PoolError, u16) res" where
  "find_subpool_from i [] req_size start_at = Err (DataTooLarge req_size)"
| "find_subpool_from i (c # cs) req_size start_at =
     (if i < unat start_at then find_subpool_from (Suc i) cs req_size start_at
      else if block_size c \<ge> req_size then Ok (of_nat i)
      else find_subpool_from (Suc i) cs req_size start_at)"

definition find_subpool :: "StaticMemoryPool \<Rightarrow> nat \<Rightarrow> u16 \<Rightarrow> (PoolError, u16) res" where
  "find_subpool p req_size start_at = find_subpool_from 0 (cfg (pool_cfg p)) req_size start_at"

fun free_slot_from :: "nat \<Rightarrow> nat list \<Rightarrow> nat option" where
  "free_slot_from i [] = None"
| "free_slot_from i (sz # szs) = (if sz = STORE_FREE then Some i else free_slot_from (Suc i) szs)"

text \<open>
  \<^verbatim>\<open>find_empty\<close> returns the slot number, truncated to 16 bits, and a reference to the size entry;
  the reference is the untruncated index of the entry.
\<close>

definition find_empty :: "StaticMemoryPool \<Rightarrow> u16 \<Rightarrow> (PoolError, u16 \<times> nat) res" where
  "find_empty p subpool =
     (case get (sizes_lists p) (unat subpool) of
        Some szs \<Rightarrow>
          (case free_slot_from 0 szs of
             Some i \<Rightarrow> Ok (of_nat i, i)
           | None \<Rightarrow> Err (StoreFull subpool))
      | None \<Rightarrow> Err (InvalidStoreId (InvalidSubpool subpool) None))"

lemma unat_Suc_u16: "unat x \<noteq> 65535 \<Longrightarrow> unat (x + 1) = Suc (unat x)" for x :: u16
  using unat_u16_lt [of x] by (simp add: unat_word_ariths)

text \<open>
  The spilling loop of \<^verbatim>\<open>reserve\<close>; \<^verbatim>\<open>subpool_idx + 1\<close> on the last \<^verbatim>\<open>u16\<close> is an overflow panic.
\<close>

function spill_loop :: "StaticMemoryPool \<Rightarrow> u16 \<Rightarrow> (PoolError, u16) res" where
  "spill_loop p subpool_idx =
     (case find_empty p subpool_idx of
        Err (StoreFull _) \<Rightarrow>
          (if unat subpool_idx = 65535 then Panic
           else if unat (subpool_idx + 1) = length (sizes_lists p) then Err (StoreFull subpool_idx)
           else spill_loop p (subpool_idx + 1))
      | _ \<Rightarrow> Ok subpool_idx)"
  by pat_completeness auto

termination
proof (relation "measure (\<lambda>(p, i). 65535 - unat i)", goal_cases)
  case (2 p i e n)
  then show ?case using unat_u16_lt [of i] by (simp add: unat_Suc_u16)
qed simp

declare spill_loop.simps [simp del]

definition reserve ::
    "StaticMemoryPool \<Rightarrow> nat \<Rightarrow> (PoolError, StaticPoolAddr) res \<times> StaticMemoryPool" where
  "reserve p data_len =
     res_try (find_subpool p data_len 0) p (\<lambda>subpool_idx0.
     res_try (if spill_to_higher_subpools (pool_cfg p) then spill_loop p subpool_idx0
              else Ok subpool_idx0) p (\<lambda>subpool_idx.
     res_try (find_empty p subpool_idx) p (\<lambda>(slot, ref).
       (Ok \<lparr>pool_idx = subpool_idx, packet_idx = slot\<rparr>,
        p\<lparr>sizes_lists := (sizes_lists p)
            [unat subpool_idx := (sizes_lists p ! unat subpool_idx)[ref := data_len]]\<rparr>))))"

definition raw_pos :: "StaticMemoryPool \<Rightarrow> StaticPoolAddr \<Rightarrow> nat option" where
  "raw_pos p addr =
     map_option (\<lambda>c. unat (packet_idx addr) * block_size c)
       (get (cfg (pool_cfg p)) (unat (pool_idx addr)))"

definition StaticMemoryPool_write ::
    "StaticMemoryPool \<Rightarrow> StaticPoolAddr \<Rightarrow> bytes \<Rightarrow> (PoolError, unit) res \<times> StaticMemoryPool" where
  "StaticMemoryPool_write p addr data =
     res_try (opt_ok_or (raw_pos p addr) (InternalError 0)) p (\<lambda>packet_pos.
     res_try (opt_ok_or (get (pool p) (unat (pool_idx addr))) (InternalError 1)) p (\<lambda>subpool.
     res_try (copy_into packet_pos data subpool) p (\<lambda>subpool'.
       (Ok (), p\<lparr>pool := (pool p)[unat (pool_idx addr) := subpool']\<rparr>))))"

text \<open>A mutable block of a subpool handed to a closure, which rewrites it in place.\<close>

definition with_block ::
    "StaticMemoryPool \<Rightarrow> StaticPoolAddr \<Rightarrow> nat \<Rightarrow> (bytes \<Rightarrow> bytes) \<Rightarrow>
     (PoolError, unit) res \<times> StaticMemoryPool" where
  "with_block p addr len f =
     res_try (opt_unwrap (raw_pos p addr)) p (\<lambda>pos.
     res_try (opt_unwrap (get (pool p) (unat (pool_idx addr)))) p (\<lambda>subpool.
     res_try (slice pos (pos + len) subpool) p (\<lambda>block.
       (Ok (), p\<lparr>pool := (pool p)[unat (pool_idx addr) := overwrite pos (f block) subpool]\<rparr>))))"

subsection \<open>Provider operations\<close>

definition StaticMemoryPool_add ::
    "StaticMemoryPool \<Rightarrow> bytes \<Rightarrow> (PoolError, PoolAddr) res \<times> StaticMemoryPool" where
  "StaticMemoryPool_add p data =
     (let data_len = length data
      in if data_len > MAX_BLOCK_SIZE then (Err (DataTooLarge data_len), p)
         else (let (r, p1) = reserve p data_len
               in res_try r p1 (\<lambda>addr.
                    let (r2, p2) = StaticMemoryPool_write p1 addr data
                    in res_try r2 p2 (\<lambda>_. (Ok (PoolAddr_from addr), p2)))))"

definition StaticMemoryPool_free_element ::
    "StaticMemoryPool \<Rightarrow> nat \<Rightarrow> (bytes \<Rightarrow> bytes) \<Rightarrow> (PoolError, PoolAddr) res \<times> StaticMemoryPool"
  where
  "StaticMemoryPool_free_element p len writer =
     (if len > MAX_BLOCK_SIZE then (Err (DataTooLarge len), p)
      else (let (r, p1) = reserve p len
            in res_try r p1 (\<lambda>addr.
                 let (r2, p2) = with_block p1 addr len writer
                 in res_try r2 p2 (\<lambda>_. (Ok (PoolAddr_from addr), p2)))))"

definition StaticMemoryPool_modify ::
    "StaticMemoryPool \<Rightarrow> PoolAddr \<Rightarrow> (bytes \<Rightarrow> bytes) \<Rightarrow> (PoolError, unit) res \<times> StaticMemoryPool"
  where
  "StaticMemoryPool_modify p raw_addr updater =
     (let addr = StaticPoolAddr_from raw_addr
      in res_try (addr_check p addr) p (\<lambda>curr_size. with_block p addr curr_size updater))"

definition StaticMemoryPool_read ::
    "StaticMemoryPool \<Rightarrow> PoolAddr \<Rightarrow> bytes \<Rightarrow> (PoolError, nat) res \<times> bytes" where
  "StaticMemoryPool_read p raw_addr buf =
     (let addr = StaticPoolAddr_from raw_addr
      in res_try (addr_check p addr) buf (\<lambda>curr_size.
         if length buf < curr_size then
           (Err (PoolByteConversionError (ToSliceTooSmall (length buf) curr_size)), buf)
         else
           res_try (opt_unwrap (raw_pos p addr)) buf (\<lambda>pos.
           res_try (opt_unwrap (get (pool p) (unat (pool_idx addr)))) buf (\<lambda>subpool.
           res_try (slice pos (pos + curr_size) subpool) buf (\<lambda>block.
             (Ok curr_size, overwrite 0 block buf))))))"

definition StaticMemoryPool_delete ::
    "StaticMemoryPool \<Rightarrow> PoolAddr \<Rightarrow> (PoolError, unit) res \<times> StaticMemoryPool" where
  "StaticMemoryPool_delete p raw_addr =
     (let addr = StaticPoolAddr_from raw_addr; i = unat (pool_idx addr)
      in res_try (addr_check p addr) p (\<lambda>_.
         res_try (opt_unwrap (get (cfg (pool_cfg p)) i)) p (\<lambda>c.
         res_try (opt_unwrap (get (sizes_lists p) i)) p (\<lambda>szs.
         res_try (index szs (unat (packet_idx addr))) p (\<lambda>_.
           let p1 = p\<lparr>sizes_lists :=
                 (sizes_lists p)[i := szs[unat (packet_idx addr) := STORE_FREE]]\<rparr>
           in with_block p1 addr (block_size c) (\<lambda>block. replicate (length block) 0))))))"

definition StaticMemoryPool_has_element_at ::
    "StaticMemoryPool \<Rightarrow> PoolAddr \<Rightarrow> (PoolError, bool) res" where
  "StaticMemoryPool_has_element_at p raw_addr =
     (let addr = StaticPoolAddr_from raw_addr
      in res_bind (validate_addr p addr) (\<lambda>_.
         res_bind (opt_unwrap (get (sizes_lists p) (unat (pool_idx addr)))) (\<lambda>szs.
         res_bind (index szs (unat (packet_idx addr))) (\<lambda>curr_size.
           if curr_size = STORE_FREE then Ok False else Ok True))))"

definition StaticMemoryPool_len_of_data ::
    "StaticMemoryPool \<Rightarrow> PoolAddr \<Rightarrow> (PoolError, nat) res" where
  "StaticMemoryPool_len_of_data p raw_addr =
     (let addr = StaticPoolAddr_from raw_addr
      in res_bind (validate_addr p addr) (\<lambda>_.
         res_bind (opt_unwrap (get (sizes_lists p) (unat (pool_idx addr)))) (\<lambda>szs.
         res_bind (index szs (unat (packet_idx addr))) (\<lambda>size.
           if size = STORE_FREE then Ok 0 else Ok size))))"

definition StaticMemoryPool_provider :: "StaticMemoryPool PoolProvider" where
  "StaticMemoryPool_provider =
     \<lparr>pp_add = StaticMemoryPool_add, pp_free_element = StaticMemoryPool_free_element,
      pp_modify = StaticMemoryPool_modify, pp_read = StaticMemoryPool_read,
      pp_delete = StaticMemoryPool_delete, pp_has_element_at = StaticMemoryPool_has_element_at,
      pp_len_of_data = StaticMemoryPool_len_of_data\<rparr>"

subsection \<open>Invariant and abstraction\<close>

definition subpool_ok :: "SubpoolConfig \<Rightarrow> u8 list \<Rightarrow> nat list \<Rightarrow> bool" where
  "subpool_ok c mem szs \<longleftrightarrow>
     num_blocks c > 0 \<and> block_size c < MAX_BLOCK_SIZE \<and>
     length mem = unat (num_blocks c) * block_size c \<and>
     length szs = unat (num_blocks c) \<and>
     (\<forall>sz \<in> set szs. sz = STORE_FREE \<or> sz \<le> block_size c)"

definition wf_pool :: "StaticMemoryPool \<Rightarrow> bool" where
  "wf_pool p \<longleftrightarrow>
     (let cs = cfg (pool_cfg p)
      in length cs \<le> 65535 \<and> length (pool p) = length cs \<and> length (sizes_lists p) = length cs \<and>
         sorted (map block_size cs) \<and>
         (\<forall>i < length cs. subpool_ok (cs ! i) (pool p ! i) (sizes_lists p ! i)))"

text \<open>
  The decoding of a store address keeps eight bits per index, so a pool is addressable when it has
  at most 256 subpools of at most 256 blocks.
\<close>

definition addressable :: "StaticMemoryPool \<Rightarrow> bool" where
  "addressable p \<longleftrightarrow>
     length (cfg (pool_cfg p)) \<le> 256 \<and> (\<forall>c \<in> set (cfg (pool_cfg p)). unat (num_blocks c) \<le> 256)"

definition valid_slot :: "StaticMemoryPool \<Rightarrow> nat \<Rightarrow> nat \<Rightarrow> bool" where
  "valid_slot p i j \<longleftrightarrow> i < length (cfg (pool_cfg p)) \<and> j < unat (num_blocks (cfg (pool_cfg p) ! i))"

definition slot_pos :: "StaticMemoryPool \<Rightarrow> nat \<Rightarrow> nat \<Rightarrow> nat" where
  "slot_pos p i j = j * block_size (cfg (pool_cfg p) ! i)"

definition slot_content :: "StaticMemoryPool \<Rightarrow> nat \<Rightarrow> nat \<Rightarrow> bytes option" where
  "slot_content p i j =
     (if valid_slot p i j \<and> sizes_lists p ! i ! j \<noteq> STORE_FREE
      then Some (take (sizes_lists p ! i ! j) (drop (slot_pos p i j) (pool p ! i)))
      else None)"

definition pool_content :: "StaticMemoryPool \<Rightarrow> PoolAddr \<Rightarrow> bytes option" where
  "pool_content p v =
     (if canonical_addr v
      then slot_content p (unat (pool_idx (StaticPoolAddr_from v)))
             (unat (packet_idx (StaticPoolAddr_from v)))
      else None)"

text \<open>All writing operations put a size and a prefix of a block into one slot.\<close>

definition put_slot :: "StaticMemoryPool \<Rightarrow> nat \<Rightarrow> nat \<Rightarrow> nat \<Rightarrow> bytes \<Rightarrow> StaticMemoryPool" where
  "put_slot p i j n d =
     p\<lparr>pool := (pool p)[i := overwrite (slot_pos p i j) d (pool p ! i)],
       sizes_lists := (sizes_lists p)[i := (sizes_lists p ! i)[j := n]]\<rparr>"

lemma STORE_FREE_bounds:
  "MAX_BLOCK_SIZE < STORE_FREE" "sz \<le> MAX_BLOCK_SIZE \<Longrightarrow> sz \<noteq> STORE_FREE"
  by (auto simp: MAX_BLOCK_SIZE_def STORE_FREE_def)

lemma wf_poolD:
  assumes "wf_pool p" and "i < length (cfg (pool_cfg p))"
  shows "i < length (pool p)" "i < length (sizes_lists p)"
    "subpool_ok (cfg (pool_cfg p) ! i) (pool p ! i) (sizes_lists p ! i)"
    "i \<le> 65535"
  using assms by (auto simp: wf_pool_def Let_def)

lemma wf_slot:
  assumes "wf_pool p" and "valid_slot p i j"
  shows "i < length (cfg (pool_cfg p))" "i < length (pool p)" "i < length (sizes_lists p)"
    "j < length (sizes_lists p ! i)"
    "slot_pos p i j + block_size (cfg (pool_cfg p) ! i) \<le> length (pool p ! i)"
    "sizes_lists p ! i ! j = STORE_FREE \<or> sizes_lists p ! i ! j \<le> block_size (cfg (pool_cfg p) ! i)"
    "i < 65536" "j < 65536"
proof -
  let ?c = "cfg (pool_cfg p) ! i"
  have i: "i < length (cfg (pool_cfg p))" and j: "j < unat (num_blocks ?c)"
    using assms by (auto simp: valid_slot_def)
  note ok = wf_poolD [OF assms(1) i]
  show "i < length (cfg (pool_cfg p))" "i < length (pool p)" "i < length (sizes_lists p)"
    using i ok by auto
  show jl: "j < length (sizes_lists p ! i)"
    using ok(3) j by (simp add: subpool_ok_def)
  have "Suc j * block_size ?c \<le> unat (num_blocks ?c) * block_size ?c"
    using j by (intro mult_le_mono1) simp
  then show "slot_pos p i j + block_size ?c \<le> length (pool p ! i)"
    using ok(3) by (simp add: slot_pos_def subpool_ok_def)
  show "sizes_lists p ! i ! j = STORE_FREE \<or> sizes_lists p ! i ! j \<le> block_size ?c"
    using ok(3) jl by (auto simp: subpool_ok_def)
  show "i < 65536" "j < 65536"
    using ok(4) j unat_u16_lt [of "num_blocks ?c"] by auto
qed

lemma put_slot_simps [simp]:
  "pool_cfg (put_slot p i j n d) = pool_cfg p"
  "valid_slot (put_slot p i j n d) i' j' = valid_slot p i' j'"
  "slot_pos (put_slot p i j n d) i' j' = slot_pos p i' j'"
  by (simp_all add: put_slot_def valid_slot_def slot_pos_def)

lemma put_slot_wf:
  assumes "wf_pool p" and "valid_slot p i j"
    and "length d \<le> block_size (cfg (pool_cfg p) ! i)"
    and "n = STORE_FREE \<or> n \<le> block_size (cfg (pool_cfg p) ! i)"
  shows "wf_pool (put_slot p i j n d)"
proof -
  note sl = wf_slot [OF assms(1,2)]
  have "length (overwrite (slot_pos p i j) d (pool p ! i)) = length (pool p ! i)"
    using sl(5) assms(3) by simp
  moreover have "\<forall>sz \<in> set ((sizes_lists p ! i)[j := n]).
      sz = STORE_FREE \<or> sz \<le> block_size (cfg (pool_cfg p) ! i)"
    using wf_poolD(3) [OF assms(1) sl(1)] assms(4) set_update_subset_insert [of "sizes_lists p ! i" j n]
    by (auto simp: subpool_ok_def)
  ultimately have "subpool_ok (cfg (pool_cfg p) ! i) (overwrite (slot_pos p i j) d (pool p ! i))
      ((sizes_lists p ! i)[j := n])"
    using wf_poolD(3) [OF assms(1) sl(1)] by (simp add: subpool_ok_def)
  then show ?thesis
    using assms(1) sl(1-3) by (auto simp: wf_pool_def Let_def put_slot_def nth_list_update)
qed

lemma put_slot_content:
  assumes wf: "wf_pool p" and vs: "valid_slot p i j"
    and d: "length d \<le> block_size (cfg (pool_cfg p) ! i)"
    and n: "n = STORE_FREE \<or> n \<le> length d"
  shows "slot_content (put_slot p i j n d) i' j' =
    (if i' = i \<and> j' = j then if n = STORE_FREE then None else Some (take n d)
     else slot_content p i' j')"
proof (cases "valid_slot p i' j'")
  case True
  note sl = wf_slot [OF wf vs] and sl' = wf_slot [OF wf True]
  consider "i' \<noteq> i" | "i' = i" "j' = j" | "i' = i" "j' \<noteq> j" by blast
  then show ?thesis
  proof cases
    case 1
    then show ?thesis using True by (simp add: slot_content_def) (simp add: put_slot_def)
  next
    case 2
    then show ?thesis using vs sl d n
      by (simp add: slot_content_def) (auto simp: put_slot_def intro!: window_overwrite_prefix)
  next
    case 3
    let ?b = "block_size (cfg (pool_cfg p) ! i)"
    have same: "take k (drop (slot_pos p i j') (overwrite (slot_pos p i j) d (pool p ! i)))
        = take k (drop (slot_pos p i j') (pool p ! i))" if "k \<le> ?b" for k
      using slots_disjoint [OF 3(2), of ?b] that d sl(5)
      by (intro window_disjoint) (auto simp: slot_pos_def)
    then show ?thesis using True 3 sl(2,3) sl'(6)
      by (auto simp: slot_content_def) (auto simp: put_slot_def same)
  qed
next
  case False
  then show ?thesis using vs by (auto simp: slot_content_def)
qed

subsection \<open>Address checks and block access\<close>

abbreviation addr_slot :: "StaticMemoryPool \<Rightarrow> StaticPoolAddr \<Rightarrow> bool" where
  "addr_slot p a \<equiv> valid_slot p (unat (pool_idx a)) (unat (packet_idx a))"

abbreviation slot_size :: "StaticMemoryPool \<Rightarrow> StaticPoolAddr \<Rightarrow> nat" where
  "slot_size p a \<equiv> sizes_lists p ! unat (pool_idx a) ! unat (packet_idx a)"

lemma validate_addr_valid: "addr_slot p a \<Longrightarrow> validate_addr p a = Ok ()"
  by (auto simp: validate_addr_def valid_slot_def word_le_nat_alt)

lemma validate_addr_invalid: "\<not> addr_slot p a \<Longrightarrow>
    \<exists>e. validate_addr p a = Err (InvalidStoreId e (Some (PoolAddr_from a)))"
  by (auto simp: validate_addr_def valid_slot_def word_le_nat_alt Let_def)

lemma addr_check_valid:
  "wf_pool p \<Longrightarrow> addr_slot p a \<Longrightarrow> addr_check p a =
     (if slot_size p a = STORE_FREE then Err (DataDoesNotExist (PoolAddr_from a))
      else Ok (slot_size p a))"
  using wf_slot [of p] by (simp add: addr_check_def validate_addr_valid)

lemma addr_check_invalid: "\<not> addr_slot p a \<Longrightarrow>
    \<exists>e. addr_check p a = Err (InvalidStoreId e (Some (PoolAddr_from a)))"
  using validate_addr_invalid [of p a] by (auto simp: addr_check_def)

lemma raw_pos_valid: "addr_slot p a \<Longrightarrow>
    raw_pos p a = Some (slot_pos p (unat (pool_idx a)) (unat (packet_idx a)))"
  by (auto simp: raw_pos_def slot_pos_def valid_slot_def)

lemma with_block_valid:
  assumes "wf_pool p" and "addr_slot p a"
    and "n \<le> block_size (cfg (pool_cfg p) ! unat (pool_idx a))"
  shows "with_block p a n f =
    (Ok (), p\<lparr>pool := (pool p)[unat (pool_idx a) :=
      overwrite (slot_pos p (unat (pool_idx a)) (unat (packet_idx a)))
        (f (take n (drop (slot_pos p (unat (pool_idx a)) (unat (packet_idx a)))
              (pool p ! unat (pool_idx a)))))
        (pool p ! unat (pool_idx a))]\<rparr>)"
  using wf_slot [OF assms(1,2)] assms(3) by (simp add: with_block_def raw_pos_valid assms(2) slice_def)

lemma write_valid:
  assumes "wf_pool p" and "addr_slot p a"
    and "length d \<le> block_size (cfg (pool_cfg p) ! unat (pool_idx a))"
  shows "StaticMemoryPool_write p a d =
    (Ok (), p\<lparr>pool := (pool p)[unat (pool_idx a) :=
      overwrite (slot_pos p (unat (pool_idx a)) (unat (packet_idx a))) d (pool p ! unat (pool_idx a))]\<rparr>)"
  using wf_slot [OF assms(1,2)] assms(3)
  by (simp add: StaticMemoryPool_write_def raw_pos_valid assms(2) copy_into_def)

subsection \<open>Reservation\<close>

definition subpool_full :: "StaticMemoryPool \<Rightarrow> nat \<Rightarrow> bool" where
  "subpool_full p i \<longleftrightarrow> STORE_FREE \<notin> set (sizes_lists p ! i)"

lemma find_subpool_from_spec:
  assumes "i + length cs \<le> 65536"
  shows "(case find_subpool_from i cs n 0 of
      Ok s \<Rightarrow> \<exists>k < length cs. unat s = i + k \<and> n \<le> block_size (cs ! k) \<and>
        (\<forall>l < k. block_size (cs ! l) < n)
    | Err e \<Rightarrow> e = DataTooLarge n \<and> (\<forall>c \<in> set cs. block_size c < n)
    | Panic \<Rightarrow> False)"
  using assms
proof (induction cs arbitrary: i)
  case (Cons c cs)
  show ?case
  proof (cases "n \<le> block_size c")
    case True
    then show ?thesis using Cons.prems
      by (auto simp: unat_of_nat intro!: exI [of _ 0])
  next
    case False
    have IH: "case find_subpool_from (Suc i) cs n 0 of
        Ok s \<Rightarrow> \<exists>k < length cs. unat s = Suc i + k \<and> n \<le> block_size (cs ! k) \<and>
          (\<forall>l < k. block_size (cs ! l) < n)
      | Err e \<Rightarrow> e = DataTooLarge n \<and> (\<forall>c \<in> set cs. block_size c < n)
      | Panic \<Rightarrow> False"
      using Cons.prems by (intro Cons.IH) simp
    have shift: "\<exists>k < length (c # cs). unat s = i + k \<and> n \<le> block_size ((c # cs) ! k) \<and>
        (\<forall>l < k. block_size ((c # cs) ! l) < n)"
      if "k < length cs" "unat s = Suc i + k" "n \<le> block_size (cs ! k)"
        "\<forall>l < k. block_size (cs ! l) < n" for k and s :: u16
      using that False by (intro exI [of _ "Suc k"]) (auto simp: less_Suc_eq_0_disj)
    show ?thesis
    proof (cases "find_subpool_from (Suc i) cs n 0")
      case (Ok s)
      then show ?thesis using IH False shift [where s = s] by auto
    qed (use IH False in auto)
  qed
qed simp

lemma free_slot_from_spec:
  "case free_slot_from i szs of
     Some m \<Rightarrow> \<exists>k < length szs. m = i + k \<and> szs ! k = STORE_FREE \<and>
       (\<forall>l < k. szs ! l \<noteq> STORE_FREE)
   | None \<Rightarrow> STORE_FREE \<notin> set szs"
proof (induction szs arbitrary: i)
  case (Cons z szs)
  have shift: "\<exists>k < length (z # szs). i' = i + k \<and> (z # szs) ! k = STORE_FREE \<and>
      (\<forall>l < k. (z # szs) ! l \<noteq> STORE_FREE)"
    if "k < length szs" "i' = Suc i + k" "szs ! k = STORE_FREE" "\<forall>l < k. szs ! l \<noteq> STORE_FREE"
      "z \<noteq> STORE_FREE" for k i'
    using that by (intro exI [of _ "Suc k"]) (auto simp: less_Suc_eq_0_disj)
  show ?case
  proof (cases "z = STORE_FREE")
    case True
    then show ?thesis by (auto intro!: exI [of _ 0])
  next
    case False
    then show ?thesis
    proof (cases "free_slot_from (Suc i) szs")
      case (Some m)
      then show ?thesis using Cons.IH [of "Suc i"] False shift [where i' = m] by auto
    qed (use Cons.IH [of "Suc i"] False in auto)
  qed
qed simp

lemma find_empty_spec:
  assumes "wf_pool p" and "unat s < length (cfg (pool_cfg p))"
  shows "find_empty p s = Err (StoreFull s) \<and> subpool_full p (unat s) \<or>
    (\<exists>j. find_empty p s = Ok (of_nat j, j) \<and> valid_slot p (unat s) j \<and>
      sizes_lists p ! unat s ! j = STORE_FREE \<and> (\<forall>l < j. sizes_lists p ! unat s ! l \<noteq> STORE_FREE))"
proof -
  note ok = wf_poolD [OF assms]
  show ?thesis
    using free_slot_from_spec [where i = 0 and szs = "sizes_lists p ! unat s"] ok(2,3) assms(2)
    by (cases "free_slot_from 0 (sizes_lists p ! unat s)")
      (auto simp: find_empty_def subpool_full_def valid_slot_def subpool_ok_def)
qed

lemma spill_loop_spec:
  assumes "wf_pool p" and "unat s < length (cfg (pool_cfg p))"
  shows "(case spill_loop p s of
      Ok t \<Rightarrow> unat s \<le> unat t \<and> unat t < length (cfg (pool_cfg p)) \<and> \<not> subpool_full p (unat t) \<and>
        (\<forall>k. unat s \<le> k \<and> k < unat t \<longrightarrow> subpool_full p k)
    | Err e \<Rightarrow> (\<exists>u. e = StoreFull u) \<and>
        (\<forall>k. unat s \<le> k \<and> k < length (cfg (pool_cfg p)) \<longrightarrow> subpool_full p k)
    | Panic \<Rightarrow> False)"
  using assms
proof (induction p s rule: spill_loop.induct)
  case (1 p s)
  have len: "length (sizes_lists p) = length (cfg (pool_cfg p))" "length (cfg (pool_cfg p)) \<le> 65535"
    using 1(2) by (auto simp: wf_pool_def Let_def)
  consider (full) "find_empty p s = Err (StoreFull s)" "subpool_full p (unat s)"
    | (free) j where "find_empty p s = Ok (of_nat j, j)" "\<not> subpool_full p (unat s)"
    using find_empty_spec [OF 1(2,3)] wf_slot(4) [OF 1(2)]
    by (auto simp: subpool_full_def in_set_conv_nth)
  then show ?case
  proof cases
    case free
    then show ?thesis using 1(3) by (auto simp: spill_loop.simps [of p s])
  next
    case full
    have s: "unat s \<noteq> 65535" using 1(3) len by simp
    then have S: "unat (s + 1) = Suc (unat s)" by (rule unat_Suc_u16)
    show ?thesis
    proof (cases "unat (s + 1) = length (sizes_lists p)")
      case True
      then show ?thesis using full s S len
        by (auto simp: spill_loop.simps [of p s] less_Suc_eq_le dest: le_antisym)
    next
      case False
      then have "unat (s + 1) < length (cfg (pool_cfg p))" using S len 1(3) by simp
      note IH = 1(1) [OF full(1) refl s False 1(2) this]
      have step: "spill_loop p s = spill_loop p (s + 1)"
        using full(1) s False by (simp add: spill_loop.simps [of p s])
      have k: "subpool_full p k" if "unat s \<le> k" "unat s < k \<Longrightarrow> subpool_full p k" for k
        using that full(2) by (cases "k = unat s") auto
      show ?thesis using IH unfolding step S
        by (cases "spill_loop p (s + 1)") (auto simp: Suc_le_eq intro: k)
    qed
  qed
qed

text \<open>The slot a reservation may take: the request fits, the slot is the first free one.\<close>

definition reserved_slot :: "StaticMemoryPool \<Rightarrow> nat \<Rightarrow> nat \<Rightarrow> nat \<Rightarrow> bool" where
  "reserved_slot p n i j \<longleftrightarrow>
     valid_slot p i j \<and> n \<le> block_size (cfg (pool_cfg p) ! i) \<and>
     sizes_lists p ! i ! j = STORE_FREE \<and> (\<forall>l < j. sizes_lists p ! i ! l \<noteq> STORE_FREE) \<and>
     (\<forall>k < i. block_size (cfg (pool_cfg p) ! k) < n \<or>
        spill_to_higher_subpools (pool_cfg p) \<and> subpool_full p k)"

definition no_room :: "StaticMemoryPool \<Rightarrow> nat \<Rightarrow> PoolError \<Rightarrow> bool" where
  "no_room p n e \<longleftrightarrow>
     e = DataTooLarge n \<and> (\<forall>c \<in> set (cfg (pool_cfg p)). block_size c < n) \<or>
     (\<exists>u. e = StoreFull u) \<and>
     (\<exists>i < length (cfg (pool_cfg p)). n \<le> block_size (cfg (pool_cfg p) ! i) \<and>
        (\<forall>k < i. block_size (cfg (pool_cfg p) ! k) < n) \<and> subpool_full p i \<and>
        (spill_to_higher_subpools (pool_cfg p) \<longrightarrow>
           (\<forall>k < length (cfg (pool_cfg p)). i \<le> k \<longrightarrow> subpool_full p k)))"

lemma find_subpool_spec:
  assumes "wf_pool p"
  shows "(\<exists>s. find_subpool p n 0 = Ok s \<and> unat s < length (cfg (pool_cfg p)) \<and>
      n \<le> block_size (cfg (pool_cfg p) ! unat s) \<and>
      (\<forall>k < unat s. block_size (cfg (pool_cfg p) ! k) < n)) \<or>
    find_subpool p n 0 = Err (DataTooLarge n) \<and> (\<forall>c \<in> set (cfg (pool_cfg p)). block_size c < n)"
  using assms find_subpool_from_spec [where i = 0 and cs = "cfg (pool_cfg p)" and n = n]
  by (cases "find_subpool_from 0 (cfg (pool_cfg p)) n 0")
    (auto simp: find_subpool_def wf_pool_def Let_def)

lemma wf_block_size_mono:
  "wf_pool p \<Longrightarrow> i \<le> k \<Longrightarrow> k < length (cfg (pool_cfg p)) \<Longrightarrow>
   block_size (cfg (pool_cfg p) ! i) \<le> block_size (cfg (pool_cfg p) ! k)"
  using sorted_nth_mono [of "map block_size (cfg (pool_cfg p))" i k]
  by (auto simp: wf_pool_def Let_def)

lemma reserve_from:
  assumes wf: "wf_pool p" and s: "find_subpool p n 0 = Ok s"
    and t: "unat t < length (cfg (pool_cfg p))" "n \<le> block_size (cfg (pool_cfg p) ! unat t)"
    and before: "\<forall>k < unat t. block_size (cfg (pool_cfg p) ! k) < n \<or>
      spill_to_higher_subpools (pool_cfg p) \<and> subpool_full p k"
    and sel: "(if spill_to_higher_subpools (pool_cfg p) then spill_loop p s else Ok s) = Ok t"
  shows "(\<exists>a. reserve p n = (Ok a, p\<lparr>sizes_lists := (sizes_lists p)
        [unat (pool_idx a) := (sizes_lists p ! unat (pool_idx a))[unat (packet_idx a) := n]]\<rparr>) \<and>
      reserved_slot p n (unat (pool_idx a)) (unat (packet_idx a))) \<or>
    reserve p n = (Err (StoreFull t), p) \<and> subpool_full p (unat t)"
  using find_empty_spec [OF wf t(1)]
proof (elim disjE conjE exE)
  fix j assume j: "find_empty p t = Ok (of_nat j, j)" "valid_slot p (unat t) j"
    "sizes_lists p ! unat t ! j = STORE_FREE" "\<forall>l<j. sizes_lists p ! unat t ! l \<noteq> STORE_FREE"
  have "unat (of_nat j :: u16) = j"
    using wf_slot(8) [OF wf j(2)] by (simp add: unat_of_nat)
  then show ?thesis using j t before sel
    by (intro disjI1 exI [of _ "\<lparr>pool_idx = t, packet_idx = of_nat j\<rparr>"])
      (simp add: reserve_def s reserved_slot_def)
qed (use sel in \<open>simp add: reserve_def s\<close>)

lemma reserve_cases:
  assumes wf: "wf_pool p"
  obtains (reserved) a where
      "reserve p n = (Ok a, p\<lparr>sizes_lists := (sizes_lists p)
        [unat (pool_idx a) := (sizes_lists p ! unat (pool_idx a))[unat (packet_idx a) := n]]\<rparr>)"
      "reserved_slot p n (unat (pool_idx a)) (unat (packet_idx a))"
    | (failed) e where "reserve p n = (Err e, p)" "no_room p n e"
proof (cases "\<exists>s. find_subpool p n 0 = Ok s")
  case False
  then show ?thesis using find_subpool_spec [OF wf, of n] failed [of "DataTooLarge n"]
    by (auto simp: reserve_def no_room_def)
next
  case True
  then obtain s where s: "find_subpool p n 0 = Ok s" "unat s < length (cfg (pool_cfg p))"
      "n \<le> block_size (cfg (pool_cfg p) ! unat s)"
      "\<forall>k < unat s. block_size (cfg (pool_cfg p) ! k) < n"
    using find_subpool_spec [OF wf, of n] by auto
  show ?thesis
  proof (cases "spill_to_higher_subpools (pool_cfg p)")
    case False
    then show ?thesis using reserve_from [OF wf s(1-3)] s reserved failed
      by (fastforce simp: no_room_def)
  next
    case spill: True
    note sp = spill_loop_spec [OF wf s(2)]
    show ?thesis
    proof (cases "spill_loop p s")
      case (Ok t)
      have "n \<le> block_size (cfg (pool_cfg p) ! unat t)"
        using s(3) wf_block_size_mono [OF wf, of "unat s" "unat t"] sp Ok by auto
      moreover have "\<forall>k < unat t. block_size (cfg (pool_cfg p) ! k) < n \<or>
          spill_to_higher_subpools (pool_cfg p) \<and> subpool_full p k"
        using s(4) sp Ok spill by simp (meson not_le)
      ultimately show ?thesis
        using reserve_from [OF wf s(1), of t] sp Ok spill reserved by auto
    next
      case (Err e)
      then have "no_room p n e" using s sp spill by (auto simp: no_room_def)
      then show ?thesis using failed [of e] Err s spill by (simp add: reserve_def)
    qed (use sp in simp)
  qed
qed

subsection \<open>The operations as slot updates\<close>

abbreviation put_addr :: "StaticMemoryPool \<Rightarrow> StaticPoolAddr \<Rightarrow> nat \<Rightarrow> bytes \<Rightarrow> StaticMemoryPool" where
  "put_addr p a n d \<equiv> put_slot p (unat (pool_idx a)) (unat (packet_idx a)) n d"

abbreviation addr_block_size :: "StaticMemoryPool \<Rightarrow> StaticPoolAddr \<Rightarrow> nat" where
  "addr_block_size p a \<equiv> block_size (cfg (pool_cfg p) ! unat (pool_idx a))"

abbreviation reserved :: "StaticMemoryPool \<Rightarrow> nat \<Rightarrow> StaticPoolAddr \<Rightarrow> bool" where
  "reserved p n a \<equiv> reserved_slot p n (unat (pool_idx a)) (unat (packet_idx a))"

lemma sizes_update_wf:
  assumes "wf_pool p" and "reserved p n a"
  shows "wf_pool (p\<lparr>sizes_lists := (sizes_lists p)
    [unat (pool_idx a) := (sizes_lists p ! unat (pool_idx a))[unat (packet_idx a) := n]]\<rparr>)" (is "wf_pool ?p'")
proof -
  have "?p' = put_addr p a n []"
    by (simp add: put_slot_def overwrite_def)
  then show ?thesis
    using put_slot_wf [OF assms(1), of _ _ "[]" n] assms(2) by (simp add: reserved_slot_def)
qed

lemma no_room_DataTooLarge: "wf_pool p \<Longrightarrow> MAX_BLOCK_SIZE < n \<Longrightarrow> no_room p n (DataTooLarge n)"
  by (force simp: no_room_def wf_pool_def Let_def subpool_ok_def in_set_conv_nth)

lemma add_cases:
  assumes wf: "wf_pool p"
  obtains (stored) a where
      "StaticMemoryPool_add p d = (Ok (PoolAddr_from a), put_addr p a (length d) d)"
      "reserved p (length d) a"
    | (failed) e where "StaticMemoryPool_add p d = (Err e, p)" "no_room p (length d) e"
proof (cases "length d > MAX_BLOCK_SIZE")
  case True
  then show ?thesis using failed no_room_DataTooLarge [OF wf True]
    by (simp add: StaticMemoryPool_add_def)
next
  case False
  from wf show ?thesis
  proof (cases rule: reserve_cases [where n = "length d"])
    case (reserved a)
    note wf' = sizes_update_wf [OF wf reserved(2)]
    show ?thesis
      by (rule stored [of a])
        (use False reserved write_valid [OF wf', of a d] in
          \<open>simp_all add: StaticMemoryPool_add_def reserved_slot_def valid_slot_def slot_pos_def
             put_slot_def\<close>)
  next
    case (failed e)
    then show ?thesis using False that(2) by (simp add: StaticMemoryPool_add_def)
  qed
qed

text \<open>The block a closure of \<^verbatim>\<open>free_element\<close> is given: the stale bytes of the reserved slot.\<close>

abbreviation addr_block :: "StaticMemoryPool \<Rightarrow> StaticPoolAddr \<Rightarrow> nat \<Rightarrow> bytes" where
  "addr_block p a n \<equiv>
     take n (drop (slot_pos p (unat (pool_idx a)) (unat (packet_idx a))) (pool p ! unat (pool_idx a)))"

lemma free_element_cases:
  assumes wf: "wf_pool p"
  obtains (stored) a where
      "StaticMemoryPool_free_element p n w = (Ok (PoolAddr_from a), put_addr p a n (w (addr_block p a n)))"
      "reserved p n a" "length (addr_block p a n) = n"
    | (failed) e where "StaticMemoryPool_free_element p n w = (Err e, p)" "no_room p n e"
proof (cases "n > MAX_BLOCK_SIZE")
  case True
  then show ?thesis using failed no_room_DataTooLarge [OF wf True]
    by (simp add: StaticMemoryPool_free_element_def)
next
  case False
  from wf show ?thesis
  proof (cases rule: reserve_cases [where n = n])
    case (reserved a)
    note wf' = sizes_update_wf [OF wf reserved(2)]
    have "length (addr_block p a n) = n"
      using wf_slot(5) [OF wf] reserved(2) by (fastforce simp: reserved_slot_def)
    then show ?thesis
      by (rule stored [of a, rotated 2])
        (use False reserved with_block_valid [OF wf', of a n w] in
          \<open>simp_all add: StaticMemoryPool_free_element_def reserved_slot_def valid_slot_def
             slot_pos_def put_slot_def\<close>)
  next
    case (failed e)
    then show ?thesis using False that(2) by (simp add: StaticMemoryPool_free_element_def)
  qed
qed

lemma modify_valid:
  assumes wf: "wf_pool p" and a: "StaticPoolAddr_from v = a" "addr_slot p a"
    and sz: "slot_size p a \<noteq> STORE_FREE"
  shows "StaticMemoryPool_modify p v u =
    (Ok (), put_addr p a (slot_size p a) (u (addr_block p a (slot_size p a))))"
proof -
  have "slot_size p a \<le> addr_block_size p a" using wf_slot(6) [OF wf a(2)] sz by simp
  then show ?thesis
    using with_block_valid [OF wf a(2)] addr_check_valid [OF wf a(2)] a sz
    by (simp add: StaticMemoryPool_modify_def put_slot_def)
qed

lemma delete_valid:
  assumes wf: "wf_pool p" and a: "StaticPoolAddr_from v = a" "addr_slot p a"
    and sz: "slot_size p a \<noteq> STORE_FREE"
  shows "StaticMemoryPool_delete p v =
    (Ok (), put_addr p a STORE_FREE (replicate (addr_block_size p a) 0))"
proof -
  define p1 where "p1 = p\<lparr>sizes_lists := (sizes_lists p)
    [unat (pool_idx a) := (sizes_lists p ! unat (pool_idx a))[unat (packet_idx a) := STORE_FREE]]\<rparr>"
  have eq: "p1 = put_addr p a STORE_FREE []"
    by (simp add: p1_def put_slot_def overwrite_def)
  have wf1: "wf_pool p1" unfolding eq by (rule put_slot_wf [OF wf a(2)]) auto
  note sl = wf_slot [OF wf a(2)]
  have "with_block p1 a (addr_block_size p a) (\<lambda>b. replicate (length b) 0) =
      (Ok (), put_addr p a STORE_FREE (replicate (addr_block_size p a) 0))"
    using with_block_valid [OF wf1, of a "addr_block_size p a"] a(2) sl
    by (simp add: eq min_absorb2) (simp add: put_slot_def overwrite_def)
  then show ?thesis
    using addr_check_valid [OF wf a(2)] a sz sl
    by (simp add: StaticMemoryPool_delete_def p1_def [symmetric] Let_def)
qed

lemma read_valid:
  assumes wf: "wf_pool p" and a: "StaticPoolAddr_from v = a" "addr_slot p a"
    and sz: "slot_size p a \<noteq> STORE_FREE"
  shows "StaticMemoryPool_read p v buf =
    (let d = addr_block p a (slot_size p a)
     in if length d \<le> length buf then (Ok (length d), d @ drop (length d) buf)
        else (Err (PoolByteConversionError (ToSliceTooSmall (length buf) (length d))), buf))"
proof -
  note sl = wf_slot [OF wf a(2)]
  have "slot_pos p (unat (pool_idx a)) (unat (packet_idx a)) + slot_size p a
      \<le> length (pool p ! unat (pool_idx a))" and "length (addr_block p a (slot_size p a)) = slot_size p a"
    using sl(5,6) sz by auto
  then show ?thesis
    using addr_check_valid [OF wf a(2)] sz sl
    by (simp add: StaticMemoryPool_read_def a raw_pos_valid slice_def overwrite_def)
qed

subsection \<open>The contract\<close>

definition pool_inv :: "StaticMemoryPool \<Rightarrow> bool" where
  "pool_inv p \<longleftrightarrow> wf_pool p \<and> addressable p"

lemma addressable_slot:
  assumes "addressable p" and "addr_slot p a"
  shows "unat (pool_idx a) < 256" "unat (packet_idx a) < 256"
proof -
  have "cfg (pool_cfg p) ! unat (pool_idx a) \<in> set (cfg (pool_cfg p))"
    using assms(2) by (simp add: valid_slot_def)
  then have "unat (num_blocks (cfg (pool_cfg p) ! unat (pool_idx a))) \<le> 256"
    using assms(1) by (simp add: addressable_def)
  moreover have "unat (packet_idx a) < unat (num_blocks (cfg (pool_cfg p) ! unat (pool_idx a)))"
    "unat (pool_idx a) < length (cfg (pool_cfg p))"
    using assms(2) by (simp_all add: valid_slot_def)
  moreover have "length (cfg (pool_cfg p)) \<le> 256" using assms(1) by (simp add: addressable_def)
  ultimately show "unat (pool_idx a) < 256" "unat (packet_idx a) < 256" by linarith+
qed

lemma decode_slot:
  "addressable p \<Longrightarrow> addr_slot p a \<Longrightarrow> StaticPoolAddr_from (PoolAddr_from a) = a"
  by (simp add: addressable_slot decode_PoolAddr_from)

lemma content_put:
  assumes inv: "pool_inv p" and a: "addr_slot p a"
    and d: "length d \<le> addr_block_size p a" and n: "n = STORE_FREE \<or> n \<le> length d"
  shows "pool_inv (put_addr p a n d)"
    and "pool_content (put_addr p a n d) = (pool_content p)
      (PoolAddr_from a := (if n = STORE_FREE then None else Some (take n d)))"
proof -
  have wf: "wf_pool p" and ad: "addressable p" using inv by (auto simp: pool_inv_def)
  then show "pool_inv (put_addr p a n d)"
    using put_slot_wf [OF wf a d] n d by (auto simp: pool_inv_def addressable_def)
  note dec = decode_slot [OF ad a]
  have can: "canonical_addr (PoolAddr_from a)" by (simp add: canonical_addr_def dec)
  show "pool_content (put_addr p a n d) = (pool_content p)
      (PoolAddr_from a := (if n = STORE_FREE then None else Some (take n d)))"
  proof
    fix v
    let ?b = "StaticPoolAddr_from v"
    have "v = PoolAddr_from a" if "canonical_addr v" "unat (pool_idx ?b) = unat (pool_idx a)"
      "unat (packet_idx ?b) = unat (packet_idx a)"
    proof -
      have "pool_idx ?b = pool_idx a" using that(2) by (rule unsigned_word_eqI)
      moreover have "packet_idx ?b = packet_idx a" using that(3) by (rule unsigned_word_eqI)
      ultimately have "?b = a" by (intro StaticPoolAddr.equality) simp_all
      then show ?thesis using that(1) by (simp add: canonical_addr_def)
    qed
    then have eq: "canonical_addr v \<and> unat (pool_idx ?b) = unat (pool_idx a) \<and>
        unat (packet_idx ?b) = unat (packet_idx a) \<longleftrightarrow> v = PoolAddr_from a"
      using can dec by auto
    show "pool_content (put_addr p a n d) v = ((pool_content p)
        (PoolAddr_from a := (if n = STORE_FREE then None else Some (take n d)))) v"
    proof (cases "v = PoolAddr_from a")
      case True
      then show ?thesis using put_slot_content [OF wf a d n] can dec
        by (simp add: pool_content_def)
    next
      case False
      then show ?thesis using put_slot_content [OF wf a d n] eq
        by (auto simp: pool_content_def)
    qed
  qed
qed

lemma content_SomeD:
  assumes "wf_pool p" and "pool_content p v = Some d"
  obtains a where "StaticPoolAddr_from v = a" "PoolAddr_from a = v" "addr_slot p a"
    "slot_size p a \<noteq> STORE_FREE" "d = addr_block p a (slot_size p a)"
    "slot_size p a = length d" "length d \<le> addr_block_size p a"
proof -
  let ?a = "StaticPoolAddr_from v"
  have c: "PoolAddr_from ?a = v" "addr_slot p ?a" "slot_size p ?a \<noteq> STORE_FREE"
      "d = addr_block p ?a (slot_size p ?a)"
    using assms(2) by (auto simp: pool_content_def slot_content_def canonical_addr_def split: if_splits)
  then have "slot_size p ?a = length d" "length d \<le> addr_block_size p ?a"
    using wf_slot(5,6) [OF assms(1) c(2)] by auto
  then show ?thesis using that [OF refl c] by blast
qed

lemma content_NoneD:
  assumes "wf_pool p" and "canonical_addr v" and "pool_content p v = None"
  shows "\<not> addr_slot p (StaticPoolAddr_from v) \<or> slot_size p (StaticPoolAddr_from v) = STORE_FREE"
  using assms by (auto simp: pool_content_def slot_content_def split: if_splits)

lemma addr_check_None:
  assumes "wf_pool p" and "canonical_addr v" and "pool_content p v = None"
  shows "\<exists>e. addr_check p (StaticPoolAddr_from v) = Err e"
  using content_NoneD [OF assms] addr_check_valid [OF assms(1)] addr_check_invalid by fastforce

lemma reserved_content:
  assumes "pool_inv p" and "reserved p n a"
  shows "addr_slot p a" "n \<le> addr_block_size p a" "n \<noteq> STORE_FREE"
    "canonical_addr (PoolAddr_from a)" "pool_content p (PoolAddr_from a) = None"
proof -
  show a: "addr_slot p a" and n: "n \<le> addr_block_size p a"
    using assms by (auto simp: reserved_slot_def)
  have wf: "wf_pool p" and ad: "addressable p" using assms by (auto simp: pool_inv_def)
  have "addr_block_size p a \<le> MAX_BLOCK_SIZE"
    using wf_poolD(3) [OF wf] a by (fastforce simp: valid_slot_def subpool_ok_def)
  then show "n \<noteq> STORE_FREE" using n STORE_FREE_bounds by simp
  note dec = decode_slot [OF ad a]
  then show "canonical_addr (PoolAddr_from a)" by (simp add: canonical_addr_def)
  show "pool_content p (PoolAddr_from a) = None"
    using assms dec by (simp add: pool_content_def slot_content_def reserved_slot_def)
qed

lemma provider_sel [simp]:
  "pp_add StaticMemoryPool_provider = StaticMemoryPool_add"
  "pp_free_element StaticMemoryPool_provider = StaticMemoryPool_free_element"
  "pp_modify StaticMemoryPool_provider = StaticMemoryPool_modify"
  "pp_read StaticMemoryPool_provider = StaticMemoryPool_read"
  "pp_delete StaticMemoryPool_provider = StaticMemoryPool_delete"
  "pp_has_element_at StaticMemoryPool_provider = StaticMemoryPool_has_element_at"
  "pp_len_of_data StaticMemoryPool_provider = StaticMemoryPool_len_of_data"
  by (simp_all add: StaticMemoryPool_provider_def)

lemma static_add_ok:
  assumes "pool_inv p" and "StaticMemoryPool_add p d = (Ok v, p')"
  shows "pool_inv p' \<and> canonical_addr v \<and> pool_content p v = None \<and>
    pool_content p' = (pool_content p)(v \<mapsto> d)"
proof -
  have wf: "wf_pool p" using assms by (simp add: pool_inv_def)
  from wf show ?thesis
  proof (cases rule: add_cases [where d = d])
    case (stored a)
    note r = reserved_content [OF assms(1) stored(2)]
    show ?thesis using content_put [OF assms(1) r(1,2), of "length d"] r stored(1) assms(2) by auto
  qed (use assms in simp)
qed

lemma static_free_element_ok:
  assumes "pool_inv p" and w: "\<And>b. length (w b) = length b"
    and "StaticMemoryPool_free_element p n w = (Ok v, p')"
  shows "pool_inv p' \<and> canonical_addr v \<and> pool_content p v = None \<and>
    (\<exists>b. length b = n \<and> pool_content p' = (pool_content p)(v \<mapsto> w b))"
proof -
  have wf: "wf_pool p" using assms by (simp add: pool_inv_def)
  from wf show ?thesis
  proof (cases rule: free_element_cases [where n = n and w = w])
    case (stored a)
    note r = reserved_content [OF assms(1) stored(2)]
    have "length (w (addr_block p a n)) = n" by (simp only: w stored(3))
    then show ?thesis
      using content_put [OF assms(1) r(1), of "w (addr_block p a n)" n] r stored assms(3)
      by (auto intro!: exI [of _ "addr_block p a n"])
  qed (use assms in simp)
qed

lemma static_modify_some:
  assumes "pool_inv p" and u: "\<And>b. length (u b) = length b" and "pool_content p v = Some d"
  shows "\<exists>p'. StaticMemoryPool_modify p v u = (Ok (), p') \<and> pool_inv p' \<and>
    pool_content p' = (pool_content p)(v \<mapsto> u d)"
proof -
  have wf: "wf_pool p" using assms by (simp add: pool_inv_def)
  from content_SomeD [OF this assms(3)] obtain a where a: "StaticPoolAddr_from v = a"
    "PoolAddr_from a = v" "addr_slot p a" "slot_size p a \<noteq> STORE_FREE"
    "d = addr_block p a (slot_size p a)" "slot_size p a = length d" "length d \<le> addr_block_size p a"
    by blast
  have "StaticMemoryPool_modify p v u = (Ok (), put_addr p a (length d) (u d))"
    using modify_valid [OF wf a(1,3,4), of u] a(5) [symmetric] a(6) by simp
  moreover have "length (u d) \<le> addr_block_size p a" using a(7) u by simp
  ultimately show ?thesis
    using content_put [OF assms(1) a(3), of "u d" "length d"] u [of d] a(2,4,6) by auto
qed

lemma static_delete_some:
  assumes "pool_inv p" and "pool_content p v = Some d"
  shows "\<exists>p'. StaticMemoryPool_delete p v = (Ok (), p') \<and> pool_inv p' \<and>
    pool_content p' = (pool_content p)(v := None)"
proof -
  have wf: "wf_pool p" using assms by (simp add: pool_inv_def)
  from content_SomeD [OF this assms(2)] obtain a where a: "StaticPoolAddr_from v = a"
    "PoolAddr_from a = v" "addr_slot p a" "slot_size p a \<noteq> STORE_FREE"
    by blast
  then show ?thesis
    using delete_valid [OF wf a(1,3,4)]
      content_put [OF assms(1) a(3), of "replicate (addr_block_size p a) 0" STORE_FREE] by auto
qed

lemma static_read_some:
  assumes "pool_inv p" and "pool_content p v = Some d"
  shows "StaticMemoryPool_read p v buf =
    (if length d \<le> length buf then (Ok (length d), d @ drop (length d) buf)
     else (Err (PoolByteConversionError (ToSliceTooSmall (length buf) (length d))), buf))"
proof -
  have wf: "wf_pool p" using assms by (simp add: pool_inv_def)
  from content_SomeD [OF this assms(2)] obtain a where a: "StaticPoolAddr_from v = a"
    "addr_slot p a" "slot_size p a \<noteq> STORE_FREE" "d = addr_block p a (slot_size p a)"
    by blast
  then show ?thesis using read_valid [OF wf a(1-3), of buf] by (simp add: Let_def)
qed

lemma static_query:
  assumes "pool_inv p"
  shows "addr_slot p (StaticPoolAddr_from v) \<Longrightarrow> canonical_addr v \<Longrightarrow>
      StaticMemoryPool_has_element_at p v = Ok (pool_content p v \<noteq> None) \<and>
      StaticMemoryPool_len_of_data p v =
        Ok (case pool_content p v of None \<Rightarrow> 0 | Some d \<Rightarrow> length d)"
    and "\<not> addr_slot p (StaticPoolAddr_from v) \<Longrightarrow> pool_content p v = None \<and>
      (\<exists>e. StaticMemoryPool_has_element_at p v = Err e \<and> StaticMemoryPool_len_of_data p v = Err e)"
proof -
  let ?a = "StaticPoolAddr_from v"
  have wf: "wf_pool p" using assms by (simp add: pool_inv_def)
  show "StaticMemoryPool_has_element_at p v = Ok (pool_content p v \<noteq> None) \<and>
      StaticMemoryPool_len_of_data p v = Ok (case pool_content p v of None \<Rightarrow> 0 | Some d \<Rightarrow> length d)"
    if a: "addr_slot p ?a" and c: "canonical_addr v"
    using wf_slot [OF wf a] a c
    by (auto simp: StaticMemoryPool_has_element_at_def StaticMemoryPool_len_of_data_def
        validate_addr_valid pool_content_def slot_content_def Let_def)
  show "pool_content p v = None \<and>
      (\<exists>e. StaticMemoryPool_has_element_at p v = Err e \<and> StaticMemoryPool_len_of_data p v = Err e)"
    if a: "\<not> addr_slot p ?a"
    using validate_addr_invalid [OF a] a
    by (auto simp: StaticMemoryPool_has_element_at_def StaticMemoryPool_len_of_data_def
        pool_content_def slot_content_def)
qed

interpretation static_pool: pool_provider StaticMemoryPool_provider pool_inv pool_content canonical_addr
proof (unfold_locales, goal_cases)
  case (1 p a d)
  then show ?case by (simp add: pool_content_def split: if_splits)
next
  case (2 p d a p')
  then show ?case using static_add_ok by simp
next
  case (3 p d r p')
  then have "wf_pool p" by (simp add: pool_inv_def)
  then show ?case by (rule add_cases [where d = d]) (use 3 in auto)
next
  case (4 p w n a p')
  then show ?case using static_free_element_ok [OF 4(1,2)] by simp
next
  case (5 p n w r p')
  then have "wf_pool p" by (simp add: pool_inv_def)
  then show ?case by (rule free_element_cases [where n = n and w = w]) (use 5 in auto)
next
  case (6 p u a d)
  then show ?case using static_modify_some [OF 6(1,2)] by simp
next
  case (7 p a u)
  then show ?case using addr_check_None [of p a]
    by (auto simp: StaticMemoryPool_modify_def pool_inv_def)
next
  case (8 p a d)
  then show ?case using static_delete_some by simp
next
  case (9 p a)
  then show ?case using addr_check_None [of p a]
    by (auto simp: StaticMemoryPool_delete_def pool_inv_def Let_def)
next
  case (10 p a d buf)
  then show ?case using static_read_some by simp
next
  case (11 p a buf)
  then show ?case using addr_check_None [of p a]
    by (auto simp: StaticMemoryPool_read_def pool_inv_def)
next
  case (12 p a d)
  then show ?case using static_query [of p a] by (auto simp: pool_content_def split: if_splits)
next
  case (13 p a)
  then show ?case using static_query [of p a] by fastforce
next
  case (14 p a)
  then show ?case using static_query [of p a] by fastforce
qed

subsection \<open>Construction\<close>

lemma push_subpools_spec:
  assumes "\<forall>c \<in> set cs. unat (num_blocks c) * block_size c \<le> ISIZE_MAX"
  shows "push_subpools cs p = Ok (p\<lparr>
    pool := pool p @ map (\<lambda>c. replicate (unat (num_blocks c) * block_size c) 0) cs,
    sizes_lists := sizes_lists p @ map (\<lambda>c. replicate (unat (num_blocks c)) STORE_FREE) cs\<rparr>)"
  using assms by (induction cs arbitrary: p) (auto simp: Let_def)

lemma push_subpools_panic:
  "\<exists>c \<in> set cs. unat (num_blocks c) * block_size c > ISIZE_MAX \<Longrightarrow> push_subpools cs p = Panic"
  by (induction cs arbitrary: p) (auto simp: Let_def)

lemma fresh_subpool_ok:
  "num_blocks c > 0 \<Longrightarrow> block_size c < MAX_BLOCK_SIZE \<Longrightarrow>
   subpool_ok c (replicate (unat (num_blocks c) * block_size c) 0)
     (replicate (unat (num_blocks c)) STORE_FREE)"
  by (auto simp: subpool_ok_def)

lemma sanitize_set:
  assumes "unstable_sort srt"
  shows "set (cfg (snd (StaticPoolConfig_sanitize srt c))) =
      {s \<in> set (cfg c). num_blocks s > 0 \<and> block_size s < MAX_BLOCK_SIZE}"
    and "length (cfg (snd (StaticPoolConfig_sanitize srt c))) =
      length (filter (\<lambda>s. num_blocks s > 0 \<and> block_size s < MAX_BLOCK_SIZE) (cfg c))"
    and "sorted (map block_size (cfg (snd (StaticPoolConfig_sanitize srt c))))"
proof -
  let ?r = "filter (\<lambda>s. num_blocks s > 0 \<and> block_size s < MAX_BLOCK_SIZE) (cfg c)"
  have m: "mset (srt ?r) = mset ?r" and s: "sorted (map block_size (srt ?r))"
    using assms unfolding unstable_sort_def by blast+
  show "set (cfg (snd (StaticPoolConfig_sanitize srt c))) =
      {s \<in> set (cfg c). num_blocks s > 0 \<and> block_size s < MAX_BLOCK_SIZE}"
    using mset_eq_setD [OF m] by (auto simp: StaticPoolConfig_sanitize_def Let_def)
  show "length (cfg (snd (StaticPoolConfig_sanitize srt c))) = length ?r"
    using mset_eq_length [OF m] by (simp add: StaticPoolConfig_sanitize_def Let_def)
  show "sorted (map block_size (cfg (snd (StaticPoolConfig_sanitize srt c))))"
    using s by (simp add: StaticPoolConfig_sanitize_def Let_def)
qed

lemma new_spec:
  fixes c :: StaticPoolConfig and srt
  assumes srt: "unstable_sort srt"
    and len: "length (cfg c) \<le> 65535"
    and alloc: "\<forall>s \<in> set (cfg c). unat (num_blocks s) * block_size s \<le> ISIZE_MAX"
  obtains p where "StaticMemoryPool_new srt c = Ok p" "wf_pool p"
    "pool_cfg p = snd (StaticPoolConfig_sanitize srt c)"
    "\<forall>i j. slot_content p i j = None"
proof -
  let ?c = "snd (StaticPoolConfig_sanitize srt c)"
  note san = sanitize_set [OF srt, of c]
  define p where "p = \<lparr>pool_cfg = ?c,
    pool = map (\<lambda>s. replicate (unat (num_blocks s) * block_size s) 0) (cfg ?c),
    sizes_lists = map (\<lambda>s. replicate (unat (num_blocks s)) STORE_FREE) (cfg ?c)\<rparr>"
  have "\<forall>s \<in> set (cfg ?c). unat (num_blocks s) * block_size s \<le> ISIZE_MAX"
    using san(1) alloc by simp
  then have "StaticMemoryPool_new srt c = Ok p"
    by (simp add: StaticMemoryPool_new_def case_prod_beta p_def push_subpools_spec)
  moreover have "wf_pool p"
    using san le_trans [OF length_filter_le len] fresh_subpool_ok nth_mem [of _ "cfg ?c"]
    by (auto simp: wf_pool_def p_def Let_def)
  moreover have "\<forall>i j. slot_content p i j = None"
    by (auto simp: slot_content_def valid_slot_def p_def)
  ultimately show ?thesis using that [of p] by (simp add: p_def)
qed

subsection \<open>Panic freedom\<close>

lemma addr_check_total: "wf_pool p \<Longrightarrow> addr_check p a \<noteq> Panic"
  using addr_check_valid [of p a] addr_check_invalid [of p a] by (cases "addr_slot p a") auto

lemma addr_check_Ok:
  assumes "wf_pool p" and "addr_check p a = Ok n"
  shows "addr_slot p a" "slot_size p a \<noteq> STORE_FREE" "n = slot_size p a"
  using assms addr_check_invalid [of p a] addr_check_valid [of p a]
  by (cases "addr_slot p a"; fastforce split: if_splits)+

subsection \<open>Properties\<close>

text \<open>
  Building a pool from a configuration whose subpools fit an allocation succeeds for every
  (unstable) sort of the configuration. The new pool satisfies the invariant, its subpools are the
  non-empty ones of the configuration ordered by block size, and it holds no data.
\<close>

lemma static_pool_new:
  assumes "unstable_sort srt"
    and "length (cfg c) \<le> 256"
    and "\<forall>s \<in> set (cfg c). unat (num_blocks s) \<le> 256 \<and> unat (num_blocks s) * block_size s \<le> ISIZE_MAX"
  shows "\<exists>p. (StaticMemoryPool_new srt c :: ('e, StaticMemoryPool) res) = Ok p \<and> pool_inv p \<and> pool_content p = Map.empty \<and>
    set (cfg (pool_cfg p)) = {s \<in> set (cfg c). num_blocks s > 0 \<and> block_size s < MAX_BLOCK_SIZE} \<and>
    sorted (map block_size (cfg (pool_cfg p)))"
proof -
  obtain p where p: "(StaticMemoryPool_new srt c :: ('e, StaticMemoryPool) res) = Ok p" "wf_pool p"
    "pool_cfg p = snd (StaticPoolConfig_sanitize srt c)" "\<forall>i j. slot_content p i j = None"
    by (rule new_spec [OF assms(1), of c]) (use assms(2,3) in auto)
  have "addressable p"
    using assms(2,3) sanitize_set [OF assms(1), of c] le_trans [OF length_filter_le assms(2)]
    by (simp add: addressable_def p(3))
  then show ?thesis
    using p sanitize_set [OF assms(1), of c]
    by (auto simp: pool_inv_def pool_content_def intro!: exI [of _ p])
qed

text \<open>
  C6: data that was added is read back byte for byte under the returned address, the address was
  unused before, and every other element of the pool is untouched.
\<close>

theorem static_pool_add_read:
  assumes "pool_inv p" and "StaticMemoryPool_add p d = (Ok a, p')"
  shows "pool_inv p' \<and> pool_content p a = None \<and>
    PoolProvider_read_as_vec StaticMemoryPool_provider p' a = Ok d \<and>
    StaticMemoryPool_len_of_data p' a = Ok (length d) \<and>
    (\<forall>b. b \<noteq> a \<longrightarrow> pool_content p' b = pool_content p b)"
  using static_add_ok [OF assms] static_pool.read_as_vec_some [of p' a d]
    static_pool.len_some [of p' a d] by auto

text \<open>
  C4: which slot an addition takes. It is the first free slot of a subpool whose blocks are large
  enough, and every smaller-indexed subpool is too small or, when spilling is enabled, full; the pool
  changes in that slot only. An addition fails only if no subpool has large enough blocks
  (DataTooLarge), or if the best-fitting subpool is full and, when spilling is enabled, all larger
  ones are full as well (StoreFull), and then nothing changes. It never panics.
\<close>

theorem static_pool_add_best_fit:
  assumes "wf_pool p"
  shows "(\<exists>a. StaticMemoryPool_add p d = (Ok (PoolAddr_from a), put_addr p a (length d) d) \<and>
      reserved p (length d) a) \<or>
    (\<exists>e. StaticMemoryPool_add p d = (Err e, p) \<and> no_room p (length d) e)"
  using assms by (rule add_cases [where d = d]) blast+

text \<open>
  Deleting an element frees its slot and zeroes the whole block, and leaves the rest of the pool
  alone. Afterwards the address reads as absent and a second deletion is rejected.
\<close>

lemma static_pool_delete:
  assumes "pool_inv p" and "pool_content p v = Some d"
  shows "\<exists>p'. StaticMemoryPool_delete p v = (Ok (), p') \<and> pool_inv p' \<and>
    pool_content p' = (pool_content p)(v := None) \<and>
    addr_block p' (StaticPoolAddr_from v) (addr_block_size p (StaticPoolAddr_from v)) =
      replicate (addr_block_size p (StaticPoolAddr_from v)) 0 \<and>
    StaticMemoryPool_has_element_at p' v = Ok False \<and>
    StaticMemoryPool_delete p' v = (Err (DataDoesNotExist v), p')"
proof -
  have wf: "wf_pool p" using assms by (simp add: pool_inv_def)
  from content_SomeD [OF wf assms(2)] obtain a where a: "StaticPoolAddr_from v = a"
    "PoolAddr_from a = v" "addr_slot p a" "slot_size p a \<noteq> STORE_FREE" by blast
  define p' where "p' = put_addr p a STORE_FREE (replicate (addr_block_size p a) 0)"
  note sl = wf_slot [OF wf a(3)]
  have c: "pool_inv p'" "pool_content p' = (pool_content p)(v := None)"
    using content_put [OF assms(1) a(3), of "replicate (addr_block_size p a) 0" STORE_FREE] a(2)
    by (simp_all add: p'_def)
  have slot: "addr_slot p' a" "slot_size p' a = STORE_FREE" "canonical_addr v"
    using sl a by (simp_all add: p'_def canonical_addr_def) (simp add: put_slot_def)
  have zero: "addr_block p' a (addr_block_size p a) = replicate (addr_block_size p a) 0"
    using sl window_overwrite_prefix [of _ "replicate (addr_block_size p a) (0 :: u8)"]
    by (simp add: p'_def) (simp add: put_slot_def)
  have "addr_check p' a = Err (DataDoesNotExist v)"
    using addr_check_valid [OF _ slot(1)] c(1) slot(2) a(2) by (simp add: pool_inv_def)
  then have "StaticMemoryPool_delete p' v = (Err (DataDoesNotExist v), p')"
    by (simp add: StaticMemoryPool_delete_def a(1) Let_def)
  moreover have "StaticMemoryPool_has_element_at p' v = Ok False"
    using static_query(1) [OF c(1), of v] slot a(1) c(2) by simp
  ultimately show ?thesis
    using delete_valid [OF wf a(1,3,4)] c zero a(1) by (auto simp: p'_def)
qed

text \<open>
  C2: the pool implements its specification, a partial map from addresses to data. For every sequence
  of additions, in-place writes, modifications and deletions, the results are those the specification
  allows, the final content is the specification's, no operation panics and the invariant holds at
  the end.
\<close>

theorem static_pool_refines_map:
  assumes "pool_inv p" and "\<forall>op \<in> set os. op_ok canonical_addr op"
    and "provider_run StaticMemoryPool_provider p os = (rs, p')"
  shows "pool_inv p' \<and> map_run (pool_content p) os rs (pool_content p') \<and> Panic \<notin> set rs"
  using static_pool.run_refines [OF assms] map_run_no_panic by blast

text \<open>
  No address makes an operation of a well-formed pool panic, whether or not the pool has handed
  it out, as long as closures keep the length of their block.
\<close>

lemma static_pool_no_panic:
  assumes "wf_pool p"
  shows "fst (StaticMemoryPool_add p d) \<noteq> Panic \<and> fst (StaticMemoryPool_free_element p n u) \<noteq> Panic \<and>
    fst (StaticMemoryPool_modify p v u) \<noteq> Panic \<and> fst (StaticMemoryPool_delete p v) \<noteq> Panic \<and>
    fst (StaticMemoryPool_read p v buf) \<noteq> Panic \<and> StaticMemoryPool_has_element_at p v \<noteq> Panic \<and>
    StaticMemoryPool_len_of_data p v \<noteq> Panic"
proof -
  let ?a = "StaticPoolAddr_from v"
  have add: "fst (StaticMemoryPool_add p d) \<noteq> Panic"
    by (rule add_cases [OF assms, of d]) auto
  have free: "fst (StaticMemoryPool_free_element p n u) \<noteq> Panic"
    by (rule free_element_cases [OF assms, of n u]) auto
  have q: "StaticMemoryPool_has_element_at p v \<noteq> Panic \<and> StaticMemoryPool_len_of_data p v \<noteq> Panic"
    using validate_addr_invalid [of p ?a] validate_addr_valid [of p ?a] wf_slot [OF assms]
    by (cases "addr_slot p ?a")
      (auto simp: StaticMemoryPool_has_element_at_def StaticMemoryPool_len_of_data_def Let_def)
  show ?thesis
  proof (cases "addr_check p ?a")
    case (Ok sz)
    note a = addr_check_Ok [OF assms Ok]
    show ?thesis
      using add free q modify_valid [OF assms refl a(1,2), of u] delete_valid [OF assms refl a(1,2)]
        read_valid [OF assms refl a(1,2), of buf] by (simp add: Let_def)
  qed (use add free q addr_check_total [OF assms] in
      \<open>simp_all add: StaticMemoryPool_modify_def StaticMemoryPool_delete_def
         StaticMemoryPool_read_def Let_def\<close>)
qed

text \<open>
  An address is only looked at through the low eight bits of its two indices. Reading or deleting
  under the address of block 256 or above, or of subpool 256 or above, acts on the block the masked
  indices select, which is another block of the pool.
\<close>

lemma static_pool_addr_alias:
  "StaticMemoryPool_read p (PoolAddr_from a) buf =
     StaticMemoryPool_read p (PoolAddr_from
       \<lparr>pool_idx = pool_idx a AND 0xff, packet_idx = packet_idx a AND 0xff\<rparr>) buf \<and>
   StaticMemoryPool_delete p (PoolAddr_from a) =
     StaticMemoryPool_delete p (PoolAddr_from
       \<lparr>pool_idx = pool_idx a AND 0xff, packet_idx = packet_idx a AND 0xff\<rparr>) \<and>
   (\<not> (unat (pool_idx a) < 256 \<and> unat (packet_idx a) < 256) \<longleftrightarrow>
     PoolAddr_from \<lparr>pool_idx = pool_idx a AND 0xff, packet_idx = packet_idx a AND 0xff\<rparr> \<noteq> PoolAddr_from a)"
proof -
  let ?m = "\<lparr>pool_idx = pool_idx a AND 0xff, packet_idx = packet_idx a AND 0xff\<rparr>"
  have dec: "StaticPoolAddr_from (PoolAddr_from a) = ?m" "StaticPoolAddr_from (PoolAddr_from ?m) = ?m"
    by (simp_all add: StaticPoolAddr_from_PoolAddr_from ac_simps)
  have "?m = a \<longleftrightarrow> unat (pool_idx a) < 256 \<and> unat (packet_idx a) < 256"
    by (cases a) (simp add: mask8_u16)
  moreover have "PoolAddr_from ?m = PoolAddr_from a \<longleftrightarrow> ?m = a" using PoolAddr_from_inj by metis
  ultimately show ?thesis
    by (simp add: StaticMemoryPool_read_def StaticMemoryPool_delete_def dec)
qed

definition demo_pool :: StaticMemoryPool where
  "demo_pool =
     \<lparr>pool_cfg = \<lparr>cfg = [\<lparr>num_blocks = 1, block_size = 2\<rparr>, \<lparr>num_blocks = 1, block_size = 3\<rparr>],
        spill_to_higher_subpools = True\<rparr>,
      pool = [[5, 6], [0, 0, 0]], sizes_lists = [[2], [STORE_FREE]]\<rparr>"

definition demo_pool_added :: StaticMemoryPool where
  "demo_pool_added = demo_pool\<lparr>pool := [[5, 6], [7, 0, 0]], sizes_lists := [[2], [1]]\<rparr>"

lemma demo_pool_inv: "pool_inv demo_pool" "wf_pool demo_pool"
  by (simp_all add: pool_inv_def wf_pool_def addressable_def demo_pool_def subpool_ok_def Let_def
      MAX_BLOCK_SIZE_def STORE_FREE_def All_less_Suc)

lemmas pool_eval =
  StaticMemoryPool_add_def reserve_def find_subpool_def find_empty_def get_def raw_pos_def
  StaticMemoryPool_write_def copy_into_def overwrite_def STORE_FREE_def MAX_BLOCK_SIZE_def
  spill_loop.simps PoolAddr_from_def Let_def index_def

lemma demo_pool_add: "StaticMemoryPool_add demo_pool [7] = (Ok 0x10000, demo_pool_added)"
  by (simp add: pool_eval demo_pool_def demo_pool_added_def)

lemma demo_pool_content: "pool_content demo_pool 0 = Some [5, 6]"
  by (simp add: pool_content_def canonical_addr_def StaticPoolAddr_from_def PoolAddr_from_def
      slot_content_def valid_slot_def slot_pos_def demo_pool_def STORE_FREE_def)

theorem static_pool_add_read_witness:
  "\<exists>p'. StaticMemoryPool_add demo_pool [7] = (Ok 0x10000, p') \<and>
     PoolProvider_read_as_vec StaticMemoryPool_provider p' 0x10000 = Ok [7]"
  using static_pool_add_read [OF demo_pool_inv(1) demo_pool_add] demo_pool_add by blast

theorem static_pool_add_best_fit_witness:
  "\<exists>a. StaticMemoryPool_add demo_pool [7] = (Ok (PoolAddr_from a), put_addr demo_pool a 1 [7]) \<and>
     reserved demo_pool 1 a"
  using static_pool_add_best_fit [OF demo_pool_inv(2), of "[7]"] demo_pool_add by simp

theorem static_pool_refines_map_witness:
  "\<exists>rs p'. provider_run StaticMemoryPool_provider demo_pool [OpAdd [7], OpDelete 0] = (rs, p') \<and>
     map_run (pool_content demo_pool) [OpAdd [7], OpDelete 0] rs (pool_content p')"
proof -
  obtain rs p' where "provider_run StaticMemoryPool_provider demo_pool [OpAdd [7], OpDelete 0] = (rs, p')"
    by fastforce
  moreover have "canonical_addr 0"
    by (simp add: canonical_addr_def StaticPoolAddr_from_def PoolAddr_from_def)
  ultimately show ?thesis
    using static_pool_refines_map [OF demo_pool_inv(1), of "[OpAdd [7], OpDelete 0]" rs p']
    by (auto simp: op_ok_def)
qed

end
