(* ===== verification/Heapless_Pool.thy ===== *)
theory Heapless_Pool
  imports Static_Pool
begin

text \<open>
  The allocation-free memory pool of \<^verbatim>\<open>satrs/src/pool.rs\<close> (module \<^verbatim>\<open>heapless_mod\<close>), which is grown
  with user-provided static memory. Its operations are translated from their own code; that they
  behave as those of \<^verbatim>\<open>Static_Pool\<close> on the pool \<open>as_static\<close> is proved, and gives the second
  interpretation of \<open>pool_provider\<close>.
\<close>

subsection \<open>State and growing\<close>

record StaticHeaplessMemoryPool =
  hl_pool :: "(SubpoolConfig \<times> u8 list) list"
  hl_sizes_lists :: "nat list list"
  hl_spill_to_higher_subpools :: bool

datatype PoolIsFull = PoolIsFull

definition StaticHeaplessMemoryPool_new :: "bool \<Rightarrow> StaticHeaplessMemoryPool" where
  "StaticHeaplessMemoryPool_new spill =
     \<lparr>hl_pool = [], hl_sizes_lists = [], hl_spill_to_higher_subpools = spill\<rparr>"

text \<open>
  \<^verbatim>\<open>heapless::Vec::push\<close> is a parameter: it appends, or hands the element back when the capacity is
  reached.
\<close>

definition bounded_push :: "nat \<Rightarrow> ('a list \<Rightarrow> 'a \<Rightarrow> 'a list option) \<Rightarrow> bool" where
  "bounded_push cap push \<longleftrightarrow>
     (\<forall>xs x. push xs x = (if length xs < cap then Some (xs @ [x]) else None))"

definition StaticHeaplessMemoryPool_grow ::
    "((SubpoolConfig \<times> u8 list) list \<Rightarrow> SubpoolConfig \<times> u8 list \<Rightarrow> (SubpoolConfig \<times> u8 list) list option) \<Rightarrow>
     (nat list list \<Rightarrow> nat list \<Rightarrow> nat list list option) \<Rightarrow>
     StaticHeaplessMemoryPool \<Rightarrow> u8 list \<Rightarrow> nat list \<Rightarrow> NumBlocks \<Rightarrow> bool \<Rightarrow>
     (PoolIsFull, unit) res \<times> StaticHeaplessMemoryPool" where
  "StaticHeaplessMemoryPool_grow push_pool push_sizes h subpool_memory szs nblocks set_all_free =
     (if unat nblocks = 0 then (Panic, h)
      else if length subpool_memory mod unat nblocks \<noteq> 0 then (Panic, h)
      else if unat nblocks \<noteq> length szs then (Panic, h)
      else
        (let subpool_config =
           \<lparr>num_blocks = nblocks, block_size = length subpool_memory div unat nblocks\<rparr>
         in res_try (opt_ok_or (push_pool (hl_pool h) (subpool_config, subpool_memory)) PoolIsFull) h
              (\<lambda>pool'.
              let h1 = h\<lparr>hl_pool := pool'\<rparr>;
                  szs1 = (if set_all_free then replicate (length szs) STORE_FREE else szs)
              in res_try (opt_ok_or (push_sizes (hl_sizes_lists h1) szs1) PoolIsFull) h1
                   (\<lambda>sizes'. (Ok (), h1\<lparr>hl_sizes_lists := sizes'\<rparr>)))))"

subsection \<open>Private helpers\<close>

definition hl_validate_addr ::
    "StaticHeaplessMemoryPool \<Rightarrow> StaticPoolAddr \<Rightarrow> (PoolError, unit) res" where
  "hl_validate_addr h addr =
     (let i = unat (pool_idx addr)
      in if i \<ge> length (hl_pool h) then
           Err (InvalidStoreId (InvalidSubpool (pool_idx addr)) (Some (PoolAddr_from addr)))
         else if packet_idx addr \<ge> num_blocks (fst (hl_pool h ! i)) then
           Err (InvalidStoreId (InvalidPacketIdx (packet_idx addr)) (Some (PoolAddr_from addr)))
         else Ok ())"

definition hl_addr_check ::
    "StaticHeaplessMemoryPool \<Rightarrow> StaticPoolAddr \<Rightarrow> (PoolError, nat) res" where
  "hl_addr_check h addr =
     res_bind (hl_validate_addr h addr) (\<lambda>_.
     res_bind (opt_unwrap (get (hl_sizes_lists h) (unat (pool_idx addr)))) (\<lambda>szs.
     res_bind (index szs (unat (packet_idx addr))) (\<lambda>curr_size.
       if curr_size = STORE_FREE then Err (DataDoesNotExist (PoolAddr_from addr))
       else Ok curr_size)))"

fun hl_find_subpool_from ::
    "nat \<Rightarrow> (SubpoolConfig \<times> u8 list) list \<Rightarrow> nat \<Rightarrow> u16 \<Rightarrow> (PoolError, u16) res" where
  "hl_find_subpool_from i [] req_size start_at = Err (DataTooLarge req_size)"
| "hl_find_subpool_from i ((c, mem) # ps) req_size start_at =
     (if i < unat start_at then hl_find_subpool_from (Suc i) ps req_size start_at
      else if block_size c \<ge> req_size then Ok (of_nat i)
      else hl_find_subpool_from (Suc i) ps req_size start_at)"

definition hl_find_subpool ::
    "StaticHeaplessMemoryPool \<Rightarrow> nat \<Rightarrow> u16 \<Rightarrow> (PoolError, u16) res" where
  "hl_find_subpool h req_size start_at = hl_find_subpool_from 0 (hl_pool h) req_size start_at"

definition hl_find_empty :: "StaticHeaplessMemoryPool \<Rightarrow> u16 \<Rightarrow> (PoolError, u16 \<times> nat) res" where
  "hl_find_empty h subpool =
     (case get (hl_sizes_lists h) (unat subpool) of
        Some szs \<Rightarrow>
          (case free_slot_from 0 szs of
             Some i \<Rightarrow> Ok (of_nat i, i)
           | None \<Rightarrow> Err (StoreFull subpool))
      | None \<Rightarrow> Err (InvalidStoreId (InvalidSubpool subpool) None))"

function hl_spill_loop :: "StaticHeaplessMemoryPool \<Rightarrow> u16 \<Rightarrow> (PoolError, u16) res" where
  "hl_spill_loop h subpool_idx =
     (case hl_find_empty h subpool_idx of
        Err (StoreFull _) \<Rightarrow>
          (if unat subpool_idx = 65535 then Panic
           else if unat (subpool_idx + 1) = length (hl_sizes_lists h) then Err (StoreFull subpool_idx)
           else hl_spill_loop h (subpool_idx + 1))
      | _ \<Rightarrow> Ok subpool_idx)"
  by pat_completeness auto

termination
proof (relation "measure (\<lambda>(h, i). 65535 - unat i)", goal_cases)
  case (2 h i e n)
  then show ?case using unat_u16_lt [of i] by (simp add: unat_Suc_u16)
qed simp

declare hl_spill_loop.simps [simp del]

definition hl_reserve ::
    "StaticHeaplessMemoryPool \<Rightarrow> nat \<Rightarrow> (PoolError, StaticPoolAddr) res \<times> StaticHeaplessMemoryPool"
  where
  "hl_reserve h data_len =
     (if hl_pool h = [] then (Err NoCapacity, h)
      else
        res_try (hl_find_subpool h data_len 0) h (\<lambda>subpool_idx0.
        res_try (if hl_spill_to_higher_subpools h then hl_spill_loop h subpool_idx0
                 else Ok subpool_idx0) h (\<lambda>subpool_idx.
        res_try (hl_find_empty h subpool_idx) h (\<lambda>(slot, ref).
          (Ok \<lparr>pool_idx = subpool_idx, packet_idx = slot\<rparr>,
           h\<lparr>hl_sizes_lists := (hl_sizes_lists h)
               [unat subpool_idx := (hl_sizes_lists h ! unat subpool_idx)[ref := data_len]]\<rparr>)))))"

definition hl_raw_pos :: "StaticHeaplessMemoryPool \<Rightarrow> StaticPoolAddr \<Rightarrow> nat option" where
  "hl_raw_pos h addr =
     map_option (\<lambda>(c, mem). unat (packet_idx addr) * block_size c)
       (get (hl_pool h) (unat (pool_idx addr)))"

definition hl_write ::
    "StaticHeaplessMemoryPool \<Rightarrow> StaticPoolAddr \<Rightarrow> bytes \<Rightarrow>
     (PoolError, unit) res \<times> StaticHeaplessMemoryPool" where
  "hl_write h addr data =
     res_try (opt_ok_or (hl_raw_pos h addr) (InternalError 0)) h (\<lambda>packet_pos.
     res_try (opt_ok_or (get (hl_pool h) (unat (pool_idx addr))) (InternalError 1)) h
       (\<lambda>(c, subpool).
     res_try (copy_into packet_pos data subpool) h (\<lambda>subpool'.
       (Ok (), h\<lparr>hl_pool := (hl_pool h)[unat (pool_idx addr) := (c, subpool')]\<rparr>))))"

definition hl_with_block ::
    "StaticHeaplessMemoryPool \<Rightarrow> StaticPoolAddr \<Rightarrow> nat \<Rightarrow> (bytes \<Rightarrow> bytes) \<Rightarrow>
     (PoolError, unit) res \<times> StaticHeaplessMemoryPool" where
  "hl_with_block h addr len f =
     res_try (opt_unwrap (hl_raw_pos h addr)) h (\<lambda>pos.
     res_try (opt_unwrap (get (hl_pool h) (unat (pool_idx addr)))) h (\<lambda>(c, subpool).
     res_try (slice pos (pos + len) subpool) h (\<lambda>block.
       (Ok (), h\<lparr>hl_pool :=
          (hl_pool h)[unat (pool_idx addr) := (c, overwrite pos (f block) subpool)]\<rparr>))))"

subsection \<open>Provider operations\<close>

definition StaticHeaplessMemoryPool_add ::
    "StaticHeaplessMemoryPool \<Rightarrow> bytes \<Rightarrow> (PoolError, PoolAddr) res \<times> StaticHeaplessMemoryPool" where
  "StaticHeaplessMemoryPool_add h data =
     (let data_len = length data
      in if data_len > MAX_BLOCK_SIZE then (Err (DataTooLarge data_len), h)
         else (let (r, h1) = hl_reserve h data_len
               in res_try r h1 (\<lambda>addr.
                    let (r2, h2) = hl_write h1 addr data
                    in res_try r2 h2 (\<lambda>_. (Ok (PoolAddr_from addr), h2)))))"

definition StaticHeaplessMemoryPool_free_element ::
    "StaticHeaplessMemoryPool \<Rightarrow> nat \<Rightarrow> (bytes \<Rightarrow> bytes) \<Rightarrow>
     (PoolError, PoolAddr) res \<times> StaticHeaplessMemoryPool" where
  "StaticHeaplessMemoryPool_free_element h len writer =
     (if len > MAX_BLOCK_SIZE then (Err (DataTooLarge len), h)
      else (let (r, h1) = hl_reserve h len
            in res_try r h1 (\<lambda>addr.
                 let (r2, h2) = hl_with_block h1 addr len writer
                 in res_try r2 h2 (\<lambda>_. (Ok (PoolAddr_from addr), h2)))))"

definition StaticHeaplessMemoryPool_modify ::
    "StaticHeaplessMemoryPool \<Rightarrow> PoolAddr \<Rightarrow> (bytes \<Rightarrow> bytes) \<Rightarrow>
     (PoolError, unit) res \<times> StaticHeaplessMemoryPool" where
  "StaticHeaplessMemoryPool_modify h raw_addr updater =
     (let addr = StaticPoolAddr_from raw_addr
      in res_try (hl_addr_check h addr) h (\<lambda>curr_size. hl_with_block h addr curr_size updater))"

definition StaticHeaplessMemoryPool_read ::
    "StaticHeaplessMemoryPool \<Rightarrow> PoolAddr \<Rightarrow> bytes \<Rightarrow> (PoolError, nat) res \<times> bytes" where
  "StaticHeaplessMemoryPool_read h raw_addr buf =
     (let addr = StaticPoolAddr_from raw_addr
      in res_try (hl_addr_check h addr) buf (\<lambda>curr_size.
         if length buf < curr_size then
           (Err (PoolByteConversionError (ToSliceTooSmall (length buf) curr_size)), buf)
         else
           res_try (opt_unwrap (hl_raw_pos h addr)) buf (\<lambda>pos.
           res_try (opt_unwrap (get (hl_pool h) (unat (pool_idx addr)))) buf (\<lambda>(c, subpool).
           res_try (slice pos (pos + curr_size) subpool) buf (\<lambda>block.
             (Ok curr_size, overwrite 0 block buf))))))"

definition StaticHeaplessMemoryPool_delete ::
    "StaticHeaplessMemoryPool \<Rightarrow> PoolAddr \<Rightarrow> (PoolError, unit) res \<times> StaticHeaplessMemoryPool" where
  "StaticHeaplessMemoryPool_delete h raw_addr =
     (let addr = StaticPoolAddr_from raw_addr; i = unat (pool_idx addr)
      in res_try (hl_addr_check h addr) h (\<lambda>_.
         res_try (opt_unwrap (get (hl_pool h) i)) h (\<lambda>(c, mem).
         res_try (opt_unwrap (get (hl_sizes_lists h) i)) h (\<lambda>szs.
         res_try (index szs (unat (packet_idx addr))) h (\<lambda>_.
           let h1 = h\<lparr>hl_sizes_lists :=
                 (hl_sizes_lists h)[i := szs[unat (packet_idx addr) := STORE_FREE]]\<rparr>
           in hl_with_block h1 addr (block_size c) (\<lambda>block. replicate (length block) 0))))))"

definition StaticHeaplessMemoryPool_has_element_at ::
    "StaticHeaplessMemoryPool \<Rightarrow> PoolAddr \<Rightarrow> (PoolError, bool) res" where
  "StaticHeaplessMemoryPool_has_element_at h raw_addr =
     (let addr = StaticPoolAddr_from raw_addr
      in res_bind (hl_validate_addr h addr) (\<lambda>_.
         res_bind (opt_unwrap (get (hl_sizes_lists h) (unat (pool_idx addr)))) (\<lambda>szs.
         res_bind (index szs (unat (packet_idx addr))) (\<lambda>curr_size.
           if curr_size = STORE_FREE then Ok False else Ok True))))"

definition StaticHeaplessMemoryPool_len_of_data ::
    "StaticHeaplessMemoryPool \<Rightarrow> PoolAddr \<Rightarrow> (PoolError, nat) res" where
  "StaticHeaplessMemoryPool_len_of_data h raw_addr =
     (let addr = StaticPoolAddr_from raw_addr
      in res_bind (hl_validate_addr h addr) (\<lambda>_.
         res_bind (opt_unwrap (get (hl_sizes_lists h) (unat (pool_idx addr)))) (\<lambda>szs.
         res_bind (index szs (unat (packet_idx addr))) (\<lambda>size.
           if size = STORE_FREE then Ok 0 else Ok size))))"

definition StaticHeaplessMemoryPool_provider :: "StaticHeaplessMemoryPool PoolProvider" where
  "StaticHeaplessMemoryPool_provider =
     \<lparr>pp_add = StaticHeaplessMemoryPool_add, pp_free_element = StaticHeaplessMemoryPool_free_element,
      pp_modify = StaticHeaplessMemoryPool_modify, pp_read = StaticHeaplessMemoryPool_read,
      pp_delete = StaticHeaplessMemoryPool_delete,
      pp_has_element_at = StaticHeaplessMemoryPool_has_element_at,
      pp_len_of_data = StaticHeaplessMemoryPool_len_of_data\<rparr>"

subsection \<open>Correspondence with the heap-allocated pool\<close>

definition as_static :: "StaticHeaplessMemoryPool \<Rightarrow> StaticMemoryPool" where
  "as_static h =
     \<lparr>pool_cfg = \<lparr>cfg = map fst (hl_pool h),
        spill_to_higher_subpools = hl_spill_to_higher_subpools h\<rparr>,
      pool = map snd (hl_pool h), sizes_lists = hl_sizes_lists h\<rparr>"

lemma apsnd_res_try [simp]:
  "apsnd f (res_try r s g) = res_try r (f s) (\<lambda>x. apsnd f (g x))"
  by (cases r) auto

lemma res_try_map_option_unwrap:
  "res_try (opt_unwrap (map_option f z)) s g = res_try (opt_unwrap z) s (\<lambda>x. g (f x))"
  "res_try (opt_ok_or (map_option f z) e) s g = res_try (opt_ok_or z e) s (\<lambda>x. g (f x))"
  by (cases z; simp)+

lemma as_static_sel [simp]:
  "cfg (pool_cfg (as_static h)) = map fst (hl_pool h)"
  "spill_to_higher_subpools (pool_cfg (as_static h)) = hl_spill_to_higher_subpools h"
  "pool (as_static h) = map snd (hl_pool h)"
  "sizes_lists (as_static h) = hl_sizes_lists h"
  by (simp_all add: as_static_def)

lemma as_static_sizes [simp]:
  "as_static (h\<lparr>hl_sizes_lists := s\<rparr>) = (as_static h)\<lparr>sizes_lists := s\<rparr>"
  by (simp add: as_static_def)

lemma as_static_pool_update:
  "i < length (hl_pool h) \<Longrightarrow>
   as_static (h\<lparr>hl_pool := (hl_pool h)[i := (fst (hl_pool h ! i), m)]\<rparr>) =
     (as_static h)\<lparr>pool := (pool (as_static h))[i := m]\<rparr>"
  by (simp add: as_static_def map_update list_update_same_conv)

lemma hl_find_subpool_from_eq:
  "hl_find_subpool_from i ps n s = find_subpool_from i (map fst ps) n s"
  by (induction i ps n s rule: hl_find_subpool_from.induct) auto

lemma hl_helpers_eq:
  "hl_validate_addr h a = validate_addr (as_static h) a"
  "hl_addr_check h a = addr_check (as_static h) a"
  "hl_find_subpool h n s = find_subpool (as_static h) n s"
  "hl_find_empty h s = find_empty (as_static h) s"
  "hl_raw_pos h a = raw_pos (as_static h) a"
  by (auto simp: hl_validate_addr_def validate_addr_def hl_addr_check_def addr_check_def
      hl_find_subpool_def find_subpool_def hl_find_empty_def find_empty_def hl_raw_pos_def
      raw_pos_def hl_find_subpool_from_eq get_def Let_def split_beta)

lemma hl_spill_loop_eq: "hl_spill_loop h s = spill_loop (as_static h) s"
  by (induction h s rule: hl_spill_loop.induct)
    (subst hl_spill_loop.simps, subst spill_loop.simps,
      auto simp: hl_helpers_eq split: res.splits PoolError.splits)

lemma hl_reserve_eq:
  "hl_pool h \<noteq> [] \<Longrightarrow> apsnd as_static (hl_reserve h n) = reserve (as_static h) n"
  by (simp add: hl_reserve_def reserve_def hl_helpers_eq hl_spill_loop_eq case_prod_unfold
      cong: if_cong)

lemma hl_write_eq: "apsnd as_static (hl_write h a d) = StaticMemoryPool_write (as_static h) a d"
  by (cases "unat (pool_idx a) < length (hl_pool h)")
    (auto simp: hl_write_def StaticMemoryPool_write_def hl_helpers_eq split_beta
      as_static_pool_update raw_pos_def get_def)

lemma hl_with_block_eq:
  "apsnd as_static (hl_with_block h a n f) = with_block (as_static h) a n f"
  by (cases "unat (pool_idx a) < length (hl_pool h)")
    (auto simp: hl_with_block_def with_block_def hl_helpers_eq split_beta
      as_static_pool_update raw_pos_def get_def)

lemma apsnd_eqD: "apsnd f (a, b) = (c, d) \<Longrightarrow> a = c \<and> f b = d"
  by simp

lemma hl_reserve_wb:
  assumes "hl_pool h \<noteq> []" and "hl_reserve h n = (r, h1)"
  shows "reserve (as_static h) n = (r, as_static h1)"
  using hl_reserve_eq [OF assms(1), of n] assms(2) by simp

lemma hl_add_eq:
  assumes "hl_pool h \<noteq> []"
  shows "apsnd as_static (StaticHeaplessMemoryPool_add h d) = StaticMemoryPool_add (as_static h) d"
proof -
  obtain r h1 where r: "hl_reserve h (length d) = (r, h1)" by fastforce
  note r' = hl_reserve_wb [OF assms r]
  have "apsnd as_static (let (r2, h2) = hl_write h1 a d in res_try r2 h2 (\<lambda>_. (Ok (PoolAddr_from a), h2))) =
      (let (r2, p2) = StaticMemoryPool_write (as_static h1) a d
       in res_try r2 p2 (\<lambda>_. (Ok (PoolAddr_from a), p2)))" for a
    unfolding hl_write_eq [symmetric] by (simp add: Let_def split_beta)
  then show ?thesis
    by (simp add: StaticHeaplessMemoryPool_add_def StaticMemoryPool_add_def r r' Let_def)
qed

lemma hl_free_element_eq:
  assumes "hl_pool h \<noteq> []"
  shows "apsnd as_static (StaticHeaplessMemoryPool_free_element h n w) =
    StaticMemoryPool_free_element (as_static h) n w"
proof -
  obtain r h1 where r: "hl_reserve h n = (r, h1)" by fastforce
  note r' = hl_reserve_wb [OF assms r]
  have "apsnd as_static (let (r2, h2) = hl_with_block h1 a n w in res_try r2 h2 (\<lambda>_. (Ok (PoolAddr_from a), h2))) =
      (let (r2, p2) = with_block (as_static h1) a n w
       in res_try r2 p2 (\<lambda>_. (Ok (PoolAddr_from a), p2)))" for a
    unfolding hl_with_block_eq [symmetric] by (simp add: Let_def split_beta)
  then show ?thesis
    by (simp add: StaticHeaplessMemoryPool_free_element_def StaticMemoryPool_free_element_def r r' Let_def)
qed

lemma hl_modify_eq:
  "apsnd as_static (StaticHeaplessMemoryPool_modify h v u) = StaticMemoryPool_modify (as_static h) v u"
  by (simp add: StaticHeaplessMemoryPool_modify_def StaticMemoryPool_modify_def hl_helpers_eq
      hl_with_block_eq Let_def)

lemma hl_delete_eq:
  "apsnd as_static (StaticHeaplessMemoryPool_delete h v) = StaticMemoryPool_delete (as_static h) v"
  by (simp add: StaticHeaplessMemoryPool_delete_def StaticMemoryPool_delete_def hl_helpers_eq
      hl_with_block_eq res_try_map_option_unwrap Let_def case_prod_unfold)

lemma hl_read_eq:
  "StaticHeaplessMemoryPool_read h v buf = StaticMemoryPool_read (as_static h) v buf"
  by (simp add: StaticHeaplessMemoryPool_read_def StaticMemoryPool_read_def hl_helpers_eq
      res_try_map_option_unwrap Let_def case_prod_unfold cong: if_cong)

lemma hl_query_eq:
  "StaticHeaplessMemoryPool_has_element_at h v = StaticMemoryPool_has_element_at (as_static h) v"
  "StaticHeaplessMemoryPool_len_of_data h v = StaticMemoryPool_len_of_data (as_static h) v"
  by (simp_all add: StaticHeaplessMemoryPool_has_element_at_def StaticMemoryPool_has_element_at_def
      StaticHeaplessMemoryPool_len_of_data_def StaticMemoryPool_len_of_data_def hl_helpers_eq)

subsection \<open>The contract\<close>

definition hl_inv :: "StaticHeaplessMemoryPool \<Rightarrow> bool" where
  "hl_inv h \<longleftrightarrow> pool_inv (as_static h)"

definition hl_content :: "StaticHeaplessMemoryPool \<Rightarrow> PoolAddr \<Rightarrow> bytes option" where
  "hl_content h = pool_content (as_static h)"

lemma hl_reserve_empty: "hl_pool h = [] \<Longrightarrow> hl_reserve h n = (Err NoCapacity, h)"
  by (simp add: hl_reserve_def)

lemma hl_provider_sel [simp]:
  "pp_add StaticHeaplessMemoryPool_provider = StaticHeaplessMemoryPool_add"
  "pp_free_element StaticHeaplessMemoryPool_provider = StaticHeaplessMemoryPool_free_element"
  "pp_modify StaticHeaplessMemoryPool_provider = StaticHeaplessMemoryPool_modify"
  "pp_read StaticHeaplessMemoryPool_provider = StaticHeaplessMemoryPool_read"
  "pp_delete StaticHeaplessMemoryPool_provider = StaticHeaplessMemoryPool_delete"
  "pp_has_element_at StaticHeaplessMemoryPool_provider = StaticHeaplessMemoryPool_has_element_at"
  "pp_len_of_data StaticHeaplessMemoryPool_provider = StaticHeaplessMemoryPool_len_of_data"
  by (simp_all add: StaticHeaplessMemoryPool_provider_def)

lemma as_static_inj: "as_static h = as_static h' \<Longrightarrow> h = h'"
  by (cases h, cases h') (auto simp: as_static_def intro: pair_list_eqI)

lemma hl_add_empty: "hl_pool h = [] \<Longrightarrow> \<exists>e. StaticHeaplessMemoryPool_add h d = (Err e, h)"
  by (simp add: StaticHeaplessMemoryPool_add_def hl_reserve_empty Let_def)

lemma hl_free_element_empty:
  "hl_pool h = [] \<Longrightarrow> \<exists>e. StaticHeaplessMemoryPool_free_element h n w = (Err e, h)"
  by (simp add: StaticHeaplessMemoryPool_free_element_def hl_reserve_empty)

lemma hl_add_transfer:
  "hl_pool h \<noteq> [] \<Longrightarrow> StaticHeaplessMemoryPool_add h d = (r, h') \<Longrightarrow>
   StaticMemoryPool_add (as_static h) d = (r, as_static h')"
  using hl_add_eq [of h d] by simp

lemma hl_free_element_transfer:
  "hl_pool h \<noteq> [] \<Longrightarrow> StaticHeaplessMemoryPool_free_element h n w = (r, h') \<Longrightarrow>
   StaticMemoryPool_free_element (as_static h) n w = (r, as_static h')"
  using hl_free_element_eq [of h n w] by simp

lemma hl_modify_transfer:
  "StaticMemoryPool_modify (as_static h) v u = (r, p) \<Longrightarrow>
   \<exists>h'. StaticHeaplessMemoryPool_modify h v u = (r, h') \<and> as_static h' = p"
  using hl_modify_eq [of h v u] by (cases "StaticHeaplessMemoryPool_modify h v u") simp

lemma hl_delete_transfer:
  "StaticMemoryPool_delete (as_static h) v = (r, p) \<Longrightarrow>
   \<exists>h'. StaticHeaplessMemoryPool_delete h v = (r, h') \<and> as_static h' = p"
  using hl_delete_eq [of h v] by (cases "StaticHeaplessMemoryPool_delete h v") simp

interpretation heapless_pool:
  pool_provider StaticHeaplessMemoryPool_provider hl_inv hl_content canonical_addr
proof (unfold_locales, goal_cases)
  case (1 p a d)
  then show ?case using static_pool.content_issued by (simp add: hl_content_def)
next
  case (2 h d a h')
  then have "hl_pool h \<noteq> []" using hl_add_empty [of h d] by auto
  from hl_add_transfer [OF this] 2 show ?case
    using static_pool.add_ok [of "as_static h" d a "as_static h'"] by (simp add: hl_inv_def hl_content_def)
next
  case (3 h d r h')
  show ?case
  proof (cases "hl_pool h = []")
    case True
    then show ?thesis using hl_add_empty [OF True, of d] 3 by auto
  next
    case False
    from hl_add_transfer [OF False] 3 show ?thesis
      using static_pool.add_fail [of "as_static h" d r "as_static h'"] as_static_inj
      by (auto simp: hl_inv_def)
  qed
next
  case (4 h w n a h')
  then have "hl_pool h \<noteq> []" using hl_free_element_empty [of h n w] by auto
  from hl_free_element_transfer [OF this] 4 show ?case
    using static_pool.free_element_ok [OF _ 4(2), of "as_static h" n a "as_static h'"]
    by (simp add: hl_inv_def hl_content_def)
next
  case (5 h n w r h')
  show ?case
  proof (cases "hl_pool h = []")
    case True
    then show ?thesis using hl_free_element_empty [OF True, of n w] 5 by auto
  next
    case False
    from hl_free_element_transfer [OF False] 5 show ?thesis
      using static_pool.free_element_fail [of "as_static h" n w r "as_static h'"] as_static_inj
      by (auto simp: hl_inv_def)
  qed
next
  case (6 h u a d)
  then show ?case using static_pool.modify_some [OF _ 6(2), of "as_static h" a d]
    by (auto simp: hl_inv_def hl_content_def dest!: hl_modify_transfer)
next
  case (7 h a u)
  then show ?case using static_pool.modify_none [of "as_static h" a u] as_static_inj
    by (auto simp: hl_inv_def hl_content_def dest!: hl_modify_transfer)
next
  case (8 h a d)
  then show ?case using static_pool.delete_some [of "as_static h" a d]
    by (auto simp: hl_inv_def hl_content_def dest!: hl_delete_transfer)
next
  case (9 h a)
  then show ?case using static_pool.delete_none [of "as_static h" a] as_static_inj
    by (auto simp: hl_inv_def hl_content_def dest!: hl_delete_transfer)
next
  case (10 h a d buf)
  then show ?case using static_pool.read_some [of "as_static h" a d buf]
    by (simp add: hl_inv_def hl_content_def hl_read_eq)
next
  case (11 h a buf)
  then show ?case using static_pool.read_none [of "as_static h" a buf]
    by (simp add: hl_inv_def hl_content_def hl_read_eq)
next
  case (12 h a d)
  then show ?case using static_pool.len_some [of "as_static h" a d]
    by (simp add: hl_inv_def hl_content_def hl_query_eq)
next
  case (13 h a)
  then show ?case using static_pool.len_none [of "as_static h" a]
    by (simp add: hl_inv_def hl_content_def hl_query_eq)
next
  case (14 h a)
  then show ?case using static_pool.has_element [of "as_static h" a]
    by (simp add: hl_inv_def hl_content_def hl_query_eq)
qed

subsection \<open>Properties\<close>

text \<open>
  Growing a heapless pool by a subpool whose blocks are at least as large as all existing ones
  keeps the pool invariant and all stored data, and does not fail while there is capacity left.
\<close>

lemma heapless_pool_grow:
  assumes push: "bounded_push cap push_pool" "bounded_push cap push_sizes"
    and inv: "hl_inv h" and cap: "length (hl_pool h) < cap" "length (hl_pool h) < 256"
    and mem: "length mem = unat nblocks * bs" "bs < MAX_BLOCK_SIZE"
    and nb: "nblocks > 0" "unat nblocks \<le> 256"
    and szs: "length szs = unat nblocks" "all_free \<or> szs = replicate (unat nblocks) STORE_FREE"
    and ord: "\<forall>c \<in> set (map fst (hl_pool h)). block_size c \<le> bs"
  shows "\<exists>h'. StaticHeaplessMemoryPool_grow push_pool push_sizes h mem szs nblocks all_free = (Ok (), h') \<and>
    hl_inv h' \<and> hl_content h' = hl_content h"
proof -
  let ?c = "\<lparr>num_blocks = nblocks, block_size = bs\<rparr>"
  define h' where "h' = h\<lparr>hl_pool := hl_pool h @ [(?c, mem)],
    hl_sizes_lists := hl_sizes_lists h @ [replicate (unat nblocks) STORE_FREE]\<rparr>"
  have wf: "wf_pool (as_static h)" and ad: "addressable (as_static h)"
    using inv by (auto simp: hl_inv_def pool_inv_def)
  have len: "length (hl_sizes_lists h) = length (hl_pool h)" using wf by (simp add: wf_pool_def)
  have nz: "unat nblocks \<noteq> 0" using nb(1) by (simp add: word_gt_0 unat_eq_0)
  have "length mem div unat nblocks = bs" using mem(1) nz by simp
  then have grow: "StaticHeaplessMemoryPool_grow push_pool push_sizes h mem szs nblocks all_free = (Ok (), h')"
    using push cap mem(1) nz szs len
    by (auto simp: StaticHeaplessMemoryPool_grow_def bounded_push_def Let_def h'_def)
  have sub: "subpool_ok ?c mem (replicate (unat nblocks) STORE_FREE)"
    using mem nb by (auto simp: subpool_ok_def)
  have wf': "wf_pool (as_static h')"
    using wf sub cap ord
    by (auto simp: wf_pool_def h'_def Let_def nth_append sorted_append less_Suc_eq)
  moreover have "addressable (as_static h')"
    using ad cap nb by (auto simp: addressable_def h'_def)
  moreover have "slot_content (as_static h') i j = slot_content (as_static h) i j" for i j
    using len by (auto simp: slot_content_def valid_slot_def slot_pos_def h'_def nth_append less_Suc_eq)
  ultimately show ?thesis using grow
    by (auto simp: hl_inv_def pool_inv_def hl_content_def pool_content_def fun_eq_iff)
qed

lemma grow_appends:
  assumes "bounded_push cap push_pool"
    and "StaticHeaplessMemoryPool_grow push_pool push_sizes h mem szs nblocks all_free = (Ok (), h')"
  shows "hl_pool h' = hl_pool h @ [(\<lparr>num_blocks = nblocks, block_size = length mem div unat nblocks\<rparr>, mem)]"
proof -
  have "push_pool xs x = (if length xs < cap then Some (xs @ [x]) else None)" for xs x
    using assms(1) unfolding bounded_push_def by blast
  then show ?thesis using assms(2)
    by (cases "push_sizes (hl_sizes_lists h) (if all_free then replicate (length szs) STORE_FREE else szs)")
      (auto simp: StaticHeaplessMemoryPool_grow_def Let_def split: if_splits)
qed

definition push_upto :: "nat \<Rightarrow> 'a list \<Rightarrow> 'a \<Rightarrow> 'a list option" where
  "push_upto cap xs x = (if length xs < cap then Some (xs @ [x]) else None)"

lemma bounded_push_upto: "bounded_push cap (push_upto cap)"
  by (simp add: bounded_push_def push_upto_def)

lemma new_hl_inv: "hl_inv (StaticHeaplessMemoryPool_new spill)"
  by (simp add: hl_inv_def pool_inv_def wf_pool_def addressable_def StaticHeaplessMemoryPool_new_def)

lemma new_hl_pool [simp]: "hl_pool (StaticHeaplessMemoryPool_new spill) = []"
  by (simp add: StaticHeaplessMemoryPool_new_def)

lemma new_hl_content: "hl_content (StaticHeaplessMemoryPool_new spill) = Map.empty"
  by (auto simp: hl_content_def pool_content_def slot_content_def valid_slot_def fun_eq_iff
      StaticHeaplessMemoryPool_new_def)

text \<open>
  A pool is set up by a sequence of calls of \<^verbatim>\<open>grow\<close>, which ends at the first call that fails. The
  growths that give a usable pool come in ascending order of block size, each with between 1 and 256
  blocks, memory for exactly these blocks and a sizes list that is free or set free; \<^verbatim>\<open>grow\<close> itself
  checks neither the order nor the limit of 256.
\<close>

type_synonym growth = "u8 list \<times> nat list \<times> NumBlocks \<times> bool"

fun grow_all ::
    "((SubpoolConfig \<times> u8 list) list \<Rightarrow> SubpoolConfig \<times> u8 list \<Rightarrow> (SubpoolConfig \<times> u8 list) list option) \<Rightarrow>
     (nat list list \<Rightarrow> nat list \<Rightarrow> nat list list option) \<Rightarrow>
     StaticHeaplessMemoryPool \<Rightarrow> growth list \<Rightarrow> (PoolIsFull, unit) res \<times> StaticHeaplessMemoryPool" where
  "grow_all push_pool push_sizes h [] = (Ok (), h)"
| "grow_all push_pool push_sizes h ((mem, szs, nblocks, all_free) # gs) =
     (let (r, h1) = StaticHeaplessMemoryPool_grow push_pool push_sizes h mem szs nblocks all_free
      in res_try r h1 (\<lambda>_. grow_all push_pool push_sizes h1 gs))"

fun growth_bs :: "growth \<Rightarrow> nat" where
  "growth_bs (mem, szs, nblocks, all_free) = length mem div unat nblocks"

fun growth_ok :: "growth \<Rightarrow> bool" where
  "growth_ok (mem, szs, nblocks, all_free) \<longleftrightarrow>
     0 < nblocks \<and> unat nblocks \<le> 256 \<and> length mem mod unat nblocks = 0 \<and>
     length mem div unat nblocks < MAX_BLOCK_SIZE \<and> length szs = unat nblocks \<and>
     (all_free \<or> szs = replicate (unat nblocks) STORE_FREE)"

definition ascending_growths :: "growth list \<Rightarrow> bool" where
  "ascending_growths gs \<longleftrightarrow>
     length gs \<le> 256 \<and> list_all growth_ok gs \<and> sorted (map growth_bs gs)"

lemma grow_all_ascending:
  assumes "bounded_push cap push_pool" "bounded_push cap push_sizes"
  shows "hl_inv h \<Longrightarrow> length (hl_pool h) + length gs \<le> cap \<Longrightarrow> length (hl_pool h) + length gs \<le> 256 \<Longrightarrow>
    list_all growth_ok gs \<Longrightarrow> sorted (map (\<lambda>p. block_size (fst p)) (hl_pool h) @ map growth_bs gs) \<Longrightarrow>
    \<exists>h'. grow_all push_pool push_sizes h gs = (Ok (), h') \<and> hl_inv h' \<and> hl_content h' = hl_content h"
proof (induction gs arbitrary: h)
  case (Cons g gs)
  obtain mem szs n free where g: "g = (mem, szs, n, free)" by (cases g) auto
  have ok: "growth_ok g" and gs: "list_all growth_ok gs" using Cons.prems(4) by auto
  have mem: "length mem = unat n * growth_bs g" using ok by (auto simp: g)
  have ord: "\<forall>c \<in> set (map fst (hl_pool h)). block_size c \<le> growth_bs g"
    using Cons.prems(5) by (auto simp: sorted_append)
  have "length (hl_pool h) < cap" "length (hl_pool h) < 256" using Cons.prems(2,3) by simp_all
  moreover have "growth_bs g < MAX_BLOCK_SIZE" "n > 0" "unat n \<le> 256" "length szs = unat n"
    "free \<or> szs = replicate (unat n) STORE_FREE" using ok unfolding g growth_ok.simps growth_bs.simps
    by blast+
  ultimately obtain h1 where
    h1: "StaticHeaplessMemoryPool_grow push_pool push_sizes h mem szs n free = (Ok (), h1)"
      "hl_inv h1" "hl_content h1 = hl_content h"
    using heapless_pool_grow [OF assms Cons.prems(1) _ _ mem _ _ _ _ _ ord, of szs free] by blast
  have hp: "hl_pool h1 = hl_pool h @ [(\<lparr>num_blocks = n, block_size = growth_bs g\<rparr>, mem)]"
    using grow_appends [OF assms(1) h1(1)] by (simp add: g)
  from Cons.IH [OF h1(2) _ _ gs] Cons.prems(2,3,5) hp
  obtain h' where "grow_all push_pool push_sizes h1 gs = (Ok (), h')" "hl_inv h'"
    "hl_content h' = hl_content h1" by auto
  then show ?case using h1 hp by (simp add: g)
qed simp

lemma hl_add_cases:
  assumes "hl_inv h"
  shows "(\<exists>a h'. StaticHeaplessMemoryPool_add h d = (Ok (PoolAddr_from a), h') \<and>
       reserved (as_static h) (length d) a) \<or>
    (\<exists>e. StaticHeaplessMemoryPool_add h d = (Err e, h) \<and>
       (hl_pool h = [] \<or> no_room (as_static h) (length d) e))"
proof (cases "hl_pool h = []")
  case True
  then show ?thesis using hl_add_empty by blast
next
  case False
  obtain r h' where r: "StaticHeaplessMemoryPool_add h d = (r, h')" by fastforce
  have st: "StaticMemoryPool_add (as_static h) d = (r, as_static h')" by (rule hl_add_transfer [OF False r])
  have wf: "wf_pool (as_static h)" using assms by (simp add: hl_inv_def pool_inv_def)
  show ?thesis
  proof (cases rule: add_cases [OF wf, where d = d])
    case (1 a)
    then have "r = Ok (PoolAddr_from a)" using st by simp
    then show ?thesis using 1(2) r by blast
  next
    case (2 e)
    then have "r = Err e" "h' = h" using st as_static_inj [of h' h] by simp_all
    then show ?thesis using 2(2) r by blast
  qed
qed

text \<open>
  C12: a heapless pool that was grown in ascending order of block size implements the same
  specification as the heap-allocated one. The growths succeed while the capacity lasts and give an
  empty pool. From there, for every sequence of operations, the results and the final content are those
  of the partial-map specification, and nothing panics. After any such sequence an addition takes the
  best-fitting free slot, and fails only when no subpool that could hold the data has one.
\<close>

theorem heapless_pool_refines_map:
  assumes "bounded_push cap push_pool" and "bounded_push cap push_sizes"
    and "ascending_growths gs" and "length gs \<le> cap"
  shows "\<exists>h. grow_all push_pool push_sizes (StaticHeaplessMemoryPool_new spill) gs = (Ok (), h) \<and>
    (\<forall>os rs h'. list_all (op_ok canonical_addr) os \<longrightarrow>
       provider_run StaticHeaplessMemoryPool_provider h os = (rs, h') \<longrightarrow>
       map_run Map.empty os rs (hl_content h') \<and> Panic \<notin> set rs \<and>
       (\<forall>d. (\<exists>a h2. StaticHeaplessMemoryPool_add h' d = (Ok (PoolAddr_from a), h2) \<and>
               reserved (as_static h') (length d) a) \<or>
            (\<exists>e. StaticHeaplessMemoryPool_add h' d = (Err e, h') \<and>
               (hl_pool h' = [] \<or> no_room (as_static h') (length d) e))))"
proof -
  obtain h where h: "grow_all push_pool push_sizes (StaticHeaplessMemoryPool_new spill) gs = (Ok (), h)"
    "hl_inv h" "hl_content h = Map.empty"
    using grow_all_ascending [OF assms(1,2) new_hl_inv [of spill], of gs] assms(3,4)
    by (auto simp: ascending_growths_def new_hl_content)
  have "map_run Map.empty os rs (hl_content h') \<and> Panic \<notin> set rs \<and> hl_inv h'"
    if "list_all (op_ok canonical_addr) os" "provider_run StaticHeaplessMemoryPool_provider h os = (rs, h')"
    for os rs h'
    using heapless_pool.run_refines [OF h(2) _ that(2)] that(1) h(3) map_run_no_panic
    by (auto simp: list_all_iff)
  then show ?thesis using h(1) hl_add_cases by blast
qed

text \<open>Two subpools, of two 2-byte blocks and of one 4-byte block.\<close>

definition demo_growths :: "growth list" where
  "demo_growths = [([0, 0, 0, 0], [0, 0], 2, True), ([0, 0, 0, 0], [0], 1, True)]"

definition demo_grown_pool :: StaticHeaplessMemoryPool where
  "demo_grown_pool =
     \<lparr>hl_pool = [(\<lparr>num_blocks = 2, block_size = 2\<rparr>, [0, 0, 0, 0]),
                 (\<lparr>num_blocks = 1, block_size = 4\<rparr>, [0, 0, 0, 0])],
      hl_sizes_lists = [[STORE_FREE, STORE_FREE], [STORE_FREE]],
      hl_spill_to_higher_subpools = True\<rparr>"

lemmas hl_eval =
  hl_reserve_def hl_find_subpool_def hl_find_empty_def get_def index_def hl_raw_pos_def hl_write_def
  hl_with_block_def hl_addr_check_def hl_validate_addr_def copy_into_def slice_def overwrite_def
  STORE_FREE_def MAX_BLOCK_SIZE_def hl_spill_loop.simps PoolAddr_from_def StaticPoolAddr_from_def
  StaticHeaplessMemoryPool_add_def StaticHeaplessMemoryPool_delete_def
  StaticHeaplessMemoryPool_len_of_data_def StaticHeaplessMemoryPool_read_def
  provider_exec_def PoolProvider_read_as_vec_def Let_def

lemmas hl_grow_eval =
  StaticHeaplessMemoryPool_grow_def StaticHeaplessMemoryPool_new_def push_upto_def STORE_FREE_def
  MAX_BLOCK_SIZE_def Let_def

lemma demo_growths_ok: "ascending_growths demo_growths"
  by (simp add: ascending_growths_def demo_growths_def MAX_BLOCK_SIZE_def STORE_FREE_def)

lemma demo_grown:
  "grow_all (push_upto 2) (push_upto 2) (StaticHeaplessMemoryPool_new True) demo_growths =
     (Ok (), demo_grown_pool)"
  by (simp add: demo_growths_def demo_grown_pool_def hl_grow_eval)

theorem heapless_pool_refines_map_witness:
  "\<exists>rs h'. provider_run StaticHeaplessMemoryPool_provider demo_grown_pool
       [OpAdd [1, 2], OpAdd [3], OpAdd [4, 5], OpDelete 0x1, OpAdd [6, 7, 8]] = (rs, h') \<and>
     rs = [Ok (Some 0), Ok (Some 0x1), Ok (Some 0x10000), Ok None, Err (StoreFull 1)] \<and>
     map_run Map.empty [OpAdd [1, 2], OpAdd [3], OpAdd [4, 5], OpDelete 0x1, OpAdd [6, 7, 8]] rs
       (hl_content h')"
proof -
  let ?os = "[OpAdd [1, 2], OpAdd [3], OpAdd [4, 5], OpDelete 0x1, OpAdd [6, 7, 8]]"
  let ?rs = "[Ok (Some 0), Ok (Some 0x1), Ok (Some 0x10000), Ok None, Err (StoreFull 1)]"
  have ok: "list_all (op_ok canonical_addr) ?os"
    by (simp add: op_ok_def canonical_addr_def StaticPoolAddr_from_def PoolAddr_from_def)
  have "fst (provider_run StaticHeaplessMemoryPool_provider demo_grown_pool ?os) = ?rs"
    by (simp add: hl_eval demo_grown_pool_def word_le_nat_alt)
  then obtain h' where run: "provider_run StaticHeaplessMemoryPool_provider demo_grown_pool ?os = (?rs, h')"
    by (metis prod.collapse)
  have "length demo_growths \<le> 2" by (simp add: demo_growths_def)
  from heapless_pool_refines_map [OF bounded_push_upto bounded_push_upto demo_growths_ok this, of True]
  have "map_run Map.empty ?os ?rs (hl_content h')"
    unfolding demo_grown prod.inject using ok run by blast
  then show ?thesis using run by blast
qed



subsection \<open>Growing in descending order\<close>

text \<open>A spilling pool of two subpools, by the state of each.\<close>

definition two_subpools ::
    "SubpoolConfig \<Rightarrow> u8 list \<Rightarrow> nat list \<Rightarrow> SubpoolConfig \<Rightarrow> u8 list \<Rightarrow> nat list \<Rightarrow>
     StaticHeaplessMemoryPool" where
  "two_subpools c0 m0 z0 c1 m1 z1 =
     \<lparr>hl_pool = [(c0, m0), (c1, m1)], hl_sizes_lists = [z0, z1], hl_spill_to_higher_subpools = True\<rparr>"

lemma add_first_subpool:
  assumes "free_slot_from 0 z0 = Some i" and "length d \<le> block_size c0" "block_size c0 < MAX_BLOCK_SIZE"
    and "i < 65536" "i * block_size c0 + length d \<le> length m0"
  shows "StaticHeaplessMemoryPool_add (two_subpools c0 m0 z0 c1 m1 z1) d =
    (Ok (PoolAddr_from \<lparr>pool_idx = 0, packet_idx = of_nat i\<rparr>),
     two_subpools c0 (overwrite (i * block_size c0) d m0) (z0[i := length d]) c1 m1 z1)"
  using assms
  by (simp add: two_subpools_def StaticHeaplessMemoryPool_add_def hl_reserve_def hl_find_subpool_def
      hl_spill_loop.simps hl_find_empty_def hl_write_def hl_raw_pos_def copy_into_def get_def
      unat_of_nat take_bit_nat_eq_self)

lemma add_spilled:
  assumes "free_slot_from 0 z0 = None" "free_slot_from 0 z1 = Some i"
    and "length d \<le> block_size c0" "block_size c0 < MAX_BLOCK_SIZE"
    and "i < 65536" "i * block_size c1 + length d \<le> length m1"
  shows "StaticHeaplessMemoryPool_add (two_subpools c0 m0 z0 c1 m1 z1) d =
    (Ok (PoolAddr_from \<lparr>pool_idx = 1, packet_idx = of_nat i\<rparr>),
     two_subpools c0 m0 z0 c1 (overwrite (i * block_size c1) d m1) (z1[i := length d]))"
  using assms
  by (simp add: two_subpools_def StaticHeaplessMemoryPool_add_def hl_reserve_def hl_find_subpool_def
      hl_spill_loop.simps hl_find_empty_def hl_write_def hl_raw_pos_def copy_into_def get_def
      unat_of_nat take_bit_nat_eq_self)

lemma free_slot_append:
  "STORE_FREE \<notin> set xs \<Longrightarrow> free_slot_from k (xs @ ys) = free_slot_from (k + length xs) ys"
  by (induction xs arbitrary: k) auto

lemma provider_run_append:
  "provider_run ops p (xs @ ys) =
     (let (rs, p1) = provider_run ops p xs; (rs', p2) = provider_run ops p1 ys in (rs @ rs', p2))"
  by (induction xs arbitrary: p) (auto simp: Let_def split: prod.splits)

lemma fill_first_subpool:
  assumes "block_size c0 < MAX_BLOCK_SIZE" "k + length ds < 65536"
  shows "\<forall>d \<in> set ds. length d \<le> block_size c0 \<Longrightarrow> STORE_FREE \<notin> set xs \<Longrightarrow> length xs = k \<Longrightarrow>
    length m0 = (k + length ds) * block_size c0 \<Longrightarrow>
    \<exists>m0' z0'. provider_run StaticHeaplessMemoryPool_provider
        (two_subpools c0 m0 (xs @ replicate (length ds) STORE_FREE) c1 m1 z1) (map OpAdd ds) =
      (map (\<lambda>i. Ok (Some (PoolAddr_from \<lparr>pool_idx = 0, packet_idx = of_nat i\<rparr>))) [k..<k + length ds],
       two_subpools c0 m0' z0' c1 m1 z1) \<and> STORE_FREE \<notin> set z0'"
  using assms(2)
proof (induction ds arbitrary: xs k m0)
  case (Cons d ds)
  let ?z = "xs @ replicate (length (d # ds)) STORE_FREE"
  have fr: "free_slot_from 0 ?z = Some k" using Cons.prems(2,3) by (simp add: free_slot_append)
  have d: "length d \<le> block_size c0" "length d \<noteq> STORE_FREE"
    using Cons.prems(1) assms(1) by (auto simp: MAX_BLOCK_SIZE_def)
  have pos: "k * block_size c0 + length d \<le> length m0"
    using d(1) Cons.prems(4) by (simp add: algebra_simps)
  have k: "k < 65536" using Cons.prems(5) by simp
  have z: "?z[k := length d] = (xs @ [length d]) @ replicate (length ds) STORE_FREE"
    using Cons.prems(3) by (simp add: list_update_append)
  note add = add_first_subpool [OF fr d(1) assms(1) k pos, of c1 m1 z1, unfolded z]
  obtain m0' z0' where run: "provider_run StaticHeaplessMemoryPool_provider
      (two_subpools c0 (overwrite (k * block_size c0) d m0)
        ((xs @ [length d]) @ replicate (length ds) STORE_FREE) c1 m1 z1) (map OpAdd ds) =
      (map (\<lambda>i. Ok (Some (PoolAddr_from \<lparr>pool_idx = 0, packet_idx = of_nat i\<rparr>))) [Suc k..<Suc k + length ds],
       two_subpools c0 m0' z0' c1 m1 z1)" "STORE_FREE \<notin> set z0'"
    using Cons.IH [of "xs @ [length d]" "Suc k" "overwrite (k * block_size c0) d m0"] Cons.prems d pos
    by auto
  have "[k..<k + length (d # ds)] = k # [Suc k..<Suc k + length ds]"
    by (simp add: upt_conv_Cons del: upt_Suc)
  then show ?case using run add
    by (intro exI [of _ m0'] exI [of _ z0']) (simp add: provider_exec_def del: upt_Suc)
qed auto

lemma read_second_subpool:
  assumes "z1 \<noteq> []" "z1 ! 0 \<noteq> STORE_FREE" "z1 ! 0 \<le> length m1" "num_blocks c1 > 0"
  shows "PoolProvider_read_as_vec StaticHeaplessMemoryPool_provider (two_subpools c0 m0 z0 c1 m1 z1)
    (PoolAddr_from \<lparr>pool_idx = 1, packet_idx = 0\<rparr>) = Ok (take (z1 ! 0) m1)"
proof -
  have [simp]: "StaticPoolAddr_from (PoolAddr_from \<lparr>pool_idx = 1, packet_idx = 0\<rparr>) = \<lparr>pool_idx = 1, packet_idx = 0\<rparr>"
    by (simp add: StaticPoolAddr_from_def PoolAddr_from_def)
  show ?thesis using assms
    by (simp add: PoolProvider_read_as_vec_def StaticHeaplessMemoryPool_len_of_data_def
        StaticHeaplessMemoryPool_read_def hl_addr_check_def hl_validate_addr_def hl_raw_pos_def two_subpools_def
        get_def index_def slice_def overwrite_def Let_def)
qed

lemma grow_two:
  assumes push: "bounded_push cap push_pool" "bounded_push cap push_sizes" "2 \<le> cap"
    and "length mem0 = unat n0 * bs0" "length mem1 = unat n1 * bs1"
    and "length szs0 = unat n0" "length szs1 = unat n1" "0 < unat n0" "0 < unat n1"
  shows "grow_all push_pool push_sizes (StaticHeaplessMemoryPool_new True)
      [(mem0, szs0, n0, True), (mem1, szs1, n1, True)] =
    (Ok (), two_subpools \<lparr>num_blocks = n0, block_size = bs0\<rparr> mem0 (replicate (unat n0) STORE_FREE)
       \<lparr>num_blocks = n1, block_size = bs1\<rparr> mem1 (replicate (unat n1) STORE_FREE))"
proof -
  have "push_pool xs x = (if length xs < cap then Some (xs @ [x]) else None)"
    "push_sizes ys y = (if length ys < cap then Some (ys @ [y]) else None)" for xs x ys y
    using push unfolding bounded_push_def by blast+
  then show ?thesis using assms(3-)
    by (simp add: StaticHeaplessMemoryPool_grow_def StaticHeaplessMemoryPool_new_def two_subpools_def Let_def)
qed

text \<open>
  C39: without the size order, spilling corrupts stored data. Take a spilling pool that is grown with
  larger blocks first. Once its first subpool is full, an element larger than the blocks of the second
  subpool is still accepted there, at its first block, and runs into the next block; the next element
  that is added goes to that block. Every addition is reported as successful, but the larger element
  reads back with the smaller one written over its tail.
\<close>

theorem heapless_spill_corrupts:
  assumes push: "bounded_push cap push_pool" "bounded_push cap push_sizes" "2 \<le> cap"
    and mem: "length mem0 = unat n0 * bs0" "length mem1 = unat n1 * bs1"
    and szs: "length szs0 = unat n0" "length szs1 = unat n1" "0 < unat n0" "2 \<le> unat n1"
    and bs: "bs1 < bs0" "bs0 < MAX_BLOCK_SIZE"
    and ds: "length ds = unat n0" "\<forall>d \<in> set ds. length d \<le> bs0"
    and big: "bs1 < length big" "length big \<le> bs0" "length big \<le> length mem1"
    and small: "length small \<le> bs1"
  shows "\<exists>h h'. grow_all push_pool push_sizes (StaticHeaplessMemoryPool_new True)
        [(mem0, szs0, n0, True), (mem1, szs1, n1, True)] = (Ok (), h) \<and>
    provider_run StaticHeaplessMemoryPool_provider h (map OpAdd (ds @ [big, small])) =
      (map (\<lambda>a. Ok (Some (PoolAddr_from a)))
         (map (\<lambda>i. \<lparr>pool_idx = 0, packet_idx = of_nat i\<rparr>) [0..<unat n0] @
          [\<lparr>pool_idx = 1, packet_idx = 0\<rparr>, \<lparr>pool_idx = 1, packet_idx = 1\<rparr>]), h') \<and>
    PoolProvider_read_as_vec StaticHeaplessMemoryPool_provider h'
        (PoolAddr_from \<lparr>pool_idx = 1, packet_idx = 0\<rparr>) =
      Ok (take (length big) (overwrite bs1 small big))"
proof -
  let ?c0 = "\<lparr>num_blocks = n0, block_size = bs0\<rparr>" and ?c1 = "\<lparr>num_blocks = n1, block_size = bs1\<rparr>"
  let ?z1 = "replicate (unat n1) STORE_FREE"
  let ?m1 = "overwrite 0 big mem1"
  let ?m1' = "overwrite bs1 small ?m1"
  obtain k where k: "unat n1 = Suc (Suc k)" using szs(4) by (metis Suc_le_D numeral_2_eq_2 Suc_le_mono)
  have grow: "grow_all push_pool push_sizes (StaticHeaplessMemoryPool_new True)
      [(mem0, szs0, n0, True), (mem1, szs1, n1, True)] =
    (Ok (), two_subpools ?c0 mem0 (replicate (unat n0) STORE_FREE) ?c1 mem1 ?z1)"
    using grow_two [OF push mem szs(1,2)] szs(3,4) by simp
  have "unat n0 < 65536" by (rule unat_u16_lt)
  with fill_first_subpool [of ?c0 0 ds "[]" mem0 ?c1 mem1 ?z1] ds mem(1) bs(2)
  obtain m0' z0' where fill: "provider_run StaticHeaplessMemoryPool_provider
      (two_subpools ?c0 mem0 (replicate (unat n0) STORE_FREE) ?c1 mem1 ?z1) (map OpAdd ds) =
      (map (\<lambda>i. Ok (Some (PoolAddr_from \<lparr>pool_idx = 0, packet_idx = of_nat i\<rparr>))) [0..<unat n0],
       two_subpools ?c0 m0' z0' ?c1 mem1 ?z1)" "STORE_FREE \<notin> set z0'" by auto
  have full: "free_slot_from 0 z0' = None" using free_slot_append [OF fill(2), of 0 "[]"] by simp
  have occ: "length big \<noteq> STORE_FREE" using big(2) bs(2) by (simp add: MAX_BLOCK_SIZE_def)
  have add1: "StaticHeaplessMemoryPool_add (two_subpools ?c0 m0' z0' ?c1 mem1 ?z1) big =
    (Ok (PoolAddr_from \<lparr>pool_idx = 1, packet_idx = 0\<rparr>), two_subpools ?c0 m0' z0' ?c1 ?m1 (?z1[0 := length big]))"
    using add_spilled [OF full, of ?z1 0 big ?c0 ?c1 mem1 m0'] big bs(2) k by simp
  have add2: "StaticHeaplessMemoryPool_add (two_subpools ?c0 m0' z0' ?c1 ?m1 (?z1[0 := length big])) small =
    (Ok (PoolAddr_from \<lparr>pool_idx = 1, packet_idx = 1\<rparr>),
     two_subpools ?c0 m0' z0' ?c1 ?m1' (?z1[0 := length big, 1 := length small]))"
    using add_spilled [OF full, of "?z1[0 := length big]" 1 small ?c0 ?c1 ?m1 m0'] big bs small k occ mem(2)
    by simp
  have "PoolProvider_read_as_vec StaticHeaplessMemoryPool_provider
      (two_subpools ?c0 m0' z0' ?c1 ?m1' (?z1[0 := length big, 1 := length small]))
      (PoolAddr_from \<lparr>pool_idx = 1, packet_idx = 0\<rparr>) = Ok (take (length big) ?m1')"
    using read_second_subpool [of "?z1[0 := length big, 1 := length small]" ?m1' ?c1] k occ big small mem(2)
    by (simp add: word_less_nat_alt)
  moreover have "take (length big) ?m1' = take (length big) (overwrite bs1 small big)"
    using big by (simp add: overwrite_def)
  ultimately show ?thesis using grow fill(1) add1 add2
    by (simp add: provider_run_append provider_exec_def comp_def)
qed

text \<open>One 4-byte block, then two 2-byte blocks.\<close>

theorem heapless_spill_corrupts_witness:
  "\<exists>h h'. grow_all (push_upto 2) (push_upto 2) (StaticHeaplessMemoryPool_new True)
       [([0, 0, 0, 0], [0], 1, True), ([0, 0, 0, 0], [0, 0], 2, True)] = (Ok (), h) \<and>
     provider_run StaticHeaplessMemoryPool_provider h (map OpAdd [[9], [1, 2, 3, 4], [8, 8]]) =
       ([Ok (Some 0), Ok (Some 0x10000), Ok (Some 0x10001)], h') \<and>
     PoolProvider_read_as_vec StaticHeaplessMemoryPool_provider h' 0x10000 = Ok [1, 2, 8, 8]"
  using heapless_spill_corrupts [OF bounded_push_upto [of 2] bounded_push_upto [of 2],
      of "[0, 0, 0, 0]" 1 4 "[0, 0, 0, 0]" 2 2 "[0]" "[0, 0]" "[[9]]" "[1, 2, 3, 4]" "[8, 8]"]
  by (simp add: PoolAddr_from_def overwrite_def MAX_BLOCK_SIZE_def STORE_FREE_def)

end
