(* ===== verification/BTree_Map.thy ===== *)
theory BTree_Map
  imports Prelude
begin

text \<open>
  The ordered map \<^verbatim>\<open>BTreeMap\<close> of the standard library, as the program uses it: an association list
  with strictly increasing keys. Iteration is list order, \<^verbatim>\<open>entry\<close> with its vacant and occupied arms
  is \<open>bm_alter\<close>, \<^verbatim>\<open>range\<close>, \<^verbatim>\<open>retain\<close> and \<^verbatim>\<open>remove\<close> are filters on the keys.
\<close>

named_theorems bm_simps

definition bm_ok :: "('k::linorder \<times> 'v) list \<Rightarrow> bool" where
  "bm_ok m \<longleftrightarrow> sorted_wrt (<) (map fst m)"

fun bm_alter :: "'k::linorder \<Rightarrow> ('v option \<Rightarrow> 'v) \<Rightarrow> ('k \<times> 'v) list \<Rightarrow> ('k \<times> 'v) list" where
  "bm_alter k f [] = [(k, f None)]"
| "bm_alter k f ((k', v) # m) =
     (if k < k' then (k, f None) # (k', v) # m
      else if k = k' then (k', f (Some v)) # m
      else (k', v) # bm_alter k f m)"

definition bm_insert :: "'k::linorder \<Rightarrow> 'v \<Rightarrow> ('k \<times> 'v) list \<Rightarrow> ('k \<times> 'v) list" where
  "bm_insert k v m = bm_alter k (\<lambda>_. v) m"

definition bm_remove :: "'k::linorder \<Rightarrow> ('k \<times> 'v) list \<Rightarrow> ('k \<times> 'v) list" where
  "bm_remove k m = filter (\<lambda>(k', v). k' \<noteq> k) m"

definition bm_retain :: "('k::linorder \<Rightarrow> bool) \<Rightarrow> ('k \<times> 'v) list \<Rightarrow> ('k \<times> 'v) list" where
  "bm_retain P m = filter (\<lambda>(k, v). P k) m"

text \<open>\<^verbatim>\<open>range(lo..=hi)\<close> panics when \<open>lo > hi\<close>.\<close>

definition bm_range_from :: "'k::linorder \<Rightarrow> ('k \<times> 'v) list \<Rightarrow> ('k \<times> 'v) list" where
  "bm_range_from lo m = filter (\<lambda>(k, v). lo \<le> k) m"

definition bm_range_to :: "'k::linorder \<Rightarrow> ('k \<times> 'v) list \<Rightarrow> ('k \<times> 'v) list" where
  "bm_range_to hi m = filter (\<lambda>(k, v). k \<le> hi) m"

definition bm_range :: "'k::linorder \<Rightarrow> 'k \<Rightarrow> ('k \<times> 'v) list \<Rightarrow> ('e, ('k \<times> 'v) list) res" where
  "bm_range lo hi m = (if lo > hi then Panic else Ok (filter (\<lambda>(k, v). lo \<le> k \<and> k \<le> hi) m))"

subsection \<open>Laws\<close>

lemma bm_ok_Nil [simp]: "bm_ok []"
  by (simp add: bm_ok_def)

lemma bm_ok_Cons [bm_simps]:
  "bm_ok ((k, v) # m) \<longleftrightarrow> (\<forall>k' \<in> fst ` set m. k < k') \<and> bm_ok m"
  by (auto simp: bm_ok_def)

lemma bm_ok_distinct: "bm_ok m \<Longrightarrow> distinct (map fst m)"
  by (simp add: bm_ok_def strict_sorted_iff)

lemma bm_ok_filter [simp]: "bm_ok m \<Longrightarrow> bm_ok (filter P m)"
  by (induction m) (auto simp: bm_simps)

lemma bm_alter_keys [simp]: "fst ` set (bm_alter k f m) = insert k (fst ` set m)"
  by (induction k f m rule: bm_alter.induct) auto

lemma bm_ok_alter [simp]: "bm_ok m \<Longrightarrow> bm_ok (bm_alter k f m)"
  by (induction k f m rule: bm_alter.induct) (auto simp: bm_simps intro: less_trans)

lemma map_of_less: "\<forall>k' \<in> fst ` set m. k < k' \<Longrightarrow> map_of m k = None" for k :: "'k::linorder"
  by (force simp: map_of_eq_None_iff)

lemma map_of_bm_alter [bm_simps]:
  "bm_ok m \<Longrightarrow> map_of (bm_alter k f m) = (map_of m)(k \<mapsto> f (map_of m k))"
proof (induction k f m rule: bm_alter.induct)
  case (2 k f k' v m)
  have "map_of m k = None" if "k < k'"
    using 2(2) that by (intro map_of_less) (auto simp: bm_simps intro: less_trans)
  then show ?case using 2 by (auto simp: bm_simps fun_eq_iff)
qed auto

lemma map_of_filter_key:
  "map_of (filter (\<lambda>(k, v). P k) m) k = (if P k then map_of m k else None)"
  by (induction m) auto

lemma bm_keys_filter:
  "bm_ok m \<Longrightarrow> (k, v) \<in> set m \<Longrightarrow> (k, v') \<in> set m \<Longrightarrow> v = v'"
  using bm_ok_distinct by (metis eq_key_imp_eq_value)

lemma bm_alter_split:
  assumes "bm_ok m"
  obtains l r where "m = l @ r" "\<forall>x \<in> set l. fst x < k" "\<forall>x \<in> set r. k < fst x"
      "bm_alter k f m = l @ (k, f None) # r" "map_of m k = None"
    | l v r where "m = l @ (k, v) # r" "\<forall>x \<in> set l. fst x < k" "\<forall>x \<in> set r. k < fst x"
      "bm_alter k f m = l @ (k, f (Some v)) # r" "map_of m k = Some v"
  using assms
proof (induction k f m arbitrary: thesis rule: bm_alter.induct)
  case (1 k f)
  show ?case by (rule 1(1) [of "[]" "[]"]) simp_all
next
  case (2 k f k' v m)
  have ok: "bm_ok m" "\<forall>x \<in> set m. k' < fst x" using 2(4) by (auto simp: bm_simps)
  consider "k < k'" | "k = k'" | "k' < k" by fastforce
  then show ?case
  proof cases
    case 1
    then have "\<forall>x \<in> set ((k', v) # m). k < fst x" using ok by auto
    moreover from this have "map_of ((k', v) # m) k = None" by (intro map_of_less) auto
    ultimately show ?thesis using 1 by (intro 2(2) [of "[]" "(k', v) # m"]) simp_all
  next
    case 2
    then show ?thesis using ok "2.prems"(2) [of "[]" v m] by simp
  next
    case 3
    then have ne: "\<not> k < k'" "k \<noteq> k'" by auto
    show ?thesis
    proof (rule "2.IH" [OF ne _ _ ok(1)])
      fix l r assume "m = l @ r" "\<forall>x \<in> set l. fst x < k" "\<forall>x \<in> set r. k < fst x"
        "bm_alter k f m = l @ (k, f None) # r" "map_of m k = None"
      then show ?thesis using 3 ne by (intro "2.prems"(1) [of "(k', v) # l" r]) simp_all
    next
      fix l w r assume "m = l @ (k, w) # r" "\<forall>x \<in> set l. fst x < k" "\<forall>x \<in> set r. k < fst x"
        "bm_alter k f m = l @ (k, f (Some w)) # r" "map_of m k = Some w"
      then show ?thesis using 3 ne by (intro "2.prems"(2) [of "(k', v) # l" w r]) simp_all
    qed
  qed
qed

end
