(* ===== verification/Scheduler.thy ===== *)
theory Scheduler
  imports Heapless_Pool BTree_Map
begin

text \<open>
  The PUS service 11 scheduler of \<^verbatim>\<open>satrs/src/pus/scheduler.rs\<close>: request ids, time windows, the
  application data generators, and \<^verbatim>\<open>PusScheduler\<close> with insertion, deletion by time window and request
  id, release and reset. The scheduler keeps store addresses only; the telecommands are in a pool it
  is given, so every operation takes the operations of a pool provider and its state.

  What belongs to the \<^verbatim>\<open>spacepackets\<close> crate is a parameter: \<^verbatim>\<open>UnixTime\<close> is any linearly ordered type
  with an addition of a duration, \<^verbatim>\<open>PusTcReader::new\<close> and \<^verbatim>\<open>TimeReader::from_bytes\<close> are functions from
  bytes. A releaser closure is a function with an explicit state.
\<close>

subsection \<open>Request ids and telecommand information\<close>

record SchedRequestId =
  sr_source_id :: u16
  sr_apid :: u16
  sr_seq_count :: u16

text \<open>What the scheduler reads of a PUS telecommand.\<close>

record PusTc =
  tc_service :: u8
  tc_subservice :: u8
  tc_source_id :: u16
  tc_apid :: u16
  tc_seq_count :: u16
  tc_user_data :: bytes

definition SchedRequestId_from_tc :: "PusTc \<Rightarrow> SchedRequestId" where
  "SchedRequestId_from_tc tc =
     \<lparr>sr_source_id = tc_source_id tc, sr_apid = tc_apid tc, sr_seq_count = tc_seq_count tc\<rparr>"

definition SchedRequestId_as_u64 :: "SchedRequestId \<Rightarrow> u64" where
  "SchedRequestId_as_u64 r =
     push_bit 32 (ucast (sr_source_id r)) OR push_bit 16 (ucast (sr_apid r)) OR ucast (sr_seq_count r)"

record TcInfo =
  addr :: PoolAddr
  request_id :: SchedRequestId

definition TcInfo_new :: "PoolAddr \<Rightarrow> SchedRequestId \<Rightarrow> TcInfo" where
  "TcInfo_new a r = \<lparr>addr = a, request_id = r\<rparr>"

subsection \<open>Time windows\<close>

datatype TimeWindowType = SelectAll | TimeTagToTimeTag | FromTimeTag | ToTimeTag

record 'tp TimeWindow =
  time_window_type :: TimeWindowType
  start_time :: "'tp option"
  end_time :: "'tp option"

definition TimeWindow_new_select_all :: "'tp TimeWindow" where
  "TimeWindow_new_select_all =
     \<lparr>time_window_type = SelectAll, start_time = None, end_time = None\<rparr>"

definition TimeWindow_new_from_time_to_time :: "'tp \<Rightarrow> 'tp \<Rightarrow> 'tp TimeWindow" where
  "TimeWindow_new_from_time_to_time s e =
     \<lparr>time_window_type = TimeTagToTimeTag, start_time = Some s, end_time = Some e\<rparr>"

definition TimeWindow_new_from_time :: "'tp \<Rightarrow> 'tp TimeWindow" where
  "TimeWindow_new_from_time s =
     \<lparr>time_window_type = FromTimeTag, start_time = Some s, end_time = None\<rparr>"

definition TimeWindow_new_to_time :: "'tp \<Rightarrow> 'tp TimeWindow" where
  "TimeWindow_new_to_time e =
     \<lparr>time_window_type = ToTimeTag, start_time = None, end_time = Some e\<rparr>"

subsection \<open>Errors\<close>

datatype ('pe, 'te, 't, 'd) ScheduleError =
    SchedPusError 'pe
  | ReleaseTimeInTimeMargin (margin_current_time: 't) (margin_time_margin: 'd) (margin_release_time: 't)
  | NestedScheduledTc
  | SchedStoreError PoolError
  | TcDataEmpty
  | SchedTimestampError 'te
  | WrongSubservice u8
  | WrongService u8
  | SchedByteConversionError ByteConversionError

subsection \<open>Application data of an insertion request\<close>

text \<open>
  A writer is given by its \<^verbatim>\<open>len_written\<close> and by what \<^verbatim>\<open>write_to_bytes\<close> puts at the start of the slice
  it gets, or its error; \<^verbatim>\<open>to_vec\<close> returns the same bytes.
\<close>

definition generate_insert_telecommand_app_data ::
    "bytes \<Rightarrow> nat \<Rightarrow> 'te + bytes \<Rightarrow> nat \<Rightarrow> 'pe + bytes \<Rightarrow>
     (('pe, 'te, 't, 'd) ScheduleError, nat) res \<times> bytes" where
  "generate_insert_telecommand_app_data buf time_len time_written request_len request_written =
     (let required_len = 2 + time_len + request_len
      in if required_len > length buf then
           (Err (SchedByteConversionError (ToSliceTooSmall (length buf) required_len)), buf)
         else
           (let buf1 = overwrite 0 (to_be_bytes (1 :: u16)) buf
            in case time_written of
                 Inl e \<Rightarrow> (Err (SchedTimestampError e), buf1)
               | Inr tbytes \<Rightarrow>
                   (let buf2 = overwrite 2 tbytes buf1; current_len = 2 + length tbytes
                    in res_try (slice current_len (current_len + request_len) buf2) buf2 (\<lambda>_.
                       case request_written of
                         Inl e \<Rightarrow> (Err (SchedPusError e), buf2)
                       | Inr rbytes \<Rightarrow>
                           (Ok (current_len + length rbytes), overwrite current_len rbytes buf2)))))"

definition generate_insert_telecommand_app_data_as_vec ::
    "'te + bytes \<Rightarrow> 'pe + bytes \<Rightarrow> (('pe, 'te, 't, 'd) ScheduleError, bytes) res" where
  "generate_insert_telecommand_app_data_as_vec time_vec request_vec =
     (case time_vec of
        Inl e \<Rightarrow> Err (SchedTimestampError e)
      | Inr tbytes \<Rightarrow>
          (case request_vec of
             Inl e \<Rightarrow> Err (SchedPusError e)
           | Inr rbytes \<Rightarrow> Ok (to_be_bytes (1 :: u16) @ tbytes @ rbytes)))"

subsection \<open>The scheduler\<close>

record ('t, 'd) PusScheduler =
  tc_map :: "('t \<times> TcInfo list) list"
  current_time :: 't
  time_margin :: 'd
  enabled :: bool

definition PusScheduler_new :: "'t \<Rightarrow> 'd \<Rightarrow> ('t, 'd) PusScheduler" where
  "PusScheduler_new init_current_time margin =
     \<lparr>tc_map = [], current_time = init_current_time, time_margin = margin, enabled = True\<rparr>"

definition num_scheduled_telecommands :: "('t, 'd) PusScheduler \<Rightarrow> nat" where
  "num_scheduled_telecommands s = foldl (\<lambda>n e. n + length (snd e)) 0 (tc_map s)"

definition update_time :: "'t \<Rightarrow> ('t, 'd) PusScheduler \<Rightarrow> ('t, 'd) PusScheduler" where
  "update_time t s = s\<lparr>current_time := t\<rparr>"

definition enable :: "('t, 'd) PusScheduler \<Rightarrow> ('t, 'd) PusScheduler" where
  "enable s = s\<lparr>enabled := True\<rparr>"

definition disable :: "('t, 'd) PusScheduler \<Rightarrow> ('t, 'd) PusScheduler" where
  "disable s = s\<lparr>enabled := False\<rparr>"

subsubsection \<open>Insertion\<close>

definition insert_unwrapped_and_stored_tc ::
    "('t::linorder \<Rightarrow> 'd \<Rightarrow> 't) \<Rightarrow> ('t, 'd) PusScheduler \<Rightarrow> 't \<Rightarrow> TcInfo \<Rightarrow>
     (('pe, 'te, 't, 'd) ScheduleError, unit) res \<times> ('t, 'd) PusScheduler" where
  "insert_unwrapped_and_stored_tc time_add s time_stamp info =
     (if time_stamp < time_add (current_time s) (time_margin s) then
        (Err (ReleaseTimeInTimeMargin (current_time s) (time_margin s) time_stamp), s)
      else
        (Ok (), s\<lparr>tc_map := bm_alter time_stamp
           (\<lambda>entry. case entry of None \<Rightarrow> [info] | Some v \<Rightarrow> v @ [info]) (tc_map s)\<rparr>))"

definition insert_unwrapped_tc ::
    "'p PoolProvider \<Rightarrow> (bytes \<Rightarrow> 'pe + PusTc) \<Rightarrow> ('t::linorder \<Rightarrow> 'd \<Rightarrow> 't) \<Rightarrow>
     ('t, 'd) PusScheduler \<Rightarrow> 't \<Rightarrow> bytes \<Rightarrow> 'p \<Rightarrow>
     (('pe, 'te, 't, 'd) ScheduleError, TcInfo) res \<times> ('t, 'd) PusScheduler \<times> 'p" where
  "insert_unwrapped_tc ops read_tc time_add s time_stamp tc p =
     (case read_tc tc of
        Inl e \<Rightarrow> (Err (SchedPusError e), s, p)
      | Inr check_tc \<Rightarrow>
          if tc_service check_tc = 11 \<and> tc_subservice check_tc = 4 then
            (Err NestedScheduledTc, s, p)
          else
            (let req_id = SchedRequestId_from_tc check_tc
             in case pp_add ops p tc of
                  (Ok a, p') \<Rightarrow>
                    (let info = TcInfo_new a req_id;
                         (r, s') = insert_unwrapped_and_stored_tc time_add s time_stamp info
                     in (res_map (\<lambda>_. info) r, s', p'))
                | (Err e, p') \<Rightarrow> (Err (SchedStoreError e), s, p')
                | (Panic, p') \<Rightarrow> (Panic, s, p')))"

text \<open>
  \<^verbatim>\<open>read_time\<close> stands for \<^verbatim>\<open>TimeReader::from_bytes\<close>, with the stamp's \<^verbatim>\<open>unix_time\<close> and \<^verbatim>\<open>len_as_bytes\<close>.
\<close>

definition insert_wrapped_tc ::
    "'p PoolProvider \<Rightarrow> (bytes \<Rightarrow> 'pe + PusTc) \<Rightarrow> (bytes \<Rightarrow> 'te + 't \<times> nat) \<Rightarrow>
     ('t::linorder \<Rightarrow> 'd \<Rightarrow> 't) \<Rightarrow> ('t, 'd) PusScheduler \<Rightarrow> PusTc \<Rightarrow> 'p \<Rightarrow>
     (('pe, 'te, 't, 'd) ScheduleError, TcInfo) res \<times> ('t, 'd) PusScheduler \<times> 'p" where
  "insert_wrapped_tc ops read_tc read_time time_add s pus_tc p =
     (if tc_service pus_tc \<noteq> 11 then (Err (WrongService (tc_service pus_tc)), s, p)
      else if tc_subservice pus_tc \<noteq> 4 then (Err (WrongSubservice (tc_subservice pus_tc)), s, p)
      else if tc_user_data pus_tc = [] then (Err TcDataEmpty, s, p)
      else
        (case read_time (tc_user_data pus_tc) of
           Inl e \<Rightarrow> (Err (SchedTimestampError e), s, p)
         | Inr (unix_stamp, stamp_len) \<Rightarrow>
             res_try (slice stamp_len (length (tc_user_data pus_tc)) (tc_user_data pus_tc)) (s, p)
               (\<lambda>tc. insert_unwrapped_tc ops read_tc time_add s unix_stamp tc p)))"

subsubsection \<open>Deletion by time window\<close>

text \<open>\<^verbatim>\<open>unix\<close> stands for \<^verbatim>\<open>CcsdsTimeProvider::unix_time\<close>; the unwraps panic on a missing bound.\<close>

definition retrieve_all :: "('t, 'd) PusScheduler \<Rightarrow> ('t \<times> TcInfo list) list" where
  "retrieve_all s = tc_map s"

definition retrieve_by_time_filter ::
    "('tp \<Rightarrow> 't::linorder) \<Rightarrow> ('t, 'd) PusScheduler \<Rightarrow> 'tp TimeWindow \<Rightarrow>
     ('e, ('t \<times> TcInfo list) list) res" where
  "retrieve_by_time_filter unix s w =
     (case time_window_type w of
        SelectAll \<Rightarrow> Ok (tc_map s)
      | TimeTagToTimeTag \<Rightarrow>
          res_bind (opt_unwrap (start_time w)) (\<lambda>st.
          res_bind (opt_unwrap (end_time w)) (\<lambda>en. bm_range (unix st) (unix en) (tc_map s)))
      | FromTimeTag \<Rightarrow>
          res_bind (opt_unwrap (start_time w)) (\<lambda>st. Ok (bm_range_from (unix st) (tc_map s)))
      | ToTimeTag \<Rightarrow>
          res_bind (opt_unwrap (end_time w)) (\<lambda>en. Ok (bm_range_to (unix en) (tc_map s))))"

fun delete_bucket ::
    "'p PoolProvider \<Rightarrow> TcInfo list \<Rightarrow> nat \<Rightarrow> PoolError option \<Rightarrow> 'p \<Rightarrow>
     (nat \<times> PoolError, nat \<times> PoolError option) res \<times> 'p" where
  "delete_bucket ops [] del_packets res_if_fails p = (Ok (del_packets, res_if_fails), p)"
| "delete_bucket ops (tc # tcs) del_packets res_if_fails p =
     (case pp_delete ops p (addr tc) of
        (Ok _, p') \<Rightarrow> delete_bucket ops tcs (del_packets + 1) res_if_fails p'
      | (Err e, p') \<Rightarrow> delete_bucket ops tcs del_packets (Some e) p'
      | (Panic, p') \<Rightarrow> (Panic, p'))"

fun delete_range ::
    "'p PoolProvider \<Rightarrow> ('t \<times> TcInfo list) list \<Rightarrow> nat \<Rightarrow> PoolError option \<Rightarrow> 't list \<Rightarrow> 'p \<Rightarrow>
     (nat \<times> PoolError, nat \<times> PoolError option \<times> 't list) res \<times> 'p" where
  "delete_range ops [] del_packets res_if_fails keys p = (Ok (del_packets, res_if_fails, keys), p)"
| "delete_range ops ((k, tcs) # bs) del_packets res_if_fails keys p =
     (let (r, p') = delete_bucket ops tcs del_packets res_if_fails p
      in res_try r p' (\<lambda>(n, e). delete_range ops bs n e (keys @ [k]) p'))"

fun remove_keys :: "'t::linorder list \<Rightarrow> ('t \<times> 'v) list \<Rightarrow> ('t \<times> 'v) list" where
  "remove_keys [] mp = mp"
| "remove_keys (k # ks) mp = remove_keys ks (bm_remove k mp)"

definition delete_by_time_filter ::
    "'p PoolProvider \<Rightarrow> ('tp \<Rightarrow> 't::linorder) \<Rightarrow> ('t, 'd) PusScheduler \<Rightarrow> 'tp TimeWindow \<Rightarrow> 'p \<Rightarrow>
     (nat \<times> PoolError, nat) res \<times> ('t, 'd) PusScheduler \<times> 'p" where
  "delete_by_time_filter ops unix s w p =
     res_try (retrieve_by_time_filter unix s w) (s, p) (\<lambda>rng.
       let (r, p') = delete_range ops rng 0 None [] p
       in res_try r (s, p') (\<lambda>(del_packets, res_if_fails, keys).
            let s' = s\<lparr>tc_map := remove_keys keys (tc_map s)\<rparr>
            in case res_if_fails of
                 Some err \<Rightarrow> (Err (del_packets, err), s', p')
               | None \<Rightarrow> (Ok del_packets, s', p')))"

definition delete_all ::
    "'p PoolProvider \<Rightarrow> ('t::linorder, 'd) PusScheduler \<Rightarrow> 'p \<Rightarrow>
     (nat \<times> PoolError, nat) res \<times> ('t, 'd) PusScheduler \<times> 'p" where
  "delete_all ops s p = delete_by_time_filter ops (\<lambda>t. t) s TimeWindow_new_select_all p"

subsubsection \<open>Deletion by request id\<close>

text \<open>The inner loop does not stop at a match: it keeps the last matching index of the bucket.\<close>

fun last_match :: "SchedRequestId \<Rightarrow> nat \<Rightarrow> TcInfo list \<Rightarrow> nat option \<Rightarrow> nat option" where
  "last_match req_id i [] found = found"
| "last_match req_id i (tc # tcs) found =
     last_match req_id (Suc i) tcs (if request_id tc = req_id then Some i else found)"

definition remove_at :: "nat \<Rightarrow> 'a list \<Rightarrow> 'a list" where
  "remove_at i xs = take i xs @ drop (Suc i) xs"

fun delete_by_request_id_internal_without_store_deletion ::
    "SchedRequestId \<Rightarrow> ('t \<times> TcInfo list) list \<Rightarrow> PoolAddr option \<times> ('t \<times> TcInfo list) list" where
  "delete_by_request_id_internal_without_store_deletion req_id [] = (None, [])"
| "delete_by_request_id_internal_without_store_deletion req_id ((k, tcs) # bs) =
     (case last_match req_id 0 tcs None of
        Some i \<Rightarrow> (Some (addr (tcs ! i)), (k, remove_at i tcs) # bs)
      | None \<Rightarrow>
          (let (a, bs') = delete_by_request_id_internal_without_store_deletion req_id bs
           in (a, (k, tcs) # bs')))"

definition delete_by_request_id ::
    "('t, 'd) PusScheduler \<Rightarrow> SchedRequestId \<Rightarrow> PoolAddr option \<times> ('t, 'd) PusScheduler" where
  "delete_by_request_id s req_id =
     (let (a, mp) = delete_by_request_id_internal_without_store_deletion req_id (tc_map s)
      in (a, s\<lparr>tc_map := mp\<rparr>))"

fun delete_by_request_id_internal_with_store_deletion ::
    "'p PoolProvider \<Rightarrow> SchedRequestId \<Rightarrow> ('t \<times> TcInfo list) list \<Rightarrow> 'p \<Rightarrow>
     (PoolError, bool) res \<times> ('t \<times> TcInfo list) list \<times> 'p" where
  "delete_by_request_id_internal_with_store_deletion ops req_id [] p = (Ok False, [], p)"
| "delete_by_request_id_internal_with_store_deletion ops req_id ((k, tcs) # bs) p =
     (case last_match req_id 0 tcs None of
        Some i \<Rightarrow>
          (let (r, p') = pp_delete ops p (addr (tcs ! i))
           in (res_map (\<lambda>_. True) r, (k, remove_at i tcs) # bs, p'))
      | None \<Rightarrow>
          (let (r, bs', p') = delete_by_request_id_internal_with_store_deletion ops req_id bs p
           in (r, (k, tcs) # bs', p')))"

definition delete_by_request_id_and_from_pool ::
    "'p PoolProvider \<Rightarrow> ('t, 'd) PusScheduler \<Rightarrow> SchedRequestId \<Rightarrow> 'p \<Rightarrow>
     (PoolError, bool) res \<times> ('t, 'd) PusScheduler \<times> 'p" where
  "delete_by_request_id_and_from_pool ops s req_id p =
     (let (r, mp, p') = delete_by_request_id_internal_with_store_deletion ops req_id (tc_map s) p
      in (r, s\<lparr>tc_map := mp\<rparr>, p'))"

subsubsection \<open>Release\<close>

definition telecommands_to_release :: "('t::linorder, 'd) PusScheduler \<Rightarrow> ('t \<times> TcInfo list) list" where
  "telecommands_to_release s = bm_range_to (current_time s) (tc_map s)"

text \<open>
  One telecommand of the release loop. The buffer variant hands the whole buffer to the releaser,
  the other one the bytes read. A read error leaves the loop at once.
\<close>

record ('p, 'r) release_state =
  rs_released :: nat
  rs_store_error :: "PoolError option"
  rs_pool :: 'p
  rs_user :: 'r
  rs_buf :: "bytes option"

definition release_read ::
    "'p PoolProvider \<Rightarrow> TcInfo \<Rightarrow> ('p, 'r) release_state \<Rightarrow>
     (nat \<times> PoolError, bytes) res \<times> ('p, 'r) release_state" where
  "release_read ops info st =
     (case rs_buf st of
        Some buf \<Rightarrow>
          (let (r, buf') = pp_read ops (rs_pool st) (addr info) buf; st' = st\<lparr>rs_buf := Some buf'\<rparr>
           in (res_map_err (\<lambda>e. (rs_released st, e)) (res_map (\<lambda>_. buf') r), st'))
      | None \<Rightarrow>
          (res_map_err (\<lambda>e. (rs_released st, e))
             (PoolProvider_read_as_vec ops (rs_pool st) (addr info)), st))"

definition release_one ::
    "'p PoolProvider \<Rightarrow> (bool \<Rightarrow> TcInfo \<Rightarrow> bytes \<Rightarrow> 'r \<Rightarrow> bool \<times> 'r) \<Rightarrow> bool \<Rightarrow> TcInfo \<Rightarrow>
     ('p, 'r) release_state \<Rightarrow> (nat \<times> PoolError, unit) res \<times> ('p, 'r) release_state" where
  "release_one ops releaser en info st0 =
     (let (r, st) = release_read ops info st0
      in res_try r st (\<lambda>tc.
           let (should_delete, u') = releaser en info tc (rs_user st);
               st1 = st\<lparr>rs_user := u', rs_released := rs_released st + 1\<rparr>
           in if should_delete then
                (case pp_delete ops (rs_pool st1) (addr info) of
                   (Ok _, p') \<Rightarrow> (Ok (), st1\<lparr>rs_pool := p'\<rparr>)
                 | (Err e, p') \<Rightarrow> (Ok (), st1\<lparr>rs_pool := p', rs_store_error := Some e\<rparr>)
                 | (Panic, p') \<Rightarrow> (Panic, st1\<lparr>rs_pool := p'\<rparr>))
              else (Ok (), st1)))"

fun release_bucket ::
    "'p PoolProvider \<Rightarrow> (bool \<Rightarrow> TcInfo \<Rightarrow> bytes \<Rightarrow> 'r \<Rightarrow> bool \<times> 'r) \<Rightarrow> bool \<Rightarrow> TcInfo list \<Rightarrow>
     ('p, 'r) release_state \<Rightarrow> (nat \<times> PoolError, unit) res \<times> ('p, 'r) release_state" where
  "release_bucket ops releaser en [] st = (Ok (), st)"
| "release_bucket ops releaser en (info # infos) st =
     (let (r, st') = release_one ops releaser en info st
      in res_try r st' (\<lambda>_. release_bucket ops releaser en infos st'))"

fun release_range ::
    "'p PoolProvider \<Rightarrow> (bool \<Rightarrow> TcInfo \<Rightarrow> bytes \<Rightarrow> 'r \<Rightarrow> bool \<times> 'r) \<Rightarrow> bool \<Rightarrow>
     ('t \<times> TcInfo list) list \<Rightarrow> ('p, 'r) release_state \<Rightarrow>
     (nat \<times> PoolError, unit) res \<times> ('p, 'r) release_state" where
  "release_range ops releaser en [] st = (Ok (), st)"
| "release_range ops releaser en ((k, infos) # bs) st =
     (let (r, st') = release_bucket ops releaser en infos st
      in res_try r st' (\<lambda>_. release_range ops releaser en bs st'))"

definition release_telecommands_internal ::
    "'p PoolProvider \<Rightarrow> (bool \<Rightarrow> TcInfo \<Rightarrow> bytes \<Rightarrow> 'r \<Rightarrow> bool \<times> 'r) \<Rightarrow>
     ('t::linorder, 'd) PusScheduler \<Rightarrow> 'p \<Rightarrow> 'r \<Rightarrow> bytes option \<Rightarrow>
     (nat \<times> PoolError, nat) res \<times> ('t, 'd) PusScheduler \<times> ('p, 'r) release_state" where
  "release_telecommands_internal ops releaser s p u tc_buf =
     (let (r, st) = release_range ops releaser (enabled s) (telecommands_to_release s)
            \<lparr>rs_released = 0, rs_store_error = None, rs_pool = p, rs_user = u, rs_buf = tc_buf\<rparr>
      in case r of
           Ok _ \<Rightarrow>
             (case rs_store_error st of
                None \<Rightarrow> Ok (rs_released st)
              | Some e \<Rightarrow> Err (rs_released st, e),
              s\<lparr>tc_map := bm_retain (\<lambda>k. k > current_time s) (tc_map s)\<rparr>, st)
         | Err e \<Rightarrow> (Err e, s, st)
         | Panic \<Rightarrow> (Panic, s, st))"

definition release_telecommands_with_buffer ::
    "'p PoolProvider \<Rightarrow> (bool \<Rightarrow> TcInfo \<Rightarrow> bytes \<Rightarrow> 'r \<Rightarrow> bool \<times> 'r) \<Rightarrow>
     ('t::linorder, 'd) PusScheduler \<Rightarrow> 'p \<Rightarrow> 'r \<Rightarrow> bytes \<Rightarrow>
     (nat \<times> PoolError, nat) res \<times> ('t, 'd) PusScheduler \<times> ('p, 'r) release_state" where
  "release_telecommands_with_buffer ops releaser s p u tc_buf =
     release_telecommands_internal ops releaser s p u (Some tc_buf)"

definition release_telecommands ::
    "'p PoolProvider \<Rightarrow> (bool \<Rightarrow> TcInfo \<Rightarrow> bytes \<Rightarrow> 'r \<Rightarrow> bool \<times> 'r) \<Rightarrow>
     ('t::linorder, 'd) PusScheduler \<Rightarrow> 'p \<Rightarrow> 'r \<Rightarrow>
     (nat \<times> PoolError, nat) res \<times> ('t, 'd) PusScheduler \<times> ('p, 'r) release_state" where
  "release_telecommands ops releaser s p u = release_telecommands_internal ops releaser s p u None"

text \<open>\<^verbatim>\<open>release_telecommands_no_deletion\<close>: the pool is read only, the released infos are returned.\<close>

fun release_infos_no_deletion ::
    "'p PoolProvider \<Rightarrow> (bool \<Rightarrow> TcInfo \<Rightarrow> bytes \<Rightarrow> 'r \<Rightarrow> 'r) \<Rightarrow> bool \<Rightarrow> 'p \<Rightarrow> TcInfo list \<Rightarrow>
     TcInfo list \<Rightarrow> 'r \<Rightarrow> bytes \<Rightarrow> (TcInfo list \<times> PoolError, TcInfo list) res \<times> 'r \<times> bytes" where
  "release_infos_no_deletion ops releaser en p [] released u buf = (Ok released, u, buf)"
| "release_infos_no_deletion ops releaser en p (info # infos) released u buf =
     (case pp_read ops p (addr info) buf of
        (Ok _, buf') \<Rightarrow>
          release_infos_no_deletion ops releaser en p infos (released @ [info])
            (releaser en info buf' u) buf'
      | (Err e, buf') \<Rightarrow> (Err (released, e), u, buf')
      | (Panic, buf') \<Rightarrow> (Panic, u, buf'))"

definition release_telecommands_no_deletion ::
    "'p PoolProvider \<Rightarrow> (bool \<Rightarrow> TcInfo \<Rightarrow> bytes \<Rightarrow> 'r \<Rightarrow> 'r) \<Rightarrow>
     ('t::linorder, 'd) PusScheduler \<Rightarrow> 'p \<Rightarrow> 'r \<Rightarrow> bytes \<Rightarrow>
     (TcInfo list \<times> PoolError, TcInfo list) res \<times> ('t, 'd) PusScheduler \<times> 'r \<times> bytes" where
  "release_telecommands_no_deletion ops releaser s p u tc_buf =
     (let (r, u', buf') = release_infos_no_deletion ops releaser (enabled s) p
            (concat (map snd (telecommands_to_release s))) [] u tc_buf
      in (r, if is_ok r then s\<lparr>tc_map := bm_retain (\<lambda>k. k > current_time s) (tc_map s)\<rparr> else s,
          u', buf'))"

subsubsection \<open>Reset\<close>

fun reset_deletions ::
    "'p PoolProvider \<Rightarrow> TcInfo list \<Rightarrow> (PoolError, unit) res \<Rightarrow> 'p \<Rightarrow> (PoolError, unit) res \<times> 'p" where
  "reset_deletions ops [] deletion_ok p = (deletion_ok, p)"
| "reset_deletions ops (tc # tcs) deletion_ok p =
     (case pp_delete ops p (addr tc) of
        (Ok _, p') \<Rightarrow> reset_deletions ops tcs deletion_ok p'
      | (Err e, p') \<Rightarrow> reset_deletions ops tcs (Err e) p'
      | (Panic, p') \<Rightarrow> (Panic, p'))"

definition PusScheduler_reset ::
    "'p PoolProvider \<Rightarrow> ('t, 'd) PusScheduler \<Rightarrow> 'p \<Rightarrow>
     (PoolError, unit) res \<times> ('t, 'd) PusScheduler \<times> 'p" where
  "PusScheduler_reset ops s p =
     (let s1 = s\<lparr>enabled := False\<rparr>;
          (r, p') = reset_deletions ops (concat (map snd (tc_map s1))) (Ok ()) p
      in (r, if r = Panic then s1 else s1\<lparr>tc_map := []\<rparr>, p'))"

subsection \<open>Invariant\<close>

definition scheduled :: "('t, 'd) PusScheduler \<Rightarrow> TcInfo list" where
  "scheduled s = concat (map snd (tc_map s))"

definition due :: "('t::linorder, 'd) PusScheduler \<Rightarrow> TcInfo list" where
  "due s = concat (map snd (telecommands_to_release s))"

text \<open>
  The schedule is ordered by release time, every scheduled telecommand has its own pool address, and
  the pool, of which \<open>mp\<close> is the content, holds data there.
\<close>

definition sched_inv :: "(PoolAddr \<Rightarrow> bytes option) \<Rightarrow> ('t::linorder, 'd) PusScheduler \<Rightarrow> bool" where
  "sched_inv mp s \<longleftrightarrow>
     bm_ok (tc_map s) \<and> distinct (map addr (scheduled s)) \<and> addr ` set (scheduled s) \<subseteq> dom mp"

text \<open>What a release does, on the content of the pool: the releaser runs over the due commands.\<close>

fun release_spec ::
    "(bool \<Rightarrow> TcInfo \<Rightarrow> bytes \<Rightarrow> 'r \<Rightarrow> bool \<times> 'r) \<Rightarrow> bool \<Rightarrow> (PoolAddr \<Rightarrow> bytes option) \<Rightarrow>
     TcInfo list \<Rightarrow> 'r \<Rightarrow> 'r \<times> PoolAddr set" where
  "release_spec releaser en mp [] u = (u, {})"
| "release_spec releaser en mp (info # infos) u =
     (let (should_delete, u1) = releaser en info (the (mp (addr info))) u;
          (u2, D) = release_spec releaser en mp infos u1
      in (u2, if should_delete then insert (addr info) D else D))"

lemma release_spec_subset: "snd (release_spec releaser en mp infos u) \<subseteq> addr ` set infos"
proof (induction infos arbitrary: u)
  case (Cons info infos)
  obtain del u1 where 1: "releaser en info (the (mp (addr info))) u = (del, u1)" by fastforce
  obtain u2 D where 2: "release_spec releaser en mp infos u1 = (u2, D)" by fastforce
  show ?case using Cons.IH [of u1] by (auto simp: 1 2)
qed simp

lemma release_spec_cong:
  "(\<And>i. i \<in> set infos \<Longrightarrow> mp (addr i) = mp' (addr i)) \<Longrightarrow>
   release_spec releaser en mp infos u = release_spec releaser en mp' infos u"
  by (induction infos arbitrary: u) (auto simp: split_beta Let_def)

lemma concat_snd_filter_subset: "set (concat (map snd (filter P m))) \<subseteq> set (concat (map snd m))"
  by auto

lemma distinct_concat_filter:
  "distinct (map f (concat (map snd m))) \<Longrightarrow> distinct (map f (concat (map snd (filter P m))))"
  by (induction m) auto

lemma sched_inv_filter:
  assumes "sched_inv mp s"
  shows "sched_inv mp (s\<lparr>tc_map := filter P (tc_map s)\<rparr>)"
proof -
  have "addr ` set (concat (map snd (filter P (tc_map s)))) \<subseteq> dom mp"
    using image_mono [OF concat_snd_filter_subset [of P "tc_map s"], of addr] assms
    unfolding sched_inv_def scheduled_def by (blast intro: order_trans)
  then show ?thesis using assms
    by (simp add: sched_inv_def scheduled_def distinct_concat_filter del: set_concat)
qed

lemma restrict_UNIV [simp]: "mp |` UNIV = mp"
  by (simp add: restrict_map_def)

lemma scheduled_split:
  assumes "distinct (map f (concat (map snd m)))"
  shows "f ` set (concat (map snd (filter P m))) \<inter> f ` set (concat (map snd (filter (\<lambda>x. \<not> P x) m))) = {}"
  using assms
proof (induction m)
  case (Cons x m)
  have "f ` set (snd x) \<inter> f ` set (concat (map snd m)) = {}"
    using Cons.prems by (simp only: list.map concat.simps map_append distinct_append set_map)
  moreover have "f ` set (concat (map snd (filter Q m))) \<subseteq> f ` set (concat (map snd m))" for Q
    by (intro image_mono concat_snd_filter_subset)
  ultimately have "f ` set (snd x) \<inter> f ` set (concat (map snd (filter Q m))) = {}" for Q
    by blast
  moreover have "distinct (map f (concat (map snd m)))" using Cons.prems by simp
  ultimately show ?case using Cons.IH
    by (cases "P x") (simp_all only: filter.simps list.map concat.simps set_append image_Un
        Int_Un_distrib Int_Un_distrib2 Int_commute if_True if_False not_True_eq_False not_False_eq_True Un_empty)
qed simp

lemma restrict_drop_one: "(mp(a := None)) |` (- A) = mp |` (- insert a A)"
  by (auto simp: restrict_map_def)

lemma restrict_drop_two: "(mp |` (- A)) |` (- B) = mp |` (- (A \<union> B))"
  by (auto simp: restrict_map_def)

lemma addr_fresh: "addr tc \<notin> addr ` set tcs \<Longrightarrow> x \<in> set tcs \<Longrightarrow> addr x \<noteq> addr tc"
  by force

lemma release_bucket_append:
  "release_bucket ops releaser en (xs @ ys) st =
     (let (r, st') = release_bucket ops releaser en xs st
      in res_try r st' (\<lambda>_. release_bucket ops releaser en ys st'))"
proof (induction xs arbitrary: st)
  case (Cons x xs)
  obtain r st1 where "release_one ops releaser en x st = (r, st1)" by fastforce
  then show ?case using Cons.IH by (cases r) (simp_all add: Let_def)
qed simp

lemma release_range_concat:
  "release_range ops releaser en bs st = release_bucket ops releaser en (concat (map snd bs)) st"
  by (induction bs arbitrary: st) (auto simp: release_bucket_append Let_def)

context pool_provider
begin

lemma delete_bucket_all:
  "inv p \<Longrightarrow> distinct (map addr tcs) \<Longrightarrow> addr ` set tcs \<subseteq> dom (content p) \<Longrightarrow>
   \<exists>p'. delete_bucket ops tcs n e p = (Ok (n + length tcs, e), p') \<and> inv p' \<and>
     content p' = content p |` (- (addr ` set tcs))"
proof (induction tcs arbitrary: n p)
  case (Cons tc tcs)
  obtain d where "content p (addr tc) = Some d" using Cons.prems by auto
  from delete_some [OF Cons.prems(1) this] obtain p1 where p1: "pp_delete ops p (addr tc) = (Ok (), p1)"
    "inv p1" "content p1 = (content p)(addr tc := None)" by blast
  have "addr ` set tcs \<subseteq> dom (content p1)" using Cons.prems(2,3) p1(3) addr_fresh [of tc tcs] by auto
  from Cons.IH [OF p1(2) _ this, of "Suc n"] Cons.prems(2) obtain p2 where
    "delete_bucket ops tcs (Suc n) e p1 = (Ok (Suc n + length tcs, e), p2)" "inv p2"
    "content p2 = content p1 |` (- (addr ` set tcs))" by auto
  moreover from this have "content p2 = content p |` (- (addr ` set (tc # tcs)))"
    by (simp only: p1(3) restrict_drop_one list.set image_insert)
  ultimately show ?case using p1 by simp
qed simp

lemma delete_range_all:
  "inv p \<Longrightarrow> distinct (map addr (concat (map snd bs))) \<Longrightarrow>
   addr ` set (concat (map snd bs)) \<subseteq> dom (content p) \<Longrightarrow>
   \<exists>p'. delete_range ops bs n e ks p = (Ok (n + length (concat (map snd bs)), e, ks @ map fst bs), p') \<and>
     inv p' \<and> content p' = content p |` (- (addr ` set (concat (map snd bs))))"
proof (induction bs arbitrary: n ks p)
  case (Cons b bs)
  obtain k tcs where b: "b = (k, tcs)" by fastforce
  obtain p1 where p1: "delete_bucket ops tcs n e p = (Ok (n + length tcs, e), p1)" "inv p1"
    "content p1 = content p |` (- (addr ` set tcs))"
    using delete_bucket_all [OF Cons.prems(1), of tcs n e] Cons.prems(2,3) b by auto
  have "addr ` set (concat (map snd bs)) \<subseteq> dom (content p1)"
    using Cons.prems(2,3) b unfolding p1(3) dom_restrict by (auto simp del: set_concat)
  from Cons.IH [OF p1(2) _ this, of "n + length tcs" "ks @ [k]"] Cons.prems(2) obtain p2 where
    "delete_range ops bs (n + length tcs) e (ks @ [k]) p1 =
      (Ok (n + length tcs + length (concat (map snd bs)), e, (ks @ [k]) @ map fst bs), p2)" "inv p2"
    "content p2 = content p1 |` (- (addr ` set (concat (map snd bs))))" by auto
  then show ?case using p1 b by (simp add: restrict_drop_two image_Un Let_def del: set_concat)
qed simp

lemma reset_deletions_all:
  "inv p \<Longrightarrow> distinct (map addr tcs) \<Longrightarrow> addr ` set tcs \<subseteq> dom (content p) \<Longrightarrow>
   \<exists>p'. reset_deletions ops tcs r p = (r, p') \<and> inv p' \<and>
     content p' = content p |` (- (addr ` set tcs))"
proof (induction tcs arbitrary: p)
  case (Cons tc tcs)
  obtain d where "content p (addr tc) = Some d" using Cons.prems by auto
  from delete_some [OF Cons.prems(1) this] obtain p1 where p1: "pp_delete ops p (addr tc) = (Ok (), p1)"
    "inv p1" "content p1 = (content p)(addr tc := None)" by blast
  have "addr ` set tcs \<subseteq> dom (content p1)" using Cons.prems(2,3) p1(3) addr_fresh [of tc tcs] by auto
  from Cons.IH [OF p1(2) _ this] Cons.prems(2) obtain p2 where
    "reset_deletions ops tcs r p1 = (r, p2)" "inv p2"
    "content p2 = content p1 |` (- (addr ` set tcs))" by auto
  moreover from this have "content p2 = content p |` (- (addr ` set (tc # tcs)))"
    by (simp only: p1(3) restrict_drop_one list.set image_insert)
  ultimately show ?case using p1 by simp
qed simp

lemma release_one_ok:
  assumes "inv (rs_pool st)" and "content (rs_pool st) (addr info) = Some d" and "rs_buf st = None"
    and "releaser en info d (rs_user st) = (del, u')"
  shows "\<exists>p'. release_one ops releaser en info st =
      (Ok (), st\<lparr>rs_user := u', rs_released := rs_released st + 1, rs_pool := p'\<rparr>) \<and> inv p' \<and>
      content p' = (if del then (content (rs_pool st))(addr info := None) else content (rs_pool st))"
proof (cases del)
  case True
  from delete_some [OF assms(1,2)] obtain p1 where
    "pp_delete ops (rs_pool st) (addr info) = (Ok (), p1)" "inv p1"
    "content p1 = (content (rs_pool st))(addr info := None)" by blast
  then show ?thesis using assms True
    by (auto simp: release_one_def release_read_def read_as_vec_some)
next
  case False
  then show ?thesis using assms
    by (auto simp: release_one_def release_read_def read_as_vec_some intro!: exI [of _ "rs_pool st"])
qed

lemma release_bucket_ok:
  "inv (rs_pool st) \<Longrightarrow> distinct (map addr infos) \<Longrightarrow> addr ` set infos \<subseteq> dom (content (rs_pool st)) \<Longrightarrow>
   rs_buf st = None \<Longrightarrow> release_spec releaser en (content (rs_pool st)) infos (rs_user st) = (u', D) \<Longrightarrow>
   \<exists>p'. release_bucket ops releaser en infos st =
      (Ok (), st\<lparr>rs_user := u', rs_released := rs_released st + length infos, rs_pool := p'\<rparr>) \<and> inv p' \<and>
      content p' = content (rs_pool st) |` (- D)"
proof (induction infos arbitrary: st D)
  case (Cons info infos)
  obtain d where d: "content (rs_pool st) (addr info) = Some d" using Cons.prems(3) by auto
  obtain del u1 where del: "releaser en info d (rs_user st) = (del, u1)" by fastforce
  obtain D1 where D1: "release_spec releaser en (content (rs_pool st)) infos u1 = (u', D1)"
      "D = (if del then insert (addr info) D1 else D1)"
    using Cons.prems(5) d del by (auto split: prod.splits)
  from release_one_ok [where releaser = releaser, OF Cons.prems(1) d Cons.prems(4) del] obtain p1 where p1:
    "release_one ops releaser en info st =
      (Ok (), st\<lparr>rs_user := u1, rs_released := rs_released st + 1, rs_pool := p1\<rparr>)" "inv p1"
    "content p1 = (if del then (content (rs_pool st))(addr info := None) else content (rs_pool st))"
    by blast
  let ?st1 = "st\<lparr>rs_user := u1, rs_released := rs_released st + 1, rs_pool := p1\<rparr>"
  have same: "content p1 (addr i) = content (rs_pool st) (addr i)" if "i \<in> set infos" for i
    using p1(3) that Cons.prems(2) addr_fresh [of info infos i] by auto
  have "release_spec releaser en (content p1) infos u1 = (u', D1)"
    using release_spec_cong [where infos = infos and mp = "content p1" and mp' = "content (rs_pool st)" and
        releaser = releaser and en = en and u = u1, OF same] D1(1) by simp
  moreover have "addr ` set infos \<subseteq> dom (content p1)"
    using Cons.prems(3) same by (force simp: dom_def)
  ultimately obtain p2 where "release_bucket ops releaser en infos ?st1 =
      (Ok (), ?st1\<lparr>rs_user := u', rs_released := rs_released ?st1 + length infos, rs_pool := p2\<rparr>)" "inv p2"
      "content p2 = content p1 |` (- D1)"
    using Cons.IH [of ?st1 D1] p1(2) Cons.prems(2,4) by auto
  moreover from this have "content p2 = content (rs_pool st) |` (- D)"
    unfolding D1(2) p1(3) by (cases del) (simp_all only: if_True if_False restrict_drop_one)
  ultimately show ?case using p1(1) by auto
next
  case Nil
  then show ?case by (intro exI [of _ "rs_pool st"]) auto
qed

end

subsection \<open>Schedule updates\<close>

abbreviation push_info :: "TcInfo \<Rightarrow> TcInfo list option \<Rightarrow> TcInfo list" where
  "push_info info \<equiv> (\<lambda>entry. case entry of None \<Rightarrow> [info] | Some v \<Rightarrow> v @ [info])"

lemma filter_key_split:
  fixes l r :: "('k::linorder \<times> 'v) list"
  assumes "\<forall>x \<in> set l. fst x < t" and "\<forall>x \<in> set r. t < fst x"
  shows "filter (\<lambda>(k, v). k \<le> t) l = l" "filter (\<lambda>(k, v). k \<le> t) r = []"
    "filter (\<lambda>(k, v). t < k) l = []" "filter (\<lambda>(k, v). t < k) r = r"
  using assms by (force simp: filter_id_conv filter_empty_conv)+

lemma insert_scheduled_split:
  assumes "bm_ok m"
  obtains xs ys where "concat (map snd m) = xs @ ys"
    "concat (map snd (bm_alter t (push_info info) m)) = xs @ info # ys"
    "xs = concat (map snd (filter (\<lambda>(k, v). k \<le> t) m))"
    "ys = concat (map snd (filter (\<lambda>(k, v). k > t) m))"
proof (rule bm_alter_split [OF assms, of t "push_info info"])
  fix l r assume s: "m = l @ r" "\<forall>x \<in> set l. fst x < t" "\<forall>x \<in> set r. t < fst x"
    "bm_alter t (push_info info) m = l @ (t, push_info info None) # r" "map_of m t = None"
  have "filter (\<lambda>(k, v). k \<le> t) m = l" "filter (\<lambda>(k, v). k > t) m = r"
    using s(1) filter_key_split [OF s(2,3)] by simp_all
  then show thesis using s by (intro that [of "concat (map snd l)" "concat (map snd r)"]) simp_all
next
  fix l v r assume s: "m = l @ (t, v) # r" "\<forall>x \<in> set l. fst x < t" "\<forall>x \<in> set r. t < fst x"
    "bm_alter t (push_info info) m = l @ (t, push_info info (Some v)) # r" "map_of m t = Some v"
  have "filter (\<lambda>(k, v). k \<le> t) m = l @ [(t, v)]" "filter (\<lambda>(k, v). k > t) m = r"
    using s(1) filter_key_split [OF s(2,3)] by simp_all
  then show thesis
    using s by (intro that [of "concat (map snd l) @ v" "concat (map snd r)"]) simp_all
qed

lemma remove_keys_filter: "remove_keys ks m = filter (\<lambda>(k, v). k \<notin> set ks) m"
  by (induction ks arbitrary: m) (auto simp: bm_remove_def intro!: filter_cong)

lemma remove_keys_range:
  "remove_keys (map fst (filter (\<lambda>(k, v). Q k) m)) m = filter (\<lambda>(k, v). \<not> Q k) m"
  unfolding remove_keys_filter by (rule filter_cong [OF refl]) (auto simp: image_iff)

definition in_window :: "('tp \<Rightarrow> 't::linorder) \<Rightarrow> 'tp TimeWindow \<Rightarrow> 't \<Rightarrow> bool" where
  "in_window unix w t =
     (case time_window_type w of
        SelectAll \<Rightarrow> True
      | TimeTagToTimeTag \<Rightarrow> unix (the (start_time w)) \<le> t \<and> t \<le> unix (the (end_time w))
      | FromTimeTag \<Rightarrow> unix (the (start_time w)) \<le> t
      | ToTimeTag \<Rightarrow> t \<le> unix (the (end_time w)))"

text \<open>A window built by the constructors, with its bounds in order.\<close>

definition window_ok :: "('tp \<Rightarrow> 't::linorder) \<Rightarrow> 'tp TimeWindow \<Rightarrow> bool" where
  "window_ok unix w \<longleftrightarrow>
     w = TimeWindow_new_select_all \<or>
     (\<exists>st en. w = TimeWindow_new_from_time_to_time st en \<and> unix st \<le> unix en) \<or>
     (\<exists>st. w = TimeWindow_new_from_time st) \<or> (\<exists>en. w = TimeWindow_new_to_time en)"

lemmas window_defs =
  TimeWindow_new_select_all_def TimeWindow_new_from_time_to_time_def TimeWindow_new_from_time_def
  TimeWindow_new_to_time_def

lemma retrieve_window:
  "window_ok unix w \<Longrightarrow>
   retrieve_by_time_filter unix s w = Ok (filter (\<lambda>(k, v). in_window unix w k) (tc_map s))"
  by (auto simp: window_ok_def window_defs retrieve_by_time_filter_def in_window_def bm_range_def
      bm_range_from_def bm_range_to_def)

lemma last_match_cases:
  obtains (none) "last_match rid 0 xs None = None" "\<forall>x \<in> set xs. request_id x \<noteq> rid"
    | (found) b1 i b2 where "last_match rid 0 xs None = Some (length b1)" "xs = b1 @ i # b2"
      "request_id i = rid" "\<forall>x \<in> set b2. request_id x \<noteq> rid"
      "remove_at (length b1) xs = b1 @ b2"
proof (cases "\<exists>x \<in> set xs. request_id x = rid")
  case True
  then obtain b1 i b2 where xs: "xs = b1 @ i # b2" "request_id i = rid" "\<forall>x \<in> set b2. request_id x \<noteq> rid"
    using split_list_last_prop_iff [of xs "\<lambda>x. request_id x = rid"] by auto
  have step: "last_match rid k (ys @ zs) f = last_match rid (k + length ys) zs (last_match rid k ys f)" for k ys zs f
    by (induction ys arbitrary: k f) auto
  have tail: "\<forall>x \<in> set zs. request_id x \<noteq> rid \<Longrightarrow> last_match rid k zs f = f" for k zs f
    by (induction zs arbitrary: k f) auto
  have "last_match rid 0 xs None = Some (length b1)" using xs by (simp add: step tail)
  then show ?thesis using xs by (intro found) (auto simp: remove_at_def)
next
  case False
  have tail: "\<forall>x \<in> set zs. request_id x \<noteq> rid \<Longrightarrow> last_match rid k zs f = f" for k zs f
    by (induction zs arbitrary: k f) auto
  show ?thesis using False tail by (intro none) auto
qed

lemma sched_inv_disjoint:
  assumes "sched_inv mp s"
  shows "addr ` set (concat (map snd (filter (\<lambda>(k, v). Q k) (tc_map s)))) \<inter>
    addr ` set (concat (map snd (filter (\<lambda>(k, v). \<not> Q k) (tc_map s)))) = {}"
  using scheduled_split [of addr "tc_map s" "\<lambda>(k, v). Q k"] assms
  by (simp add: sched_inv_def scheduled_def case_prod_unfold)

lemma sched_inv_restrict:
  assumes "sched_inv mp s" and "D \<subseteq> addr ` set (concat (map snd (filter (\<lambda>(k, v). Q k) (tc_map s))))"
  shows "sched_inv (mp |` (- D)) (s\<lparr>tc_map := filter (\<lambda>(k, v). \<not> Q k) (tc_map s)\<rparr>)"
proof -
  let ?s' = "s\<lparr>tc_map := filter (\<lambda>(k, v). \<not> Q k) (tc_map s)\<rparr>"
  have s': "sched_inv mp ?s'" by (rule sched_inv_filter [OF assms(1)])
  have "addr ` set (scheduled ?s') \<inter> D = {}"
    using sched_inv_disjoint [OF assms(1), of Q] assms(2)
    by (auto simp: scheduled_def simp del: set_concat)
  then show ?thesis using s' by (auto simp: sched_inv_def)
qed

lemma insert_sched_inv:
  assumes "sched_inv mp s" and "mp (addr info) = None" and "mp' = mp(addr info \<mapsto> d)"
  shows "sched_inv mp' (s\<lparr>tc_map := bm_alter t (push_info info) (tc_map s)\<rparr>)"
proof -
  have ok: "bm_ok (tc_map s)" and "addr info \<notin> addr ` set (scheduled s)"
    using assms(1,2) by (auto simp: sched_inv_def dom_def)
  from ok obtain xs ys where "concat (map snd (tc_map s)) = xs @ ys"
    "concat (map snd (bm_alter t (push_info info) (tc_map s))) = xs @ info # ys"
    by (rule insert_scheduled_split [where t = t and info = info])
  then have "scheduled s = xs @ ys"
    "scheduled (s\<lparr>tc_map := bm_alter t (push_info info) (tc_map s)\<rparr>) = xs @ info # ys"
    by (simp_all add: scheduled_def)
  then show ?thesis using assms(1,3) ok \<open>addr info \<notin> _\<close> by (auto simp: sched_inv_def)
qed

context pool_provider
begin

lemma release_ok:
  fixes s :: "('t::linorder, 'd) PusScheduler"
  assumes inv: "inv p" and si: "sched_inv (content p) s"
    and spec: "release_spec releaser (enabled s) (content p) (due s) u = (u', D)"
  defines "s' \<equiv> s\<lparr>tc_map := filter (\<lambda>(k, v). k > current_time s) (tc_map s)\<rparr>"
  shows "\<exists>st. release_telecommands ops releaser s p u = (Ok (length (due s)), s', st) \<and>
    rs_user st = u' \<and> inv (rs_pool st) \<and> content (rs_pool st) = content p |` (- D) \<and>
    sched_inv (content (rs_pool st)) s'"
proof -
  let ?Q = "\<lambda>k. k \<le> current_time s"
  let ?st = "\<lparr>rs_released = 0, rs_store_error = None, rs_pool = p, rs_user = u, rs_buf = None\<rparr>"
  have s': "s' = s\<lparr>tc_map := filter (\<lambda>(k, v). \<not> ?Q k) (tc_map s)\<rparr>"
    by (simp add: s'_def not_le)
  have due: "due s = concat (map snd (filter (\<lambda>(k, v). ?Q k) (tc_map s)))"
    by (simp add: due_def telecommands_to_release_def bm_range_to_def)
  have "distinct (map addr (due s))" "addr ` set (due s) \<subseteq> dom (content p)"
    using sched_inv_filter [OF si, of "\<lambda>(k, v). ?Q k"] by (auto simp: sched_inv_def scheduled_def due)
  then obtain p' where p': "release_bucket ops releaser (enabled s) (due s) ?st =
      (Ok (), ?st\<lparr>rs_user := u', rs_released := length (due s), rs_pool := p'\<rparr>)" "inv p'"
      "content p' = content p |` (- D)"
    using release_bucket_ok [of ?st "due s" releaser "enabled s" u' D] inv spec by auto
  have "D \<subseteq> addr ` set (due s)" using release_spec_subset [of releaser "enabled s" "content p" "due s" u] spec by simp
  then have "sched_inv (content p') s'"
    unfolding s' p'(3) due by (rule sched_inv_restrict [OF si])
  moreover have "release_telecommands ops releaser s p u =
      (Ok (length (due s)), s', ?st\<lparr>rs_user := u', rs_released := length (due s), rs_pool := p'\<rparr>)"
    using p'(1) unfolding release_telecommands_def release_telecommands_internal_def release_range_concat
      due_def [symmetric] by (simp add: s'_def bm_retain_def)
  ultimately show ?thesis using p' by auto
qed

lemma delete_window_ok:
  assumes inv: "inv p" and si: "sched_inv (content p) s" and w: "window_ok unix w"
  defines "sel \<equiv> concat (map snd (filter (\<lambda>(k, v). in_window unix w k) (tc_map s)))"
    and "s' \<equiv> s\<lparr>tc_map := filter (\<lambda>(k, v). \<not> in_window unix w k) (tc_map s)\<rparr>"
  shows "\<exists>p'. delete_by_time_filter ops unix s w p = (Ok (length sel), s', p') \<and> inv p' \<and>
    content p' = content p |` (- (addr ` set sel)) \<and> sched_inv (content p') s'"
proof -
  let ?b = "filter (\<lambda>(k, v). in_window unix w k) (tc_map s)"
  have "distinct (map addr sel)" "addr ` set sel \<subseteq> dom (content p)"
    using sched_inv_filter [OF si, of "\<lambda>(k, v). in_window unix w k"]
    by (auto simp: sched_inv_def scheduled_def sel_def)
  then obtain p' where p': "delete_range ops ?b 0 None [] p = (Ok (length sel, None, map fst ?b), p')"
      "inv p'" "content p' = content p |` (- (addr ` set sel))"
    using delete_range_all [OF inv, of ?b 0 None "[]"] by (auto simp: sel_def)
  have "sched_inv (content p') s'"
    unfolding p'(3) s'_def by (rule sched_inv_restrict [OF si]) (simp add: sel_def)
  moreover have "delete_by_time_filter ops unix s w p = (Ok (length sel), s', p')"
    using p'(1) by (simp add: delete_by_time_filter_def retrieve_window [OF w] remove_keys_range s'_def)
  ultimately show ?thesis using p' by blast
qed

lemma reset_ok:
  assumes inv: "inv p" and si: "sched_inv (content p) s"
  shows "\<exists>p'. PusScheduler_reset ops s p = (Ok (), s\<lparr>enabled := False, tc_map := []\<rparr>, p') \<and> inv p' \<and>
    content p' = content p |` (- (addr ` set (scheduled s)))"
  using reset_deletions_all [OF inv, of "scheduled s" "Ok ()"] si
  by (auto simp: sched_inv_def scheduled_def PusScheduler_reset_def)

lemma insert_ok:
  fixes s :: "('t::linorder, 'd) PusScheduler"
  assumes inv: "inv p" and si: "sched_inv (content p) s"
    and tc: "read_tc tc = Inr h" "\<not> (tc_service h = 11 \<and> tc_subservice h = 4)"
    and t: "\<not> t < time_add (current_time s) (time_margin s)"
    and a: "pp_add ops p tc = (Ok a, p')"
  defines "info \<equiv> TcInfo_new a (SchedRequestId_from_tc h)"
    and "s' \<equiv> s\<lparr>tc_map := bm_alter t (push_info (TcInfo_new a (SchedRequestId_from_tc h))) (tc_map s)\<rparr>"
  shows "insert_unwrapped_tc ops read_tc time_add s t tc p = (Ok info, s', p') \<and> inv p' \<and>
    content p' = (content p)(a \<mapsto> tc) \<and> sched_inv (content p') s'"
proof -
  note add = add_ok [OF inv a]
  have "sched_inv (content p') s'"
    unfolding s'_def by (rule insert_sched_inv [OF si]) (use add in \<open>auto simp: TcInfo_new_def\<close>)
  then show ?thesis using add tc t a
    by (auto simp: insert_unwrapped_tc_def insert_unwrapped_and_stored_tc_def info_def s'_def Let_def)
qed

end

end
