(* ===== verification/Scheduler_Pool.thy ===== *)
theory Scheduler_Pool
  imports Scheduler
begin

text \<open>
  The properties of the scheduler with a \<^verbatim>\<open>StaticMemoryPool\<close> as its telecommand store: the lemmas of
  \<^verbatim>\<open>Scheduler\<close>, which hold for every provider of the \<open>pool_provider\<close> contract, at the interpretation
  \<open>static_pool\<close>.
\<close>

lemma delete_request_spec:
  "(\<exists>l k b1 i b2 r. m = l @ (k, b1 @ i # b2) # r \<and> request_id i = rid \<and>
      (\<forall>x \<in> set b2. request_id x \<noteq> rid) \<and> (\<forall>(k', b) \<in> set l. \<forall>x \<in> set b. request_id x \<noteq> rid) \<and>
      delete_by_request_id_internal_without_store_deletion rid m =
        (Some (addr i), l @ (k, b1 @ b2) # r)) \<or>
   (\<forall>x \<in> set (concat (map snd m)). request_id x \<noteq> rid) \<and>
     delete_by_request_id_internal_without_store_deletion rid m = (None, m)"
proof (induction m)
  case (Cons kb m)
  obtain k b where kb: "kb = (k, b)" by fastforce
  show ?case
  proof (cases rule: last_match_cases [of rid b])
    case (found b1 i b2)
    then show ?thesis
      by (intro disjI1 exI [of _ "[]"] exI [of _ k] exI [of _ b1] exI [of _ i] exI [of _ b2] exI [of _ m])
        (simp add: kb)
  next
    case none
    from Cons.IH show ?thesis
    proof (elim disjE exE conjE)
      fix l k' b1 i b2 r
      assume *: "m = l @ (k', b1 @ i # b2) # r" "request_id i = rid" "\<forall>x \<in> set b2. request_id x \<noteq> rid"
        "\<forall>(k', b) \<in> set l. \<forall>x \<in> set b. request_id x \<noteq> rid"
        "delete_by_request_id_internal_without_store_deletion rid m = (Some (addr i), l @ (k', b1 @ b2) # r)"
      then show ?thesis using none
        by (intro disjI1 exI [of _ "(k, b) # l"] exI [of _ k'] exI [of _ b1] exI [of _ i]
            exI [of _ b2] exI [of _ r]) (simp add: kb)
    next
      assume "\<forall>x \<in> set (concat (map snd m)). request_id x \<noteq> rid"
        "delete_by_request_id_internal_without_store_deletion rid m = (None, m)"
      then show ?thesis using none by (auto simp: kb)
    qed
  qed
qed simp

text \<open>
  C15: a release runs the releaser once for every telecommand whose release time has been reached, in
  the order of release times and of insertion at equal times, with the bytes that were stored for it.
  It deletes from the pool exactly the telecommands the releaser asks to delete, keeps exactly the
  later ones in the schedule, returns the number of released commands, and keeps the invariants of
  pool and schedule.
\<close>

theorem sched_release:
  fixes s :: "('t::linorder, 'd) PusScheduler"
  assumes "pool_inv p" and "sched_inv (pool_content p) s"
    and "release_spec releaser (enabled s) (pool_content p) (due s) u = (u', D)"
  shows "\<exists>st. release_telecommands StaticMemoryPool_provider releaser s p u =
      (Ok (length (due s)), s\<lparr>tc_map := filter (\<lambda>(k, v). k > current_time s) (tc_map s)\<rparr>, st) \<and>
    rs_user st = u' \<and> pool_inv (rs_pool st) \<and> pool_content (rs_pool st) = pool_content p |` (- D) \<and>
    sched_inv (pool_content (rs_pool st)) (s\<lparr>tc_map := filter (\<lambda>(k, v). k > current_time s) (tc_map s)\<rparr>)"
  using static_pool.release_ok [OF assms] .

text \<open>
  C17: inserting a telecommand stores its bytes in the pool under a fresh address and appends it to the
  schedule at its release time: behind all commands due at or before that time and before all later
  ones. Pool and schedule invariants are kept.
\<close>

theorem sched_insert:
  fixes s :: "('t::linorder, 'd) PusScheduler" and read_tc :: "bytes \<Rightarrow> 'pe + PusTc"
  assumes "pool_inv p" and "sched_inv (pool_content p) s"
    and "read_tc tc = Inr h" and "\<not> (tc_service h = 11 \<and> tc_subservice h = 4)"
    and "\<not> t < time_add (current_time s) (time_margin s)"
    and "StaticMemoryPool_add p tc = (Ok a, p')"
  shows "\<exists>s'. insert_unwrapped_tc StaticMemoryPool_provider read_tc time_add s t tc p =
      (Ok (TcInfo_new a (SchedRequestId_from_tc h)) :: (('pe, 'te, 't, 'd) ScheduleError, TcInfo) res,
       s', p') \<and>
    pool_inv p' \<and> pool_content p' = (pool_content p)(a \<mapsto> tc) \<and> sched_inv (pool_content p') s' \<and>
    scheduled s' = concat (map snd (filter (\<lambda>(k, v). k \<le> t) (tc_map s))) @
      TcInfo_new a (SchedRequestId_from_tc h) # concat (map snd (filter (\<lambda>(k, v). k > t) (tc_map s)))"
proof -
  let ?info = "TcInfo_new a (SchedRequestId_from_tc h)"
  let ?s' = "s\<lparr>tc_map := bm_alter t (push_info ?info) (tc_map s)\<rparr>"
  have ok: "bm_ok (tc_map s)" using assms(2) by (simp add: sched_inv_def)
  have "scheduled ?s' = concat (map snd (filter (\<lambda>(k, v). k \<le> t) (tc_map s))) @
      ?info # concat (map snd (filter (\<lambda>(k, v). k > t) (tc_map s)))"
    by (rule insert_scheduled_split [OF ok, of t ?info]) (simp add: scheduled_def)
  then show ?thesis
    using static_pool.insert_ok [OF assms(1,2), of read_tc tc h t time_add a p'] assms(3-)
    by auto
qed

text \<open>
  Deleting by a time window removes exactly the telecommands whose release time lies in the
  (inclusive) window, from the schedule and from the pool, and returns their number.
\<close>

lemma sched_delete_window:
  fixes s :: "('t::linorder, 'd) PusScheduler"
  assumes "pool_inv p" and "sched_inv (pool_content p) s" and "window_ok unix w"
  shows "\<exists>p'. delete_by_time_filter StaticMemoryPool_provider unix s w p =
      (Ok (length (concat (map snd (filter (\<lambda>(k, v). in_window unix w k) (tc_map s))))),
       s\<lparr>tc_map := filter (\<lambda>(k, v). \<not> in_window unix w k) (tc_map s)\<rparr>, p') \<and> pool_inv p' \<and>
    pool_content p' = pool_content p |`
      (- (addr ` set (concat (map snd (filter (\<lambda>(k, v). in_window unix w k) (tc_map s)))))) \<and>
    sched_inv (pool_content p') (s\<lparr>tc_map := filter (\<lambda>(k, v). \<not> in_window unix w k) (tc_map s)\<rparr>)"
  using static_pool.delete_window_ok [OF assms] .

text \<open>
  A reset disables the scheduler, empties the schedule and deletes the data of every scheduled
  telecommand from the pool, and of no other element.
\<close>

lemma sched_reset:
  assumes "pool_inv p" and "sched_inv (pool_content p) s"
  shows "\<exists>p'. PusScheduler_reset StaticMemoryPool_provider s p =
      (Ok (), s\<lparr>enabled := False, tc_map := []\<rparr>, p') \<and> pool_inv p' \<and>
    pool_content p' = pool_content p |` (- (addr ` set (scheduled s)))"
  using static_pool.reset_ok [OF assms] .

text \<open>
  Deletion by request id. Either no scheduled telecommand has the id and nothing changes, or
  exactly one telecommand is removed: it is in the earliest time bucket that has the id, and in that
  bucket it is the last one with the id, not the first.
\<close>

lemma sched_delete_by_request_id:
  "(\<exists>l k b1 i b2 r. tc_map s = l @ (k, b1 @ i # b2) # r \<and> request_id i = rid \<and>
      (\<forall>x \<in> set b2. request_id x \<noteq> rid) \<and> (\<forall>(k', b) \<in> set l. \<forall>x \<in> set b. request_id x \<noteq> rid) \<and>
      delete_by_request_id s rid = (Some (addr i), s\<lparr>tc_map := l @ (k, b1 @ b2) # r\<rparr>)) \<or>
   (\<forall>x \<in> set (scheduled s). request_id x \<noteq> rid) \<and> delete_by_request_id s rid = (None, s)"
  using delete_request_spec [of "tc_map s" rid]
  by (elim disjE exE conjE) (fastforce simp: delete_by_request_id_def scheduled_def)+

text \<open>
  A rejected insertion leaks pool memory. When the release time is inside the margin, the call
  fails and the schedule is unchanged, but the packet was added to the pool before the check and stays
  there, under an address nobody holds.
\<close>

lemma sched_insert_margin_leak:
  fixes s :: "('t::linorder, 'd) PusScheduler" and read_tc :: "bytes \<Rightarrow> 'pe + PusTc"
  assumes "pool_inv p"
    and "read_tc tc = Inr h" and "\<not> (tc_service h = 11 \<and> tc_subservice h = 4)"
    and "t < time_add (current_time s) (time_margin s)"
    and "StaticMemoryPool_add p tc = (Ok a, p')"
  shows "insert_unwrapped_tc StaticMemoryPool_provider read_tc time_add s t tc p =
      (Err (ReleaseTimeInTimeMargin (current_time s) (time_margin s) t) ::
         (('pe, 'te, 't, 'd) ScheduleError, TcInfo) res, s, p') \<and>
    pool_content p a = None \<and> pool_content p' = (pool_content p)(a \<mapsto> tc)"
  using static_add_ok [OF assms(1,5)] assms
  by (auto simp: insert_unwrapped_tc_def insert_unwrapped_and_stored_tc_def Let_def)

text \<open>
  C40: a release whose first due telecommand is missing in the pool fails with the read error and
  leaves the schedule as it was, so that every later release fails in the same way: the commands
  behind the missing one are never released.
\<close>

theorem sched_release_stuck:
  assumes "pool_inv p" and "due s = i # is" and "canonical_addr (addr i)"
    and "pool_content p (addr i) = None"
  shows "\<exists>e. release_telecommands StaticMemoryPool_provider releaser s p u =
    (Err (0, e), s, \<lparr>rs_released = 0, rs_store_error = None, rs_pool = p, rs_user = u, rs_buf = None\<rparr>)"
proof -
  obtain e where "PoolProvider_read_as_vec StaticMemoryPool_provider p (addr i) = Err e"
    using static_pool.read_as_vec_none [OF assms(1,3,4)] by blast
  then show ?thesis using assms(2)
    by (simp add: release_telecommands_def release_telecommands_internal_def release_range_concat
        due_def [symmetric] release_one_def release_read_def)
qed

subsection \<open>Witnesses\<close>

definition demo_info :: TcInfo where
  "demo_info = \<lparr>addr = 0, request_id = \<lparr>sr_source_id = 1, sr_apid = 2, sr_seq_count = 3\<rparr>\<rparr>"

definition demo_sched :: "(nat, nat) PusScheduler" where
  "demo_sched = \<lparr>tc_map = [(5, [demo_info])], current_time = 10, time_margin = 2, enabled = True\<rparr>"

definition demo_tc :: PusTc where
  "demo_tc = \<lparr>tc_service = 17, tc_subservice = 1, tc_source_id = 0, tc_apid = 2, tc_seq_count = 0,
     tc_user_data = []\<rparr>"

text \<open>A releaser that records the bytes it gets and asks for the deletion.\<close>

definition demo_releaser :: "bool \<Rightarrow> TcInfo \<Rightarrow> bytes \<Rightarrow> bytes list \<Rightarrow> bool \<times> bytes list" where
  "demo_releaser en info tc log = (True, log @ [tc])"

lemma demo_sched_inv: "sched_inv (pool_content demo_pool) demo_sched"
  using demo_pool_content
  by (auto simp: sched_inv_def scheduled_def demo_sched_def demo_info_def bm_ok_def)

lemma demo_due: "due demo_sched = [demo_info]"
  by (simp add: due_def telecommands_to_release_def bm_range_to_def demo_sched_def)

lemma demo_release_spec:
  "release_spec demo_releaser (enabled demo_sched) (pool_content demo_pool) (due demo_sched) [] =
     ([[5, 6]], {0})"
  by (simp add: demo_due demo_releaser_def demo_info_def demo_pool_content)

theorem sched_release_witness:
  "\<exists>s' st. release_telecommands StaticMemoryPool_provider demo_releaser demo_sched demo_pool [] =
      (Ok 1, s', st) \<and> rs_user st = [[5, 6]] \<and> tc_map s' = []"
  using sched_release [OF demo_pool_inv(1) demo_sched_inv demo_release_spec]
  by (auto simp: demo_due) (simp add: demo_sched_def)

theorem sched_insert_witness:
  "\<exists>s' p'. insert_unwrapped_tc StaticMemoryPool_provider (\<lambda>tc. Inr demo_tc :: unit + PusTc) (+)
      demo_sched 20 [7] demo_pool = (Ok (TcInfo_new 0x10000 (SchedRequestId_from_tc demo_tc)) ::
        ((unit, unit, nat, nat) ScheduleError, TcInfo) res, s', p') \<and>
     pool_content p' 0x10000 = Some [7]"
  using sched_insert [where 'pe = unit and 'te = unit, OF demo_pool_inv(1) demo_sched_inv, of "\<lambda>tc. Inr demo_tc"
      "[7]" demo_tc 20 "(+)" "0x10000" demo_pool_added] demo_pool_add
  by (auto simp: demo_tc_def demo_sched_def)

text \<open>The pool after the deletion of the only stored element.\<close>

lemma demo_pool_deleted:
  obtains p' where "pool_inv p'" "pool_content p' 0 = None"
  using static_delete_some [OF demo_pool_inv(1) demo_pool_content] by auto

theorem sched_release_stuck_witness:
  "\<exists>p e. pool_inv p \<and> (\<exists>st. release_telecommands StaticMemoryPool_provider demo_releaser demo_sched p [] =
    (Err (0, e), demo_sched, st))"
proof -
  obtain p where p: "pool_inv p" "pool_content p 0 = None" by (rule demo_pool_deleted)
  have "canonical_addr (addr demo_info)"
    by (simp add: demo_info_def canonical_addr_def StaticPoolAddr_from_def PoolAddr_from_def)
  then show ?thesis
    using sched_release_stuck [OF p(1) demo_due, of demo_releaser "[]"] p by (auto simp: demo_info_def)
qed

end
