(* ===== verification/Params.thy ===== *)
theory Params
  imports Pool_Provider
begin

text \<open>
  The generic parameters of \<^verbatim>\<open>satrs/src/params.rs\<close>: big-endian conversions of scalars, pairs and
  triplets (one polymorphic function per macro, used at 8 to 64 bits), the parameter enumerations and
  the \<^verbatim>\<open>WritableToBeBytes\<close> implementations. Signed integers and floats are words holding their bit
  patterns, which is what \<^verbatim>\<open>to_be_bytes\<close> writes.
\<close>

subsection \<open>Scalars, pairs and triplets\<close>

definition scalar_to_be_bytes :: "'a::len word \<Rightarrow> bytes" where
  "scalar_to_be_bytes v = to_be_bytes v"

definition pair_to_be_bytes :: "'a::len word \<times> 'a word \<Rightarrow> bytes" where
  "pair_to_be_bytes v =
     (let n = LENGTH('a) div 8; arr = replicate (2 * n) 0
      in overwrite n (to_be_bytes (snd v)) (overwrite 0 (to_be_bytes (fst v)) arr))"

definition triplet_to_be_bytes :: "'a::len word \<times> 'a word \<times> 'a word \<Rightarrow> bytes" where
  "triplet_to_be_bytes v =
     (case v of (a, b, c) \<Rightarrow>
       let n = LENGTH('a) div 8; arr = replicate (3 * n) 0
       in overwrite (2 * n) (to_be_bytes c)
            (overwrite n (to_be_bytes b) (overwrite 0 (to_be_bytes a) arr)))"

definition scalar_try_from :: "bytes \<Rightarrow> (ByteConversionError, 'a::len word) res" where
  "scalar_try_from v =
     (let n = LENGTH('a) div 8
      in if length v < n then Err (FromSliceTooSmall (length v) n)
         else res_map from_be_bytes (slice 0 n v))"

definition pair_try_from :: "bytes \<Rightarrow> (ByteConversionError, 'a::len word \<times> 'a word) res" where
  "pair_try_from v =
     (let n = LENGTH('a) div 8
      in if length v < 2 * n then Err (FromSliceTooSmall (length v) (2 * n))
         else res_bind (slice 0 n v) (\<lambda>a.
              res_bind (slice n (2 * n) v) (\<lambda>b. Ok (from_be_bytes a, from_be_bytes b))))"

definition triplet_try_from ::
    "bytes \<Rightarrow> (ByteConversionError, 'a::len word \<times> 'a word \<times> 'a word) res" where
  "triplet_try_from v =
     (let n = LENGTH('a) div 8
      in if length v < 3 * n then Err (FromSliceTooSmall (length v) (3 * n))
         else res_bind (slice 0 n v) (\<lambda>a.
              res_bind (slice n (2 * n) v) (\<lambda>b.
              res_bind (slice (2 * n) (3 * n) v) (\<lambda>c.
                Ok (from_be_bytes a, from_be_bytes b, from_be_bytes c)))))"

text \<open>The pairs and triplets of 8-bit values have conversions of their own.\<close>

definition U8Pair_to_be_bytes :: "u8 \<times> u8 \<Rightarrow> bytes" where
  "U8Pair_to_be_bytes v = (replicate 2 0)[0 := fst v, 1 := snd v]"

definition U8Triplet_to_be_bytes :: "u8 \<times> u8 \<times> u8 \<Rightarrow> bytes" where
  "U8Triplet_to_be_bytes v = (case v of (a, b, c) \<Rightarrow> (replicate 3 0)[0 := a, 1 := b, 2 := c])"

definition I8Pair_to_be_bytes :: "u8 \<times> u8 \<Rightarrow> bytes" where
  "I8Pair_to_be_bytes v = (replicate 2 0)[0 := fst v, 1 := snd v]"

definition I8Triplet_to_be_bytes :: "u8 \<times> u8 \<times> u8 \<Rightarrow> bytes" where
  "I8Triplet_to_be_bytes v = (case v of (a, b, c) \<Rightarrow> (replicate 3 0)[0 := a, 1 := b, 2 := c])"

text \<open>\<^verbatim>\<open>param_to_be_bytes_impl!\<close>: \<open>arr\<close> is the value's \<^verbatim>\<open>to_be_bytes\<close>, of length \<open>raw_len\<close>.\<close>

definition param_write_to_be_bytes ::
    "nat \<Rightarrow> bytes \<Rightarrow> bytes \<Rightarrow> (ByteConversionError, nat) res \<times> bytes" where
  "param_write_to_be_bytes raw_len arr buf =
     (if length buf < raw_len then (Err (ToSliceTooSmall (length buf) raw_len), buf)
      else (Ok raw_len, overwrite 0 arr buf))"

subsection \<open>Raw parameters\<close>

datatype ParamsRaw =
    U8 u8 | U8Pair "u8 \<times> u8" | U8Triplet "u8 \<times> u8 \<times> u8"
  | I8 u8 | I8Pair "u8 \<times> u8" | I8Triplet "u8 \<times> u8 \<times> u8"
  | U16 u16 | U16Pair "u16 \<times> u16" | U16Triplet "u16 \<times> u16 \<times> u16"
  | I16 u16 | I16Pair "u16 \<times> u16" | I16Triplet "u16 \<times> u16 \<times> u16"
  | U32 u32 | U32Pair "u32 \<times> u32" | U32Triplet "u32 \<times> u32 \<times> u32"
  | I32 u32 | I32Pair "u32 \<times> u32" | I32Triplet "u32 \<times> u32 \<times> u32"
  | F32 u32 | F32Pair "u32 \<times> u32" | F32Triplet "u32 \<times> u32 \<times> u32"
  | U64 u64 | I64 u64 | F64 u64

fun ParamsRaw_written_len :: "ParamsRaw \<Rightarrow> nat" where
  "ParamsRaw_written_len (U8 v) = 1"
| "ParamsRaw_written_len (U8Pair v) = 2"
| "ParamsRaw_written_len (U8Triplet v) = 3"
| "ParamsRaw_written_len (I8 v) = 1"
| "ParamsRaw_written_len (I8Pair v) = 2"
| "ParamsRaw_written_len (I8Triplet v) = 3"
| "ParamsRaw_written_len (U16 v) = 2"
| "ParamsRaw_written_len (U16Pair v) = 4"
| "ParamsRaw_written_len (U16Triplet v) = 6"
| "ParamsRaw_written_len (I16 v) = 2"
| "ParamsRaw_written_len (I16Pair v) = 4"
| "ParamsRaw_written_len (I16Triplet v) = 6"
| "ParamsRaw_written_len (U32 v) = 4"
| "ParamsRaw_written_len (U32Pair v) = 8"
| "ParamsRaw_written_len (U32Triplet v) = 12"
| "ParamsRaw_written_len (I32 v) = 4"
| "ParamsRaw_written_len (I32Pair v) = 8"
| "ParamsRaw_written_len (I32Triplet v) = 12"
| "ParamsRaw_written_len (F32 v) = 4"
| "ParamsRaw_written_len (F32Pair v) = 8"
| "ParamsRaw_written_len (F32Triplet v) = 12"
| "ParamsRaw_written_len (U64 v) = 8"
| "ParamsRaw_written_len (I64 v) = 8"
| "ParamsRaw_written_len (F64 v) = 8"

fun ParamsRaw_to_be_bytes :: "ParamsRaw \<Rightarrow> bytes" where
  "ParamsRaw_to_be_bytes (U8 v) = scalar_to_be_bytes v"
| "ParamsRaw_to_be_bytes (U8Pair v) = U8Pair_to_be_bytes v"
| "ParamsRaw_to_be_bytes (U8Triplet v) = U8Triplet_to_be_bytes v"
| "ParamsRaw_to_be_bytes (I8 v) = scalar_to_be_bytes v"
| "ParamsRaw_to_be_bytes (I8Pair v) = I8Pair_to_be_bytes v"
| "ParamsRaw_to_be_bytes (I8Triplet v) = I8Triplet_to_be_bytes v"
| "ParamsRaw_to_be_bytes (U16 v) = scalar_to_be_bytes v"
| "ParamsRaw_to_be_bytes (U16Pair v) = pair_to_be_bytes v"
| "ParamsRaw_to_be_bytes (U16Triplet v) = triplet_to_be_bytes v"
| "ParamsRaw_to_be_bytes (I16 v) = scalar_to_be_bytes v"
| "ParamsRaw_to_be_bytes (I16Pair v) = pair_to_be_bytes v"
| "ParamsRaw_to_be_bytes (I16Triplet v) = triplet_to_be_bytes v"
| "ParamsRaw_to_be_bytes (U32 v) = scalar_to_be_bytes v"
| "ParamsRaw_to_be_bytes (U32Pair v) = pair_to_be_bytes v"
| "ParamsRaw_to_be_bytes (U32Triplet v) = triplet_to_be_bytes v"
| "ParamsRaw_to_be_bytes (I32 v) = scalar_to_be_bytes v"
| "ParamsRaw_to_be_bytes (I32Pair v) = pair_to_be_bytes v"
| "ParamsRaw_to_be_bytes (I32Triplet v) = triplet_to_be_bytes v"
| "ParamsRaw_to_be_bytes (F32 v) = scalar_to_be_bytes v"
| "ParamsRaw_to_be_bytes (F32Pair v) = pair_to_be_bytes v"
| "ParamsRaw_to_be_bytes (F32Triplet v) = triplet_to_be_bytes v"
| "ParamsRaw_to_be_bytes (U64 v) = scalar_to_be_bytes v"
| "ParamsRaw_to_be_bytes (I64 v) = scalar_to_be_bytes v"
| "ParamsRaw_to_be_bytes (F64 v) = scalar_to_be_bytes v"

definition ParamsRaw_write_to_be_bytes ::
    "ParamsRaw \<Rightarrow> bytes \<Rightarrow> (ByteConversionError, nat) res \<times> bytes" where
  "ParamsRaw_write_to_be_bytes p buf =
     param_write_to_be_bytes (ParamsRaw_written_len p) (ParamsRaw_to_be_bytes p) buf"

subsection \<open>ECSS enumerations\<close>

text \<open>
  The \<^verbatim>\<open>EcssEnum\<close> types belong to the \<^verbatim>\<open>spacepackets\<close> crate: a value is given by its \<^verbatim>\<open>size\<close> and its
  \<^verbatim>\<open>write_to_be_bytes\<close>. What the code relies on is \<open>ecss_enum_writes\<close>: a buffer that is too small is
  refused, otherwise \<^verbatim>\<open>size\<close> bytes are written at its start.
\<close>

record EcssEnumeration =
  ee_size :: nat
  ee_write :: "bytes \<Rightarrow> (ByteConversionError, nat) res \<times> bytes"

definition ecss_enum_writes :: "EcssEnumeration \<Rightarrow> bytes \<Rightarrow> bool" where
  "ecss_enum_writes e bs \<longleftrightarrow>
     length bs = ee_size e \<and>
     (\<forall>buf. ee_write e buf =
        (if length buf < ee_size e then (Err (ToSliceTooSmall (length buf) (ee_size e)), buf)
         else (Ok (ee_size e), overwrite 0 bs buf)))"

datatype ParamsEcssEnum =
    EnumU8 EcssEnumeration | EnumU16 EcssEnumeration | EnumU32 EcssEnumeration
  | EnumU64 EcssEnumeration

definition EcssEnum_write_to_be_bytes ::
    "EcssEnumeration \<Rightarrow> bytes \<Rightarrow> (ByteConversionError, nat) res \<times> bytes" where
  "EcssEnum_write_to_be_bytes e buf =
     (let (r, buf') = ee_write e buf in (res_map (\<lambda>_. ee_size e) r, buf'))"

fun ParamsEcssEnum_written_len :: "ParamsEcssEnum \<Rightarrow> nat" where
  "ParamsEcssEnum_written_len (EnumU8 e) = ee_size e"
| "ParamsEcssEnum_written_len (EnumU16 e) = ee_size e"
| "ParamsEcssEnum_written_len (EnumU32 e) = ee_size e"
| "ParamsEcssEnum_written_len (EnumU64 e) = ee_size e"

fun ParamsEcssEnum_write_to_be_bytes ::
    "ParamsEcssEnum \<Rightarrow> bytes \<Rightarrow> (ByteConversionError, nat) res \<times> bytes" where
  "ParamsEcssEnum_write_to_be_bytes (EnumU8 e) buf = EcssEnum_write_to_be_bytes e buf"
| "ParamsEcssEnum_write_to_be_bytes (EnumU16 e) buf = EcssEnum_write_to_be_bytes e buf"
| "ParamsEcssEnum_write_to_be_bytes (EnumU32 e) buf = EcssEnum_write_to_be_bytes e buf"
| "ParamsEcssEnum_write_to_be_bytes (EnumU64 e) buf = EcssEnum_write_to_be_bytes e buf"

subsection \<open>Heapless and general parameters\<close>

datatype ParamsHeapless = Raw ParamsRaw | EcssEnum ParamsEcssEnum

fun ParamsHeapless_written_len :: "ParamsHeapless \<Rightarrow> nat" where
  "ParamsHeapless_written_len (Raw raw) = ParamsRaw_written_len raw"
| "ParamsHeapless_written_len (EcssEnum ecss_enum) = ParamsEcssEnum_written_len ecss_enum"

fun ParamsHeapless_write_to_be_bytes ::
    "ParamsHeapless \<Rightarrow> bytes \<Rightarrow> (ByteConversionError, nat) res \<times> bytes" where
  "ParamsHeapless_write_to_be_bytes (Raw raw) buf = ParamsRaw_write_to_be_bytes raw buf"
| "ParamsHeapless_write_to_be_bytes (EcssEnum ecss_enum) buf =
     ParamsEcssEnum_write_to_be_bytes ecss_enum buf"

definition ParamsHeapless_to_vec :: "ParamsHeapless \<Rightarrow> (ByteConversionError, bytes) res" where
  "ParamsHeapless_to_vec p =
     (let (r, vec) = ParamsHeapless_write_to_be_bytes p (replicate (ParamsHeapless_written_len p) 0)
      in res_map (\<lambda>_. vec) r)"

text \<open>A string is given by its UTF-8 bytes.\<close>

datatype Params =
    Heapless ParamsHeapless
  | Store PoolAddr
  | Vec bytes
  | String bytes

subsection \<open>Encodings\<close>

lemma overwrite_full: "length ys = length xs \<Longrightarrow> overwrite 0 ys xs = ys"
  by (simp add: overwrite_def)

lemma overwrite_append_right: "length xs = n \<Longrightarrow> overwrite n zs (xs @ ys) = xs @ overwrite 0 zs ys"
  by (simp add: overwrite_def)

lemma pair_to_be_bytes_append:
  "pair_to_be_bytes (a, b) = to_be_bytes a @ to_be_bytes b" for a b :: "'a::len word"
  by (simp add: pair_to_be_bytes_def Let_def overwrite_def)

lemma triplet_to_be_bytes_append:
  "triplet_to_be_bytes (a, b, c) = to_be_bytes a @ to_be_bytes b @ to_be_bytes c" for a b c :: "'a::len word"
  by (simp add: triplet_to_be_bytes_def Let_def overwrite_def)

text \<open>
  Reading back what was written gives the value, for scalars, pairs and triplets of every integer
  width, also when more bytes follow.
\<close>

lemma params_roundtrip:
  fixes a b c :: "'a::len word"
  assumes "8 dvd LENGTH('a)"
  shows "scalar_try_from (scalar_to_be_bytes a @ rest) = Ok a \<and>
    pair_try_from (pair_to_be_bytes (a, b) @ rest) = Ok (a, b) \<and>
    triplet_try_from (triplet_to_be_bytes (a, b, c) @ rest) = Ok (a, b, c)"
  using assms
  by (simp add: scalar_try_from_def scalar_to_be_bytes_def pair_try_from_def triplet_try_from_def
      pair_to_be_bytes_append triplet_to_be_bytes_append slice_def Let_def)

lemma length_encodings [simp]:
  "length (scalar_to_be_bytes (v :: 'a::len word)) = LENGTH('a) div 8"
  "length (pair_to_be_bytes (p :: 'a word \<times> 'a word)) = 2 * (LENGTH('a) div 8)"
  "length (triplet_to_be_bytes (t :: 'a word \<times> 'a word \<times> 'a word)) = 3 * (LENGTH('a) div 8)"
  "length (U8Pair_to_be_bytes p8) = 2" "length (I8Pair_to_be_bytes p8) = 2"
  "length (U8Triplet_to_be_bytes t8) = 3" "length (I8Triplet_to_be_bytes t8) = 3"
  by (cases p; cases t; simp add: scalar_to_be_bytes_def U8Pair_to_be_bytes_def
      I8Pair_to_be_bytes_def U8Triplet_to_be_bytes_def I8Triplet_to_be_bytes_def
      pair_to_be_bytes_append triplet_to_be_bytes_append split: prod.splits)+

lemma length_ParamsRaw_to_be_bytes: "length (ParamsRaw_to_be_bytes p) = ParamsRaw_written_len p"
  by (cases p) simp_all

text \<open>The bytes a heapless parameter stands for.\<close>

fun heapless_bytes :: "ParamsHeapless \<Rightarrow> bytes \<Rightarrow> bool" where
  "heapless_bytes (Raw raw) bs \<longleftrightarrow> bs = ParamsRaw_to_be_bytes raw"
| "heapless_bytes (EcssEnum (EnumU8 e)) bs \<longleftrightarrow> ecss_enum_writes e bs"
| "heapless_bytes (EcssEnum (EnumU16 e)) bs \<longleftrightarrow> ecss_enum_writes e bs"
| "heapless_bytes (EcssEnum (EnumU32 e)) bs \<longleftrightarrow> ecss_enum_writes e bs"
| "heapless_bytes (EcssEnum (EnumU64 e)) bs \<longleftrightarrow> ecss_enum_writes e bs"

lemma length_heapless_bytes: "heapless_bytes p bs \<Longrightarrow> length bs = ParamsHeapless_written_len p"
  by (cases "(p, bs)" rule: heapless_bytes.cases)
    (auto simp: length_ParamsRaw_to_be_bytes ecss_enum_writes_def)

lemma heapless_write:
  "heapless_bytes p bs \<Longrightarrow> ParamsHeapless_write_to_be_bytes p buf =
     (if length buf < ParamsHeapless_written_len p
      then (Err (ToSliceTooSmall (length buf) (ParamsHeapless_written_len p)), buf)
      else (Ok (length bs), bs @ drop (length bs) buf))"
  by (cases "(p, bs)" rule: heapless_bytes.cases)
    (auto simp: length_ParamsRaw_to_be_bytes ecss_enum_writes_def EcssEnum_write_to_be_bytes_def
      ParamsRaw_write_to_be_bytes_def param_write_to_be_bytes_def overwrite_def)

text \<open>
  Writing a heapless parameter fails with the exact sizes when the buffer is too small, and
  otherwise writes exactly the parameter's bytes at the start of the buffer, leaves the rest, and
  returns their number; conversion to a vector gives the same bytes.
\<close>

lemma params_write:
  assumes "heapless_bytes p bs"
  shows "ParamsHeapless_write_to_be_bytes p buf =
      (if length buf < length bs then (Err (ToSliceTooSmall (length buf) (length bs)), buf)
       else (Ok (length bs), bs @ drop (length bs) buf)) \<and>
    ParamsHeapless_to_vec p = Ok bs"
  using heapless_write [OF assms] length_heapless_bytes [OF assms]
  by (simp add: ParamsHeapless_to_vec_def)

end
