(* ===== verification/Events.thy ===== *)
theory Events
  imports Prelude
begin

text \<open>
  Events of \<^verbatim>\<open>satrs/src/events.rs\<close>: severities, the 32-bit and the 16-bit event with their checked and
  panicking constructors, the packing into a raw integer, the conversions back, the typed-severity
  variants (the severity type parameter is an argument), and the byte writer.
\<close>

unbundle bit_operations_syntax

definition MAX_GROUP_ID_U32_EVENT :: u16 where
  "MAX_GROUP_ID_U32_EVENT = 2 ^ 14 - 1"

definition MAX_GROUP_ID_U16_EVENT :: u16 where
  "MAX_GROUP_ID_U16_EVENT = 2 ^ 6 - 1"

datatype Severity = Info | Low | Medium | High

text \<open>\<^verbatim>\<open>severity as u8\<close>, \<^verbatim>\<open>as u16\<close>, \<^verbatim>\<open>as u32\<close>.\<close>

fun Severity_num :: "Severity \<Rightarrow> 'a::len word" where
  "Severity_num Info = 0"
| "Severity_num Low = 1"
| "Severity_num Medium = 2"
| "Severity_num High = 3"

definition Severity_try_from :: "u8 \<Rightarrow> (unit, Severity) res" where
  "Severity_try_from x =
     (if x = Severity_num Info then Ok Info
      else if x = Severity_num Low then Ok Low
      else if x = Severity_num Medium then Ok Medium
      else if x = Severity_num High then Ok High
      else Err ())"

record ('gid, 'uid) EventBase =
  severity :: Severity
  group_id :: 'gid
  unique_id :: 'uid

type_synonym EventU32 = "(u16, u16) EventBase"
type_synonym EventU16 = "(u8, u8) EventBase"

text \<open>\<open>raw_bytes\<close> are the big-endian bytes of the raw event, of length \<open>width\<close>.\<close>

definition EventBase_write_to_bytes ::
    "bytes \<Rightarrow> bytes \<Rightarrow> nat \<Rightarrow> (ByteConversionError, nat) res \<times> bytes" where
  "EventBase_write_to_bytes raw_bytes buf width =
     (if length buf < width then (Err (ToSliceTooSmall (length buf) width), buf)
      else res_try (copy_from_slice raw_bytes buf) buf (\<lambda>buf'. (Ok (length raw_bytes), buf')))"

subsection \<open>32-bit events\<close>

definition EventU32_raw :: "EventU32 \<Rightarrow> u32" where
  "EventU32_raw e =
     push_bit 30 (Severity_num (severity e)) OR push_bit 16 (ucast (group_id e)) OR
     ucast (unique_id e)"

definition EventU32_new_checked :: "Severity \<Rightarrow> u16 \<Rightarrow> u16 \<Rightarrow> EventU32 option" where
  "EventU32_new_checked sev gid uid =
     (if gid > MAX_GROUP_ID_U32_EVENT then None
      else Some \<lparr>severity = sev, group_id = gid, unique_id = uid\<rparr>)"

definition EventU32_new :: "Severity \<Rightarrow> u16 \<Rightarrow> u16 \<Rightarrow> ('e, EventU32) res" where
  "EventU32_new sev gid uid =
     (if gid > MAX_GROUP_ID_U32_EVENT then Panic
      else Ok \<lparr>severity = sev, group_id = gid, unique_id = uid\<rparr>)"

definition EventU32_from :: "u32 \<Rightarrow> ('e, EventU32) res" where
  "EventU32_from raw =
     res_bind (res_unwrap (Severity_try_from (ucast (drop_bit 30 raw AND 0b11)))) (\<lambda>sev.
       let gid = ucast (drop_bit 16 raw AND 0x3FFF); uid = ucast (raw AND 0xFFFF)
       in EventU32_new sev gid uid)"

definition EventU32_from_be_bytes :: "bytes \<Rightarrow> ('e, EventU32) res" where
  "EventU32_from_be_bytes bs = EventU32_from (from_be_bytes bs)"

definition EventU32_write_to_be_bytes ::
    "EventU32 \<Rightarrow> bytes \<Rightarrow> (ByteConversionError, nat) res \<times> bytes" where
  "EventU32_write_to_be_bytes e buf = EventBase_write_to_bytes (to_be_bytes (EventU32_raw e)) buf 4"

definition EventU32_value :: "EventU32 \<Rightarrow> u64" where
  "EventU32_value e = ucast (EventU32_raw e)"

definition EventU32TypedSev_new_checked :: "Severity \<Rightarrow> u16 \<Rightarrow> u16 \<Rightarrow> EventU32 option" where
  "EventU32TypedSev_new_checked SEV gid uid = EventU32_new_checked SEV gid uid"

definition EventU32TypedSev_new :: "Severity \<Rightarrow> u16 \<Rightarrow> u16 \<Rightarrow> ('e, EventU32) res" where
  "EventU32TypedSev_new SEV gid uid = EventU32_new SEV gid uid"

definition EventU32TypedSev_try_from_generic ::
    "Severity \<Rightarrow> Severity \<Rightarrow> u32 \<Rightarrow> (Severity, EventU32) res" where
  "EventU32TypedSev_try_from_generic SEV expected raw =
     res_bind (res_unwrap (Severity_try_from (ucast (drop_bit 30 raw AND 0b11)))) (\<lambda>sev.
       if sev \<noteq> expected then Err sev
       else EventU32TypedSev_new SEV (ucast (drop_bit 16 raw AND 0x3FFF)) (ucast (raw AND 0xFFFF)))"

text \<open>The severity of the target type is the expected one.\<close>

definition EventU32TypedSev_try_from :: "Severity \<Rightarrow> u32 \<Rightarrow> (Severity, EventU32) res" where
  "EventU32TypedSev_try_from SEV raw = EventU32TypedSev_try_from_generic SEV SEV raw"

definition EventU32_eq_typed :: "EventU32 \<Rightarrow> EventU32 \<Rightarrow> bool" where
  "EventU32_eq_typed a b \<longleftrightarrow> EventU32_raw a = EventU32_raw b"

subsection \<open>16-bit events\<close>

definition EventU16_raw :: "EventU16 \<Rightarrow> u16" where
  "EventU16_raw e =
     push_bit 14 (Severity_num (severity e)) OR push_bit 8 (ucast (group_id e)) OR
     ucast (unique_id e)"

definition EventU16_new_checked :: "Severity \<Rightarrow> u8 \<Rightarrow> u8 \<Rightarrow> EventU16 option" where
  "EventU16_new_checked sev gid uid =
     (if gid > 2 ^ 6 - 1 then None
      else Some \<lparr>severity = sev, group_id = gid, unique_id = uid\<rparr>)"

definition EventU16_new :: "Severity \<Rightarrow> u8 \<Rightarrow> u8 \<Rightarrow> ('e, EventU16) res" where
  "EventU16_new sev gid uid =
     (if gid > 2 ^ 6 - 1 then Panic
      else Ok \<lparr>severity = sev, group_id = gid, unique_id = uid\<rparr>)"

definition EventU16_from :: "u16 \<Rightarrow> ('e, EventU16) res" where
  "EventU16_from raw =
     res_bind (res_unwrap (Severity_try_from (ucast (drop_bit 14 raw AND 0b11)))) (\<lambda>sev.
       let gid = ucast (drop_bit 8 raw AND 0x3F); uid = ucast (raw AND 0xFF)
       in EventU16_new sev gid uid)"

definition EventU16_from_be_bytes :: "bytes \<Rightarrow> ('e, EventU16) res" where
  "EventU16_from_be_bytes bs = EventU16_from (from_be_bytes bs)"

definition EventU16_write_to_be_bytes ::
    "EventU16 \<Rightarrow> bytes \<Rightarrow> (ByteConversionError, nat) res \<times> bytes" where
  "EventU16_write_to_be_bytes e buf = EventBase_write_to_bytes (to_be_bytes (EventU16_raw e)) buf 2"

definition EventU16_value :: "EventU16 \<Rightarrow> u64" where
  "EventU16_value e = ucast (EventU16_raw e)"

definition EventU16TypedSev_new_checked :: "Severity \<Rightarrow> u8 \<Rightarrow> u8 \<Rightarrow> EventU16 option" where
  "EventU16TypedSev_new_checked SEV gid uid = EventU16_new_checked SEV gid uid"

definition EventU16TypedSev_new :: "Severity \<Rightarrow> u8 \<Rightarrow> u8 \<Rightarrow> ('e, EventU16) res" where
  "EventU16TypedSev_new SEV gid uid = EventU16_new SEV gid uid"

definition EventU16TypedSev_try_from_generic ::
    "Severity \<Rightarrow> Severity \<Rightarrow> u16 \<Rightarrow> (Severity, EventU16) res" where
  "EventU16TypedSev_try_from_generic SEV expected raw =
     res_bind (res_unwrap (Severity_try_from (ucast (drop_bit 14 raw AND 0b11)))) (\<lambda>sev.
       if sev \<noteq> expected then Err sev
       else EventU16TypedSev_new SEV (ucast (drop_bit 8 raw AND 0x3F)) (ucast (raw AND 0xFF)))"

definition EventU16TypedSev_try_from :: "Severity \<Rightarrow> u16 \<Rightarrow> (Severity, EventU16) res" where
  "EventU16TypedSev_try_from SEV raw = EventU16TypedSev_try_from_generic SEV SEV raw"

definition EventU16_eq_typed :: "EventU16 \<Rightarrow> EventU16 \<Rightarrow> bool" where
  "EventU16_eq_typed a b \<longleftrightarrow> EventU16_raw a = EventU16_raw b"

subsection \<open>Bit fields\<close>

lemma mask_literals:
  "(3 :: 'a::len word) = mask 2" "(0x3F :: 'a word) = mask 6" "(0xFF :: 'a word) = mask 8"
  "(0x3FFF :: 'a word) = mask 14" "(0xFFFF :: 'a word) = mask 16"
  by (simp_all add: mask_eq_exp_minus_1)

lemma take_bit_Severity_num: "take_bit 2 (Severity_num s :: 'a::len word) = Severity_num s"
proof (cases s)
  case High
  have "take_bit 2 (mask 2 :: 'a word) = mask 2" by (auto simp: bit_eq_iff bit_simps)
  then show ?thesis by (simp add: High mask_literals)
next
  case Medium
  have "take_bit 2 (push_bit 1 1 :: 'a word) = push_bit 1 1" by (simp add: take_bit_push_bit)
  then show ?thesis by (simp add: Medium)
next
  case Low
  then show ?thesis by (auto simp: bit_eq_iff bit_simps bit_1_iff)
qed simp

lemma Severity_num_bits: "bit (Severity_num s :: 'a::len word) n \<Longrightarrow> n < 2"
  by (metis bit_take_bit_iff take_bit_Severity_num)

lemma Severity_try_from_num: "Severity_try_from (Severity_num s) = Ok s"
  by (cases s) (simp_all add: Severity_try_from_def)

lemma small_severity:
  assumes "unat (x :: u8) < 4"
  obtains s where "Severity_try_from x = Ok s" "x = Severity_num s"
proof -
  have "unat x = 0 \<or> unat x = 1 \<or> unat x = 2 \<or> unat x = 3" using assms by linarith
  then have "x = 0 \<or> x = 1 \<or> x = 2 \<or> x = 3" by (simp add: word_unat_eq_iff)
  then have "\<exists>s. x = Severity_num s"
    by (auto intro: exI [of _ Info] exI [of _ Low] exI [of _ Medium] exI [of _ High])
  then show ?thesis using that Severity_try_from_num by blast
qed

lemma severity_field:
  fixes raw :: "'a::len word"
  assumes "LENGTH('a) = k + 2"
  obtains s where "Severity_try_from (ucast (drop_bit k raw AND 3)) = Ok s"
    "push_bit k (Severity_num s) = push_bit k (drop_bit k raw)"
proof -
  let ?x = "ucast (drop_bit k raw AND 3) :: u8"
  have "?x = take_bit 2 ?x" unfolding mask_literals
    by (auto simp: bit_eq_iff bit_simps)
  from arg_cong [OF this, of unat] have "unat ?x = take_bit 2 (unat ?x)"
    by (simp only: unsigned_take_bit_eq)
  then have "unat ?x < 4" using take_bit_nat_less_exp [of 2 "unat ?x"] by simp
  then obtain s where s: "Severity_try_from ?x = Ok s" "?x = Severity_num s" by (rule small_severity)
  have "(Severity_num s :: 'a word) = ucast (Severity_num s :: u8)"
    using assms by (cases s) (auto simp: unsigned_ucast_eq)
  then have sb: "bit (Severity_num s :: 'a word) m \<longleftrightarrow> m < 2 \<and> bit raw (k + m)" for m
    unfolding s(2) [symmetric] mask_literals using assms
    by (auto simp: bit_simps dest: bit_imp_le_length)
  have "push_bit k (Severity_num s) = push_bit k (drop_bit k raw)"
    by (rule bit_word_eqI) (auto simp: bit_push_bit_iff bit_drop_bit_eq sb assms)
  then show ?thesis using s that by blast
qed

lemma gid_field: "\<not> (ucast (drop_bit 16 (raw :: u32) AND 0x3FFF) :: u16) > MAX_GROUP_ID_U32_EVENT"
  "\<not> (ucast (drop_bit 8 (raw' :: u16) AND 0x3F) :: u8) > 2 ^ 6 - 1"
proof -
  have small: "x \<le> mask n" if "x = take_bit n x" for x :: "'a::len word" and n
    using that by (metis take_bit_eq_mask word_and_le1)
  have "(ucast (drop_bit 16 raw AND 0x3FFF) :: u16) \<le> mask 14"
    unfolding mask_literals by (intro small) (auto simp: bit_eq_iff bit_simps)
  moreover have "(ucast (drop_bit 8 raw' AND 0x3F) :: u8) \<le> mask 6"
    unfolding mask_literals by (intro small) (auto simp: bit_eq_iff bit_simps)
  ultimately show "\<not> (ucast (drop_bit 16 raw AND 0x3FFF) :: u16) > MAX_GROUP_ID_U32_EVENT"
    "\<not> (ucast (drop_bit 8 raw' AND 0x3F) :: u8) > 2 ^ 6 - 1"
    by (simp_all add: MAX_GROUP_ID_U32_EVENT_def mask_eq_exp_minus_1 not_less)
qed

lemma EventU32_from_total:
  obtains e where "EventU32_from raw = Ok e" "EventU32_raw e = raw"
    "group_id e \<le> MAX_GROUP_ID_U32_EVENT"
    "e = \<lparr>severity = severity e, group_id = ucast (drop_bit 16 raw AND 0x3FFF), unique_id = ucast (raw AND 0xFFFF)\<rparr>"
proof (rule severity_field [of 30 raw])
  fix s assume s: "Severity_try_from (ucast (drop_bit 30 raw AND 3)) = Ok s"
    "push_bit 30 (Severity_num s) = push_bit 30 (drop_bit 30 raw)"
  let ?e = "\<lparr>severity = s, group_id = ucast (drop_bit 16 raw AND 0x3FFF), unique_id = ucast (raw AND 0xFFFF)\<rparr>"
  have "EventU32_from raw = Ok ?e"
    using gid_field(1) [of raw] by (simp add: EventU32_from_def EventU32_new_def s(1))
  moreover have "EventU32_raw ?e = raw"
  proof (rule bit_word_eqI)
    fix n assume "n < LENGTH(32)"
    then show "bit (EventU32_raw ?e) n \<longleftrightarrow> bit raw n"
      unfolding EventU32_raw_def EventBase.simps s(2) mask_literals
      by (cases "n < 30") (auto simp: bit_simps)
  qed
  ultimately show thesis using gid_field(1) [of raw] by (intro that [of ?e]) simp_all
qed simp

lemma EventU16_from_total:
  obtains e where "EventU16_from raw = Ok e" "EventU16_raw e = raw" "group_id e \<le> 2 ^ 6 - 1"
    "e = \<lparr>severity = severity e, group_id = ucast (drop_bit 8 raw AND 0x3F), unique_id = ucast (raw AND 0xFF)\<rparr>"
proof (rule severity_field [of 14 raw])
  fix s assume s: "Severity_try_from (ucast (drop_bit 14 raw AND 3)) = Ok s"
    "push_bit 14 (Severity_num s) = push_bit 14 (drop_bit 14 raw)"
  let ?e = "\<lparr>severity = s, group_id = ucast (drop_bit 8 raw AND 0x3F), unique_id = ucast (raw AND 0xFF)\<rparr>"
  have "EventU16_from raw = Ok ?e"
    using gid_field(2) [of raw] by (simp add: EventU16_from_def EventU16_new_def s(1))
  moreover have "EventU16_raw ?e = raw"
  proof (rule bit_word_eqI)
    fix n assume "n < LENGTH(16)"
    then show "bit (EventU16_raw ?e) n \<longleftrightarrow> bit raw n"
      unfolding EventU16_raw_def EventBase.simps s(2) mask_literals
      by (cases "n < 14") (auto simp: bit_simps)
  qed
  ultimately show thesis using gid_field(2) [of raw] by (intro that [of ?e]) simp_all
qed simp

text \<open>The fields of a raw event are recovered from it.\<close>

lemma unat_bits:
  assumes "unat x < 2 ^ n" and "bit x m"
  shows "m < n"
proof -
  have "bit (take_bit n (unat x)) m"
    using assms by (simp add: take_bit_nat_eq_self bit_unsigned_iff bit_imp_le_length)
  then show ?thesis by (simp add: bit_take_bit_iff)
qed

lemma Severity_num_ucast:
  "(Severity_num s :: u32) = ucast (Severity_num s :: u8)"
  "(Severity_num s :: u16) = ucast (Severity_num s :: u8)"
  by (cases s; simp)+

lemma EventU32_raw_fields:
  assumes "group_id e \<le> MAX_GROUP_ID_U32_EVENT"
  shows "ucast (drop_bit 16 (EventU32_raw e) AND 0x3FFF) = group_id e"
    "ucast (EventU32_raw e AND 0xFFFF) = unique_id e"
    "ucast (drop_bit 30 (EventU32_raw e) AND 3) = (Severity_num (severity e) :: u8)"
proof -
  have "unat (group_id e) < 2 ^ 14"
    using assms by (simp add: word_le_nat_alt MAX_GROUP_ID_U32_EVENT_def)
  note g = unat_bits [OF this]
  note s = Severity_num_bits [of "severity e", where 'a = 8]
  show "ucast (drop_bit 16 (EventU32_raw e) AND 0x3FFF) = group_id e"
    unfolding mask_literals EventU32_raw_def Severity_num_ucast
    by (rule bit_word_eqI) (auto simp: bit_simps dest: g bit_imp_le_length)
  show "ucast (EventU32_raw e AND 0xFFFF) = unique_id e"
    unfolding mask_literals EventU32_raw_def Severity_num_ucast
    by (rule bit_word_eqI) (auto simp: bit_simps)
  show "ucast (drop_bit 30 (EventU32_raw e) AND 3) = (Severity_num (severity e) :: u8)"
    unfolding mask_literals EventU32_raw_def Severity_num_ucast
    by (rule bit_word_eqI) (auto simp: bit_simps dest: g s bit_imp_le_length)
qed

lemma EventU16_raw_fields:
  assumes "group_id e \<le> 2 ^ 6 - 1"
  shows "ucast (drop_bit 8 (EventU16_raw e) AND 0x3F) = group_id e"
    "ucast (EventU16_raw e AND 0xFF) = unique_id e"
    "ucast (drop_bit 14 (EventU16_raw e) AND 3) = (Severity_num (severity e) :: u8)"
proof -
  have "unat (group_id e) < 2 ^ 6"
    using assms by (simp add: word_le_nat_alt)
  note g = unat_bits [OF this]
  note s = Severity_num_bits [of "severity e", where 'a = 8]
  show "ucast (drop_bit 8 (EventU16_raw e) AND 0x3F) = group_id e"
    unfolding mask_literals EventU16_raw_def Severity_num_ucast
    by (rule bit_word_eqI) (auto simp: bit_simps dest: g bit_imp_le_length)
  show "ucast (EventU16_raw e AND 0xFF) = unique_id e"
    unfolding mask_literals EventU16_raw_def Severity_num_ucast
    by (rule bit_word_eqI) (auto simp: bit_simps)
  show "ucast (drop_bit 14 (EventU16_raw e) AND 3) = (Severity_num (severity e) :: u8)"
    unfolding mask_literals EventU16_raw_def Severity_num_ucast
    by (rule bit_word_eqI) (auto simp: bit_simps dest: g s bit_imp_le_length)
qed

subsection \<open>Properties\<close>

text \<open>
  Every 32-bit value is the raw value of an event: the conversion from \<^verbatim>\<open>u32\<close> and from big-endian
  bytes never panics, the event's raw value is the value it came from, and an event with an allowed
  group id is recovered from its raw value.
\<close>

lemma event_u32_roundtrip:
  "(\<exists>e. (EventU32_from raw :: ('e, EventU32) res) = Ok e \<and> EventU32_raw e = raw \<and>
      group_id e \<le> MAX_GROUP_ID_U32_EVENT) \<and>
   (EventU32_new_checked sev gid uid = Some e' \<longrightarrow>
      EventU32_from (EventU32_raw e') = (Ok e' :: ('e, EventU32) res) \<and>
      EventU32_from_be_bytes (to_be_bytes (EventU32_raw e')) = (Ok e' :: ('e, EventU32) res))"
proof -
  have "EventU32_from (EventU32_raw e') = (Ok e' :: ('e, EventU32) res)"
    if "EventU32_new_checked sev gid uid = Some e'"
  proof -
    have g: "group_id e' \<le> MAX_GROUP_ID_U32_EVENT"
      using that by (auto simp: EventU32_new_checked_def split: if_splits)
    note f = EventU32_raw_fields [OF g]
    show ?thesis using g
      by (simp add: EventU32_from_def f Severity_try_from_num EventU32_new_def not_less Let_def)
  qed
  then show ?thesis
    by (auto simp: EventU32_from_be_bytes_def intro: EventU32_from_total [of raw])
qed

text \<open>
  The same for 16-bit events, whose group id has six bits.
\<close>

lemma event_u16_roundtrip:
  "(\<exists>e. (EventU16_from raw :: ('e, EventU16) res) = Ok e \<and> EventU16_raw e = raw \<and> group_id e \<le> 2 ^ 6 - 1) \<and>
   (EventU16_new_checked sev gid uid = Some e' \<longrightarrow>
      EventU16_from (EventU16_raw e') = (Ok e' :: ('e, EventU16) res))"
proof -
  have "EventU16_from (EventU16_raw e') = (Ok e' :: ('e, EventU16) res)"
    if "EventU16_new_checked sev gid uid = Some e'"
  proof -
    have g: "group_id e' \<le> 2 ^ 6 - 1"
      using that by (auto simp: EventU16_new_checked_def split: if_splits)
    note f = EventU16_raw_fields [OF g]
    show ?thesis using g
      by (simp add: EventU16_from_def f Severity_try_from_num EventU16_new_def not_less Let_def)
  qed
  moreover have "\<exists>e. (EventU16_from raw :: ('e, EventU16) res) = Ok e \<and> EventU16_raw e = raw \<and>
      group_id e \<le> 2 ^ 6 - 1"
    by (rule EventU16_from_total [where raw = raw]) auto
  ultimately show ?thesis by blast
qed

text \<open>
  Converting a raw value to an event type of a fixed severity succeeds exactly when the severity
  field of the raw value is that severity, and otherwise returns the severity found.
\<close>

lemma event_typed_severity:
  assumes "EventU32_from raw = (Ok e :: (unit, EventU32) res)"
  shows "EventU32TypedSev_try_from sev raw = (if severity e = sev then Ok e else Err (severity e))"
proof -
  have "(\<exists>s. Severity_try_from (ucast (drop_bit 30 raw AND 3)) = Ok s)"
    using assms by (cases "Severity_try_from (ucast (drop_bit 30 raw AND 3) :: u8)")
      (auto simp: EventU32_from_def)
  then show ?thesis using assms gid_field(1) [of raw]
    by (auto simp: EventU32TypedSev_try_from_def EventU32TypedSev_try_from_generic_def EventU32_from_def
        EventU32TypedSev_new_def EventU32_new_def Let_def)
qed

text \<open>
  Writing an event into a buffer of exactly its width succeeds, into a smaller one fails with the
  exact sizes; a larger buffer makes the writer panic.
\<close>

lemma event_write:
  "EventU32_write_to_be_bytes e buf =
     (if length buf < 4 then (Err (ToSliceTooSmall (length buf) 4), buf)
      else if length buf = 4 then (Ok 4, to_be_bytes (EventU32_raw e))
      else (Panic, buf))"
  by (auto simp: EventU32_write_to_be_bytes_def EventBase_write_to_bytes_def copy_from_slice_def)

end
