(* ===== verification/Messaging.thy ===== *)
theory Messaging
  imports Prelude
begin

text \<open>
  Message queues: the error types of \<^verbatim>\<open>satrs/src/queue.rs\<close>, the channels of \<^verbatim>\<open>std::sync::mpsc\<close> as a
  store of queues, and the targeted messages of \<^verbatim>\<open>satrs/src/request.rs\<close> that are sent over them.
  The locale \<open>message_sender\<close> states what the \<^verbatim>\<open>MessageSender\<close> trait promises; both kinds of mpsc
  senders interpret it.
\<close>

unbundle bit_operations_syntax

subsection \<open>Errors\<close>

datatype GenericSendError =
    RxDisconnected
  | QueueFull "u32 option"
  | TargetDoesNotExist ComponentId

datatype GenericReceiveError = Empty | TxDisconnected "ComponentId option"

datatype GenericTargetedMessagingError = Send GenericSendError | Receive GenericReceiveError

subsection \<open>The channels of the standard library\<close>

text \<open>
  A channel has its queued messages, the bound of a \<^verbatim>\<open>sync_channel\<close>, and whether its receiver and at
  least one of its senders are alive. Sender handles are cloned freely, so a handle is the index of
  its channel in a store, and two handles with one index are clones.
\<close>

record 'm chan =
  ch_queue :: "'m list"
  ch_bound :: nat
  rx_alive :: bool
  tx_alive :: bool

type_synonym 'm net = "nat \<Rightarrow> 'm chan"

datatype TrySendError = TrySendFull | TrySendDisconnected
datatype TryRecvError = TryRecvEmpty | TryRecvDisconnected

definition mpsc_send :: "'m chan \<Rightarrow> 'm \<Rightarrow> (unit, unit) res \<times> 'm chan" where
  "mpsc_send c x =
     (if rx_alive c then (Ok (), c\<lparr>ch_queue := ch_queue c @ [x]\<rparr>) else (Err (), c))"

definition mpsc_try_send :: "'m chan \<Rightarrow> 'm \<Rightarrow> (TrySendError, unit) res \<times> 'm chan" where
  "mpsc_try_send c x =
     (if \<not> rx_alive c then (Err TrySendDisconnected, c)
      else if ch_bound c \<le> length (ch_queue c) then (Err TrySendFull, c)
      else (Ok (), c\<lparr>ch_queue := ch_queue c @ [x]\<rparr>))"

definition mpsc_try_recv :: "'m chan \<Rightarrow> (TryRecvError, 'm) res \<times> 'm chan" where
  "mpsc_try_recv c =
     (case ch_queue c of
        x # xs \<Rightarrow> (Ok x, c\<lparr>ch_queue := xs\<rparr>)
      | [] \<Rightarrow> (Err (if tx_alive c then TryRecvEmpty else TryRecvDisconnected), c))"

text \<open>\<^verbatim>\<open>From<mpsc::SendError>\<close> and \<^verbatim>\<open>From<mpsc::TrySendError>\<close>, also written out at every call site.\<close>

definition GenericSendError_from_send :: "unit \<Rightarrow> GenericSendError" where
  "GenericSendError_from_send e = RxDisconnected"

fun GenericSendError_from_try_send :: "TrySendError \<Rightarrow> GenericSendError" where
  "GenericSendError_from_try_send TrySendFull = QueueFull None"
| "GenericSendError_from_try_send TrySendDisconnected = RxDisconnected"

definition on_chan :: "('m chan \<Rightarrow> ('e, 'a) res \<times> 'm chan) \<Rightarrow> 'm net \<Rightarrow> nat \<Rightarrow> ('e, 'a) res \<times> 'm net" where
  "on_chan f w h = (let (r, c) = f (w h) in (r, w(h := c)))"

subsection \<open>Targeted messages\<close>

record UniqueApidTargetId =
  ut_apid :: u16
  ut_unique_id :: u32

definition UniqueApidTargetId_raw :: "UniqueApidTargetId \<Rightarrow> ComponentId" where
  "UniqueApidTargetId_raw t = push_bit 32 (ucast (ut_apid t)) OR ucast (ut_unique_id t)"

definition UniqueApidTargetId_from :: "u64 \<Rightarrow> UniqueApidTargetId" where
  "UniqueApidTargetId_from raw = \<lparr>ut_apid = ucast (drop_bit 32 raw), ut_unique_id = ucast raw\<rparr>"

text \<open>The telecommand is given by its APID and its application data.\<close>

definition UniqueApidTargetId_from_pus_tc ::
    "u16 \<Rightarrow> bytes \<Rightarrow> (ByteConversionError, UniqueApidTargetId) res" where
  "UniqueApidTargetId_from_pus_tc apid user_data =
     (if length user_data < 4 then Err (FromSliceTooSmall (length user_data) 4)
      else res_bind (slice 0 4 user_data) (\<lambda>b.
        Ok \<lparr>ut_apid = apid, ut_unique_id = from_be_bytes b\<rparr>))"

record MessageMetadata =
  mm_request_id :: u32
  mm_sender_id :: ComponentId

definition MessageMetadata_new :: "u32 \<Rightarrow> ComponentId \<Rightarrow> MessageMetadata" where
  "MessageMetadata_new r s = \<lparr>mm_request_id = r, mm_sender_id = s\<rparr>"

record 'm GenericMessage =
  requestor_info :: MessageMetadata
  message :: 'm

definition GenericMessage_new :: "MessageMetadata \<Rightarrow> 'm \<Rightarrow> 'm GenericMessage" where
  "GenericMessage_new i x = \<lparr>requestor_info = i, message = x\<rparr>"

definition GenericMessage_request_id :: "'m GenericMessage \<Rightarrow> u32" where
  "GenericMessage_request_id x = mm_request_id (requestor_info x)"

definition GenericMessage_sender_id :: "'m GenericMessage \<Rightarrow> ComponentId" where
  "GenericMessage_sender_id x = mm_sender_id (requestor_info x)"

text \<open>The \<^verbatim>\<open>MessageSender\<close> and \<^verbatim>\<open>MessageReceiver\<close> implementations of the mpsc types.\<close>

definition mpsc_Sender_send ::
    "'m GenericMessage net \<Rightarrow> nat \<Rightarrow> 'm GenericMessage \<Rightarrow>
     (GenericTargetedMessagingError, unit) res \<times> 'm GenericMessage net" where
  "mpsc_Sender_send w h x =
     (let (r, w') = on_chan (\<lambda>c. mpsc_send c x) w h
      in (res_map_err (\<lambda>_. Send RxDisconnected) r, w'))"

definition mpsc_SyncSender_send ::
    "'m GenericMessage net \<Rightarrow> nat \<Rightarrow> 'm GenericMessage \<Rightarrow>
     (GenericTargetedMessagingError, unit) res \<times> 'm GenericMessage net" where
  "mpsc_SyncSender_send w h x =
     (let (r, w') = on_chan (\<lambda>c. mpsc_try_send c x) w h
      in (case r of
            Err TrySendFull \<Rightarrow> Err (Send (QueueFull None))
          | Err TrySendDisconnected \<Rightarrow> Err (Send RxDisconnected)
          | Ok u \<Rightarrow> Ok u
          | Panic \<Rightarrow> Panic, w'))"

definition mpsc_Receiver_try_recv ::
    "'m GenericMessage net \<Rightarrow> nat \<Rightarrow>
     (GenericTargetedMessagingError, 'm GenericMessage option) res \<times> 'm GenericMessage net" where
  "mpsc_Receiver_try_recv w h =
     (let (r, w') = on_chan mpsc_try_recv w h
      in (case r of
            Ok x \<Rightarrow> Ok (Some x)
          | Err TryRecvEmpty \<Rightarrow> Ok None
          | Err TryRecvDisconnected \<Rightarrow> Err (Receive (TxDisconnected None))
          | Panic \<Rightarrow> Panic, w'))"

text \<open>
  The trait methods a component calls, with the world they act on: a sender handle of type \<^typ>\<open>'h\<close>
  delivers into it, a receiver handle takes from it.
\<close>

type_synonym ('w, 'h, 'm) MessageSender =
  "'w \<Rightarrow> 'h \<Rightarrow> 'm GenericMessage \<Rightarrow> (GenericTargetedMessagingError, unit) res \<times> 'w"

type_synonym ('w, 'r, 'm) MessageReceiver =
  "'w \<Rightarrow> 'r \<Rightarrow> (GenericTargetedMessagingError, 'm GenericMessage option) res \<times> 'w"

type_synonym 'h MessageSenderMap = "ComponentId \<rightharpoonup> 'h"

definition MessageSenderMap_add_message_target ::
    "'h MessageSenderMap \<Rightarrow> ComponentId \<Rightarrow> 'h \<Rightarrow> 'h MessageSenderMap" where
  "MessageSenderMap_add_message_target m target_id s = m(target_id \<mapsto> s)"

definition MessageSenderMap_send_message ::
    "('w, 'h, 'm) MessageSender \<Rightarrow> 'w \<Rightarrow> 'h MessageSenderMap \<Rightarrow> MessageMetadata \<Rightarrow> ComponentId \<Rightarrow> 'm \<Rightarrow>
     (GenericTargetedMessagingError, unit) res \<times> 'w" where
  "MessageSenderMap_send_message snd_op w m info target x =
     (case m target of
        Some h \<Rightarrow> snd_op w h (GenericMessage_new info x)
      | None \<Rightarrow> (Err (Send (TargetDoesNotExist target)), w))"

record 'r MessageReceiverWithId =
  rw_local_channel_id :: ComponentId
  rw_reply_receiver :: 'r

definition MessageReceiverWithId_try_recv_message ::
    "('w, 'r, 'm) MessageReceiver \<Rightarrow> 'w \<Rightarrow> 'r MessageReceiverWithId \<Rightarrow>
     (GenericTargetedMessagingError, 'm GenericMessage option) res \<times> 'w" where
  "MessageReceiverWithId_try_recv_message rcv w r = rcv w (rw_reply_receiver r)"

record ('h, 'r) MessageSenderAndReceiver =
  local_channel_id :: ComponentId
  message_sender_map :: "'h MessageSenderMap"
  message_receiver :: 'r

definition MessageSenderAndReceiver_new :: "ComponentId \<Rightarrow> 'r \<Rightarrow> ('h, 'r) MessageSenderAndReceiver" where
  "MessageSenderAndReceiver_new i r =
     \<lparr>local_channel_id = i, message_sender_map = Map.empty, message_receiver = r\<rparr>"

definition MessageSenderAndReceiver_add_message_target ::
    "('h, 'r) MessageSenderAndReceiver \<Rightarrow> ComponentId \<Rightarrow> 'h \<Rightarrow> ('h, 'r) MessageSenderAndReceiver" where
  "MessageSenderAndReceiver_add_message_target c t h =
     c\<lparr>message_sender_map := MessageSenderMap_add_message_target (message_sender_map c) t h\<rparr>"

definition MessageSenderAndReceiver_send_message ::
    "('w, 'h, 'm) MessageSender \<Rightarrow> 'w \<Rightarrow> ('h, 'r) MessageSenderAndReceiver \<Rightarrow> u32 \<Rightarrow> ComponentId \<Rightarrow> 'm \<Rightarrow>
     (GenericTargetedMessagingError, unit) res \<times> 'w" where
  "MessageSenderAndReceiver_send_message snd_op w c request_id target_id x =
     MessageSenderMap_send_message snd_op w (message_sender_map c)
       (MessageMetadata_new request_id (local_channel_id c)) target_id x"

definition MessageSenderAndReceiver_try_recv_message ::
    "('w, 'r, 'm) MessageReceiver \<Rightarrow> 'w \<Rightarrow> ('h, 'r) MessageSenderAndReceiver \<Rightarrow>
     (GenericTargetedMessagingError, 'm GenericMessage option) res \<times> 'w" where
  "MessageSenderAndReceiver_try_recv_message rcv w c = rcv w (message_receiver c)"

record ('h0, 'r0, 'h1, 'r1) RequestAndReplySenderAndReceiver =
  rr_local_channel_id :: ComponentId
  request_sender_map :: "'h0 MessageSenderMap"
  reply_receiver :: 'r0
  request_receiver :: 'r1
  reply_sender_map :: "'h1 MessageSenderMap"

definition RequestAndReplySenderAndReceiver_new ::
    "ComponentId \<Rightarrow> 'r1 \<Rightarrow> 'r0 \<Rightarrow> ('h0, 'r0, 'h1, 'r1) RequestAndReplySenderAndReceiver" where
  "RequestAndReplySenderAndReceiver_new i req rep =
     \<lparr>rr_local_channel_id = i, request_sender_map = Map.empty, reply_receiver = rep,
      request_receiver = req, reply_sender_map = Map.empty\<rparr>"

subsection \<open>The contract of a channel\<close>

text \<open>
  What \<^verbatim>\<open>MessageSender\<close> and \<^verbatim>\<open>MessageReceiver\<close> promise about the messages that are under way at a
  handle: a successful send appends to the queue of its own handle, a failed one changes nothing,
  and a receiver takes the oldest message.
\<close>

locale message_sender =
  fixes snd_op :: "('w, 'h, 'm) MessageSender"
    and queue :: "'w \<Rightarrow> 'h \<Rightarrow> 'm GenericMessage list"
  assumes send_ok: "snd_op w h x = (Ok (), w') \<Longrightarrow> queue w' = (queue w)(h := queue w h @ [x])"
    and send_err: "snd_op w h x = (Err e, w') \<Longrightarrow> queue w' = queue w"
    and send_total: "snd_op w h x \<noteq> (Panic, w')"
begin

lemma send_message_cases:
  assumes "MessageSenderMap_send_message snd_op w m info target x = (r, w')"
  shows "(\<exists>h. m target = Some h \<and> r = Ok () \<and>
        queue w' = (queue w)(h := queue w h @ [GenericMessage_new info x])) \<or>
    (\<exists>e. r = Err e \<and> queue w' = queue w \<and> (m target = None \<longrightarrow> e = Send (TargetDoesNotExist target)))"
proof (cases "m target")
  case None
  then show ?thesis using assms by (auto simp: MessageSenderMap_send_message_def)
next
  case (Some h)
  then show ?thesis using assms send_ok send_err send_total
    by (cases r) (auto simp: MessageSenderMap_send_message_def)
qed

end

text \<open>Sending several messages to one target, in order, stopping at the first failure.\<close>

fun send_all ::
    "('w, 'h, 'm) MessageSender \<Rightarrow> 'w \<Rightarrow> ('h, 'r) MessageSenderAndReceiver \<Rightarrow> ComponentId \<Rightarrow> (u32 \<times> 'm) list \<Rightarrow>
     (GenericTargetedMessagingError, unit) res \<times> 'w" where
  "send_all snd_op w c t [] = (Ok (), w)"
| "send_all snd_op w c t ((i, x) # xs) =
     (case MessageSenderAndReceiver_send_message snd_op w c i t x of
        (Ok u, w') \<Rightarrow> send_all snd_op w' c t xs
      | (r, w') \<Rightarrow> (r, w'))"

text \<open>Polling a receiver until it has nothing to give, at most \<^term>\<open>n\<close> times.\<close>

fun recv_all :: "('w, 'r, 'm) MessageReceiver \<Rightarrow> 'w \<Rightarrow> 'r \<Rightarrow> nat \<Rightarrow> 'm GenericMessage list \<times> 'w" where
  "recv_all rcv w r 0 = ([], w)"
| "recv_all rcv w r (Suc n) =
     (case rcv w r of
        (Ok (Some x), w') \<Rightarrow> let (xs, w'') = recv_all rcv w' r n in (x # xs, w'')
      | (_, w') \<Rightarrow> ([], w'))"

locale message_channel = message_sender snd_op queue
  for snd_op :: "('w, 'h, 'm) MessageSender" and queue :: "'w \<Rightarrow> 'h \<Rightarrow> 'm GenericMessage list" +
  fixes rcv :: "('w, 'h, 'm) MessageReceiver"
  assumes recv_some: "queue w h = x # xs \<Longrightarrow> \<exists>w'. rcv w h = (Ok (Some x), w') \<and> queue w' = (queue w)(h := xs)"
    and recv_none: "queue w h = [] \<Longrightarrow> \<exists>r. rcv w h = (r, w) \<and> r \<noteq> Panic \<and> (\<forall>x. r \<noteq> Ok (Some x))"
begin

lemma send_all_queue:
  "send_all snd_op w c t xs = (Ok (), w') \<Longrightarrow> message_sender_map c t = Some h \<Longrightarrow>
   queue w' = (queue w)(h := queue w h @
     map (\<lambda>(i, x). GenericMessage_new (MessageMetadata_new i (local_channel_id c)) x) xs)"
proof (induction xs arbitrary: w)
  case Nil
  then show ?case by simp
next
  case (Cons ix xs)
  obtain i x where ix: "ix = (i, x)" by (cases ix)
  obtain r w1 where s: "MessageSenderAndReceiver_send_message snd_op w c i t x = (r, w1)"
    by (cases "MessageSenderAndReceiver_send_message snd_op w c i t x")
  have r: "r = Ok ()" using Cons.prems(1) ix s by (cases r) auto
  have "queue w1 = (queue w)(h := queue w h @
      [GenericMessage_new (MessageMetadata_new i (local_channel_id c)) x])"
    using send_message_cases [OF s [unfolded MessageSenderAndReceiver_send_message_def]] Cons.prems(2) r
    by auto
  then show ?case using Cons.IH [of w1] Cons.prems ix s r by (simp add: fun_eq_iff)
qed

lemma recv_all_queue:
  "length (queue w h) \<le> n \<Longrightarrow>
   \<exists>w'. recv_all rcv w h n = (queue w h, w') \<and> queue w' = (queue w)(h := [])"
proof (induction n arbitrary: w)
  case 0
  then show ?case by (auto simp: fun_eq_iff)
next
  case (Suc n)
  show ?case
  proof (cases "queue w h")
    case Nil
    then obtain r where "rcv w h = (r, w)" "r \<noteq> Panic" "\<forall>x. r \<noteq> Ok (Some x)"
      using recv_none by blast
    then show ?thesis using Nil
      by (cases r) (auto simp: fun_eq_iff split: option.splits)
  next
    case (Cons x xs)
    then obtain w1 where w1: "rcv w h = (Ok (Some x), w1)" "queue w1 = (queue w)(h := xs)"
      using recv_some by blast
    then have "length (queue w1 h) \<le> n" using Suc.prems Cons by simp
    from Suc.IH [OF this] obtain w2 where
      "recv_all rcv w1 h n = (queue w1 h, w2)" "queue w2 = (queue w1)(h := [])" by blast
    then show ?thesis using Cons w1 by (auto simp: fun_eq_iff)
  qed
qed

end

definition net_queue :: "'m GenericMessage net \<Rightarrow> nat \<Rightarrow> 'm GenericMessage list" where
  "net_queue w h = ch_queue (w h)"

lemma net_queue_upd [simp]: "net_queue (w(h := c)) = (net_queue w)(h := ch_queue c)"
  by (auto simp: net_queue_def fun_eq_iff)

lemmas chan_defs = on_chan_def mpsc_send_def mpsc_try_send_def mpsc_try_recv_def Let_def

lemma net_receiver:
  "net_queue w h = x # xs \<Longrightarrow>
     \<exists>w'. mpsc_Receiver_try_recv w h = (Ok (Some x), w') \<and> net_queue w' = (net_queue w)(h := xs)"
  "net_queue w h = [] \<Longrightarrow>
     \<exists>r. mpsc_Receiver_try_recv w h = (r, w) \<and> r \<noteq> Panic \<and> (\<forall>x. r \<noteq> Ok (Some x))"
  unfolding net_queue_def [of w h] by (auto simp: mpsc_Receiver_try_recv_def chan_defs)

lemma net_Sender:
  "mpsc_Sender_send w h x = (Ok (), w') \<Longrightarrow> net_queue w' = (net_queue w)(h := net_queue w h @ [x])"
  "mpsc_Sender_send w h x = (Err e, w') \<Longrightarrow> net_queue w' = net_queue w"
  "mpsc_Sender_send w h x \<noteq> (Panic, w')"
  unfolding net_queue_def [of w h] by (auto simp: mpsc_Sender_send_def chan_defs split: if_splits)

lemma net_SyncSender:
  "mpsc_SyncSender_send w h x = (Ok (), w') \<Longrightarrow> net_queue w' = (net_queue w)(h := net_queue w h @ [x])"
  "mpsc_SyncSender_send w h x = (Err e, w') \<Longrightarrow> net_queue w' = net_queue w"
  "mpsc_SyncSender_send w h x \<noteq> (Panic, w')"
  unfolding net_queue_def [of w h] by (auto simp: mpsc_SyncSender_send_def chan_defs split: if_splits)

interpretation mpsc_unbounded: message_channel mpsc_Sender_send net_queue mpsc_Receiver_try_recv
  by unfold_locales (rule net_Sender net_receiver; assumption?)+

interpretation mpsc_bounded: message_channel mpsc_SyncSender_send net_queue mpsc_Receiver_try_recv
  by unfold_locales (rule net_SyncSender net_receiver; assumption?)+

subsection \<open>Properties\<close>

definition sent_messages :: "('h, 'r) MessageSenderAndReceiver \<Rightarrow> (u32 \<times> 'm) list \<Rightarrow> 'm GenericMessage list" where
  "sent_messages c xs =
     map (\<lambda>(i, x). GenericMessage_new (MessageMetadata_new i (local_channel_id c)) x) xs"

lemma send_all_bounded:
  assumes "message_sender_map c t = Some h" "rx_alive (w h)" "length (ch_queue (w h)) \<le> ch_bound (w h)"
  shows "\<exists>w'. send_all mpsc_SyncSender_send w c t xs =
      (if length (ch_queue (w h)) + length xs \<le> ch_bound (w h) then Ok () else Err (Send (QueueFull None)), w') \<and>
      net_queue w' = (net_queue w)(h := net_queue w h @
        take (ch_bound (w h) - length (ch_queue (w h))) (sent_messages c xs))"
  using assms
proof (induction xs arbitrary: w)
  case Nil
  then show ?case by (simp add: sent_messages_def)
next
  case (Cons ix xs)
  obtain i x where ix: "ix = (i, x)" by (cases ix)
  let ?m = "GenericMessage_new (MessageMetadata_new i (local_channel_id c)) x"
  let ?w = "w(h := (w h)\<lparr>ch_queue := ch_queue (w h) @ [?m]\<rparr>)"
  have send: "MessageSenderAndReceiver_send_message mpsc_SyncSender_send w c i t x =
      (if ch_bound (w h) \<le> length (ch_queue (w h)) then (Err (Send (QueueFull None)), w) else (Ok (), ?w))"
    using Cons.prems
    by (auto simp: MessageSenderAndReceiver_send_message_def MessageSenderMap_send_message_def
        mpsc_SyncSender_send_def chan_defs)
  show ?case
  proof (cases "ch_bound (w h) \<le> length (ch_queue (w h))")
    case True
    then show ?thesis using send ix Cons.prems by auto
  next
    case False
    then have "net_queue w h @ take (ch_bound (w h) - length (ch_queue (w h))) (sent_messages c (ix # xs)) =
        (net_queue w h @ [?m]) @ take (ch_bound (w h) - Suc (length (ch_queue (w h)))) (sent_messages c xs)"
      using ix by (simp add: sent_messages_def take_Cons' Suc_diff_le)
    moreover have pre: "rx_alive (?w h)" "length (ch_queue (?w h)) \<le> ch_bound (?w h)"
      using Cons.prems False by simp_all
    moreover obtain w' where "send_all mpsc_SyncSender_send ?w c t xs =
        (if length (ch_queue (?w h)) + length xs \<le> ch_bound (?w h) then Ok () else Err (Send (QueueFull None)), w')"
      and "net_queue w' = (net_queue ?w)(h := net_queue ?w h @
        take (ch_bound (?w h) - length (ch_queue (?w h))) (sent_messages c xs))"
      using Cons.IH [of ?w, OF Cons.prems(1) pre] by blast
    ultimately show ?thesis using False send ix by (simp add: net_queue_def [of w h]) (simp add: fun_upd_def)
  qed
qed

text \<open>
  Messages over a bounded channel arrive complete, in order and with the requestor's data. A
  component that sends a list of requests to a target whose queue is empty and alive has exactly
  these requests received, each with its request id and the sender's own id, when they fit the bound;
  otherwise the send that does not fit fails with the queue-full error and exactly the requests
  before it are received. No other queue changes.
\<close>

lemma messaging_fifo:
  assumes "message_sender_map c t = Some h" "rx_alive (w h)" "ch_queue (w h) = []"
  shows "\<exists>w' w''. send_all mpsc_SyncSender_send w c t xs =
      (if length xs \<le> ch_bound (w h) then Ok () else Err (Send (QueueFull None)), w') \<and>
    recv_all mpsc_Receiver_try_recv w' h (length xs) = (take (ch_bound (w h)) (sent_messages c xs), w'') \<and>
    net_queue w'' = net_queue w"
proof -
  obtain w' where s: "send_all mpsc_SyncSender_send w c t xs =
      (if length xs \<le> ch_bound (w h) then Ok () else Err (Send (QueueFull None)), w')"
    and q: "net_queue w' = (net_queue w)(h := take (ch_bound (w h)) (sent_messages c xs))"
    using send_all_bounded [of c t h w xs] assms by (auto simp: net_queue_def)
  have "length (net_queue w' h) \<le> length xs" by (simp add: q sent_messages_def)
  from mpsc_bounded.recv_all_queue [OF this] obtain w'' where
    r: "recv_all mpsc_Receiver_try_recv w' h (length xs) = (net_queue w' h, w'')"
    and "net_queue w'' = (net_queue w')(h := [])" by blast
  then have "net_queue w'' = net_queue w"
    using assms(3) by (auto simp: q net_queue_def fun_eq_iff)
  then show ?thesis using s r q by auto
qed

definition demo_client :: "(nat, nat) MessageSenderAndReceiver" where
  "demo_client = MessageSenderAndReceiver_add_message_target (MessageSenderAndReceiver_new 9 1) 5 0"

definition demo_net :: "u8 GenericMessage net" where
  "demo_net = (\<lambda>_. \<lparr>ch_queue = [], ch_bound = 1, rx_alive = True, tx_alive = True\<rparr>)"

lemma UniqueApidTargetId_roundtrip: "UniqueApidTargetId_from (UniqueApidTargetId_raw t) = t"
proof -
  have "ucast (drop_bit 32 (UniqueApidTargetId_raw t)) = ut_apid t" "ucast (UniqueApidTargetId_raw t) = ut_unique_id t"
    by (auto simp: UniqueApidTargetId_raw_def bit_eq_iff bit_simps dest: bit_imp_le_length)
  then show ?thesis by (simp add: UniqueApidTargetId_from_def)
qed

end
