(* ===== verification/Mode.thy ===== *)
theory Mode
  imports Messaging
begin

text \<open>
  Mode commanding (\<^verbatim>\<open>satrs/src/mode.rs\<close>) and power switching (\<^verbatim>\<open>satrs/src/power.rs\<close>) over the
  messaging of \<^verbatim>\<open>Messaging\<close>: mode values and their byte form, requests and replies, the dispatch of a
  request to its handler, the requestor and handler interfaces, and the switch command senders.
\<close>

subsection \<open>Modes\<close>

record ModeAndSubmode =
  mode :: u32
  submode :: u16

definition RAW_LEN :: nat where
  "RAW_LEN = 4 + 2"

definition ModeAndSubmode_new_mode_only :: "u32 \<Rightarrow> ModeAndSubmode" where
  "ModeAndSubmode_new_mode_only m = \<lparr>mode = m, submode = 0\<rparr>"

definition ModeAndSubmode_new :: "u32 \<Rightarrow> u16 \<Rightarrow> ModeAndSubmode" where
  "ModeAndSubmode_new m s = \<lparr>mode = m, submode = s\<rparr>"

definition ModeAndSubmode_from_be_bytes :: "bytes \<Rightarrow> (ByteConversionError, ModeAndSubmode) res" where
  "ModeAndSubmode_from_be_bytes buf =
     (if length buf < 6 then Err (FromSliceTooSmall (length buf) RAW_LEN)
      else res_bind (slice 0 4 buf) (\<lambda>m. res_bind (slice 4 (4 + 2) buf) (\<lambda>s.
        Ok \<lparr>mode = from_be_bytes m, submode = from_be_bytes s\<rparr>)))"

definition ModeAndSubmode_write_to_be_bytes ::
    "ModeAndSubmode \<Rightarrow> bytes \<Rightarrow> (ByteConversionError, nat) res \<times> bytes" where
  "ModeAndSubmode_write_to_be_bytes v buf =
     (if length buf < RAW_LEN then (Err (ToSliceTooSmall (length buf) RAW_LEN), buf)
      else res_try (copy_into 0 (to_be_bytes (mode v)) buf) buf (\<lambda>buf1.
        res_try (copy_into 4 (to_be_bytes (submode v)) buf1) buf1 (\<lambda>buf2. (Ok RAW_LEN, buf2))))"

record TargetedModeCommand =
  tm_address :: ComponentId
  tm_mode_submode :: ModeAndSubmode

definition TargetedModeCommand_new :: "ComponentId \<Rightarrow> ModeAndSubmode \<Rightarrow> TargetedModeCommand" where
  "TargetedModeCommand_new a v = \<lparr>tm_address = a, tm_mode_submode = v\<rparr>"

datatype ModeRequest =
    ModeInfo ModeAndSubmode
  | SetMode ModeAndSubmode
  | ReadMode
  | AnnounceMode
  | AnnounceModeRecursive

text \<open>The result code \<^verbatim>\<open>ResultU16\<close> of \<^verbatim>\<open>satrs-shared/src/res_code.rs\<close>.\<close>

record ResultU16 =
  rc_group_id :: u8
  rc_unique_id :: u8

datatype ModeReply =
    ModeReply ModeAndSubmode
  | CantReachMode ResultU16
  | WrongMode ModeAndSubmode ModeAndSubmode

datatype ModeError = Messaging GenericTargetedMessagingError

subsection \<open>The request handler\<close>

text \<open>
  The methods an implementation of \<^verbatim>\<open>ModeRequestHandler\<close> gives; the handler's own state and
  everything it can reach is \<^typ>\<open>'s\<close>.
\<close>

record ('s, 'e) ModeRequestHandler =
  mh_mode_and_submode :: "'s \<Rightarrow> ModeAndSubmode"
  mh_start_transition :: "'s \<Rightarrow> MessageMetadata \<Rightarrow> ModeAndSubmode \<Rightarrow> ('e, unit) res \<times> 's"
  mh_announce_mode :: "'s \<Rightarrow> MessageMetadata option \<Rightarrow> bool \<Rightarrow> 's"
  mh_handle_mode_info :: "'s \<Rightarrow> MessageMetadata \<Rightarrow> ModeAndSubmode \<Rightarrow> ('e, unit) res \<times> 's"
  mh_send_mode_reply :: "'s \<Rightarrow> MessageMetadata \<Rightarrow> ModeReply \<Rightarrow> ('e, unit) res \<times> 's"

definition handle_mode_request ::
    "('s, 'e) ModeRequestHandler \<Rightarrow> 's \<Rightarrow> ModeRequest GenericMessage \<Rightarrow> ('e, unit) res \<times> 's" where
  "handle_mode_request ops s request =
     (case message request of
        SetMode m \<Rightarrow> mh_start_transition ops s (requestor_info request) m
      | ReadMode \<Rightarrow> mh_send_mode_reply ops s (requestor_info request) (ModeReply (mh_mode_and_submode ops s))
      | AnnounceMode \<Rightarrow> (Ok (), mh_announce_mode ops s (Some (requestor_info request)) False)
      | AnnounceModeRecursive \<Rightarrow> (Ok (), mh_announce_mode ops s (Some (requestor_info request)) True)
      | ModeInfo info \<Rightarrow> mh_handle_mode_info ops s (requestor_info request) info)"

subsection \<open>Requestor and handler interfaces\<close>

definition SenderMap_send_mode_reply ::
    "('w, 'h, ModeReply) MessageSender \<Rightarrow> 'w \<Rightarrow> 'h MessageSenderMap \<Rightarrow> MessageMetadata \<Rightarrow> ComponentId \<Rightarrow>
     ModeReply \<Rightarrow> (GenericTargetedMessagingError, unit) res \<times> 'w" where
  "SenderMap_send_mode_reply snd_op w m info target x = MessageSenderMap_send_message snd_op w m info target x"

definition SenderMap_send_mode_request ::
    "('w, 'h, ModeRequest) MessageSender \<Rightarrow> 'w \<Rightarrow> 'h MessageSenderMap \<Rightarrow> MessageMetadata \<Rightarrow> ComponentId \<Rightarrow>
     ModeRequest \<Rightarrow> (GenericTargetedMessagingError, unit) res \<times> 'w" where
  "SenderMap_send_mode_request snd_op w m info target x = MessageSenderMap_send_message snd_op w m info target x"

text \<open>\<^verbatim>\<open>ModeReplySender\<close> for \<^verbatim>\<open>MessageSenderAndReceiver\<close>: the requestor is the target of the reply.\<close>

definition ReplySender_send_mode_reply ::
    "('w, 'h, ModeReply) MessageSender \<Rightarrow> 'w \<Rightarrow> ('h, 'r) MessageSenderAndReceiver \<Rightarrow> MessageMetadata \<Rightarrow>
     ModeReply \<Rightarrow> (GenericTargetedMessagingError, unit) res \<times> 'w" where
  "ReplySender_send_mode_reply snd_op w c info x =
     SenderMap_send_mode_reply snd_op w (message_sender_map c)
       (MessageMetadata_new (mm_request_id info) (local_channel_id c)) (mm_sender_id info) x"

definition RequestSender_send_mode_request ::
    "('w, 'h, ModeRequest) MessageSender \<Rightarrow> 'w \<Rightarrow> ('h, 'r) MessageSenderAndReceiver \<Rightarrow> u32 \<Rightarrow> ComponentId \<Rightarrow>
     ModeRequest \<Rightarrow> (GenericTargetedMessagingError, unit) res \<times> 'w" where
  "RequestSender_send_mode_request snd_op w c request_id target_id x =
     SenderMap_send_mode_request snd_op w (message_sender_map c)
       (MessageMetadata_new request_id (local_channel_id c)) target_id x"

text \<open>\<^verbatim>\<open>ModeRequestHandlerInterface\<close> and \<^verbatim>\<open>ModeRequestorInterface\<close>.\<close>

definition HandlerInterface_try_recv_mode_request ::
    "('w, 'r, ModeRequest) MessageReceiver \<Rightarrow> 'w \<Rightarrow> ('h, 'r) MessageSenderAndReceiver \<Rightarrow>
     (GenericTargetedMessagingError, ModeRequest GenericMessage option) res \<times> 'w" where
  "HandlerInterface_try_recv_mode_request rcv w c = MessageSenderAndReceiver_try_recv_message rcv w c"

definition HandlerInterface_send_mode_reply ::
    "('w, 'h, ModeReply) MessageSender \<Rightarrow> 'w \<Rightarrow> ('h, 'r) MessageSenderAndReceiver \<Rightarrow> MessageMetadata \<Rightarrow>
     ModeReply \<Rightarrow> (GenericTargetedMessagingError, unit) res \<times> 'w" where
  "HandlerInterface_send_mode_reply snd_op w c info x =
     MessageSenderAndReceiver_send_message snd_op w c (mm_request_id info) (mm_sender_id info) x"

definition RequestorInterface_try_recv_mode_reply ::
    "('w, 'r, ModeReply) MessageReceiver \<Rightarrow> 'w \<Rightarrow> ('h, 'r) MessageSenderAndReceiver \<Rightarrow>
     (GenericTargetedMessagingError, ModeReply GenericMessage option) res \<times> 'w" where
  "RequestorInterface_try_recv_mode_reply rcv w c = MessageSenderAndReceiver_try_recv_message rcv w c"

definition RequestorInterface_send_mode_request ::
    "('w, 'h, ModeRequest) MessageSender \<Rightarrow> 'w \<Rightarrow> ('h, 'r) MessageSenderAndReceiver \<Rightarrow> u32 \<Rightarrow> ComponentId \<Rightarrow>
     ModeRequest \<Rightarrow> (GenericTargetedMessagingError, unit) res \<times> 'w" where
  "RequestorInterface_send_mode_request snd_op w c request_id target_id x =
     MessageSenderAndReceiver_send_message snd_op w c request_id target_id x"

text \<open>\<^verbatim>\<open>ModeInterface\<close>: both roles in one component.\<close>

definition ModeInterface_add_reply_target ::
    "('h0, 'r0, 'h1, 'r1) RequestAndReplySenderAndReceiver \<Rightarrow> ComponentId \<Rightarrow> 'h1 \<Rightarrow>
     ('h0, 'r0, 'h1, 'r1) RequestAndReplySenderAndReceiver" where
  "ModeInterface_add_reply_target c t h =
     c\<lparr>reply_sender_map := MessageSenderMap_add_message_target (reply_sender_map c) t h\<rparr>"

definition ModeInterface_add_request_target ::
    "('h0, 'r0, 'h1, 'r1) RequestAndReplySenderAndReceiver \<Rightarrow> ComponentId \<Rightarrow> 'h0 \<Rightarrow>
     ('h0, 'r0, 'h1, 'r1) RequestAndReplySenderAndReceiver" where
  "ModeInterface_add_request_target c t h =
     c\<lparr>request_sender_map := MessageSenderMap_add_message_target (request_sender_map c) t h\<rparr>"

definition ModeInterface_send_mode_reply ::
    "('w, 'h1, ModeReply) MessageSender \<Rightarrow> 'w \<Rightarrow> ('h0, 'r0, 'h1, 'r1) RequestAndReplySenderAndReceiver \<Rightarrow>
     MessageMetadata \<Rightarrow> ModeReply \<Rightarrow> (GenericTargetedMessagingError, unit) res \<times> 'w" where
  "ModeInterface_send_mode_reply snd_op w c info x =
     SenderMap_send_mode_reply snd_op w (reply_sender_map c)
       (MessageMetadata_new (mm_request_id info) (rr_local_channel_id c)) (mm_sender_id info) x"

definition ModeInterface_send_mode_request ::
    "('w, 'h0, ModeRequest) MessageSender \<Rightarrow> 'w \<Rightarrow> ('h0, 'r0, 'h1, 'r1) RequestAndReplySenderAndReceiver \<Rightarrow>
     u32 \<Rightarrow> ComponentId \<Rightarrow> ModeRequest \<Rightarrow> (GenericTargetedMessagingError, unit) res \<times> 'w" where
  "ModeInterface_send_mode_request snd_op w c request_id target_id x =
     SenderMap_send_mode_request snd_op w (request_sender_map c)
       (MessageMetadata_new request_id (rr_local_channel_id c)) target_id x"

definition ModeInterface_try_recv_mode_request ::
    "('w, 'r1, ModeRequest) MessageReceiver \<Rightarrow> 'w \<Rightarrow> ('h0, 'r0, 'h1, 'r1) RequestAndReplySenderAndReceiver \<Rightarrow>
     (GenericTargetedMessagingError, ModeRequest GenericMessage option) res \<times> 'w" where
  "ModeInterface_try_recv_mode_request rcv w c = rcv w (request_receiver c)"

definition ModeInterface_try_recv_mode_reply ::
    "('w, 'r0, ModeReply) MessageReceiver \<Rightarrow> 'w \<Rightarrow> ('h0, 'r0, 'h1, 'r1) RequestAndReplySenderAndReceiver \<Rightarrow>
     (GenericTargetedMessagingError, ModeReply GenericMessage option) res \<times> 'w" where
  "ModeInterface_try_recv_mode_reply rcv w c = rcv w (reply_receiver c)"

subsection \<open>Power switches\<close>

datatype SwitchState = SwitchOff | SwitchOn | SwitchUnknown | SwitchFaulty
datatype SwitchStateBinary = BinaryOff | BinaryOn

fun SwitchStateBinary_try_from :: "SwitchState \<Rightarrow> (unit, SwitchStateBinary) res" where
  "SwitchStateBinary_try_from SwitchOff = Ok BinaryOff"
| "SwitchStateBinary_try_from SwitchOn = Ok BinaryOn"
| "SwitchStateBinary_try_from _ = Err ()"

definition SwitchStateBinary_from :: "u64 \<Rightarrow> SwitchStateBinary" where
  "SwitchStateBinary_from v = (if v = 0 then BinaryOff else BinaryOn)"

fun SwitchState_from :: "SwitchStateBinary \<Rightarrow> SwitchState" where
  "SwitchState_from BinaryOff = SwitchOff"
| "SwitchState_from BinaryOn = SwitchOn"

text \<open>\<^verbatim>\<open>PowerSwitchInfo::is_switch_on\<close>, over the state lookup an implementation gives.\<close>

definition is_switch_on :: "('id \<Rightarrow> ('e, SwitchState) res) \<Rightarrow> 'id \<Rightarrow> ('e, bool) res" where
  "is_switch_on switch_state i = res_bind (switch_state i) (\<lambda>st. Ok (st = SwitchOn))"

record SwitchRequest =
  switch_id :: u16
  target_state :: SwitchStateBinary

definition switch_cmd :: "MessageMetadata \<Rightarrow> u16 \<Rightarrow> SwitchStateBinary \<Rightarrow> SwitchRequest GenericMessage" where
  "switch_cmd info i st = GenericMessage_new info \<lparr>switch_id = i, target_state = st\<rparr>"

definition MpscSwitchCmdSender_send_switch_on_cmd ::
    "SwitchRequest GenericMessage net \<Rightarrow> nat \<Rightarrow> MessageMetadata \<Rightarrow> u16 \<Rightarrow>
     (GenericSendError, unit) res \<times> SwitchRequest GenericMessage net" where
  "MpscSwitchCmdSender_send_switch_on_cmd w h info i =
     (let (r, w') = on_chan (\<lambda>c. mpsc_send c (switch_cmd info i BinaryOn)) w h
      in (res_map_err (\<lambda>_. RxDisconnected) r, w'))"

definition MpscSwitchCmdSender_send_switch_off_cmd ::
    "SwitchRequest GenericMessage net \<Rightarrow> nat \<Rightarrow> MessageMetadata \<Rightarrow> u16 \<Rightarrow>
     (GenericSendError, unit) res \<times> SwitchRequest GenericMessage net" where
  "MpscSwitchCmdSender_send_switch_off_cmd w h info i =
     (let (r, w') = on_chan (\<lambda>c. mpsc_send c (switch_cmd info i BinaryOff)) w h
      in (res_map_err (\<lambda>_. RxDisconnected) r, w'))"

definition MpscSwitchCmdSenderBounded_send_switch_on_cmd ::
    "SwitchRequest GenericMessage net \<Rightarrow> nat \<Rightarrow> MessageMetadata \<Rightarrow> u16 \<Rightarrow>
     (GenericSendError, unit) res \<times> SwitchRequest GenericMessage net" where
  "MpscSwitchCmdSenderBounded_send_switch_on_cmd w h info i =
     (let (r, w') = on_chan (\<lambda>c. mpsc_try_send c (switch_cmd info i BinaryOn)) w h
      in (res_map_err GenericSendError_from_try_send r, w'))"

definition MpscSwitchCmdSenderBounded_send_switch_off_cmd ::
    "SwitchRequest GenericMessage net \<Rightarrow> nat \<Rightarrow> MessageMetadata \<Rightarrow> u16 \<Rightarrow>
     (GenericSendError, unit) res \<times> SwitchRequest GenericMessage net" where
  "MpscSwitchCmdSenderBounded_send_switch_off_cmd w h info i =
     (let (r, w') = on_chan (\<lambda>c. mpsc_try_send c (switch_cmd info i BinaryOff)) w h
      in (res_map_err GenericSendError_from_try_send r, w'))"

subsection \<open>Mode values as bytes\<close>

lemma mode_write:
  "ModeAndSubmode_write_to_be_bytes v buf =
     (if length buf < 6 then (Err (ToSliceTooSmall (length buf) 6), buf)
      else (Ok 6, to_be_bytes (mode v) @ to_be_bytes (submode v) @ drop 6 buf))"
  by (simp add: ModeAndSubmode_write_to_be_bytes_def RAW_LEN_def copy_into_def overwrite_def)

lemma mode_bytes_roundtrip:
  "ModeAndSubmode_from_be_bytes (to_be_bytes (mode v) @ to_be_bytes (submode v) @ rest) = Ok v"
  by (simp add: ModeAndSubmode_from_be_bytes_def slice_def)

subsection \<open>Properties\<close>

text \<open>
  A mode read is answered to the right requestor. The requestor sends a read request to the
  handler, the handler takes it from its queue and dispatches it, and the requestor then receives one
  reply, which carries the handler's mode, the id of the request and the id of the handler. The only
  relied-on behaviour of the handler is that its replies go out through its reply interface.
\<close>

lemma mode_read_reply:
  fixes w :: "ModeRequest GenericMessage net" and v :: "ModeReply GenericMessage net"
    and requestor handler :: "(nat, nat) MessageSenderAndReceiver"
  assumes target: "message_sender_map requestor (local_channel_id handler) = Some (message_receiver handler)"
    and route: "message_sender_map handler (local_channel_id requestor) = Some (message_receiver requestor)"
    and empty: "ch_queue (w (message_receiver handler)) = []" "ch_queue (v (message_receiver requestor)) = []"
    and alive: "rx_alive (w (message_receiver handler))" "rx_alive (v (message_receiver requestor))"
    and reply: "\<And>v u info x. mh_send_mode_reply ops (v, u) info x =
      (let (r, v') = HandlerInterface_send_mode_reply mpsc_Sender_send v handler info x
       in (res_map_err Messaging r, (v', u)))"
  shows "\<exists>w1 req w2 v' v''.
    RequestorInterface_send_mode_request mpsc_Sender_send w requestor rid (local_channel_id handler) ReadMode =
      (Ok (), w1) \<and>
    HandlerInterface_try_recv_mode_request mpsc_Receiver_try_recv w1 handler = (Ok (Some req), w2) \<and>
    handle_mode_request ops (v, u) req = (Ok (), (v', u)) \<and>
    RequestorInterface_try_recv_mode_reply mpsc_Receiver_try_recv v' requestor =
      (Ok (Some \<lparr>requestor_info = \<lparr>mm_request_id = rid, mm_sender_id = local_channel_id handler\<rparr>,
                 message = ModeReply (mh_mode_and_submode ops (v, u))\<rparr>), v'')"
  using target route empty alive
  by (simp add: RequestorInterface_send_mode_request_def HandlerInterface_try_recv_mode_request_def
      RequestorInterface_try_recv_mode_reply_def HandlerInterface_send_mode_reply_def reply
      handle_mode_request_def MessageSenderAndReceiver_send_message_def
      MessageSenderAndReceiver_try_recv_message_def MessageSenderMap_send_message_def
      mpsc_Sender_send_def mpsc_Receiver_try_recv_def chan_defs GenericMessage_new_def MessageMetadata_new_def)

definition demo_requestor :: "(nat, nat) MessageSenderAndReceiver" where
  "demo_requestor = MessageSenderAndReceiver_add_message_target (MessageSenderAndReceiver_new 9 1) 5 0"

definition demo_handler :: "(nat, nat) MessageSenderAndReceiver" where
  "demo_handler = MessageSenderAndReceiver_add_message_target (MessageSenderAndReceiver_new 5 0) 9 1"

definition empty_net :: "'m net" where
  "empty_net = (\<lambda>_. \<lparr>ch_queue = [], ch_bound = 0, rx_alive = True, tx_alive = True\<rparr>)"

definition demo_handler_ops :: "(ModeReply GenericMessage net \<times> ModeAndSubmode, ModeError) ModeRequestHandler" where
  "demo_handler_ops =
     \<lparr>mh_mode_and_submode = snd,
      mh_start_transition = (\<lambda>(v, u) info m. (Ok (), (v, m))),
      mh_announce_mode = (\<lambda>s info recursive. s),
      mh_handle_mode_info = (\<lambda>s info m. (Ok (), s)),
      mh_send_mode_reply = (\<lambda>(v, u) info x.
        let (r, v') = HandlerInterface_send_mode_reply mpsc_Sender_send v demo_handler info x
        in (res_map_err Messaging r, (v', u)))\<rparr>"

end
