(* ===== verification/Pus_Types.thy ===== *)
theory Pus_Types
  imports Messaging Params
begin

text \<open>
  The shared types of the PUS services (\<^verbatim>\<open>satrs/src/pus/mod.rs\<close>): what a telemetry sender is given,
  the error of the telemetry and telecommand paths, and the sender interface with the locale
  \<open>tm_sender\<close> that states what senders promise.

  The packet types of the \<^verbatim>\<open>spacepackets\<close> crate enter in two ways: a \<^verbatim>\<open>PusTmCreator\<close> is the record of
  the arguments it is constructed with, and conversions and constants of the crate are the fields of
  the parameter record \<open>Spacepackets\<close>, with the documented facts about them in \<open>spacepackets_ok\<close>.
\<close>

unbundle bit_operations_syntax

subsection \<open>The packet library\<close>

text \<open>\<^verbatim>\<open>SpHeader::new_for_unseg_tm\<close> and \<^verbatim>\<open>PusTmSecondaryHeader::new\<close> with the source data.\<close>

record PusTmCreator =
  pt_apid :: u16
  pt_seq_count :: u16
  pt_service :: u8
  pt_subservice :: u8
  pt_msg_counter :: u16
  pt_dest_id :: u16
  pt_time_stamp :: bytes
  pt_source_data :: bytes

text \<open>The subservices of the verification service, \<^verbatim>\<open>spacepackets::ecss::verification::Subservice\<close>.\<close>

datatype VerifSubservice =
    TmAcceptanceSuccess | TmAcceptanceFailure | TmStartSuccess | TmStartFailure
  | TmStepSuccess | TmStepFailure | TmCompletionSuccess | TmCompletionFailure

record ('pid, 'psc) Spacepackets =
  pid_raw :: "'pid \<Rightarrow> u16"
  pid_from :: "u16 \<Rightarrow> 'pid"
  psc_raw :: "'psc \<Rightarrow> u16"
  psc_from :: "u16 \<Rightarrow> 'psc"
  MAX_APID :: u16
  verif_subservice :: "VerifSubservice \<Rightarrow> u8"

text \<open>
  Documented behaviour: a packet id has thirteen bits and is read from the low thirteen bits of a word,
  both identifiers are determined by their raw value, and the subservice numbers are those of ECSS-E-ST-70-41C.
\<close>

definition spacepackets_ok :: "('pid, 'psc) Spacepackets \<Rightarrow> bool" where
  "spacepackets_ok sp \<longleftrightarrow>
     (\<forall>p. pid_from sp (pid_raw sp p) = p \<and> pid_raw sp p \<le> mask 13) \<and>
     (\<forall>w. pid_from sp (w AND mask 13) = pid_from sp w) \<and>
     (\<forall>s. psc_from sp (psc_raw sp s) = s) \<and>
     map (verif_subservice sp) [TmAcceptanceSuccess, TmAcceptanceFailure, TmStartSuccess, TmStartFailure,
       TmStepSuccess, TmStepFailure, TmCompletionSuccess, TmCompletionFailure] = [1, 2, 3, 4, 5, 6, 7, 8]"

text \<open>\<^verbatim>\<open>PusError\<close>: the variant the code builds, and the others of the crate.\<close>

datatype 'pe PusError = PusByteConversion ByteConversionError | PusOther 'pe

subsection \<open>Telemetry and errors\<close>

datatype HandlingStatus = HandledOne | HandledEmpty

datatype PusTmVariant = InStore PoolAddr | Direct PusTmCreator

datatype 'pe EcssTmtcError =
    TmtcStore PoolError
  | TmtcByteConversion ByteConversionError
  | TmtcPus "'pe PusError"
  | CantSendAddr PoolAddr
  | CantSendDirectTm
  | TmtcSend GenericSendError
  | TmtcReceive GenericReceiveError

text \<open>\<^verbatim>\<open>EcssTmSender::send_tm\<close> over the state \<^typ>\<open>'s\<close> the sender delivers into.\<close>

type_synonym ('s, 'pe) EcssTmSender =
  "'s \<Rightarrow> ComponentId \<Rightarrow> PusTmVariant \<Rightarrow> ('pe EcssTmtcError, unit) res \<times> 's"

definition EcssTmDummySender_send_tm :: "('s, 'pe) EcssTmSender" where
  "EcssTmDummySender_send_tm s source_id tm = (Ok (), s)"

definition source_buffer_large_enough :: "nat \<Rightarrow> nat \<Rightarrow> (ByteConversionError, unit) res" where
  "source_buffer_large_enough cap len = (if len > cap then Err (ToSliceTooSmall cap len) else Ok ())"

subsection \<open>The sender contract\<close>

text \<open>
  A sender has a queue of messages in its state. A successful send appends the one message that
  carries the telemetry, any failure leaves the queue as it was, and a send never panics.
\<close>

locale tm_sender =
  fixes send_tm :: "('s, 'pe) EcssTmSender"
    and tm_queue :: "'s \<Rightarrow> 'm list"
    and carries :: "'s \<Rightarrow> 'm \<Rightarrow> ComponentId \<Rightarrow> PusTmVariant \<Rightarrow> bool"
    and tm_inv :: "'s \<Rightarrow> bool"
  assumes send_tm_ok: "tm_inv s \<Longrightarrow> send_tm s i tm = (Ok (), s') \<Longrightarrow>
      \<exists>m. tm_queue s' = tm_queue s @ [m] \<and> carries s' m i tm"
    and send_tm_err: "tm_inv s \<Longrightarrow> send_tm s i tm = (Err e, s') \<Longrightarrow> tm_queue s' = tm_queue s"
    and send_tm_total: "tm_inv s \<Longrightarrow> send_tm s i tm \<noteq> (Panic, s')"
    and send_tm_inv: "tm_inv s \<Longrightarrow> send_tm s i tm = (r, s') \<Longrightarrow> tm_inv s'"
    and carries_kept: "tm_inv s \<Longrightarrow> send_tm s i tm = (r, s') \<Longrightarrow> m \<in> set (tm_queue s) \<Longrightarrow>
      carries s m j tm' \<Longrightarrow> carries s' m j tm'"

end
