(* ===== verification/Verification.thy ===== *)
theory Verification
  imports Pus_Types
begin

text \<open>
  The verification reporter of the PUS services (\<^verbatim>\<open>satrs/src/pus/verification.rs\<close>): request ids and
  their four-byte form, tokens that carry the progress of a telecommand in their type, the creation
  of the eight verification reports in a source data buffer, and the reporter that sends them.
\<close>

unbundle bit_operations_syntax

subsection \<open>Request ids\<close>

record ('pid, 'psc) RequestId =
  version_number :: u8
  packet_id :: 'pid
  psc :: 'psc

definition SIZE_AS_BYTES :: nat where
  "SIZE_AS_BYTES = 4"

text \<open>\<^verbatim>\<open>RequestId::new\<close>: the telecommand is given by its three CCSDS fields.\<close>

definition RequestId_new :: "u8 \<Rightarrow> 'pid \<Rightarrow> 'psc \<Rightarrow> ('pid, 'psc) RequestId" where
  "RequestId_new ver pid ps = \<lparr>version_number = ver, packet_id = pid, psc = ps\<rparr>"

definition RequestId_raw :: "('pid, 'psc) Spacepackets \<Rightarrow> ('pid, 'psc) RequestId \<Rightarrow> u32" where
  "RequestId_raw sp r =
     push_bit 29 (ucast (version_number r)) OR push_bit 16 (ucast (pid_raw sp (packet_id r)))
       OR ucast (psc_raw sp (psc r))"

definition RequestId_to_bytes ::
    "('pid, 'psc) Spacepackets \<Rightarrow> ('pid, 'psc) RequestId \<Rightarrow> bytes \<Rightarrow> ('e, bytes) res" where
  "RequestId_to_bytes sp r buf = copy_from_slice (to_be_bytes (RequestId_raw sp r)) buf"

definition RequestId_from :: "('pid, 'psc) Spacepackets \<Rightarrow> u32 \<Rightarrow> ('pid, 'psc) RequestId" where
  "RequestId_from sp value =
     \<lparr>version_number = ucast (drop_bit 29 value AND 7),
      packet_id = pid_from sp (ucast (drop_bit 16 value AND 0xffff)),
      psc = psc_from sp (ucast (value AND 0xffff))\<rparr>"

definition RequestId_from_bytes ::
    "('pid, 'psc) Spacepackets \<Rightarrow> bytes \<Rightarrow> ('pid, 'psc) RequestId option" where
  "RequestId_from_bytes sp buf =
     (if length buf < 4 then None
      else let raw = from_be_bytes (take SIZE_AS_BYTES buf) :: u32
        in Some \<lparr>version_number = ucast (drop_bit 29 raw AND 7),
                 packet_id = pid_from sp (ucast (drop_bit 16 raw AND 0xffff)),
                 psc = psc_from sp (ucast (raw AND 0xffff))\<rparr>)"

subsection \<open>Tokens\<close>

datatype TcStateNone = TcStateNone
datatype TcStateAccepted = TcStateAccepted
datatype TcStateStarted = TcStateStarted
datatype TcStateCompleted = TcStateCompleted

datatype ('st, 'pid, 'psc) VerificationToken =
  VerificationToken (token_request_id: "('pid, 'psc) RequestId")

definition VerificationToken_new ::
    "('pid, 'psc) RequestId \<Rightarrow> (TcStateNone, 'pid, 'psc) VerificationToken" where
  "VerificationToken_new r = VerificationToken r"

definition new_accepted_state ::
    "('pid, 'psc) RequestId \<Rightarrow> (TcStateAccepted, 'pid, 'psc) VerificationToken" where
  "new_accepted_state r = VerificationToken r"

definition new_started_state ::
    "('pid, 'psc) RequestId \<Rightarrow> (TcStateStarted, 'pid, 'psc) VerificationToken" where
  "new_started_state r = VerificationToken r"

datatype ('pid, 'psc) TcStateToken =
    TokenNone "(TcStateNone, 'pid, 'psc) VerificationToken"
  | TokenAccepted "(TcStateAccepted, 'pid, 'psc) VerificationToken"
  | TokenStarted "(TcStateStarted, 'pid, 'psc) VerificationToken"
  | TokenCompleted "(TcStateCompleted, 'pid, 'psc) VerificationToken"

fun TcStateToken_request_id :: "('pid, 'psc) TcStateToken \<Rightarrow> ('pid, 'psc) RequestId" where
  "TcStateToken_request_id (TokenNone t) = token_request_id t"
| "TcStateToken_request_id (TokenAccepted t) = token_request_id t"
| "TcStateToken_request_id (TokenStarted t) = token_request_id t"
| "TcStateToken_request_id (TokenCompleted t) = token_request_id t"

fun VerificationToken_try_accepted ::
    "('pid, 'psc) TcStateToken \<Rightarrow> (unit, (TcStateAccepted, 'pid, 'psc) VerificationToken) res" where
  "VerificationToken_try_accepted (TokenAccepted t) = Ok t"
| "VerificationToken_try_accepted _ = Err ()"

fun VerificationToken_try_started ::
    "('pid, 'psc) TcStateToken \<Rightarrow> (unit, (TcStateStarted, 'pid, 'psc) VerificationToken) res" where
  "VerificationToken_try_started (TokenStarted t) = Ok t"
| "VerificationToken_try_started _ = Err ()"

subsection \<open>Failure parameters\<close>

record FailParams =
  fp_time_stamp :: bytes
  failure_code :: EcssEnumeration
  failure_data :: bytes

definition FailParams_new :: "bytes \<Rightarrow> EcssEnumeration \<Rightarrow> bytes \<Rightarrow> FailParams" where
  "FailParams_new ts code data = \<lparr>fp_time_stamp = ts, failure_code = code, failure_data = data\<rparr>"

definition FailParams_new_no_fail_data :: "bytes \<Rightarrow> EcssEnumeration \<Rightarrow> FailParams" where
  "FailParams_new_no_fail_data ts code = FailParams_new ts code []"

record FailParamsWithStep =
  fs_common :: FailParams
  fs_step :: EcssEnumeration

definition FailParamsWithStep_new ::
    "bytes \<Rightarrow> EcssEnumeration \<Rightarrow> EcssEnumeration \<Rightarrow> bytes \<Rightarrow> FailParamsWithStep" where
  "FailParamsWithStep_new ts step code data = \<lparr>fs_common = FailParams_new ts code data, fs_step = step\<rparr>"

subsection \<open>The report creator\<close>

record VerificationReportCreator =
  dest_id :: u16
  creator_apid :: u16

definition VerificationReportCreator_new ::
    "('pid, 'psc) Spacepackets \<Rightarrow> u16 \<Rightarrow> VerificationReportCreator option" where
  "VerificationReportCreator_new sp apid =
     (if apid > MAX_APID sp then None else Some \<lparr>dest_id = 0, creator_apid = apid\<rparr>)"

definition VerificationReportCreator_set_apid ::
    "('pid, 'psc) Spacepackets \<Rightarrow> VerificationReportCreator \<Rightarrow> u16 \<Rightarrow> bool \<times> VerificationReportCreator" where
  "VerificationReportCreator_set_apid sp c apid =
     (if apid > MAX_APID sp then (False, c) else (True, c\<lparr>creator_apid := apid\<rparr>))"

definition VerificationReportCreator_set_dest_id ::
    "VerificationReportCreator \<Rightarrow> u16 \<Rightarrow> VerificationReportCreator" where
  "VerificationReportCreator_set_dest_id c d = c\<lparr>dest_id := d\<rparr>"

definition add_tc_with_req_id ::
    "VerificationReportCreator \<Rightarrow> ('pid, 'psc) RequestId \<Rightarrow> (TcStateNone, 'pid, 'psc) VerificationToken" where
  "add_tc_with_req_id c r = VerificationToken_new r"

definition add_tc ::
    "VerificationReportCreator \<Rightarrow> u8 \<Rightarrow> 'pid \<Rightarrow> 'psc \<Rightarrow> (TcStateNone, 'pid, 'psc) VerificationToken" where
  "add_tc c ver pid ps = add_tc_with_req_id c (RequestId_new ver pid ps)"

text \<open>\<^verbatim>\<open>value.write_to_be_bytes(&mut buf[idx..idx + value.size()])\<close>.\<close>

definition write_enum_at ::
    "nat \<Rightarrow> EcssEnumeration \<Rightarrow> bytes \<Rightarrow> (ByteConversionError, nat) res \<times> bytes" where
  "write_enum_at idx e buf =
     res_try (slice idx (idx + ee_size e) buf) buf (\<lambda>window.
       let (r, window') = ee_write e window in (r, overwrite idx window' buf))"

text \<open>
  \<^verbatim>\<open>req_id.to_bytes(&mut buf[0..4])\<close>. The buffer is passed on and returned in every operation below,
  with what was written into it also when an error is returned.
\<close>

definition write_req_id ::
    "('pid, 'psc) Spacepackets \<Rightarrow> ('pid, 'psc) RequestId \<Rightarrow> bytes \<Rightarrow> ('e, bytes) res" where
  "write_req_id sp r buf =
     res_bind (slice 0 SIZE_AS_BYTES buf) (\<lambda>window.
       res_bind (RequestId_to_bytes sp r window) (\<lambda>window'. Ok (overwrite 0 window' buf)))"

definition create_pus_verif_tm_base ::
    "VerificationReportCreator \<Rightarrow> bytes \<Rightarrow> u8 \<Rightarrow> u16 \<Rightarrow> u16 \<Rightarrow> u16 \<Rightarrow> bytes \<Rightarrow> nat \<Rightarrow> ('e, PusTmCreator) res" where
  "create_pus_verif_tm_base c buf subservice msg_counter apid seq_count time_stamp source_data_len =
     res_bind (slice 0 source_data_len buf) (\<lambda>data.
       Ok \<lparr>pt_apid = apid, pt_seq_count = seq_count, pt_service = 1, pt_subservice = subservice,
           pt_msg_counter = msg_counter, pt_dest_id = dest_id c, pt_time_stamp = time_stamp,
           pt_source_data = data\<rparr>)"

definition create_pus_verif_success_tm ::
    "('pid, 'psc) Spacepackets \<Rightarrow> VerificationReportCreator \<Rightarrow> bytes \<Rightarrow> u8 \<Rightarrow> u16 \<Rightarrow> u16 \<Rightarrow>
     ('pid, 'psc) RequestId \<Rightarrow> bytes \<Rightarrow> EcssEnumeration option \<Rightarrow>
     (ByteConversionError, PusTmCreator) res \<times> bytes" where
  "create_pus_verif_success_tm sp c buf subservice seq_count msg_counter req_id time_stamp step =
     (let source_data_len = 4 + (case step of None \<Rightarrow> 0 | Some st \<Rightarrow> ee_size st)
      in res_try (source_buffer_large_enough (length buf) source_data_len) buf (\<lambda>_.
         res_try (write_req_id sp req_id buf) buf (\<lambda>buf1.
           let (r2, buf2) = (case step of
                 None \<Rightarrow> (Ok 0, buf1)
               | Some st \<Rightarrow> (let (r, b) = write_enum_at SIZE_AS_BYTES st buf1 in (res_unwrap r, b)))
           in res_try r2 buf2 (\<lambda>_.
             (create_pus_verif_tm_base c buf2 subservice msg_counter (creator_apid c) seq_count time_stamp
                source_data_len, buf2)))))"

definition create_pus_verif_fail_tm ::
    "('pid, 'psc) Spacepackets \<Rightarrow> VerificationReportCreator \<Rightarrow> bytes \<Rightarrow> u8 \<Rightarrow> u16 \<Rightarrow> u16 \<Rightarrow>
     ('pid, 'psc) RequestId \<Rightarrow> EcssEnumeration option \<Rightarrow> FailParams \<Rightarrow>
     (ByteConversionError, PusTmCreator) res \<times> bytes" where
  "create_pus_verif_fail_tm sp c buf subservice seq_count msg_counter req_id step params =
     (let source_data_len = SIZE_AS_BYTES + ee_size (failure_code params)
            + (case step of None \<Rightarrow> 0 | Some st \<Rightarrow> ee_size st) + length (failure_data params)
      in res_try (source_buffer_large_enough (length buf) source_data_len) buf (\<lambda>_.
         res_try (write_req_id sp req_id buf) buf (\<lambda>buf1.
           let (r2, buf2) = (case step of
                 None \<Rightarrow> (Ok 0, buf1)
               | Some st \<Rightarrow> (let (r, b) = write_enum_at SIZE_AS_BYTES st buf1 in (res_unwrap r, b)));
               idx = SIZE_AS_BYTES + (case step of None \<Rightarrow> 0 | Some st \<Rightarrow> ee_size st)
           in res_try r2 buf2 (\<lambda>_.
             let (r3, buf3) = write_enum_at idx (failure_code params) buf2
             in res_try r3 buf3 (\<lambda>_.
               res_try (copy_into (idx + ee_size (failure_code params)) (failure_data params) buf3) buf3 (\<lambda>buf4.
                 (create_pus_verif_tm_base c buf4 subservice msg_counter (creator_apid c) seq_count
                    (fp_time_stamp params) source_data_len, buf4)))))))"

definition success_verification_no_step ::
    "('pid, 'psc) Spacepackets \<Rightarrow> VerificationReportCreator \<Rightarrow> bytes \<Rightarrow> u8 \<Rightarrow>
     ('st, 'pid, 'psc) VerificationToken \<Rightarrow> u16 \<Rightarrow> u16 \<Rightarrow> bytes \<Rightarrow>
     (ByteConversionError, PusTmCreator) res \<times> bytes" where
  "success_verification_no_step sp c buf subservice token seq_count msg_count time_stamp =
     create_pus_verif_success_tm sp c buf subservice seq_count msg_count (token_request_id token) time_stamp None"

definition failure_verification_no_step ::
    "('pid, 'psc) Spacepackets \<Rightarrow> VerificationReportCreator \<Rightarrow> bytes \<Rightarrow> u8 \<Rightarrow>
     ('st, 'pid, 'psc) VerificationToken \<Rightarrow> u16 \<Rightarrow> u16 \<Rightarrow> EcssEnumeration option \<Rightarrow> FailParams \<Rightarrow>
     (ByteConversionError, PusTmCreator) res \<times> bytes" where
  "failure_verification_no_step sp c buf subservice token seq_count msg_count step params =
     create_pus_verif_fail_tm sp c buf subservice seq_count msg_count (token_request_id token) step params"

definition creator_acceptance_success ::
    "('pid, 'psc) Spacepackets \<Rightarrow> VerificationReportCreator \<Rightarrow> bytes \<Rightarrow>
     (TcStateNone, 'pid, 'psc) VerificationToken \<Rightarrow> u16 \<Rightarrow> u16 \<Rightarrow> bytes \<Rightarrow>
     (ByteConversionError, PusTmCreator \<times> (TcStateAccepted, 'pid, 'psc) VerificationToken) res \<times> bytes" where
  "creator_acceptance_success sp c buf token seq_count msg_count time_stamp =
     (let (r, buf') = success_verification_no_step sp c buf (verif_subservice sp TmAcceptanceSuccess) token
            seq_count msg_count time_stamp
      in (res_map (\<lambda>tm. (tm, VerificationToken (token_request_id token))) r, buf'))"

definition creator_acceptance_failure ::
    "('pid, 'psc) Spacepackets \<Rightarrow> VerificationReportCreator \<Rightarrow> bytes \<Rightarrow>
     (TcStateNone, 'pid, 'psc) VerificationToken \<Rightarrow> u16 \<Rightarrow> u16 \<Rightarrow> FailParams \<Rightarrow>
     (ByteConversionError, PusTmCreator) res \<times> bytes" where
  "creator_acceptance_failure sp c buf token seq_count msg_count params =
     failure_verification_no_step sp c buf (verif_subservice sp TmAcceptanceFailure) token seq_count msg_count
       None params"

definition creator_start_success ::
    "('pid, 'psc) Spacepackets \<Rightarrow> VerificationReportCreator \<Rightarrow> bytes \<Rightarrow>
     (TcStateAccepted, 'pid, 'psc) VerificationToken \<Rightarrow> u16 \<Rightarrow> u16 \<Rightarrow> bytes \<Rightarrow>
     (ByteConversionError, PusTmCreator \<times> (TcStateStarted, 'pid, 'psc) VerificationToken) res \<times> bytes" where
  "creator_start_success sp c buf token seq_count msg_count time_stamp =
     (let (r, buf') = success_verification_no_step sp c buf (verif_subservice sp TmStartSuccess) token
            seq_count msg_count time_stamp
      in (res_map (\<lambda>tm. (tm, VerificationToken (token_request_id token))) r, buf'))"

definition creator_start_failure ::
    "('pid, 'psc) Spacepackets \<Rightarrow> VerificationReportCreator \<Rightarrow> bytes \<Rightarrow>
     (TcStateAccepted, 'pid, 'psc) VerificationToken \<Rightarrow> u16 \<Rightarrow> u16 \<Rightarrow> FailParams \<Rightarrow>
     (ByteConversionError, PusTmCreator) res \<times> bytes" where
  "creator_start_failure sp c buf token seq_count msg_count params =
     failure_verification_no_step sp c buf (verif_subservice sp TmStartFailure) token seq_count msg_count
       None params"

definition creator_step_success ::
    "('pid, 'psc) Spacepackets \<Rightarrow> VerificationReportCreator \<Rightarrow> bytes \<Rightarrow>
     (TcStateStarted, 'pid, 'psc) VerificationToken \<Rightarrow> u16 \<Rightarrow> u16 \<Rightarrow> bytes \<Rightarrow> EcssEnumeration \<Rightarrow>
     (ByteConversionError, PusTmCreator) res \<times> bytes" where
  "creator_step_success sp c buf token seq_count msg_count time_stamp step =
     create_pus_verif_success_tm sp c buf (verif_subservice sp TmStepSuccess) seq_count msg_count
       (token_request_id token) time_stamp (Some step)"

definition creator_step_failure ::
    "('pid, 'psc) Spacepackets \<Rightarrow> VerificationReportCreator \<Rightarrow> bytes \<Rightarrow>
     (TcStateStarted, 'pid, 'psc) VerificationToken \<Rightarrow> u16 \<Rightarrow> u16 \<Rightarrow> FailParamsWithStep \<Rightarrow>
     (ByteConversionError, PusTmCreator) res \<times> bytes" where
  "creator_step_failure sp c buf token seq_count msg_count params =
     create_pus_verif_fail_tm sp c buf (verif_subservice sp TmStepFailure) seq_count msg_count
       (token_request_id token) (Some (fs_step params)) (fs_common params)"

definition creator_completion_success ::
    "('pid, 'psc) Spacepackets \<Rightarrow> VerificationReportCreator \<Rightarrow> bytes \<Rightarrow>
     ('st, 'pid, 'psc) VerificationToken \<Rightarrow> u16 \<Rightarrow> u16 \<Rightarrow> bytes \<Rightarrow>
     (ByteConversionError, PusTmCreator) res \<times> bytes" where
  "creator_completion_success sp c buf token seq_counter msg_counter time_stamp =
     success_verification_no_step sp c buf (verif_subservice sp TmCompletionSuccess) token seq_counter
       msg_counter time_stamp"

definition creator_completion_failure ::
    "('pid, 'psc) Spacepackets \<Rightarrow> VerificationReportCreator \<Rightarrow> bytes \<Rightarrow>
     ('st, 'pid, 'psc) VerificationToken \<Rightarrow> u16 \<Rightarrow> u16 \<Rightarrow> FailParams \<Rightarrow>
     (ByteConversionError, PusTmCreator) res \<times> bytes" where
  "creator_completion_failure sp c buf token seq_count msg_count params =
     failure_verification_no_step sp c buf (verif_subservice sp TmCompletionFailure) token seq_count msg_count
       None params"

subsection \<open>The reporter\<close>

record VerificationReporterCfg =
  cfg_apid :: u16
  step_field_width :: nat
  fail_code_field_width :: nat
  max_fail_data_len :: nat

definition VerificationReporterCfg_new ::
    "('pid, 'psc) Spacepackets \<Rightarrow> u16 \<Rightarrow> nat \<Rightarrow> nat \<Rightarrow> nat \<Rightarrow> VerificationReporterCfg option" where
  "VerificationReporterCfg_new sp apid step_w code_w max_fail =
     (if apid > MAX_APID sp then None
      else Some \<lparr>cfg_apid = apid, step_field_width = step_w, fail_code_field_width = code_w,
                 max_fail_data_len = max_fail\<rparr>)"

record VerificationReporter =
  owner_id :: ComponentId
  source_data_buf :: bytes
  reporter_creator :: VerificationReportCreator
  tm_hook :: "PusTmCreator \<Rightarrow> PusTmCreator"

definition VerificationReporter_new_with_hook ::
    "('pid, 'psc) Spacepackets \<Rightarrow> ComponentId \<Rightarrow> VerificationReporterCfg \<Rightarrow>
     (PusTmCreator \<Rightarrow> PusTmCreator) \<Rightarrow> ('e, VerificationReporter) res" where
  "VerificationReporter_new_with_hook sp oid cfg hook =
     res_bind (opt_unwrap (VerificationReportCreator_new sp (cfg_apid cfg))) (\<lambda>c.
       Ok \<lparr>owner_id = oid,
           source_data_buf = replicate (SIZE_AS_BYTES + step_field_width cfg + fail_code_field_width cfg
             + max_fail_data_len cfg) 0,
           reporter_creator = c, tm_hook = hook\<rparr>)"

text \<open>\<^verbatim>\<open>VerificationReporter::new\<close> uses \<^verbatim>\<open>DummyVerificationHook\<close>, which leaves the telemetry as it is.\<close>

definition VerificationReporter_new ::
    "('pid, 'psc) Spacepackets \<Rightarrow> ComponentId \<Rightarrow> VerificationReporterCfg \<Rightarrow> ('e, VerificationReporter) res" where
  "VerificationReporter_new sp oid cfg = VerificationReporter_new_with_hook sp oid cfg (\<lambda>tm. tm)"

definition VerificationReporter_set_apid ::
    "('pid, 'psc) Spacepackets \<Rightarrow> VerificationReporter \<Rightarrow> u16 \<Rightarrow> VerificationReporter" where
  "VerificationReporter_set_apid sp v apid =
     v\<lparr>reporter_creator := snd (VerificationReportCreator_set_apid sp (reporter_creator v) apid)\<rparr>"

text \<open>
  The common end of the eight report methods: a creation error leaves through \<^verbatim>\<open>map_err\<close> and \<^verbatim>\<open>?\<close>,
  otherwise the hook modifies the telemetry and the sender is called.
\<close>

definition report_tm ::
    "('s, 'pe) EcssTmSender \<Rightarrow> 's \<Rightarrow> VerificationReporter \<Rightarrow>
     (ByteConversionError, PusTmCreator \<times> 'a) res \<times> bytes \<Rightarrow>
     ('pe EcssTmtcError, 'a) res \<times> 's \<times> VerificationReporter" where
  "report_tm send_tm s v created =
     (let v' = v\<lparr>source_data_buf := snd created\<rparr>
      in (case fst created of
            Err e \<Rightarrow> (Err (TmtcPus (PusByteConversion e)), s, v')
          | Panic \<Rightarrow> (Panic, s, v')
          | Ok (tm, x) \<Rightarrow>
              (let (r, s') = send_tm s (owner_id v) (Direct (tm_hook v tm))
               in (res_map (\<lambda>_. x) r, s', v'))))"

definition no_token :: "(ByteConversionError, PusTmCreator) res \<times> bytes \<Rightarrow>
    (ByteConversionError, PusTmCreator \<times> unit) res \<times> bytes" where
  "no_token created = (res_map (\<lambda>tm. (tm, ())) (fst created), snd created)"

definition acceptance_success ::
    "('pid, 'psc) Spacepackets \<Rightarrow> ('s, 'pe) EcssTmSender \<Rightarrow> 's \<Rightarrow> VerificationReporter \<Rightarrow>
     (TcStateNone, 'pid, 'psc) VerificationToken \<Rightarrow> bytes \<Rightarrow>
     ('pe EcssTmtcError, (TcStateAccepted, 'pid, 'psc) VerificationToken) res \<times> 's \<times> VerificationReporter" where
  "acceptance_success sp send_tm s v token time_stamp =
     report_tm send_tm s v
       (creator_acceptance_success sp (reporter_creator v) (source_data_buf v) token 0 0 time_stamp)"

definition acceptance_failure ::
    "('pid, 'psc) Spacepackets \<Rightarrow> ('s, 'pe) EcssTmSender \<Rightarrow> 's \<Rightarrow> VerificationReporter \<Rightarrow>
     (TcStateNone, 'pid, 'psc) VerificationToken \<Rightarrow> FailParams \<Rightarrow>
     ('pe EcssTmtcError, unit) res \<times> 's \<times> VerificationReporter" where
  "acceptance_failure sp send_tm s v token params =
     report_tm send_tm s v
       (no_token (creator_acceptance_failure sp (reporter_creator v) (source_data_buf v) token 0 0 params))"

definition start_success ::
    "('pid, 'psc) Spacepackets \<Rightarrow> ('s, 'pe) EcssTmSender \<Rightarrow> 's \<Rightarrow> VerificationReporter \<Rightarrow>
     (TcStateAccepted, 'pid, 'psc) VerificationToken \<Rightarrow> bytes \<Rightarrow>
     ('pe EcssTmtcError, (TcStateStarted, 'pid, 'psc) VerificationToken) res \<times> 's \<times> VerificationReporter" where
  "start_success sp send_tm s v token time_stamp =
     report_tm send_tm s v
       (creator_start_success sp (reporter_creator v) (source_data_buf v) token 0 0 time_stamp)"

definition start_failure ::
    "('pid, 'psc) Spacepackets \<Rightarrow> ('s, 'pe) EcssTmSender \<Rightarrow> 's \<Rightarrow> VerificationReporter \<Rightarrow>
     (TcStateAccepted, 'pid, 'psc) VerificationToken \<Rightarrow> FailParams \<Rightarrow>
     ('pe EcssTmtcError, unit) res \<times> 's \<times> VerificationReporter" where
  "start_failure sp send_tm s v token params =
     report_tm send_tm s v
       (no_token (creator_start_failure sp (reporter_creator v) (source_data_buf v) token 0 0 params))"

definition step_success ::
    "('pid, 'psc) Spacepackets \<Rightarrow> ('s, 'pe) EcssTmSender \<Rightarrow> 's \<Rightarrow> VerificationReporter \<Rightarrow>
     (TcStateStarted, 'pid, 'psc) VerificationToken \<Rightarrow> bytes \<Rightarrow> EcssEnumeration \<Rightarrow>
     ('pe EcssTmtcError, unit) res \<times> 's \<times> VerificationReporter" where
  "step_success sp send_tm s v token time_stamp step =
     report_tm send_tm s v
       (no_token (creator_step_success sp (reporter_creator v) (source_data_buf v) token 0 0 time_stamp step))"

definition step_failure ::
    "('pid, 'psc) Spacepackets \<Rightarrow> ('s, 'pe) EcssTmSender \<Rightarrow> 's \<Rightarrow> VerificationReporter \<Rightarrow>
     (TcStateStarted, 'pid, 'psc) VerificationToken \<Rightarrow> FailParamsWithStep \<Rightarrow>
     ('pe EcssTmtcError, unit) res \<times> 's \<times> VerificationReporter" where
  "step_failure sp send_tm s v token params =
     report_tm send_tm s v
       (no_token (creator_step_failure sp (reporter_creator v) (source_data_buf v) token 0 0 params))"

definition completion_success ::
    "('pid, 'psc) Spacepackets \<Rightarrow> ('s, 'pe) EcssTmSender \<Rightarrow> 's \<Rightarrow> VerificationReporter \<Rightarrow>
     ('st, 'pid, 'psc) VerificationToken \<Rightarrow> bytes \<Rightarrow>
     ('pe EcssTmtcError, unit) res \<times> 's \<times> VerificationReporter" where
  "completion_success sp send_tm s v token time_stamp =
     report_tm send_tm s v
       (no_token (creator_completion_success sp (reporter_creator v) (source_data_buf v) token 0 0 time_stamp))"

definition completion_failure ::
    "('pid, 'psc) Spacepackets \<Rightarrow> ('s, 'pe) EcssTmSender \<Rightarrow> 's \<Rightarrow> VerificationReporter \<Rightarrow>
     ('st, 'pid, 'psc) VerificationToken \<Rightarrow> FailParams \<Rightarrow>
     ('pe EcssTmtcError, unit) res \<times> 's \<times> VerificationReporter" where
  "completion_failure sp send_tm s v token params =
     report_tm send_tm s v
       (no_token (creator_completion_failure sp (reporter_creator v) (source_data_buf v) token 0 0 params))"

subsection \<open>Failure reports with generic parameters\<close>

record FailParamHelper =
  fh_timestamp :: bytes
  fh_error_code :: EcssEnumeration
  fh_small_data_buf :: bytes
  fh_params :: "Params option"

text \<open>
  A heapless parameter is written into \<^verbatim>\<open>small_data_buf[..written_len]\<close> first; its conversion error
  leaves through \<^verbatim>\<open>?\<close>. A pool address is not propagated.
\<close>

definition heapless_fail_data ::
    "bytes \<Rightarrow> ParamsHeapless \<Rightarrow> ('pe EcssTmtcError, bytes) res" where
  "heapless_fail_data small p =
     res_bind (slice 0 (ParamsHeapless_written_len p) small) (\<lambda>window.
       let (r, window') = ParamsHeapless_write_to_be_bytes p window
       in res_bind (res_map_err TmtcByteConversion r) (\<lambda>_. Ok window'))"

definition handle_completion_failure_with_generic_params ::
    "('pid, 'psc) Spacepackets \<Rightarrow> ('s, 'pe) EcssTmSender \<Rightarrow> 's \<Rightarrow> VerificationReporter \<Rightarrow>
     ('st, 'pid, 'psc) VerificationToken \<Rightarrow> FailParamHelper \<Rightarrow>
     ('pe EcssTmtcError, bool) res \<times> 's \<times> VerificationReporter" where
  "handle_completion_failure_with_generic_params sp send_tm s v token h =
     (let report = (\<lambda>data propagated.
            let (r, s', v') = completion_failure sp send_tm s v token
                  (FailParams_new (fh_timestamp h) (fh_error_code h) data)
            in (res_map (\<lambda>_. propagated) r, s', v'))
      in (case fh_params h of
            None \<Rightarrow> report [] True
          | Some (Heapless p) \<Rightarrow>
              res_try (heapless_fail_data (fh_small_data_buf h) p) (s, v) (\<lambda>data. report data True)
          | Some (Vec vec) \<Rightarrow> report vec True
          | Some (String str) \<Rightarrow> report str True
          | Some (Store a) \<Rightarrow> report [] False))"

definition handle_step_failure_with_generic_params ::
    "('pid, 'psc) Spacepackets \<Rightarrow> ('s, 'pe) EcssTmSender \<Rightarrow> 's \<Rightarrow> VerificationReporter \<Rightarrow>
     (TcStateStarted, 'pid, 'psc) VerificationToken \<Rightarrow> FailParamHelper \<Rightarrow> EcssEnumeration \<Rightarrow>
     ('pe EcssTmtcError, bool) res \<times> 's \<times> VerificationReporter" where
  "handle_step_failure_with_generic_params sp send_tm s v token h step =
     (let report = (\<lambda>data propagated.
            let (r, s', v') = step_failure sp send_tm s v token
                  (FailParamsWithStep_new (fh_timestamp h) step (fh_error_code h) data)
            in (res_map (\<lambda>_. propagated) r, s', v'))
      in (case fh_params h of
            None \<Rightarrow> report [] True
          | Some (Heapless p) \<Rightarrow>
              res_try (heapless_fail_data (fh_small_data_buf h) p) (s, v) (\<lambda>data. report data True)
          | Some (Vec vec) \<Rightarrow> report vec True
          | Some (String str) \<Rightarrow> report str True
          | Some (Store a) \<Rightarrow> report [] False))"

subsection \<open>Request id encoding\<close>

lemma mask_bits: "w \<le> mask k \<Longrightarrow> bit w n \<Longrightarrow> n < k" for w :: "'a::len word"
proof (rule ccontr)
  assume w: "w \<le> mask k" "bit w n" "\<not> n < k"
  have "unat w \<le> unat (mask k :: 'a word)" using w(1) by (simp add: word_le_nat_alt)
  also have "unat (mask k :: 'a word) < 2 ^ k"
    by (metis take_bit_minus_one_eq_mask take_bit_nat_less_exp unsigned_take_bit_eq)
  also have "(2 :: nat) ^ k \<le> 2 ^ n" using w(3) by simp
  finally have "unat w div 2 ^ n = 0" by simp
  moreover have "bit (unat w) n" using w(2) bit_imp_le_length [OF w(2)] by (simp add: bit_unsigned_iff)
  ultimately show False by (simp add: bit_iff_odd)
qed

lemma word32_masks: "(7 :: u32) = mask 3" "(0xffff :: u32) = mask 16"
  by (simp_all add: mask_eq_exp_minus_1)

lemma RequestId_raw_fields:
  assumes "spacepackets_ok sp" and v: "version_number r \<le> mask 3"
  shows "ucast (drop_bit 29 (RequestId_raw sp r) AND 7) = version_number r"
    and "ucast (drop_bit 16 (RequestId_raw sp r) AND 0xffff) AND mask 13 = pid_raw sp (packet_id r)"
    and "ucast (RequestId_raw sp r AND 0xffff) = psc_raw sp (psc r)"
proof -
  have p: "pid_raw sp (packet_id r) \<le> mask 13"
    using assms(1) by (simp add: spacepackets_ok_def)
  show "ucast (drop_bit 29 (RequestId_raw sp r) AND 7) = version_number r"
    unfolding word32_masks by (rule bit_word_eqI)
      (auto simp: RequestId_raw_def bit_simps dest: bit_imp_le_length mask_bits [OF v] mask_bits [OF p])
  show "ucast (drop_bit 16 (RequestId_raw sp r) AND 0xffff) AND mask 13 = pid_raw sp (packet_id r)"
    unfolding word32_masks by (rule bit_word_eqI)
      (auto simp: RequestId_raw_def bit_simps dest: bit_imp_le_length mask_bits [OF v] mask_bits [OF p])
  show "ucast (RequestId_raw sp r AND 0xffff) = psc_raw sp (psc r)"
    unfolding word32_masks by (rule bit_word_eqI)
      (auto simp: RequestId_raw_def bit_simps dest: bit_imp_le_length mask_bits [OF v] mask_bits [OF p])
qed

lemma RequestId_from_raw:
  assumes "spacepackets_ok sp" and "version_number r \<le> mask 3"
  shows "RequestId_from sp (RequestId_raw sp r) = r"
proof -
  note f = RequestId_raw_fields [OF assms]
  have "pid_from sp (ucast (drop_bit 16 (RequestId_raw sp r) AND 0xffff)) = packet_id r"
    using assms(1) f(2) unfolding spacepackets_ok_def by metis
  moreover have "psc_from sp (psc_raw sp (psc r)) = psc r"
    using assms(1) unfolding spacepackets_ok_def by blast
  ultimately show ?thesis by (simp add: RequestId_from_def f)
qed

lemma RequestId_from_bytes_raw:
  assumes "spacepackets_ok sp" and "version_number r \<le> mask 3"
  shows "RequestId_from_bytes sp (to_be_bytes (RequestId_raw sp r) @ rest) = Some r"
proof -
  have "RequestId_from_bytes sp (to_be_bytes x @ rest) = Some (RequestId_from sp x)" for x
    by (simp add: RequestId_from_bytes_def RequestId_from_def SIZE_AS_BYTES_def Let_def)
  then show ?thesis using RequestId_from_raw [OF assms] by simp
qed

subsection \<open>The reports\<close>

fun opt_enum_writes :: "EcssEnumeration option \<Rightarrow> bytes \<Rightarrow> bool" where
  "opt_enum_writes None bs \<longleftrightarrow> bs = []"
| "opt_enum_writes (Some e) bs \<longleftrightarrow> ecss_enum_writes e bs"

lemma opt_enum_size: "opt_enum_writes step bs \<Longrightarrow> (case step of None \<Rightarrow> 0 | Some st \<Rightarrow> ee_size st) = length bs"
  by (cases step) (auto simp: ecss_enum_writes_def)

lemma write_enum_at_ok:
  assumes "ecss_enum_writes e bs" "idx + length bs \<le> length buf"
  shows "write_enum_at idx e buf = (Ok (length bs), overwrite idx bs buf)"
  using assms by (simp add: write_enum_at_def ecss_enum_writes_def slice_def overwrite_def)

lemma write_req_id_ok:
  "4 \<le> length buf \<Longrightarrow> write_req_id sp r buf = Ok (to_be_bytes (RequestId_raw sp r) @ drop 4 buf)"
  by (simp add: write_req_id_def RequestId_to_bytes_def SIZE_AS_BYTES_def slice_def copy_from_slice_def
      overwrite_def)

definition verif_tm :: "VerificationReportCreator \<Rightarrow> u8 \<Rightarrow> u16 \<Rightarrow> u16 \<Rightarrow> bytes \<Rightarrow> bytes \<Rightarrow> PusTmCreator" where
  "verif_tm c sub seq_count msg_count ts data =
     \<lparr>pt_apid = creator_apid c, pt_seq_count = seq_count, pt_service = 1, pt_subservice = sub,
      pt_msg_counter = msg_count, pt_dest_id = dest_id c, pt_time_stamp = ts, pt_source_data = data\<rparr>"

lemma create_success_tm:
  assumes w: "opt_enum_writes step bs"
  shows "create_pus_verif_success_tm sp c buf sub seq_count msg_count rid ts step =
    (if length buf < 4 + length bs then (Err (ToSliceTooSmall (length buf) (4 + length bs)), buf)
     else let data = to_be_bytes (RequestId_raw sp rid) @ bs
       in (Ok (verif_tm c sub seq_count msg_count ts data), data @ drop (4 + length bs) buf))"
proof (cases step)
  case None
  then show ?thesis using w
    by (simp add: create_pus_verif_success_tm_def source_buffer_large_enough_def write_req_id_ok
        create_pus_verif_tm_base_def slice_def verif_tm_def not_less Let_def)
next
  case (Some e)
  then have e: "ecss_enum_writes e bs" "ee_size e = length bs"
    using w by (auto simp: ecss_enum_writes_def)
  show ?thesis using Some e(2)
    by (auto simp: create_pus_verif_success_tm_def source_buffer_large_enough_def write_req_id_ok
        create_pus_verif_tm_base_def slice_def verif_tm_def not_less SIZE_AS_BYTES_def
        write_enum_at_ok [OF e(1)] overwrite_def Let_def add.commute)
qed

lemma create_fail_tm:
  assumes w: "opt_enum_writes step bs" and f: "ecss_enum_writes (failure_code params) cs"
  defines "n \<equiv> 4 + length cs + length bs + length (failure_data params)"
  shows "create_pus_verif_fail_tm sp c buf sub seq_count msg_count rid step params =
    (if length buf < n then (Err (ToSliceTooSmall (length buf) n), buf)
     else let data = to_be_bytes (RequestId_raw sp rid) @ bs @ cs @ failure_data params
       in (Ok (verif_tm c sub seq_count msg_count (fp_time_stamp params) data), data @ drop n buf))"
proof -
  have c: "ee_size (failure_code params) = length cs"
    using f by (simp add: ecss_enum_writes_def)
  show ?thesis
  proof (cases step)
    case None
    then show ?thesis using w c
      by (auto simp: create_pus_verif_fail_tm_def source_buffer_large_enough_def write_req_id_ok n_def
          create_pus_verif_tm_base_def slice_def verif_tm_def not_less SIZE_AS_BYTES_def
          write_enum_at_ok [OF f] overwrite_def copy_into_def Let_def add_ac)
  next
    case (Some e)
    then have e: "ecss_enum_writes e bs" "ee_size e = length bs"
      using w by (auto simp: ecss_enum_writes_def)
    show ?thesis using Some e(2) c
      by (auto simp: create_pus_verif_fail_tm_def source_buffer_large_enough_def write_req_id_ok n_def
          create_pus_verif_tm_base_def slice_def verif_tm_def not_less SIZE_AS_BYTES_def
          write_enum_at_ok [OF f] write_enum_at_ok [OF e(1)] overwrite_def copy_into_def Let_def add_ac)
  qed
qed

subsection \<open>The life of a telecommand\<close>

text \<open>
  Every created report names its subservice and starts with the request id, whatever the step and
  failure codes write.
\<close>

definition report_of ::
    "('pid, 'psc) Spacepackets \<Rightarrow> VerifSubservice \<Rightarrow> ('pid, 'psc) RequestId \<Rightarrow> PusTmCreator \<Rightarrow> bool" where
  "report_of sp sub rid tm \<longleftrightarrow>
     pt_service tm = 1 \<and> pt_subservice tm = verif_subservice sp sub \<and>
     take 4 (pt_source_data tm) = to_be_bytes (RequestId_raw sp rid)"

lemma write_enum_at_prefix:
  "write_enum_at idx e buf = (Ok k, buf') \<Longrightarrow> n \<le> idx \<Longrightarrow> take n buf' = take n buf"
  by (auto simp: write_enum_at_def slice_def overwrite_def split: if_splits prod.splits)

lemma created_success:
  assumes "create_pus_verif_success_tm sp c buf (verif_subservice sp sub) q m rid ts step = (Ok tm, buf')"
  shows "report_of sp sub rid tm"
proof (cases step)
  case None
  then show ?thesis using assms
    by (auto simp: create_success_tm report_of_def verif_tm_def Let_def split: if_splits)
next
  case (Some e)
  let ?n = "4 + ee_size e" and ?b = "to_be_bytes (RequestId_raw sp rid) @ drop 4 buf"
  have l: "4 \<le> length buf" using assms Some
    by (auto simp: create_pus_verif_success_tm_def source_buffer_large_enough_def Let_def split: if_splits)
  then obtain k where w: "write_enum_at 4 e ?b = (Ok k, buf')" and
    t: "create_pus_verif_tm_base c buf' (verif_subservice sp sub) m (creator_apid c) q ts ?n =
      (Ok tm :: (ByteConversionError, _) res)"
    using assms Some
    by (cases "write_enum_at 4 e ?b"; cases "fst (write_enum_at 4 e ?b)")
      (auto simp: create_pus_verif_success_tm_def source_buffer_large_enough_def SIZE_AS_BYTES_def
        write_req_id_ok Let_def split: if_splits)
  show ?thesis using t write_enum_at_prefix [OF w, of 4]
    by (auto simp: report_of_def create_pus_verif_tm_base_def slice_def min_def split: if_splits)
qed

lemma created_fail:
  assumes "create_pus_verif_fail_tm sp c buf (verif_subservice sp sub) q m rid step params = (Ok tm, buf')"
  shows "report_of sp sub rid tm"
proof -
  let ?z = "case step of None \<Rightarrow> 0 | Some st \<Rightarrow> ee_size st" and ?fc = "failure_code params"
  let ?n = "SIZE_AS_BYTES + ee_size ?fc + ?z + length (failure_data params)"
  let ?b = "to_be_bytes (RequestId_raw sp rid) @ drop 4 buf"
  let ?w = "case step of None \<Rightarrow> (Ok 0, ?b) |
    Some st \<Rightarrow> (let (r, b) = write_enum_at SIZE_AS_BYTES st ?b in (res_unwrap r :: (ByteConversionError, nat) res, b))"
  have l: "4 \<le> length buf" using assms
    by (auto simp: create_pus_verif_fail_tm_def source_buffer_large_enough_def Let_def SIZE_AS_BYTES_def
        split: if_splits)
  obtain r2 b2 where w: "?w = (r2, b2)" by (cases ?w)
  obtain r3 b3 where w3: "write_enum_at (SIZE_AS_BYTES + ?z) ?fc b2 = (r3, b3)"
    by (cases "write_enum_at (SIZE_AS_BYTES + ?z) ?fc b2")
  have r: "\<exists>k2 k3 b4. r2 = Ok k2 \<and> r3 = Ok k3 \<and>
      copy_into (SIZE_AS_BYTES + ?z + ee_size ?fc) (failure_data params) b3 = (Ok b4 :: (ByteConversionError, _) res) \<and>
      create_pus_verif_tm_base c b4 (verif_subservice sp sub) m (creator_apid c) q (fp_time_stamp params) ?n =
        (Ok tm :: (ByteConversionError, _) res)"
    using assms w w3 l
    by (cases r2; cases r3)
      (auto simp: create_pus_verif_fail_tm_def source_buffer_large_enough_def write_req_id_ok Let_def
        copy_into_def split: if_splits)
  have "take 4 b2 = take 4 ?b"
    using r w by (cases step) (auto split: prod.splits elim!: res_unwrap.elims
        dest!: write_enum_at_prefix [where n = 4] simp: SIZE_AS_BYTES_def)
  moreover have "take 4 b3 = take 4 b2"
    using r w3 by (auto simp: SIZE_AS_BYTES_def dest: write_enum_at_prefix [where n = 4])
  ultimately show ?thesis using r
    by (auto simp: report_of_def create_pus_verif_tm_base_def slice_def copy_into_def overwrite_def
        SIZE_AS_BYTES_def min_def split: if_splits)
qed

text \<open>
  What a caller of the reporter can do. The tokens are \<^verbatim>\<open>Copy\<close>: a caller keeps every token it was
  given, whatever calls it made with it, and may use it again. The Rust type of a token says which
  calls take it; a call returns a new token or none, and the fields of a token are private, so that
  tokens come from the reporter only, unless the caller uses the two public constructors
  \<^verbatim>\<open>new_accepted_state\<close> and \<^verbatim>\<open>new_started_state\<close>, which are meant for tests and which no code of the
  repository calls. A state is the set of all tokens given out so far, for any number of telecommands,
  with the sender and the reporter. A successful call is labelled with the report that it made and
  the request id of its token. A call that fails makes none.
\<close>

type_synonym ('s, 'pid, 'psc) verif_state = "('pid, 'psc) TcStateToken set \<times> 's \<times> VerificationReporter"
type_synonym ('pid, 'psc) verif_report = "VerifSubservice \<times> ('pid, 'psc) RequestId"

fun reported :: "('e, 'a) res \<Rightarrow> 'r \<Rightarrow> 'r list" where
  "reported (Ok x) rep = [rep]"
| "reported _ rep = []"

fun granted :: "('e, 'a) res \<Rightarrow> ('a \<Rightarrow> 't) \<Rightarrow> 't set \<Rightarrow> 't set" where
  "granted (Ok t) f T = insert (f t) T"
| "granted _ f T = T"

inductive verif_step ::
    "('pid, 'psc) Spacepackets \<Rightarrow> ('s, 'pe) EcssTmSender \<Rightarrow> ('s, 'pid, 'psc) verif_state \<Rightarrow>
     ('pid, 'psc) verif_report list \<Rightarrow> ('s, 'pid, 'psc) verif_state \<Rightarrow> bool"
  for sp :: "('pid, 'psc) Spacepackets" and send_tm :: "('s, 'pe) EcssTmSender" where
  add: "verif_step sp send_tm (T, s, v) [] (insert (TokenNone (add_tc_with_req_id (reporter_creator v) rid)) T, s, v)"
| accept: "TokenNone t \<in> T \<Longrightarrow> acceptance_success sp send_tm s v t ts = (r, s', v') \<Longrightarrow> r \<noteq> Panic \<Longrightarrow>
    verif_step sp send_tm (T, s, v) (reported r (TmAcceptanceSuccess, token_request_id t)) (granted r TokenAccepted T, s', v')"
| reject: "TokenNone t \<in> T \<Longrightarrow> acceptance_failure sp send_tm s v t ps = (u, s', v') \<Longrightarrow> u \<noteq> Panic \<Longrightarrow>
    verif_step sp send_tm (T, s, v) (reported u (TmAcceptanceFailure, token_request_id t)) (T, s', v')"
| start: "TokenAccepted ta \<in> T \<Longrightarrow> start_success sp send_tm s v ta ts = (q, s', v') \<Longrightarrow> q \<noteq> Panic \<Longrightarrow>
    verif_step sp send_tm (T, s, v) (reported q (TmStartSuccess, token_request_id ta)) (granted q TokenStarted T, s', v')"
| start_fail: "TokenAccepted ta \<in> T \<Longrightarrow> start_failure sp send_tm s v ta ps = (u, s', v') \<Longrightarrow> u \<noteq> Panic \<Longrightarrow>
    verif_step sp send_tm (T, s, v) (reported u (TmStartFailure, token_request_id ta)) (T, s', v')"
| step: "TokenStarted tb \<in> T \<Longrightarrow> step_success sp send_tm s v tb ts e = (u, s', v') \<Longrightarrow> u \<noteq> Panic \<Longrightarrow>
    verif_step sp send_tm (T, s, v) (reported u (TmStepSuccess, token_request_id tb)) (T, s', v')"
| step_fail: "TokenStarted tb \<in> T \<Longrightarrow> step_failure sp send_tm s v tb ps' = (u, s', v') \<Longrightarrow> u \<noteq> Panic \<Longrightarrow>
    verif_step sp send_tm (T, s, v) (reported u (TmStepFailure, token_request_id tb)) (T, s', v')"
| complete_accepted: "TokenAccepted ta \<in> T \<Longrightarrow> completion_success sp send_tm s v ta ts = (u, s', v') \<Longrightarrow> u \<noteq> Panic \<Longrightarrow>
    verif_step sp send_tm (T, s, v) (reported u (TmCompletionSuccess, token_request_id ta)) (T, s', v')"
| complete_started: "TokenStarted tb \<in> T \<Longrightarrow> completion_success sp send_tm s v tb ts = (u, s', v') \<Longrightarrow> u \<noteq> Panic \<Longrightarrow>
    verif_step sp send_tm (T, s, v) (reported u (TmCompletionSuccess, token_request_id tb)) (T, s', v')"
| fail_accepted: "TokenAccepted ta \<in> T \<Longrightarrow> completion_failure sp send_tm s v ta ps = (u, s', v') \<Longrightarrow> u \<noteq> Panic \<Longrightarrow>
    verif_step sp send_tm (T, s, v) (reported u (TmCompletionFailure, token_request_id ta)) (T, s', v')"
| fail_started: "TokenStarted tb \<in> T \<Longrightarrow> completion_failure sp send_tm s v tb ps = (u, s', v') \<Longrightarrow> u \<noteq> Panic \<Longrightarrow>
    verif_step sp send_tm (T, s, v) (reported u (TmCompletionFailure, token_request_id tb)) (T, s', v')"

inductive verif_run ::
    "('pid, 'psc) Spacepackets \<Rightarrow> ('s, 'pe) EcssTmSender \<Rightarrow> ('s, 'pid, 'psc) verif_state \<Rightarrow>
     ('pid, 'psc) verif_report list \<Rightarrow> ('s, 'pid, 'psc) verif_state \<Rightarrow> bool"
  for sp :: "('pid, 'psc) Spacepackets" and send_tm :: "('s, 'pe) EcssTmSender" and x :: "('s, 'pid, 'psc) verif_state" where
  no_call: "verif_run sp send_tm x [] x"
| call: "verif_run sp send_tm x rs y \<Longrightarrow> verif_step sp send_tm y ls z \<Longrightarrow> verif_run sp send_tm x (rs @ ls) z"

text \<open>
  Which report of the same telecommand must have been made before a report, and the check of a
  sequence of reports, after the reports already seen.
\<close>

fun needed_report :: "VerifSubservice \<Rightarrow> VerifSubservice option" where
  "needed_report TmAcceptanceSuccess = None"
| "needed_report TmAcceptanceFailure = None"
| "needed_report TmStepSuccess = Some TmStartSuccess"
| "needed_report TmStepFailure = Some TmStartSuccess"
| "needed_report sub = Some TmAcceptanceSuccess"

fun report_order :: "('pid, 'psc) verif_report list \<Rightarrow> ('pid, 'psc) verif_report list \<Rightarrow> bool" where
  "report_order seen [] = True"
| "report_order seen ((sub, rid) # rs) \<longleftrightarrow>
     (case needed_report sub of None \<Rightarrow> True | Some sub' \<Rightarrow> (sub', rid) \<in> set seen) \<and>
     report_order (seen @ [(sub, rid)]) rs"

lemma report_order_append:
  "report_order seen (rs @ rs') \<longleftrightarrow> report_order seen rs \<and> report_order (seen @ rs) rs'"
  by (induction seen rs rule: report_order.induct) auto

text \<open>The hook of the reporter may fill in counters, but keeps what identifies the report.\<close>

definition hook_keeps :: "VerificationReporter \<Rightarrow> bool" where
  "hook_keeps v \<longleftrightarrow> (\<forall>tm. pt_service (tm_hook v tm) = pt_service tm \<and>
     pt_subservice (tm_hook v tm) = pt_subservice tm \<and> pt_source_data (tm_hook v tm) = pt_source_data tm)"

lemma report_tm_cases:
  assumes "report_tm send_tm s v created = (r, s', v')" and "r \<noteq> Panic"
  obtains (sent) tm x where "r = Ok x" "fst created = Ok (tm, x)"
      "send_tm s (owner_id v) (Direct (tm_hook v tm)) = (Ok (), s')" "v' = v\<lparr>source_data_buf := snd created\<rparr>"
    | (refused) e where "r = Err e" "s' = s" "v' = v\<lparr>source_data_buf := snd created\<rparr>"
    | (unsent) e i tm e' where "r = Err e" "send_tm s i tm = (Err e', s')" "v' = v\<lparr>source_data_buf := snd created\<rparr>"
  using assms
  by (cases "fst created"; cases "the_ok (fst created)";
      cases "fst (send_tm s (owner_id v) (Direct (tm_hook v (fst (the_ok (fst created))))))")
    (auto simp: report_tm_def Let_def res_simps split: prod.splits)

lemmas reporter_defs =
  acceptance_success_def acceptance_failure_def start_success_def start_failure_def step_success_def
  step_failure_def completion_success_def completion_failure_def

lemmas creator_defs =
  creator_acceptance_success_def creator_acceptance_failure_def creator_start_success_def
  creator_start_failure_def creator_step_success_def creator_step_failure_def
  creator_completion_success_def creator_completion_failure_def
  success_verification_no_step_def failure_verification_no_step_def

lemma created_report:
  "fst (create_pus_verif_success_tm sp c buf (verif_subservice sp sub) q m rid ts step) = Ok tm \<Longrightarrow>
     report_of sp sub rid tm"
  "fst (create_pus_verif_fail_tm sp c buf (verif_subservice sp sub) q m rid step ps) = Ok tm \<Longrightarrow>
     report_of sp sub rid tm"
  by (metis created_success prod.collapse, metis created_fail prod.collapse)

text \<open>
  The effect of one call: a successful one sends exactly one report of its telecommand, a failing one
  sends nothing or is refused by the sender.
\<close>

definition sends_report ::
    "('pid, 'psc) Spacepackets \<Rightarrow> ('s, 'pe) EcssTmSender \<Rightarrow> 's \<Rightarrow> VerificationReporter \<Rightarrow>
     ('pid, 'psc) verif_report list \<Rightarrow> 's \<Rightarrow> VerificationReporter \<Rightarrow> bool" where
  "sends_report sp send_tm s v ls s' v' \<longleftrightarrow>
     (\<exists>buf. v' = v\<lparr>source_data_buf := buf\<rparr>) \<and>
     ((\<exists>sub rid tm. ls = [(sub, rid)] \<and> report_of sp sub rid tm \<and>
         send_tm s (owner_id v) (Direct (tm_hook v tm)) = (Ok (), s')) \<or>
      ls = [] \<and> (s' = s \<or> (\<exists>i tm e. send_tm s i tm = (Err e, s'))))"

lemma report_tm_effect:
  assumes "report_tm send_tm s v created = (r, s', v')" and "r \<noteq> Panic"
    and "\<forall>tm x. fst created = Ok (tm, x) \<longrightarrow> report_of sp sub rid tm"
  shows "sends_report sp send_tm s v (reported r (sub, rid)) s' v'"
  using assms(1,2)
proof (cases rule: report_tm_cases)
  case (sent tm x)
  then have "report_of sp sub rid tm" using assms(3) by blast
  then show ?thesis using sent by (auto simp: sends_report_def)
qed (auto simp: sends_report_def)

lemma creator_reports:
  "fst (creator_acceptance_success sp c buf t q m ts) = Ok (tm, t') \<Longrightarrow>
     report_of sp TmAcceptanceSuccess (token_request_id t) tm \<and> token_request_id t' = token_request_id t"
  "fst (creator_start_success sp c buf ta q m ts) = Ok (tm, tb) \<Longrightarrow>
     report_of sp TmStartSuccess (token_request_id ta) tm \<and> token_request_id tb = token_request_id ta"
  "fst (no_token (creator_acceptance_failure sp c buf t q m ps)) = Ok (tm, u) \<Longrightarrow>
     report_of sp TmAcceptanceFailure (token_request_id t) tm"
  "fst (no_token (creator_start_failure sp c buf ta q m ps)) = Ok (tm, u) \<Longrightarrow>
     report_of sp TmStartFailure (token_request_id ta) tm"
  "fst (no_token (creator_step_success sp c buf tb q m ts e)) = Ok (tm, u) \<Longrightarrow>
     report_of sp TmStepSuccess (token_request_id tb) tm"
  "fst (no_token (creator_step_failure sp c buf tb q m ps')) = Ok (tm, u) \<Longrightarrow>
     report_of sp TmStepFailure (token_request_id tb) tm"
  "fst (no_token (creator_completion_success sp c buf tc q m ts)) = Ok (tm, u) \<Longrightarrow>
     report_of sp TmCompletionSuccess (token_request_id tc) tm"
  "fst (no_token (creator_completion_failure sp c buf tc q m ps)) = Ok (tm, u) \<Longrightarrow>
     report_of sp TmCompletionFailure (token_request_id tc) tm"
  by (auto simp: creator_defs no_token_def res_simps case_prod_unfold Let_def dest!: created_report)

lemma step_effect:
  "verif_step sp send_tm x ls y \<Longrightarrow>
   sends_report sp send_tm (fst (snd x)) (snd (snd x)) ls (fst (snd y)) (snd (snd y))"
proof (induction rule: verif_step.induct)
  case (add T s v rid)
  have "\<exists>buf. v = v\<lparr>source_data_buf := buf\<rparr>" by (rule exI [of _ "source_data_buf v"]) simp
  then show ?case by (simp add: sends_report_def)
qed (auto simp: reporter_defs intro!: report_tm_effect dest!: creator_reports)

text \<open>Every token was given out for a report that has been made.\<close>

definition tokens_justified ::
    "('pid, 'psc) TcStateToken set \<Rightarrow> ('pid, 'psc) verif_report list \<Rightarrow> bool" where
  "tokens_justified T rs \<longleftrightarrow>
     (\<forall>t. TokenAccepted t \<in> T \<longrightarrow> (TmAcceptanceSuccess, token_request_id t) \<in> set rs) \<and>
     (\<forall>t. TokenStarted t \<in> T \<longrightarrow> (TmAcceptanceSuccess, token_request_id t) \<in> set rs \<and>
        (TmStartSuccess, token_request_id t) \<in> set rs)"

lemma justified_append: "tokens_justified T rs \<Longrightarrow> tokens_justified T (rs @ ls)"
  by (auto simp: tokens_justified_def)

lemma reported_order:
  "case needed_report sub of None \<Rightarrow> True | Some sub' \<Rightarrow> (sub', rid) \<in> set rs \<Longrightarrow>
   report_order rs (reported r (sub, rid))"
  by (cases r) auto

lemma granted_token:
  "acceptance_success sp send_tm s v t ts = (Ok t', s', v') \<Longrightarrow> token_request_id t' = token_request_id t"
  "start_success sp send_tm s v ta ts = (Ok tb, s', v') \<Longrightarrow> token_request_id tb = token_request_id ta"
  by (auto simp: reporter_defs elim!: report_tm_cases dest!: creator_reports)

lemma step_order:
  "verif_step sp send_tm x ls y \<Longrightarrow> tokens_justified (fst x) rs \<Longrightarrow>
   report_order rs ls \<and> tokens_justified (fst y) (rs @ ls)"
proof (induction rule: verif_step.induct)
  case (accept t T s v ts r s' v')
  then show ?case using granted_token(1) by (cases r) (auto simp: tokens_justified_def)
next
  case (start ta T s v ts q s' v')
  then show ?case by (cases q) (auto simp: tokens_justified_def granted_token(2))
next
  case (add T s v rid)
  then show ?case by (auto simp: tokens_justified_def)
qed (simp add: justified_append, rule reported_order, simp add: tokens_justified_def)+

lemma run_order:
  assumes "verif_run sp send_tm x rs y" and "fst x = {}"
  shows "report_order [] rs \<and> tokens_justified (fst y) rs"
  using assms
proof (induction rule: verif_run.induct)
  case (call rs y ls z)
  then show ?case using step_order by (fastforce simp: report_order_append)
qed (simp add: tokens_justified_def)

text \<open>
  Over any sender that keeps the contract, a run queues exactly its reports, in order: one message
  per report, and every message still carries its report at the end of the run.
\<close>

context tm_sender
begin

lemma effect_queue:
  assumes "sends_report sp send_tm s v ls s' v'" "hook_keeps v" "tm_inv s"
  shows "tm_inv s' \<and> hook_keeps v' \<and> owner_id v' = owner_id v \<and>
    (\<forall>m \<in> set (tm_queue s). \<forall>j t. carries s m j t \<longrightarrow> carries s' m j t) \<and>
    (\<exists>ms. tm_queue s' = tm_queue s @ ms \<and>
       list_all2 (\<lambda>m (sub, rid). \<exists>tm. carries s' m (owner_id v) (Direct tm) \<and> report_of sp sub rid tm) ms ls)"
proof -
  obtain buf where v: "v' = v\<lparr>source_data_buf := buf\<rparr>" using assms(1) by (auto simp: sends_report_def)
  have hk: "hook_keeps v'" using assms(2) v by (simp add: hook_keeps_def)
  consider (sent) sub rid tm where "ls = [(sub, rid)]" "report_of sp sub rid tm"
      "send_tm s (owner_id v) (Direct (tm_hook v tm)) = (Ok (), s')"
    | (silent) "ls = []" "s' = s" | (unsent) i tm e where "ls = []" "send_tm s i tm = (Err e, s')"
    using assms(1) by (auto simp: sends_report_def)
  then show ?thesis
  proof cases
    case sent
    then have "report_of sp sub rid (tm_hook v tm)" using assms(2) by (simp add: report_of_def hook_keeps_def)
    then show ?thesis
      using send_tm_ok [OF assms(3) sent(3)] send_tm_inv [OF assms(3) sent(3)] carries_kept [OF assms(3) sent(3)]
        hk v sent(1) by fastforce
  next
    case silent
    then show ?thesis using hk v assms(3) by simp
  next
    case unsent
    then show ?thesis
      using send_tm_err [OF assms(3) unsent(2)] send_tm_inv [OF assms(3) unsent(2)]
        carries_kept [OF assms(3) unsent(2)] hk v by simp
  qed
qed

lemma run_queue:
  assumes "verif_run sp send_tm x rs y" "hook_keeps (snd (snd x))" "tm_inv (fst (snd x))"
  shows "tm_inv (fst (snd y)) \<and> hook_keeps (snd (snd y)) \<and> owner_id (snd (snd y)) = owner_id (snd (snd x)) \<and>
    (\<exists>ms. tm_queue (fst (snd y)) = tm_queue (fst (snd x)) @ ms \<and>
      list_all2 (\<lambda>m (sub, rid). \<exists>tm. carries (fst (snd y)) m (owner_id (snd (snd x))) (Direct tm) \<and>
        report_of sp sub rid tm) ms rs)"
  using assms
proof (induction rule: verif_run.induct)
  case (call rs y ls z)
  obtain ms where y: "tm_inv (fst (snd y))" "hook_keeps (snd (snd y))" "owner_id (snd (snd y)) = owner_id (snd (snd x))"
    and q: "tm_queue (fst (snd y)) = tm_queue (fst (snd x)) @ ms"
    and c: "list_all2 (\<lambda>m (sub, rid). \<exists>tm. carries (fst (snd y)) m (owner_id (snd (snd x))) (Direct tm) \<and>
        report_of sp sub rid tm) ms rs"
    using call.IH call.prems by blast
  note e = effect_queue [OF step_effect [OF call.hyps(2)] y(2,1)]
  then obtain ms' where q': "tm_queue (fst (snd z)) = tm_queue (fst (snd y)) @ ms'"
    and c': "list_all2 (\<lambda>m (sub, rid). \<exists>tm. carries (fst (snd z)) m (owner_id (snd (snd x))) (Direct tm) \<and>
        report_of sp sub rid tm) ms' ls" using y(3) by auto
  have "list_all2 (\<lambda>m (sub, rid). \<exists>tm. carries (fst (snd z)) m (owner_id (snd (snd x))) (Direct tm) \<and>
        report_of sp sub rid tm) ms rs"
    by (rule list.rel_mono_strong [OF c]) (use e q in fastforce)
  then show ?case using e q q' c' y(3) list_all2_appendI [of _ ms rs ms' ls] by auto
qed simp

end

subsection \<open>Properties\<close>

text \<open>
  A step failure report. A buffer that is too small for it is refused with the exact sizes and left
  as it was; otherwise the report has service 1, the step failure subservice, the reporter's APID and
  the time stamp, its source data is the request id, the step, the failure code and the failure data
  in this order, and reading the request id back from it gives the telecommand's.
\<close>

lemma verif_failure_report:
  assumes "spacepackets_ok sp" and "version_number (token_request_id token) \<le> mask 3"
    and "ecss_enum_writes (fs_step params) bs" and "ecss_enum_writes (failure_code (fs_common params)) cs"
  defines "n \<equiv> 4 + length cs + length bs + length (failure_data (fs_common params))"
  shows "if length buf < n
    then creator_step_failure sp c buf token q m params = (Err (ToSliceTooSmall (length buf) n), buf)
    else \<exists>tm. creator_step_failure sp c buf token q m params = (Ok tm, pt_source_data tm @ drop n buf) \<and>
      pt_service tm = 1 \<and> pt_subservice tm = 6 \<and> pt_apid tm = creator_apid c \<and>
      pt_time_stamp tm = fp_time_stamp (fs_common params) \<and>
      pt_source_data tm = to_be_bytes (RequestId_raw sp (token_request_id token)) @ bs @ cs @
        failure_data (fs_common params) \<and>
      RequestId_from_bytes sp (pt_source_data tm) = Some (token_request_id token)"
proof -
  have s: "opt_enum_writes (Some (fs_step params)) bs" using assms(3) by simp
  have "verif_subservice sp TmStepFailure = 6" using assms(1) by (simp add: spacepackets_ok_def)
  then show ?thesis
    by (auto simp: create_fail_tm [OF s assms(4)] RequestId_from_bytes_raw [OF assms(1,2)] creator_step_failure_def n_def verif_tm_def Let_def)
qed

text \<open>
  The buffer of a reporter is large enough. For every reporter built from a configuration, a report
  whose step, failure code and failure data respect the configured widths is created, after any
  earlier reports have used the buffer, and its APID is a valid one.
\<close>

lemma verif_buffer_suffices:
  assumes "VerificationReporter_new_with_hook sp oid conf hook = (Ok v :: ('e, VerificationReporter) res)"
    and "length buf = length (source_data_buf v)"
    and "ecss_enum_writes (fs_step params) bs" and "length bs \<le> step_field_width conf"
    and "ecss_enum_writes (failure_code (fs_common params)) cs" and "length cs \<le> fail_code_field_width conf"
    and "length (failure_data (fs_common params)) \<le> max_fail_data_len conf"
  shows "\<exists>tm buf'. creator_step_failure sp (reporter_creator v) buf token q m params = (Ok tm, buf') \<and>
    length buf' = length (source_data_buf v) \<and> pt_apid tm \<le> MAX_APID sp"
proof -
  have s: "opt_enum_writes (Some (fs_step params)) bs" using assms(3) by simp
  have "creator_apid (reporter_creator v) \<le> MAX_APID sp"
    "length (source_data_buf v) = 4 + step_field_width conf + fail_code_field_width conf + max_fail_data_len conf"
    using assms(1)
    by (auto simp: VerificationReporter_new_with_hook_def VerificationReportCreator_new_def SIZE_AS_BYTES_def
        split: if_splits)
  then show ?thesis using assms(2,4,6,7)
    by (auto simp: create_fail_tm [OF s assms(5)] creator_step_failure_def verif_tm_def Let_def)
qed

subsection \<open>Witnesses\<close>

definition demo_sp :: "(13 word, u16) Spacepackets" where
  "demo_sp =
     \<lparr>pid_raw = ucast, pid_from = ucast, psc_raw = (\<lambda>s. s), psc_from = (\<lambda>s. s), MAX_APID = 0x7ff,
      verif_subservice = (\<lambda>sub. case sub of
        TmAcceptanceSuccess \<Rightarrow> 1 | TmAcceptanceFailure \<Rightarrow> 2 | TmStartSuccess \<Rightarrow> 3 | TmStartFailure \<Rightarrow> 4
      | TmStepSuccess \<Rightarrow> 5 | TmStepFailure \<Rightarrow> 6 | TmCompletionSuccess \<Rightarrow> 7 | TmCompletionFailure \<Rightarrow> 8)\<rparr>"

definition demo_rid :: "(13 word, u16) RequestId" where
  "demo_rid = RequestId_new 0 5 9"


definition demo_enum :: EcssEnumeration where
  "demo_enum = \<lparr>ee_size = 1,
     ee_write = (\<lambda>buf. if length buf < 1 then (Err (ToSliceTooSmall (length buf) 1), buf)
                       else (Ok 1, overwrite 0 [42] buf))\<rparr>"

lemma demo_enum_writes: "ecss_enum_writes demo_enum [42]"
  by (simp add: ecss_enum_writes_def demo_enum_def)

lemma demo_sp_ok: "spacepackets_ok demo_sp"
proof -
  have "(ucast p :: u16) \<le> mask 13" for p :: "13 word"
  proof -
    have "unat p < 2 ^ 13" using unsigned_less [of p] by simp
    moreover have "unat (ucast p :: u16) = unat p" using calculation by (simp add: unsigned_ucast_eq take_bit_nat_eq_self)
    ultimately show ?thesis by (simp add: word_le_nat_alt mask_eq_exp_minus_1)
  qed
  moreover have "ucast (ucast p :: u16) = p" for p :: "13 word"
    by (rule bit_word_eqI) (simp add: bit_simps)
  moreover have "(ucast (w AND mask 13) :: 13 word) = ucast w" for w :: u16
    by (rule bit_word_eqI) (auto simp: bit_simps)
  ultimately show ?thesis by (simp add: spacepackets_ok_def demo_sp_def)
qed

definition demo_fail :: FailParamsWithStep where
  "demo_fail = FailParamsWithStep_new [1] demo_enum demo_enum [7]"

end
