(* ===== verification/Tmtc.thy ===== *)
theory Tmtc
  imports Static_Pool Verification
begin

text \<open>
  Packet transport (\<^verbatim>\<open>satrs/src/tmtc/mod.rs\<close>, \<^verbatim>\<open>satrs/src/tmtc/tm_helper.rs\<close>) and the telemetry senders
  of \<^verbatim>\<open>satrs/src/pus/mod.rs\<close>: packets as vectors over channels, packets stored in a shared pool with
  their addresses over channels, and the implementations of \<^verbatim>\<open>EcssTmSender\<close>, each of which
  interprets the contract \<open>tm_sender\<close>.
\<close>

subsection \<open>Packets and the telemetry encoder\<close>

record PacketInPool =
  pip_sender_id :: ComponentId
  pip_store_addr :: PoolAddr

definition PacketInPool_new :: "ComponentId \<Rightarrow> PoolAddr \<Rightarrow> PacketInPool" where
  "PacketInPool_new i a = \<lparr>pip_sender_id = i, pip_store_addr = a\<rparr>"

record PacketAsVec =
  pav_sender_id :: ComponentId
  pav_packet :: bytes

definition PacketAsVec_new :: "ComponentId \<Rightarrow> bytes \<Rightarrow> PacketAsVec" where
  "PacketAsVec_new i p = \<lparr>pav_sender_id = i, pav_packet = p\<rparr>"

text \<open>
  \<^verbatim>\<open>len_written\<close>, \<^verbatim>\<open>write_to_bytes\<close> and \<^verbatim>\<open>to_vec\<close> of the packet library. The code relies on \<open>tm_ops_ok\<close>:
  a telemetry packet has one encoding, which is what both methods produce, and writing does not
  resize the buffer.
\<close>

record TmOps =
  tm_len_written :: "PusTmCreator \<Rightarrow> nat"
  tm_write :: "PusTmCreator \<Rightarrow> bytes \<Rightarrow> (ByteConversionError, nat) res \<times> bytes"
  tm_to_vec :: "PusTmCreator \<Rightarrow> (ByteConversionError, bytes) res"

definition tm_ops_ok :: "TmOps \<Rightarrow> bool" where
  "tm_ops_ok ops \<longleftrightarrow>
     (\<forall>tm. \<exists>bs. tm_to_vec ops tm = Ok bs \<and> length bs = tm_len_written ops tm \<and>
        (\<forall>buf. length buf = length bs \<longrightarrow> tm_write ops tm buf = (Ok (length bs), bs))) \<and>
     (\<forall>tm buf. length (snd (tm_write ops tm buf)) = length buf)"

subsection \<open>Packets over channels\<close>

definition mpsc_Sender_send_ccsds ::
    "PacketAsVec net \<Rightarrow> nat \<Rightarrow> ComponentId \<Rightarrow> bytes \<Rightarrow> (GenericSendError, unit) res \<times> PacketAsVec net" where
  "mpsc_Sender_send_ccsds w h sender_id tc_raw =
     (let (r, w') = on_chan (\<lambda>c. mpsc_send c (PacketAsVec_new sender_id tc_raw)) w h
      in (res_map_err (\<lambda>_. RxDisconnected) r, w'))"

definition mpsc_SyncSender_send_ccsds ::
    "PacketAsVec net \<Rightarrow> nat \<Rightarrow> ComponentId \<Rightarrow> bytes \<Rightarrow> (GenericSendError, unit) res \<times> PacketAsVec net" where
  "mpsc_SyncSender_send_ccsds w h sender_id packet_raw =
     (let (r, w') = on_chan (\<lambda>c. mpsc_try_send c (PacketAsVec_new sender_id packet_raw)) w h
      in (res_map_err GenericSendError_from_try_send r, w'))"

definition mpsc_Sender_send_packet ::
    "PacketAsVec net \<Rightarrow> nat \<Rightarrow> ComponentId \<Rightarrow> bytes \<Rightarrow> (GenericSendError, unit) res \<times> PacketAsVec net" where
  "mpsc_Sender_send_packet w h sender_id packet =
     (let (r, w') = on_chan (\<lambda>c. mpsc_send c (PacketAsVec_new sender_id packet)) w h
      in (res_map_err (\<lambda>_. RxDisconnected) r, w'))"

definition mpsc_SyncSender_send_packet ::
    "PacketAsVec net \<Rightarrow> nat \<Rightarrow> ComponentId \<Rightarrow> bytes \<Rightarrow> (GenericSendError, unit) res \<times> PacketAsVec net" where
  "mpsc_SyncSender_send_packet w h sender_id tc_raw =
     (let (r, w') = on_chan (\<lambda>c. mpsc_try_send c (PacketAsVec_new sender_id tc_raw)) w h
      in (res_map_err GenericSendError_from_try_send r, w'))"

text \<open>\<^verbatim>\<open>PacketInPoolSender\<close>.\<close>

type_synonym 'w PacketInPoolSender =
  "'w \<Rightarrow> ComponentId \<Rightarrow> PoolAddr \<Rightarrow> (GenericSendError, unit) res \<times> 'w"

definition mpsc_Sender_send_pool_packet :: "nat \<Rightarrow> PacketInPool net PacketInPoolSender" where
  "mpsc_Sender_send_pool_packet h w sender_id store_addr =
     (let (r, w') = on_chan (\<lambda>c. mpsc_send c (PacketInPool_new sender_id store_addr)) w h
      in (res_map_err (\<lambda>_. RxDisconnected) r, w'))"

definition mpsc_SyncSender_send_pool_packet :: "nat \<Rightarrow> PacketInPool net PacketInPoolSender" where
  "mpsc_SyncSender_send_pool_packet h w sender_id store_addr =
     (let (r, w') = on_chan (\<lambda>c. mpsc_try_send c (PacketInPool_new sender_id store_addr)) w h
      in (res_map_err GenericSendError_from_try_send r, w'))"

subsection \<open>The shared pool\<close>

text \<open>
  \<^verbatim>\<open>Arc<RwLock<StaticMemoryPool>>\<close>: all clones are one pool, and a panic while the write guard is held
  poisons the lock, after which \<^verbatim>\<open>write()\<close> fails.
\<close>

record SharedPacketPool =
  lock_poisoned :: bool
  locked_pool :: StaticMemoryPool

text \<open>
  The block \<^verbatim>\<open>free_element\<close> hands to its closure. The closures below write it and capture a result,
  so a closure is a function from the block to its result and the written block.
\<close>

definition reserved_block :: "StaticMemoryPool \<Rightarrow> nat \<Rightarrow> bytes" where
  "reserved_block p len =
     (case reserve p len of
        (Ok a, p1) \<Rightarrow>
          (case (raw_pos p1 a, get (pool p1) (unat (pool_idx a))) of
             (Some pos, Some subpool) \<Rightarrow> take len (drop pos subpool)
           | _ \<Rightarrow> [])
      | _ \<Rightarrow> [])"

definition shared_free_element ::
    "SharedPacketPool \<Rightarrow> nat \<Rightarrow> (bytes \<Rightarrow> (ByteConversionError, nat) res \<times> bytes) \<Rightarrow>
     (PoolError, PoolAddr) res \<times> SharedPacketPool" where
  "shared_free_element sh len f =
     (if lock_poisoned sh then (Err LockError, sh)
      else
        let (r, p') = StaticMemoryPool_free_element (locked_pool sh) len (\<lambda>b. snd (f b));
            sh' = sh\<lparr>locked_pool := p'\<rparr>
        in (case r of
              Err e \<Rightarrow> (Err e, sh')
            | Panic \<Rightarrow> (Panic, sh'\<lparr>lock_poisoned := True\<rparr>)
            | Ok addr \<Rightarrow>
                (case fst (f (reserved_block (locked_pool sh) len)) of
                   Ok n \<Rightarrow> (Ok addr, sh')
                 | Err e \<Rightarrow> (Err (PoolByteConversionError e), sh')
                 | Panic \<Rightarrow> (Panic, sh'\<lparr>lock_poisoned := True\<rparr>))))"

text \<open>\<^verbatim>\<open>buf[0..len].copy_from_slice(data)\<close> inside a closure.\<close>

definition copy_closure :: "nat \<Rightarrow> bytes \<Rightarrow> bytes \<Rightarrow> (ByteConversionError, nat) res \<times> bytes" where
  "copy_closure len data buf =
     (case slice 0 len buf of
        Ok window \<Rightarrow>
          (case copy_from_slice data window of
             Ok window' \<Rightarrow> (Ok 0, overwrite 0 window' buf)
           | Err e \<Rightarrow> (Err e, buf)
           | Panic \<Rightarrow> (Panic, buf))
      | Err e \<Rightarrow> (Err e, buf)
      | Panic \<Rightarrow> (Panic, buf))"

definition SharedPacketPool_add_raw_tc ::
    "SharedPacketPool \<Rightarrow> bytes \<Rightarrow> (PoolError, PoolAddr) res \<times> SharedPacketPool" where
  "SharedPacketPool_add_raw_tc sh tc_raw =
     shared_free_element sh (length tc_raw) (copy_closure (length tc_raw) tc_raw)"

text \<open>\<^verbatim>\<open>CcsdsPacketPool::add_ccsds_tc\<close>, the default method; the header is ignored.\<close>

definition SharedPacketPool_add_ccsds_tc ::
    "SharedPacketPool \<Rightarrow> 'hdr \<Rightarrow> bytes \<Rightarrow> (PoolError, PoolAddr) res \<times> SharedPacketPool" where
  "SharedPacketPool_add_ccsds_tc sh header tc_raw = SharedPacketPool_add_raw_tc sh tc_raw"

text \<open>A \<^verbatim>\<open>PusTcReader\<close> or \<^verbatim>\<open>PusTmReader\<close> is given by its \<^verbatim>\<open>len_packed\<close> and its \<^verbatim>\<open>raw_data\<close>.\<close>

definition SharedPacketPool_add_pus_tc ::
    "SharedPacketPool \<Rightarrow> nat \<Rightarrow> bytes \<Rightarrow> (PoolError, PoolAddr) res \<times> SharedPacketPool" where
  "SharedPacketPool_add_pus_tc sh len_packed raw_data =
     shared_free_element sh len_packed (copy_closure len_packed raw_data)"

definition SharedPacketPool_add_pus_tm_from_reader ::
    "SharedPacketPool \<Rightarrow> nat \<Rightarrow> bytes \<Rightarrow> (PoolError, PoolAddr) res \<times> SharedPacketPool" where
  "SharedPacketPool_add_pus_tm_from_reader sh len_packed raw_data =
     shared_free_element sh len_packed (copy_closure len_packed raw_data)"

definition SharedPacketPool_add_pus_tm_from_creator ::
    "TmOps \<Rightarrow> SharedPacketPool \<Rightarrow> PusTmCreator \<Rightarrow> (PoolError, PoolAddr) res \<times> SharedPacketPool" where
  "SharedPacketPool_add_pus_tm_from_creator ops sh pus_tm =
     shared_free_element sh (tm_len_written ops pus_tm) (tm_write ops pus_tm)"

subsection \<open>Packets stored in the shared pool and sent by address\<close>

datatype StoreAndSendError = StoreAndSendStore PoolError | StoreAndSendSend GenericSendError

text \<open>
  \<^verbatim>\<open>PacketSenderWithSharedPool\<close>: what its sender delivers into, and the pool; both are shared with the
  receiving side.
\<close>

record 'w PacketSenderWithSharedPool =
  pp_sender :: 'w
  pp_shared_pool :: SharedPacketPool

definition PacketSenderWithSharedPool_new ::
    "'w \<Rightarrow> SharedPacketPool \<Rightarrow> 'w PacketSenderWithSharedPool" where
  "PacketSenderWithSharedPool_new w sh = \<lparr>pp_sender = w, pp_shared_pool = sh\<rparr>"

definition pool_send_addr ::
    "'w PacketInPoolSender \<Rightarrow> 'w PacketSenderWithSharedPool \<Rightarrow> ComponentId \<Rightarrow> PoolAddr \<Rightarrow>
     (GenericSendError, unit) res \<times> 'w PacketSenderWithSharedPool" where
  "pool_send_addr snd_op s sender_id a =
     (let (r, w') = snd_op (pp_sender s) sender_id a in (r, s\<lparr>pp_sender := w'\<rparr>))"

definition PacketSenderWithSharedPool_send_packet ::
    "'w PacketInPoolSender \<Rightarrow> 'w PacketSenderWithSharedPool \<Rightarrow> ComponentId \<Rightarrow> bytes \<Rightarrow>
     (StoreAndSendError, unit) res \<times> 'w PacketSenderWithSharedPool" where
  "PacketSenderWithSharedPool_send_packet snd_op s sender_id packet =
     (let (r, sh') = SharedPacketPool_add_raw_tc (pp_shared_pool s) packet;
          s' = s\<lparr>pp_shared_pool := sh'\<rparr>
      in res_try (res_map_err StoreAndSendStore r) s' (\<lambda>store_addr.
           let (r2, s'') = pool_send_addr snd_op s' sender_id store_addr
           in (res_map_err StoreAndSendSend r2, s'')))"

definition PacketSenderWithSharedPool_send_pus_tc ::
    "'w PacketInPoolSender \<Rightarrow> 'w PacketSenderWithSharedPool \<Rightarrow> ComponentId \<Rightarrow> 'hdr \<Rightarrow> bytes \<Rightarrow>
     (StoreAndSendError, unit) res \<times> 'w PacketSenderWithSharedPool" where
  "PacketSenderWithSharedPool_send_pus_tc snd_op s sender_id header raw_data =
     (let (r, sh') = SharedPacketPool_add_raw_tc (pp_shared_pool s) raw_data;
          s' = s\<lparr>pp_shared_pool := sh'\<rparr>
      in res_try (res_map_err StoreAndSendStore r) s' (\<lambda>store_addr.
           let (r2, s'') = pool_send_addr snd_op s' sender_id store_addr
           in (res_map_err StoreAndSendSend r2, s'')))"

definition PacketSenderWithSharedPool_send_ccsds ::
    "'w PacketInPoolSender \<Rightarrow> 'w PacketSenderWithSharedPool \<Rightarrow> ComponentId \<Rightarrow> 'hdr \<Rightarrow> bytes \<Rightarrow>
     (StoreAndSendError, unit) res \<times> 'w PacketSenderWithSharedPool" where
  "PacketSenderWithSharedPool_send_ccsds snd_op s sender_id header tc_raw =
     PacketSenderWithSharedPool_send_packet snd_op s sender_id tc_raw"

definition PacketSenderWithSharedPool_send_tm ::
    "TmOps \<Rightarrow> 'w PacketInPoolSender \<Rightarrow> ('w PacketSenderWithSharedPool, 'pe) EcssTmSender" where
  "PacketSenderWithSharedPool_send_tm ops snd_op s sender_id tm =
     (case tm of
        InStore store_addr \<Rightarrow>
          (let (r, s') = pool_send_addr snd_op s sender_id store_addr in (res_map_err TmtcSend r, s'))
      | Direct tm_creator \<Rightarrow>
          (let (r, sh') = SharedPacketPool_add_pus_tm_from_creator ops (pp_shared_pool s) tm_creator;
               s' = s\<lparr>pp_shared_pool := sh'\<rparr>
           in res_try (res_map_err TmtcStore r) s' (\<lambda>store_addr.
                let (r2, s'') = pool_send_addr snd_op s' sender_id store_addr
                in (res_map_err TmtcSend r2, s''))))"

subsection \<open>The channel senders of telemetry\<close>

definition mpsc_Sender_PacketInPool_send_tm :: "nat \<Rightarrow> (PacketInPool net, 'pe) EcssTmSender" where
  "mpsc_Sender_PacketInPool_send_tm h w source_id tm =
     (case tm of
        InStore store_addr \<Rightarrow>
          (let (r, w') = on_chan (\<lambda>c. mpsc_send c \<lparr>pip_sender_id = source_id, pip_store_addr = store_addr\<rparr>) w h
           in (res_map_err (\<lambda>_. TmtcSend RxDisconnected) r, w'))
      | Direct _ \<Rightarrow> (Err CantSendDirectTm, w))"

definition mpsc_SyncSender_PacketInPool_send_tm :: "nat \<Rightarrow> (PacketInPool net, 'pe) EcssTmSender" where
  "mpsc_SyncSender_PacketInPool_send_tm h w source_id tm =
     (case tm of
        InStore store_addr \<Rightarrow>
          (let (r, w') = on_chan (\<lambda>c. mpsc_try_send c \<lparr>pip_sender_id = source_id, pip_store_addr = store_addr\<rparr>) w h
           in (res_map_err (\<lambda>e. TmtcSend (GenericSendError_from_try_send e)) r, w'))
      | Direct _ \<Rightarrow> (Err CantSendDirectTm, w))"

definition MpscTmAsVecSender_send_tm :: "TmOps \<Rightarrow> nat \<Rightarrow> (PacketAsVec net, 'pe) EcssTmSender" where
  "MpscTmAsVecSender_send_tm ops h w source_id tm =
     (case tm of
        InStore a \<Rightarrow> (Err (CantSendAddr a), w)
      | Direct t \<Rightarrow>
          res_try (res_map_err TmtcByteConversion (tm_to_vec ops t)) w (\<lambda>packet.
            let (r, w') = on_chan (\<lambda>c. mpsc_send c \<lparr>pav_sender_id = source_id, pav_packet = packet\<rparr>) w h
            in (res_map_err (\<lambda>e. TmtcSend (GenericSendError_from_send e)) r, w')))"

text \<open>
  The bounded variant calls the blocking \<^verbatim>\<open>SyncSender::send\<close>, which waits while the channel is full; a
  call that waits has no result.
\<close>

definition mpsc_sync_send :: "'m chan \<Rightarrow> 'm \<Rightarrow> ((unit, unit) res \<times> 'm chan) option" where
  "mpsc_sync_send c x =
     (if \<not> rx_alive c then Some (Err (), c)
      else if ch_bound c \<le> length (ch_queue c) then None
      else Some (Ok (), c\<lparr>ch_queue := ch_queue c @ [x]\<rparr>))"

definition MpscTmAsVecSenderBounded_send_tm ::
    "TmOps \<Rightarrow> nat \<Rightarrow> PacketAsVec net \<Rightarrow> ComponentId \<Rightarrow> PusTmVariant \<Rightarrow>
     (('pe EcssTmtcError, unit) res \<times> PacketAsVec net) option" where
  "MpscTmAsVecSenderBounded_send_tm ops h w source_id tm =
     (case tm of
        InStore a \<Rightarrow> Some (Err (CantSendAddr a), w)
      | Direct t \<Rightarrow>
          (case tm_to_vec ops t of
             Err e \<Rightarrow> Some (Err (TmtcByteConversion e), w)
           | Panic \<Rightarrow> Some (Panic, w)
           | Ok packet \<Rightarrow>
               map_option (\<lambda>(r, c). (res_map_err (\<lambda>e. TmtcSend (GenericSendError_from_send e)) r, w(h := c)))
                 (mpsc_sync_send (w h) \<lparr>pav_sender_id = source_id, pav_packet = packet\<rparr>)))"

subsection \<open>The telemetry helper\<close>

text \<open>
  \<^verbatim>\<open>PusTmWithCdsShortHelper\<close>: the time stamp is written into a seven-byte buffer by the time library,
  a parameter, and the telemetry is built with it.
\<close>

record PusTmWithCdsShortHelper =
  helper_apid :: u16
  cds_short_buf :: bytes

definition PusTmWithCdsShortHelper_new :: "u16 \<Rightarrow> PusTmWithCdsShortHelper" where
  "PusTmWithCdsShortHelper_new apid = \<lparr>helper_apid = apid, cds_short_buf = replicate 7 0\<rparr>"

definition create_pus_tm_common ::
    "PusTmWithCdsShortHelper \<Rightarrow> u8 \<Rightarrow> u8 \<Rightarrow> bytes \<Rightarrow> u16 \<Rightarrow> PusTmCreator" where
  "create_pus_tm_common h service subservice source_data seq_count =
     \<lparr>pt_apid = helper_apid h, pt_seq_count = seq_count, pt_service = service, pt_subservice = subservice,
      pt_msg_counter = 0, pt_dest_id = 0, pt_time_stamp = cds_short_buf h, pt_source_data = source_data\<rparr>"

definition create_pus_tm_with_stamper ::
    "(bytes \<Rightarrow> ('te, nat) res \<times> bytes) \<Rightarrow> PusTmWithCdsShortHelper \<Rightarrow> u8 \<Rightarrow> u8 \<Rightarrow> bytes \<Rightarrow> u16 \<Rightarrow>
     ('e, PusTmCreator) res \<times> PusTmWithCdsShortHelper" where
  "create_pus_tm_with_stamper write_stamp h service subservice source_data seq_count =
     (let (r, buf) = write_stamp (cds_short_buf h); h' = h\<lparr>cds_short_buf := buf\<rparr>
      in res_try (res_unwrap r) h' (\<lambda>_.
           (Ok (create_pus_tm_common h' service subservice source_data seq_count), h')))"

subsection \<open>Storing into the shared pool\<close>

definition shared_inv :: "SharedPacketPool \<Rightarrow> bool" where
  "shared_inv sh \<longleftrightarrow> \<not> lock_poisoned sh \<and> pool_inv (locked_pool sh)"

abbreviation shared_content :: "SharedPacketPool \<Rightarrow> PoolAddr \<Rightarrow> bytes option" where
  "shared_content sh \<equiv> pool_content (locked_pool sh)"

lemma reserved_block_length:
  assumes wf: "wf_pool p" and "StaticMemoryPool_free_element p n w = (Ok v, p')"
  shows "length (reserved_block p n) = n"
  using wf
proof (cases rule: reserve_cases [where n = n])
  case (reserved a)
  note s = reserved(2) [unfolded reserved_slot_def]
  have v: "addr_slot p a" using s by simp
  have "raw_pos p a = Some (slot_pos p (unat (pool_idx a)) (unat (packet_idx a)))"
    by (rule raw_pos_valid [OF v])
  then show ?thesis
    using reserved(1) wf_slot [OF wf v] s
    by (auto simp: reserved_block_def raw_pos_def get_def)
next
  case (failed e)
  then show ?thesis using assms(2)
    by (auto simp: StaticMemoryPool_free_element_def split: if_splits)
qed

text \<open>
  A closure that fills a block of the requested length with the data: the data is stored at a fresh
  address, or nothing is and the pool has no room.
\<close>

lemma shared_store_cases:
  assumes inv: "shared_inv sh"
    and fill: "\<And>b. length b = n \<Longrightarrow> \<exists>k. f b = (Ok k, d)" and len: "\<And>b. length (snd (f b)) = length b"
  obtains (stored) a sh' where "shared_free_element sh n f = (Ok a, sh')" "shared_inv sh'"
      "shared_content sh a = None" "shared_content sh' = (shared_content sh)(a \<mapsto> d)" "canonical_addr a"
    | (full) e where "shared_free_element sh n f = (Err e, sh)"
proof -
  have p: "pool_inv (locked_pool sh)" "\<not> lock_poisoned sh" using inv by (auto simp: shared_inv_def)
  then have wf: "wf_pool (locked_pool sh)" by (simp add: pool_inv_def)
  obtain r p' where r: "StaticMemoryPool_free_element (locked_pool sh) n (\<lambda>b. snd (f b)) = (r, p')"
    by (cases "StaticMemoryPool_free_element (locked_pool sh) n (\<lambda>b. snd (f b))")
  show ?thesis
  proof (cases r)
    case (Ok a)
    obtain k where "f (reserved_block (locked_pool sh) n) = (Ok k, d)"
      using fill [OF reserved_block_length [OF wf r [unfolded Ok]]] by blast
    moreover obtain b where b: "length b = n" "pool_content p' = (shared_content sh)(a \<mapsto> snd (f b))"
      "pool_inv p'" "shared_content sh a = None" "canonical_addr a"
      using static_free_element_ok [OF p(1) len r [unfolded Ok]] by blast
    moreover have "snd (f b) = d" using fill [OF b(1)] by auto
    ultimately show ?thesis using stored [of a "sh\<lparr>locked_pool := p'\<rparr>"] r Ok p(2)
      by (simp add: shared_free_element_def shared_inv_def)
  next
    case (Err e)
    then have "p' = locked_pool sh"
      using static_pool.free_element_fail [OF p(1), of n "\<lambda>b. snd (f b)"] r by simp
    then show ?thesis using full [of e] r Err p(2) by (simp add: shared_free_element_def)
  next
    case Panic
    then show ?thesis
      using static_pool.free_element_fail [OF p(1), of n "\<lambda>b. snd (f b)"] r by simp
  qed
qed

lemma copy_closure_fills: "length b = length d \<Longrightarrow> \<exists>k. copy_closure (length d) d b = (Ok k, d)"
  by (simp add: copy_closure_def slice_def copy_from_slice_def overwrite_def)

lemma copy_closure_length: "length (snd (copy_closure n d b)) = length b"
  by (auto simp: copy_closure_def slice_def copy_from_slice_def overwrite_def)

lemma tm_write_fills:
  assumes "tm_ops_ok ops" "tm_to_vec ops tm = Ok d"
  shows "length b = tm_len_written ops tm \<Longrightarrow> \<exists>k. tm_write ops tm b = (Ok k, d)"
    and "length (snd (tm_write ops tm b)) = length b"
  using assms unfolding tm_ops_ok_def by (metis res.inject(1))+

lemma add_raw_tc_cases:
  assumes "shared_inv sh"
  obtains (stored) a sh' where "SharedPacketPool_add_raw_tc sh d = (Ok a, sh')" "shared_inv sh'"
      "shared_content sh a = None" "shared_content sh' = (shared_content sh)(a \<mapsto> d)"
    | (full) e where "SharedPacketPool_add_raw_tc sh d = (Err e, sh)"
  by (rule shared_store_cases [OF assms copy_closure_fills [where d = d] copy_closure_length])
    (use stored full in \<open>auto simp: SharedPacketPool_add_raw_tc_def\<close>)

lemma add_tm_cases:
  assumes "shared_inv sh" "tm_ops_ok ops"
  obtains (stored) d a sh' where "tm_to_vec ops tm = Ok d"
      "SharedPacketPool_add_pus_tm_from_creator ops sh tm = (Ok a, sh')" "shared_inv sh'"
      "shared_content sh a = None" "shared_content sh' = (shared_content sh)(a \<mapsto> d)"
    | (full) e where "SharedPacketPool_add_pus_tm_from_creator ops sh tm = (Err e, sh)"
proof -
  obtain d where d: "tm_to_vec ops tm = Ok d" using assms(2) unfolding tm_ops_ok_def by blast
  show ?thesis
    by (rule shared_store_cases [OF assms(1) tm_write_fills(1) [OF assms(2) d] tm_write_fills(2) [OF assms(2) d]])
      (use stored [OF d] full in \<open>auto simp: SharedPacketPool_add_pus_tm_from_creator_def\<close>)
qed

subsection \<open>The senders keep the contract\<close>

definition carries_addr :: "'s \<Rightarrow> PacketInPool \<Rightarrow> ComponentId \<Rightarrow> PusTmVariant \<Rightarrow> bool" where
  "carries_addr s m i tm \<longleftrightarrow> (\<exists>a. tm = InStore a \<and> m = PacketInPool_new i a)"

definition carries_vec :: "TmOps \<Rightarrow> 's \<Rightarrow> PacketAsVec \<Rightarrow> ComponentId \<Rightarrow> PusTmVariant \<Rightarrow> bool" where
  "carries_vec ops s m i tm \<longleftrightarrow>
     (\<exists>t d. tm = Direct t \<and> tm_to_vec ops t = Ok d \<and> m = PacketAsVec_new i d)"

text \<open>A queued address, with the packet in the pool when the telemetry was sent as such.\<close>

definition carries_pool ::
    "TmOps \<Rightarrow> 'w PacketSenderWithSharedPool \<Rightarrow> PacketInPool \<Rightarrow> ComponentId \<Rightarrow> PusTmVariant \<Rightarrow> bool" where
  "carries_pool ops s m i tm \<longleftrightarrow> pip_sender_id m = i \<and>
     (case tm of
        InStore a \<Rightarrow> pip_store_addr m = a
      | Direct t \<Rightarrow> \<exists>d. tm_to_vec ops t = Ok d \<and>
          shared_content (pp_shared_pool s) (pip_store_addr m) = Some d)"

interpretation addr_sender: tm_sender "mpsc_Sender_PacketInPool_send_tm h" "\<lambda>w. ch_queue (w h)" carries_addr
    "\<lambda>_. True" for h
  by unfold_locales
    (auto simp: mpsc_Sender_PacketInPool_send_tm_def chan_defs carries_addr_def PacketInPool_new_def
      split: PusTmVariant.splits if_splits)

interpretation addr_sender_bounded: tm_sender "mpsc_SyncSender_PacketInPool_send_tm h" "\<lambda>w. ch_queue (w h)"
    carries_addr "\<lambda>_. True" for h
  by unfold_locales
    (auto simp: mpsc_SyncSender_PacketInPool_send_tm_def chan_defs carries_addr_def PacketInPool_new_def
      split: PusTmVariant.splits if_splits)

lemma tm_encodes: "tm_ops_ok ops \<Longrightarrow> tm_to_vec ops t = Ok (the_ok (tm_to_vec ops t))"
  unfolding tm_ops_ok_def by (metis res.sel)

lemma vec_send_eq:
  assumes "tm_ops_ok ops"
  shows "MpscTmAsVecSender_send_tm ops h w i tm =
    (case tm of
       InStore a \<Rightarrow> (Err (CantSendAddr a), w)
     | Direct t \<Rightarrow>
         if rx_alive (w h)
         then (Ok (), w(h := (w h)\<lparr>ch_queue := ch_queue (w h) @ [PacketAsVec_new i (the_ok (tm_to_vec ops t))]\<rparr>))
         else (Err (TmtcSend RxDisconnected), w))"
proof (cases tm)
  case (Direct t)
  obtain d where "tm_to_vec ops t = Ok d" using tm_encodes [OF assms] by blast
  then show ?thesis using Direct
    by (simp add: MpscTmAsVecSender_send_tm_def chan_defs PacketAsVec_new_def GenericSendError_from_send_def)
qed (simp add: MpscTmAsVecSender_send_tm_def)

lemma carries_vec_new:
  "tm_ops_ok ops \<Longrightarrow> carries_vec ops s (PacketAsVec_new i (the_ok (tm_to_vec ops t))) i (Direct t)"
  using tm_encodes [of ops t] by (auto simp: carries_vec_def)

interpretation vec_sender: tm_sender "MpscTmAsVecSender_send_tm ops h" "\<lambda>w. ch_queue (w h)" "carries_vec ops"
    "\<lambda>_. tm_ops_ok ops" for ops h
proof (unfold_locales, goal_cases)
  case (5 s i tm r s' m j tm')
  then show ?case by (simp add: carries_vec_def)
qed (auto simp: vec_send_eq carries_vec_new split: PusTmVariant.splits if_splits)

lemma pool_send_addr_eq:
  "pool_send_addr (mpsc_SyncSender_send_pool_packet h) s i a =
    (let c = pp_sender s h in
     if \<not> rx_alive c then (Err RxDisconnected, s)
     else if ch_bound c \<le> length (ch_queue c) then (Err (QueueFull None), s)
     else (Ok (), s\<lparr>pp_sender := (pp_sender s)(h := c\<lparr>ch_queue := ch_queue c @ [PacketInPool_new i a]\<rparr>)\<rparr>))"
  by (auto simp: pool_send_addr_def mpsc_SyncSender_send_pool_packet_def chan_defs)

definition pool_sender_inv :: "TmOps \<Rightarrow> 'w PacketSenderWithSharedPool \<Rightarrow> bool" where
  "pool_sender_inv ops s \<longleftrightarrow> tm_ops_ok ops \<and> shared_inv (pp_shared_pool s)"

lemma pool_send_tm_cases:
  assumes "pool_sender_inv ops s"
    and "PacketSenderWithSharedPool_send_tm ops (mpsc_SyncSender_send_pool_packet h) s i tm = (r, s')"
  shows "r \<noteq> Panic \<and> pool_sender_inv ops s' \<and>
    (\<forall>a d. shared_content (pp_shared_pool s) a = Some d \<longrightarrow> shared_content (pp_shared_pool s') a = Some d) \<and>
    (if r = Ok () then \<exists>m. ch_queue (pp_sender s' h) = ch_queue (pp_sender s h) @ [m] \<and> carries_pool ops s' m i tm
     else ch_queue (pp_sender s' h) = ch_queue (pp_sender s h))"
proof (cases tm)
  case (InStore a)
  then show ?thesis using assms
    by (auto simp: PacketSenderWithSharedPool_send_tm_def pool_send_addr_eq carries_pool_def PacketInPool_new_def
        pool_sender_inv_def Let_def split: if_splits)
next
  case (Direct t)
  have i: "shared_inv (pp_shared_pool s)" "tm_ops_ok ops" using assms(1) by (auto simp: pool_sender_inv_def)
  show ?thesis
  proof (cases rule: add_tm_cases [OF i, of t])
    case (1 d a sh')
    then show ?thesis using assms Direct i
      by (auto simp: PacketSenderWithSharedPool_send_tm_def pool_send_addr_eq carries_pool_def PacketInPool_new_def
          pool_sender_inv_def Let_def split: if_splits)
  next
    case (2 e)
    then show ?thesis using assms Direct i
      by (auto simp: PacketSenderWithSharedPool_send_tm_def pool_sender_inv_def)
  qed
qed

interpretation pool_sender: tm_sender
    "PacketSenderWithSharedPool_send_tm ops (mpsc_SyncSender_send_pool_packet h)"
    "\<lambda>s. ch_queue (pp_sender s h)" "carries_pool ops" "pool_sender_inv ops" for ops h
proof (unfold_locales, goal_cases)
  case (5 s i tm r s' m j tm')
  then show ?case using pool_send_tm_cases [OF 5(1,2)]
    by (auto simp: carries_pool_def split: PusTmVariant.splits)
qed (use pool_send_tm_cases in \<open>fastforce+\<close>)

subsection \<open>Properties\<close>

text \<open>
  C16: what the typed tokens enforce, with the reports sent through the shared pool. A caller adds
  telecommands and makes any sequence of reporter calls, successful or not, with the tokens it was
  given, each as often as it likes. Then a start or completion report of a telecommand is always
  preceded by an acceptance success report of the same telecommand, and a step report by a start success
  report; exactly one message per successful call is queued, in that order and with the reporter's id;
  and at the end the pool holds, under every queued address, the encoding of a report of its subservice
  that starts with the request id of its telecommand.
\<close>

theorem verif_lifecycle:
  fixes ops :: TmOps and h :: nat
  defines "send \<equiv> PacketSenderWithSharedPool_send_tm ops (mpsc_SyncSender_send_pool_packet h)"
  assumes "pool_sender_inv ops s" and "hook_keeps v"
    and "verif_run sp send ({}, s, v) rs (T, s', v')"
  shows "report_order [] rs \<and>
    (\<exists>ms. ch_queue (pp_sender s' h) = ch_queue (pp_sender s h) @ ms \<and>
      list_all2 (\<lambda>m (sub, rid). pip_sender_id m = owner_id v \<and>
        (\<exists>tm d. report_of sp sub rid tm \<and> tm_to_vec ops tm = Ok d \<and>
           shared_content (pp_shared_pool s') (pip_store_addr m) = Some d)) ms rs)"
proof -
  from pool_sender.run_queue [OF assms(4) [unfolded send_def]] assms(2,3)
  obtain ms where "ch_queue (pp_sender s' h) = ch_queue (pp_sender s h) @ ms"
    "list_all2 (\<lambda>m (sub, rid). \<exists>tm. carries_pool ops s' m (owner_id v) (Direct tm) \<and> report_of sp sub rid tm) ms rs"
    by auto
  then show ?thesis using run_order [OF assms(4)]
    by (auto simp: carries_pool_def elim!: list_all2_mono)
qed

text \<open>
  C30: sending a packet through the shared pool. On success one message is queued, and its address,
  which was free, holds the packet in the pool, so that the receiver reads exactly the packet. If the
  pool refuses the packet nothing changes. If the channel refuses the message the packet stays in the
  pool under an address that nobody was told. The operation never panics.
\<close>

theorem pool_send_packet:
  assumes "shared_inv (pp_shared_pool s)"
    and "PacketSenderWithSharedPool_send_packet (mpsc_SyncSender_send_pool_packet h) s i packet = (r, s')"
  shows "case r of
      Ok _ \<Rightarrow> \<exists>a. ch_queue (pp_sender s' h) = ch_queue (pp_sender s h) @ [PacketInPool_new i a] \<and>
        shared_content (pp_shared_pool s) a = None \<and>
        shared_content (pp_shared_pool s') = (shared_content (pp_shared_pool s))(a \<mapsto> packet) \<and>
        PoolProvider_read_as_vec StaticMemoryPool_provider (locked_pool (pp_shared_pool s')) a = Ok packet
    | Err (StoreAndSendStore e) \<Rightarrow> s' = s
    | Err (StoreAndSendSend e) \<Rightarrow> pp_sender s' = pp_sender s \<and>
        (\<exists>a. shared_content (pp_shared_pool s) a = None \<and>
          shared_content (pp_shared_pool s') = (shared_content (pp_shared_pool s))(a \<mapsto> packet))
    | Panic \<Rightarrow> False"
  using assms(1)
proof (cases rule: add_raw_tc_cases [where d = packet])
  case (stored a sh')
  have "pool_inv (locked_pool sh')" using stored(2) by (simp add: shared_inv_def)
  then have "PoolProvider_read_as_vec StaticMemoryPool_provider (locked_pool sh') a = Ok packet"
    using static_pool.read_as_vec_some stored(4) by simp
  then show ?thesis using assms(2) stored
    by (auto simp: PacketSenderWithSharedPool_send_packet_def pool_send_addr_eq Let_def split: if_splits)
next
  case (full e)
  then show ?thesis using assms(2)
    by (auto simp: PacketSenderWithSharedPool_send_packet_def)
qed

subsection \<open>Witnesses\<close>

definition demo_ops :: TmOps where
  "demo_ops =
     \<lparr>tm_len_written = (\<lambda>tm. 1),
      tm_write = (\<lambda>tm buf. if length buf = 1 then (Ok 1, [pt_subservice tm])
                            else (Err (ToSliceTooSmall (length buf) 1), buf)),
      tm_to_vec = (\<lambda>tm. Ok [pt_subservice tm])\<rparr>"

definition demo_sender :: "PacketInPool net PacketSenderWithSharedPool" where
  "demo_sender =
     \<lparr>pp_sender = (\<lambda>_. \<lparr>ch_queue = [], ch_bound = 2, rx_alive = True, tx_alive = True\<rparr>),
      pp_shared_pool = \<lparr>lock_poisoned = False, locked_pool = demo_pool\<rparr>\<rparr>"

lemma demo_ops_ok: "tm_ops_ok demo_ops"
  by (simp add: tm_ops_ok_def demo_ops_def)

lemma demo_sender_inv: "pool_sender_inv demo_ops demo_sender" "shared_inv (pp_shared_pool demo_sender)"
  using demo_ops_ok demo_pool_inv(1) by (simp_all add: pool_sender_inv_def shared_inv_def demo_sender_def)

lemma demo_reserved_block: "reserved_block demo_pool 1 = [0]"
  by (simp add: reserved_block_def pool_eval demo_pool_def)

lemma demo_free_element:
  "StaticMemoryPool_free_element demo_pool 1 w =
     (Ok 0x10000, demo_pool\<lparr>pool := [[5, 6], overwrite 0 (w [0]) [0, 0, 0]], sizes_lists := [[2], [1]]\<rparr>)"
  by (simp add: StaticMemoryPool_free_element_def with_block_def slice_def pool_eval demo_pool_def)

definition demo_reporter :: VerificationReporter where
  "demo_reporter = \<lparr>owner_id = 3, source_data_buf = replicate 8 0,
     reporter_creator = \<lparr>dest_id = 0, creator_apid = 2\<rparr>, tm_hook = (\<lambda>tm. tm)\<rparr>"

abbreviation demo_send :: "(PacketInPool net PacketSenderWithSharedPool, unit) EcssTmSender" where
  "demo_send \<equiv> PacketSenderWithSharedPool_send_tm demo_ops (mpsc_SyncSender_send_pool_packet 0)"

text \<open>
  A pool of three 1-byte blocks, the first of them holding the given bytes, and the channel with their
  addresses.
\<close>

fun slots_sender :: "u8 list \<Rightarrow> PacketInPool net PacketSenderWithSharedPool" where
  "slots_sender ds =
     \<lparr>pp_sender = (\<lambda>i. if i = 0 then \<lparr>ch_queue = map (\<lambda>i. \<lparr>pip_sender_id = 3, pip_store_addr = of_nat i\<rparr>) [0..<length ds],
                                   ch_bound = 3, rx_alive = True, tx_alive = True\<rparr>
                       else \<lparr>ch_queue = [], ch_bound = 0, rx_alive = True, tx_alive = True\<rparr>),
      pp_shared_pool = \<lparr>lock_poisoned = False,
        locked_pool = \<lparr>pool_cfg = \<lparr>cfg = [\<lparr>num_blocks = 3, block_size = 1\<rparr>], spill_to_higher_subpools = False\<rparr>,
          pool = [ds @ replicate (3 - length ds) 0],
          sizes_lists = [replicate (length ds) 1 @ replicate (3 - length ds) STORE_FREE]\<rparr>\<rparr>\<rparr>"

lemma slots_sender_inv: "pool_sender_inv demo_ops (slots_sender [])"
  using demo_ops_ok
  by (simp add: pool_sender_inv_def shared_inv_def pool_inv_def wf_pool_def addressable_def subpool_ok_def
      Let_def MAX_BLOCK_SIZE_def STORE_FREE_def All_less_Suc)

lemma slots_send:
  "demo_send (slots_sender []) 3 (Direct tm) = (Ok (), slots_sender [pt_subservice tm])"
  "demo_send (slots_sender [a]) 3 (Direct tm) = (Ok (), slots_sender [a, pt_subservice tm])"
  "demo_send (slots_sender [a, b]) 3 (Direct tm) = (Ok (), slots_sender [a, b, pt_subservice tm])"
  by (simp_all add: PacketSenderWithSharedPool_send_tm_def SharedPacketPool_add_pus_tm_from_creator_def
      shared_free_element_def StaticMemoryPool_free_element_def with_block_def slice_def pool_eval reserved_block_def
      demo_ops_def pool_send_addr_eq PacketInPool_new_def numeral_3_eq_3 fun_eq_iff)

definition demo_fail :: FailParams where
  "demo_fail = FailParams_new [] demo_enum []"

lemma slots_calls:
  fixes t :: "(TcStateNone, 13 word, u16) VerificationToken" and ta :: "(TcStateAccepted, 13 word, u16) VerificationToken"
  assumes v: "v = demo_reporter\<lparr>source_data_buf := buf\<rparr>" "length buf = 8"
  shows "\<exists>buf'. length buf' = 8 \<and> acceptance_success demo_sp demo_send (slots_sender []) v t [] =
      (Ok (VerificationToken (token_request_id t)), slots_sender [1], demo_reporter\<lparr>source_data_buf := buf'\<rparr>)"
    and "\<exists>buf'. length buf' = 8 \<and> start_failure demo_sp demo_send (slots_sender [1]) v ta demo_fail =
      (Ok (), slots_sender [1, 4], demo_reporter\<lparr>source_data_buf := buf'\<rparr>)"
    and "\<exists>buf'. length buf' = 8 \<and> completion_failure demo_sp demo_send (slots_sender [1, 4]) v ta demo_fail =
      (Ok (), slots_sender [1, 4, 8], demo_reporter\<lparr>source_data_buf := buf'\<rparr>)"
  using v
  by (auto simp: reporter_defs creator_defs create_success_tm [where bs = "[]"] report_tm_def
      create_fail_tm [where bs = "[]" and cs = "[42]"] demo_enum_writes demo_fail_def FailParams_new_def no_token_def
      slots_send verif_tm_def demo_sp_def demo_reporter_def Let_def case_prod_unfold simp del: slots_sender.simps)

text \<open>
  The accepted token is used for a start failure and then again for a completion failure.
\<close>

theorem verif_lifecycle_witness:
  "\<exists>T s' v' ms. verif_run demo_sp demo_send ({}, slots_sender [], demo_reporter)
      [(TmAcceptanceSuccess, demo_rid), (TmStartFailure, demo_rid), (TmCompletionFailure, demo_rid)] (T, s', v') \<and>
    ch_queue (pp_sender s' 0) = ms \<and> length ms = 3 \<and>
    (\<exists>tm. report_of demo_sp TmCompletionFailure demo_rid tm \<and>
      shared_content (pp_shared_pool s') (pip_store_addr (ms ! 2)) = Some [pt_subservice tm])"
proof -
  let ?t = "add_tc_with_req_id (reporter_creator demo_reporter) demo_rid"
  let ?ta = "VerificationToken demo_rid :: (TcStateAccepted, 13 word, u16) VerificationToken"
  have rid: "token_request_id ?t = demo_rid" by (simp add: add_tc_with_req_id_def VerificationToken_new_def)
  have v: "demo_reporter = demo_reporter\<lparr>source_data_buf := replicate 8 0\<rparr>" by (simp add: demo_reporter_def)
  note run = verif_run.call
  obtain v1 buf1 where v1: "v1 = demo_reporter\<lparr>source_data_buf := buf1\<rparr>" "length buf1 = 8"
    "acceptance_success demo_sp demo_send (slots_sender []) demo_reporter ?t [] = (Ok ?ta, slots_sender [1], v1)"
    using slots_calls(1) [OF v, of ?t] unfolding rid by auto
  obtain v2 buf2 where v2: "v2 = demo_reporter\<lparr>source_data_buf := buf2\<rparr>" "length buf2 = 8"
    "start_failure demo_sp demo_send (slots_sender [1]) v1 ?ta demo_fail = (Ok (), slots_sender [1, 4], v2)"
    using slots_calls(2) [OF v1(1,2), of ?ta] by auto
  obtain v3 where v3:
    "completion_failure demo_sp demo_send (slots_sender [1, 4]) v2 ?ta demo_fail = (Ok (), slots_sender [1, 4, 8], v3)"
    using slots_calls(3) [OF v2(1,2), of ?ta] by auto
  let ?T = "{TokenAccepted ?ta, TokenNone ?t}"
  have "verif_run demo_sp demo_send ({}, slots_sender [], demo_reporter) [] ({TokenNone ?t}, slots_sender [], demo_reporter)"
    using run [OF verif_run.no_call verif_step.add] by simp
  from run [OF this verif_step.accept [OF _ v1(3)]] rid
  have "verif_run demo_sp demo_send ({}, slots_sender [], demo_reporter) [(TmAcceptanceSuccess, demo_rid)]
    (?T, slots_sender [1], v1)" by simp
  from run [OF this verif_step.start_fail [OF _ v2(3)]] 
  have "verif_run demo_sp demo_send ({}, slots_sender [], demo_reporter)
    [(TmAcceptanceSuccess, demo_rid), (TmStartFailure, demo_rid)] (?T, slots_sender [1, 4], v2)" by simp
  from run [OF this verif_step.fail_accepted [OF _ v3]]
  have r: "verif_run demo_sp demo_send ({}, slots_sender [], demo_reporter)
    [(TmAcceptanceSuccess, demo_rid), (TmStartFailure, demo_rid), (TmCompletionFailure, demo_rid)]
    (?T, slots_sender [1, 4, 8], v3)" by simp
  have "hook_keeps demo_reporter" by (simp add: hook_keeps_def demo_reporter_def)
  from verif_lifecycle [OF slots_sender_inv this r] show ?thesis
    using r by (fastforce simp: list_all2_Cons2 demo_ops_def)
qed

theorem pool_send_packet_witness:
  "\<exists>s'. PacketSenderWithSharedPool_send_packet (mpsc_SyncSender_send_pool_packet 0) demo_sender 3 [9] = (Ok (), s') \<and>
    ch_queue (pp_sender s' 0) \<noteq> []"
proof -
  obtain s' where s': "PacketSenderWithSharedPool_send_packet (mpsc_SyncSender_send_pool_packet 0) demo_sender 3 [9] =
      (Ok (), s')"
    by (simp add: PacketSenderWithSharedPool_send_packet_def SharedPacketPool_add_raw_tc_def
        shared_free_element_def demo_sender_def demo_free_element [simplified] demo_reserved_block [simplified]
        copy_closure_def slice_def copy_from_slice_def pool_send_addr_eq Let_def)
  from pool_send_packet [OF demo_sender_inv(2) this] this show ?thesis by auto
qed

end
