(* ===== verification/Pus_Service.thy ===== *)
theory Pus_Service
  imports Tmtc Scheduler
begin

text \<open>
  The common part of the PUS service handlers (\<^verbatim>\<open>satrs/src/pus/mod.rs\<close>): telecommands in memory with
  their tokens, the converters that bring a telecommand into a handler's buffer, the retrieval of the
  next accepted packet, and the map of active requests. A handler's environment (packet library,
  telemetry sender, receiver, converter) is one record of operations, its state another.
\<close>

subsection \<open>Telecommands in memory\<close>

datatype TcInMemory = TcPool PacketInPool | TcVec PacketAsVec

record ('pid, 'psc) EcssTcAndToken =
  tc_in_memory :: TcInMemory
  tc_token :: "('pid, 'psc) TcStateToken option"

definition EcssTcAndToken_new :: "TcInMemory \<Rightarrow> ('pid, 'psc) TcStateToken \<Rightarrow> ('pid, 'psc) EcssTcAndToken" where
  "EcssTcAndToken_new tc token = \<lparr>tc_in_memory = tc, tc_token = Some token\<rparr>"

record ('pid, 'psc) AcceptedEcssTcAndToken =
  acc_tc_in_memory :: TcInMemory
  acc_token :: "(TcStateAccepted, 'pid, 'psc) VerificationToken"

definition EcssTcAndToken_from_accepted ::
    "('pid, 'psc) AcceptedEcssTcAndToken \<Rightarrow> ('pid, 'psc) EcssTcAndToken" where
  "EcssTcAndToken_from_accepted a =
     \<lparr>tc_in_memory = acc_tc_in_memory a, tc_token = Some (TokenAccepted (acc_token a))\<rparr>"

definition AcceptedEcssTcAndToken_try_from ::
    "('pid, 'psc) EcssTcAndToken \<Rightarrow> (unit, ('pid, 'psc) AcceptedEcssTcAndToken) res" where
  "AcceptedEcssTcAndToken_try_from v =
     (case tc_token v of
        Some (TokenAccepted t) \<Rightarrow> Ok \<lparr>acc_tc_in_memory = tc_in_memory v, acc_token = t\<rparr>
      | _ \<Rightarrow> Err ())"

datatype 'pe TryRecvTmtcError = RecvTmtc "'pe EcssTmtcError" | RecvEmpty

text \<open>\<^verbatim>\<open>EcssTcReceiver::recv_tc\<close> and its implementation for \<^verbatim>\<open>MpscTcReceiver\<close>.\<close>

type_synonym ('rx, 'pid, 'psc, 'pe) EcssTcReceiver =
  "'rx \<Rightarrow> ('pe TryRecvTmtcError, ('pid, 'psc) EcssTcAndToken) res \<times> 'rx"

definition MpscTcReceiver_recv_tc ::
    "(('pid, 'psc) EcssTcAndToken chan, 'pid, 'psc, 'pe) EcssTcReceiver" where
  "MpscTcReceiver_recv_tc c =
     (let (r, c') = mpsc_try_recv c
      in (res_map_err (\<lambda>e. case e of
            TryRecvEmpty \<Rightarrow> RecvEmpty
          | TryRecvDisconnected \<Rightarrow> RecvTmtc (TmtcReceive (TxDisconnected None))) r, c'))"

subsection \<open>Errors of the handlers\<close>

datatype 'pe PusTcFromMemError = EcssTmtc "'pe EcssTmtcError" | InvalidFormat TcInMemory

datatype GenericRoutingError = UnknownTargetId ComponentId | RoutingSend GenericSendError

datatype GenericConversionError =
    ConvWrongService u8
  | InvalidSubservice u8
  | NotEnoughAppData nat nat
  | InvalidAppData string

datatype 'pe PusPacketHandlingError =
    TcPolling "'pe EcssTmtcError"
  | TcFromMem "'pe PusTcFromMemError"
  | RequestConversion GenericConversionError
  | RequestRouting GenericRoutingError
  | InvalidVerificationToken
  | OtherError string

text \<open>The variant for timestamp errors of the time library is never built here.\<close>

datatype 'pe PartialPusHandlingError =
    TmSendFailed "'pe EcssTmtcError"
  | VerificationFailed "'pe EcssTmtcError"
  | NoVerificationToken

datatype ('pid, 'psc) DirectPusPacketHandlerResult =
    Handled HandlingStatus
  | SubserviceNotImplemented u8 "(TcStateAccepted, 'pid, 'psc) VerificationToken"
  | CustomSubservice u8 "(TcStateAccepted, 'pid, 'psc) VerificationToken"

subsection \<open>Converters\<close>

text \<open>\<^verbatim>\<open>EcssTcInMemConverter\<close>: the methods an implementation gives over its state \<^typ>\<open>'c\<close>.\<close>

record ('c, 'pe) EcssTcInMemConverter =
  ic_cache :: "'c \<Rightarrow> TcInMemory \<Rightarrow> ('pe PusTcFromMemError, unit) res \<times> 'c"
  ic_tc_slice_raw :: "'c \<Rightarrow> bytes"
  ic_sender_id :: "'c \<Rightarrow> ComponentId option"

definition converter_convert ::
    "(bytes \<Rightarrow> ('pe PusError, PusTc) res) \<Rightarrow> ('c, 'pe) EcssTcInMemConverter \<Rightarrow> 'c \<Rightarrow>
     ('pe PusTcFromMemError, PusTc) res" where
  "converter_convert read_tc ops c =
     res_map_err (\<lambda>e. EcssTmtc (TmtcPus e)) (read_tc (ic_tc_slice_raw ops c))"

definition converter_cache_and_convert ::
    "(bytes \<Rightarrow> ('pe PusError, PusTc) res) \<Rightarrow> ('c, 'pe) EcssTcInMemConverter \<Rightarrow> 'c \<Rightarrow> TcInMemory \<Rightarrow>
     ('pe PusTcFromMemError, PusTc) res \<times> 'c" where
  "converter_cache_and_convert read_tc ops c possible_packet =
     (let (r, c') = ic_cache ops c possible_packet
      in res_try r c' (\<lambda>_.
           (res_map_err (\<lambda>e. EcssTmtc (TmtcPus e)) (read_tc (ic_tc_slice_raw ops c')), c')))"

record EcssTcInVecConverter =
  vc_sender_id :: "ComponentId option"
  pus_tc_raw :: "bytes option"

definition EcssTcInVecConverter_cache ::
    "EcssTcInVecConverter \<Rightarrow> TcInMemory \<Rightarrow> ('pe PusTcFromMemError, unit) res \<times> EcssTcInVecConverter" where
  "EcssTcInVecConverter_cache c0 tc =
     (let c = c0\<lparr>pus_tc_raw := None\<rparr>
      in (case tc of
            TcPool p \<Rightarrow> (Err (InvalidFormat tc), c)
          | TcVec p \<Rightarrow> (Ok (), c\<lparr>pus_tc_raw := Some (pav_packet p), vc_sender_id := Some (pav_sender_id p)\<rparr>)))"

definition EcssTcInVecConverter_tc_slice_raw :: "EcssTcInVecConverter \<Rightarrow> bytes" where
  "EcssTcInVecConverter_tc_slice_raw c = (case pus_tc_raw c of None \<Rightarrow> [] | Some raw \<Rightarrow> raw)"

definition EcssTcInVecConverter_ops :: "(EcssTcInVecConverter, 'pe) EcssTcInMemConverter" where
  "EcssTcInVecConverter_ops =
     \<lparr>ic_cache = EcssTcInVecConverter_cache, ic_tc_slice_raw = EcssTcInVecConverter_tc_slice_raw,
      ic_sender_id = vc_sender_id\<rparr>"

record EcssTcInSharedStoreConverter =
  sc_sender_id :: "ComponentId option"
  shared_tc_store :: SharedPacketPool
  pus_buf :: bytes

definition EcssTcInSharedStoreConverter_new :: "SharedPacketPool \<Rightarrow> nat \<Rightarrow> EcssTcInSharedStoreConverter" where
  "EcssTcInSharedStoreConverter_new sh max_expected_tc_size =
     \<lparr>sc_sender_id = None, shared_tc_store = sh, pus_buf = replicate max_expected_tc_size 0\<rparr>"

text \<open>
  The read guard deletes the packet when it is dropped, at the end of the function and also when the
  unwrap of the read panics, which poisons the lock.
\<close>

definition copy_tc_to_buf ::
    "EcssTcInSharedStoreConverter \<Rightarrow> PoolAddr \<Rightarrow>
     ('pe PusTcFromMemError, unit) res \<times> EcssTcInSharedStoreConverter" where
  "copy_tc_to_buf c a =
     (let sh = shared_tc_store c; p = locked_pool sh
      in if lock_poisoned sh then (Err (EcssTmtc (TmtcStore LockError)), c)
         else res_try (res_map_err (\<lambda>e. EcssTmtc (TmtcStore e)) (StaticMemoryPool_len_of_data p a)) c (\<lambda>tc_size.
           if tc_size > length (pus_buf c) then
             (Err (EcssTmtc (TmtcByteConversion (ToSliceTooSmall (length (pus_buf c)) tc_size))), c)
           else
             let guard = PoolGuard_new p a;
                 (r, window) = PoolGuard_read StaticMemoryPool_provider guard (take tc_size (pus_buf c));
                 p' = g_pool (PoolGuard_drop StaticMemoryPool_provider guard)
             in (case r of
                   Ok n \<Rightarrow> (Ok (), c\<lparr>shared_tc_store := sh\<lparr>locked_pool := p'\<rparr>,
                                    pus_buf := overwrite 0 window (pus_buf c)\<rparr>)
                 | _ \<Rightarrow> (Panic, c\<lparr>shared_tc_store := sh\<lparr>locked_pool := p', lock_poisoned := True\<rparr>\<rparr>))))"

definition EcssTcInSharedStoreConverter_cache ::
    "EcssTcInSharedStoreConverter \<Rightarrow> TcInMemory \<Rightarrow>
     ('pe PusTcFromMemError, unit) res \<times> EcssTcInSharedStoreConverter" where
  "EcssTcInSharedStoreConverter_cache c tc =
     (case tc of
        TcPool p \<Rightarrow>
          (let (r, c') = copy_tc_to_buf c (pip_store_addr p)
           in res_try r c' (\<lambda>_. (Ok (), c'\<lparr>sc_sender_id := Some (pip_sender_id p)\<rparr>)))
      | TcVec p \<Rightarrow> (Err (InvalidFormat tc), c))"

definition EcssTcInSharedStoreConverter_ops :: "(EcssTcInSharedStoreConverter, 'pe) EcssTcInMemConverter" where
  "EcssTcInSharedStoreConverter_ops =
     \<lparr>ic_cache = EcssTcInSharedStoreConverter_cache, ic_tc_slice_raw = pus_buf, ic_sender_id = sc_sender_id\<rparr>"

subsection \<open>The service helper\<close>

record ('pid, 'psc, 's, 'c, 'rx, 'pe) PusEnv =
  env_sp :: "('pid, 'psc) Spacepackets"
  env_send_tm :: "('s, 'pe) EcssTmSender"
  env_recv_tc :: "('rx, 'pid, 'psc, 'pe) EcssTcReceiver"
  env_conv :: "('c, 'pe) EcssTcInMemConverter"
  env_read_tc :: "bytes \<Rightarrow> ('pe PusError, PusTc) res"

record ('s, 'c, 'rx) PusServiceHelper =
  helper_id :: ComponentId
  tc_receiver :: 'rx
  tm_sender_state :: 's
  verif_reporter :: VerificationReporter
  tc_in_mem_converter :: 'c

definition PusServiceHelper_new ::
    "ComponentId \<Rightarrow> 'rx \<Rightarrow> 's \<Rightarrow> VerificationReporter \<Rightarrow> 'c \<Rightarrow> ('s, 'c, 'rx) PusServiceHelper" where
  "PusServiceHelper_new i rx s v c =
     \<lparr>helper_id = i, tc_receiver = rx, tm_sender_state = s, verif_reporter = v, tc_in_mem_converter = c\<rparr>"

definition retrieve_and_accept_next_packet ::
    "('pid, 'psc, 's, 'c, 'rx, 'pe) PusEnv \<Rightarrow> ('s, 'c, 'rx) PusServiceHelper \<Rightarrow>
     ('pe PusPacketHandlingError, ('pid, 'psc) AcceptedEcssTcAndToken option) res \<times>
     ('s, 'c, 'rx) PusServiceHelper" where
  "retrieve_and_accept_next_packet env h =
     (let (r, rx') = env_recv_tc env (tc_receiver h); h' = h\<lparr>tc_receiver := rx'\<rparr>
      in (case r of
            Ok tc \<Rightarrow>
              (case tc_token tc of
                 None \<Rightarrow> (Err InvalidVerificationToken, h')
               | Some token \<Rightarrow>
                   (res_bind (res_map_err (\<lambda>_. InvalidVerificationToken) (VerificationToken_try_accepted token))
                      (\<lambda>accepted. Ok (Some \<lparr>acc_tc_in_memory = tc_in_memory tc, acc_token = accepted\<rparr>)), h'))
          | Err (RecvTmtc e) \<Rightarrow> (Err (TcPolling e), h')
          | Err RecvEmpty \<Rightarrow> (Ok None, h')
          | Panic \<Rightarrow> (Panic, h')))"

text \<open>
  The head of every service handler: retrieve the next packet, bring it into the converter and read
  it. The result is nothing, or the accepted packet with the telecommand.
\<close>

definition poll_tc ::
    "('pid, 'psc, 's, 'c, 'rx, 'pe) PusEnv \<Rightarrow> ('s, 'c, 'rx) PusServiceHelper \<Rightarrow>
     ('pe PusPacketHandlingError, ((TcStateAccepted, 'pid, 'psc) VerificationToken \<times> PusTc) option) res \<times>
     ('s, 'c, 'rx) PusServiceHelper" where
  "poll_tc env h =
     (let (r, h1) = retrieve_and_accept_next_packet env h
      in res_try r h1 (\<lambda>possible.
         (case possible of
            None \<Rightarrow> (Ok None, h1)
          | Some packet \<Rightarrow>
              (let (r2, c') = ic_cache (env_conv env) (tc_in_mem_converter h1) (acc_tc_in_memory packet);
                   h2 = h1\<lparr>tc_in_mem_converter := c'\<rparr>
               in res_try (res_map_err TcFromMem r2) h2 (\<lambda>_.
                    (res_bind (res_map_err TcFromMem (converter_convert (env_read_tc env) (env_conv env) c'))
                       (\<lambda>tc. Ok (Some (acc_token packet, tc))), h2))))))"

text \<open>
  A verification call of the helper's reporter. The calls of the error callback are collected in a
  list; a panic of the callee is one of the handler.
\<close>

definition helper_start_success ::
    "('pid, 'psc, 's, 'c, 'rx, 'pe) PusEnv \<Rightarrow> ('s, 'c, 'rx) PusServiceHelper \<Rightarrow>
     (TcStateAccepted, 'pid, 'psc) VerificationToken \<Rightarrow> bytes \<Rightarrow>
     ('pe EcssTmtcError, (TcStateStarted, 'pid, 'psc) VerificationToken) res \<times> ('s, 'c, 'rx) PusServiceHelper" where
  "helper_start_success env h token time_stamp =
     (let (r, s', v') = start_success (env_sp env) (env_send_tm env) (tm_sender_state h) (verif_reporter h) token
            time_stamp
      in (r, h\<lparr>tm_sender_state := s', verif_reporter := v'\<rparr>))"

definition helper_completion_success ::
    "('pid, 'psc, 's, 'c, 'rx, 'pe) PusEnv \<Rightarrow> ('s, 'c, 'rx) PusServiceHelper \<Rightarrow>
     (TcStateStarted, 'pid, 'psc) VerificationToken \<Rightarrow> bytes \<Rightarrow>
     ('pe EcssTmtcError, unit) res \<times> ('s, 'c, 'rx) PusServiceHelper" where
  "helper_completion_success env h token time_stamp =
     (let (r, s', v') = completion_success (env_sp env) (env_send_tm env) (tm_sender_state h) (verif_reporter h)
            token time_stamp
      in (r, h\<lparr>tm_sender_state := s', verif_reporter := v'\<rparr>))"

definition helper_send_tm ::
    "('pid, 'psc, 's, 'c, 'rx, 'pe) PusEnv \<Rightarrow> ('s, 'c, 'rx) PusServiceHelper \<Rightarrow> PusTmVariant \<Rightarrow>
     ('pe EcssTmtcError, unit) res \<times> ('s, 'c, 'rx) PusServiceHelper" where
  "helper_send_tm env h tm =
     (let (r, s') = env_send_tm env (tm_sender_state h) (helper_id h) tm in (r, h\<lparr>tm_sender_state := s'\<rparr>))"

subsection \<open>Active requests\<close>

type_synonym 'v DefaultActiveRequestMap = "u32 \<rightharpoonup> 'v"

definition DefaultActiveRequestMap_insert ::
    "'v DefaultActiveRequestMap \<Rightarrow> u32 \<Rightarrow> 'v \<Rightarrow> 'v DefaultActiveRequestMap" where
  "DefaultActiveRequestMap_insert m rid request = m(rid \<mapsto> request)"

definition DefaultActiveRequestMap_get :: "'v DefaultActiveRequestMap \<Rightarrow> u32 \<Rightarrow> 'v option" where
  "DefaultActiveRequestMap_get m rid = m rid"

definition DefaultActiveRequestMap_remove ::
    "'v DefaultActiveRequestMap \<Rightarrow> u32 \<Rightarrow> bool \<times> 'v DefaultActiveRequestMap" where
  "DefaultActiveRequestMap_remove m rid = (m rid \<noteq> None, m(rid := None))"

text \<open>Instants and durations are counted in one unit; \<^verbatim>\<open>Instant::now\<close> is an argument.\<close>

record ('pid, 'psc) ActivePusRequestStd =
  ar_target_id :: ComponentId
  ar_token :: "('pid, 'psc) TcStateToken"
  ar_start_time :: nat
  ar_timeout :: nat

definition ActivePusRequestStd_new ::
    "nat \<Rightarrow> ComponentId \<Rightarrow> ('pid, 'psc) TcStateToken \<Rightarrow> nat \<Rightarrow> ('pid, 'psc) ActivePusRequestStd" where
  "ActivePusRequestStd_new now target_id token timeout =
     \<lparr>ar_target_id = target_id, ar_token = token, ar_start_time = now, ar_timeout = timeout\<rparr>"

definition ActivePusRequestStd_set_token ::
    "('pid, 'psc) ActivePusRequestStd \<Rightarrow> ('pid, 'psc) TcStateToken \<Rightarrow> ('pid, 'psc) ActivePusRequestStd" where
  "ActivePusRequestStd_set_token r token = r\<lparr>ar_token := token\<rparr>"

text \<open>The subtraction of instants saturates.\<close>

definition has_timed_out :: "nat \<Rightarrow> ('pid, 'psc) ActivePusRequestStd \<Rightarrow> bool" where
  "has_timed_out now r \<longleftrightarrow> now - ar_start_time r > ar_timeout r"

subsection \<open>Converters\<close>

lemma tc_guard_drop_deletes:
  assumes "pool_inv p" "pool_content p a = Some d"
  shows "\<exists>p'. g_pool (PoolGuard_drop StaticMemoryPool_provider (PoolGuard_new p a)) = p' \<and> pool_inv p' \<and>
    pool_content p' = (pool_content p)(a := None)"
  using static_delete_some [OF assms] by (auto simp: PoolGuard_drop_def PoolGuard_new_def)

lemma copy_tc_stored:
  assumes inv: "shared_inv (shared_tc_store c)" and d: "shared_content (shared_tc_store c) a = Some d"
  shows "if length (pus_buf c) < length d
    then copy_tc_to_buf c a =
      (Err (EcssTmtc (TmtcByteConversion (ToSliceTooSmall (length (pus_buf c)) (length d)))) ::
        ('pe PusTcFromMemError, unit) res, c)
    else \<exists>c'. copy_tc_to_buf c a = (Ok () :: ('pe PusTcFromMemError, unit) res, c') \<and> shared_inv (shared_tc_store c') \<and>
      shared_content (shared_tc_store c') = (shared_content (shared_tc_store c))(a := None) \<and>
      pus_buf c' = d @ drop (length d) (pus_buf c)"
proof -
  let ?p = "locked_pool (shared_tc_store c)"
  have p: "pool_inv ?p" "\<not> lock_poisoned (shared_tc_store c)" using inv by (auto simp: shared_inv_def)
  have len: "StaticMemoryPool_len_of_data ?p a = Ok (length d)"
    using static_pool.len_some [OF p(1) d] by simp
  have read: "length d \<le> length (pus_buf c) \<Longrightarrow>
      StaticMemoryPool_read ?p a (take (length d) (pus_buf c)) = (Ok (length d), d)"
    using static_read_some [OF p(1) d, of "take (length d) (pus_buf c)"] by simp
  show ?thesis using tc_guard_drop_deletes [OF p(1) d] p(2) len read
    by (auto simp: copy_tc_to_buf_def shared_inv_def PoolGuard_read_def PoolGuard_new_def overwrite_def Let_def)
qed

lemma copy_tc_stale:
  assumes inv: "shared_inv (shared_tc_store c)" and a: "canonical_addr a" "addr_slot (locked_pool (shared_tc_store c)) (StaticPoolAddr_from a)"
    and d: "shared_content (shared_tc_store c) a = None"
  shows "\<exists>c'. copy_tc_to_buf c a = (Panic, c') \<and> lock_poisoned (shared_tc_store c')"
proof -
  let ?p = "locked_pool (shared_tc_store c)"
  have p: "pool_inv ?p" "\<not> lock_poisoned (shared_tc_store c)" using inv by (auto simp: shared_inv_def)
  have len: "StaticMemoryPool_len_of_data ?p a = Ok 0"
    using static_query(1) [OF p(1) a(2,1)] d by simp
  obtain e where "StaticMemoryPool_read ?p a [] = (Err e, [])"
    using static_pool.read_none [OF p(1) a(1) d, of "[]"] by auto
  then show ?thesis using p(2) len
    by (auto simp: copy_tc_to_buf_def PoolGuard_read_def PoolGuard_new_def Let_def)
qed

subsection \<open>Properties\<close>

text \<open>
  Bringing a telecommand from the shared pool into a handler's buffer. A packet that fits is
  copied to the front of the buffer and removed from the pool, and nothing else in the pool changes;
  one that does not fit is refused with the exact sizes and stays in the pool. An address whose packet
  was already removed makes the converter panic and poisons the lock of the pool, after which every
  further use of the pool is refused.
\<close>

lemma tc_cache_from_pool:
  assumes "shared_inv (shared_tc_store c)" and "canonical_addr (pip_store_addr p)"
    and "addr_slot (locked_pool (shared_tc_store c)) (StaticPoolAddr_from (pip_store_addr p))"
  shows "case shared_content (shared_tc_store c) (pip_store_addr p) of
      Some d \<Rightarrow>
        if length (pus_buf c) < length d
        then EcssTcInSharedStoreConverter_cache c (TcPool p) =
          (Err (EcssTmtc (TmtcByteConversion (ToSliceTooSmall (length (pus_buf c)) (length d)))) :: ('pe PusTcFromMemError, unit) res, c)
        else \<exists>c'. EcssTcInSharedStoreConverter_cache c (TcPool p) = (Ok () :: ('pe PusTcFromMemError, unit) res, c') \<and>
          sc_sender_id c' = Some (pip_sender_id p) \<and> take (length d) (pus_buf c') = d \<and>
          shared_content (shared_tc_store c') =
            (shared_content (shared_tc_store c))(pip_store_addr p := None)
    | None \<Rightarrow> \<exists>c'. EcssTcInSharedStoreConverter_cache c (TcPool p) = (Panic :: ('pe PusTcFromMemError, unit) res, c') \<and>
        (\<forall>q. EcssTcInSharedStoreConverter_cache c' (TcPool q) = (Err (EcssTmtc (TmtcStore LockError)) :: ('pe PusTcFromMemError, unit) res, c'))"
proof (cases "shared_content (shared_tc_store c) (pip_store_addr p)")
  case None
  from copy_tc_stale [OF assms None]
  obtain c' where c': "copy_tc_to_buf c (pip_store_addr p) = (Panic :: ('pe PusTcFromMemError, unit) res, c')" "lock_poisoned (shared_tc_store c')"
    by blast
  then have "copy_tc_to_buf c' a = (Err (EcssTmtc (TmtcStore LockError)) :: ('pe PusTcFromMemError, unit) res, c')" for a
    by (simp add: copy_tc_to_buf_def)
  then show ?thesis using None c' by (simp add: EcssTcInSharedStoreConverter_cache_def)
next
  case (Some d)
  then show ?thesis using copy_tc_stored [where 'pe = 'pe, OF assms(1) Some]
    by (auto simp: EcssTcInSharedStoreConverter_cache_def split: if_splits)
qed

definition demo_store_converter :: EcssTcInSharedStoreConverter where
  "demo_store_converter =
     EcssTcInSharedStoreConverter_new \<lparr>lock_poisoned = False, locked_pool = demo_pool\<rparr> 4"

end
