(* ===== verification/Pus_Events.thy ===== *)
theory Pus_Events
  imports Events Tmtc
begin

text \<open>
  PUS service 5 telemetry: the creation and sending of event reports (\<^verbatim>\<open>satrs/src/pus/event.rs\<close>) and the
  reporting map that enables and disables them (\<^verbatim>\<open>satrs/src/pus/event_man.rs\<close>). The locale
  \<open>event_reporting_map\<close> states what a reporting map promises; the hash set and the heapless backend
  interpret it.
\<close>

subsection \<open>Report creation\<close>

text \<open>The subservices of \<^verbatim>\<open>spacepackets::ecss::event\<close>, with the conversions to and from a number.\<close>

datatype EventSubservice =
    TmInfoReport | TmLowSeverityReport | TmMediumSeverityReport | TmHighSeverityReport
  | TcEnableEventGeneration | TcDisableEventGeneration | TcReportDisabledList | TmDisabledEventsReport

record EventSubservices =
  es_num :: "EventSubservice \<Rightarrow> u8"
  es_try_from :: "u8 \<Rightarrow> EventSubservice option"

definition event_subservices_ok :: "EventSubservices \<Rightarrow> bool" where
  "event_subservices_ok es \<longleftrightarrow>
     (\<forall>s. es_try_from es (es_num es s) = Some s) \<and>
     map (es_num es) [TmInfoReport, TmLowSeverityReport, TmMediumSeverityReport, TmHighSeverityReport,
       TcEnableEventGeneration, TcDisableEventGeneration, TcReportDisabledList, TmDisabledEventsReport] =
     [1, 2, 3, 4, 5, 6, 7, 8]"

record EventReportCreator =
  ec_apid :: u16
  ec_dest_id :: u16

definition EventReportCreator_new :: "('pid, 'psc) Spacepackets \<Rightarrow> u16 \<Rightarrow> u16 \<Rightarrow> EventReportCreator option" where
  "EventReportCreator_new sp apid dest =
     (if apid > MAX_APID sp then None else Some \<lparr>ec_apid = apid, ec_dest_id = dest\<rparr>)"

definition generate_generic_event_tm ::
    "EventSubservices \<Rightarrow> EventReportCreator \<Rightarrow> EventSubservice \<Rightarrow> bytes \<Rightarrow> EcssEnumeration \<Rightarrow> bytes option \<Rightarrow> bytes \<Rightarrow>
     (ByteConversionError, PusTmCreator) res \<times> bytes" where
  "generate_generic_event_tm es c subservice time_stamp event_id params buf =
     (let src_data_len = ee_size event_id + (case params of None \<Rightarrow> 0 | Some aux \<Rightarrow> length aux)
      in res_try (source_buffer_large_enough (length buf) src_data_len) buf (\<lambda>_.
         let (r1, buf1) = write_enum_at 0 event_id buf
         in res_try r1 buf1 (\<lambda>_.
            res_try (case params of None \<Rightarrow> Ok buf1 | Some aux \<Rightarrow> copy_into (ee_size event_id) aux buf1) buf1 (\<lambda>buf2.
              (res_bind (slice 0 src_data_len buf2) (\<lambda>data.
                 Ok \<lparr>pt_apid = ec_apid c, pt_seq_count = 0, pt_service = 5, pt_subservice = es_num es subservice,
                     pt_msg_counter = 0, pt_dest_id = ec_dest_id c, pt_time_stamp = time_stamp,
                     pt_source_data = data\<rparr>), buf2)))))"

definition generate_and_send_generic_tm ::
    "EventSubservices \<Rightarrow> EventReportCreator \<Rightarrow> EventSubservice \<Rightarrow> bytes \<Rightarrow> EcssEnumeration \<Rightarrow> bytes option \<Rightarrow> bytes \<Rightarrow>
     (ByteConversionError, PusTmCreator) res \<times> bytes" where
  "generate_and_send_generic_tm es c subservice time_stamp event_id params buf =
     generate_generic_event_tm es c subservice time_stamp event_id params buf"

definition creator_event_info ::
    "EventSubservices \<Rightarrow> EventReportCreator \<Rightarrow> bytes \<Rightarrow> EcssEnumeration \<Rightarrow> bytes option \<Rightarrow> bytes \<Rightarrow>
     (ByteConversionError, PusTmCreator) res \<times> bytes" where
  "creator_event_info es c = generate_and_send_generic_tm es c TmInfoReport"

definition creator_event_low_severity ::
    "EventSubservices \<Rightarrow> EventReportCreator \<Rightarrow> bytes \<Rightarrow> EcssEnumeration \<Rightarrow> bytes option \<Rightarrow> bytes \<Rightarrow>
     (ByteConversionError, PusTmCreator) res \<times> bytes" where
  "creator_event_low_severity es c = generate_and_send_generic_tm es c TmLowSeverityReport"

definition creator_event_medium_severity ::
    "EventSubservices \<Rightarrow> EventReportCreator \<Rightarrow> bytes \<Rightarrow> EcssEnumeration \<Rightarrow> bytes option \<Rightarrow> bytes \<Rightarrow>
     (ByteConversionError, PusTmCreator) res \<times> bytes" where
  "creator_event_medium_severity es c = generate_and_send_generic_tm es c TmMediumSeverityReport"

definition creator_event_high_severity ::
    "EventSubservices \<Rightarrow> EventReportCreator \<Rightarrow> bytes \<Rightarrow> EcssEnumeration \<Rightarrow> bytes option \<Rightarrow> bytes \<Rightarrow>
     (ByteConversionError, PusTmCreator) res \<times> bytes" where
  "creator_event_high_severity es c = generate_and_send_generic_tm es c TmHighSeverityReport"

subsection \<open>The event reporter\<close>

record EventReporter =
  er_id :: ComponentId
  er_source_data_buf :: bytes
  report_creator :: EventReportCreator
  er_tm_hook :: "PusTmCreator \<Rightarrow> PusTmCreator"

definition EventReporter_new_with_hook ::
    "('pid, 'psc) Spacepackets \<Rightarrow> ComponentId \<Rightarrow> u16 \<Rightarrow> u16 \<Rightarrow> nat \<Rightarrow> (PusTmCreator \<Rightarrow> PusTmCreator) \<Rightarrow>
     EventReporter option" where
  "EventReporter_new_with_hook sp i apid dest max_size hook =
     map_option (\<lambda>c. \<lparr>er_id = i, er_source_data_buf = replicate max_size 0, report_creator = c, er_tm_hook = hook\<rparr>)
       (EventReportCreator_new sp apid dest)"

definition EventReporter_new ::
    "('pid, 'psc) Spacepackets \<Rightarrow> ComponentId \<Rightarrow> u16 \<Rightarrow> u16 \<Rightarrow> nat \<Rightarrow> EventReporter option" where
  "EventReporter_new sp i apid dest max_size = EventReporter_new_with_hook sp i apid dest max_size (\<lambda>tm. tm)"

text \<open>The common end of the four report methods.\<close>

definition event_report ::
    "('s, 'pe) EcssTmSender \<Rightarrow> 's \<Rightarrow> EventReporter \<Rightarrow> (ByteConversionError, PusTmCreator) res \<times> bytes \<Rightarrow>
     ('pe EcssTmtcError, unit) res \<times> 's \<times> EventReporter" where
  "event_report send_tm s v created =
     (let v' = v\<lparr>er_source_data_buf := snd created\<rparr>
      in (case fst created of
            Err e \<Rightarrow> (Err (TmtcPus (PusByteConversion e)), s, v')
          | Panic \<Rightarrow> (Panic, s, v')
          | Ok tm \<Rightarrow>
              (let (r, s') = send_tm s (er_id v) (Direct (er_tm_hook v tm)) in (r, s', v'))))"

definition event_info ::
    "EventSubservices \<Rightarrow> ('s, 'pe) EcssTmSender \<Rightarrow> 's \<Rightarrow> EventReporter \<Rightarrow> bytes \<Rightarrow> EcssEnumeration \<Rightarrow> bytes option \<Rightarrow>
     ('pe EcssTmtcError, unit) res \<times> 's \<times> EventReporter" where
  "event_info es send_tm s v time_stamp event_id params =
     event_report send_tm s v
       (creator_event_info es (report_creator v) time_stamp event_id params (er_source_data_buf v))"

definition event_low_severity ::
    "EventSubservices \<Rightarrow> ('s, 'pe) EcssTmSender \<Rightarrow> 's \<Rightarrow> EventReporter \<Rightarrow> bytes \<Rightarrow> EcssEnumeration \<Rightarrow> bytes option \<Rightarrow>
     ('pe EcssTmtcError, unit) res \<times> 's \<times> EventReporter" where
  "event_low_severity es send_tm s v time_stamp event_id params =
     event_report send_tm s v
       (creator_event_low_severity es (report_creator v) time_stamp event_id params (er_source_data_buf v))"

definition event_medium_severity ::
    "EventSubservices \<Rightarrow> ('s, 'pe) EcssTmSender \<Rightarrow> 's \<Rightarrow> EventReporter \<Rightarrow> bytes \<Rightarrow> EcssEnumeration \<Rightarrow> bytes option \<Rightarrow>
     ('pe EcssTmtcError, unit) res \<times> 's \<times> EventReporter" where
  "event_medium_severity es send_tm s v time_stamp event_id params =
     event_report send_tm s v
       (creator_event_medium_severity es (report_creator v) time_stamp event_id params (er_source_data_buf v))"

definition event_high_severity ::
    "EventSubservices \<Rightarrow> ('s, 'pe) EcssTmSender \<Rightarrow> 's \<Rightarrow> EventReporter \<Rightarrow> bytes \<Rightarrow> EcssEnumeration \<Rightarrow> bytes option \<Rightarrow>
     ('pe EcssTmtcError, unit) res \<times> 's \<times> EventReporter" where
  "event_high_severity es send_tm s v time_stamp event_id params =
     event_report send_tm s v
       (creator_event_high_severity es (report_creator v) time_stamp event_id params (er_source_data_buf v))"

subsection \<open>Reporting maps\<close>

text \<open>\<^verbatim>\<open>GenericEvent\<close>: the severity of an event, its raw value and its form as an enumeration.\<close>

record 'ev GenericEvent =
  ge_severity :: "'ev \<Rightarrow> Severity"
  ge_raw_as_largest_type :: "'ev \<Rightarrow> u32"
  ge_group_id_as_largest_type :: "'ev \<Rightarrow> u16"
  ge_enum :: "'ev \<Rightarrow> EcssEnumeration"

definition EventU32_generic :: "EventU32 GenericEvent" where
  "EventU32_generic =
     \<lparr>ge_severity = severity, ge_raw_as_largest_type = EventU32_raw, ge_group_id_as_largest_type = group_id,
      ge_enum = (\<lambda>e. \<lparr>ee_size = 4, ee_write = EventU32_write_to_be_bytes e\<rparr>)\<rparr>"

text \<open>\<^verbatim>\<open>PusEventReportingMapProvider\<close>.\<close>

record ('m, 'ev) ReportingMap =
  rm_event_enabled :: "'m \<Rightarrow> 'ev \<Rightarrow> bool"
  rm_enable_event_reporting :: "'m \<Rightarrow> 'ev \<Rightarrow> (unit, bool) res \<times> 'm"
  rm_disable_event_reporting :: "'m \<Rightarrow> 'ev \<Rightarrow> (unit, bool) res \<times> 'm"

text \<open>\<^verbatim>\<open>DefaultPusEventReportingMap\<close>: the set of disabled events, empty at first.\<close>

type_synonym 'ev DefaultPusEventReportingMap = "'ev set"

definition DefaultPusEventReportingMap_ops :: "('ev DefaultPusEventReportingMap, 'ev) ReportingMap" where
  "DefaultPusEventReportingMap_ops =
     \<lparr>rm_event_enabled = (\<lambda>disabled ev. ev \<notin> disabled),
      rm_enable_event_reporting = (\<lambda>disabled ev. (Ok (ev \<in> disabled), disabled - {ev})),
      rm_disable_event_reporting = (\<lambda>disabled ev. (Ok (ev \<notin> disabled), insert ev disabled))\<rparr>"

definition DefaultPusEventReportingMap_default :: "'ev DefaultPusEventReportingMap" where
  "DefaultPusEventReportingMap_default = {}"

text \<open>
  \<^verbatim>\<open>heapless::FnvIndexSet\<close>: membership, an insertion that fails when the set is full, and a removal.
  The documented behaviour is \<open>index_set_ok\<close>, with \<open>elems\<close> the elements of a set.
\<close>

record 'set IndexSet =
  is_contains :: "'set \<Rightarrow> u32 \<Rightarrow> bool"
  is_insert :: "'set \<Rightarrow> u32 \<Rightarrow> (u32, bool) res \<times> 'set"
  is_remove :: "'set \<Rightarrow> u32 \<Rightarrow> bool \<times> 'set"

definition index_set_ok :: "'set IndexSet \<Rightarrow> ('set \<Rightarrow> u32 set) \<Rightarrow> bool" where
  "index_set_ok ops elems \<longleftrightarrow>
     (\<forall>s x. is_contains ops s x \<longleftrightarrow> x \<in> elems s) \<and>
     (\<forall>s x. fst (is_insert ops s x) = Ok (x \<notin> elems s) \<and> elems (snd (is_insert ops s x)) = insert x (elems s) \<or>
        fst (is_insert ops s x) = Err x \<and> snd (is_insert ops s x) = s) \<and>
     (\<forall>s x. fst (is_remove ops s x) = (x \<in> elems s) \<and> elems (snd (is_remove ops s x)) = elems s - {x})"

definition HeaplessPusMgmtBackendProvider_ops ::
    "'set IndexSet \<Rightarrow> 'ev GenericEvent \<Rightarrow> ('set, 'ev) ReportingMap" where
  "HeaplessPusMgmtBackendProvider_ops st ge =
     \<lparr>rm_event_enabled = (\<lambda>disabled ev. is_contains st disabled (ge_raw_as_largest_type ge ev)),
      rm_enable_event_reporting = (\<lambda>disabled ev.
        let (r, disabled') = is_insert st disabled (ge_raw_as_largest_type ge ev)
        in (res_map_err (\<lambda>_. ()) r, disabled')),
      rm_disable_event_reporting = (\<lambda>disabled ev.
        let (b, disabled') = is_remove st disabled (ge_raw_as_largest_type ge ev) in (Ok b, disabled'))\<rparr>"

subsection \<open>Generation of event telemetry\<close>

datatype 'pe EventManError = EventEcssTmtcError "'pe EcssTmtcError" | SeverityMissmatch Severity Severity

record EventGenerationResult =
  event_was_enabled :: bool
  params_were_propagated :: bool

record 'm PusEventTmCreatorWithMap =
  reporter :: EventReporter
  reporting_map :: 'm

definition PusEventTmCreatorWithMap_new :: "EventReporter \<Rightarrow> 'm \<Rightarrow> 'm PusEventTmCreatorWithMap" where
  "PusEventTmCreatorWithMap_new v m = \<lparr>reporter = v, reporting_map = m\<rparr>"

definition new_with_default_backend ::
    "EventReporter \<Rightarrow> 'ev DefaultPusEventReportingMap PusEventTmCreatorWithMap" where
  "new_with_default_backend v = \<lparr>reporter = v, reporting_map = DefaultPusEventReportingMap_default\<rparr>"

definition enable_tm_for_event ::
    "('m, 'ev) ReportingMap \<Rightarrow> 'm PusEventTmCreatorWithMap \<Rightarrow> 'ev \<Rightarrow> (unit, bool) res \<times> 'm PusEventTmCreatorWithMap" where
  "enable_tm_for_event rm c ev =
     (let (r, m') = rm_enable_event_reporting rm (reporting_map c) ev in (r, c\<lparr>reporting_map := m'\<rparr>))"

definition disable_tm_for_event ::
    "('m, 'ev) ReportingMap \<Rightarrow> 'm PusEventTmCreatorWithMap \<Rightarrow> 'ev \<Rightarrow> (unit, bool) res \<times> 'm PusEventTmCreatorWithMap" where
  "disable_tm_for_event rm c ev =
     (let (r, m') = rm_disable_event_reporting rm (reporting_map c) ev in (r, c\<lparr>reporting_map := m'\<rparr>))"

definition generate_pus_event_tm_generic ::
    "('m, 'ev) ReportingMap \<Rightarrow> 'ev GenericEvent \<Rightarrow> EventSubservices \<Rightarrow> ('s, 'pe) EcssTmSender \<Rightarrow> 's \<Rightarrow>
     'm PusEventTmCreatorWithMap \<Rightarrow> bytes \<Rightarrow> 'ev \<Rightarrow> bytes option \<Rightarrow>
     ('pe EventManError, bool) res \<times> 's \<times> 'm PusEventTmCreatorWithMap" where
  "generate_pus_event_tm_generic rm ge es send_tm s c time_stamp event params =
     (if \<not> rm_event_enabled rm (reporting_map c) event then (Ok False, s, c)
      else
        let report = (case ge_severity ge event of
              Info \<Rightarrow> event_info | Low \<Rightarrow> event_low_severity | Medium \<Rightarrow> event_medium_severity
            | High \<Rightarrow> event_high_severity);
            (r, s', v') = report es send_tm s (reporter c) time_stamp (ge_enum ge event) params
        in (res_map_err EventEcssTmtcError (res_map (\<lambda>_. True) r), s', c\<lparr>reporter := v'\<rparr>))"

text \<open>
  A heapless parameter is written to the start of \<^verbatim>\<open>small_data_buf\<close>; the report is then generated with
  the whole buffer.
\<close>

definition generate_pus_event_tm_generic_with_generic_params ::
    "('m, 'ev) ReportingMap \<Rightarrow> 'ev GenericEvent \<Rightarrow> EventSubservices \<Rightarrow> ('s, 'pe) EcssTmSender \<Rightarrow> 's \<Rightarrow>
     'm PusEventTmCreatorWithMap \<Rightarrow> bytes \<Rightarrow> 'ev \<Rightarrow> bytes \<Rightarrow> Params option \<Rightarrow>
     ('pe EventManError, EventGenerationResult) res \<times> 's \<times> 'm PusEventTmCreatorWithMap \<times> bytes" where
  "generate_pus_event_tm_generic_with_generic_params rm ge es send_tm s c time_stamp event small params =
     (let generate = (\<lambda>small data propagated.
            let (r, s', c') = generate_pus_event_tm_generic rm ge es send_tm s c time_stamp event data
            in (res_map (\<lambda>b. \<lparr>event_was_enabled = b, params_were_propagated = propagated\<rparr>) r, s', c', small))
      in (case params of
            None \<Rightarrow> generate small None True
          | Some (Heapless p) \<Rightarrow>
              res_try (slice 0 (ParamsHeapless_written_len p) small) (s, c, small) (\<lambda>window.
                let (r, window') = ParamsHeapless_write_to_be_bytes p window;
                    small' = overwrite 0 window' small
                in res_try (res_map_err (\<lambda>e. EventEcssTmtcError (TmtcByteConversion e)) r) (s, c, small') (\<lambda>_.
                     generate small' (Some small') True))
          | Some (Vec vec) \<Rightarrow> generate small (Some vec) True
          | Some (String str) \<Rightarrow> generate small (Some str) True
          | Some (Store a) \<Rightarrow> generate small None False))"

text \<open>
  The variants for events whose severity is part of the type: such an event is the same raw value, so
  \<^verbatim>\<open>as_ref\<close> and \<^verbatim>\<open>into\<close> are the identity.
\<close>

definition enable_tm_for_event_with_sev ::
    "('m, EventU32) ReportingMap \<Rightarrow> 'm PusEventTmCreatorWithMap \<Rightarrow> EventU32 \<Rightarrow>
     (unit, bool) res \<times> 'm PusEventTmCreatorWithMap" where
  "enable_tm_for_event_with_sev rm c ev =
     (let (r, m') = rm_enable_event_reporting rm (reporting_map c) ev in (r, c\<lparr>reporting_map := m'\<rparr>))"

definition disable_tm_for_event_with_sev ::
    "('m, EventU32) ReportingMap \<Rightarrow> 'm PusEventTmCreatorWithMap \<Rightarrow> EventU32 \<Rightarrow>
     (unit, bool) res \<times> 'm PusEventTmCreatorWithMap" where
  "disable_tm_for_event_with_sev rm c ev =
     (let (r, m') = rm_disable_event_reporting rm (reporting_map c) ev in (r, c\<lparr>reporting_map := m'\<rparr>))"

definition generate_pus_event_tm ::
    "('m, EventU32) ReportingMap \<Rightarrow> EventSubservices \<Rightarrow> ('s, 'pe) EcssTmSender \<Rightarrow> 's \<Rightarrow>
     'm PusEventTmCreatorWithMap \<Rightarrow> bytes \<Rightarrow> EventU32 \<Rightarrow> bytes option \<Rightarrow>
     ('pe EventManError, bool) res \<times> 's \<times> 'm PusEventTmCreatorWithMap" where
  "generate_pus_event_tm rm es send_tm s c time_stamp event aux_data =
     generate_pus_event_tm_generic rm EventU32_generic es send_tm s c time_stamp event aux_data"

subsection \<open>Event reports\<close>

definition severity_subservice :: "Severity \<Rightarrow> EventSubservice" where
  "severity_subservice sev =
     (case sev of Info \<Rightarrow> TmInfoReport | Low \<Rightarrow> TmLowSeverityReport | Medium \<Rightarrow> TmMediumSeverityReport
      | High \<Rightarrow> TmHighSeverityReport)"

abbreviation aux_bytes :: "bytes option \<Rightarrow> bytes" where
  "aux_bytes params \<equiv> (case params of None \<Rightarrow> [] | Some aux \<Rightarrow> aux)"

definition event_tm :: "EventSubservices \<Rightarrow> EventReporter \<Rightarrow> Severity \<Rightarrow> bytes \<Rightarrow> bytes \<Rightarrow> PusTmCreator" where
  "event_tm es v sev time_stamp data =
     \<lparr>pt_apid = ec_apid (report_creator v), pt_seq_count = 0, pt_service = 5,
      pt_subservice = es_num es (severity_subservice sev), pt_msg_counter = 0,
      pt_dest_id = ec_dest_id (report_creator v), pt_time_stamp = time_stamp, pt_source_data = data\<rparr>"

text \<open>An enumeration that fills a window of exactly its size; larger windows are never offered to it.\<close>

definition enum_fills :: "EcssEnumeration \<Rightarrow> bytes \<Rightarrow> bool" where
  "enum_fills i bs \<longleftrightarrow>
     length bs = ee_size i \<and> (\<forall>window. length window = ee_size i \<longrightarrow> ee_write i window = (Ok (ee_size i), bs))"

lemma write_enum_fills:
  "enum_fills i bs \<Longrightarrow> idx + length bs \<le> length buf \<Longrightarrow>
     write_enum_at idx i buf = (Ok (length bs), overwrite idx bs buf)"
  by (simp add: enum_fills_def write_enum_at_def slice_def)

lemma event_enum_fills: "enum_fills (ge_enum EventU32_generic e) (to_be_bytes (EventU32_raw e))"
  by (simp add: enum_fills_def EventU32_generic_def EventU32_write_to_be_bytes_def
      EventBase_write_to_bytes_def copy_from_slice_def)

lemma generate_generic_event_tm_eq:
  assumes "enum_fills i bs"
  shows "generate_generic_event_tm es c sub ts i params buf =
    (let data = bs @ aux_bytes params
     in if length buf < length data then (Err (ToSliceTooSmall (length buf) (length data)), buf)
        else (Ok \<lparr>pt_apid = ec_apid c, pt_seq_count = 0, pt_service = 5, pt_subservice = es_num es sub,
                pt_msg_counter = 0, pt_dest_id = ec_dest_id c, pt_time_stamp = ts, pt_source_data = data\<rparr>,
              overwrite 0 data buf))"
proof -
  have s: "ee_size i = length bs" using assms by (simp add: enum_fills_def)
  show ?thesis
    by (cases params) (auto simp: generate_generic_event_tm_def source_buffer_large_enough_def s Let_def
        write_enum_fills [OF assms] copy_into_def slice_def overwrite_def add.commute)
qed

lemmas event_report_defs =
  event_info_def event_low_severity_def event_medium_severity_def event_high_severity_def
  creator_event_info_def creator_event_low_severity_def creator_event_medium_severity_def
  creator_event_high_severity_def generate_and_send_generic_tm_def

lemma event_report_eq:
  assumes "enum_fills i bs"
  shows "(case sev of Info \<Rightarrow> event_info | Low \<Rightarrow> event_low_severity | Medium \<Rightarrow> event_medium_severity
      | High \<Rightarrow> event_high_severity) es send s v ts i params =
    (let data = bs @ aux_bytes params; buf = er_source_data_buf v
     in if length buf < length data
        then (Err (TmtcPus (PusByteConversion (ToSliceTooSmall (length buf) (length data)))), s, v)
        else let (r, s') = send s (er_id v) (Direct (er_tm_hook v (event_tm es v sev ts data)))
             in (r, s', v\<lparr>er_source_data_buf := overwrite 0 data buf\<rparr>))"
  by (cases sev) (simp_all add: event_report_defs event_report_def generate_generic_event_tm_eq [OF assms]
      event_tm_def severity_subservice_def Let_def)

lemma event_tm_generic_eq:
  "generate_pus_event_tm_generic rm EventU32_generic es send s c ts e params =
    (let v = reporter c; buf = er_source_data_buf v; data = to_be_bytes (EventU32_raw e) @ aux_bytes params
     in if \<not> rm_event_enabled rm (reporting_map c) e then (Ok False, s, c)
        else if length buf < length data
        then (Err (EventEcssTmtcError (TmtcPus (PusByteConversion (ToSliceTooSmall (length buf) (length data))))), s, c)
        else let (r, s') = send s (er_id v) (Direct (er_tm_hook v (event_tm es v (severity e) ts data)))
             in (res_map_err EventEcssTmtcError (res_map (\<lambda>_. True) r), s',
                 c\<lparr>reporter := v\<lparr>er_source_data_buf := overwrite 0 data buf\<rparr>\<rparr>))"
proof -
  have sev: "ge_severity EventU32_generic e = severity e" by (simp add: EventU32_generic_def)
  show ?thesis
    unfolding generate_pus_event_tm_generic_def sev Let_def
    by (simp add: event_report_eq [OF event_enum_fills] Let_def case_prod_unfold)
qed

text \<open>
  What the generation of an event report does, on every branch: nothing at all for a disabled event;
  an error with the exact sizes, and nothing sent, when the event id and the parameters do not fit the
  source data buffer; otherwise one telemetry packet of service 5 with the subservice of the severity and
  the big endian event id followed by the parameters, whose sending decides the result.
\<close>

lemma event_tm_report:
  "generate_pus_event_tm rm es send s c ts e params =
    (let v = reporter c; buf = er_source_data_buf v; data = to_be_bytes (EventU32_raw e) @ aux_bytes params
     in if \<not> rm_event_enabled rm (reporting_map c) e then (Ok False, s, c)
        else if length buf < length data
        then (Err (EventEcssTmtcError (TmtcPus (PusByteConversion (ToSliceTooSmall (length buf) (length data))))), s, c)
        else let (r, s') = send s (er_id v) (Direct (er_tm_hook v (event_tm es v (severity e) ts data)))
             in (res_map_err EventEcssTmtcError (res_map (\<lambda>_. True) r), s',
                 c\<lparr>reporter := v\<lparr>er_source_data_buf := overwrite 0 data buf\<rparr>\<rparr>))"
  unfolding generate_pus_event_tm_def by (rule event_tm_generic_eq)

text \<open>
  A report with a heapless parameter carries the event id, the parameter and then the rest of the
  scratch buffer the caller passed, whatever it held: the source data is as long as that buffer and not
  as long as the parameter.
\<close>

lemma event_tm_param_tail:
  assumes "heapless_bytes p bs" "length bs \<le> length small"
    and "rm_event_enabled rm (reporting_map c) e"
    and "4 + length small \<le> length (er_source_data_buf (reporter c))"
    and "generate_pus_event_tm_generic_with_generic_params rm EventU32_generic es send s c ts e small (Some (Heapless p))
      = (r, s', c', small')"
  shows "small' = bs @ drop (length bs) small \<and>
    (r, s') = (let (r', s'') = send s (er_id (reporter c)) (Direct (er_tm_hook (reporter c)
        (event_tm es (reporter c) (severity e) ts (to_be_bytes (EventU32_raw e) @ bs @ drop (length bs) small))))
      in (res_map_err EventEcssTmtcError
            (res_map (\<lambda>_. \<lparr>event_was_enabled = True, params_were_propagated = True\<rparr>) r'), s''))"
proof -
  have len: "ParamsHeapless_written_len p = length bs" using length_heapless_bytes [OF assms(1)] by simp
  then have w: "ParamsHeapless_write_to_be_bytes p (take (length bs) small) = (Ok (length bs), bs)"
    using heapless_write [OF assms(1), of "take (length bs) small"] assms(2) by simp
  have cp: "res_map f (res_map_err g (res_map h r)) = res_map_err g (res_map (f \<circ> h) r)" for f g h r
    by (cases r) simp_all
  show ?thesis using assms(2-5)
    by (auto simp: generate_pus_event_tm_generic_with_generic_params_def len w slice_def overwrite_def
        event_tm_generic_eq Let_def case_prod_unfold cp comp_def)
qed

subsection \<open>The reporting map contract\<close>

text \<open>
  What a client relies on: enabling an event makes it and no other event enabled, or fails and changes
  nothing; disabling never fails. Events with the same \<open>key\<close> are not told apart.
\<close>

locale event_reporting_map =
  fixes rm :: "('m, 'ev) ReportingMap" and key :: "'ev \<Rightarrow> 'k" and map_inv :: "'m \<Rightarrow> bool"
  assumes enable_ok: "map_inv m \<Longrightarrow> rm_enable_event_reporting rm m ev = (Ok b, m') \<Longrightarrow>
      rm_event_enabled rm m' ev' \<longleftrightarrow> key ev' = key ev \<or> rm_event_enabled rm m ev'"
    and enable_err: "map_inv m \<Longrightarrow> rm_enable_event_reporting rm m ev = (Err x, m') \<Longrightarrow> m' = m"
    and enable_total: "map_inv m \<Longrightarrow> fst (rm_enable_event_reporting rm m ev) \<noteq> Panic"
    and disable_ok: "map_inv m \<Longrightarrow> rm_disable_event_reporting rm m ev = (r, m') \<Longrightarrow>
      (\<exists>b. r = Ok b) \<and> (rm_event_enabled rm m' ev' \<longleftrightarrow> key ev' \<noteq> key ev \<and> rm_event_enabled rm m ev')"
    and enable_inv: "map_inv m \<Longrightarrow> map_inv (snd (rm_enable_event_reporting rm m ev))"
    and disable_inv: "map_inv m \<Longrightarrow> map_inv (snd (rm_disable_event_reporting rm m ev))"

text \<open>
  A history of enable (\<^term>\<open>True\<close>) and disable commands with the result of each, and the commands of
  it that succeeded.
\<close>

definition switch_event :: "('m, 'ev) ReportingMap \<Rightarrow> 'm PusEventTmCreatorWithMap \<Rightarrow> bool \<times> 'ev \<Rightarrow>
    (unit, bool) res \<times> 'm PusEventTmCreatorWithMap" where
  "switch_event rm c cmd = (if fst cmd then enable_tm_for_event rm c (snd cmd) else disable_tm_for_event rm c (snd cmd))"

fun switch_events :: "('m, 'ev) ReportingMap \<Rightarrow> 'm PusEventTmCreatorWithMap \<Rightarrow> (bool \<times> 'ev) list \<Rightarrow>
    (unit, bool) res list \<times> 'm PusEventTmCreatorWithMap" where
  "switch_events rm c [] = ([], c)"
| "switch_events rm c (cmd # cmds) =
     (let (r, c1) = switch_event rm c cmd; (rs, c2) = switch_events rm c1 cmds in (r # rs, c2))"

fun succeeded :: "('e, 'a) res list \<Rightarrow> 'c list \<Rightarrow> 'c list" where
  "succeeded (Ok x # rs) (cmd # cmds) = cmd # succeeded rs cmds"
| "succeeded (r # rs) (cmd # cmds) = succeeded rs cmds"
| "succeeded _ _ = []"

fun last_switch :: "('ev \<Rightarrow> 'k) \<Rightarrow> (bool \<times> 'ev) list \<Rightarrow> 'ev \<Rightarrow> bool \<Rightarrow> bool" where
  "last_switch key [] ev b = b"
| "last_switch key ((on, ev') # cmds) ev b = last_switch key cmds ev (if key ev = key ev' then on else b)"

context event_reporting_map
begin

lemma switch_one:
  assumes "map_inv (reporting_map c)" "switch_event rm c (on, ev) = (r, c')"
  shows "map_inv (reporting_map c')"
    and "r = Ok b \<Longrightarrow> rm_event_enabled rm (reporting_map c') ev' =
       (if key ev' = key ev then on else rm_event_enabled rm (reporting_map c) ev')"
    and "r = Err x \<Longrightarrow> on \<and> reporting_map c' = reporting_map c"
  using assms enable_inv [OF assms(1), of ev] disable_inv [OF assms(1), of ev]
    enable_ok [OF assms(1)] disable_ok [OF assms(1)] enable_err [OF assms(1)]
  by (fastforce simp: switch_event_def enable_tm_for_event_def disable_tm_for_event_def
      split: if_splits prod.splits)+

lemma switch_total:
  assumes "map_inv (reporting_map c)"
  shows "fst (switch_event rm c cmd) \<noteq> Panic"
proof (cases "fst cmd")
  case True
  then show ?thesis using enable_total [OF assms, of "snd cmd"]
    by (simp add: switch_event_def enable_tm_for_event_def case_prod_unfold Let_def)
next
  case False
  obtain r m where r: "rm_disable_event_reporting rm (reporting_map c) (snd cmd) = (r, m)" by fastforce
  then show ?thesis using False disable_ok [OF assms r]
    by (auto simp: switch_event_def disable_tm_for_event_def)
qed

lemma switches_history:
  "map_inv (reporting_map c) \<Longrightarrow> switch_events rm c cmds = (rs, c') \<Longrightarrow>
     rm_event_enabled rm (reporting_map c') ev =
       last_switch key (succeeded rs cmds) ev (rm_event_enabled rm (reporting_map c) ev) \<and>
     length rs = length cmds \<and> (\<forall>i < length cmds. rs ! i \<noteq> Panic \<and> (\<not> fst (cmds ! i) \<longrightarrow> (\<exists>b. rs ! i = Ok b)))"
proof (induction cmds arbitrary: c rs)
  case (Cons cmd cmds)
  obtain on e where cmd: "cmd = (on, e)" by (cases cmd)
  obtain r c1 rs1 where st: "switch_event rm c (on, e) = (r, c1)" and rest: "switch_events rm c1 cmds = (rs1, c')"
    and rs: "rs = r # rs1" using Cons.prems(2) cmd by (auto simp: Let_def split: prod.splits)
  note ih = Cons.IH [OF switch_one(1) [OF Cons.prems(1) st] rest]
  have r: "r \<noteq> Panic" using switch_total [OF Cons.prems(1), of "(on, e)"] st by simp
  have "rm_event_enabled rm (reporting_map c') ev =
      last_switch key (succeeded rs (cmd # cmds)) ev (rm_event_enabled rm (reporting_map c) ev)"
    using ih switch_one(2,3) [OF Cons.prems(1) st] r cmd rs by (cases r) auto
  moreover have "\<not> on \<longrightarrow> (\<exists>b. r = Ok b)"
    using switch_one(3) [OF Cons.prems(1) st] r by (cases r) auto
  ultimately show ?case using ih r rs cmd by (auto simp: less_Suc_eq_0_disj)
qed simp

end

interpretation default_map: event_reporting_map DefaultPusEventReportingMap_ops "\<lambda>ev. ev" "\<lambda>_. True"
  by unfold_locales (auto simp: DefaultPusEventReportingMap_ops_def)

lemma index_set_cases:
  assumes "index_set_ok st elems"
  obtains (added) "fst (is_insert st s x) = Ok (x \<notin> elems s)" "elems (snd (is_insert st s x)) = insert x (elems s)"
  | (full) "fst (is_insert st s x) = Err x" "snd (is_insert st s x) = s"
  using assms unfolding index_set_ok_def by metis

interpretation heapless_map: event_reporting_map "HeaplessPusMgmtBackendProvider_ops st ge" "ge_raw_as_largest_type ge"
  "\<lambda>_. index_set_ok st elems" for st ge elems
proof unfold_locales
  fix m ev b m' ev' assume ok: "index_set_ok st elems"
    and r: "rm_enable_event_reporting (HeaplessPusMgmtBackendProvider_ops st ge) m ev = (Ok b, m')"
  show "rm_event_enabled (HeaplessPusMgmtBackendProvider_ops st ge) m' ev' \<longleftrightarrow>
      ge_raw_as_largest_type ge ev' = ge_raw_as_largest_type ge ev \<or>
      rm_event_enabled (HeaplessPusMgmtBackendProvider_ops st ge) m ev'"
    using r ok by (cases rule: index_set_cases [OF ok, of m "ge_raw_as_largest_type ge ev"])
      (auto simp: HeaplessPusMgmtBackendProvider_ops_def index_set_ok_def case_prod_unfold)
next
  fix m ev x m' assume ok: "index_set_ok st elems"
    and r: "rm_enable_event_reporting (HeaplessPusMgmtBackendProvider_ops st ge) m ev = (Err x, m')"
  show "m' = m"
    using r by (cases rule: index_set_cases [OF ok, of m "ge_raw_as_largest_type ge ev"])
      (auto simp: HeaplessPusMgmtBackendProvider_ops_def case_prod_unfold)
next
  fix m ev r m' ev' assume ok: "index_set_ok st elems"
    and r: "rm_disable_event_reporting (HeaplessPusMgmtBackendProvider_ops st ge) m ev = (r, m')"
  show "(\<exists>b. r = Ok b) \<and> (rm_event_enabled (HeaplessPusMgmtBackendProvider_ops st ge) m' ev' \<longleftrightarrow>
      ge_raw_as_largest_type ge ev' \<noteq> ge_raw_as_largest_type ge ev \<and>
      rm_event_enabled (HeaplessPusMgmtBackendProvider_ops st ge) m ev')"
    using r ok by (auto simp: HeaplessPusMgmtBackendProvider_ops_def index_set_ok_def case_prod_unfold)
next
  fix m ev assume ok: "index_set_ok st elems"
  show "fst (rm_enable_event_reporting (HeaplessPusMgmtBackendProvider_ops st ge) m ev) \<noteq> Panic"
    by (cases rule: index_set_cases [OF ok, of m "ge_raw_as_largest_type ge ev"])
      (simp_all add: HeaplessPusMgmtBackendProvider_ops_def case_prod_unfold)
qed simp_all

lemma switch_keeps_reporter: "switch_events rm c cmds = (rs, c') \<Longrightarrow> reporter c' = reporter c"
proof (induction cmds arbitrary: c rs)
  case (Cons cmd cmds)
  then show ?case
    by (fastforce simp: switch_event_def enable_tm_for_event_def disable_tm_for_event_def Let_def
        split: prod.splits if_splits)
qed simp

lemma default_switch_ok:
  "switch_events DefaultPusEventReportingMap_ops c cmds = (rs, c') \<Longrightarrow>
   (\<forall>r \<in> set rs. \<exists>b. r = Ok b) \<and> succeeded rs cmds = cmds"
proof (induction cmds arbitrary: c rs)
  case (Cons cmd cmds)
  obtain b c1 where "switch_event DefaultPusEventReportingMap_ops c cmd = (Ok b, c1)"
    by (cases "fst cmd") (simp_all add: switch_event_def enable_tm_for_event_def disable_tm_for_event_def
        DefaultPusEventReportingMap_ops_def)
  then show ?case using Cons by (auto simp: Let_def split: prod.splits)
qed simp

text \<open>The report of an event: one packet with the event id and the parameters is sent.\<close>

definition sent_event_report ::
    "EventSubservices \<Rightarrow> ('s, 'pe) EcssTmSender \<Rightarrow> 's \<Rightarrow> 'm PusEventTmCreatorWithMap \<Rightarrow> bytes \<Rightarrow> EventU32 \<Rightarrow> bytes option \<Rightarrow>
     ('pe EventManError, bool) res \<times> 's \<times> 'm PusEventTmCreatorWithMap" where
  "sent_event_report es send s c ts ev params =
     (let v = reporter c; data = to_be_bytes (EventU32_raw ev) @ aux_bytes params;
          (r, s') = send s (er_id v) (Direct (er_tm_hook v (event_tm es v (severity ev) ts data)))
      in (res_map_err EventEcssTmtcError (res_map (\<lambda>_. True) r), s',
          c\<lparr>reporter := v\<lparr>er_source_data_buf := overwrite 0 data (er_source_data_buf v)\<rparr>\<rparr>))"

text \<open>
  C32: which events are reported, with either backend, after any history of enable and disable commands.
  A report is sent, with the event id and the parameters as its data, if the last successful command for
  the event was an enable command; after a disable command nothing is sent and nothing changes. No
  command of the default map fails, and only enable commands of the heapless backend do, which then have
  no effect. An event with no successful command is reported by the default map and never by the heapless
  backend, whose set of disabled events really holds the enabled ones.
\<close>

theorem event_reporting_history:
  fixes ev ev' :: EventU32
  assumes "index_set_ok st elems" "elems none = {}"
    and "4 + length (aux_bytes params) \<le> length (er_source_data_buf v)"
    and "switch_events DefaultPusEventReportingMap_ops (new_with_default_backend v) cmds = (rs, c)"
    and "switch_events (HeaplessPusMgmtBackendProvider_ops st EventU32_generic) (PusEventTmCreatorWithMap_new v none) cmds' = (rs', c')"
  shows "generate_pus_event_tm DefaultPusEventReportingMap_ops es send s c ts ev params =
      (if last_switch (\<lambda>ev. ev) cmds ev True then sent_event_report es send s c ts ev params else (Ok False, s, c)) \<and>
    list_all (\<lambda>r. \<exists>b. r = Ok b) rs \<and>
    generate_pus_event_tm (HeaplessPusMgmtBackendProvider_ops st EventU32_generic) es send s c' ts ev' params =
      (if last_switch EventU32_raw (succeeded rs' cmds') ev' False then sent_event_report es send s c' ts ev' params else (Ok False, s, c')) \<and>
    list_all2 (\<lambda>r cmd. r \<noteq> Panic \<and> (fst cmd \<or> (\<exists>b. r = Ok b))) rs' cmds'"
proof -
  have d: "rm_event_enabled DefaultPusEventReportingMap_ops (reporting_map c) ev = last_switch (\<lambda>ev. ev) cmds ev True"
    using default_map.switches_history [OF _ assms(4), of ev] default_switch_ok [OF assms(4)]
    by (simp add: new_with_default_backend_def DefaultPusEventReportingMap_ops_def DefaultPusEventReportingMap_default_def)
  note h = heapless_map.switches_history [OF assms(1,5), of ev']
  have e: "rm_event_enabled (HeaplessPusMgmtBackendProvider_ops st EventU32_generic) (reporting_map c') ev' =
      last_switch EventU32_raw (succeeded rs' cmds') ev' False"
    using h assms(1,2) by (simp add: PusEventTmCreatorWithMap_new_def HeaplessPusMgmtBackendProvider_ops_def
        index_set_ok_def EventU32_generic_def)
  have v: "reporter c = v" "reporter c' = v"
    using switch_keeps_reporter [OF assms(4)] switch_keeps_reporter [OF assms(5)]
    by (simp_all add: new_with_default_backend_def PusEventTmCreatorWithMap_new_def)
  have "list_all2 (\<lambda>r cmd. r \<noteq> Panic \<and> (fst cmd \<or> (\<exists>b. r = Ok b))) rs' cmds'"
    using h by (auto simp: list_all2_conv_all_nth)
  then show ?thesis using default_switch_ok [OF assms(4)] assms(3)
    by (simp add: event_tm_report d e v sent_event_report_def list_all_iff Let_def not_less)
qed

subsection \<open>Witnesses\<close>

definition demo_index_set :: "u32 list IndexSet" where
  "demo_index_set =
     \<lparr>is_contains = (\<lambda>s x. x \<in> set s),
      is_insert = (\<lambda>s x. if x \<in> set s then (Ok False, s) else if 2 \<le> length s then (Err x, s) else (Ok True, x # s)),
      is_remove = (\<lambda>s x. (x \<in> set s, filter (\<lambda>y. y \<noteq> x) s))\<rparr>"

lemma demo_index_set_ok: "index_set_ok demo_index_set set"
  by (auto simp: index_set_ok_def demo_index_set_def)

definition demo_event :: EventU32 where
  "demo_event = \<lparr>severity = Low, group_id = 1, unique_id = 2\<rparr>"

definition demo_event_reporter :: EventReporter where
  "demo_event_reporter = \<lparr>er_id = 7, er_source_data_buf = replicate 8 0,
     report_creator = \<lparr>ec_apid = 2, ec_dest_id = 0\<rparr>, er_tm_hook = (\<lambda>tm. tm)\<rparr>"

definition demo_subservices :: EventSubservices where
  "demo_subservices =
     \<lparr>es_num = (\<lambda>s. case s of TmInfoReport \<Rightarrow> 1 | TmLowSeverityReport \<Rightarrow> 2 | TmMediumSeverityReport \<Rightarrow> 3
        | TmHighSeverityReport \<Rightarrow> 4 | TcEnableEventGeneration \<Rightarrow> 5 | TcDisableEventGeneration \<Rightarrow> 6
        | TcReportDisabledList \<Rightarrow> 7 | TmDisabledEventsReport \<Rightarrow> 8),
      es_try_from = (\<lambda>n. find (\<lambda>s. n = (case s of TmInfoReport \<Rightarrow> 1 | TmLowSeverityReport \<Rightarrow> 2
        | TmMediumSeverityReport \<Rightarrow> 3 | TmHighSeverityReport \<Rightarrow> 4 | TcEnableEventGeneration \<Rightarrow> 5
        | TcDisableEventGeneration \<Rightarrow> 6 | TcReportDisabledList \<Rightarrow> 7 | TmDisabledEventsReport \<Rightarrow> 8))
        [TmInfoReport, TmLowSeverityReport, TmMediumSeverityReport, TmHighSeverityReport, TcEnableEventGeneration,
         TcDisableEventGeneration, TcReportDisabledList, TmDisabledEventsReport])\<rparr>"

lemma demo_subservices_ok: "event_subservices_ok demo_subservices"
proof -
  have "es_try_from demo_subservices (es_num demo_subservices s) = Some s" for s
    by (cases s) (simp_all add: demo_subservices_def)
  then show ?thesis by (simp add: event_subservices_ok_def) (simp add: demo_subservices_def)
qed

abbreviation demo_log_send :: "(PusTmVariant list, unit) EcssTmSender" where
  "demo_log_send \<equiv> (\<lambda>s i tm. (Ok (), s @ [tm]))"

text \<open>
  The heapless set holds two events: enabling a third one fails, so that it is not reported, while the
  second one is. On the default map the event is disabled and enabled again.
\<close>

definition demo_switches :: "(bool \<times> EventU32) list" where
  "demo_switches = map (\<lambda>i. (True, demo_event\<lparr>unique_id := i\<rparr>)) [1, 2, 3]"

theorem event_reporting_history_witness:
  "\<exists>c rs' c' tm c1 c2 c3.
    switch_events DefaultPusEventReportingMap_ops (new_with_default_backend demo_event_reporter)
      [(False, demo_event), (True, demo_event)] = ([Ok True, Ok True], c) \<and>
    generate_pus_event_tm DefaultPusEventReportingMap_ops demo_subservices demo_log_send [] c [] demo_event None =
      (Ok True, [Direct tm], c1) \<and> pt_source_data tm = [0x40, 1, 0, 2] \<and>
    switch_events (HeaplessPusMgmtBackendProvider_ops demo_index_set EventU32_generic)
      (PusEventTmCreatorWithMap_new demo_event_reporter []) demo_switches = (rs', c') \<and> rs' = [Ok True, Ok True, Err ()] \<and>
    generate_pus_event_tm (HeaplessPusMgmtBackendProvider_ops demo_index_set EventU32_generic) demo_subservices
      demo_log_send [] c' [] demo_event None = (Ok True, [Direct tm], c2) \<and>
    generate_pus_event_tm (HeaplessPusMgmtBackendProvider_ops demo_index_set EventU32_generic) demo_subservices
      demo_log_send [] c' [] (demo_event\<lparr>unique_id := 3\<rparr>) None = (Ok False, [], c3)"
proof -
  have raw: "EventU32_raw (demo_event\<lparr>unique_id := 1\<rparr>) = 0x40010001" "EventU32_raw (demo_event\<lparr>unique_id := 3\<rparr>) = 0x40010003"
    "EventU32_raw (demo_event\<lparr>unique_id := 2\<rparr>) = 0x40010002" "EventU32_raw demo_event = 0x40010002"
    by (simp_all add: demo_event_def EventU32_raw_def)
  obtain c where c: "switch_events DefaultPusEventReportingMap_ops (new_with_default_backend demo_event_reporter)
      [(False, demo_event), (True, demo_event)] = ([Ok True, Ok True], c)"
    by (simp add: switch_event_def enable_tm_for_event_def disable_tm_for_event_def DefaultPusEventReportingMap_ops_def
        new_with_default_backend_def DefaultPusEventReportingMap_default_def)
  obtain c' where h: "switch_events (HeaplessPusMgmtBackendProvider_ops demo_index_set EventU32_generic)
      (PusEventTmCreatorWithMap_new demo_event_reporter []) demo_switches = ([Ok True, Ok True, Err ()], c')"
    by (simp add: demo_switches_def switch_event_def enable_tm_for_event_def HeaplessPusMgmtBackendProvider_ops_def
        PusEventTmCreatorWithMap_new_def demo_index_set_def EventU32_generic_def raw Let_def)
  have "4 + length (aux_bytes None) \<le> length (er_source_data_buf demo_event_reporter)"
    by (simp add: demo_event_reporter_def)
  note t = event_reporting_history [OF demo_index_set_ok _ this c h]
  have v: "reporter c = demo_event_reporter" "reporter c' = demo_event_reporter"
    using switch_keeps_reporter [OF c] switch_keeps_reporter [OF h]
    by (simp_all add: new_with_default_backend_def PusEventTmCreatorWithMap_new_def)
  let ?tm = "event_tm demo_subservices demo_event_reporter Low [] [0x40, 1, 0, 2]"
  have bytes: "to_be_bytes (0x40010002 :: u32) = [0x40, 1, 0, 2]" by (simp add: to_be_bytes_def)
  have rep: "\<exists>c1. sent_event_report demo_subservices demo_log_send [] x [] demo_event None = (Ok True, [Direct ?tm], c1)"
    if "reporter x = demo_event_reporter" for x :: "'x PusEventTmCreatorWithMap"
    using that by (simp add: sent_event_report_def Let_def raw(4) bytes) (simp add: demo_event_reporter_def demo_event_def)
  have "\<exists>c1. generate_pus_event_tm DefaultPusEventReportingMap_ops demo_subservices demo_log_send [] c [] demo_event None =
      (Ok True, [Direct ?tm], c1)"
    "\<exists>c2. generate_pus_event_tm (HeaplessPusMgmtBackendProvider_ops demo_index_set EventU32_generic) demo_subservices
      demo_log_send [] c' [] demo_event None = (Ok True, [Direct ?tm], c2)"
    "\<exists>c3. generate_pus_event_tm (HeaplessPusMgmtBackendProvider_ops demo_index_set EventU32_generic) demo_subservices
      demo_log_send [] c' [] (demo_event\<lparr>unique_id := 3\<rparr>) None = (Ok False, [], c3)"
    using t [of demo_subservices demo_log_send "[]" "[]" demo_event demo_event]
      t [of demo_subservices demo_log_send "[]" "[]" demo_event "demo_event\<lparr>unique_id := 3\<rparr>"]
      rep [OF v(1)] rep [OF v(2)] by (simp_all add: demo_switches_def raw)
  moreover have "pt_source_data ?tm = [0x40, 1, 0, 2]" by (simp add: event_tm_def)
  ultimately show ?thesis using c h by blast
qed

end
