(* ===== verification/Services.thy ===== *)
theory Services
  imports Pus_Service Pus_Events Scheduler_Pool
begin

text \<open>
  The PUS services that handle telecommands directly: the test service 17 (\<^verbatim>\<open>satrs/src/pus/test.rs\<close>), the
  scheduling service 11 (\<^verbatim>\<open>satrs/src/pus/scheduler_srv.rs\<close>) with the scheduler of \<^verbatim>\<open>Scheduler\<close>, and the
  event service 5 (\<^verbatim>\<open>satrs/src/pus/event_srv.rs\<close>). A handler returns its result, the errors it passed to
  the error callback in order, and its state.
\<close>

subsection \<open>Shared parts of the handlers\<close>

text \<open>
  \<^verbatim>\<open>match ... start_success(...)\<close>: the started token, or none after the error callback was called.
\<close>

definition try_start ::
    "('pid, 'psc, 's, 'c, 'rx, 'pe) PusEnv \<Rightarrow> ('s, 'c, 'rx) PusServiceHelper \<Rightarrow>
     (TcStateAccepted, 'pid, 'psc) VerificationToken \<Rightarrow> bytes \<Rightarrow>
     ('pe PusPacketHandlingError, (TcStateStarted, 'pid, 'psc) VerificationToken option) res \<times>
     'pe PartialPusHandlingError list \<times> ('s, 'c, 'rx) PusServiceHelper" where
  "try_start env h token time_stamp =
     (let (r, h') = helper_start_success env h token time_stamp
      in (case r of
            Ok started \<Rightarrow> (Ok (Some started), [], h')
          | Err e \<Rightarrow> (Ok None, [VerificationFailed e], h')
          | Panic \<Rightarrow> (Panic, [], h')))"

text \<open>\<^verbatim>\<open>if let Err(e) = ... completion_success(...) { error_callback(...) }\<close>.\<close>

definition try_completion ::
    "('pid, 'psc, 's, 'c, 'rx, 'pe) PusEnv \<Rightarrow> ('s, 'c, 'rx) PusServiceHelper \<Rightarrow>
     (TcStateStarted, 'pid, 'psc) VerificationToken \<Rightarrow> bytes \<Rightarrow>
     ('pe PusPacketHandlingError, unit) res \<times> 'pe PartialPusHandlingError list \<times> ('s, 'c, 'rx) PusServiceHelper" where
  "try_completion env h token time_stamp =
     (let (r, h') = helper_completion_success env h token time_stamp
      in (case r of
            Ok u \<Rightarrow> (Ok (), [], h')
          | Err e \<Rightarrow> (Ok (), [VerificationFailed e], h')
          | Panic \<Rightarrow> (Panic, [], h')))"

subsection \<open>The test service\<close>

definition ping_reply :: "VerificationReporter \<Rightarrow> bytes \<Rightarrow> PusTmCreator" where
  "ping_reply v time_stamp =
     \<lparr>pt_apid = creator_apid (reporter_creator v), pt_seq_count = 0, pt_service = 17, pt_subservice = 2,
      pt_msg_counter = 0, pt_dest_id = 0, pt_time_stamp = time_stamp, pt_source_data = []\<rparr>"

definition handle_ping ::
    "('pid, 'psc, 's, 'c, 'rx, 'pe) PusEnv \<Rightarrow> ('s, 'c, 'rx) PusServiceHelper \<Rightarrow>
     (TcStateAccepted, 'pid, 'psc) VerificationToken \<Rightarrow> bytes \<Rightarrow>
     ('pe PusPacketHandlingError, ('pid, 'psc) DirectPusPacketHandlerResult) res \<times>
     'pe PartialPusHandlingError list \<times> ('s, 'c, 'rx) PusServiceHelper" where
  "handle_ping env h token time_stamp =
     (let (r1, errs1, h1) = try_start env h token time_stamp
      in res_try r1 (errs1, h1) (\<lambda>opt_started_token.
         let (r2, h2) = helper_send_tm env h1 (Direct (ping_reply (verif_reporter h1) time_stamp))
         in (case r2 of
               Panic \<Rightarrow> (Panic, errs1, h2)
             | _ \<Rightarrow>
                 (let errs2 = errs1 @ (case r2 of Err e \<Rightarrow> [TmSendFailed e] | _ \<Rightarrow> [])
                  in (case opt_started_token of
                        None \<Rightarrow> (Ok (Handled HandledOne), errs2, h2)
                      | Some start_token \<Rightarrow>
                          (let (r3, errs3, h3) = try_completion env h2 start_token time_stamp
                           in res_try r3 (errs2 @ errs3, h3)
                                (\<lambda>_. (Ok (Handled HandledOne), errs2 @ errs3, h3))))))))"

definition PusService17TestHandler_poll_and_handle_next_tc ::
    "('pid, 'psc, 's, 'c, 'rx, 'pe) PusEnv \<Rightarrow> ('s, 'c, 'rx) PusServiceHelper \<Rightarrow> bytes \<Rightarrow>
     ('pe PusPacketHandlingError, ('pid, 'psc) DirectPusPacketHandlerResult) res \<times>
     'pe PartialPusHandlingError list \<times> ('s, 'c, 'rx) PusServiceHelper" where
  "PusService17TestHandler_poll_and_handle_next_tc env h time_stamp =
     (let (r, h1) = poll_tc env h
      in res_try r ([], h1) (\<lambda>possible.
         (case possible of
            None \<Rightarrow> (Ok (Handled HandledEmpty), [], h1)
          | Some (token, tc) \<Rightarrow>
              if tc_service tc \<noteq> 17 then (Err (RequestConversion (ConvWrongService (tc_service tc))), [], h1)
              else if tc_subservice tc = 1 then handle_ping env h1 token time_stamp
              else (Ok (CustomSubservice (tc_subservice tc) token), [], h1))))"

subsection \<open>The scheduling service\<close>

text \<open>
  The subservices of \<^verbatim>\<open>spacepackets::ecss::scheduling\<close> that are handled; every other standard
  subservice is \<open>SchedOther\<close>. \<^verbatim>\<open>Subservice::try_from\<close> is the argument \<open>try_sub\<close>.
\<close>

datatype SchedSubservice = TcEnableScheduling | TcDisableScheduling | TcResetScheduling | TcInsertActivity | SchedOther

record ('s, 'c, 'rx, 't, 'd) PusSchedServiceHandler =
  service_helper :: "('s, 'c, 'rx) PusServiceHelper"
  scheduler :: "('t, 'd) PusScheduler"

definition PusSchedServiceHandler_new ::
    "('s, 'c, 'rx) PusServiceHelper \<Rightarrow> ('t, 'd) PusScheduler \<Rightarrow> ('s, 'c, 'rx, 't, 'd) PusSchedServiceHandler" where
  "PusSchedServiceHandler_new h s = \<lparr>service_helper = h, scheduler = s\<rparr>"

text \<open>Enabling and disabling: \<open>switch\<close> is the scheduler operation, \<open>wanted\<close> the state it shall reach.\<close>

definition handle_sched_switch ::
    "('pid, 'psc, 's, 'c, 'rx, 'pe) PusEnv \<Rightarrow> (('t, 'd) PusScheduler \<Rightarrow> ('t, 'd) PusScheduler) \<Rightarrow> bool \<Rightarrow> string \<Rightarrow>
     ('s, 'c, 'rx, 't, 'd) PusSchedServiceHandler \<Rightarrow> (TcStateAccepted, 'pid, 'psc) VerificationToken \<Rightarrow> bytes \<Rightarrow>
     ('pe PusPacketHandlingError, ('pid, 'psc) DirectPusPacketHandlerResult) res \<times>
     'pe PartialPusHandlingError list \<times> ('s, 'c, 'rx, 't, 'd) PusSchedServiceHandler" where
  "handle_sched_switch env switch wanted msg sh token time_stamp =
     (let (r1, errs1, h1) = try_start env (service_helper sh) token time_stamp
      in res_try r1 (errs1, sh\<lparr>service_helper := h1\<rparr>) (\<lambda>opt_started_token.
         let sched = switch (scheduler sh)
         in (case opt_started_token of
               Some started \<Rightarrow>
                 if enabled sched = wanted
                 then let (r2, errs2, h2) = try_completion env h1 started time_stamp
                      in res_try r2 (errs1 @ errs2, sh\<lparr>service_helper := h2, scheduler := sched\<rparr>) (\<lambda>_.
                           (Ok (Handled HandledOne), errs1 @ errs2, sh\<lparr>service_helper := h2, scheduler := sched\<rparr>))
                 else (Err (OtherError msg), errs1, sh\<lparr>service_helper := h1, scheduler := sched\<rparr>)
             | None \<Rightarrow> (Err (OtherError msg), errs1, sh\<lparr>service_helper := h1, scheduler := sched\<rparr>))))"

text \<open>
  Reset and insertion: a start report, the scheduler operation \<open>work\<close> on the pool, a completion
  report. Every error of the three is an \<^verbatim>\<open>expect\<close>, which panics.
\<close>

definition handle_sched_work ::
    "('pid, 'psc, 's, 'c, 'rx, 'pe) PusEnv \<Rightarrow> (('t, 'd) PusScheduler \<Rightarrow> 'p \<Rightarrow> ('e, 'a) res \<times> ('t, 'd) PusScheduler \<times> 'p) \<Rightarrow>
     ('s, 'c, 'rx, 't, 'd) PusSchedServiceHandler \<Rightarrow> (TcStateAccepted, 'pid, 'psc) VerificationToken \<Rightarrow> bytes \<Rightarrow> 'p \<Rightarrow>
     ('pe PusPacketHandlingError, ('pid, 'psc) DirectPusPacketHandlerResult) res \<times>
     ('s, 'c, 'rx, 't, 'd) PusSchedServiceHandler \<times> 'p" where
  "handle_sched_work env work sh token time_stamp p =
     (let (r1, h1) = helper_start_success env (service_helper sh) token time_stamp; sh1 = sh\<lparr>service_helper := h1\<rparr>
      in res_try (res_unwrap r1) (sh1, p) (\<lambda>start_token.
         let (r2, s', p') = work (scheduler sh1) p; sh2 = sh1\<lparr>scheduler := s'\<rparr>
         in res_try (res_unwrap r2) (sh2, p') (\<lambda>_.
            let (r3, h3) = helper_completion_success env (service_helper sh2) start_token time_stamp;
                sh3 = sh2\<lparr>service_helper := h3\<rparr>
            in res_try (res_unwrap r3) (sh3, p') (\<lambda>_. (Ok (Handled HandledOne), sh3, p')))))"

definition PusSchedServiceHandler_poll_and_handle_next_tc ::
    "('pid, 'psc, 's, 'c, 'rx, 'pe) PusEnv \<Rightarrow> (u8 \<Rightarrow> SchedSubservice option) \<Rightarrow> 'p PoolProvider \<Rightarrow>
     (bytes \<Rightarrow> 'pe + PusTc) \<Rightarrow> (bytes \<Rightarrow> 'te + 't \<times> nat) \<Rightarrow> ('t::linorder \<Rightarrow> 'd \<Rightarrow> 't) \<Rightarrow>
     ('s, 'c, 'rx, 't, 'd) PusSchedServiceHandler \<Rightarrow> bytes \<Rightarrow> 'p \<Rightarrow>
     ('pe PusPacketHandlingError, ('pid, 'psc) DirectPusPacketHandlerResult) res \<times>
     'pe PartialPusHandlingError list \<times> ('s, 'c, 'rx, 't, 'd) PusSchedServiceHandler \<times> 'p" where
  "PusSchedServiceHandler_poll_and_handle_next_tc env try_sub ops read_tc read_time time_add sh0 time_stamp p =
     (let (r, h1) = poll_tc env (service_helper sh0); sh = sh0\<lparr>service_helper := h1\<rparr>
      in res_try r ([], sh, p) (\<lambda>possible.
         (case possible of
            None \<Rightarrow> (Ok (Handled HandledEmpty), [], sh, p)
          | Some (token, tc) \<Rightarrow>
              (case try_sub (tc_subservice tc) of
                 Some TcEnableScheduling \<Rightarrow>
                   (let (r, errs, sh') = handle_sched_switch env enable True ''failed to enabled scheduler'' sh token time_stamp
                    in (r, errs, sh', p))
               | Some TcDisableScheduling \<Rightarrow>
                   (let (r, errs, sh') = handle_sched_switch env disable False ''failed to disable scheduler'' sh token time_stamp
                    in (r, errs, sh', p))
               | Some TcResetScheduling \<Rightarrow>
                   (let (r, sh', p') = handle_sched_work env (PusScheduler_reset ops) sh token time_stamp p
                    in (r, [], sh', p'))
               | Some TcInsertActivity \<Rightarrow>
                   (let (r, sh', p') = handle_sched_work env
                        (\<lambda>s p. insert_wrapped_tc ops read_tc read_time time_add s tc p) sh token time_stamp p
                    in (r, [], sh', p'))
               | _ \<Rightarrow> (Ok (CustomSubservice (tc_subservice tc) token), [], sh, p)))))"

subsection \<open>The event service\<close>

datatype EventRequest = EventEnable EventU32 | EventDisable EventU32

record ('pid, 'psc) EventRequestWithToken =
  erq_request :: EventRequest
  erq_token :: "('pid, 'psc) TcStateToken"

text \<open>The handler state: the helper and the world of the request channel, whose handle is \<open>event_request_tx\<close>.\<close>

record ('s, 'c, 'rx, 'pid, 'psc) PusEventServiceHandler =
  ev_service_helper :: "('s, 'c, 'rx) PusServiceHelper"
  event_request_tx :: nat
  ev_net :: "('pid, 'psc) EventRequestWithToken net"

definition handle_enable_disable_request ::
    "('pid, 'psc, 's, 'c, 'rx, 'pe) PusEnv \<Rightarrow> ('s, 'c, 'rx, 'pid, 'psc) PusEventServiceHandler \<Rightarrow>
     (TcStateAccepted, 'pid, 'psc) VerificationToken \<Rightarrow> PusTc \<Rightarrow> bytes \<Rightarrow> bool \<Rightarrow>
     ('pe PusPacketHandlingError, ('pid, 'psc) DirectPusPacketHandlerResult) res \<times>
     'pe PartialPusHandlingError list \<times> ('s, 'c, 'rx, 'pid, 'psc) PusEventServiceHandler" where
  "handle_enable_disable_request env eh token0 tc time_stamp on =
     (if length (tc_user_data tc) < 4
      then (Err (RequestConversion (NotEnoughAppData 4 (length (tc_user_data tc)))), [], eh)
      else
        res_try (res_bind (slice 0 4 (tc_user_data tc)) (\<lambda>raw. EventU32_from (from_be_bytes raw))) ([], eh) (\<lambda>event_u32.
          let (r1, errs, h1) = try_start env (ev_service_helper eh) token0 time_stamp; eh1 = eh\<lparr>ev_service_helper := h1\<rparr>
          in res_try r1 (errs, eh1) (\<lambda>started.
             let token = (case started of Some t \<Rightarrow> TokenStarted t | None \<Rightarrow> TokenAccepted token0);
                 req = \<lparr>erq_request = (if on then EventEnable event_u32 else EventDisable event_u32), erq_token = token\<rparr>;
                 (r2, net') = on_chan (\<lambda>c. mpsc_send c req) (ev_net eh1) (event_request_tx eh1);
                 eh2 = eh1\<lparr>ev_net := net'\<rparr>
             in res_try (res_map_err (\<lambda>_. RequestRouting (RoutingSend RxDisconnected)) r2) (errs, eh2)
                  (\<lambda>_. (Ok (Handled HandledOne), errs, eh2)))))"

definition PusEventServiceHandler_poll_and_handle_next_tc ::
    "('pid, 'psc, 's, 'c, 'rx, 'pe) PusEnv \<Rightarrow> EventSubservices \<Rightarrow> ('s, 'c, 'rx, 'pid, 'psc) PusEventServiceHandler \<Rightarrow>
     bytes \<Rightarrow>
     ('pe PusPacketHandlingError, ('pid, 'psc) DirectPusPacketHandlerResult) res \<times>
     'pe PartialPusHandlingError list \<times> ('s, 'c, 'rx, 'pid, 'psc) PusEventServiceHandler" where
  "PusEventServiceHandler_poll_and_handle_next_tc env es eh0 time_stamp =
     (let (r, h1) = poll_tc env (ev_service_helper eh0); eh = eh0\<lparr>ev_service_helper := h1\<rparr>
      in res_try r ([], eh) (\<lambda>possible.
         (case possible of
            None \<Rightarrow> (Ok (Handled HandledEmpty), [], eh)
          | Some (token, tc) \<Rightarrow>
              (case es_try_from es (tc_subservice tc) of
                 None \<Rightarrow> (Ok (CustomSubservice (tc_subservice tc) token), [], eh)
               | Some TcEnableEventGeneration \<Rightarrow> handle_enable_disable_request env eh token tc time_stamp True
               | Some TcDisableEventGeneration \<Rightarrow> handle_enable_disable_request env eh token tc time_stamp False
               | Some TcReportDisabledList \<Rightarrow> (Ok (SubserviceNotImplemented (tc_subservice tc) token), [], eh)
               | Some TmDisabledEventsReport \<Rightarrow> (Ok (SubserviceNotImplemented (tc_subservice tc) token), [], eh)
               | Some _ \<Rightarrow> (Err (RequestConversion (ConvWrongService (tc_subservice tc))), [], eh)))))"

subsection \<open>Services on heap packets\<close>

text \<open>
  The composition that keeps all packets on the heap: telecommands arrive over an mpsc channel as
  vectors and telemetry is sent as vectors over another one.
\<close>

definition vec_env ::
    "('pid, 'psc) Spacepackets \<Rightarrow> TmOps \<Rightarrow> nat \<Rightarrow> (bytes \<Rightarrow> ('pe PusError, PusTc) res) \<Rightarrow>
     ('pid, 'psc, PacketAsVec net, EcssTcInVecConverter, ('pid, 'psc) EcssTcAndToken chan, 'pe) PusEnv" where
  "vec_env sp ops k read_tc =
     \<lparr>env_sp = sp, env_send_tm = MpscTmAsVecSender_send_tm ops k, env_recv_tc = MpscTcReceiver_recv_tc,
      env_conv = EcssTcInVecConverter_ops, env_read_tc = read_tc\<rparr>"

lemma vec_env_sel [simp]:
  "env_sp (vec_env sp ops k read_tc) = sp"
  "env_send_tm (vec_env sp ops k read_tc) = MpscTmAsVecSender_send_tm ops k"
  "env_recv_tc (vec_env sp ops k read_tc) = MpscTcReceiver_recv_tc"
  "env_conv (vec_env sp ops k read_tc) = EcssTcInVecConverter_ops"
  "env_read_tc (vec_env sp ops k read_tc) = read_tc"
  by (simp_all add: vec_env_def)

lemma poll_tc_vec:
  assumes "ch_queue (tc_receiver h) = \<lparr>tc_in_memory = TcVec p, tc_token = Some (TokenAccepted t)\<rparr> # rest"
    and "read_tc (pav_packet p) = Ok tc"
  shows "poll_tc (vec_env sp ops k read_tc) h =
    (Ok (Some (t, tc)), h\<lparr>tc_receiver := (tc_receiver h)\<lparr>ch_queue := rest\<rparr>,
       tc_in_mem_converter := \<lparr>vc_sender_id = Some (pav_sender_id p), pus_tc_raw = Some (pav_packet p)\<rparr>\<rparr>)"
  using assms by (simp add: poll_tc_def retrieve_and_accept_next_packet_def MpscTcReceiver_recv_tc_def
      mpsc_try_recv_def converter_convert_def EcssTcInVecConverter_ops_def EcssTcInVecConverter_cache_def
      EcssTcInVecConverter_tc_slice_raw_def Let_def)

text \<open>A packet that is put on the telemetry channel.\<close>

abbreviation push_tm :: "TmOps \<Rightarrow> ComponentId \<Rightarrow> PusTmCreator \<Rightarrow> PacketAsVec chan \<Rightarrow> PacketAsVec chan" where
  "push_tm ops i tm c \<equiv> c\<lparr>ch_queue := ch_queue c @ [PacketAsVec_new i (the_ok (tm_to_vec ops tm))]\<rparr>"

abbreviation success_tm :: "('pid, 'psc) Spacepackets \<Rightarrow> VerificationReporter \<Rightarrow> VerifSubservice \<Rightarrow>
    ('pid, 'psc) RequestId \<Rightarrow> bytes \<Rightarrow> PusTmCreator" where
  "success_tm sp v sub rid ts \<equiv>
     verif_tm (reporter_creator v) (verif_subservice sp sub) 0 0 ts (to_be_bytes (RequestId_raw sp rid))"

abbreviation with_req_id :: "('pid, 'psc) Spacepackets \<Rightarrow> ('pid, 'psc) RequestId \<Rightarrow> VerificationReporter \<Rightarrow>
    VerificationReporter" where
  "with_req_id sp rid v \<equiv> v\<lparr>source_data_buf := to_be_bytes (RequestId_raw sp rid) @ drop 4 (source_data_buf v)\<rparr>"

lemma vec_start:
  assumes "tm_ops_ok ops" "4 \<le> length (source_data_buf (verif_reporter h))"
    and "tm_hook (verif_reporter h) = (\<lambda>tm. tm)"
  shows "helper_start_success (vec_env sp ops k read_tc) h t ts =
    (let v = verif_reporter h; rid = token_request_id t; w = tm_sender_state h
     in if rx_alive (w k)
        then (Ok (VerificationToken rid),
              h\<lparr>tm_sender_state := w(k := push_tm ops (owner_id v) (success_tm sp v TmStartSuccess rid ts) (w k)),
                verif_reporter := with_req_id sp rid v\<rparr>)
        else (Err (TmtcSend RxDisconnected), h\<lparr>verif_reporter := with_req_id sp rid v\<rparr>))"
  using assms by (simp add: helper_start_success_def start_success_def creator_start_success_def
      success_verification_no_step_def create_success_tm [where bs = "[]"] report_tm_def vec_send_eq Let_def)

lemma vec_completion:
  assumes "tm_ops_ok ops" "4 \<le> length (source_data_buf (verif_reporter h))"
    and "tm_hook (verif_reporter h) = (\<lambda>tm. tm)"
  shows "helper_completion_success (vec_env sp ops k read_tc) h t ts =
    (let v = verif_reporter h; rid = token_request_id t; w = tm_sender_state h
     in if rx_alive (w k)
        then (Ok (),
              h\<lparr>tm_sender_state := w(k := push_tm ops (owner_id v) (success_tm sp v TmCompletionSuccess rid ts) (w k)),
                verif_reporter := with_req_id sp rid v\<rparr>)
        else (Err (TmtcSend RxDisconnected), h\<lparr>verif_reporter := with_req_id sp rid v\<rparr>))"
  using assms by (simp add: helper_completion_success_def completion_success_def creator_completion_success_def
      no_token_def success_verification_no_step_def create_success_tm [where bs = "[]"] report_tm_def vec_send_eq Let_def)

lemma vec_send:
  assumes "tm_ops_ok ops"
  shows "helper_send_tm (vec_env sp ops k read_tc) h (Direct tm) =
    (let w = tm_sender_state h
     in if rx_alive (w k) then (Ok (), h\<lparr>tm_sender_state := w(k := push_tm ops (helper_id h) tm (w k))\<rparr>)
        else (Err (TmtcSend RxDisconnected), h))"
  using assms by (simp add: helper_send_tm_def vec_send_eq Let_def)

lemmas vec_handler_eqs = vec_start vec_completion vec_send

text \<open>
  C18: a ping telecommand at the head of the channel is taken off it and answered, in this order, by a
  start report, a ping reply of service 17 subservice 2 and a completion report, each with the request
  id of the telecommand, and no error is reported. When the telemetry receiver is gone the command
  still counts as handled: the two errors go to the error callback and no completion is attempted.
\<close>

theorem ping_service:
  assumes "tm_ops_ok ops" "4 \<le> length (source_data_buf (verif_reporter h))"
    and "tm_hook (verif_reporter h) = (\<lambda>tm. tm)"
    and "ch_queue (tc_receiver h) = \<lparr>tc_in_memory = TcVec p, tc_token = Some (TokenAccepted t)\<rparr> # rest"
    and "read_tc (pav_packet p) = Ok tc" "tc_service tc = 17" "tc_subservice tc = 1"
  shows "\<exists>errs h'. PusService17TestHandler_poll_and_handle_next_tc (vec_env sp ops k read_tc) h ts =
      (Ok (Handled HandledOne), errs, h') \<and>
    ch_queue (tc_receiver h') = rest \<and>
    (let v = verif_reporter h; rid = token_request_id t; w = tm_sender_state h; w' = tm_sender_state h'
     in if rx_alive (w k)
        then errs = [] \<and> ch_queue (w' k) = ch_queue (w k) @
          map (\<lambda>(i, tm). PacketAsVec_new i (the_ok (tm_to_vec ops tm)))
            [(owner_id v, success_tm sp v TmStartSuccess rid ts), (helper_id h, ping_reply v ts),
             (owner_id v, success_tm sp v TmCompletionSuccess rid ts)]
        else w' = w \<and> errs = [VerificationFailed (TmtcSend RxDisconnected), TmSendFailed (TmtcSend RxDisconnected)])"
  using assms
  by (cases "rx_alive (tm_sender_state h k)")
    (simp_all add: PusService17TestHandler_poll_and_handle_next_tc_def poll_tc_vec handle_ping_def try_start_def
      try_completion_def vec_handler_eqs ping_reply_def Let_def)

subsection \<open>The scheduling service\<close>

lemma sched_inv_content:
  "sched_inv mp s \<Longrightarrow> sched_inv (mp(a \<mapsto> d)) s"
  by (auto simp: sched_inv_def)

lemma sched_inv_enabled [simp]: "sched_inv mp (s\<lparr>enabled := b\<rparr>) = sched_inv mp s"
  by (simp add: sched_inv_def scheduled_def)

lemma res_try_state:
  assumes "res_try r s f = (r', s')" "\<And>x. r = Ok x \<Longrightarrow> f x = (r', s') \<Longrightarrow> P" "s' = s \<Longrightarrow> P"
  shows P
  using assms by (cases r) auto

context pool_provider
begin

lemma insert_unwrapped_keeps:
  assumes "inv p" "sched_inv (content p) s"
    and "insert_unwrapped_tc ops read_tc time_add s t tc p = (r, s', p')"
  shows "inv p' \<and> sched_inv (content p') s'"
proof (cases "read_tc tc")
  case (Inr h)
  obtain ra pa where a: "pp_add ops p tc = (ra, pa)" by fastforce
  show ?thesis
  proof (cases ra)
    case (Ok x)
    have ok: "inv pa" "content pa = (content p)(x \<mapsto> tc)" using add_ok [OF assms(1)] a Ok by auto
    show ?thesis
      using insert_ok [where read_tc = read_tc and h = h and t = t, OF assms(1,2) Inr] assms a Ok Inr ok
        sched_inv_content [OF assms(2)]
      by (auto simp: insert_unwrapped_tc_def insert_unwrapped_and_stored_tc_def Let_def split: if_splits)
  qed (use add_fail [OF assms(1) a] assms a Inr in \<open>auto simp: insert_unwrapped_tc_def split: if_splits\<close>)
qed (use assms in \<open>auto simp: insert_unwrapped_tc_def\<close>)

lemma insert_wrapped_keeps:
  assumes "inv p" "sched_inv (content p) s"
    and "insert_wrapped_tc ops read_tc read_time time_add s tc p = (r, s', p')"
  shows "inv p' \<and> sched_inv (content p') s'"
  using assms(3,1,2)
  by (auto simp: insert_wrapped_tc_def slice_def dest: insert_unwrapped_keeps [OF assms(1,2)]
      split: if_splits sum.splits)

lemma sched_reset_keeps:
  assumes "inv p" "sched_inv (content p) s" "PusScheduler_reset ops s p = (r, s', p')"
  shows "inv p' \<and> sched_inv (content p') s'"
  using reset_ok [OF assms(1,2)] assms(3) by (auto simp: sched_inv_def scheduled_def bm_ok_def)

lemma sched_work_keeps:
  assumes "handle_sched_work env work sh token ts p = (r, sh', p')"
    and "inv p" "sched_inv (content p) (scheduler sh)"
    and "\<And>x s' q. work (scheduler sh) p = (x, s', q) \<Longrightarrow> inv q \<and> sched_inv (content q) s'"
  shows "inv p' \<and> sched_inv (content p') (scheduler sh')"
proof -
  obtain x s' q where w: "work (scheduler sh) p = (x, s', q)" by (metis prod_cases3)
  obtain r1 h1 where h1: "helper_start_success env (service_helper sh) token ts = (r1, h1)" by fastforce
  have "handle_sched_work env work sh token ts p = (r, sh', p') \<Longrightarrow>
      p' = p \<and> scheduler sh' = scheduler sh \<or> p' = q \<and> scheduler sh' = s'"
    by (cases r1; cases x) (auto simp: handle_sched_work_def w h1 Let_def case_prod_unfold elim: res_try_state)
  then show ?thesis using assms by (metis w)
qed

lemma sched_switch_keeps:
  assumes "handle_sched_switch env switch b msg sh token ts = (r, errs, sh')"
  shows "scheduler sh' = scheduler sh \<or> scheduler sh' = switch (scheduler sh)"
proof -
  obtain r1 e1 h1 where h1: "try_start env (service_helper sh) token ts = (r1, e1, h1)" by (metis prod_cases3)
  show ?thesis using assms
    by (cases r1) (auto simp: handle_sched_switch_def h1 Let_def case_prod_unfold elim: res_try_state
      split: option.splits if_splits)
qed

lemma sched_service_keeps:
  assumes "inv p" "sched_inv (content p) (scheduler sh)"
    and "PusSchedServiceHandler_poll_and_handle_next_tc env try_sub ops read_tc read_time time_add sh ts p =
      (r, errs, sh', p')"
  shows "inv p' \<and> sched_inv (content p') (scheduler sh')"
proof -
  obtain r0 h1 where poll: "poll_tc env (service_helper sh) = (r0, h1)" by fastforce
  let ?sh = "sh\<lparr>service_helper := h1\<rparr>"
  note eq = assms(3) [unfolded PusSchedServiceHandler_poll_and_handle_next_tc_def poll Let_def]
  show ?thesis
  proof (cases "\<exists>token tc. r0 = Ok (Some (token, tc))")
    case False
    then show ?thesis using eq assms(1,2) by (cases r0) (auto split: option.splits)
  next
    case True
    then obtain token tc where tc: "r0 = Ok (Some (token, tc))" by blast
    have ins: "inv q \<and> sched_inv (content q) s'"
      if "insert_wrapped_tc ops read_tc read_time time_add (scheduler ?sh) tc p = (x, s', q)" for x s' q
      using insert_wrapped_keeps [OF assms(1) _ that] assms(2) by simp
    have res: "inv q \<and> sched_inv (content q) s'" if "PusScheduler_reset ops (scheduler ?sh) p = (x, s', q)" for x s' q
      using sched_reset_keeps [OF assms(1) _ that] assms(2) by simp
    note work = sched_work_keeps [where sh = ?sh, OF _ assms(1)]
    show ?thesis
    proof (cases "try_sub (tc_subservice tc)")
      case None
      then show ?thesis using eq tc assms(1,2) by auto
    next
      case (Some sub)
      show ?thesis
      proof (cases sub)
        case TcResetScheduling
        then show ?thesis using eq tc Some assms(2)
          by (auto split: prod.splits elim!: work dest: res)
      next
        case TcInsertActivity
        then show ?thesis using eq tc Some assms(2)
          by (auto split: prod.splits elim!: work dest: ins)
      qed (use eq tc Some assms(1,2) in \<open>auto simp: enable_def disable_def split: prod.splits dest!: sched_switch_keeps\<close>)
    qed
  qed
qed

end

text \<open>
  C19: whatever telecommand the scheduling service takes from its channel, and also when it reports an
  error or panics, the pool and the schedule keep their invariants: every scheduled telecommand is
  stored in the pool under an address of its own.
\<close>

theorem sched_service_inv:
  assumes "pool_inv p" "sched_inv (pool_content p) (scheduler sh)"
    and "PusSchedServiceHandler_poll_and_handle_next_tc env try_sub StaticMemoryPool_provider read_tc read_time time_add
      sh ts p = (r, errs, sh', p')"
  shows "pool_inv p' \<and> sched_inv (pool_content p') (scheduler sh')"
  using assms by (rule static_pool.sched_service_keeps)

text \<open>
  C20: an insertion telecommand is answered by a start report; if the scheduler takes the wrapped
  telecommand a completion report follows. If it rejects it, for example because the release time is in
  the time margin, the service panics: no failure report is sent.
\<close>

theorem sched_service_insert:
  assumes "tm_ops_ok ops" "4 \<le> length (source_data_buf (verif_reporter (service_helper sh)))"
    and "tm_hook (verif_reporter (service_helper sh)) = (\<lambda>tm. tm)"
    and "ch_queue (tc_receiver (service_helper sh)) =
      \<lparr>tc_in_memory = TcVec p, tc_token = Some (TokenAccepted t)\<rparr> # rest"
    and "read_tc (pav_packet p) = Ok tc" "try_sub (tc_subservice tc) = Some TcInsertActivity"
    and "rx_alive (tm_sender_state (service_helper sh) k)"
    and "insert_wrapped_tc StaticMemoryPool_provider read_sched read_time time_add (scheduler sh) tc pl = (x, s', pl')"
  shows "\<exists>sh'. PusSchedServiceHandler_poll_and_handle_next_tc (vec_env sp ops k read_tc) try_sub StaticMemoryPool_provider
      read_sched read_time time_add sh ts pl = (if is_ok x then Ok (Handled HandledOne) else Panic, [], sh', pl') \<and>
    scheduler sh' = s' \<and>
    (let v = verif_reporter (service_helper sh); rid = token_request_id t
     in ch_queue (tm_sender_state (service_helper sh') k) =
       ch_queue (tm_sender_state (service_helper sh) k) @
         map (\<lambda>sub. PacketAsVec_new (owner_id v) (the_ok (tm_to_vec ops (success_tm sp v sub rid ts))))
           (if is_ok x then [TmStartSuccess, TmCompletionSuccess] else [TmStartSuccess]))"
  using assms
  by (cases x) (simp_all add: PusSchedServiceHandler_poll_and_handle_next_tc_def poll_tc_vec handle_sched_work_def
      vec_handler_eqs Let_def)

subsection \<open>The event service\<close>

lemma event_switch_subservices:
  assumes "event_subservices_ok es"
  shows "es_try_from es 5 = Some TcEnableEventGeneration" "es_try_from es 6 = Some TcDisableEventGeneration"
proof -
  have "es_num es TcEnableEventGeneration = 5" "es_num es TcDisableEventGeneration = 6"
    using assms by (simp_all add: event_subservices_ok_def)
  moreover have "es_try_from es (es_num es s) = Some s" for s using assms by (simp add: event_subservices_ok_def)
  ultimately show "es_try_from es 5 = Some TcEnableEventGeneration" "es_try_from es 6 = Some TcDisableEventGeneration"
    by metis+
qed

text \<open>
  C33: a telecommand that enables or disables an event is answered by a start report and forwarded as one
  request with the event of its first four bytes and the started token; with fewer bytes it is refused
  with the exact lengths and nothing is forwarded or reported.
\<close>

theorem event_service_request:
  fixes read_tc :: "bytes \<Rightarrow> ('pe PusError, PusTc) res"
  assumes "tm_ops_ok ops" "4 \<le> length (source_data_buf (verif_reporter (ev_service_helper eh)))"
    and "tm_hook (verif_reporter (ev_service_helper eh)) = (\<lambda>tm. tm)"
    and "event_subservices_ok es"
    and "ch_queue (tc_receiver (ev_service_helper eh)) =
      \<lparr>tc_in_memory = TcVec p, tc_token = Some (TokenAccepted t)\<rparr> # rest"
    and "read_tc (pav_packet p) = Ok tc" "tc_subservice tc = (if on then 5 else 6)"
    and "rx_alive (tm_sender_state (ev_service_helper eh) k)" "rx_alive (ev_net eh (event_request_tx eh))"
  shows "\<exists>r eh'. PusEventServiceHandler_poll_and_handle_next_tc (vec_env sp ops k read_tc) es eh ts = (r, [], eh') \<and>
    ch_queue (tc_receiver (ev_service_helper eh')) = rest \<and>
    (let q = ch_queue (ev_net eh (event_request_tx eh)); q' = ch_queue (ev_net eh' (event_request_tx eh));
         w = ch_queue (tm_sender_state (ev_service_helper eh) k);
         w' = ch_queue (tm_sender_state (ev_service_helper eh') k);
         v = verif_reporter (ev_service_helper eh); rid = token_request_id t; data = tc_user_data tc
     in if length data < 4
        then r = Err (RequestConversion (NotEnoughAppData 4 (length data))) \<and> q' = q \<and> w' = w
        else r = Ok (Handled HandledOne) \<and>
          w' = w @ [PacketAsVec_new (owner_id v) (the_ok (tm_to_vec ops (success_tm sp v TmStartSuccess rid ts)))] \<and>
          (\<exists>e. EventU32_raw e = from_be_bytes (take 4 data) \<and>
            q' = q @ [\<lparr>erq_request = (if on then EventEnable e else EventDisable e),
                       erq_token = TokenStarted (VerificationToken rid)\<rparr>]))"
proof (cases "length (tc_user_data tc) < 4")
  case True
  then show ?thesis using assms
    by (auto simp: PusEventServiceHandler_poll_and_handle_next_tc_def poll_tc_vec handle_enable_disable_request_def
        event_switch_subservices [OF assms(4)] Let_def)
next
  case False
  obtain e where e: "(EventU32_from (from_be_bytes (take 4 (tc_user_data tc))) :: ('pe PusPacketHandlingError, EventU32) res) = Ok e"
      "EventU32_raw e = from_be_bytes (take 4 (tc_user_data tc))"
    by (rule EventU32_from_total)
  show ?thesis using assms False e
    by (auto simp: PusEventServiceHandler_poll_and_handle_next_tc_def poll_tc_vec handle_enable_disable_request_def
        event_switch_subservices [OF assms(4)] slice_def try_start_def vec_handler_eqs chan_defs)
qed

subsection \<open>Witnesses\<close>

definition demo_read_tc :: "bytes \<Rightarrow> (unit PusError, PusTc) res" where
  "demo_read_tc raw =
     (case raw of
        srv # sub # data \<Rightarrow> Ok \<lparr>tc_service = srv, tc_subservice = sub, tc_source_id = 0, tc_apid = 2, tc_seq_count = 0,
                              tc_user_data = data\<rparr>
      | _ \<Rightarrow> Err (PusOther ()))"

definition demo_helper :: "bytes \<Rightarrow>
    (PacketAsVec net, EcssTcInVecConverter, (13 word, u16) EcssTcAndToken chan) PusServiceHelper" where
  "demo_helper raw =
     \<lparr>helper_id = 5,
      tc_receiver = \<lparr>ch_queue = [\<lparr>tc_in_memory = TcVec \<lparr>pav_sender_id = 1, pav_packet = raw\<rparr>,
        tc_token = Some (TokenAccepted (VerificationToken demo_rid))\<rparr>], ch_bound = 1, rx_alive = True, tx_alive = True\<rparr>,
      tm_sender_state = (\<lambda>_. \<lparr>ch_queue = [], ch_bound = 0, rx_alive = True, tx_alive = True\<rparr>),
      verif_reporter = demo_reporter, tc_in_mem_converter = \<lparr>vc_sender_id = None, pus_tc_raw = None\<rparr>\<rparr>"

definition demo_parsed :: "u8 \<Rightarrow> u8 \<Rightarrow> bytes \<Rightarrow> PusTc" where
  "demo_parsed srv sub data = \<lparr>tc_service = srv, tc_subservice = sub, tc_source_id = 0, tc_apid = 2, tc_seq_count = 0,
     tc_user_data = data\<rparr>"

lemma demo_parsed_sel [simp]:
  "tc_service (demo_parsed srv sub data) = srv" "tc_subservice (demo_parsed srv sub data) = sub"
  "tc_user_data (demo_parsed srv sub data) = data"
  "demo_read_tc (srv # sub # data) = Ok (demo_parsed srv sub data)"
  by (simp_all add: demo_parsed_def demo_read_tc_def)

abbreviation demo_env where
  "demo_env \<equiv> vec_env demo_sp demo_ops 0 demo_read_tc"

lemma demo_helper_sel [simp]:
  "verif_reporter (demo_helper raw) = demo_reporter" "helper_id (demo_helper raw) = 5"
  "ch_queue (tc_receiver (demo_helper raw)) = [\<lparr>tc_in_memory = TcVec \<lparr>pav_sender_id = 1, pav_packet = raw\<rparr>,
     tc_token = Some (TokenAccepted (VerificationToken demo_rid))\<rparr>]"
  "tm_sender_state (demo_helper raw) = (\<lambda>_. \<lparr>ch_queue = [], ch_bound = 0, rx_alive = True, tx_alive = True\<rparr>)"
  by (simp_all add: demo_helper_def)

lemma demo_reporter_sel [simp]:
  "tm_hook demo_reporter = (\<lambda>tm. tm)" "length (source_data_buf demo_reporter) = 8" "owner_id demo_reporter = 3"
  by (simp_all add: demo_reporter_def)

lemma demo_vec_sub: "the_ok (tm_to_vec demo_ops tm) = [pt_subservice tm]"
  by (simp add: demo_ops_def)

lemma demo_sp_subs:
  "verif_subservice demo_sp TmStartSuccess = 3" "verif_subservice demo_sp TmCompletionSuccess = 7"
  by (simp_all add: demo_sp_def)

theorem ping_service_witness:
  "\<exists>h'. PusService17TestHandler_poll_and_handle_next_tc demo_env (demo_helper [17, 1]) [] =
      (Ok (Handled HandledOne), [], h') \<and>
    ch_queue (tm_sender_state h' 0) =
      [\<lparr>pav_sender_id = 3, pav_packet = [3]\<rparr>, \<lparr>pav_sender_id = 5, pav_packet = [2]\<rparr>,
       \<lparr>pav_sender_id = 3, pav_packet = [7]\<rparr>]"
  using ping_service [OF demo_ops_ok, of "demo_helper [17, 1]" _ _ _ demo_read_tc "demo_parsed 17 1 []" demo_sp 0 "[]"]
  by (auto simp: demo_vec_sub demo_sp_subs verif_tm_def ping_reply_def PacketAsVec_new_def Let_def)

definition demo_sched_handler :: "bytes \<Rightarrow>
    (PacketAsVec net, EcssTcInVecConverter, (13 word, u16) EcssTcAndToken chan, nat, nat) PusSchedServiceHandler" where
  "demo_sched_handler raw = PusSchedServiceHandler_new (demo_helper raw) demo_sched"

definition demo_try_sub :: "u8 \<Rightarrow> SchedSubservice option" where
  "demo_try_sub n =
     (if n = 1 then Some TcEnableScheduling else if n = 2 then Some TcDisableScheduling
      else if n = 3 then Some TcResetScheduling else if n = 4 then Some TcInsertActivity else None)"

abbreviation demo_sched_poll where
  "demo_sched_poll raw \<equiv> PusSchedServiceHandler_poll_and_handle_next_tc demo_env demo_try_sub StaticMemoryPool_provider
     (\<lambda>_. Inr demo_tc :: unit + PusTc) (\<lambda>d. Inr (unat (hd d), 1) :: unit + nat \<times> nat) (+) (demo_sched_handler raw) [] demo_pool"

theorem sched_service_inv_witness:
  "\<exists>r errs sh' p'. demo_sched_poll [11, 3] = (r, errs, sh', p') \<and> pool_inv p' \<and> sched_inv (pool_content p') (scheduler sh')"
proof -
  obtain r errs sh' p' where eq: "demo_sched_poll [11, 3] = (r, errs, sh', p')" using prod_cases4 by blast
  have "sched_inv (pool_content demo_pool) (scheduler (demo_sched_handler [11, 3]))"
    using demo_sched_inv by (simp add: demo_sched_handler_def PusSchedServiceHandler_new_def)
  from sched_service_inv [OF demo_pool_inv(1) this eq] eq show ?thesis by blast
qed

lemma demo_insert_rejected:
  "insert_wrapped_tc StaticMemoryPool_provider (\<lambda>_. Inr demo_tc :: unit + PusTc)
      (\<lambda>d. Inr (unat (hd d), 1) :: unit + nat \<times> nat) (+) demo_sched (demo_parsed 11 4 [11, 7]) demo_pool =
    (Err (ReleaseTimeInTimeMargin 10 2 11), demo_sched, demo_pool_added)"
  by (simp add: insert_wrapped_tc_def insert_unwrapped_tc_def insert_unwrapped_and_stored_tc_def slice_def
      StaticMemoryPool_provider_def demo_pool_add demo_tc_def demo_sched_def)

theorem sched_service_insert_witness:
  "\<exists>sh'. demo_sched_poll [11, 4, 11, 7] = (Panic, [], sh', demo_pool_added) \<and>
    ch_queue (tm_sender_state (service_helper sh') 0) = [\<lparr>pav_sender_id = 3, pav_packet = [3]\<rparr>]"
proof -
  let ?sh = "demo_sched_handler [11, 4, 11, 7]"
  have h: "service_helper ?sh = demo_helper [11, 4, 11, 7]" "scheduler ?sh = demo_sched"
    by (simp_all add: demo_sched_handler_def PusSchedServiceHandler_new_def)
  show ?thesis
    using sched_service_insert [OF demo_ops_ok, of ?sh _ _ _ demo_read_tc "demo_parsed 11 4 [11, 7]" demo_try_sub 0
        "\<lambda>_. Inr demo_tc :: unit + PusTc" "\<lambda>d. Inr (unat (hd d), 1) :: unit + nat \<times> nat" "(+)" demo_pool
        "Err (ReleaseTimeInTimeMargin 10 2 11)" demo_sched demo_pool_added demo_sp "[]"]
    by (auto simp: h demo_insert_rejected [simplified] demo_try_sub_def demo_vec_sub demo_sp_subs verif_tm_def PacketAsVec_new_def)
qed

theorem event_service_request_witness:
  "\<exists>eh' e. PusEventServiceHandler_poll_and_handle_next_tc demo_env demo_subservices
      \<lparr>ev_service_helper = demo_helper [5, 5, 0x40, 1, 0, 2], event_request_tx = 0,
       ev_net = (\<lambda>_. \<lparr>ch_queue = [], ch_bound = 0, rx_alive = True, tx_alive = True\<rparr>)\<rparr> [] =
      (Ok (Handled HandledOne), [], eh') \<and>
    map erq_request (ch_queue (ev_net eh' 0)) = [EventEnable e] \<and> EventU32_raw e = 0x40010002"
proof -
  have "(from_be_bytes [0x40, 1, 0, 2] :: u32) = 0x40010002" by (simp add: from_be_bytes_def from_be_def)
  then show ?thesis
    using event_service_request [OF demo_ops_ok, of "\<lparr>ev_service_helper = demo_helper [5, 5, 0x40, 1, 0, 2],
        event_request_tx = 0, ev_net = (\<lambda>_. \<lparr>ch_queue = [], ch_bound = 0, rx_alive = True, tx_alive = True\<rparr>)\<rparr>"
        demo_subservices _ _ _ demo_read_tc "demo_parsed 5 5 [0x40, 1, 0, 2]" True 0 demo_sp "[]"] demo_subservices_ok
    by (auto simp: Let_def)
qed

end
