(* ===== verification/Event_Man.thy ===== *)
theory Event_Man
  imports Pus_Events
begin

text \<open>
  The event manager (\<^verbatim>\<open>satrs/src/event_man.rs\<close>): subscriptions to single events, event groups and all
  events, and the routing of a received event to the subscribers, with the default listener and sender
  maps and the bounded and unbounded mpsc senders.
\<close>

subsection \<open>Messages and maps\<close>

datatype ListenerKey = KeySingle u32 | KeyGroup u16 | KeyAll

record ('ev, 'p) EventMessage =
  em_sender_id :: ComponentId
  em_event :: 'ev
  em_params :: "'p option"

definition EventMessage_new_generic :: "ComponentId \<Rightarrow> 'ev \<Rightarrow> 'p option \<Rightarrow> ('ev, 'p) EventMessage" where
  "EventMessage_new_generic i ev ps = \<lparr>em_sender_id = i, em_event = ev, em_params = ps\<rparr>"

definition EventMessage_new :: "ComponentId \<Rightarrow> 'ev \<Rightarrow> ('ev, 'p) EventMessage" where
  "EventMessage_new i ev = EventMessage_new_generic i ev None"

definition EventMessage_new_with_params :: "ComponentId \<Rightarrow> 'ev \<Rightarrow> 'p \<Rightarrow> ('ev, 'p) EventMessage" where
  "EventMessage_new_with_params i ev ps = EventMessage_new_generic i ev (Some ps)"

text \<open>\<^verbatim>\<open>EventSendProvider\<close>: a sender and the channels it sends over.\<close>

record ('snd, 'w, 'm) EventSendProvider =
  esp_target_id :: "'snd \<Rightarrow> ComponentId"
  esp_send :: "'snd \<Rightarrow> 'w \<Rightarrow> 'm \<Rightarrow> (GenericSendError, unit) res \<times> 'w"

type_synonym DefaultListenerMap = "ListenerKey \<rightharpoonup> ComponentId list"

definition contains_listener :: "DefaultListenerMap \<Rightarrow> ListenerKey \<Rightarrow> bool" where
  "contains_listener m key \<longleftrightarrow> m key \<noteq> None"

definition get_listener_ids :: "DefaultListenerMap \<Rightarrow> ListenerKey \<Rightarrow> ComponentId list option" where
  "get_listener_ids m key = m key"

definition add_listener :: "DefaultListenerMap \<Rightarrow> ListenerKey \<Rightarrow> ComponentId \<Rightarrow> bool \<times> DefaultListenerMap" where
  "add_listener m key i =
     (True, case m key of Some existing_list \<Rightarrow> m(key \<mapsto> existing_list @ [i]) | None \<Rightarrow> m(key \<mapsto> [i]))"

text \<open>\<^verbatim>\<open>sort_unstable\<close> on integers is sorting; \<^verbatim>\<open>dedup\<close> removes adjacent duplicates.\<close>

definition DefaultListenerMap_remove_duplicates :: "DefaultListenerMap \<Rightarrow> ListenerKey \<Rightarrow> DefaultListenerMap" where
  "DefaultListenerMap_remove_duplicates m key =
     (case m key of Some ids \<Rightarrow> m(key \<mapsto> remdups_adj (sort ids)) | None \<Rightarrow> m)"

type_synonym 'snd DefaultSenderMap = "ComponentId \<rightharpoonup> 'snd"

definition contains_send_event_provider :: "'snd DefaultSenderMap \<Rightarrow> ComponentId \<Rightarrow> bool" where
  "contains_send_event_provider m i \<longleftrightarrow> m i \<noteq> None"

definition get_send_event_provider ::
    "('snd, 'w, 'm) EventSendProvider \<Rightarrow> 'snd DefaultSenderMap \<Rightarrow> ComponentId \<Rightarrow> 'snd option" where
  "get_send_event_provider ops m i =
     (case m i of Some sdr \<Rightarrow> if esp_target_id ops sdr = i then Some sdr else None | None \<Rightarrow> None)"

definition add_send_event_provider ::
    "('snd, 'w, 'm) EventSendProvider \<Rightarrow> 'snd DefaultSenderMap \<Rightarrow> 'snd \<Rightarrow> bool \<times> 'snd DefaultSenderMap" where
  "add_send_event_provider ops m sdr =
     (let i = esp_target_id ops sdr in if m i \<noteq> None then (False, m) else (True, m(i \<mapsto> sdr)))"

subsection \<open>Senders and the receiver\<close>

text \<open>A sender is its target id and the handle of its channel.\<close>

record EventSenderMpsc =
  esm_target_id :: ComponentId
  esm_sender :: nat

definition EventSenderMpsc_new :: "ComponentId \<Rightarrow> nat \<Rightarrow> EventSenderMpsc" where
  "EventSenderMpsc_new i h = \<lparr>esm_target_id = i, esm_sender = h\<rparr>"

definition EventSenderMpsc_send :: "EventSenderMpsc \<Rightarrow> 'm net \<Rightarrow> 'm \<Rightarrow> (GenericSendError, unit) res \<times> 'm net" where
  "EventSenderMpsc_send sdr w x =
     (let (r, w') = on_chan (\<lambda>c. mpsc_send c x) w (esm_sender sdr) in (res_map_err (\<lambda>_. RxDisconnected) r, w'))"

definition EventSenderMpsc_ops :: "(EventSenderMpsc, 'm net, 'm) EventSendProvider" where
  "EventSenderMpsc_ops = \<lparr>esp_target_id = esm_target_id, esp_send = EventSenderMpsc_send\<rparr>"

record EventSenderMpscBounded = EventSenderMpsc +
  esm_capacity :: nat

definition EventSenderMpscBounded_new :: "ComponentId \<Rightarrow> nat \<Rightarrow> nat \<Rightarrow> EventSenderMpscBounded" where
  "EventSenderMpscBounded_new i h cap = \<lparr>esm_target_id = i, esm_sender = h, esm_capacity = cap\<rparr>"

definition EventSenderMpscBounded_send ::
    "EventSenderMpscBounded \<Rightarrow> 'm net \<Rightarrow> 'm \<Rightarrow> (GenericSendError, unit) res \<times> 'm net" where
  "EventSenderMpscBounded_send sdr w x =
     (let (r, w') = on_chan (\<lambda>c. mpsc_try_send c x) w (esm_sender sdr)
      in (res_map_err (\<lambda>e. case e of
            TrySendFull \<Rightarrow> QueueFull (Some (of_nat (esm_capacity sdr)))
          | TrySendDisconnected \<Rightarrow> RxDisconnected) r, w'))"

definition EventSenderMpscBounded_ops :: "(EventSenderMpscBounded, 'm net, 'm) EventSendProvider" where
  "EventSenderMpscBounded_ops = \<lparr>esp_target_id = esm_target_id, esp_send = EventSenderMpscBounded_send\<rparr>"

definition try_recv_event :: "'m net \<Rightarrow> nat \<Rightarrow> (GenericReceiveError, 'm option) res \<times> 'm net" where
  "try_recv_event w h =
     (let (r, w') = on_chan mpsc_try_recv w h
      in (case r of
            Ok x \<Rightarrow> Ok (Some x)
          | Err TryRecvEmpty \<Rightarrow> Ok None
          | Err TryRecvDisconnected \<Rightarrow> Err (TxDisconnected None)
          | Panic \<Rightarrow> Panic, w'))"

subsection \<open>The manager\<close>

record 'snd EventManager =
  event_receiver :: nat
  sender_map :: "'snd DefaultSenderMap"
  listener_map :: DefaultListenerMap

datatype ('ev, 'p) EventRoutingResult =
    RoutingEmpty
  | RoutingHandled u32 "('ev, 'p) EventMessage"

datatype EventRoutingError =
    RoutingSendError GenericSendError
  | NoSendersForKey ListenerKey
  | NoSenderForId ComponentId

definition EventManager_new :: "nat \<Rightarrow> 'snd EventManager" where
  "EventManager_new rx = \<lparr>event_receiver = rx, sender_map = Map.empty, listener_map = Map.empty\<rparr>"

definition EventManager_new_with_custom_maps ::
    "nat \<Rightarrow> 'snd DefaultSenderMap \<Rightarrow> DefaultListenerMap \<Rightarrow> 'snd EventManager" where
  "EventManager_new_with_custom_maps rx snds lsts = \<lparr>event_receiver = rx, sender_map = snds, listener_map = lsts\<rparr>"

definition EventManager_remove_duplicates :: "'snd EventManager \<Rightarrow> ListenerKey \<Rightarrow> 'snd EventManager" where
  "EventManager_remove_duplicates mgr key =
     mgr\<lparr>listener_map := DefaultListenerMap_remove_duplicates (listener_map mgr) key\<rparr>"

definition update_listeners :: "'snd EventManager \<Rightarrow> ListenerKey \<Rightarrow> ComponentId \<Rightarrow> 'snd EventManager" where
  "update_listeners mgr key i = mgr\<lparr>listener_map := snd (add_listener (listener_map mgr) key i)\<rparr>"

definition subscribe_single :: "'ev GenericEvent \<Rightarrow> 'snd EventManager \<Rightarrow> 'ev \<Rightarrow> ComponentId \<Rightarrow> 'snd EventManager" where
  "subscribe_single ge mgr ev i = update_listeners mgr (KeySingle (ge_raw_as_largest_type ge ev)) i"

definition subscribe_group :: "'snd EventManager \<Rightarrow> u16 \<Rightarrow> ComponentId \<Rightarrow> 'snd EventManager" where
  "subscribe_group mgr gid i = update_listeners mgr (KeyGroup gid) i"

definition subscribe_all :: "'snd EventManager \<Rightarrow> ComponentId \<Rightarrow> 'snd EventManager" where
  "subscribe_all mgr i = update_listeners mgr KeyAll i"

definition add_sender :: "('snd, 'w, 'm) EventSendProvider \<Rightarrow> 'snd EventManager \<Rightarrow> 'snd \<Rightarrow> 'snd EventManager" where
  "add_sender ops mgr sdr =
     (if \<not> contains_send_event_provider (sender_map mgr) (esp_target_id ops sdr)
      then mgr\<lparr>sender_map := snd (add_send_event_provider ops (sender_map mgr) sdr)\<rparr> else mgr)"

text \<open>
  The loop over the listeners of a key: the number of recipients, the errors passed to the error
  handler and the channels are threaded through.
\<close>

fun send_to_ids ::
    "('snd, 'w, ('ev, 'p) EventMessage) EventSendProvider \<Rightarrow> 'snd EventManager \<Rightarrow> ('ev, 'p) EventMessage \<Rightarrow>
     ComponentId list \<Rightarrow> u32 \<times> EventRoutingError list \<times> 'w \<Rightarrow> u32 \<times> EventRoutingError list \<times> 'w" where
  "send_to_ids ops mgr msg [] st = st"
| "send_to_ids ops mgr msg (i # ids) (n, errs, w) =
     send_to_ids ops mgr msg ids
       (case get_send_event_provider ops (sender_map mgr) i of
          Some sdr \<Rightarrow>
            (case esp_send ops sdr w (EventMessage_new_generic (em_sender_id msg) (em_event msg) (em_params msg)) of
               (Err e, w') \<Rightarrow> (n, errs @ [RoutingSendError e], w')
             | (_, w') \<Rightarrow> (n + 1, errs, w'))
        | None \<Rightarrow> (n, errs @ [NoSenderForId i], w))"

definition send_handler ::
    "('snd, 'w, ('ev, 'p) EventMessage) EventSendProvider \<Rightarrow> 'snd EventManager \<Rightarrow> ListenerKey \<Rightarrow>
     ('ev, 'p) EventMessage \<Rightarrow> u32 \<times> EventRoutingError list \<times> 'w \<Rightarrow> u32 \<times> EventRoutingError list \<times> 'w" where
  "send_handler ops mgr key msg st =
     (if contains_listener (listener_map mgr) key
      then (case get_listener_ids (listener_map mgr) key of
              Some ids \<Rightarrow> send_to_ids ops mgr msg ids st
            | None \<Rightarrow> (case st of (n, errs, w) \<Rightarrow> (n, errs @ [NoSendersForKey key], w)))
      else st)"

definition try_event_handling ::
    "('snd, ('ev, 'p) EventMessage net, ('ev, 'p) EventMessage) EventSendProvider \<Rightarrow> 'ev GenericEvent \<Rightarrow>
     'snd EventManager \<Rightarrow> ('ev, 'p) EventMessage net \<Rightarrow>
     ('ev, 'p) EventRoutingResult \<times> EventRoutingError list \<times> ('ev, 'p) EventMessage net" where
  "try_event_handling ops ge mgr w =
     (case try_recv_event w (event_receiver mgr) of
        (Ok (Some msg), w1) \<Rightarrow>
          (let st1 = send_handler ops mgr (KeySingle (ge_raw_as_largest_type ge (em_event msg))) msg (0, [], w1);
               st2 = send_handler ops mgr (KeyGroup (ge_group_id_as_largest_type ge (em_event msg))) msg st1;
               (n, errs, w') = send_handler ops mgr KeyAll msg st2
           in (RoutingHandled n msg, errs, w'))
      | (_, w1) \<Rightarrow> (RoutingEmpty, [], w1))"

subsection \<open>Routing\<close>

text \<open>
  What the manager relies on: a sender either appends the message to the queue of its channel or
  refuses it and changes nothing.
\<close>

locale event_sender =
  fixes ops :: "('snd, ('ev, 'p) EventMessage net, ('ev, 'p) EventMessage) EventSendProvider"
    and chan_of :: "'snd \<Rightarrow> nat"
    and accepts :: "'snd \<Rightarrow> ('ev, 'p) EventMessage chan \<Rightarrow> bool"
  assumes send_accept: "accepts sdr (w (chan_of sdr)) \<Longrightarrow>
      esp_send ops sdr w x = (Ok (), w(chan_of sdr := (w (chan_of sdr))\<lparr>ch_queue := ch_queue (w (chan_of sdr)) @ [x]\<rparr>))"
    and send_refuse: "\<not> accepts sdr (w (chan_of sdr)) \<Longrightarrow> \<exists>e. esp_send ops sdr w x = (Err e, w)"

interpretation mpsc_events: event_sender EventSenderMpsc_ops esm_sender "\<lambda>_. rx_alive"
  by unfold_locales (auto simp: EventSenderMpsc_ops_def EventSenderMpsc_send_def chan_defs)

interpretation bounded_events: event_sender EventSenderMpscBounded_ops esm_sender
    "\<lambda>_ c. rx_alive c \<and> length (ch_queue c) < ch_bound c"
  by unfold_locales (auto simp: EventSenderMpscBounded_ops_def EventSenderMpscBounded_send_def chan_defs not_less)

lemma EventMessage_copy [simp]:
  "EventMessage_new_generic (em_sender_id msg) (em_event msg) (em_params msg) = (msg :: ('ev, 'p) EventMessage)"
  by (simp add: EventMessage_new_generic_def)

text \<open>
  The outcome of routing to a list of subscribers: the channels in \<open>H\<close> got the message once for each
  occurrence, every other subscription is one of the errors.
\<close>

definition routed :: "'m \<Rightarrow> nat \<Rightarrow> nat list \<Rightarrow> EventRoutingError list \<Rightarrow>
    u32 \<times> EventRoutingError list \<times> 'm net \<Rightarrow> u32 \<times> EventRoutingError list \<times> 'm net \<Rightarrow> bool" where
  "routed msg n H es = (\<lambda>(k, errs, w) (k', errs', w').
     k' = k + of_nat (length H) \<and> errs' = errs @ es \<and> length H + length es = n \<and>
     (\<forall>c. w' c = (w c)\<lparr>ch_queue := ch_queue (w c) @ replicate (count_list H c) msg\<rparr>))"

lemma routed_none [simp]: "routed msg 0 [] [] st st"
  by (simp add: routed_def split: prod.splits)

lemma routed_append:
  "routed msg n H es st st' \<Longrightarrow> routed msg n' H' es' st' st'' \<Longrightarrow> routed msg (n + n') (H @ H') (es @ es') st st''"
  by (auto simp: routed_def replicate_add split: prod.splits)

lemma routed_delivery:
  "routed msg 1 [c] [] (n, errs, w) (n + 1, errs, w(c := (w c)\<lparr>ch_queue := ch_queue (w c) @ [msg]\<rparr>))"
  by (simp add: routed_def)

lemma routed_error: "routed msg 1 [] [e] (n, errs, w) (n, errs @ [e], w)"
  by (simp add: routed_def)

context event_sender
begin

lemma route_one:
  "\<exists>H es. routed msg 1 H es (n, errs, w) (send_to_ids ops mgr msg [i] (n, errs, w)) \<and>
    set H \<subseteq> {chan_of sdr |sdr. get_send_event_provider ops (sender_map mgr) i = Some sdr}"
proof (cases "get_send_event_provider ops (sender_map mgr) i")
  case (Some sdr)
  show ?thesis
  proof (cases "accepts sdr (w (chan_of sdr))")
    case True
    show ?thesis
      using routed_delivery [of msg "chan_of sdr" n errs w] Some
      by (intro exI [of _ "[chan_of sdr]"] exI [of _ "[]"]) (simp add: send_accept [of sdr w, OF True])
  next
    case False
    then obtain e where "esp_send ops sdr w msg = (Err e, w)" using send_refuse by blast
    then show ?thesis using routed_error [of msg "RoutingSendError e" n errs w] Some
      by (intro exI [of _ "[]"] exI [of _ "[RoutingSendError e]"]) simp
  qed
qed (use routed_error [of msg "NoSenderForId i" n errs w] in
    \<open>intro exI [of _ "[]"] exI [of _ "[NoSenderForId i]"], simp\<close>)

lemma route_ids:
  "\<exists>H es. routed msg (length ids) H es st (send_to_ids ops mgr msg ids st) \<and>
    set H \<subseteq> {chan_of sdr |sdr i. i \<in> set ids \<and> get_send_event_provider ops (sender_map mgr) i = Some sdr}"
proof (induction ids arbitrary: st)
  case (Cons i ids)
  obtain n errs w where st: "st = (n, errs, w)" by (cases st)
  let ?st = "send_to_ids ops mgr msg [i] st"
  obtain H es where one: "routed msg 1 H es st ?st"
      "set H \<subseteq> {chan_of sdr |sdr. get_send_event_provider ops (sender_map mgr) i = Some sdr}"
    using route_one [of msg n errs w mgr i] st by blast
  obtain H' es' where rest: "routed msg (length ids) H' es' ?st (send_to_ids ops mgr msg ids ?st)"
      "set H' \<subseteq> {chan_of sdr |sdr i. i \<in> set ids \<and> get_send_event_provider ops (sender_map mgr) i = Some sdr}"
    using Cons.IH by blast
  have "send_to_ids ops mgr msg (i # ids) st = send_to_ids ops mgr msg ids ?st" by (simp add: st)
  with routed_append [OF one(1) rest(1)] one(2) rest(2) show ?case
    by (intro exI [of _ "H @ H'"] exI [of _ "es @ es'"]) (simp, blast)
qed (auto intro: routed_none)

lemma send_handler_ids:
  "send_handler ops mgr key msg st =
     send_to_ids ops mgr msg (case listener_map mgr key of Some ids \<Rightarrow> ids | None \<Rightarrow> []) st"
  by (simp add: send_handler_def contains_listener_def get_listener_ids_def split: option.splits)

lemma send_to_ids_append:
  "send_to_ids ops mgr msg ids' (send_to_ids ops mgr msg ids st) = send_to_ids ops mgr msg (ids @ ids') st"
proof (induction ids arbitrary: st)
  case (Cons i ids)
  obtain n errs w where st: "st = (n, errs, w)" by (cases st)
  show ?case unfolding st by (simp add: Cons.IH)
qed simp

end

text \<open>The subscribers of an event, in the order in which the manager serves them.\<close>

definition subscribers :: "'ev GenericEvent \<Rightarrow> 'snd EventManager \<Rightarrow> 'ev \<Rightarrow> ComponentId list" where
  "subscribers ge mgr ev =
     concat (map (\<lambda>key. case listener_map mgr key of Some ids \<Rightarrow> ids | None \<Rightarrow> [])
       [KeySingle (ge_raw_as_largest_type ge ev), KeyGroup (ge_group_id_as_largest_type ge ev), KeyAll])"

context event_sender
begin

lemma handling_received:
  assumes "ch_queue (w (event_receiver mgr)) = msg # rest"
  shows "try_event_handling ops ge mgr w =
    (let (n, errs, w') = send_to_ids ops mgr msg (subscribers ge mgr (em_event msg))
           (0, [], w(event_receiver mgr := (w (event_receiver mgr))\<lparr>ch_queue := rest\<rparr>))
     in (RoutingHandled n msg, errs, w'))"
  using assms
  by (simp add: try_event_handling_def try_recv_event_def chan_defs send_handler_ids send_to_ids_append
      subscribers_def)

lemma handling_conserves:
  assumes "ch_queue (w (event_receiver mgr)) = msg # rest"
    and "try_event_handling ops ge mgr w = (res, errs, w')"
  shows "\<exists>H. res = RoutingHandled (of_nat (length H)) msg \<and>
    length H + length errs = length (subscribers ge mgr (em_event msg)) \<and>
    (\<forall>c. ch_queue (w' c) = (if c = event_receiver mgr then rest else ch_queue (w c)) @ replicate (count_list H c) msg) \<and>
    set H \<subseteq> {chan_of sdr |sdr i. i \<in> set (subscribers ge mgr (em_event msg)) \<and>
      get_send_event_provider ops (sender_map mgr) i = Some sdr}"
  using route_ids [of msg "subscribers ge mgr (em_event msg)"
      "(0, [], w(event_receiver mgr := (w (event_receiver mgr))\<lparr>ch_queue := rest\<rparr>))" mgr] assms(2)
  unfolding handling_received [of w mgr msg rest, OF assms(1)]
  by (fastforce simp: routed_def split: prod.splits)

end

text \<open>
  For the unbounded senders the outcome is a function of the subscribers: the channels of the live
  receivers, and an error for each other subscriber.
\<close>

definition live_channels ::
    "EventSenderMpsc EventManager \<Rightarrow> ('ev, 'p) EventMessage net \<Rightarrow> ComponentId list \<Rightarrow> nat list" where
  "live_channels mgr w ids = concat (map (\<lambda>i. case sender_map mgr i of
     Some sdr \<Rightarrow> if rx_alive (w (esm_sender sdr)) then [esm_sender sdr] else [] | None \<Rightarrow> []) ids)"

definition routing_errors ::
    "EventSenderMpsc EventManager \<Rightarrow> ('ev, 'p) EventMessage net \<Rightarrow> ComponentId list \<Rightarrow> EventRoutingError list" where
  "routing_errors mgr w ids = concat (map (\<lambda>i. case sender_map mgr i of
     Some sdr \<Rightarrow> if rx_alive (w (esm_sender sdr)) then [] else [RoutingSendError RxDisconnected]
   | None \<Rightarrow> [NoSenderForId i]) ids)"

text \<open>The sender map files every sender under its target id; \<^const>\<open>add_sender\<close> keeps this.\<close>

definition senders_ok :: "('snd \<Rightarrow> ComponentId) \<Rightarrow> 'snd EventManager \<Rightarrow> bool" where
  "senders_ok target mgr \<longleftrightarrow> (\<forall>i sdr. sender_map mgr i = Some sdr \<longrightarrow> target sdr = i)"

lemma senders_ok_new [simp]: "senders_ok target (EventManager_new rx)"
  by (simp add: senders_ok_def EventManager_new_def)

lemma senders_ok_ops:
  assumes "senders_ok (esp_target_id ops) mgr"
  shows "senders_ok (esp_target_id ops) (add_sender ops mgr sdr)"
    "senders_ok (esp_target_id ops) (update_listeners mgr key i)"
    "senders_ok (esp_target_id ops) (EventManager_remove_duplicates mgr key)"
  using assms
  by (auto simp: senders_ok_def add_sender_def add_send_event_provider_def update_listeners_def
      EventManager_remove_duplicates_def Let_def)

lemma get_sender_ok: "senders_ok (esp_target_id ops) mgr \<Longrightarrow> get_send_event_provider ops (sender_map mgr) i = sender_map mgr i"
  by (auto simp: senders_ok_def get_send_event_provider_def split: option.splits)

lemma get_sender_some: "get_send_event_provider ops m i = Some sdr \<Longrightarrow> m i = Some sdr"
  by (auto simp: get_send_event_provider_def split: option.splits if_splits)

lemma live_channels_push [simp]:
  "live_channels mgr (w(c := (w c)\<lparr>ch_queue := q\<rparr>)) ids = live_channels mgr w ids"
  "routing_errors mgr (w(c := (w c)\<lparr>ch_queue := q\<rparr>)) ids = routing_errors mgr w ids"
proof -
  have "rx_alive ((w(c := (w c)\<lparr>ch_queue := q\<rparr>)) k) = rx_alive (w k)" for k by simp
  then show "live_channels mgr (w(c := (w c)\<lparr>ch_queue := q\<rparr>)) ids = live_channels mgr w ids"
    "routing_errors mgr (w(c := (w c)\<lparr>ch_queue := q\<rparr>)) ids = routing_errors mgr w ids"
    unfolding live_channels_def routing_errors_def by presburger+
qed

lemma mpsc_event_send:
  "esp_send EventSenderMpsc_ops sdr w x =
     (if rx_alive (w (esm_sender sdr))
      then (Ok (), w(esm_sender sdr := (w (esm_sender sdr))\<lparr>ch_queue := ch_queue (w (esm_sender sdr)) @ [x]\<rparr>))
      else (Err RxDisconnected, w))"
  by (simp add: EventSenderMpsc_ops_def EventSenderMpsc_send_def chan_defs)

lemma route_unbounded:
  assumes "senders_ok esm_target_id mgr"
  shows "routed msg (length ids) (live_channels mgr w ids) (routing_errors mgr w ids) (n, errs, w)
    (send_to_ids EventSenderMpsc_ops mgr msg ids (n, errs, w))"
proof (induction ids arbitrary: n errs w)
  case (Cons i ids)
  have get: "get_send_event_provider EventSenderMpsc_ops (sender_map mgr) i = sender_map mgr i" for i
    by (rule get_sender_ok) (simp add: EventSenderMpsc_ops_def assms)
  have split: "live_channels mgr w (i # ids) = live_channels mgr w [i] @ live_channels mgr w ids"
    "routing_errors mgr w (i # ids) = routing_errors mgr w [i] @ routing_errors mgr w ids"
    by (simp_all add: live_channels_def routing_errors_def)
  obtain n1 errs1 w1 where one: "send_to_ids EventSenderMpsc_ops mgr msg [i] (n, errs, w) = (n1, errs1, w1)"
    by (metis prod_cases3)
  have step: "routed msg 1 (live_channels mgr w [i]) (routing_errors mgr w [i]) (n, errs, w) (n1, errs1, w1)"
    and same: "live_channels mgr w1 ids = live_channels mgr w ids" "routing_errors mgr w1 ids = routing_errors mgr w ids"
    using one
    by (auto simp: get live_channels_def [of mgr w "[i]"] routing_errors_def [of mgr w "[i]"] mpsc_event_send
        routed_delivery [simplified] routed_error [simplified] split: option.splits if_splits)
  have "send_to_ids EventSenderMpsc_ops mgr msg (i # ids) (n, errs, w) =
      send_to_ids EventSenderMpsc_ops mgr msg ids (n1, errs1, w1)" using one by simp
  then show ?case unfolding split using routed_append [OF step Cons.IH [where n = n1 and errs = errs1 and w = w1]] same by simp
qed (simp add: live_channels_def routing_errors_def)

text \<open>
  C31: handling one event with the unbounded senders. The event is taken off the receiver; every
  subscriber of the event, of its group and of all events gets it once per subscription when it has a
  sender with a live receiver, and every other subscription is an error passed to the error handler; the
  result counts the deliveries. With nothing to receive no channel gets a message.
\<close>

theorem event_routing:
  assumes "senders_ok esm_target_id mgr"
  shows "(case ch_queue (w (event_receiver mgr)) of
      [] \<Rightarrow> try_event_handling EventSenderMpsc_ops ge mgr w = (RoutingEmpty, [], w)
    | msg # rest \<Rightarrow>
        (let ids = subscribers ge mgr (em_event msg); H = live_channels mgr w ids
         in \<exists>w'. try_event_handling EventSenderMpsc_ops ge mgr w =
             (RoutingHandled (of_nat (length H)) msg, routing_errors mgr w ids, w') \<and>
           (\<forall>c. ch_queue (w' c) =
             (if c = event_receiver mgr then rest else ch_queue (w c)) @ replicate (count_list H c) msg)))"
proof (cases "ch_queue (w (event_receiver mgr))")
  case Nil
  then have "try_recv_event w (event_receiver mgr) =
      ((if tx_alive (w (event_receiver mgr)) then Ok None else Err (TxDisconnected None)), w)"
    by (auto simp: try_recv_event_def chan_defs)
  then show ?thesis using Nil by (simp add: try_event_handling_def)
next
  case (Cons msg rest)
  let ?w = "w(event_receiver mgr := (w (event_receiver mgr))\<lparr>ch_queue := rest\<rparr>)"
  show ?thesis
    using route_unbounded [OF assms, of msg "subscribers ge mgr (em_event msg)" ?w 0 "[]"] Cons
    by (auto simp: mpsc_events.handling_received [of w mgr, OF Cons] routed_def Let_def split: prod.splits)
qed

text \<open>
  With the bounded senders, too, no subscription is lost silently: the number of deliveries and the
  number of errors add up to the number of subscriptions, each delivery is one copy of the event at the
  end of the queue of a subscriber, and the result counts them.
\<close>

lemma event_routing_bounded:
  assumes "ch_queue (w (event_receiver mgr)) = msg # rest"
    and "try_event_handling EventSenderMpscBounded_ops ge mgr w = (res, errs, w')"
  shows "\<exists>H. res = RoutingHandled (of_nat (length H)) msg \<and>
    length H + length errs = length (subscribers ge mgr (em_event msg)) \<and>
    (\<forall>c. ch_queue (w' c) = (if c = event_receiver mgr then rest else ch_queue (w c)) @ replicate (count_list H c) msg) \<and>
    set H \<subseteq> {esm_sender sdr |sdr i. i \<in> set (subscribers ge mgr (em_event msg)) \<and> sender_map mgr i = Some sdr}"
  using bounded_events.handling_conserves [of w mgr, OF assms] by (fastforce dest: get_sender_some)

lemma distinct_remdups_adj_sorted: "sorted xs \<Longrightarrow> distinct (remdups_adj xs)"
  by (induction xs rule: remdups_adj.induct) (auto dest: order.antisym)

text \<open>
  Removing the duplicates of a key keeps its set of subscribers and leaves one subscription of each.
\<close>

lemma listener_duplicates_removed:
  "map_option set (listener_map (EventManager_remove_duplicates mgr key) k) = map_option set (listener_map mgr k)"
  "pred_option distinct (listener_map (EventManager_remove_duplicates mgr key) key)"
  by (auto simp: EventManager_remove_duplicates_def DefaultListenerMap_remove_duplicates_def sorted_sort
      intro!: distinct_remdups_adj_sorted split: option.splits)

subsection \<open>Witnesses\<close>

definition demo_manager :: "EventSenderMpsc EventManager" where
  "demo_manager =
     add_sender (EventSenderMpsc_ops :: (_, (EventU32, Params) EventMessage net, _) EventSendProvider)
       (subscribe_single EventU32_generic (subscribe_all (EventManager_new 0) 8) demo_event 9) (EventSenderMpsc_new 9 1)"

definition demo_event_net :: "(EventU32, Params) EventMessage net" where
  "demo_event_net =
     (\<lambda>c. \<lparr>ch_queue = (if c = 0 then [EventMessage_new 3 demo_event] else []), ch_bound = 1, rx_alive = True, tx_alive = True\<rparr>)"

lemma demo_manager_eq:
  "demo_manager = \<lparr>event_receiver = 0, sender_map = [9 \<mapsto> \<lparr>esm_target_id = 9, esm_sender = 1\<rparr>],
     listener_map = [KeyAll \<mapsto> [8], KeySingle (EventU32_raw demo_event) \<mapsto> [9]]\<rparr>"
  by (simp add: demo_manager_def add_sender_def contains_send_event_provider_def add_send_event_provider_def
      subscribe_single_def subscribe_all_def update_listeners_def add_listener_def EventManager_new_def
      EventSenderMpsc_new_def EventSenderMpsc_ops_def EventU32_generic_def)

theorem event_routing_witness:
  "\<exists>w'. try_event_handling EventSenderMpsc_ops EventU32_generic demo_manager demo_event_net =
      (RoutingHandled 1 (EventMessage_new 3 demo_event), [NoSenderForId 8], w') \<and>
    ch_queue (w' 1) = [EventMessage_new 3 demo_event] \<and> ch_queue (w' 0) = []"
proof -
  have "senders_ok esm_target_id demo_manager" by (simp add: senders_ok_def demo_manager_eq)
  from event_routing [OF this, where w = demo_event_net and ge = EventU32_generic] show ?thesis
    by (auto simp: demo_manager_eq demo_event_net_def subscribers_def live_channels_def routing_errors_def
        EventU32_generic_def EventMessage_new_def EventMessage_new_generic_def Let_def)
qed

end
