(* ===== verification/Seq_Count.thy ===== *)
theory Seq_Count
  imports Prelude
begin

text \<open>
  Sequence counters (\<^verbatim>\<open>satrs/src/seq_count.rs\<close>): the counter in a cell with a configurable maximum, the
  CCSDS counter that wraps at 14 bits, and the counter shared between threads behind a mutex, for every
  width of the counter. The macros instantiate them at 8, 16, 32 and 64 bits.
\<close>

record 'v SeqCountProviderSimple =
  seq_count :: 'v
  max_val :: 'v

definition SeqCountProviderSimple_new_custom_max_val :: "'a::len word \<Rightarrow> 'a::len word SeqCountProviderSimple" where
  "SeqCountProviderSimple_new_custom_max_val m = \<lparr>seq_count = 0, max_val = m\<rparr>"

definition SeqCountProviderSimple_new :: "'a::len word SeqCountProviderSimple" where
  "SeqCountProviderSimple_new = \<lparr>seq_count = 0, max_val = - 1\<rparr>"

definition SeqCountProviderSimple_default :: "'a::len word SeqCountProviderSimple" where
  "SeqCountProviderSimple_default = SeqCountProviderSimple_new"

text \<open>An increment that overflows the width of the counter panics.\<close>

definition word_succ_checked :: "'a::len word \<Rightarrow> ('e, 'a word) res" where
  "word_succ_checked x = (if x = - 1 then Panic else Ok (x + 1))"

definition SeqCountProviderSimple_get :: "'a::len word SeqCountProviderSimple \<Rightarrow> 'a word" where
  "SeqCountProviderSimple_get p = seq_count p"

definition SeqCountProviderSimple_get_and_increment ::
    "'a::len word SeqCountProviderSimple \<Rightarrow> (unit, 'a word) res \<times> 'a::len word SeqCountProviderSimple" where
  "SeqCountProviderSimple_get_and_increment p =
     (let curr_count = seq_count p
      in if curr_count = max_val p then (Ok curr_count, p\<lparr>seq_count := 0\<rparr>)
         else res_try (word_succ_checked curr_count) p (\<lambda>c. (Ok curr_count, p\<lparr>seq_count := c\<rparr>)))"

definition SeqCountProviderSimple_increment ::
    "'a::len word SeqCountProviderSimple \<Rightarrow> (unit, unit) res \<times> 'a::len word SeqCountProviderSimple" where
  "SeqCountProviderSimple_increment p =
     (let (r, p') = SeqCountProviderSimple_get_and_increment p in (res_map (\<lambda>_. ()) r, p'))"

text \<open>\<^verbatim>\<open>MAX_SEQ_COUNT\<close> is a constant of the packet library, an argument here.\<close>

type_synonym CcsdsSimpleSeqCountProvider = "u16 SeqCountProviderSimple"

definition CcsdsSimpleSeqCountProvider_default :: "u16 \<Rightarrow> CcsdsSimpleSeqCountProvider" where
  "CcsdsSimpleSeqCountProvider_default max_seq_count = SeqCountProviderSimple_new_custom_max_val max_seq_count"

text \<open>The mutex is poisoned when a thread panicked while it held the lock.\<close>

record 'v SeqCountProviderSync =
  sync_seq_count :: 'v
  sync_poisoned :: bool
  sync_max_val :: 'v

definition SeqCountProviderSync_new_with_max_val :: "'a::len word \<Rightarrow> 'a::len word SeqCountProviderSync" where
  "SeqCountProviderSync_new_with_max_val m = \<lparr>sync_seq_count = 0, sync_poisoned = False, sync_max_val = m\<rparr>"

definition SeqCountProviderSync_new :: "'a::len word SeqCountProviderSync" where
  "SeqCountProviderSync_new = SeqCountProviderSync_new_with_max_val (- 1)"

text \<open>The derived \<^verbatim>\<open>Default\<close>: every field has its default value, the maximum is 0.\<close>

definition SeqCountProviderSync_default :: "'a::len word SeqCountProviderSync" where
  "SeqCountProviderSync_default = \<lparr>sync_seq_count = 0, sync_poisoned = False, sync_max_val = 0\<rparr>"

definition SeqCountProviderSync_get :: "'a::len word SeqCountProviderSync \<Rightarrow> 'a word" where
  "SeqCountProviderSync_get p = (if sync_poisoned p then 0 else sync_seq_count p)"

definition SeqCountProviderSync_get_and_increment ::
    "'a::len word SeqCountProviderSync \<Rightarrow> (unit, 'a word) res \<times> 'a::len word SeqCountProviderSync" where
  "SeqCountProviderSync_get_and_increment p =
     (if sync_poisoned p then (Ok 0, p)
      else
        let val = sync_seq_count p
        in if val = sync_max_val p then (Ok val, p\<lparr>sync_seq_count := 0\<rparr>)
           else (case word_succ_checked val of
                   Ok c \<Rightarrow> (Ok val, p\<lparr>sync_seq_count := c\<rparr>)
                 | Err e \<Rightarrow> (Err e, p)
                 | Panic \<Rightarrow> (Panic, p\<lparr>sync_poisoned := True\<rparr>)))"

definition SeqCountProviderSync_increment ::
    "'a::len word SeqCountProviderSync \<Rightarrow> (unit, unit) res \<times> 'a::len word SeqCountProviderSync" where
  "SeqCountProviderSync_increment p =
     (let (r, p') = SeqCountProviderSync_get_and_increment p in (res_map (\<lambda>_. ()) r, p'))"

subsection \<open>Counting\<close>

text \<open>Successive calls of \<^verbatim>\<open>get_and_increment\<close>.\<close>

fun take_counts :: "('p \<Rightarrow> (unit, 'v) res \<times> 'p) \<Rightarrow> nat \<Rightarrow> 'p \<Rightarrow> (unit, 'v list) res \<times> 'p" where
  "take_counts next_count 0 p = (Ok [], p)"
| "take_counts next_count (Suc n) p =
     (let (r, p1) = next_count p
      in res_try r p1 (\<lambda>v. let (rs, p2) = take_counts next_count n p1 in (res_map ((#) v) rs, p2)))"

text \<open>The contract of a counter: a value up to the limit, which the next call returns and moves on.\<close>

locale seq_counter =
  fixes next_count :: "'p \<Rightarrow> (unit, 'a::len word) res \<times> 'p"
    and value_of :: "'p \<Rightarrow> 'a word"
    and limit_of :: "'p \<Rightarrow> 'a word"
    and usable :: "'p \<Rightarrow> bool"
  assumes next_count: "usable p \<Longrightarrow> value_of p \<le> limit_of p \<Longrightarrow>
      \<exists>p'. next_count p = (Ok (value_of p), p') \<and> usable p' \<and> limit_of p' = limit_of p \<and>
        value_of p' = (if value_of p = limit_of p then 0 else value_of p + 1)"

lemma succ_mod_bound:
  assumes "v \<le> (m :: 'a::len word)" "v \<noteq> m"
  shows "unat (v + 1) = unat v + 1" "v + 1 \<le> m"
proof -
  have lt: "unat v < unat m" using assms by (simp add: word_less_nat_alt [symmetric] order.not_eq_order_implies_strict)
  have "unat m < 2 ^ LENGTH('a)" by (rule unsigned_less)
  then have "unat v + 1 < 2 ^ LENGTH('a)" using lt by linarith
  then show s: "unat (v + 1) = unat v + 1" by (simp add: unat_word_ariths)
  show "v + 1 \<le> m" using s lt by (simp add: word_le_nat_alt)
qed

context seq_counter
begin

lemma counts:
  assumes "usable p" "value_of p \<le> limit_of p"
  shows "\<exists>p'. take_counts next_count n p =
      (Ok (map (\<lambda>i. of_nat ((unat (value_of p) + i) mod (unat (limit_of p) + 1))) [0..<n]), p') \<and>
    usable p' \<and> value_of p' \<le> limit_of p'"
  using assms
proof (induction n arbitrary: p)
  case (Suc n)
  obtain p1 where p1: "next_count p = (Ok (value_of p), p1)" "usable p1" "limit_of p1 = limit_of p"
      "value_of p1 = (if value_of p = limit_of p then 0 else value_of p + 1)"
    using next_count [OF Suc.prems] by blast
  have le: "value_of p1 \<le> limit_of p1" using p1(3,4) succ_mod_bound(2) [OF Suc.prems(2)] by simp
  have v: "unat (value_of p) mod (unat (limit_of p) + 1) = unat (value_of p)"
    using Suc.prems(2) by (simp add: word_le_nat_alt)
  have shift: "(unat (value_of p1) + i) mod (unat (limit_of p) + 1) = (unat (value_of p) + Suc i) mod (unat (limit_of p) + 1)"
    for i
    using p1(4) succ_mod_bound(1) [OF Suc.prems(2)] mod_add_self1 [of "unat (limit_of p) + 1" i]
    by (cases "value_of p = limit_of p") simp_all
  obtain p' where IH: "take_counts next_count n p1 =
      (Ok (map (\<lambda>i. of_nat ((unat (value_of p) + Suc i) mod (unat (limit_of p) + 1))) [0..<n]), p')"
      "usable p'" "value_of p' \<le> limit_of p'"
    using Suc.IH [OF p1(2) le] unfolding p1(3) shift by blast
  show ?case
    using IH p1(1) v by (simp add: map_upt_Suc del: upt_Suc)
qed simp

end

interpretation simple_counter: seq_counter SeqCountProviderSimple_get_and_increment seq_count max_val "\<lambda>_. True"
proof unfold_locales
  fix p :: "'a::len word SeqCountProviderSimple" assume le: "seq_count p \<le> max_val p"
  then have "seq_count p \<noteq> max_val p \<Longrightarrow> seq_count p \<noteq> - 1" by (metis word_order.extremum_uniqueI)
  then show "\<exists>p'. SeqCountProviderSimple_get_and_increment p = (Ok (seq_count p), p') \<and> True \<and> max_val p' = max_val p \<and>
      seq_count p' = (if seq_count p = max_val p then 0 else seq_count p + 1)"
    by (auto simp: SeqCountProviderSimple_get_and_increment_def word_succ_checked_def Let_def)
qed

interpretation sync_counter: seq_counter SeqCountProviderSync_get_and_increment sync_seq_count sync_max_val
  "\<lambda>p. \<not> sync_poisoned p"
proof unfold_locales
  fix p :: "'a::len word SeqCountProviderSync" assume p: "\<not> sync_poisoned p" and le: "sync_seq_count p \<le> sync_max_val p"
  then have "sync_seq_count p \<noteq> sync_max_val p \<Longrightarrow> sync_seq_count p \<noteq> - 1" by (metis word_order.extremum_uniqueI)
  then show "\<exists>p'. SeqCountProviderSync_get_and_increment p = (Ok (sync_seq_count p), p') \<and> \<not> sync_poisoned p' \<and>
      sync_max_val p' = sync_max_val p \<and>
      sync_seq_count p' = (if sync_seq_count p = sync_max_val p then 0 else sync_seq_count p + 1)"
    using p by (auto simp: SeqCountProviderSync_get_and_increment_def word_succ_checked_def Let_def)
qed

text \<open>
  C38: a new counter of any width, single-threaded or shared, counts 0, 1, 2 up to its maximum and starts
  again at 0, and never overflows. The shared counter built by \<^verbatim>\<open>default\<close> has the maximum 0 and returns
  0 for ever.
\<close>

theorem seq_counts:
  "fst (take_counts SeqCountProviderSimple_get_and_increment n (SeqCountProviderSimple_new_custom_max_val m)) =
      Ok (map (\<lambda>i. of_nat (i mod (unat m + 1))) [0..<n]) \<and>
   fst (take_counts SeqCountProviderSync_get_and_increment n (SeqCountProviderSync_new_with_max_val k)) =
      Ok (map (\<lambda>i. of_nat (i mod (unat k + 1))) [0..<n]) \<and>
   fst (take_counts SeqCountProviderSync_get_and_increment n SeqCountProviderSync_default) =
      Ok (replicate n (0 :: 'a::len word))"
  using simple_counter.counts [of "SeqCountProviderSimple_new_custom_max_val m" n]
    sync_counter.counts [of "SeqCountProviderSync_new_with_max_val k" n]
    sync_counter.counts [of "SeqCountProviderSync_default :: 'a word SeqCountProviderSync" n]
  by (auto simp: SeqCountProviderSimple_new_custom_max_val_def SeqCountProviderSync_new_with_max_val_def
      SeqCountProviderSync_default_def map_replicate_const)

end
