(* ===== verification/Encoding.thy ===== *)
theory Encoding
  imports Prelude
begin

text \<open>
  The stream parsers of \<^verbatim>\<open>satrs/src/encoding\<close>: tightly packed CCSDS space packets (\<^verbatim>\<open>ccsds.rs\<close>) and COBS
  frames between zero sentinels (\<^verbatim>\<open>cobs.rs\<close>). The packet sender is a function on a state, the header
  and the COBS codec of the packet libraries are arguments. The packet counters are written as wrapping:
  a buffer that overflows them would hold more than 2^32 packets.
\<close>

subsection \<open>Space packets\<close>

datatype SpValidity = SpValid | SpSkip | SpInvalid

record ParseResult =
  packets_found :: u32
  incomplete_tail_start :: "nat option"

text \<open>
  \<^verbatim>\<open>SpHeader\<close> of the packet library: reading it from the start of a buffer, and the length of the whole
  packet. Six bytes are enough for a header, and a packet has at least seven.
\<close>

record 'h SpHeaderOps =
  sp_from_be_bytes :: "bytes \<Rightarrow> (unit, 'h) res"
  sp_total_len :: "'h \<Rightarrow> nat"

definition sp_header_ok :: "'h SpHeaderOps \<Rightarrow> bool" where
  "sp_header_ok sph \<longleftrightarrow>
     (\<forall>buf. 6 \<le> length buf \<longrightarrow> is_ok (sp_from_be_bytes sph buf)) \<and> (\<forall>h. 7 \<le> sp_total_len sph h)"

type_synonym ('s, 'e) PacketSenderRaw = "'s \<Rightarrow> ComponentId \<Rightarrow> bytes \<Rightarrow> ('e, unit) res \<times> 's"

text \<open>The loop has no result when it does not end.\<close>

partial_function (option) ccsds_loop ::
    "'h SpHeaderOps \<Rightarrow> ('h \<Rightarrow> bytes \<Rightarrow> SpValidity) \<Rightarrow> ComponentId \<Rightarrow> ('s, 'e) PacketSenderRaw \<Rightarrow> bytes \<Rightarrow>
     ParseResult \<Rightarrow> nat \<Rightarrow> 's \<Rightarrow> (('e, ParseResult) res \<times> 's) option" where
  "ccsds_loop sph validate sender_id send buf parse_result current_idx s =
     (if current_idx + 7 > length buf then Some (Ok parse_result, s)
      else
        (case sp_from_be_bytes sph (drop current_idx buf) of
           Ok sp_header \<Rightarrow>
             (case validate sp_header (drop current_idx buf) of
                SpValid \<Rightarrow>
                  if current_idx + sp_total_len sph sp_header \<le> length buf
                  then (case send s sender_id (take (sp_total_len sph sp_header) (drop current_idx buf)) of
                          (Ok u, s') \<Rightarrow>
                            ccsds_loop sph validate sender_id send buf
                              (parse_result\<lparr>packets_found := packets_found parse_result + 1\<rparr>)
                              (current_idx + sp_total_len sph sp_header) s'
                        | (Err e, s') \<Rightarrow> Some (Err e, s')
                        | (Panic, s') \<Rightarrow> Some (Panic, s'))
                  else ccsds_loop sph validate sender_id send buf
                         (parse_result\<lparr>incomplete_tail_start := Some current_idx\<rparr>)
                         (current_idx + sp_total_len sph sp_header) s
              | SpSkip \<Rightarrow>
                  ccsds_loop sph validate sender_id send buf parse_result (current_idx + sp_total_len sph sp_header) s
              | SpInvalid \<Rightarrow> ccsds_loop sph validate sender_id send buf parse_result (current_idx + 1) s)
         | _ \<Rightarrow> Some (Panic, s)))"

definition parse_buffer_for_ccsds_space_packets ::
    "'h SpHeaderOps \<Rightarrow> bytes \<Rightarrow> ('h \<Rightarrow> bytes \<Rightarrow> SpValidity) \<Rightarrow> ComponentId \<Rightarrow> ('s, 'e) PacketSenderRaw \<Rightarrow> 's \<Rightarrow>
     (('e, ParseResult) res \<times> 's) option" where
  "parse_buffer_for_ccsds_space_packets sph buf validate sender_id send s =
     ccsds_loop sph validate sender_id send buf \<lparr>packets_found = 0, incomplete_tail_start = None\<rparr> 0 s"

subsection \<open>COBS frames\<close>

text \<open>
  The COBS codec: the maximal encoded length of a packet of a given length, the encoding of a packet
  into a buffer with the number of bytes written, and the decoding in place with the length of the
  packet.
\<close>

record Cobs =
  max_encoding_length :: "nat \<Rightarrow> nat"
  cobs_encode :: "bytes \<Rightarrow> bytes \<Rightarrow> (unit, nat) res \<times> bytes"
  decode_in_place :: "bytes \<Rightarrow> (unit, nat) res \<times> bytes"

text \<open>The result is the returned flag, the buffer and the packet index.\<close>

definition encode_packet_with_cobs :: "Cobs \<Rightarrow> bytes \<Rightarrow> bytes \<Rightarrow> nat \<Rightarrow> (unit, bool) res \<times> bytes \<times> nat" where
  "encode_packet_with_cobs cb packet encoded_buf current_idx =
     (if current_idx + max_encoding_length cb (length packet) + 2 > length encoded_buf
      then (Ok False, encoded_buf, current_idx)
      else
        let buf1 = encoded_buf[current_idx := 0];
            (r, w) = cobs_encode cb packet (drop (current_idx + 1) buf1);
            buf2 = overwrite (current_idx + 1) w buf1
        in res_try r (buf2, current_idx + 1) (\<lambda>n.
             let idx = current_idx + 1 + n
             in if idx < length buf2 then (Ok True, buf2[idx := 0], idx + 1) else (Panic, buf2, idx)))"

text \<open>The loop over the indices; its state is the buffer, the start of the frame and whether one was found.\<close>

record 's cobs_state =
  cs_buf :: bytes
  start_index_packet :: nat
  start_found :: bool
  cs_packets_found :: u32
  cs_sender :: 's

fun cobs_loop :: "Cobs \<Rightarrow> ComponentId \<Rightarrow> ('s, 'e) PacketSenderRaw \<Rightarrow> nat list \<Rightarrow> 's cobs_state \<Rightarrow>
    ('e, unit) res \<times> 's cobs_state" where
  "cobs_loop cb sender_id send [] st = (Ok (), st)"
| "cobs_loop cb sender_id send (i # is) st =
     (let buf = cs_buf st; last_byte = (i = length buf - 1); start = start_index_packet st
      in if buf ! i = 0 then
           if \<not> start_found st \<and> \<not> last_byte \<and> buf ! (i + 1) = 0 then cobs_loop cb sender_id send is st
           else if start_found st then
             res_try (slice start i buf) st (\<lambda>window.
               let (r, window') = decode_in_place cb window; buf' = overwrite start window' buf;
                   st1 = st\<lparr>cs_buf := buf'\<rparr>
               in (case r of
                     Ok packet_len \<Rightarrow>
                       (let st2 = st1\<lparr>cs_packets_found := cs_packets_found st1 + 1\<rparr>
                        in res_try (slice start (start + packet_len) buf') st2 (\<lambda>packet.
                             let (rs, s') = send (cs_sender st2) sender_id packet; st3 = st2\<lparr>cs_sender := s'\<rparr>
                             in res_try rs st3 (\<lambda>_. cobs_loop cb sender_id send is (st3\<lparr>start_found := False\<rparr>))))
                   | Err e \<Rightarrow> cobs_loop cb sender_id send is (st1\<lparr>start_found := False\<rparr>)
                   | Panic \<Rightarrow> (Panic, st1)))
           else cobs_loop cb sender_id send is (st\<lparr>start_index_packet := i + 1, start_found := True\<rparr>)
         else cobs_loop cb sender_id send is st)"

definition parse_buffer_for_cobs_encoded_packets ::
    "Cobs \<Rightarrow> bytes \<Rightarrow> ComponentId \<Rightarrow> ('s, 'e) PacketSenderRaw \<Rightarrow> nat \<Rightarrow> 's \<Rightarrow>
     ('e, u32) res \<times> bytes \<times> nat \<times> 's" where
  "parse_buffer_for_cobs_encoded_packets cb buf sender_id send next_write_idx s =
     (let (r, st) = cobs_loop cb sender_id send [0..<length buf]
            \<lparr>cs_buf = buf, start_index_packet = 0, start_found = False, cs_packets_found = 0, cs_sender = s\<rparr>;
          buf1 = cs_buf st; start = start_index_packet st
      in res_try r (buf1, next_write_idx, cs_sender st) (\<lambda>_.
           if start > 0 \<and> start_found st \<and> cs_packets_found st > 0
           then (Ok (cs_packets_found st), overwrite 0 (drop (start - 1) buf1) buf1, length buf1 - start + 1, cs_sender st)
           else (Ok (cs_packets_found st), buf1, next_write_idx, cs_sender st)))"

subsection \<open>Space packets: termination and packed streams\<close>

text \<open>The packets are sent one after the other; the first error ends it.\<close>

fun send_all :: "('s, 'e) PacketSenderRaw \<Rightarrow> ComponentId \<Rightarrow> 's \<Rightarrow> bytes list \<Rightarrow> ('e, unit) res \<times> 's" where
  "send_all send i s [] = (Ok (), s)"
| "send_all send i s (p # ps) = (let (r, s') = send s i p in res_try r s' (\<lambda>_. send_all send i s' ps))"

lemma ccsds_loop_total:
  assumes "sp_header_ok sph"
  shows "\<exists>r s'. ccsds_loop sph validate i send buf pr idx s = Some (r, s') \<and>
    ((\<forall>s p. fst (send s i p) \<noteq> Panic) \<longrightarrow> r \<noteq> Panic)"
proof (induction "length buf - idx" arbitrary: pr idx s rule: less_induct)
  case less
  show ?case
  proof (cases "idx + 7 > length buf")
    case True
    then show ?thesis by (simp add: ccsds_loop.simps [of sph validate i send buf pr idx s])
  next
    case False
    then have "is_ok (sp_from_be_bytes sph (drop idx buf))" using assms by (simp add: sp_header_ok_def)
    then obtain h where h: "sp_from_be_bytes sph (drop idx buf) = Ok h"
      by (cases "sp_from_be_bytes sph (drop idx buf)") simp_all
    have len: "7 \<le> sp_total_len sph h" using assms by (simp add: sp_header_ok_def)
    have IH: "idx < idx' \<Longrightarrow> \<exists>r s'. ccsds_loop sph validate i send buf pr' idx' s = Some (r, s') \<and>
        ((\<forall>s p. fst (send s i p) \<noteq> Panic) \<longrightarrow> r \<noteq> Panic)" for idx' pr' s
      using less.hyps [of idx' pr' s] False by simp
    obtain rs s1 where snd: "send s i (take (sp_total_len sph h) (drop idx buf)) = (rs, s1)" by fastforce
    have "rs = Panic \<Longrightarrow> \<not> (\<forall>s p. fst (send s i p) \<noteq> Panic)"
      using snd by (metis fst_conv)
    then show ?thesis
      using IH [of "idx + sp_total_len sph h"] IH [of "idx + 1"] len False
      by (cases rs; cases "validate h (drop idx buf)")
        (auto simp: ccsds_loop.simps [of sph validate i send buf pr idx s] h snd)
  qed
qed

text \<open>
  The space packet parser returns for every buffer and every validator: the loop always moves on by
  at least one byte. It never panics by itself.
\<close>

lemma ccsds_parse_terminates:
  assumes "sp_header_ok sph"
  shows "\<exists>r s'. parse_buffer_for_ccsds_space_packets sph buf validate i send s = Some (r, s') \<and>
    ((\<forall>s p. fst (send s i p) \<noteq> Panic) \<longrightarrow> r \<noteq> Panic)"
  unfolding parse_buffer_for_ccsds_space_packets_def by (rule ccsds_loop_total [OF assms])

text \<open>Packets whose header tells their length and that the validator takes, whatever follows them.\<close>

definition valid_packet :: "'h SpHeaderOps \<Rightarrow> ('h \<Rightarrow> bytes \<Rightarrow> SpValidity) \<Rightarrow> bytes \<Rightarrow> bool" where
  "valid_packet sph validate p \<longleftrightarrow>
     7 \<le> length p \<and>
     (\<forall>rest. \<exists>h. sp_from_be_bytes sph (p @ rest) = Ok h \<and> sp_total_len sph h = length p \<and>
        validate h (p @ rest) = SpValid)"

definition incomplete_packet :: "'h SpHeaderOps \<Rightarrow> ('h \<Rightarrow> bytes \<Rightarrow> SpValidity) \<Rightarrow> bytes \<Rightarrow> bool" where
  "incomplete_packet sph validate rem \<longleftrightarrow>
     (\<exists>h. sp_from_be_bytes sph rem = Ok h \<and> validate h rem = SpValid \<and> length rem < sp_total_len sph h)"

lemma ccsds_loop_tail:
  assumes "length rem < 7 \<or> incomplete_packet sph validate rem"
  shows "ccsds_loop sph validate i send (pre @ rem) pr (length pre) s =
    Some (Ok (if length rem < 7 then pr else pr\<lparr>incomplete_tail_start := Some (length pre)\<rparr>), s)"
proof (cases "length rem < 7")
  case True
  then show ?thesis by (simp add: ccsds_loop.simps)
next
  case False
  then obtain h where h: "sp_from_be_bytes sph rem = Ok h" "validate h rem = SpValid" "length rem < sp_total_len sph h"
    using assms by (auto simp: incomplete_packet_def)
  show ?thesis using False h
    by (simp add: ccsds_loop.simps [of sph validate i send "pre @ rem" pr "length pre"])
      (simp add: ccsds_loop.simps)
qed

lemma ccsds_loop_packet:
  assumes "valid_packet sph validate p"
  shows "ccsds_loop sph validate i send (pre @ p @ rest) pr (length pre) s =
    (case send s i p of
       (Ok u, s') \<Rightarrow> ccsds_loop sph validate i send ((pre @ p) @ rest) (pr\<lparr>packets_found := packets_found pr + 1\<rparr>)
         (length (pre @ p)) s'
     | (Err e, s') \<Rightarrow> Some (Err e, s')
     | (Panic, s') \<Rightarrow> Some (Panic, s'))"
proof -
  obtain h where "sp_from_be_bytes sph (p @ rest) = Ok h" "sp_total_len sph h = length p"
      "validate h (p @ rest) = SpValid" "7 \<le> length p"
    using assms unfolding valid_packet_def by blast
  then show ?thesis
    by (simp add: ccsds_loop.simps [of sph validate i send "pre @ p @ rest" pr "length pre"]
        split: prod.splits res.splits)
qed

lemma ccsds_loop_packets:
  assumes "\<forall>p\<in>set ps. valid_packet sph validate p" "length rem < 7 \<or> incomplete_packet sph validate rem"
  shows "ccsds_loop sph validate i send (pre @ concat ps @ rem) pr (length pre) s =
    (case send_all send i s ps of
       (Ok u, s') \<Rightarrow> Some (Ok (let pr' = pr\<lparr>packets_found := packets_found pr + of_nat (length ps)\<rparr>
          in if length rem < 7 then pr' else pr'\<lparr>incomplete_tail_start := Some (length (pre @ concat ps))\<rparr>), s')
     | (Err e, s') \<Rightarrow> Some (Err e, s')
     | (Panic, s') \<Rightarrow> Some (Panic, s'))"
  using assms(1)
proof (induction ps arbitrary: pre pr s)
  case Nil
  show ?case by (simp add: ccsds_loop_tail [OF assms(2)])
next
  case (Cons p ps)
  obtain r s1 where snd: "send s i p = (r, s1)" by fastforce
  have v: "valid_packet sph validate p" "\<forall>p\<in>set ps. valid_packet sph validate p" using Cons.prems by simp_all
  show ?case
    using ccsds_loop_packet [OF v(1), of i send pre "concat ps @ rem" pr s] Cons.IH [OF v(2), of "pre @ p"] snd
    by (cases r; cases "send_all send i s1 ps"; cases "fst (send_all send i s1 ps)")
      (simp_all add: add_ac Let_def)
qed

text \<open>
  C24: in a buffer of tightly packed valid packets with an optional incomplete packet at its end, exactly
  the packets are sent, in order and each as a whole, and counted; the start of an incomplete packet is
  reported when at least its header was received. The first error of the sender ends the parsing.
\<close>

theorem ccsds_parse_packed:
  assumes "\<forall>p\<in>set ps. valid_packet sph validate p" "length rem < 7 \<or> incomplete_packet sph validate rem"
  shows "parse_buffer_for_ccsds_space_packets sph (concat ps @ rem) validate i send s =
    (case send_all send i s ps of
       (Ok u, s') \<Rightarrow> Some (Ok \<lparr>packets_found = of_nat (length ps),
          incomplete_tail_start = (if length rem < 7 then None else Some (length (concat ps)))\<rparr>, s')
     | (Err e, s') \<Rightarrow> Some (Err e, s')
     | (Panic, s') \<Rightarrow> Some (Panic, s'))"
  using ccsds_loop_packets [OF assms, of i send "[]"]
  by (simp add: parse_buffer_for_ccsds_space_packets_def Let_def split: prod.splits res.splits)

subsection \<open>COBS: encoding and parsing\<close>

text \<open>
  What the code relies on: the encoding of a non-empty packet has no zero byte, fits the announced
  length, is written to the start of the buffer, and decodes in place to the packet.
\<close>

definition cobs_ok :: "Cobs \<Rightarrow> (bytes \<Rightarrow> bytes) \<Rightarrow> bool" where
  "cobs_ok cb enc \<longleftrightarrow>
     (\<forall>p. p \<noteq> [] \<longrightarrow>
        0 \<notin> set (enc p) \<and> enc p \<noteq> [] \<and> length (enc p) \<le> max_encoding_length cb (length p) \<and>
        (\<forall>buf. length (enc p) \<le> length buf \<longrightarrow> cobs_encode cb p buf = (Ok (length (enc p)), overwrite 0 (enc p) buf)) \<and>
        (\<exists>w. decode_in_place cb (enc p) = (Ok (length p), p @ w) \<and> length (p @ w) = length (enc p)))"

definition cobs_frame :: "(bytes \<Rightarrow> bytes) \<Rightarrow> bytes \<Rightarrow> bytes" where
  "cobs_frame enc p = 0 # enc p @ [0]"

fun encode_all :: "Cobs \<Rightarrow> bytes list \<Rightarrow> bytes \<Rightarrow> nat \<Rightarrow> (unit, bool) res \<times> bytes \<times> nat" where
  "encode_all cb [] buf idx = (Ok True, buf, idx)"
| "encode_all cb (p # ps) buf idx =
     (case encode_packet_with_cobs cb p buf idx of
        (Ok True, buf', idx') \<Rightarrow> encode_all cb ps buf' idx'
      | other \<Rightarrow> other)"

lemma encode_packet:
  assumes "cobs_ok cb enc" "p \<noteq> []"
    and "idx + max_encoding_length cb (length p) + 2 \<le> length buf"
  shows "encode_packet_with_cobs cb p buf idx =
    (Ok True, take idx buf @ cobs_frame enc p @ drop (idx + length (cobs_frame enc p)) buf,
     idx + length (cobs_frame enc p))"
proof -
  have len: "length (enc p) \<le> max_encoding_length cb (length p)"
    and enc: "\<And>b. length (enc p) \<le> length b \<Longrightarrow> cobs_encode cb p b = (Ok (length (enc p)), overwrite 0 (enc p) b)"
    using assms(1,2) by (auto simp: cobs_ok_def)
  let ?b = "drop (idx + 1) (buf[idx := 0])"
  have "length (enc p) \<le> length ?b" using assms(3) len by simp
  note e = enc [OF this]
  have b1: "buf[idx := 0] = take idx buf @ 0 # drop (Suc idx) buf"
    using assms(3) by (simp add: upd_conv_take_nth_drop)
  obtain x rest where x: "drop (Suc idx + length (enc p)) buf = x # rest"
    using assms(3) len by (cases "drop (Suc idx + length (enc p)) buf") simp_all
  have rest: "drop (Suc (Suc (idx + length (enc p)))) buf = rest"
    using arg_cong [OF x, of "drop 1"] by simp
  have "length (drop (Suc idx + length (enc p)) buf) = Suc (length rest)" using x by simp
  then have done_: "drop (Suc (Suc (idx + (length rest + length (enc p))))) buf = []" by simp
  show ?thesis
    using assms(3) len e x
    by (simp add: encode_packet_with_cobs_def b1 overwrite_def rest done_ cobs_frame_def list_update_append
        Let_def add_ac)
qed

lemma encode_all_frames:
  assumes "cobs_ok cb enc" "[] \<notin> set ps" "encode_all cb ps buf idx = (Ok True, buf', n)" "idx \<le> length buf"
  shows "take n buf' = take idx buf @ concat (map (cobs_frame enc) ps) \<and> n \<le> length buf'"
  using assms(2-)
proof (induction ps arbitrary: buf idx)
  case (Cons p ps)
  show ?case
  proof (cases "idx + max_encoding_length cb (length p) + 2 \<le> length buf")
    case True
    let ?buf = "take idx buf @ cobs_frame enc p @ drop (idx + length (cobs_frame enc p)) buf"
    let ?idx = "idx + length (cobs_frame enc p)"
    have p: "p \<noteq> []" using Cons.prems(1) by auto
    then have "length (cobs_frame enc p) \<le> max_encoding_length cb (length p) + 2"
      using assms(1) by (auto simp: cobs_ok_def cobs_frame_def)
    then have len: "?idx \<le> length buf" "length ?buf = length buf" using True by simp_all
    have "encode_all cb ps ?buf ?idx = (Ok True, buf', n)"
      using Cons.prems(2) encode_packet [OF assms(1) p True] by simp
    from Cons.IH [OF _ this] Cons.prems(1) len show ?thesis by simp
  next
    case False
    then show ?thesis using Cons.prems(2) by (simp add: encode_packet_with_cobs_def)
  qed
qed simp

lemma upt_split_at: "a \<le> b \<Longrightarrow> b < c \<Longrightarrow> [a..<c] = [a..<b] @ b # [Suc b..<c]"
  using upt_conv_Cons [of b c] upt_add_eq_append [of a b "c - b"] by simp

text \<open>The loop passes over bytes that are not zero.\<close>

lemma cobs_loop_skip:
  "(\<forall>i\<in>set is. cs_buf st ! i \<noteq> 0) \<Longrightarrow> cobs_loop cb i0 send (is @ js) st = cobs_loop cb i0 send js st"
  by (induction "is") simp_all

lemma cobs_loop_frame:
  assumes "cobs_ok cb enc" "p \<noteq> []" and buf: "cs_buf st = pre @ cobs_frame enc p @ rest" and "\<not> start_found st"
  obtains w where "length (p @ w) = length (enc p)"
    "cobs_loop cb i send [length pre..<length (cs_buf st)] st =
      (let (r, s') = send (cs_sender st) i p;
           st' = st\<lparr>start_index_packet := length pre + 1, start_found := True, cs_buf := pre @ (0 # p @ w @ [0]) @ rest,
                   cs_packets_found := cs_packets_found st + 1, cs_sender := s'\<rparr>
       in res_try r st' (\<lambda>_. cobs_loop cb i send [length pre + length (cobs_frame enc p)..<length (cs_buf st)]
            (st'\<lparr>start_found := False\<rparr>)))"
proof -
  have nz: "0 \<notin> set (enc p)" "enc p \<noteq> []" using assms(1,2) by (auto simp: cobs_ok_def)
  obtain w where w: "decode_in_place cb (enc p) = (Ok (length p), p @ w)" "length (p @ w) = length (enc p)"
    using assms(1,2) by (auto simp: cobs_ok_def)
  let ?n = "length pre" and ?m = "length (enc p)" and ?L = "length (cs_buf st)"
  let ?st = "st\<lparr>start_index_packet := ?n + 1, start_found := True\<rparr>"
  have L: "?L = ?n + ?m + 2 + length rest" by (simp add: buf cobs_frame_def)
  define js where "js = [?n + length (cobs_frame enc p)..<?L]"
  have split: "[?n..<?L] = ?n # [Suc ?n..<Suc ?n + ?m] @ (Suc ?n + ?m) # js"
    using L upt_split_at [of ?n ?n ?L] upt_split_at [of "Suc ?n" "Suc ?n + ?m" ?L] by (simp add: cobs_frame_def js_def)
  have first: "cs_buf st ! ?n = 0" "cs_buf st ! Suc ?n \<noteq> 0"
    using nz by (auto simp: buf cobs_frame_def nth_append nth_Cons neq_Nil_conv)
  have mid: "\<forall>k\<in>set [Suc ?n..<Suc ?n + ?m]. cs_buf ?st ! k \<noteq> 0"
    using nz(1) by (auto simp: buf cobs_frame_def nth_append nth_Cons in_set_conv_nth split: nat.splits)
  have last: "cs_buf ?st ! (Suc ?n + ?m) = 0" by (simp add: buf cobs_frame_def nth_append)
  have win: "slice (?n + 1) (Suc ?n + ?m) (cs_buf ?st) = Ok (enc p)" by (simp add: slice_def buf cobs_frame_def)
  have 1: "cobs_loop cb i send (?n # js') st = cobs_loop cb i send js' ?st" for js'
    using assms(4) first by (simp add: Let_def)
  have 2: "cobs_loop cb i send ((Suc ?n + ?m) # js) ?st =
      (let (r, s') = send (cs_sender st) i p;
           st' = st\<lparr>start_index_packet := ?n + 1, start_found := True, cs_buf := pre @ (0 # p @ w @ [0]) @ rest,
                   cs_packets_found := cs_packets_found st + 1, cs_sender := s'\<rparr>
       in res_try r st' (\<lambda>_. cobs_loop cb i send js (st'\<lparr>start_found := False\<rparr>)))"
    using last win w by (simp add: buf cobs_frame_def overwrite_def slice_def Let_def)
  show thesis
    by (rule that [OF w(2)]) (simp only: split 1 cobs_loop_skip [OF mid] 2 js_def [symmetric])
qed

lemma cobs_loop_frames:
  assumes "cobs_ok cb enc" "[] \<notin> set ps" "\<not> start_found st"
    and "cs_buf st = pre @ concat (map (cobs_frame enc) ps) @ rem"
    and "send_all send i (cs_sender st) ps = (r, s')"
  shows "\<exists>pre' k st'. length pre' = length pre + length (concat (map (cobs_frame enc) ps)) \<and>
    cobs_loop cb i send [length pre..<length (cs_buf st)] st =
      res_try r st' (\<lambda>_. cobs_loop cb i send [length pre'..<length (pre' @ rem)]
        \<lparr>cs_buf = pre' @ rem, start_index_packet = k, start_found = False,
         cs_packets_found = cs_packets_found st + of_nat (length ps), cs_sender = s'\<rparr>) \<and> cs_sender st' = s'"
  using assms(2-)
proof (induction ps arbitrary: st pre)
  case Nil
  then show ?case
    by (intro exI [of _ pre] exI [of _ "start_index_packet st"] exI [of _ st]) (cases st, auto)
next
  case (Cons p ps)
  have p: "p \<noteq> []" "[] \<notin> set ps" using Cons.prems(1) by auto
  let ?rest = "concat (map (cobs_frame enc) ps) @ rem"
  have buf: "cs_buf st = pre @ cobs_frame enc p @ ?rest" using Cons.prems(3) by simp
  obtain w where w: "length (p @ w) = length (enc p)" and step:
    "cobs_loop cb i send [length pre..<length (cs_buf st)] st =
      (let (r, s') = send (cs_sender st) i p;
           st' = st\<lparr>start_index_packet := length pre + 1, start_found := True, cs_buf := pre @ (0 # p @ w @ [0]) @ ?rest,
                   cs_packets_found := cs_packets_found st + 1, cs_sender := s'\<rparr>
       in res_try r st' (\<lambda>_. cobs_loop cb i send [length pre + length (cobs_frame enc p)..<length (cs_buf st)]
            (st'\<lparr>start_found := False\<rparr>)))"
    by (rule cobs_loop_frame [OF assms(1) p(1) buf Cons.prems(2)])
  obtain r1 s1 where snd: "send (cs_sender st) i p = (r1, s1)" by fastforce
  let ?pre = "pre @ 0 # p @ w @ [0]"
  let ?st = "st\<lparr>start_index_packet := length pre + 1, start_found := True, cs_buf := ?pre @ ?rest,
    cs_packets_found := cs_packets_found st + 1, cs_sender := s1\<rparr>"
  show ?case
  proof (cases r1)
    case (Ok u)
    define P where "P = ?pre"
    define st1 where "st1 = ?st\<lparr>start_found := False\<rparr>"
    have st1: "\<not> start_found st1" "cs_buf st1 = P @ ?rest" "cs_packets_found st1 = cs_packets_found st + 1"
      "send_all send i (cs_sender st1) ps = (r, s')" "length (cs_buf st1) = length (cs_buf st)"
      "length P = length pre + length (cobs_frame enc p)"
      using Cons.prems(4) snd Ok w by (simp_all add: st1_def P_def buf cobs_frame_def)
    have run: "cobs_loop cb i send [length pre..<length (cs_buf st)] st =
        cobs_loop cb i send [length P..<length (cs_buf st1)] st1"
      unfolding step by (simp only: snd Ok Let_def prod.case res_try.simps st1(5,6)) (simp add: st1_def)
    show ?thesis
      using Cons.IH [OF p(2) st1(1,2,4)] unfolding run st1(3,6) by (simp add: add_ac)
  next
    case (Err e)
    then show ?thesis using Cons.prems(4) snd step
      by (intro exI [of _ "replicate (length pre + length (concat (map (cobs_frame enc) (p # ps)))) 0"] exI [of _ 0] exI [of _ ?st])
        auto
  next
    case Panic
    then show ?thesis using Cons.prems(4) snd step
      by (intro exI [of _ "replicate (length pre + length (concat (map (cobs_frame enc) (p # ps)))) 0"] exI [of _ 0] exI [of _ ?st])
        auto
  qed
qed

lemma cobs_loop_tail:
  assumes "cs_buf st = pre @ rem" "\<not> start_found st" "rem = [] \<or> (\<exists>t. rem = 0 # t \<and> 0 \<notin> set t)"
  shows "cobs_loop cb i send [length pre..<length (pre @ rem)] st =
    (Ok (), if rem = [] then st else st\<lparr>start_index_packet := length pre + 1, start_found := True\<rparr>)"
proof (cases rem)
  case (Cons z t)
  then have t: "rem = 0 # t" "0 \<notin> set t" using assms(3) by auto
  let ?n = "length pre"
  let ?st = "st\<lparr>start_index_packet := ?n + 1, start_found := True\<rparr>"
  have split: "[?n..<length (pre @ rem)] = ?n # [Suc ?n..<length (pre @ rem)] @ []"
    using t by (simp add: upt_conv_Cons del: upt_Suc)
  have mid: "\<forall>k\<in>set [Suc ?n..<length (pre @ rem)]. cs_buf ?st ! k \<noteq> 0"
    using t by (auto simp: assms(1) nth_append nth_Cons in_set_conv_nth split: nat.splits)
  have "t \<noteq> [] \<Longrightarrow> cs_buf st ! Suc ?n \<noteq> 0"
    using t by (auto simp: assms(1) nth_append neq_Nil_conv)
  then have step: "cobs_loop cb i send (?n # js) st = cobs_loop cb i send js ?st" for js
    using assms(2) t by (cases "t = []") (simp_all add: assms(1) Let_def)
  show ?thesis by (simp only: split step cobs_loop_skip [OF mid]) (simp add: t)
qed simp

text \<open>
  C23: packets that are encoded one after the other into a buffer are sent again by the parser, in order
  and unchanged, and their number is returned; the first error of the sender ends the parsing. When the
  start of a further frame follows, it is moved to the front of the buffer and the write index is set
  behind it; otherwise the write index stays.
\<close>

theorem cobs_roundtrip:
  assumes "cobs_ok cb enc" "[] \<notin> set ps" "length ps < 2 ^ 32"
    and "encode_all cb ps buf 0 = (Ok True, buf', n)"
    and "rem = [] \<or> (\<exists>t. rem = 0 # t \<and> 0 \<notin> set t)"
    and "send_all send i s ps = (r, s')"
    and "parse_buffer_for_cobs_encoded_packets cb (take n buf' @ rem) i send idx s = (r', pbuf, idx', s'')"
  shows "s'' = s' \<and> r' = res_map (\<lambda>_. of_nat (length ps)) r \<and>
    (r = Ok () \<longrightarrow>
      (if rem \<noteq> [] \<and> ps \<noteq> [] then idx' = length rem \<and> take (length rem) pbuf = rem else idx' = idx))"
proof -
  let ?frames = "concat (map (cobs_frame enc) ps)"
  have frames: "take n buf' = ?frames" using encode_all_frames [OF assms(1,2,4)] by simp
  define st where "st = \<lparr>cs_buf = ?frames @ rem, start_index_packet = 0, start_found = False, cs_packets_found = 0, cs_sender = s\<rparr>"
  obtain pre k st' where pre: "length pre = length ?frames" "cs_sender st' = s'"
    and run: "cobs_loop cb i send [0..<length (?frames @ rem)] st =
      res_try r st' (\<lambda>_. cobs_loop cb i send [length pre..<length (pre @ rem)]
        \<lparr>cs_buf = pre @ rem, start_index_packet = k, start_found = False, cs_packets_found = of_nat (length ps), cs_sender = s'\<rparr>)"
    using cobs_loop_frames [OF assms(1,2), of st "[]" rem send i r s'] assms(6) by (auto simp: st_def)
  have pos: "(of_nat (length ps) :: u32) > 0 \<longleftrightarrow> ps \<noteq> []"
    using assms(3) by (simp add: word_gt_0 of_nat_eq_0_iff word_of_nat_eq_0_iff) (auto dest: dvd_imp_le)
  show ?thesis
    using assms(5,7) run pos pre cobs_loop_tail [of _ pre rem cb i send]
    by (cases r) (auto simp: parse_buffer_for_cobs_encoded_packets_def frames st_def [symmetric] overwrite_def
        split: if_splits prod.splits)
qed

subsection \<open>Witnesses\<close>

definition demo_sph :: "nat SpHeaderOps" where
  "demo_sph =
     \<lparr>sp_from_be_bytes = (\<lambda>buf. if length buf < 6 then Err () else Ok (256 * unat (buf ! 4) + unat (buf ! 5))),
      sp_total_len = (\<lambda>data_len. data_len + 7)\<rparr>"

abbreviation demo_collect :: "(bytes list, unit) PacketSenderRaw" where
  "demo_collect \<equiv> (\<lambda>s i p. (Ok (), s @ [p]))"

theorem ccsds_parse_packed_witness:
  "parse_buffer_for_ccsds_space_packets demo_sph [0, 0, 0, 0, 0, 0, 9, 0, 0, 0, 0, 0, 1, 7, 8, 1, 2] (\<lambda>_ _. SpValid) 1
      demo_collect [] =
     Some (Ok \<lparr>packets_found = 2, incomplete_tail_start = None\<rparr>, [[0, 0, 0, 0, 0, 0, 9], [0, 0, 0, 0, 0, 1, 7, 8]])"
  using ccsds_parse_packed [of "[[0, 0, 0, 0, 0, 0, 9], [0, 0, 0, 0, 0, 1, 7, 8]]" demo_sph "\<lambda>_ _. SpValid" "[1, 2]" 1
      demo_collect "[]"]
  by (simp add: valid_packet_def demo_sph_def nth_append)

text \<open>A codec with two bytes for each byte stands in for COBS.\<close>

definition demo_enc :: "bytes \<Rightarrow> bytes" where
  "demo_enc p = concat (map (\<lambda>b. if b = 0 then [1, 1] else [2, b]) p)"

fun demo_dec :: "bytes \<Rightarrow> bytes" where
  "demo_dec (a # b # bs) = (if a = 1 then 0 else b) # demo_dec bs"
| "demo_dec bs = []"

definition demo_cobs :: Cobs where
  "demo_cobs =
     \<lparr>max_encoding_length = (\<lambda>n. 2 * n),
      cobs_encode = (\<lambda>p buf. if length (demo_enc p) \<le> length buf then (Ok (length (demo_enc p)), overwrite 0 (demo_enc p) buf)
        else (Panic, buf)),
      decode_in_place = (\<lambda>bs. (Ok (length (demo_dec bs)), demo_dec bs @ replicate (length bs - length (demo_dec bs)) 0))\<rparr>"

lemma demo_cobs_ok: "cobs_ok demo_cobs demo_enc"
proof -
  have d: "demo_dec (demo_enc p) = p" "0 \<notin> set (demo_enc p)" "length (demo_enc p) = 2 * length p" for p
    by (induction p) (auto simp: demo_enc_def)
  have "demo_enc p \<noteq> []" if "p \<noteq> []" for p using d(3) [of p] that by (metis length_0_conv mult_is_0 zero_neq_numeral)
  then show ?thesis using d by (simp add: cobs_ok_def demo_cobs_def)
qed

lemma demo_max: "max_encoding_length demo_cobs n = 2 * n"
  by (simp add: demo_cobs_def)

theorem cobs_roundtrip_witness:
  "\<exists>buf' n. encode_all demo_cobs [[5], [0, 6]] (replicate 16 0) 0 = (Ok True, buf', n) \<and>
    (\<exists>pbuf. parse_buffer_for_cobs_encoded_packets demo_cobs (take n buf' @ [0, 3]) 1 demo_collect 99 [] =
      (Ok 2, pbuf, 2, [[5], [0, 6]]))"
proof -
  obtain buf' n where enc: "encode_all demo_cobs [[5], [0, 6]] (replicate 16 0) 0 = (Ok True, buf', n)"
    by (simp add: encode_packet [OF demo_cobs_ok] demo_max cobs_frame_def demo_enc_def)
  obtain r' pbuf idx' s'' where p: "parse_buffer_for_cobs_encoded_packets demo_cobs (take n buf' @ [0, 3]) 1 demo_collect 99 [] =
      (r', pbuf, idx', s'')" using prod_cases4 by blast
  from cobs_roundtrip [OF demo_cobs_ok _ _ enc _ _ p] p show ?thesis using enc by simp
qed

end
