(* ===== verification/Cfdp.thy ===== *)
theory Cfdp
  imports Prelude
begin

text \<open>
  The shared parts of the CFDP entities (\<^verbatim>\<open>satrs/src/cfdp/mod.rs\<close>, \<^verbatim>\<open>satrs/src/cfdp/user.rs\<close>): timers, the
  remote entity table, the fault handler, transaction ids and the routing information of a PDU. The
  enumerations of the packet library have the variants the code names and one for the others.
\<close>

subsection \<open>Values of the packet library\<close>

datatype ConditionCode =
    NoError | PositiveAckLimitReached | KeepAliveLimitReached | InvalidTransmissionMode | FilestoreRejection
  | FileChecksumFailure | FileSizeError | NakLimitReached | InactivityDetected | CheckLimitReached
  | UnsupportedChecksumType | ConditionOther u8

datatype FaultHandlerCode = NoticeOfCancellation | NoticeOfSuspension | IgnoreError | AbandonTransaction

datatype FileDirectiveType = EofPdu | FinishedPdu | AckPdu | MetadataPdu | NakPdu | PromptPdu | KeepAlivePdu

datatype PduType = PduFileDirective | PduFileData

datatype TransmissionMode = Acknowledged | Unacknowledged

datatype ChecksumType = Modular | Crc32 | NullChecksum | ChecksumOther u8

datatype DeliveryCode = DeliveryComplete | DeliveryIncomplete

datatype FileStatus = DiscardDeliberately | Retained | Unreported

record UnsignedByteField =
  ubf_width :: nat
  ubf_value :: u64

datatype PduError = PduFormatError | InvalidDirectiveType u8 | PduOther u8

subsection \<open>Timers\<close>

text \<open>Instants are counted in a unit of which \<open>per_sec\<close> make a second; the current instant is an argument.\<close>

record StdCheckTimer =
  expiry_time_seconds :: u64
  ct_start_time :: nat

definition StdCheckTimer_new :: "nat \<Rightarrow> u64 \<Rightarrow> StdCheckTimer" where
  "StdCheckTimer_new now secs = \<lparr>expiry_time_seconds = secs, ct_start_time = now\<rparr>"

definition StdCheckTimer_has_expired :: "nat \<Rightarrow> nat \<Rightarrow> StdCheckTimer \<Rightarrow> bool" where
  "StdCheckTimer_has_expired per_sec now t =
     (let elapsed_time = now - ct_start_time t
      in if elapsed_time div per_sec > unat (expiry_time_seconds t) then True else False)"

definition StdCheckTimer_reset :: "nat \<Rightarrow> StdCheckTimer \<Rightarrow> StdCheckTimer" where
  "StdCheckTimer_reset now t = t\<lparr>ct_start_time := now\<rparr>"

datatype EntityType = Sending | Receiving

subsection \<open>Remote entities\<close>

text \<open>The intervals in floating point seconds only hold whole numbers here.\<close>

record RemoteEntityConfig =
  entity_id :: UnsignedByteField
  max_packet_len :: nat
  max_file_segment_len :: nat
  closure_requested_by_default :: bool
  crc_on_transmission_by_default :: bool
  default_transmission_mode :: TransmissionMode
  default_crc_type :: ChecksumType
  positive_ack_timer_interval_seconds :: nat
  positive_ack_timer_expiration_limit :: u32
  check_limit :: u32
  disposition_on_cancellation :: bool
  immediate_nak_mode :: bool
  nak_timer_interval_seconds :: nat
  nak_timer_expiration_limit :: u32

definition RemoteEntityConfig_new_with_default_values ::
    "UnsignedByteField \<Rightarrow> nat \<Rightarrow> nat \<Rightarrow> bool \<Rightarrow> bool \<Rightarrow> TransmissionMode \<Rightarrow> ChecksumType \<Rightarrow> RemoteEntityConfig" where
  "RemoteEntityConfig_new_with_default_values eid seg_len packet_len closure crc mode crc_type =
     \<lparr>entity_id = eid, max_packet_len = packet_len, max_file_segment_len = seg_len,
      closure_requested_by_default = closure, crc_on_transmission_by_default = crc,
      default_transmission_mode = mode, default_crc_type = crc_type,
      positive_ack_timer_interval_seconds = 10, positive_ack_timer_expiration_limit = 2, check_limit = 2,
      disposition_on_cancellation = False, immediate_nak_mode = True, nak_timer_interval_seconds = 10,
      nak_timer_expiration_limit = 2\<rparr>"

type_synonym StdRemoteEntityConfigProvider = "u64 \<rightharpoonup> RemoteEntityConfig"

definition get_remote_config :: "StdRemoteEntityConfigProvider \<Rightarrow> u64 \<Rightarrow> RemoteEntityConfig option" where
  "get_remote_config tab remote_id = tab remote_id"

text \<open>The mutable access updates the entry in place.\<close>

definition get_remote_config_mut ::
    "StdRemoteEntityConfigProvider \<Rightarrow> u64 \<Rightarrow> (RemoteEntityConfig \<Rightarrow> RemoteEntityConfig) \<Rightarrow> StdRemoteEntityConfigProvider" where
  "get_remote_config_mut tab remote_id upd = tab(remote_id := map_option upd (tab remote_id))"

text \<open>\<^verbatim>\<open>HashMap::insert\<close> returns the old value, so the flag says that there was one.\<close>

definition add_config ::
    "StdRemoteEntityConfigProvider \<Rightarrow> RemoteEntityConfig \<Rightarrow> bool \<times> StdRemoteEntityConfigProvider" where
  "add_config tab cfg = (let k = ubf_value (entity_id cfg) in (tab k \<noteq> None, tab(k \<mapsto> cfg)))"

definition remove_config :: "StdRemoteEntityConfigProvider \<Rightarrow> u64 \<Rightarrow> bool \<times> StdRemoteEntityConfigProvider" where
  "remove_config tab remote_id = (tab remote_id \<noteq> None, tab(remote_id := None))"

subsection \<open>Transactions and faults\<close>

record TransactionId =
  ti_source_id :: UnsignedByteField
  ti_seq_num :: UnsignedByteField

definition TransactionId_new :: "UnsignedByteField \<Rightarrow> UnsignedByteField \<Rightarrow> TransactionId" where
  "TransactionId_new source_id seq_num = \<lparr>ti_source_id = source_id, ti_seq_num = seq_num\<rparr>"

definition TransactionId_eq :: "TransactionId \<Rightarrow> TransactionId \<Rightarrow> bool" where
  "TransactionId_eq a b \<longleftrightarrow>
     ubf_value (ti_source_id a) = ubf_value (ti_source_id b) \<and> ubf_value (ti_seq_num a) = ubf_value (ti_seq_num b)"

text \<open>The user fault handler is the list of the callbacks it got.\<close>

record FaultReport =
  fr_code :: FaultHandlerCode
  fr_transaction :: TransactionId
  fr_condition :: ConditionCode
  fr_progress :: u64

record DefaultFaultHandler =
  handler_array :: "FaultHandlerCode list"
  user_fault_handler :: "FaultReport list"

fun condition_code_to_array_index :: "ConditionCode \<Rightarrow> nat option" where
  "condition_code_to_array_index PositiveAckLimitReached = Some 0"
| "condition_code_to_array_index KeepAliveLimitReached = Some 1"
| "condition_code_to_array_index InvalidTransmissionMode = Some 2"
| "condition_code_to_array_index FilestoreRejection = Some 3"
| "condition_code_to_array_index FileChecksumFailure = Some 4"
| "condition_code_to_array_index FileSizeError = Some 5"
| "condition_code_to_array_index NakLimitReached = Some 6"
| "condition_code_to_array_index InactivityDetected = Some 7"
| "condition_code_to_array_index CheckLimitReached = Some 8"
| "condition_code_to_array_index UnsupportedChecksumType = Some 9"
| "condition_code_to_array_index _ = None"

definition set_fault_handler :: "DefaultFaultHandler \<Rightarrow> ConditionCode \<Rightarrow> FaultHandlerCode \<Rightarrow> DefaultFaultHandler" where
  "set_fault_handler fh code action =
     (case condition_code_to_array_index code of
        None \<Rightarrow> fh
      | Some i \<Rightarrow> fh\<lparr>handler_array := (handler_array fh)[i := action]\<rparr>)"

definition DefaultFaultHandler_new :: DefaultFaultHandler where
  "DefaultFaultHandler_new =
     \<lparr>handler_array = (replicate 10 NoticeOfCancellation)
        [the (condition_code_to_array_index FileChecksumFailure) := IgnoreError,
         the (condition_code_to_array_index UnsupportedChecksumType) := IgnoreError],
      user_fault_handler = []\<rparr>"

definition get_fault_handler :: "DefaultFaultHandler \<Rightarrow> ConditionCode \<Rightarrow> FaultHandlerCode" where
  "get_fault_handler fh code =
     (case condition_code_to_array_index code of None \<Rightarrow> IgnoreError | Some i \<Rightarrow> handler_array fh ! i)"

definition report_fault ::
    "DefaultFaultHandler \<Rightarrow> TransactionId \<Rightarrow> ConditionCode \<Rightarrow> u64 \<Rightarrow> FaultHandlerCode \<times> DefaultFaultHandler" where
  "report_fault fh tid code progress =
     (case condition_code_to_array_index code of
        None \<Rightarrow> (IgnoreError, fh)
      | Some i \<Rightarrow>
          (let fh_code = handler_array fh ! i
           in (fh_code, fh\<lparr>user_fault_handler := user_fault_handler fh @
                 [\<lparr>fr_code = fh_code, fr_transaction = tid, fr_condition = code, fr_progress = progress\<rparr>]\<rparr>)))"

record IndicationConfig =
  ind_eof_sent :: bool
  ind_eof_recv :: bool
  ind_file_segment_recv :: bool
  ind_transaction_finished :: bool
  ind_suspended :: bool
  ind_resumed :: bool

definition IndicationConfig_default :: IndicationConfig where
  "IndicationConfig_default =
     \<lparr>ind_eof_sent = True, ind_eof_recv = True, ind_file_segment_recv = True, ind_transaction_finished = True,
      ind_suspended = True, ind_resumed = True\<rparr>"

record LocalEntityConfig =
  local_id :: UnsignedByteField
  indication_cfg :: IndicationConfig
  default_fault_handler :: DefaultFaultHandler

datatype TransactionStep =
    StepIdle | TransactionStart | ReceivingFileDataPdus | ReceivingFileDataPdusWithCheckLimitHandling
  | SendingAckPdu | TransferCompletion | SendingFinishedPdu

datatype CfdpState = StateIdle | StateBusy | StateSuspended

subsection \<open>Packet information\<close>

datatype PacketTarget = SourceEntity | DestEntity

record PacketInfo =
  pi_pdu_type :: PduType
  pi_pdu_directive :: "FileDirectiveType option"
  pi_target :: PacketTarget
  pi_raw_packet :: bytes

text \<open>
  \<^verbatim>\<open>PduHeader::from_bytes\<close> gives the type, the length of the data field and the length of the header;
  \<^verbatim>\<open>FileDirectiveType::try_from\<close> reads a directive code.
\<close>

record PduReader =
  pdu_header_from_bytes :: "bytes \<Rightarrow> (PduError, PduType \<times> nat \<times> nat) res"
  file_directive_try_from :: "u8 \<Rightarrow> FileDirectiveType option"

definition byte_at :: "bytes \<Rightarrow> nat \<Rightarrow> ('e, u8) res" where
  "byte_at raw i = (if i < length raw then Ok (raw ! i) else Panic)"

definition PacketInfo_new :: "PduReader \<Rightarrow> bytes \<Rightarrow> (PduError, PacketInfo) res" where
  "PacketInfo_new rd raw =
     res_bind (pdu_header_from_bytes rd raw) (\<lambda>(pdu_type, datafield_len, header_len).
       if pdu_type = PduFileData
       then Ok \<lparr>pi_pdu_type = pdu_type, pi_pdu_directive = None, pi_target = DestEntity, pi_raw_packet = raw\<rparr>
       else if datafield_len < 1 then Err PduFormatError
       else
         res_bind (byte_at raw header_len) (\<lambda>b.
           case file_directive_try_from rd b of
             None \<Rightarrow> Err (InvalidDirectiveType b)
           | Some directive \<Rightarrow>
               res_bind
                 (case directive of
                    NakPdu \<Rightarrow> Ok SourceEntity | FinishedPdu \<Rightarrow> Ok SourceEntity | KeepAlivePdu \<Rightarrow> Ok SourceEntity
                  | MetadataPdu \<Rightarrow> Ok DestEntity | EofPdu \<Rightarrow> Ok DestEntity | PromptPdu \<Rightarrow> Ok DestEntity
                  | AckPdu \<Rightarrow>
                      res_bind (byte_at raw (header_len + 1)) (\<lambda>b'.
                        case file_directive_try_from rd b' of
                          None \<Rightarrow> Err (InvalidDirectiveType b)
                        | Some acked \<Rightarrow>
                            if acked = EofPdu then Ok SourceEntity
                            else if acked = FinishedPdu then Ok DestEntity
                            else Err (InvalidDirectiveType b')))
                 (\<lambda>target. Ok \<lparr>pi_pdu_type = pdu_type, pi_pdu_directive = Some directive, pi_target = target,
                              pi_raw_packet = raw\<rparr>)))"

subsection \<open>Indications to the user\<close>

record TransactionFinishedParams =
  tf_id :: TransactionId
  tf_condition_code :: ConditionCode
  tf_delivery_code :: DeliveryCode
  tf_file_status :: FileStatus

record MetadataReceivedParams =
  mr_id :: TransactionId
  mr_source_id :: UnsignedByteField
  mr_file_size :: u64
  mr_src_file_name :: bytes
  mr_dest_file_name :: bytes
  mr_msgs_to_user :: "bytes list"

text \<open>The owned form holds the messages as the bytes \<open>to_vec\<close> of the packet library gives.\<close>

record OwnedMetadataRecvdParams =
  omr_id :: TransactionId
  omr_source_id :: UnsignedByteField
  omr_file_size :: u64
  omr_src_file_name :: bytes
  omr_dest_file_name :: bytes
  omr_msgs_to_user :: "bytes list"

definition OwnedMetadataRecvdParams_from ::
    "(bytes \<Rightarrow> bytes) \<Rightarrow> MetadataReceivedParams \<Rightarrow> OwnedMetadataRecvdParams" where
  "OwnedMetadataRecvdParams_from to_vec p =
     \<lparr>omr_id = mr_id p, omr_source_id = mr_source_id p, omr_file_size = mr_file_size p,
      omr_src_file_name = mr_src_file_name p, omr_dest_file_name = mr_dest_file_name p,
      omr_msgs_to_user = map to_vec (mr_msgs_to_user p)\<rparr>"

record FileSegmentRecvdParams =
  fs_id :: TransactionId
  fs_offset :: u64
  fs_length :: nat
  fs_segment_metadata :: "bytes option"

text \<open>A user is the list of the indications it got, of those the receiver uses.\<close>

datatype Indication =
    MetadataRecvd MetadataReceivedParams
  | FileSegmentRecvd FileSegmentRecvdParams
  | EofRecvd TransactionId
  | TransactionFinished TransactionFinishedParams

end
