(* ===== verification/Filestore.thy ===== *)
theory Filestore
  imports Cfdp
begin

text \<open>
  The virtual filestore of the CFDP entities (\<^verbatim>\<open>satrs/src/cfdp/filestore.rs\<close>) and its implementation on the
  operating system, with the modular and CRC-32 file checksums. The file system of the standard library
  is a table of paths; the operating system may refuse to open any path, which the argument \<open>os\<close> says.
\<close>

subsection \<open>The interface\<close>

datatype FilestoreError =
    FileDoesNotExist | FileAlreadyExists | DirDoesNotExist | Permission | IsNotFile | IsNotDirectory
  | FsByteConversion ByteConversionError
  | FsIo "int option" string
  | ChecksumTypeNotImplemented ChecksumType

record 'v VirtualFilestore =
  vf_create_file :: "'v \<Rightarrow> bytes \<Rightarrow> (FilestoreError, unit) res \<times> 'v"
  vf_remove_file :: "'v \<Rightarrow> bytes \<Rightarrow> (FilestoreError, unit) res \<times> 'v"
  vf_truncate_file :: "'v \<Rightarrow> bytes \<Rightarrow> (FilestoreError, unit) res \<times> 'v"
  vf_remove_dir :: "'v \<Rightarrow> bytes \<Rightarrow> bool \<Rightarrow> (FilestoreError, unit) res \<times> 'v"
  vf_create_dir :: "'v \<Rightarrow> bytes \<Rightarrow> (FilestoreError, unit) res \<times> 'v"
  vf_read_data :: "'v \<Rightarrow> bytes \<Rightarrow> u64 \<Rightarrow> u64 \<Rightarrow> bytes \<Rightarrow> (FilestoreError, unit) res \<times> bytes"
  vf_write_data :: "'v \<Rightarrow> bytes \<Rightarrow> u64 \<Rightarrow> bytes \<Rightarrow> (FilestoreError, unit) res \<times> 'v"
  vf_is_file :: "'v \<Rightarrow> bytes \<Rightarrow> bool"
  vf_exists :: "'v \<Rightarrow> bytes \<Rightarrow> bool"
  vf_checksum_verify :: "'v \<Rightarrow> bytes \<Rightarrow> ChecksumType \<Rightarrow> u32 \<Rightarrow> bytes \<Rightarrow> (FilestoreError, bool) res \<times> bytes"

text \<open>The default method of the trait.\<close>

definition VirtualFilestore_is_dir :: "'v VirtualFilestore \<Rightarrow> 'v \<Rightarrow> bytes \<Rightarrow> bool" where
  "VirtualFilestore_is_dir ops v path \<longleftrightarrow> \<not> vf_is_file ops v path"

text \<open>
  \<^verbatim>\<open>Path::file_name\<close>: the last component, unless it is the parent directory; empty components and the
  current directory are skipped.
\<close>

fun split_slash :: "bytes \<Rightarrow> bytes \<Rightarrow> bytes list" where
  "split_slash acc [] = [acc]"
| "split_slash acc (b # bs) = (if b = 0x2f then acc # split_slash [] bs else split_slash (acc @ [b]) bs)"

definition path_file_name :: "bytes \<Rightarrow> bytes option" where
  "path_file_name path =
     (case rev (filter (\<lambda>c. c \<noteq> [] \<and> c \<noteq> [0x2e]) (split_slash [] path)) of
        [] \<Rightarrow> None
      | c # cs \<Rightarrow> if c = [0x2e, 0x2e] then None else Some c)"

definition filename_from_full_path :: "bytes \<Rightarrow> bytes option" where
  "filename_from_full_path path = path_file_name path"

text \<open>An error of the standard library, as its number and its text.\<close>

definition FilestoreError_from_io :: "int option \<Rightarrow> string \<Rightarrow> FilestoreError" where
  "FilestoreError_from_io raw_errno msg = FsIo raw_errno msg"

subsection \<open>The file system\<close>

datatype fs_node = FileNode bytes | DirNode

type_synonym file_system = "(bytes \<times> fs_node) list"

type_synonym os_errors = "bytes \<Rightarrow> (int option \<times> string) option"

definition fs_put :: "file_system \<Rightarrow> bytes \<Rightarrow> fs_node \<Rightarrow> file_system" where
  "fs_put fs path nd = (path, nd) # filter (\<lambda>(q, _). q \<noteq> path) fs"

definition fs_drop :: "file_system \<Rightarrow> bytes \<Rightarrow> file_system" where
  "fs_drop fs path = filter (\<lambda>(q, _). q \<noteq> path) fs"

definition under_dir :: "bytes \<Rightarrow> bytes \<Rightarrow> bool" where
  "under_dir dir q \<longleftrightarrow> take (length dir + 1) q = dir @ [0x2f]"

text \<open>Seeking and writing: a gap behind the end of the file is filled with zeroes.\<close>

definition file_write :: "nat \<Rightarrow> bytes \<Rightarrow> bytes \<Rightarrow> bytes" where
  "file_write off data c =
     (if data = [] then c else take off c @ replicate (off - length c) 0 @ data @ drop (off + length data) c)"

definition os_open :: "os_errors \<Rightarrow> bytes \<Rightarrow> (FilestoreError, unit) res" where
  "os_open os path = (case os path of None \<Rightarrow> Ok () | Some (errno, msg) \<Rightarrow> Err (FilestoreError_from_io errno msg))"

subsection \<open>The native filestore\<close>

definition Native_exists :: "file_system \<Rightarrow> bytes \<Rightarrow> bool" where
  "Native_exists fs path = (if map_of fs path = None then False else True)"

definition Native_is_file :: "file_system \<Rightarrow> bytes \<Rightarrow> bool" where
  "Native_is_file fs path = (case map_of fs path of Some (FileNode c) \<Rightarrow> True | _ \<Rightarrow> False)"

definition Native_create_file ::
    "os_errors \<Rightarrow> file_system \<Rightarrow> bytes \<Rightarrow> (FilestoreError, unit) res \<times> file_system" where
  "Native_create_file os fs path =
     (if Native_exists fs path then (Err FileAlreadyExists, fs)
      else res_try (os_open os path) fs (\<lambda>_. (Ok (), fs_put fs path (FileNode []))))"

definition Native_remove_file ::
    "os_errors \<Rightarrow> file_system \<Rightarrow> bytes \<Rightarrow> (FilestoreError, unit) res \<times> file_system" where
  "Native_remove_file os fs path =
     (if \<not> Native_exists fs path then (Err FileDoesNotExist, fs)
      else if \<not> Native_is_file fs path then (Err IsNotFile, fs)
      else res_try (os_open os path) fs (\<lambda>_. (Ok (), fs_drop fs path)))"

definition Native_truncate_file ::
    "os_errors \<Rightarrow> file_system \<Rightarrow> bytes \<Rightarrow> (FilestoreError, unit) res \<times> file_system" where
  "Native_truncate_file os fs path =
     (if \<not> Native_exists fs path then (Err FileDoesNotExist, fs)
      else if \<not> Native_is_file fs path then (Err IsNotFile, fs)
      else res_try (os_open os path) fs (\<lambda>_. (Ok (), fs_put fs path (FileNode []))))"

text \<open>\<^verbatim>\<open>fs::create_dir\<close> fails on an existing path, \<^verbatim>\<open>fs::remove_dir\<close> on a directory that is not empty.\<close>

definition Native_create_dir ::
    "os_errors \<Rightarrow> file_system \<Rightarrow> bytes \<Rightarrow> (FilestoreError, unit) res \<times> file_system" where
  "Native_create_dir os fs path =
     res_try (os_open os path) fs (\<lambda>_.
       if Native_exists fs path then (Err (FsIo (Some 17) ''File exists (os error 17)''), fs)
       else (Ok (), fs_put fs path DirNode))"

definition Native_remove_dir ::
    "os_errors \<Rightarrow> file_system \<Rightarrow> bytes \<Rightarrow> bool \<Rightarrow> (FilestoreError, unit) res \<times> file_system" where
  "Native_remove_dir os fs path all =
     (if \<not> Native_exists fs path then (Err DirDoesNotExist, fs)
      else if Native_is_file fs path then (Err IsNotDirectory, fs)
      else res_try (os_open os path) fs (\<lambda>_.
        if all then (Ok (), filter (\<lambda>(q, _). q \<noteq> path \<and> \<not> under_dir path q) fs)
        else if list_ex (\<lambda>(q, _). under_dir path q) fs
        then (Err (FsIo (Some 39) ''Directory not empty (os error 39)''), fs)
        else (Ok (), fs_drop fs path)))"

text \<open>\<^verbatim>\<open>read_exact\<close> fails when the file ends too early, after it copied what there was.\<close>

definition Native_read_data ::
    "os_errors \<Rightarrow> file_system \<Rightarrow> bytes \<Rightarrow> u64 \<Rightarrow> u64 \<Rightarrow> bytes \<Rightarrow> (FilestoreError, unit) res \<times> bytes" where
  "Native_read_data os fs path offset read_len buf =
     (if length buf < unat read_len then (Err (FsByteConversion (ToSliceTooSmall (length buf) (unat read_len))), buf)
      else if \<not> Native_exists fs path then (Err FileDoesNotExist, buf)
      else
        (case map_of fs path of
           Some (FileNode c) \<Rightarrow>
             res_try (os_open os path) buf (\<lambda>_.
               let data = take (unat read_len) (drop (unat offset) c)
               in (if length data < unat read_len then Err (FsIo None ''failed to fill whole buffer'') else Ok (),
                   overwrite 0 data buf))
         | _ \<Rightarrow> (Err IsNotFile, buf)))"

text \<open>
  The file is written as a whole once it is open: a seek that the operating system refuses and a write
  that fails half way, both of which are I/O errors of the source, are not modelled.
\<close>

definition Native_write_data ::
    "os_errors \<Rightarrow> file_system \<Rightarrow> bytes \<Rightarrow> u64 \<Rightarrow> bytes \<Rightarrow> (FilestoreError, unit) res \<times> file_system" where
  "Native_write_data os fs path offset data =
     (if \<not> Native_exists fs path then (Err FileDoesNotExist, fs)
      else
        (case map_of fs path of
           Some (FileNode c) \<Rightarrow>
             res_try (os_open os path) fs (\<lambda>_. (Ok (), fs_put fs path (FileNode (file_write (unat offset) data c))))
         | _ \<Rightarrow> (Err IsNotFile, fs)))"

subsection \<open>Checksums\<close>

text \<open>
  The loop of \<^verbatim>\<open>calc_modular_checksum\<close>: the buffered reader delivers four bytes until the last read,
  which is padded with zeroes. This holds for regular files, whose reads fill the 8192 bytes of the reader,
  a multiple of four, until the end of the file; a read that fails is not modelled.
\<close>

function modular_loop :: "u32 \<Rightarrow> bytes \<Rightarrow> u32" where
  "modular_loop checksum unread =
     (if unread = [] then checksum
      else let buffer = take 4 unread @ replicate (4 - length unread) 0
           in modular_loop (checksum + from_be_bytes buffer) (drop 4 unread))"
  by pat_completeness auto
termination
  by (relation "measure (\<lambda>(_, unread). length unread)") auto

definition open_file :: "os_errors \<Rightarrow> file_system \<Rightarrow> bytes \<Rightarrow> (FilestoreError, bytes) res" where
  "open_file os fs path =
     res_bind (os_open os path) (\<lambda>_.
       (case map_of fs path of
          Some (FileNode c) \<Rightarrow> Ok c
        | Some DirNode \<Rightarrow> Err (FsIo (Some 21) ''Is a directory (os error 21)'')
        | None \<Rightarrow> Err (FsIo (Some 2) ''No such file or directory (os error 2)'')))"

definition calc_modular_checksum :: "os_errors \<Rightarrow> file_system \<Rightarrow> bytes \<Rightarrow> (FilestoreError, u32) res" where
  "calc_modular_checksum os fs path = res_bind (open_file os fs path) (\<lambda>c. Ok (modular_loop 0 c))"

text \<open>The digest of the CRC library, and the loop that feeds it with what fits into the verification buffer.\<close>

record 'dg CrcOps =
  crc_digest :: 'dg
  crc_update :: "'dg \<Rightarrow> bytes \<Rightarrow> 'dg"
  crc_finalize :: "'dg \<Rightarrow> u32"

function crc_loop :: "'dg CrcOps \<Rightarrow> 'dg \<Rightarrow> bytes \<Rightarrow> bytes \<Rightarrow> 'dg \<times> bytes" where
  "crc_loop crc dg buf unread =
     (let data = take (length buf) unread
      in if data = [] then (dg, buf)
         else crc_loop crc (crc_update crc dg data) (overwrite 0 data buf) (drop (length data) unread))"
  by pat_completeness auto
termination
  by (relation "measure (\<lambda>(_, _, _, unread). length unread)") auto

definition Native_checksum_verify ::
    "'dg CrcOps \<Rightarrow> os_errors \<Rightarrow> file_system \<Rightarrow> bytes \<Rightarrow> ChecksumType \<Rightarrow> u32 \<Rightarrow> bytes \<Rightarrow>
     (FilestoreError, bool) res \<times> bytes" where
  "Native_checksum_verify crc os fs path checksum_type expected_checksum verification_buf =
     (case checksum_type of
        Modular \<Rightarrow> (res_bind (calc_modular_checksum os fs path) (\<lambda>c. Ok (c = expected_checksum)), verification_buf)
      | Crc32 \<Rightarrow>
          res_try (open_file os fs path) verification_buf (\<lambda>c.
            let (dg, buf) = crc_loop crc (crc_digest crc) verification_buf c
            in (Ok (crc_finalize crc dg = expected_checksum), buf))
      | NullChecksum \<Rightarrow> (Ok True, verification_buf)
      | ChecksumOther n \<Rightarrow> (Err (ChecksumTypeNotImplemented checksum_type), verification_buf))"

definition NativeFilestore_ops :: "'dg CrcOps \<Rightarrow> os_errors \<Rightarrow> file_system VirtualFilestore" where
  "NativeFilestore_ops crc os =
     \<lparr>vf_create_file = Native_create_file os, vf_remove_file = Native_remove_file os,
      vf_truncate_file = Native_truncate_file os, vf_remove_dir = Native_remove_dir os,
      vf_create_dir = Native_create_dir os, vf_read_data = Native_read_data os,
      vf_write_data = Native_write_data os, vf_is_file = Native_is_file, vf_exists = Native_exists,
      vf_checksum_verify = Native_checksum_verify crc os\<rparr>"

subsection \<open>The filestore contract\<close>

text \<open>
  What a client of a filestore relies on, in terms of the content of its files and its directories. An
  operation that fails changes nothing.
\<close>

locale virtual_filestore =
  fixes ops :: "'v VirtualFilestore"
    and files :: "'v \<Rightarrow> bytes \<rightharpoonup> bytes"
    and dirs :: "'v \<Rightarrow> bytes \<Rightarrow> bool"
  assumes exists_iff: "vf_exists ops v path \<longleftrightarrow> files v path \<noteq> None \<or> dirs v path"
    and is_file_iff: "vf_is_file ops v path \<longleftrightarrow> files v path \<noteq> None"
    and create_ok: "vf_create_file ops v path = (Ok (), v') \<Longrightarrow>
      \<not> vf_exists ops v path \<and> files v' = (files v)(path \<mapsto> []) \<and> dirs v' = dirs v"
    and truncate_ok: "vf_truncate_file ops v path = (Ok (), v') \<Longrightarrow>
      files v path \<noteq> None \<and> files v' = (files v)(path \<mapsto> []) \<and> dirs v' = dirs v"
    and remove_ok: "vf_remove_file ops v path = (Ok (), v') \<Longrightarrow>
      files v path \<noteq> None \<and> files v' = (files v)(path := None) \<and> dirs v' = dirs v"
    and write_ok: "vf_write_data ops v path off data = (Ok (), v') \<Longrightarrow>
      \<exists>c. files v path = Some c \<and> files v' = (files v)(path \<mapsto> file_write (unat off) data c) \<and> dirs v' = dirs v"
    and fails: "vf_create_file ops v path = (r, v') \<or> vf_truncate_file ops v path = (r, v') \<or>
      vf_remove_file ops v path = (r, v') \<or> vf_write_data ops v path off data = (r, v') \<Longrightarrow>
      \<not> is_ok r \<Longrightarrow> v' = v \<and> r \<noteq> Panic"

context virtual_filestore
begin

lemma never_panics:
  "fst (vf_create_file ops v path) \<noteq> Panic \<and> fst (vf_truncate_file ops v path) \<noteq> Panic \<and>
   fst (vf_remove_file ops v path) \<noteq> Panic \<and> fst (vf_write_data ops v path off data) \<noteq> Panic"
proof -
  have np: "fst m \<noteq> Panic" if "\<And>r v'. m = (r, v') \<Longrightarrow> \<not> is_ok r \<Longrightarrow> r \<noteq> Panic" for m :: "(FilestoreError, unit) res \<times> 'a"
    using that by (cases m; cases "fst m") auto
  show ?thesis by (intro conjI np) (use fails in blast)+
qed

end

definition fs_file :: "file_system \<Rightarrow> bytes \<rightharpoonup> bytes" where
  "fs_file fs path = (case map_of fs path of Some (FileNode c) \<Rightarrow> Some c | _ \<Rightarrow> None)"

definition fs_dir :: "file_system \<Rightarrow> bytes \<Rightarrow> bool" where
  "fs_dir fs path \<longleftrightarrow> map_of fs path = Some DirNode"

lemma map_of_fs_put: "map_of (fs_put fs path nd) = (map_of fs)(path \<mapsto> nd)"
proof
  fix q
  have "map_of (filter (\<lambda>(q, _). q \<noteq> path) fs) q = (if q = path then None else map_of fs q)"
    by (induction fs) auto
  then show "map_of (fs_put fs path nd) q = ((map_of fs)(path \<mapsto> nd)) q" by (simp add: fs_put_def)
qed

lemma map_of_fs_drop: "map_of (fs_drop fs path) = (map_of fs)(path := None)"
  by (rule ext, unfold fs_drop_def, induction fs) auto

lemma fs_views_put:
  "fs_file (fs_put fs path (FileNode c)) = (fs_file fs)(path \<mapsto> c)"
  "\<not> fs_dir fs path \<Longrightarrow> fs_dir (fs_put fs path (FileNode c)) = fs_dir fs"
  "fs_file (fs_drop fs path) = (fs_file fs)(path := None)"
  "\<not> fs_dir fs path \<Longrightarrow> fs_dir (fs_drop fs path) = fs_dir fs"
  by (auto simp: fs_file_def fs_dir_def map_of_fs_put map_of_fs_drop fun_eq_iff)

lemma native_views:
  "Native_exists fs path \<longleftrightarrow> fs_file fs path \<noteq> None \<or> fs_dir fs path"
  "Native_is_file fs path \<longleftrightarrow> fs_file fs path \<noteq> None"
  "fs_file fs path = Some c \<longleftrightarrow> map_of fs path = Some (FileNode c)"
  "fs_file fs path = Some c \<Longrightarrow> \<not> fs_dir fs path"
  by (auto simp: Native_exists_def Native_is_file_def fs_file_def fs_dir_def split: option.splits fs_node.splits)

lemma os_open_cases: "os_open os path = Ok () \<or> (\<exists>a b. os_open os path = Err (FsIo a b))"
  by (auto simp: os_open_def FilestoreError_from_io_def split: option.splits)

lemma os_open_ok: "os path = None \<Longrightarrow> os_open os path = Ok ()"
  by (simp add: os_open_def)

lemma NativeFilestore_sel [simp]:
  "vf_create_file (NativeFilestore_ops crc os) = Native_create_file os"
  "vf_remove_file (NativeFilestore_ops crc os) = Native_remove_file os"
  "vf_truncate_file (NativeFilestore_ops crc os) = Native_truncate_file os"
  "vf_write_data (NativeFilestore_ops crc os) = Native_write_data os"
  "vf_is_file (NativeFilestore_ops crc os) = Native_is_file"
  "vf_exists (NativeFilestore_ops crc os) = Native_exists"
  "vf_checksum_verify (NativeFilestore_ops crc os) = Native_checksum_verify crc os"
  by (simp_all add: NativeFilestore_ops_def)

interpretation native_fs: virtual_filestore "NativeFilestore_ops crc os" fs_file fs_dir for crc os
proof unfold_locales
  fix v path v' off data r
  note cases = os_open_cases [of os path]
  show "vf_exists (NativeFilestore_ops crc os) v path \<longleftrightarrow> fs_file v path \<noteq> None \<or> fs_dir v path"
    by (simp add: native_views)
  show "vf_is_file (NativeFilestore_ops crc os) v path \<longleftrightarrow> fs_file v path \<noteq> None" by (simp add: native_views)
  show "\<not> vf_exists (NativeFilestore_ops crc os) v path \<and> fs_file v' = (fs_file v)(path \<mapsto> []) \<and> fs_dir v' = fs_dir v"
    if "vf_create_file (NativeFilestore_ops crc os) v path = (Ok (), v')"
    using that cases by (auto simp: Native_create_file_def fs_views_put native_views(1) split: if_splits)
  show "fs_file v path \<noteq> None \<and> fs_file v' = (fs_file v)(path \<mapsto> []) \<and> fs_dir v' = fs_dir v"
    if "vf_truncate_file (NativeFilestore_ops crc os) v path = (Ok (), v')"
    using that cases by (auto simp: Native_truncate_file_def fs_views_put native_views split: if_splits)
  show "fs_file v path \<noteq> None \<and> fs_file v' = (fs_file v)(path := None) \<and> fs_dir v' = fs_dir v"
    if "vf_remove_file (NativeFilestore_ops crc os) v path = (Ok (), v')"
    using that cases by (auto simp: Native_remove_file_def fs_views_put native_views split: if_splits)
  show "\<exists>c. fs_file v path = Some c \<and> fs_file v' = (fs_file v)(path \<mapsto> file_write (unat off) data c) \<and> fs_dir v' = fs_dir v"
    if "vf_write_data (NativeFilestore_ops crc os) v path off data = (Ok (), v')"
    using that cases
    by (auto simp: Native_write_data_def fs_views_put native_views split: if_splits option.splits fs_node.splits)
  show "v' = v \<and> r \<noteq> Panic"
    if "vf_create_file (NativeFilestore_ops crc os) v path = (r, v') \<or> vf_truncate_file (NativeFilestore_ops crc os) v path = (r, v') \<or>
      vf_remove_file (NativeFilestore_ops crc os) v path = (r, v') \<or>
      vf_write_data (NativeFilestore_ops crc os) v path off data = (r, v')" "\<not> is_ok r"
    using that cases
    by (cases r) (auto simp: Native_create_file_def Native_truncate_file_def Native_remove_file_def Native_write_data_def
        split: if_splits option.splits fs_node.splits)
qed

subsection \<open>Checksums and data\<close>

text \<open>
  The checksum of the CFDP standard: the bytes weighted by their position in a big endian word of four
  bytes, added modulo \<open>2 ^ 32\<close>.
\<close>

definition modular_checksum :: "bytes \<Rightarrow> u32" where
  "modular_checksum c = of_nat (\<Sum>i<length c. unat (c ! i) * 256 ^ (3 - i mod 4))"

declare modular_loop.simps [simp del] crc_loop.simps [simp del]

lemma modular_checksum_word:
  "modular_checksum (a # b # c # d # rest) = from_be_bytes [a, b, c, d] + modular_checksum rest"
proof -
  have "Suc (Suc (Suc (Suc i))) mod 4 = i mod 4" for i :: nat by presburger
  then show ?thesis
    by (simp add: modular_checksum_def from_be_bytes_def from_be_def sum.lessThan_Suc_shift del: sum.lessThan_Suc)
qed

lemma pad_word:
  "replicate (4 - 0) z = [z, z, z, z]" "replicate (4 - Suc 0) z = [z, z, z]"
  "replicate (4 - Suc (Suc 0)) z = [z, z]" "replicate (4 - Suc (Suc (Suc 0))) z = [z]"
  "replicate 4 z = [z, z, z, z]" "replicate 3 z = [z, z, z]" "replicate 2 z = [z, z]"
  by (simp_all add: numeral_eq_Suc)

lemma modular_loop_spec: "modular_loop cs c = cs + modular_checksum c"
proof (induction "length c" arbitrary: cs c rule: less_induct)
  case less
  have tail: "modular_checksum c = from_be_bytes (c @ replicate (4 - length c) 0)" if len: "length c < 4" for c
  proof -
    consider "c = []" | x where "c = [x]" | x y where "c = [x, y]" | x y z where "c = [x, y, z]"
      using len by - (cases c; cases "tl c"; cases "tl (tl c)"; cases "tl (tl (tl c))"; auto)
    then show ?thesis
      by cases (simp_all add: modular_checksum_def from_be_bytes_def from_be_def pad_word algebra_simps)
  qed
  show ?case
  proof (cases "length c < 4")
    case True
    then show ?thesis using tail [OF True]
      by (cases "c = []") (simp_all add: modular_loop.simps [of cs c] modular_loop.simps [of _ "[]"] modular_checksum_def)
  next
    case False
    then obtain x y z w rest where c: "c = x # y # z # w # rest"
      by (cases c; cases "tl c"; cases "tl (tl c)"; cases "tl (tl (tl c))") auto
    then show ?thesis using less.hyps [of rest] False
      by (simp add: modular_loop.simps [of cs "x # y # z # w # rest"] modular_checksum_word add.assoc)
  qed
qed

text \<open>A CRC digest that may be fed in pieces, and the checksum of a whole file.\<close>

definition crc_ok :: "'dg CrcOps \<Rightarrow> bool" where
  "crc_ok crc \<longleftrightarrow> (\<forall>dg. crc_update crc dg [] = dg) \<and>
     (\<forall>dg xs ys. crc_update crc (crc_update crc dg xs) ys = crc_update crc dg (xs @ ys))"

definition crc_of :: "'dg CrcOps \<Rightarrow> bytes \<Rightarrow> u32" where
  "crc_of crc c = crc_finalize crc (crc_update crc (crc_digest crc) c)"

lemma crc_loop_spec:
  assumes "crc_ok crc" "buf \<noteq> []"
  shows "fst (crc_loop crc dg buf c) = crc_update crc dg c"
  using assms(2)
proof (induction "length c" arbitrary: dg buf c rule: less_induct)
  case less
  show ?case
  proof (cases "c = []")
    case True
    then show ?thesis using assms(1) by (simp add: crc_loop.simps crc_ok_def)
  next
    case False
    let ?data = "take (length buf) c"
    let ?buf = "overwrite 0 ?data buf"
    have ne: "?data \<noteq> []" "?buf \<noteq> []" "length (drop (length ?data) c) < length c"
      using False less.prems by (simp_all add: overwrite_def)
    have "crc_update crc (crc_update crc dg ?data) (drop (length ?data) c) = crc_update crc dg (?data @ drop (length ?data) c)"
      using assms(1) by (simp add: crc_ok_def)
    moreover have "?data @ drop (length ?data) c = c" by (cases "length buf \<le> length c") simp_all
    ultimately show ?thesis
      using less.hyps [OF ne(3,2), of "crc_update crc dg ?data"] ne(1)
      by (simp add: crc_loop.simps [of crc dg buf c] Let_def)
  qed
qed

lemma native_checksum:
  assumes "crc_ok crc" "buf \<noteq> []" "fs_file fs path = Some c" "os path = None"
  shows "fst (Native_checksum_verify crc os fs path ty x buf) =
    (case ty of
       Modular \<Rightarrow> Ok (modular_checksum c = x)
     | Crc32 \<Rightarrow> Ok (crc_of crc c = x)
     | NullChecksum \<Rightarrow> Ok True
     | ChecksumOther n \<Rightarrow> Err (ChecksumTypeNotImplemented ty))"
proof -
  have "open_file os fs path = Ok c"
    using assms(3) by (simp add: open_file_def os_open_ok [of os path, OF assms(4)] native_views(3))
  then show ?thesis
    using crc_loop_spec [OF assms(1,2), of "crc_digest crc" c]
    by (cases ty) (simp_all add: Native_checksum_verify_def calc_modular_checksum_def modular_loop_spec crc_of_def
        case_prod_unfold Let_def)
qed

text \<open>
  C21: the verification of a file checksum. For an existing file that can be opened the modular checksum
  is the sum of the standard over the whole file, and the CRC is the one of the whole file whatever the
  size of the verification buffer; the null checksum always agrees; other types are rejected.
\<close>

theorem checksum_verify_exact:
  assumes "crc_ok crc" "buf \<noteq> []" "fs_file fs path = Some c" "os path = None"
  shows "fst (Native_checksum_verify crc os fs path ty x buf) =
    (case ty of
       Modular \<Rightarrow> Ok (modular_checksum c = x)
     | Crc32 \<Rightarrow> Ok (crc_of crc c = x)
     | NullChecksum \<Rightarrow> Ok True
     | ChecksumOther n \<Rightarrow> Err (ChecksumTypeNotImplemented ty))"
  using assms by (rule native_checksum)

lemma length_file_write: "data \<noteq> [] \<Longrightarrow> length (file_write off data c) = max (length c) (off + length data)"
  by (simp add: file_write_def)

lemma file_write_back: "take (length data) (drop off (file_write off data c)) = data"
  by (cases "off \<le> length c") (simp_all add: file_write_def)

text \<open>
  C22: data written to a file is read back from the same offset, every other byte of the file keeps its
  value, a gap reads as zero, and no other file or directory changes.
\<close>

theorem filestore_write_read:
  assumes "Native_write_data os fs path off data = (Ok (), fs')" "length data < 2 ^ 64" "length buf = length data"
  shows "Native_read_data os fs' path off (of_nat (length data)) buf = (Ok (), data) \<and>
    (\<exists>c c'. fs_file fs path = Some c \<and> fs_file fs' = (fs_file fs)(path \<mapsto> c') \<and> fs_dir fs' = fs_dir fs \<and>
      (\<forall>i<length c'. i < unat off \<or> unat off + length data \<le> i \<longrightarrow> c' ! i = (if i < length c then c ! i else 0)))"
proof -
  obtain c where c: "fs_file fs path = Some c" "fs_file fs' = (fs_file fs)(path \<mapsto> file_write (unat off) data c)"
      "fs_dir fs' = fs_dir fs"
    using native_fs.write_ok [where os = os and v = fs and path = path and off = off and data = data and v' = fs'] assms(1) by auto
  have os: "os_open os path = Ok ()"
    using assms(1) os_open_cases [of os path] by (auto simp: Native_write_data_def split: if_splits option.splits fs_node.splits)
  have len: "unat (of_nat (length data) :: u64) = length data" using assms(2) by (simp add: unat_of_nat take_bit_nat_eq_self)
  have "fs_file fs' path = Some (file_write (unat off) data c)" using c(2) by simp
  then have "Native_read_data os fs' path off (of_nat (length data)) buf = (Ok (), data)"
    using assms(3) file_write_back [of data "unat off" c]
    by (simp add: Native_read_data_def len os native_views overwrite_def)
  moreover have "\<forall>i<length (file_write (unat off) data c). i < unat off \<or> unat off + length data \<le> i \<longrightarrow>
      file_write (unat off) data c ! i = (if i < length c then c ! i else 0)"
    by (auto simp: file_write_def nth_append)
  ultimately show ?thesis using c by blast
qed

subsection \<open>Witnesses\<close>

definition demo_crc :: "bytes CrcOps" where
  "demo_crc = \<lparr>crc_digest = [], crc_update = (@), crc_finalize = (\<lambda>c. of_nat (length c))\<rparr>"

definition demo_fs :: file_system where
  "demo_fs = [([0x61], FileNode [1, 2, 3, 4, 5])]"

lemma demo_crc_ok: "crc_ok demo_crc"
  by (simp add: crc_ok_def demo_crc_def)

theorem checksum_verify_exact_witness:
  "fst (Native_checksum_verify demo_crc (\<lambda>_. None) demo_fs [0x61] Crc32 5 [0, 0]) = Ok True"
  using checksum_verify_exact [OF demo_crc_ok, of "[0, 0]" demo_fs "[0x61]" "[1, 2, 3, 4, 5]" "\<lambda>_. None" Crc32 5]
  by (simp add: fs_file_def demo_fs_def crc_of_def demo_crc_def)

theorem filestore_write_read_witness:
  "\<exists>fs'. Native_write_data (\<lambda>_. None) demo_fs [0x61] 6 [9] = (Ok (), fs') \<and>
    Native_read_data (\<lambda>_. None) fs' [0x61] 6 1 [0] = (Ok (), [9])"
proof -
  obtain fs' where "Native_write_data (\<lambda>_. None) demo_fs [0x61] 6 [9] = (Ok (), fs')"
    by (simp add: Native_write_data_def Native_exists_def demo_fs_def os_open_def)
  from filestore_write_read [OF this, of "[0]"] this show ?thesis by auto
qed

end
