(* ===== verification/Cfdp_Dest.thy ===== *)
theory Cfdp_Dest
  imports Filestore
begin

text \<open>
  The CFDP destination handler (\<^verbatim>\<open>satrs/src/cfdp/dest.rs\<close>), the receiver of a file: its state machine with
  the metadata, file data and EOF handlers, checksum verification, check limit handling, faults and
  completion. The PDU readers and the writer of the packet library, the timer and the PDU sender are
  fields of an environment; the user and the fault callbacks are logs.
\<close>

subsection \<open>State\<close>

record CommonPduConfig =
  pc_source_id :: UnsignedByteField
  pc_transaction_seq_num :: UnsignedByteField
  pc_trans_mode :: TransmissionMode

record MetadataGenericParams =
  closure_requested :: bool
  md_checksum_type :: ChecksumType
  md_file_size :: u64

datatype CompletionDisposition = Completed | Cancelled

record FileProperties =
  src_file_name :: bytes
  src_file_name_len :: nat
  dest_file_name :: bytes
  dest_file_name_len :: nat
  dest_path_buf :: bytes

record 't TransferState =
  transaction_id :: "TransactionId option"
  metadata_params :: MetadataGenericParams
  progress :: u64
  metadata_only :: bool
  condition_code :: ConditionCode
  delivery_code :: DeliveryCode
  file_status :: FileStatus
  completion_disposition :: CompletionDisposition
  checksum :: u32
  current_check_count :: u32
  current_check_timer :: "'t option"

record 't TransactionParams =
  tstate :: "'t TransferState"
  pdu_conf :: CommonPduConfig
  file_properties :: FileProperties
  cksum_buf :: bytes
  msgs_to_user_size :: nat
  msgs_to_user_buf :: bytes
  remote_cfg :: "RemoteEntityConfig option"

record ('v, 's, 't) DestinationHandler =
  local_cfg :: LocalEntityConfig
  step :: TransactionStep
  d_state :: CfdpState
  tparams :: "'t TransactionParams"
  packet_buf :: bytes
  packet_sender :: 's
  vfs :: 'v
  remote_cfg_table :: StdRemoteEntityConfigProvider
  cfdp_user :: "Indication list"

definition transmission_mode :: "'t TransactionParams \<Rightarrow> TransmissionMode" where
  "transmission_mode tp = pc_trans_mode (pdu_conf tp)"

definition TransactionParams_reset :: "'t TransactionParams \<Rightarrow> 't TransactionParams" where
  "TransactionParams_reset tp =
     tp\<lparr>tstate := (tstate tp)\<lparr>condition_code := NoError, delivery_code := DeliveryIncomplete, file_status := Unreported\<rparr>\<rparr>"

definition TransferState_default :: "MetadataGenericParams \<Rightarrow> 't TransferState" where
  "TransferState_default default_md =
     \<lparr>transaction_id = None, metadata_params = default_md, progress = 0, metadata_only = False,
      condition_code = NoError, delivery_code = DeliveryIncomplete, file_status = Unreported,
      completion_disposition = Completed, checksum = 0, current_check_count = 0, current_check_timer = None\<rparr>"

definition FileProperties_default :: FileProperties where
  "FileProperties_default =
     \<lparr>src_file_name = replicate 255 0, src_file_name_len = 0, dest_file_name = replicate 255 0,
      dest_file_name_len = 0, dest_path_buf = []\<rparr>"

definition TransactionParams_default :: "MetadataGenericParams \<Rightarrow> CommonPduConfig \<Rightarrow> 't TransactionParams" where
  "TransactionParams_default default_md default_conf =
     \<lparr>tstate = TransferState_default default_md, pdu_conf = default_conf, file_properties = FileProperties_default,
      cksum_buf = replicate 1024 0, msgs_to_user_size = 0, msgs_to_user_buf = replicate 1024 0, remote_cfg = None\<rparr>"

definition DestinationHandler_new ::
    "MetadataGenericParams \<Rightarrow> CommonPduConfig \<Rightarrow> LocalEntityConfig \<Rightarrow> nat \<Rightarrow> 's \<Rightarrow> 'v \<Rightarrow>
     StdRemoteEntityConfigProvider \<Rightarrow> ('v, 's, 't) DestinationHandler" where
  "DestinationHandler_new default_md default_conf cfg max_len sender v tab =
     \<lparr>local_cfg = cfg, step = StepIdle, d_state = StateIdle, tparams = TransactionParams_default default_md default_conf,
      packet_buf = replicate max_len 0, packet_sender = sender, vfs = v, remote_cfg_table = tab, cfdp_user = []\<rparr>"

text \<open>Errors.\<close>

datatype 'pe DestError =
    DirectiveExpected
  | CantProcessPacketType FileDirectiveType
  | WrongStateForFileDataAndEof
  | RecvdMetadataButIsBusy
  | EmptySrcFileField
  | EmptyDestFileField
  | PacketToSendLeft
  | DestPdu 'pe
  | DestIo "int option" string
  | DestFilestore FilestoreError
  | PathConversion
  | PathConcat
  | NoRemoteCfgFound UnsignedByteField

subsection \<open>PDUs and the environment\<close>

text \<open>
  A TLV option of a metadata PDU: whether it is a standard TLV with a message to the user, its raw data
  when it has some, and its full length. A message to the user on its own is its value, behind a header
  of two bytes.
\<close>

record OptionTlv =
  tlv_is_msg_to_user :: bool
  tlv_raw_data :: "bytes option"
  tlv_len_full :: nat

record MetadataPduReader =
  mdp_params :: MetadataGenericParams
  mdp_conf :: CommonPduConfig
  mdp_source_id :: UnsignedByteField
  mdp_dest_id :: UnsignedByteField
  mdp_src_file_name :: bytes
  mdp_dest_file_name :: bytes
  mdp_options :: "OptionTlv list"

record FileDataPdu =
  fd_offset :: u64
  fd_file_data :: bytes
  fd_segment_metadata :: "bytes option"

record EofPduReader =
  eof_condition_code :: ConditionCode
  eof_file_checksum :: u32
  eof_file_size :: u64

record FinishedPduCreator =
  fin_conf :: CommonPduConfig
  fin_condition_code :: ConditionCode
  fin_delivery_code :: DeliveryCode
  fin_file_status :: FileStatus
  fin_fault_location :: "UnsignedByteField option"

record ('v, 's, 't, 'pe) DestEnv =
  de_vfs :: "'v VirtualFilestore"
  de_path_exists :: "'v \<Rightarrow> bytes \<Rightarrow> bool"
  de_metadata :: "bytes \<Rightarrow> ('pe, MetadataPduReader) res"
  de_file_data :: "bytes \<Rightarrow> ('pe, FileDataPdu) res"
  de_eof :: "bytes \<Rightarrow> ('pe, EofPduReader) res"
  de_msg_to_user :: "bytes \<Rightarrow> ('pe, bytes) res"
  de_finished_write :: "FinishedPduCreator \<Rightarrow> bytes \<Rightarrow> ('pe, nat) res \<times> bytes"
  de_send_pdu :: "'s \<Rightarrow> PduType \<Rightarrow> FileDirectiveType option \<Rightarrow> bytes \<Rightarrow> ('pe, unit) res \<times> 's"
  de_check_timer :: "UnsignedByteField \<Rightarrow> UnsignedByteField \<Rightarrow> EntityType \<Rightarrow> 't"
  de_has_expired :: "'t \<Rightarrow> bool"
  de_timer_reset :: "'t \<Rightarrow> 't"

subsection \<open>Paths and text\<close>

text \<open>The check of \<^verbatim>\<open>from_utf8\<close> on bytes.\<close>

definition utf8_cont :: "u8 \<Rightarrow> bool" where
  "utf8_cont b \<longleftrightarrow> 0x80 \<le> b \<and> b \<le> 0xbf"

fun utf8_ok :: "bytes \<Rightarrow> bool" where
  "utf8_ok [] = True"
| "utf8_ok [a] = (a < 0x80)"
| "utf8_ok [a, b] = (if a < 0x80 then b < 0x80 else 0xc2 \<le> a \<and> a \<le> 0xdf \<and> utf8_cont b)"
| "utf8_ok [a, b, c] =
     (if a < 0x80 then utf8_ok [b, c]
      else if 0xc2 \<le> a \<and> a \<le> 0xdf then utf8_cont b \<and> c < 0x80
      else utf8_cont b \<and> utf8_cont c \<and> 0xe0 \<le> a \<and> a \<le> 0xef \<and> (a = 0xe0 \<longrightarrow> 0xa0 \<le> b) \<and> (a = 0xed \<longrightarrow> b \<le> 0x9f))"
| "utf8_ok (a # b # c # d # rest) =
     (if a < 0x80 then utf8_ok (b # c # d # rest)
      else if 0xc2 \<le> a \<and> a \<le> 0xdf then utf8_cont b \<and> utf8_ok (c # d # rest)
      else if 0xe0 \<le> a \<and> a \<le> 0xef
      then utf8_cont b \<and> utf8_cont c \<and> (a = 0xe0 \<longrightarrow> 0xa0 \<le> b) \<and> (a = 0xed \<longrightarrow> b \<le> 0x9f) \<and> utf8_ok (d # rest)
      else utf8_cont b \<and> utf8_cont c \<and> utf8_cont d \<and> 0xf0 \<le> a \<and> a \<le> 0xf4 \<and> (a = 0xf0 \<longrightarrow> 0x90 \<le> b) \<and>
           (a = 0xf4 \<longrightarrow> b \<le> 0x8f) \<and> utf8_ok rest)"

text \<open>\<^verbatim>\<open>PathBuf::push\<close> of a file name.\<close>

definition path_push :: "bytes \<Rightarrow> bytes \<Rightarrow> bytes" where
  "path_push path name = (if path = [] \<or> last path = 0x2f then path @ name else path @ [0x2f] @ name)"

subsection \<open>Faults and reset\<close>

type_synonym ('v, 's, 't, 'pe, 'a) dest_op =
  "('v, 's, 't) DestinationHandler \<Rightarrow> ('pe DestError, 'a) res \<times> ('v, 's, 't) DestinationHandler"

abbreviation upd_tstate ::
    "('t TransferState \<Rightarrow> 't TransferState) \<Rightarrow> ('v, 's, 't) DestinationHandler \<Rightarrow> ('v, 's, 't) DestinationHandler" where
  "upd_tstate f d \<equiv> d\<lparr>tparams := (tparams d)\<lparr>tstate := f (tstate (tparams d))\<rparr>\<rparr>"

abbreviation tst :: "('v, 's, 't) DestinationHandler \<Rightarrow> 't TransferState" where
  "tst d \<equiv> tstate (tparams d)"

definition dest_reset :: "('v, 's, 't) DestinationHandler \<Rightarrow> ('v, 's, 't) DestinationHandler" where
  "dest_reset d = d\<lparr>step := StepIdle, d_state := StateIdle, tparams := TransactionParams_reset (tparams d)\<rparr>"

definition notice_of_cancellation ::
    "ConditionCode \<Rightarrow> ('v, 's, 't) DestinationHandler \<Rightarrow> ('v, 's, 't) DestinationHandler" where
  "notice_of_cancellation code d =
     upd_tstate (\<lambda>t. t\<lparr>condition_code := code, completion_disposition := Cancelled\<rparr>) (d\<lparr>step := TransferCompletion\<rparr>)"

definition notice_of_suspension :: "('v, 's, 't) DestinationHandler \<Rightarrow> ('v, 's, 't) DestinationHandler" where
  "notice_of_suspension d = d"

definition abandon_transaction :: "('v, 's, 't) DestinationHandler \<Rightarrow> ('v, 's, 't) DestinationHandler" where
  "abandon_transaction d = dest_reset d"

definition declare_fault :: "ConditionCode \<Rightarrow> ('v, 's, 't, 'pe, FaultHandlerCode) dest_op" where
  "declare_fault code d =
     (case transaction_id (tst d) of
        None \<Rightarrow> (Panic, d)
      | Some tid \<Rightarrow>
          (let prog = progress (tst d);
               fh_code = get_fault_handler (default_fault_handler (local_cfg d)) code;
               d1 = (case fh_code of
                       NoticeOfCancellation \<Rightarrow> notice_of_cancellation code d
                     | NoticeOfSuspension \<Rightarrow> notice_of_suspension d
                     | IgnoreError \<Rightarrow> d
                     | AbandonTransaction \<Rightarrow> abandon_transaction d);
               (c, fh) = report_fault (default_fault_handler (local_cfg d1)) tid code prog
           in (Ok c, d1\<lparr>local_cfg := (local_cfg d1)\<lparr>default_fault_handler := fh\<rparr>\<rparr>)))"

subsection \<open>Metadata\<close>

text \<open>The loop over the options of the metadata PDU; copying a slice of another length panics.\<close>

fun copy_options :: "OptionTlv list \<Rightarrow> ('v, 's, 't, 'pe, unit) dest_op" where
  "copy_options [] d = (Ok (), d)"
| "copy_options (opt # opts) d =
     (if tlv_is_msg_to_user opt
      then res_try (res_bind (opt_unwrap (tlv_raw_data opt)) (\<lambda>raw. copy_from_slice raw (msgs_to_user_buf (tparams d)))) d (\<lambda>buf.
             copy_options opts (d\<lparr>tparams := (tparams d)\<lparr>msgs_to_user_buf := buf,
               msgs_to_user_size := msgs_to_user_size (tparams d) + tlv_len_full opt\<rparr>\<rparr>))
      else copy_options opts d)"

text \<open>A name is copied to the front of an array of 255 bytes; a longer name panics.\<close>

definition store_file_names ::
    "MetadataPduReader \<Rightarrow> ('v, 's, 't, 'pe, unit) dest_op" where
  "store_file_names md d =
     (let fp = file_properties (tparams d)
      in res_try (copy_into 0 (mdp_src_file_name md) (src_file_name fp)) d (\<lambda>src.
           let fp1 = fp\<lparr>src_file_name := src, src_file_name_len := length (mdp_src_file_name md)\<rparr>;
               d1 = d\<lparr>tparams := (tparams d)\<lparr>file_properties := fp1\<rparr>\<rparr>
           in if mdp_dest_file_name md = [] then (Err EmptyDestFileField, d1)
              else res_try (copy_into 0 (mdp_dest_file_name md) (dest_file_name fp1)) d1 (\<lambda>dst.
                (Ok (), d1\<lparr>tparams := (tparams d1)\<lparr>
                   file_properties := fp1\<lparr>dest_file_name := dst, dest_file_name_len := length (mdp_dest_file_name md)\<rparr>,
                   pdu_conf := mdp_conf md, msgs_to_user_size := 0\<rparr>\<rparr>))))"

definition handle_metadata_pdu ::
    "('v, 's, 't, 'pe) DestEnv \<Rightarrow> bytes \<Rightarrow> ('v, 's, 't, 'pe, unit) dest_op" where
  "handle_metadata_pdu env raw d =
     (if d_state d \<noteq> StateIdle then (Err RecvdMetadataButIsBusy, d)
      else
        res_try (res_map_err DestPdu (de_metadata env raw)) d (\<lambda>md.
          let d1 = upd_tstate (\<lambda>t. t\<lparr>metadata_params := mdp_params md\<rparr>)
                (d\<lparr>tparams := TransactionParams_reset (tparams d)\<rparr>)
          in (case get_remote_config (remote_cfg_table d1) (ubf_value (mdp_source_id md)) of
                None \<Rightarrow> (Err (NoRemoteCfgFound (mdp_dest_id md)), d1)
              | Some cfg \<Rightarrow>
                  (let d2 = d1\<lparr>tparams := (tparams d1)\<lparr>remote_cfg := Some cfg\<rparr>\<rparr>;
                       src_name = mdp_src_file_name md; dest_name = mdp_dest_file_name md;
                       d3 = (if src_name = [] \<and> dest_name = [] then upd_tstate (\<lambda>t. t\<lparr>metadata_only := True\<rparr>) d2 else d2);
                       only = metadata_only (tst d3)
                   in if \<not> only \<and> src_name = [] then (Err EmptySrcFileField, d3)
                      else if \<not> only \<and> dest_name = [] then (Err EmptyDestFileField, d3)
                      else
                        let (r, d4) = (if \<not> only then store_file_names md d3 else (Ok (), d3))
                        in res_try r d4 (\<lambda>_.
                           let (r, d5) = copy_options (mdp_options md) d4
                           in res_try r d5 (\<lambda>_. (Ok (), d5\<lparr>d_state := StateBusy, step := TransactionStart\<rparr>)))))))"

subsection \<open>File data and EOF\<close>

text \<open>The additions to the progress and to the check count wrap, as in a release build.\<close>

definition handle_file_data ::
    "('v, 's, 't, 'pe) DestEnv \<Rightarrow> bytes \<Rightarrow> ('v, 's, 't, 'pe, unit) dest_op" where
  "handle_file_data env raw d =
     (if d_state d = StateIdle \<or>
         step d \<noteq> ReceivingFileDataPdus \<and> step d \<noteq> ReceivingFileDataPdusWithCheckLimitHandling
      then (Err WrongStateForFileDataAndEof, d)
      else
        res_try (res_map_err DestPdu (de_file_data env raw)) d (\<lambda>fd.
          let (r1, d1) =
            (if ind_file_segment_recv (indication_cfg (local_cfg d))
             then (case transaction_id (tst d) of
                     None \<Rightarrow> (Panic, d)
                   | Some tid \<Rightarrow> (Ok (), d\<lparr>cfdp_user := cfdp_user d @
                       [FileSegmentRecvd \<lparr>fs_id = tid, fs_offset = fd_offset fd, fs_length = length (fd_file_data fd),
                         fs_segment_metadata = fd_segment_metadata fd\<rparr>]\<rparr>))
             else (Ok (), d))
          in res_try r1 d1 (\<lambda>_.
            let (rw, v') = vf_write_data (de_vfs env) (vfs d1) (dest_path_buf (file_properties (tparams d1)))
                  (fd_offset fd) (fd_file_data fd);
                d2 = d1\<lparr>vfs := v'\<rparr>
            in (case rw of
                  Err e \<Rightarrow>
                    (let (r, d3) = declare_fault FilestoreRejection d2 in res_try r d3 (\<lambda>_. (Err (DestFilestore e), d3)))
                | Panic \<Rightarrow> (Panic, d2)
                | Ok u \<Rightarrow>
                    (Ok (), upd_tstate (\<lambda>t. t\<lparr>progress := progress t + of_nat (length (fd_file_data fd))\<rparr>) d2)))))"

definition file_transfer_complete_transition :: "('v, 's, 't) DestinationHandler \<Rightarrow> ('v, 's, 't) DestinationHandler" where
  "file_transfer_complete_transition d =
     (if transmission_mode (tparams d) = Unacknowledged then d\<lparr>step := TransferCompletion\<rparr>
      else d\<lparr>step := SendingAckPdu\<rparr>)"

definition dest_checksum_verify ::
    "('v, 's, 't, 'pe) DestEnv \<Rightarrow> u32 \<Rightarrow> ('v, 's, 't, 'pe, bool) dest_op" where
  "dest_checksum_verify env expected d =
     (if md_checksum_type (metadata_params (tst d)) = NullChecksum \<or> metadata_only (tst d)
      then (Ok True, upd_tstate (\<lambda>t. t\<lparr>delivery_code := DeliveryComplete, condition_code := NoError\<rparr>) d)
      else
        let (r, buf) = vf_checksum_verify (de_vfs env) (vfs d) (dest_path_buf (file_properties (tparams d)))
              (md_checksum_type (metadata_params (tst d))) expected (cksum_buf (tparams d));
            d1 = d\<lparr>tparams := (tparams d)\<lparr>cksum_buf := buf\<rparr>\<rparr>
        in (case r of
              Ok checksum_success \<Rightarrow> (Ok checksum_success, d1)
            | Err (ChecksumTypeNotImplemented ty) \<Rightarrow>
                (let (r, d2) = declare_fault UnsupportedChecksumType d1 in res_try r d2 (\<lambda>_. (Ok True, d2)))
            | Err e \<Rightarrow> (let (r, d2) = declare_fault FilestoreRejection d1 in res_try r d2 (\<lambda>_. (Ok False, d2)))
            | Panic \<Rightarrow> (Panic, d1)))"

definition start_check_limit_handling ::
    "('v, 's, 't, 'pe) DestEnv \<Rightarrow> ('v, 's, 't, 'pe, unit) dest_op" where
  "start_check_limit_handling env d =
     (let d1 = d\<lparr>step := ReceivingFileDataPdusWithCheckLimitHandling\<rparr>
      in (case remote_cfg (tparams d1) of
            None \<Rightarrow> (Panic, d1)
          | Some cfg \<Rightarrow>
              (Ok (), upd_tstate (\<lambda>t. t\<lparr>current_check_timer :=
                  Some (de_check_timer env (local_id (local_cfg d1)) (entity_id cfg) Receiving), current_check_count := 0\<rparr>) d1)))"

text \<open>The result says whether the transfer can be completed regularly.\<close>

definition handle_no_error_eof_pdu ::
    "('v, 's, 't, 'pe) DestEnv \<Rightarrow> EofPduReader \<Rightarrow> ('v, 's, 't, 'pe, bool) dest_op" where
  "handle_no_error_eof_pdu env eof d =
     (let (r0, d0) = (if progress (tst d) > eof_file_size eof
                      then (let (r, d') = declare_fault FileSizeError d in (res_map (\<lambda>c. c \<noteq> IgnoreError) r, d'))
                      else (Ok False, d))
      in res_try r0 d0 (\<lambda>stop.
         if stop then (Ok False, d0)
         else
           let d1 = upd_tstate (\<lambda>t. t\<lparr>checksum := eof_file_checksum eof\<rparr>) d0;
               (r1, d2) = (if transmission_mode (tparams d1) = Unacknowledged
                           then (let (r, d') = dest_checksum_verify env (checksum (tst d1)) d1 in (res_map Not r, d'))
                           else (Ok False, d1))
           in res_try r1 d2 (\<lambda>bad.
              if bad
              then let (r2, d3) = declare_fault FileChecksumFailure d2
                   in res_try r2 d3 (\<lambda>code.
                      if code \<noteq> IgnoreError then (Ok False, d3)
                      else let (r3, d4) = start_check_limit_handling env d3 in (res_map (\<lambda>_. False) r3, d4))
              else (Ok True, d2))))"

text \<open>A cancel request of the sender is a \<^verbatim>\<open>todo!\<close>, which panics.\<close>

definition handle_eof_pdu ::
    "('v, 's, 't, 'pe) DestEnv \<Rightarrow> bytes \<Rightarrow> ('v, 's, 't, 'pe, unit) dest_op" where
  "handle_eof_pdu env raw d =
     (if d_state d = StateIdle \<or> step d \<noteq> ReceivingFileDataPdus then (Err WrongStateForFileDataAndEof, d)
      else
        res_try (res_map_err DestPdu (de_eof env raw)) d (\<lambda>eof.
          let (r1, d1) =
            (if ind_eof_recv (indication_cfg (local_cfg d))
             then (case transaction_id (tst d) of
                     None \<Rightarrow> (Panic, d)
                   | Some tid \<Rightarrow> (Ok (), d\<lparr>cfdp_user := cfdp_user d @ [EofRecvd tid]\<rparr>))
             else (Ok (), d))
          in res_try r1 d1 (\<lambda>_.
            if eof_condition_code eof = NoError
            then let (r2, d2) = handle_no_error_eof_pdu env eof d1
                 in res_try r2 d2 (\<lambda>regular.
                      (Ok (), if regular then file_transfer_complete_transition d2 else d2))
            else (Panic, d1))))"

text \<open>The prompt and acknowledgement PDUs are \<^verbatim>\<open>todo!\<close>.\<close>

definition handle_prompt_pdu :: "bytes \<Rightarrow> ('v, 's, 't, 'pe, unit) dest_op" where
  "handle_prompt_pdu raw d = (Panic, d)"

definition handle_file_directive ::
    "('v, 's, 't, 'pe) DestEnv \<Rightarrow> FileDirectiveType \<Rightarrow> bytes \<Rightarrow> ('v, 's, 't, 'pe, unit) dest_op" where
  "handle_file_directive env directive raw d =
     (case directive of
        EofPdu \<Rightarrow> handle_eof_pdu env raw d
      | FinishedPdu \<Rightarrow> (Err (CantProcessPacketType directive), d)
      | NakPdu \<Rightarrow> (Err (CantProcessPacketType directive), d)
      | KeepAlivePdu \<Rightarrow> (Err (CantProcessPacketType directive), d)
      | AckPdu \<Rightarrow> (Panic, d)
      | MetadataPdu \<Rightarrow> handle_metadata_pdu env raw d
      | PromptPdu \<Rightarrow> handle_prompt_pdu raw d)"

definition insert_packet ::
    "('v, 's, 't, 'pe) DestEnv \<Rightarrow> PacketInfo \<Rightarrow> ('v, 's, 't, 'pe, unit) dest_op" where
  "insert_packet env p d =
     (if pi_target p \<noteq> DestEntity
      then (res_bind (opt_unwrap (pi_pdu_directive p)) (\<lambda>dir. Err (CantProcessPacketType dir)), d)
      else
        (case pi_pdu_type p of
           PduFileDirective \<Rightarrow>
             (case pi_pdu_directive p of
                None \<Rightarrow> (Err DirectiveExpected, d)
              | Some directive \<Rightarrow> handle_file_directive env directive (pi_raw_packet p) d)
         | PduFileData \<Rightarrow> handle_file_data env (pi_raw_packet p) d))"

subsection \<open>The state machine\<close>

definition check_limit_handling ::
    "('v, 's, 't, 'pe) DestEnv \<Rightarrow> ('v, 's, 't, 'pe, unit) dest_op" where
  "check_limit_handling env d =
     (case current_check_timer (tst d) of
        None \<Rightarrow> (Ok (), d)
      | Some timer \<Rightarrow>
          if de_has_expired env timer
          then let (r, d1) = dest_checksum_verify env (checksum (tst d)) d
               in res_try r d1 (\<lambda>ok.
                  if ok then (Ok (), file_transfer_complete_transition d1)
                  else
                    (case remote_cfg (tparams d1) of
                       None \<Rightarrow> (Panic, d1)
                     | Some cfg \<Rightarrow>
                         if current_check_count (tst d1) + 1 \<ge> check_limit cfg
                         then let (r2, d2) = declare_fault CheckLimitReached d1 in (res_map (\<lambda>_. ()) r2, d2)
                         else res_try (opt_unwrap (current_check_timer (tst d1))) d1 (\<lambda>tm.
                           (Ok (), upd_tstate (\<lambda>t. t\<lparr>current_check_count := current_check_count t + 1,
                              current_check_timer := Some (de_timer_reset env tm)\<rparr>) d1))))
          else (Ok (), d))"

text \<open>The loop that reads the messages to the user; each of them is at least its header long.\<close>

function read_msgs_to_user ::
    "(bytes \<Rightarrow> ('pe, bytes) res) \<Rightarrow> bytes \<Rightarrow> nat \<Rightarrow> nat \<Rightarrow> bytes list \<Rightarrow> ('e, bytes list) res" where
  "read_msgs_to_user from_bytes buf len_msgs pos msgs =
     (if pos < len_msgs
      then if pos \<le> length buf
           then (case from_bytes (drop pos buf) of
                   Ok msg \<Rightarrow> read_msgs_to_user from_bytes buf len_msgs (pos + (length msg + 2)) (msgs @ [msg])
                 | _ \<Rightarrow> Panic)
           else Panic
      else Ok msgs)"
  by pat_completeness auto
termination
  by (relation "measure (\<lambda>(_, _, len_msgs, pos, _). len_msgs - pos)") auto

definition transaction_start ::
    "('v, 's, 't, 'pe) DestEnv \<Rightarrow> ('v, 's, 't, 'pe, unit) dest_op" where
  "transaction_start env d =
     (let fp = file_properties (tparams d)
      in res_try (slice 0 (dest_file_name_len fp) (dest_file_name fp)) d (\<lambda>dest_name.
         if \<not> utf8_ok dest_name then (Err PathConversion, d)
         else
           let d1 = d\<lparr>tparams := (tparams d)\<lparr>file_properties := fp\<lparr>dest_path_buf := dest_name\<rparr>\<rparr>\<rparr>;
               source_id = pc_source_id (pdu_conf (tparams d1));
               tid = TransactionId_new source_id (pc_transaction_seq_num (pdu_conf (tparams d1)))
           in res_try (slice 0 (src_file_name_len fp) (src_file_name fp)) d1 (\<lambda>src_name.
              if \<not> utf8_ok src_name then (Err PathConversion, d1)
              else
                res_try (read_msgs_to_user (de_msg_to_user env) (msgs_to_user_buf (tparams d1))
                           (msgs_to_user_size (tparams d1)) 0 []) d1 (\<lambda>msgs.
                let d2 = upd_tstate (\<lambda>t. t\<lparr>transaction_id := Some tid\<rparr>) d1;
                    d3 = d2\<lparr>cfdp_user := cfdp_user d2 @ [MetadataRecvd
                           \<lparr>mr_id = tid, mr_source_id = source_id, mr_file_size = md_file_size (metadata_params (tst d2)),
                            mr_src_file_name = src_name, mr_dest_file_name = dest_name, mr_msgs_to_user = msgs\<rparr>]\<rparr>
                in res_try
                     (if de_path_exists env (vfs d3) dest_name \<and> VirtualFilestore_is_dir (de_vfs env) (vfs d3) dest_name
                      then (case path_file_name src_name of
                              None \<Rightarrow> Err PathConcat
                            | Some source_name \<Rightarrow> Ok (path_push dest_name source_name))
                      else Ok dest_name) d3 (\<lambda>path.
                   let d4 = d3\<lparr>tparams := (tparams d3)\<lparr>file_properties := (file_properties (tparams d3))\<lparr>dest_path_buf := path\<rparr>\<rparr>\<rparr>;
                       (r, v') = (if vf_exists (de_vfs env) (vfs d4) path then vf_truncate_file (de_vfs env) (vfs d4) path
                                  else vf_create_file (de_vfs env) (vfs d4) path);
                       d5 = d4\<lparr>vfs := v'\<rparr>
                   in res_try (res_map_err DestFilestore r) d5 (\<lambda>_.
                        (Ok (), (upd_tstate (\<lambda>t. t\<lparr>file_status := Retained\<rparr>) d5)\<lparr>step := ReceivingFileDataPdus\<rparr>)))))))"

definition notice_of_completion ::
    "('v, 's, 't, 'pe) DestEnv \<Rightarrow> ('v, 's, 't, 'pe, unit) dest_op" where
  "notice_of_completion env d =
     (let (r, d1) =
        (if completion_disposition (tst d) = Completed then (Ok (), d)
         else
           (case remote_cfg (tparams d) of
              None \<Rightarrow> (Panic, d)
            | Some cfg \<Rightarrow>
                if disposition_on_cancellation cfg \<and> delivery_code (tst d) = DeliveryIncomplete
                then let (r, v') = vf_remove_file (de_vfs env) (vfs d) (dest_path_buf (file_properties (tparams d)));
                         d' = d\<lparr>vfs := v'\<rparr>
                     in res_try (res_map_err DestFilestore r) d' (\<lambda>_.
                          (Ok (), upd_tstate (\<lambda>t. t\<lparr>file_status := DiscardDeliberately\<rparr>) d'))
                else (Ok (), d)))
      in res_try r d1 (\<lambda>_.
         (case transaction_id (tst d1) of
            None \<Rightarrow> (Panic, d1)
          | Some tid \<Rightarrow>
              (Ok (), d1\<lparr>cfdp_user := cfdp_user d1 @ [TransactionFinished
                 \<lparr>tf_id = tid, tf_condition_code = condition_code (tst d1), tf_delivery_code = delivery_code (tst d1),
                  tf_file_status = file_status (tst d1)\<rparr>]\<rparr>))))"

definition finished_pdu :: "('v, 's, 't) DestinationHandler \<Rightarrow> FinishedPduCreator" where
  "finished_pdu d =
     (let t = tst d
      in if condition_code t = NoError \<or> condition_code t = UnsupportedChecksumType
         then \<lparr>fin_conf = pdu_conf (tparams d), fin_condition_code = NoError, fin_delivery_code = delivery_code t,
               fin_file_status = file_status t, fin_fault_location = None\<rparr>
         else \<lparr>fin_conf = pdu_conf (tparams d), fin_condition_code = condition_code t, fin_delivery_code = delivery_code t,
               fin_file_status = file_status t, fin_fault_location = Some (local_id (local_cfg d))\<rparr>)"

definition send_finished_pdu ::
    "('v, 's, 't, 'pe) DestEnv \<Rightarrow> ('v, 's, 't, 'pe, u32) dest_op" where
  "send_finished_pdu env d =
     (let (r, buf) = de_finished_write env (finished_pdu d) (packet_buf d);
          d1 = d\<lparr>packet_buf := buf\<rparr>
      in res_try (res_map_err DestPdu r) d1 (\<lambda>len.
         res_try (slice 0 len buf) d1 (\<lambda>pdu.
           let (r2, s') = de_send_pdu env (packet_sender d1) PduFileDirective (Some FinishedPdu) pdu;
               d2 = d1\<lparr>packet_sender := s'\<rparr>
           in res_try (res_map_err DestPdu r2) d2 (\<lambda>_. (Ok 1, d2)))))"

definition transfer_completion ::
    "('v, 's, 't, 'pe) DestEnv \<Rightarrow> ('v, 's, 't, 'pe, u32) dest_op" where
  "transfer_completion env d =
     (let (r, d1) = notice_of_completion env d
      in res_try r d1 (\<lambda>_.
         if transmission_mode (tparams d1) = Acknowledged \<or> closure_requested (metadata_params (tst d1))
         then let (r2, d2) = send_finished_pdu env d1
              in res_try r2 d2 (\<lambda>n. (Ok n, d2\<lparr>step := SendingFinishedPdu\<rparr>))
         else (Ok 0, dest_reset d1)))"

text \<open>
  Each step is entered when the steps before have led to it; acknowledged mode is a \<^verbatim>\<open>todo!\<close>, and so is
  the idle state.
\<close>

definition fsm_busy :: "('v, 's, 't, 'pe) DestEnv \<Rightarrow> ('v, 's, 't, 'pe, u32) dest_op" where
  "fsm_busy env d =
     (let (r1, d1) = (if step d = TransactionStart then transaction_start env d else (Ok (), d))
      in res_try r1 d1 (\<lambda>_.
      let (r2, d2) = (if step d1 = ReceivingFileDataPdusWithCheckLimitHandling then check_limit_handling env d1 else (Ok (), d1))
      in res_try r2 d2 (\<lambda>_.
      let (r3, d3) = (if step d2 = TransferCompletion then transfer_completion env d2 else (Ok 0, d2))
      in res_try r3 d3 (\<lambda>sent.
         if step d3 = SendingAckPdu then (Panic, d3)
         else if step d3 = SendingFinishedPdu then (Ok sent, dest_reset d3)
         else (Ok sent, d3)))))"

definition state_machine ::
    "('v, 's, 't, 'pe) DestEnv \<Rightarrow> PacketInfo option \<Rightarrow> ('v, 's, 't, 'pe, u32) dest_op" where
  "state_machine env packet_to_insert d =
     (let (r, d1) = (case packet_to_insert of None \<Rightarrow> (Ok (), d) | Some packet \<Rightarrow> insert_packet env packet d)
      in res_try r d1 (\<lambda>_.
         (case d_state d1 of StateIdle \<Rightarrow> (Panic, d1) | StateBusy \<Rightarrow> fsm_busy env d1 | StateSuspended \<Rightarrow> (Panic, d1))))"

text \<open>The queries of the handler.\<close>

definition dest_transmission_mode :: "('v, 's, 't) DestinationHandler \<Rightarrow> TransmissionMode option" where
  "dest_transmission_mode d = (if d_state d = StateIdle then None else Some (transmission_mode (tparams d)))"

definition dest_transaction_id :: "('v, 's, 't) DestinationHandler \<Rightarrow> TransactionId option" where
  "dest_transaction_id d = transaction_id (tst d)"

end
