(* ===== verification/Cfdp_Transfer.thy ===== *)
theory Cfdp_Transfer
  imports Cfdp_Dest
begin

text \<open>
  What the CFDP destination handler of \<^verbatim>\<open>satrs/src/cfdp/dest.rs\<close> does with a whole transfer on the native
  filestore: a transfer that succeeds, and the end of one whose data never becomes complete.
\<close>

subsection \<open>A transfer\<close>

text \<open>A run of the handler: a list of packets and of polls without one.\<close>

fun run_packets ::
    "('v, 's, 't, 'pe) DestEnv \<Rightarrow> PacketInfo option list \<Rightarrow> ('v, 's, 't) DestinationHandler \<Rightarrow>
     ('pe DestError, u32) res list \<times> ('v, 's, 't) DestinationHandler" where
  "run_packets env [] d = ([], d)"
| "run_packets env (p # ps) d =
     (let (r, d1) = state_machine env p d; (rs, d2) = run_packets env ps d1 in (r # rs, d2))"

lemma run_packets_append:
  "run_packets env (ps @ qs) d =
     (let (rs, d1) = run_packets env ps d; (rs', d2) = run_packets env qs d1 in (rs @ rs', d2))"
  by (induction ps arbitrary: d) (simp_all add: case_prod_unfold Let_def)

definition directive_packet :: "FileDirectiveType \<Rightarrow> bytes \<Rightarrow> PacketInfo option" where
  "directive_packet dir raw =
     Some \<lparr>pi_pdu_type = PduFileDirective, pi_pdu_directive = Some dir, pi_target = DestEntity, pi_raw_packet = raw\<rparr>"

definition data_packet :: "bytes \<Rightarrow> PacketInfo option" where
  "data_packet raw =
     Some \<lparr>pi_pdu_type = PduFileData, pi_pdu_directive = None, pi_target = DestEntity, pi_raw_packet = raw\<rparr>"

text \<open>The path a transfer writes to: a destination that is a directory gets the name of the source file.\<close>

definition target_path :: "file_system \<Rightarrow> MetadataPduReader \<Rightarrow> bytes option" where
  "target_path fs md =
     (if fs_dir fs (mdp_dest_file_name md)
      then map_option (path_push (mdp_dest_file_name md)) (path_file_name (mdp_src_file_name md))
      else Some (mdp_dest_file_name md))"

definition transfer_id :: "MetadataPduReader \<Rightarrow> TransactionId" where
  "transfer_id md = TransactionId_new (pc_source_id (mdp_conf md)) (pc_transaction_seq_num (mdp_conf md))"

text \<open>A handler that receives a file into \<open>path\<close>, of which it has \<open>c\<close>.\<close>

definition receiving ::
    "MetadataPduReader \<Rightarrow> bytes \<Rightarrow> (file_system, 's, 't) DestinationHandler \<Rightarrow> bytes \<Rightarrow> nat \<Rightarrow> Indication list \<Rightarrow>
     (file_system, 's, 't) DestinationHandler \<Rightarrow> bool" where
  "receiving md path d0 c n inds d \<longleftrightarrow>
     d_state d = StateBusy \<and> step d = ReceivingFileDataPdus \<and> transaction_id (tst d) = Some (transfer_id md) \<and>
     metadata_params (tst d) = mdp_params md \<and> progress (tst d) = of_nat n \<and> \<not> metadata_only (tst d) \<and>
     condition_code (tst d) = NoError \<and> delivery_code (tst d) = DeliveryIncomplete \<and> file_status (tst d) = Retained \<and>
     completion_disposition (tst d) = Completed \<and> pdu_conf (tparams d) = mdp_conf md \<and>
     dest_path_buf (file_properties (tparams d)) = path \<and> cksum_buf (tparams d) \<noteq> [] \<and> local_cfg d = local_cfg d0 \<and>
     fs_file (vfs d) = (fs_file (vfs d0))(path \<mapsto> c) \<and> fs_dir (vfs d) = fs_dir (vfs d0) \<and>
     cfdp_user d = cfdp_user d0 @ inds"

definition ready :: "('v, 's, 't) DestinationHandler \<Rightarrow> bool" where
  "ready d \<longleftrightarrow> d_state d = StateIdle \<and> progress (tst d) = 0 \<and> \<not> metadata_only (tst d) \<and>
     completion_disposition (tst d) = Completed \<and> length (src_file_name (file_properties (tparams d))) = 255 \<and>
     length (dest_file_name (file_properties (tparams d))) = 255 \<and> cksum_buf (tparams d) \<noteq> []"

definition md_plain :: "MetadataPduReader \<Rightarrow> bool" where
  "md_plain md \<longleftrightarrow> mdp_src_file_name md \<noteq> [] \<and> mdp_dest_file_name md \<noteq> [] \<and> length (mdp_src_file_name md) \<le> 255 \<and>
     length (mdp_dest_file_name md) \<le> 255 \<and> utf8_ok (mdp_src_file_name md) \<and> utf8_ok (mdp_dest_file_name md) \<and>
     mdp_options md = [] \<and> pc_trans_mode (mdp_conf md) = Unacknowledged \<and> \<not> closure_requested (mdp_params md)"

lemma take_overwrite: "length ys \<le> length xs \<Longrightarrow> take (length ys) (overwrite 0 ys xs) = ys"
  by (simp add: overwrite_def)

lemma native_open_target:
  assumes "os path = None" "\<not> fs_dir fs path"
  shows "(if Native_exists fs path then Native_truncate_file os fs path else Native_create_file os fs path) =
    (Ok (), fs_put fs path (FileNode []))"
  using assms by (auto simp: Native_truncate_file_def Native_create_file_def os_open_ok native_views)

definition metadata_indication :: "MetadataPduReader \<Rightarrow> Indication" where
  "metadata_indication md = MetadataRecvd
     \<lparr>mr_id = transfer_id md, mr_source_id = pc_source_id (mdp_conf md), mr_file_size = md_file_size (mdp_params md),
      mr_src_file_name = mdp_src_file_name md, mr_dest_file_name = mdp_dest_file_name md, mr_msgs_to_user = []\<rparr>"

lemma target_path_step:
  assumes "target_path fs md = Some path"
  shows "(if Native_exists fs (mdp_dest_file_name md) \<and> VirtualFilestore_is_dir (NativeFilestore_ops crc os) fs (mdp_dest_file_name md)
      then (case path_file_name (mdp_src_file_name md) of
              None \<Rightarrow> Err PathConcat | Some source_name \<Rightarrow> Ok (path_push (mdp_dest_file_name md) source_name))
      else Ok (mdp_dest_file_name md)) = Ok path"
  using assms native_views(4) [of fs "mdp_dest_file_name md"]
  by (auto simp: VirtualFilestore_is_dir_def native_views target_path_def split: if_splits option.splits)

lemma metadata_starts:
  assumes "ready d" "md_plain md" "de_metadata env raw = Ok md"
    and cfg: "remote_cfg_table d (ubf_value (mdp_source_id md)) \<noteq> None"
    and vf: "de_vfs env = NativeFilestore_ops crc os" "de_path_exists env = Native_exists"
    and path: "target_path (vfs d) md = Some path" "os path = None" "\<not> fs_dir (vfs d) path"
  shows "\<exists>d'. state_machine env (directive_packet MetadataPdu raw) d = (Ok 0, d') \<and>
    receiving md path d [] 0 [metadata_indication md] d'"
proof -
  define r where "r = handle_metadata_pdu env raw d"
  obtain cf where cf: "remote_cfg_table d (ubf_value (mdp_source_id md)) = Some cf" using cfg by blast
  have r: "r = (Ok (), d\<lparr>step := TransactionStart, d_state := StateBusy, tparams := (tparams d)\<lparr>
      tstate := (tst d)\<lparr>condition_code := NoError, delivery_code := DeliveryIncomplete, file_status := Unreported, metadata_params := mdp_params md\<rparr>,
      remote_cfg := Some cf,
      file_properties := (file_properties (tparams d))\<lparr>
        src_file_name := overwrite 0 (mdp_src_file_name md) (src_file_name (file_properties (tparams d))),
        src_file_name_len := length (mdp_src_file_name md),
        dest_file_name := overwrite 0 (mdp_dest_file_name md) (dest_file_name (file_properties (tparams d))),
        dest_file_name_len := length (mdp_dest_file_name md)\<rparr>,
      pdu_conf := mdp_conf md, msgs_to_user_size := 0\<rparr>\<rparr>)"
    using assms(1-3) cf
    by (simp add: r_def handle_metadata_pdu_def ready_def md_plain_def get_remote_config_def store_file_names_def
        copy_into_def TransactionParams_reset_def Let_def)
  have fsm: "state_machine env (directive_packet MetadataPdu raw) d = fsm_busy env (snd r)"
    using r by (simp add: state_machine_def directive_packet_def insert_packet_def handle_file_directive_def r_def [symmetric])
  show ?thesis
    unfolding fsm r
    using assms(1,2) native_open_target [of os path, OF path(2,3)]
    by (cases "Native_exists (vfs d) path") (simp_all add: fsm_busy_def transaction_start_def ready_def md_plain_def slice_def take_overwrite vf Let_def
       target_path_step [OF path(1)]
       receiving_def read_msgs_to_user.simps fs_views_put path transfer_id_def metadata_indication_def length_overwrite)
qed

definition segment_indications :: "LocalEntityConfig \<Rightarrow> TransactionId \<Rightarrow> FileDataPdu list \<Rightarrow> Indication list" where
  "segment_indications cfg tid fds =
     (if ind_file_segment_recv (indication_cfg cfg)
      then map (\<lambda>fd. FileSegmentRecvd \<lparr>fs_id = tid, fs_offset = fd_offset fd, fs_length = length (fd_file_data fd),
                                       fs_segment_metadata = fd_segment_metadata fd\<rparr>) fds
      else [])"

text \<open>The content of a file after the segments, in the order in which they came.\<close>

definition write_segments :: "FileDataPdu list \<Rightarrow> bytes \<Rightarrow> bytes" where
  "write_segments fds c = fold (\<lambda>fd. file_write (unat (fd_offset fd)) (fd_file_data fd)) fds c"

definition data_len :: "FileDataPdu list \<Rightarrow> nat" where
  "data_len fds = sum_list (map (\<lambda>fd. length (fd_file_data fd)) fds)"

lemma native_write_target:
  "os path = None \<Longrightarrow> fs_file fs path = Some c \<Longrightarrow>
   Native_write_data os fs path off data = (Ok (), fs_put fs path (FileNode (file_write (unat off) data c)))"
  using native_views [of fs path]
  by (auto simp: Native_write_data_def os_open_ok)

lemma data_received:
  assumes rc: "receiving md path d0 c n inds d" and fd: "de_file_data env raw = Ok fd"
    and vf: "de_vfs env = NativeFilestore_ops crc os" "os path = None"
  shows "\<exists>d'. state_machine env (data_packet raw) d = (Ok 0, d') \<and>
    receiving md path d0 (file_write (unat (fd_offset fd)) (fd_file_data fd) c) (n + length (fd_file_data fd))
      (inds @ segment_indications (local_cfg d0) (transfer_id md) [fd]) d'"
proof -
  have c: "fs_file (vfs d) path = Some c" and nd: "\<not> fs_dir (vfs d) path"
    using rc native_views(4) [of "vfs d" path c] by (auto simp: receiving_def)
  show ?thesis
    using rc fd nd
    by (simp add: state_machine_def data_packet_def insert_packet_def handle_file_data_def fsm_busy_def vf
       native_write_target [of os path, OF vf(2) c] receiving_def segment_indications_def fs_views_put Let_def)
qed

lemma data_run:
  assumes "receiving md path d0 c n inds d" "map (de_file_data env) raws = map Ok fds"
    and vf: "de_vfs env = NativeFilestore_ops crc os" "os path = None"
  shows "\<exists>d'. run_packets env (map data_packet raws) d = (replicate (length raws) (Ok 0), d') \<and>
    receiving md path d0 (write_segments fds c) (n + data_len fds)
      (inds @ segment_indications (local_cfg d0) (transfer_id md) fds) d'"
  using assms(1,2)
proof (induction raws arbitrary: d c n inds fds)
  case Nil
  then show ?case by (simp add: write_segments_def data_len_def segment_indications_def)
next
  case (Cons raw raws)
  then obtain fd fds' where fds: "fds = fd # fds'" and fd: "de_file_data env raw = Ok fd"
      and rest: "map (de_file_data env) raws = map Ok fds'" by auto
  obtain d1 where d1: "state_machine env (data_packet raw) d = (Ok 0, d1)"
      "receiving md path d0 (file_write (unat (fd_offset fd)) (fd_file_data fd) c) (n + length (fd_file_data fd))
        (inds @ segment_indications (local_cfg d0) (transfer_id md) [fd]) d1"
    using data_received [OF Cons.prems(1) fd vf] by blast
  show ?case using Cons.IH [OF d1(2) rest] d1(1)
    by (auto simp: fds write_segments_def data_len_def segment_indications_def add.assoc)
qed

definition eof_indications :: "LocalEntityConfig \<Rightarrow> TransactionId \<Rightarrow> Indication list" where
  "eof_indications cfg tid = (if ind_eof_recv (indication_cfg cfg) then [EofRecvd tid] else [])"

text \<open>The checksum of a file agrees with the one of the EOF PDU.\<close>

definition checksum_good :: "'dg CrcOps \<Rightarrow> ChecksumType \<Rightarrow> bytes \<Rightarrow> u32 \<Rightarrow> bool" where
  "checksum_good crc ty c x =
     (case ty of Modular \<Rightarrow> modular_checksum c = x | Crc32 \<Rightarrow> crc_of crc c = x | NullChecksum \<Rightarrow> True | ChecksumOther n \<Rightarrow> False)"

lemma dest_checksum_good:
  assumes "fst (vf_checksum_verify (de_vfs env) (vfs d) (dest_path_buf (file_properties (tparams d)))
      (md_checksum_type (metadata_params (tst d))) x (cksum_buf (tparams d))) = Ok True" "\<not> metadata_only (tst d)"
  shows "\<exists>buf. dest_checksum_verify env x d =
    (Ok True, if md_checksum_type (metadata_params (tst d)) = NullChecksum
              then upd_tstate (\<lambda>t. t\<lparr>delivery_code := DeliveryComplete, condition_code := NoError\<rparr>) d
              else d\<lparr>tparams := (tparams d)\<lparr>cksum_buf := buf\<rparr>\<rparr>)"
  using assms by (auto simp: dest_checksum_verify_def case_prod_unfold Let_def)

lemma eof_completes:
  assumes rc: "receiving md path d0 c n inds d" and eof: "de_eof env raw = Ok eof" "eof_condition_code eof = NoError"
    and n: "n \<le> unat (eof_file_size eof)" and md: "md_plain md"
    and good: "checksum_good crc (md_checksum_type (mdp_params md)) c (eof_file_checksum eof)"
    and vf: "de_vfs env = NativeFilestore_ops crc os" "os path = None" and crc: "crc_ok crc"
  shows "\<exists>d'. state_machine env (directive_packet EofPdu raw) d = (Ok 0, d') \<and> d_state d' = StateIdle \<and>
    progress (tst d') = of_nat n \<and> fs_file (vfs d') = (fs_file (vfs d0))(path \<mapsto> c) \<and> fs_dir (vfs d') = fs_dir (vfs d0) \<and>
    local_cfg d' = local_cfg d0 \<and>
    cfdp_user d' = cfdp_user d0 @ inds @ eof_indications (local_cfg d0) (transfer_id md) @ [TransactionFinished
      \<lparr>tf_id = transfer_id md, tf_condition_code = NoError,
       tf_delivery_code = (if md_checksum_type (mdp_params md) = NullChecksum then DeliveryComplete else DeliveryIncomplete),
       tf_file_status = Retained\<rparr>]"
proof -
  have "unat (eof_file_size eof) < 2 ^ LENGTH(64)" by (rule unsigned_less)
  then have "n < 2 ^ 64" using n by simp
  then have le: "\<not> (of_nat n :: u64) > eof_file_size eof"
    using n by (simp add: word_less_nat_alt unat_of_nat take_bit_nat_eq_self)
  have c: "fs_file (vfs d) path = Some c" using rc by (simp add: receiving_def)
  have ck: "fst (Native_checksum_verify crc os (vfs d) path (md_checksum_type (mdp_params md)) (eof_file_checksum eof) (cksum_buf (tparams d))) = Ok True"
    using native_checksum [OF crc _ c, where os = os] good vf(2) rc by (auto simp: checksum_good_def receiving_def split: ChecksumType.splits)
  define d1 where "d1 = (if ind_eof_recv (indication_cfg (local_cfg d0)) then d\<lparr>cfdp_user := cfdp_user d @ [EofRecvd (transfer_id md)]\<rparr> else d)"
  have f1: "vfs d1 = vfs d" "tparams d1 = tparams d" by (simp_all add: d1_def)
  define d2 where "d2 = upd_tstate (\<lambda>t. t\<lparr>checksum := eof_file_checksum eof\<rparr>) d1"
  obtain buf where cs: "dest_checksum_verify env (eof_file_checksum eof) d2 =
      (Ok True, if md_checksum_type (mdp_params md) = NullChecksum
              then upd_tstate (\<lambda>t. t\<lparr>delivery_code := DeliveryComplete, condition_code := NoError\<rparr>) d2
              else d2\<lparr>tparams := (tparams d2)\<lparr>cksum_buf := buf\<rparr>\<rparr>)" (is "_ = (_, ?d3)")
    using dest_checksum_good [of env d2 "eof_file_checksum eof"] ck rc by (auto simp: d2_def f1 receiving_def vf)
  have ins: "handle_eof_pdu env raw d = (Ok (), file_transfer_complete_transition ?d3)"
    using rc eof le md cs
    by (simp add: handle_eof_pdu_def handle_no_error_eof_pdu_def receiving_def transmission_mode_def md_plain_def
        d1_def d2_def split: if_splits)
  show ?thesis
    using rc md
    by (simp add: state_machine_def directive_packet_def insert_packet_def handle_file_directive_def ins fsm_busy_def
      file_transfer_complete_transition_def transmission_mode_def receiving_def md_plain_def d1_def d2_def eof_indications_def
      transfer_completion_def notice_of_completion_def dest_reset_def TransactionParams_reset_def)
qed

text \<open>Segments that follow each other make up the file as it was sent.\<close>

fun in_order :: "nat \<Rightarrow> FileDataPdu list \<Rightarrow> bool" where
  "in_order n [] = True"
| "in_order n (fd # fds) \<longleftrightarrow> unat (fd_offset fd) = n \<and> in_order (n + length (fd_file_data fd)) fds"

lemma write_segments_in_order:
  "in_order (length c) fds \<Longrightarrow> write_segments fds c = c @ concat (map fd_file_data fds)"
proof (induction fds arbitrary: c)
  case (Cons fd fds)
  have "file_write (length c) (fd_file_data fd) c = c @ fd_file_data fd" by (simp add: file_write_def)
  then show ?case using Cons.IH [of "c @ fd_file_data fd"] Cons.prems by (simp add: write_segments_def)
qed (simp add: write_segments_def)

text \<open>
  C3: a file transfer in unacknowledged mode. A handler that is ready gets the metadata PDU, the file data
  PDUs in any order and number, and an EOF PDU with the checksum of what was written, on a file system
  that does not refuse the destination. Every call succeeds, the destination (a file in the directory
  when the destination is one) holds the segments and no other file changed, in order they are the
  file that was sent, and the user gets the indications in order. The handler is idle again. The
  finished indication says the delivery is complete for the null checksum only.
\<close>

theorem dest_transfer:
  assumes "ready d" "md_plain md"
    and "de_vfs env = NativeFilestore_ops crc os" "de_path_exists env = Native_exists" "crc_ok crc"
    and "de_metadata env rm = Ok md" "map (de_file_data env) rds = map Ok fds" "de_eof env re = Ok eof"
    and "remote_cfg_table d (ubf_value (mdp_source_id md)) \<noteq> None"
    and "target_path (vfs d) md = Some path" "os path = None" "\<not> fs_dir (vfs d) path"
    and "eof_condition_code eof = NoError" "data_len fds \<le> unat (eof_file_size eof)"
    and "checksum_good crc (md_checksum_type (mdp_params md)) (write_segments fds []) (eof_file_checksum eof)"
  shows "\<exists>d'. run_packets env (directive_packet MetadataPdu rm # map data_packet rds @ [directive_packet EofPdu re]) d =
      (replicate (length rds + 2) (Ok 0), d') \<and> d_state d' = StateIdle \<and>
    fs_file (vfs d') = (fs_file (vfs d))(path \<mapsto> write_segments fds []) \<and> fs_dir (vfs d') = fs_dir (vfs d) \<and>
    (in_order 0 fds \<longrightarrow> write_segments fds [] = concat (map fd_file_data fds)) \<and>
    progress (tst d') = of_nat (data_len fds) \<and>
    cfdp_user d' = cfdp_user d @ [metadata_indication md] @ segment_indications (local_cfg d) (transfer_id md) fds @
      eof_indications (local_cfg d) (transfer_id md) @ [TransactionFinished
      \<lparr>tf_id = transfer_id md, tf_condition_code = NoError,
       tf_delivery_code = (if md_checksum_type (mdp_params md) = NullChecksum then DeliveryComplete else DeliveryIncomplete),
       tf_file_status = Retained\<rparr>]"
proof -
  obtain d1 where d1: "state_machine env (directive_packet MetadataPdu rm) d = (Ok 0, d1)"
      "receiving md path d [] 0 [metadata_indication md] d1"
    using metadata_starts [where os = os and path = path, OF assms(1,2,6,9,3,4,10-12)] by blast
  obtain d2 where d2: "run_packets env (map data_packet rds) d1 = (replicate (length rds) (Ok 0), d2)"
      "receiving md path d (write_segments fds []) (data_len fds)
        ([metadata_indication md] @ segment_indications (local_cfg d) (transfer_id md) fds) d2"
    using data_run [where os = os and path = path, OF d1(2) assms(7,3,11)] by auto
  show ?thesis
    using eof_completes [where os = os and path = path, OF d2(2) assms(8,13,14,2,15,3,11,5)] d1(1) d2(1)
      write_segments_in_order [of "[]" fds]
    by (auto simp: run_packets_append replicate_append_same)
qed

subsection \<open>The check limit\<close>

text \<open>A handler that waits for missing data after an EOF PDU: the file in \<open>path\<close> does not have its checksum.\<close>

definition check_waiting ::
    "'dg CrcOps \<Rightarrow> RemoteEntityConfig \<Rightarrow> TransactionId \<Rightarrow> bytes \<Rightarrow> bytes \<Rightarrow> (file_system, 's, 't) DestinationHandler \<Rightarrow> bool" where
  "check_waiting crc cfg tid path c d \<longleftrightarrow>
     d_state d = StateBusy \<and> step d = ReceivingFileDataPdusWithCheckLimitHandling \<and> transaction_id (tst d) = Some tid \<and>
     current_check_timer (tst d) \<noteq> None \<and> remote_cfg (tparams d) = Some cfg \<and> \<not> metadata_only (tst d) \<and>
     md_checksum_type (metadata_params (tst d)) \<in> {Modular, Crc32} \<and>
     \<not> checksum_good crc (md_checksum_type (metadata_params (tst d))) c (checksum (tst d)) \<and>
     delivery_code (tst d) = DeliveryIncomplete \<and> transmission_mode (tparams d) = Unacknowledged \<and>
     \<not> closure_requested (metadata_params (tst d)) \<and> cksum_buf (tparams d) \<noteq> [] \<and>
     dest_path_buf (file_properties (tparams d)) = path \<and> fs_file (vfs d) path = Some c \<and>
     get_fault_handler (default_fault_handler (local_cfg d)) CheckLimitReached = NoticeOfCancellation"

lemma crc_loop_buf: "length (snd (crc_loop crc dg buf c)) = length buf"
  by (induction crc dg buf c rule: crc_loop.induct) (simp add: crc_loop.simps Let_def)

lemma native_checksum_buf: "length (snd (Native_checksum_verify crc os fs path ty x buf)) = length buf"
  by (cases ty; cases "open_file os fs path") (simp_all add: Native_checksum_verify_def case_prod_unfold Let_def crc_loop_buf)

lemma check_waiting_verify:
  assumes "check_waiting crc cfg tid path c d" "de_vfs env = NativeFilestore_ops crc os" "os path = None" "crc_ok crc"
  obtains buf where "dest_checksum_verify env (checksum (tst d)) d = (Ok False, d\<lparr>tparams := (tparams d)\<lparr>cksum_buf := buf\<rparr>\<rparr>)" "buf \<noteq> []"
proof -
  let ?v = "Native_checksum_verify crc os (vfs d) path (md_checksum_type (metadata_params (tst d))) (checksum (tst d)) (cksum_buf (tparams d))"
  have "fst ?v = Ok False"
    using native_checksum [OF assms(4), of "cksum_buf (tparams d)" "vfs d" path c os] assms(1,3)
    by (auto simp: check_waiting_def checksum_good_def)
  moreover have "snd ?v \<noteq> []" using assms(1) native_checksum_buf [of crc os "vfs d" path]
    by (metis check_waiting_def length_0_conv)
  ultimately show thesis using assms(1,2) that [of "snd ?v"]
    by (auto simp: dest_checksum_verify_def check_waiting_def case_prod_unfold Let_def)
qed

lemma check_wait_again:
  assumes w: "check_waiting crc cfg tid path c d" and vf: "de_vfs env = NativeFilestore_ops crc os" "os path = None" "crc_ok crc"
    and ex: "\<And>t. de_has_expired env t" and lim: "Suc (unat (current_check_count (tst d))) < unat (check_limit cfg)"
  shows "\<exists>d'. state_machine env None d = (Ok 0, d') \<and> check_waiting crc cfg tid path c d' \<and>
    unat (current_check_count (tst d')) = Suc (unat (current_check_count (tst d))) \<and> vfs d' = vfs d \<and>
    cfdp_user d' = cfdp_user d \<and> local_cfg d' = local_cfg d \<and> file_status (tst d') = file_status (tst d) \<and>
    progress (tst d') = progress (tst d)"
proof -
  obtain buf where v: "dest_checksum_verify env (checksum (tst d)) d = (Ok False, d\<lparr>tparams := (tparams d)\<lparr>cksum_buf := buf\<rparr>\<rparr>)" "buf \<noteq> []"
    using check_waiting_verify [OF w vf] .
  have "unat (check_limit cfg) < 2 ^ LENGTH(32)" by (rule unsigned_less)
  then have s: "unat (current_check_count (tst d) + 1) = Suc (unat (current_check_count (tst d)))"
    using lim by (simp add: unat_word_ariths)
  then have l: "\<not> check_limit cfg \<le> current_check_count (tst d) + 1" using lim by (simp add: word_le_nat_alt)
  show ?thesis using w v(2) l s
    by (auto simp: state_machine_def fsm_busy_def check_limit_handling_def check_waiting_def v(1) ex transmission_mode_def)
qed

lemma check_wait_ends:
  assumes w: "check_waiting crc cfg tid path c d" and vf: "de_vfs env = NativeFilestore_ops crc os" "os path = None" "crc_ok crc"
    and ex: "\<And>t. de_has_expired env t" and lim: "Suc (unat (current_check_count (tst d))) = unat (check_limit cfg)"
  shows "\<exists>d'. state_machine env None d = (Ok 0, d') \<and> d_state d' = StateIdle \<and>
    fs_file (vfs d') = (fs_file (vfs d))(path := if disposition_on_cancellation cfg then None else Some c) \<and>
    user_fault_handler (default_fault_handler (local_cfg d')) = user_fault_handler (default_fault_handler (local_cfg d)) @
      [\<lparr>fr_code = NoticeOfCancellation, fr_transaction = tid, fr_condition = CheckLimitReached, fr_progress = progress (tst d)\<rparr>] \<and>
    cfdp_user d' = cfdp_user d @ [TransactionFinished
      \<lparr>tf_id = tid, tf_condition_code = CheckLimitReached, tf_delivery_code = DeliveryIncomplete,
       tf_file_status = (if disposition_on_cancellation cfg then DiscardDeliberately else file_status (tst d))\<rparr>]"
proof -
  obtain buf where v: "dest_checksum_verify env (checksum (tst d)) d = (Ok False, d\<lparr>tparams := (tparams d)\<lparr>cksum_buf := buf\<rparr>\<rparr>)"
    using check_waiting_verify [OF w vf] .
  have "unat (check_limit cfg) < 2 ^ LENGTH(32)" by (rule unsigned_less)
  then have "unat (current_check_count (tst d) + 1) = unat (check_limit cfg)"
    using lim by (simp add: unat_word_ariths)
  then have l: "check_limit cfg \<le> current_check_count (tst d) + 1" by (simp add: word_le_nat_alt)
  have rm: "Native_remove_file os (vfs d) path = (Ok (), fs_drop (vfs d) path)"
    using w vf(2) native_views [of "vfs d" path] by (simp add: Native_remove_file_def check_waiting_def os_open_ok)
  show ?thesis using w l rm
    by (auto simp: state_machine_def fsm_busy_def check_limit_handling_def check_waiting_def v ex transmission_mode_def
      declare_fault_def get_fault_handler_def report_fault_def notice_of_cancellation_def transfer_completion_def
      notice_of_completion_def vf(1) fs_views_put dest_reset_def TransactionParams_reset_def fun_upd_idem)
qed

text \<open>
  C7: a receiver does not wait for missing data for ever. When the file keeps failing its checksum and
  every poll comes after the check timer has expired, the transfer ends with the poll that brings the
  number of checks to the limit of the remote entity, not before: the user is told so once, the
  fault handler is called, and the incomplete file is removed when the remote entity is configured so.
\<close>

theorem check_limit_ends:
  assumes "check_waiting crc cfg tid path c d" "de_vfs env = NativeFilestore_ops crc os" "os path = None" "crc_ok crc"
    and "\<And>t. de_has_expired env t" "unat (current_check_count (tst d)) + n = unat (check_limit cfg)" "0 < n"
  shows "\<exists>d'. run_packets env (replicate n None) d = (replicate n (Ok 0), d') \<and> d_state d' = StateIdle \<and>
    fs_file (vfs d') = (fs_file (vfs d))(path := if disposition_on_cancellation cfg then None else Some c) \<and>
    user_fault_handler (default_fault_handler (local_cfg d')) = user_fault_handler (default_fault_handler (local_cfg d)) @
      [\<lparr>fr_code = NoticeOfCancellation, fr_transaction = tid, fr_condition = CheckLimitReached, fr_progress = progress (tst d)\<rparr>] \<and>
    cfdp_user d' = cfdp_user d @ [TransactionFinished
      \<lparr>tf_id = tid, tf_condition_code = CheckLimitReached, tf_delivery_code = DeliveryIncomplete,
       tf_file_status = (if disposition_on_cancellation cfg then DiscardDeliberately else file_status (tst d))\<rparr>] \<and>
    (\<forall>k<n. d_state (snd (run_packets env (replicate k None) d)) = StateBusy)"
  using assms(1,6,7)
proof (induction n arbitrary: d)
  case (Suc n)
  note vf = assms(2-4)
  show ?case
  proof (cases "n = 0")
    case True
    moreover have "d_state d = StateBusy" using Suc.prems(1) by (simp add: check_waiting_def)
    ultimately show ?thesis
      using check_wait_ends [OF Suc.prems(1) vf assms(5)] Suc.prems(2) by force
  next
    case False
    then obtain d1 where d1: "state_machine env None d = (Ok 0, d1)" "check_waiting crc cfg tid path c d1"
        "unat (current_check_count (tst d1)) = Suc (unat (current_check_count (tst d)))" "vfs d1 = vfs d"
        "cfdp_user d1 = cfdp_user d" "local_cfg d1 = local_cfg d" "file_status (tst d1) = file_status (tst d)"
        "progress (tst d1) = progress (tst d)"
      using check_wait_again [OF Suc.prems(1) vf assms(5)] Suc.prems by auto
    have "d_state (snd (run_packets env (replicate k None) d)) = StateBusy"
      if "k < Suc n" "\<forall>k<n. d_state (snd (run_packets env (replicate k None) d1)) = StateBusy" for k
      using that Suc.prems(1) d1(1) by (cases k) (auto simp: check_waiting_def case_prod_unfold Let_def)
    then show ?thesis using Suc.IH [OF d1(2)] Suc.prems(2) False d1 by (auto simp: Let_def)
  qed
qed simp

subsection \<open>Witnesses\<close>

definition demo_id :: UnsignedByteField where
  "demo_id = \<lparr>ubf_width = 1, ubf_value = 5\<rparr>"

definition demo_md :: MetadataPduReader where
  "demo_md =
     \<lparr>mdp_params = \<lparr>closure_requested = False, md_checksum_type = Modular, md_file_size = 5\<rparr>,
      mdp_conf = \<lparr>pc_source_id = demo_id, pc_transaction_seq_num = demo_id, pc_trans_mode = Unacknowledged\<rparr>,
      mdp_source_id = demo_id, mdp_dest_id = demo_id, mdp_src_file_name = [0x61], mdp_dest_file_name = [0x62], mdp_options = []\<rparr>"

definition demo_env :: "(file_system, bytes list, nat, unit) DestEnv" where
  "demo_env =
     \<lparr>de_vfs = NativeFilestore_ops demo_crc (\<lambda>_. None), de_path_exists = Native_exists,
      de_metadata = (\<lambda>raw. if raw = [7] then Ok demo_md else Err ()),
      de_file_data = (\<lambda>raw. if raw = [] then Err () else
        Ok \<lparr>fd_offset = ucast (hd raw), fd_file_data = tl raw, fd_segment_metadata = None\<rparr>),
      de_eof = (\<lambda>raw. Ok \<lparr>eof_condition_code = NoError, eof_file_checksum = 0x06020304, eof_file_size = 5\<rparr>),
      de_msg_to_user = (\<lambda>raw. Err ()), de_finished_write = (\<lambda>fin buf. (Ok 0, buf)),
      de_send_pdu = (\<lambda>s ty dir pdu. (Ok (), s @ [pdu])), de_check_timer = (\<lambda>_ _ _. 0),
      de_has_expired = (\<lambda>_. True), de_timer_reset = id\<rparr>"

definition demo_remote :: RemoteEntityConfig where
  "demo_remote = RemoteEntityConfig_new_with_default_values demo_id 100 100 False False Unacknowledged Modular"

definition demo_local :: LocalEntityConfig where
  "demo_local = \<lparr>local_id = demo_id, indication_cfg = IndicationConfig_default, default_fault_handler = DefaultFaultHandler_new\<rparr>"

definition demo_dest :: "(file_system, bytes list, nat) DestinationHandler" where
  "demo_dest = DestinationHandler_new (mdp_params demo_md) (mdp_conf demo_md) demo_local 64 [] demo_fs [5 \<mapsto> demo_remote]"

lemmas demo_dest_defs = demo_dest_def demo_env_def demo_md_def demo_id_def demo_remote_def demo_local_def demo_fs_def
  DestinationHandler_new_def TransactionParams_default_def TransferState_default_def FileProperties_default_def
  RemoteEntityConfig_new_with_default_values_def

lemma demo_checksum: "modular_checksum [1, 2, 3, 4, 5] = 0x06020304"
  by (simp add: modular_checksum_word) (simp add: modular_checksum_def from_be_bytes_def from_be_def)

theorem dest_transfer_witness:
  "\<exists>d'. run_packets demo_env [directive_packet MetadataPdu [7], data_packet [0, 1, 2, 3, 4], data_packet [4, 5],
      directive_packet EofPdu []] demo_dest = ([Ok 0, Ok 0, Ok 0, Ok 0], d') \<and> d_state d' = StateIdle \<and>
    fs_file (vfs d') [0x62] = Some [1, 2, 3, 4, 5]"
proof -
  let ?fds = "[\<lparr>fd_offset = 0, fd_file_data = [1, 2, 3, 4], fd_segment_metadata = None\<rparr>,
    \<lparr>fd_offset = 4, fd_file_data = [5], fd_segment_metadata = None\<rparr>] :: FileDataPdu list"
  let ?eof = "\<lparr>eof_condition_code = NoError, eof_file_checksum = 0x06020304, eof_file_size = 5\<rparr> :: EofPduReader"
  have seg: "write_segments ?fds [] = [1, 2, 3, 4, 5]" by (simp add: write_segments_def file_write_def)
  have ready: "ready demo_dest" by (simp add: ready_def demo_dest_defs)
  have plain: "md_plain demo_md" by (simp add: md_plain_def demo_dest_defs)
  have path: "target_path (vfs demo_dest) demo_md = Some [0x62]" "\<not> fs_dir (vfs demo_dest) [0x62]"
    by (simp_all add: target_path_def fs_dir_def demo_dest_defs)
  have env: "de_vfs demo_env = NativeFilestore_ops demo_crc (\<lambda>_. None)" "de_path_exists demo_env = Native_exists"
    "de_metadata demo_env [7] = Ok demo_md" "map (de_file_data demo_env) [[0, 1, 2, 3, 4], [4, 5]] = map Ok ?fds"
    "de_eof demo_env [] = Ok ?eof" by (simp_all add: demo_env_def)
  have cfg: "remote_cfg_table demo_dest (ubf_value (mdp_source_id demo_md)) \<noteq> None" by (simp add: demo_dest_defs)
  have good: "checksum_good demo_crc (md_checksum_type (mdp_params demo_md)) (write_segments ?fds []) (eof_file_checksum ?eof)"
    by (simp add: seg demo_checksum checksum_good_def demo_md_def)
  obtain d' where "run_packets demo_env (directive_packet MetadataPdu [7] # map data_packet [[0, 1, 2, 3, 4], [4, 5]] @
      [directive_packet EofPdu []]) demo_dest = (replicate (length [[0, 1, 2, 3, 4], [4, 5 :: u8]] + 2) (Ok 0), d')"
    "d_state d' = StateIdle" "fs_file (vfs d') = (fs_file (vfs demo_dest))([0x62] \<mapsto> write_segments ?fds [])"
    using dest_transfer [OF ready plain env(1,2) demo_crc_ok env(3-5) cfg path(1) _ path(2) _ _ good]
    by (auto simp: data_len_def simp del: run_packets.simps)
  then show ?thesis by (intro exI [of _ d']) (simp add: seg numeral_eq_Suc del: run_packets.simps)
qed

theorem check_limit_ends_witness:
  "\<exists>d d'. run_packets demo_env [None, None] d = ([Ok 0, Ok 0], d') \<and> d_state d = StateBusy \<and> d_state d' = StateIdle"
proof -
  define d where "d = upd_tstate (\<lambda>t. t\<lparr>transaction_id := Some (TransactionId_new demo_id demo_id), current_check_timer := Some 0\<rparr>)
    (demo_dest\<lparr>d_state := StateBusy, step := ReceivingFileDataPdusWithCheckLimitHandling,
      tparams := (tparams demo_dest)\<lparr>remote_cfg := Some demo_remote,
        file_properties := (file_properties (tparams demo_dest))\<lparr>dest_path_buf := [0x61]\<rparr>\<rparr>\<rparr>)"
  have w: "check_waiting demo_crc demo_remote (TransactionId_new demo_id demo_id) [0x61] [1, 2, 3, 4, 5] d"
    using demo_checksum by (simp add: check_waiting_def d_def demo_dest_defs checksum_good_def fs_file_def transmission_mode_def
        get_fault_handler_def DefaultFaultHandler_new_def)
  have env: "de_has_expired demo_env t" "de_vfs demo_env = NativeFilestore_ops demo_crc (\<lambda>_. None)" for t
    by (simp_all add: demo_env_def)
  have lim: "unat (current_check_count (tst d)) + 2 = unat (check_limit demo_remote)" by (simp add: d_def demo_dest_defs)
  have two: "replicate 2 x = [x, x]" for x :: 'z by (simp add: numeral_2_eq_2)
  obtain d' where "run_packets demo_env (replicate 2 None) d = (replicate 2 (Ok 0), d')" "d_state d' = StateIdle"
    using check_limit_ends [OF w env(2) refl demo_crc_ok env(1) lim] by auto
  moreover have "d_state d = StateBusy" by (simp add: d_def)
  ultimately show ?thesis unfolding two by blast
qed

end
