(* ===== verification/Cfdp_Safety.thy ===== *)
theory Cfdp_Safety
  imports Cfdp_Transfer
begin

text \<open>
  The invariant of the CFDP destination handler of \<^verbatim>\<open>satrs/src/cfdp/dest.rs\<close>: its state and its step agree, and
  what it unwraps is there. It is kept by every call, and the handler does not panic on the part of the
  protocol that is implemented.
\<close>

subsection \<open>The invariant of the handler\<close>

definition dest_static :: "('v, 's, 't) DestinationHandler \<Rightarrow> bool" where
  "dest_static d \<longleftrightarrow>
     \<not> metadata_only (tst d) \<and> msgs_to_user_size (tparams d) = 0 \<and>
     length (src_file_name (file_properties (tparams d))) = 255 \<and> src_file_name_len (file_properties (tparams d)) \<le> 255 \<and>
     length (dest_file_name (file_properties (tparams d))) = 255 \<and> dest_file_name_len (file_properties (tparams d)) \<le> 255 \<and>
     (\<forall>code. get_fault_handler (default_fault_handler (local_cfg d)) code \<noteq> AbandonTransaction)"

definition busy :: "('v, 's, 't) DestinationHandler \<Rightarrow> bool" where
  "busy d \<longleftrightarrow> dest_static d \<and> d_state d = StateBusy \<and> remote_cfg (tparams d) \<noteq> None \<and>
     transmission_mode (tparams d) = Unacknowledged"

definition in_transfer :: "('v, 's, 't) DestinationHandler \<Rightarrow> bool" where
  "in_transfer d \<longleftrightarrow> busy d \<and> transaction_id (tst d) \<noteq> None \<and>
     step d \<in> {ReceivingFileDataPdus, ReceivingFileDataPdusWithCheckLimitHandling, TransferCompletion}"

definition dest_inv :: "('v, 's, 't) DestinationHandler \<Rightarrow> bool" where
  "dest_inv d \<longleftrightarrow> dest_static d \<and> d_state d = StateIdle \<or> busy d \<and> step d = TransactionStart \<or> in_transfer d"

text \<open>
  Packets of the part of the protocol that is implemented: unacknowledged mode, names that fit, no
  message to the user, no cancelled transfer, no prompt and no acknowledgement.
\<close>

definition supported :: "('v, 's, 't, 'pe) DestEnv \<Rightarrow> PacketInfo \<Rightarrow> bool" where
  "supported env p \<longleftrightarrow>
     (pi_target p \<noteq> DestEntity \<longrightarrow> pi_pdu_directive p \<noteq> None) \<and>
     pi_pdu_directive p \<notin> {Some AckPdu, Some PromptPdu} \<and>
     (case de_metadata env (pi_raw_packet p) of
        Ok md \<Rightarrow> (mdp_src_file_name md \<noteq> [] \<or> mdp_dest_file_name md \<noteq> []) \<and> length (mdp_src_file_name md) \<le> 255 \<and>
          length (mdp_dest_file_name md) \<le> 255 \<and> pc_trans_mode (mdp_conf md) = Unacknowledged \<and>
          list_all (\<lambda>opt. \<not> tlv_is_msg_to_user opt) (mdp_options md)
      | _ \<Rightarrow> True) \<and>
     (case de_eof env (pi_raw_packet p) of Ok eof \<Rightarrow> eof_condition_code eof = NoError | _ \<Rightarrow> True)"

text \<open>The filestore, the packet library and the sender report errors and do not panic; a PDU fits what was written.\<close>

definition env_safe :: "('v, 's, 't, 'pe) DestEnv \<Rightarrow> bool" where
  "env_safe env \<longleftrightarrow>
     (\<forall>v path. fst (vf_create_file (de_vfs env) v path) \<noteq> Panic \<and> fst (vf_truncate_file (de_vfs env) v path) \<noteq> Panic \<and>
        fst (vf_remove_file (de_vfs env) v path) \<noteq> Panic) \<and>
     (\<forall>v path off data. fst (vf_write_data (de_vfs env) v path off data) \<noteq> Panic) \<and>
     (\<forall>v path ty x buf. fst (vf_checksum_verify (de_vfs env) v path ty x buf) \<noteq> Panic) \<and>
     (\<forall>raw. de_metadata env raw \<noteq> Panic \<and> de_file_data env raw \<noteq> Panic \<and> de_eof env raw \<noteq> Panic) \<and>
     (\<forall>fin buf. case de_finished_write env fin buf of
        (Ok len, buf') \<Rightarrow> len \<le> length buf' | (Err e, buf') \<Rightarrow> True | (Panic, buf') \<Rightarrow> False) \<and>
     (\<forall>s ty dir pdu. fst (de_send_pdu env s ty dir pdu) \<noteq> Panic)"

text \<open>
  Hoare triples for the operations: the result of an operation is not a panic, a success satisfies \<open>Q\<close> and
  an error \<open>E\<close>.
\<close>

fun holds :: "('a \<Rightarrow> 'd \<Rightarrow> bool) \<Rightarrow> ('d \<Rightarrow> bool) \<Rightarrow> ('e, 'a) res \<times> 'd \<Rightarrow> bool" where
  "holds Q E (Ok x, d) \<longleftrightarrow> Q x d"
| "holds Q E (Err e, d) \<longleftrightarrow> E d"
| "holds Q E (Panic, d) \<longleftrightarrow> False"

lemma holds_mono: "holds P E m \<Longrightarrow> (\<And>x d. P x d \<Longrightarrow> Q x d) \<Longrightarrow> (\<And>d. E d \<Longrightarrow> F d) \<Longrightarrow> holds Q F m"
  by (cases m; cases "fst m") auto

lemma holds_bind:
  assumes "holds P E m" "\<And>x d. P x d \<Longrightarrow> holds Q E (f d x)"
  shows "holds Q E (case m of (r, d) \<Rightarrow> res_try r d (f d))"
  using assms by (cases m; cases "fst m") auto

lemma holds_map:
  "holds (\<lambda>x d. Q (g x) d) E m \<Longrightarrow> holds Q E (case m of (r, d) \<Rightarrow> (res_map g r, d))"
  by (cases m; cases "fst m") auto

lemma holds_if: "(b \<Longrightarrow> holds Q E x) \<Longrightarrow> (\<not> b \<Longrightarrow> holds Q E y) \<Longrightarrow> holds Q E (if b then x else y)"
  by simp

lemma holds_case: "fst m \<noteq> Panic \<Longrightarrow> (\<And>r v. r \<noteq> Panic \<Longrightarrow> holds Q E (f r v)) \<Longrightarrow> holds Q E (case m of (r, v) \<Rightarrow> f r v)"
  by (cases m) simp

lemma holds_pure:
  "r \<noteq> Panic \<Longrightarrow> (\<And>x. r = Ok x \<Longrightarrow> holds Q E (f x)) \<Longrightarrow> E d \<Longrightarrow> holds Q E (res_try r d f)"
  by (cases r) auto

declare res_map_err_Panic [simp]

lemma env_safe_np:
  assumes "env_safe env"
  shows "vf_create_file (de_vfs env) v path \<noteq> (Panic, v')" "vf_truncate_file (de_vfs env) v path \<noteq> (Panic, v')"
    "vf_remove_file (de_vfs env) v path \<noteq> (Panic, v')" "vf_write_data (de_vfs env) v path off data \<noteq> (Panic, v')"
    "vf_checksum_verify (de_vfs env) v path ty x buf \<noteq> (Panic, buf')"
    "de_metadata env raw \<noteq> Panic" "de_file_data env raw \<noteq> Panic" "de_eof env raw \<noteq> Panic"
    "de_finished_write env fin buf \<noteq> (Panic, buf')" "de_send_pdu env s pty dir pdu \<noteq> (Panic, s')"
    "de_finished_write env fin buf = (Ok len, buf') \<Longrightarrow> len \<le> length buf'"
proof -
  have np: "p \<noteq> (Panic, w)" if "fst p \<noteq> Panic" for p :: "('e, 'a) res \<times> 'w" and w using that by auto
  show "vf_create_file (de_vfs env) v path \<noteq> (Panic, v')" "vf_truncate_file (de_vfs env) v path \<noteq> (Panic, v')"
    "vf_remove_file (de_vfs env) v path \<noteq> (Panic, v')" "vf_write_data (de_vfs env) v path off data \<noteq> (Panic, v')"
    "vf_checksum_verify (de_vfs env) v path ty x buf \<noteq> (Panic, buf')"
    "de_metadata env raw \<noteq> Panic" "de_file_data env raw \<noteq> Panic" "de_eof env raw \<noteq> Panic"
    "de_send_pdu env s pty dir pdu \<noteq> (Panic, s')"
    using assms by (metis env_safe_def fst_conv)+
  have "case de_finished_write env fin buf of
        (Ok len, buf') \<Rightarrow> len \<le> length buf' | (Err e, buf') \<Rightarrow> True | (Panic, buf') \<Rightarrow> False"
    using assms by (simp add: env_safe_def)
  then show "de_finished_write env fin buf \<noteq> (Panic, buf')"
      "de_finished_write env fin buf = (Ok len, buf') \<Longrightarrow> len \<le> length buf'" by auto
qed

lemmas inv_defs = in_transfer_def busy_def dest_static_def transmission_mode_def

text \<open>The invariant does not depend on the fields an operation changes on the way.\<close>

lemma in_transfer_upd [simp]:
  "in_transfer (d\<lparr>cfdp_user := us\<rparr>) = in_transfer d"
  "in_transfer (d\<lparr>vfs := v\<rparr>) = in_transfer d"
  "in_transfer (d\<lparr>tparams := (tparams d)\<lparr>cksum_buf := buf\<rparr>\<rparr>) = in_transfer d"
  "in_transfer (d\<lparr>tparams := (tparams d)\<lparr>tstate := (tst d)\<lparr>progress := n\<rparr>\<rparr>\<rparr>) = in_transfer d"
  "in_transfer (d\<lparr>tparams := (tparams d)\<lparr>tstate := (tst d)\<lparr>checksum := x\<rparr>\<rparr>\<rparr>) = in_transfer d"
  "in_transfer (d\<lparr>tparams := (tparams d)\<lparr>tstate := (tst d)\<lparr>file_status := fs\<rparr>\<rparr>\<rparr>) = in_transfer d"
  "in_transfer (d\<lparr>tparams := (tparams d)\<lparr>tstate := (tst d)\<lparr>delivery_code := dc, condition_code := cc\<rparr>\<rparr>\<rparr>) = in_transfer d"
  "in_transfer (d\<lparr>tparams := (tparams d)\<lparr>tstate := (tst d)\<lparr>current_check_count := k, current_check_timer := tm\<rparr>\<rparr>\<rparr>) = in_transfer d"
  "in_transfer (d\<lparr>tparams := (tparams d)\<lparr>tstate := (tst d)\<lparr>current_check_timer := tm, current_check_count := k\<rparr>\<rparr>\<rparr>) = in_transfer d"
  by (simp_all add: inv_defs)

lemma in_transfer_inv: "in_transfer d \<Longrightarrow> dest_inv d"
  by (simp add: dest_inv_def)

lemma in_transferE:
  assumes "in_transfer d"
  obtains tid cfg where "transaction_id (tst d) = Some tid" "remote_cfg (tparams d) = Some cfg"
    "transmission_mode (tparams d) = Unacknowledged"
  using assms by (auto simp: in_transfer_def busy_def)

lemma declare_fault_safe:
  assumes "in_transfer d" "current_check_timer (tst d) = tm"
  shows "holds (\<lambda>c d'. in_transfer d' \<and> current_check_timer (tst d') = tm) dest_inv (declare_fault code d)"
proof -
  have fh: "get_fault_handler (default_fault_handler (local_cfg d)) code \<noteq> AbandonTransaction"
    using assms by (simp add: inv_defs)
  have arr: "handler_array (snd (report_fault fh tid code n)) = handler_array fh" for fh tid n
    by (simp add: report_fault_def Let_def split: option.splits)
  have gf: "get_fault_handler (snd (report_fault fh tid code n)) code' = get_fault_handler fh code'" for fh tid n code'
    by (simp add: get_fault_handler_def arr split: option.splits)
  obtain tid where "transaction_id (tst d) = Some tid" using assms by (auto simp: in_transfer_def)
  then show ?thesis
    using assms fh
    by (auto simp: declare_fault_def inv_defs gf notice_of_cancellation_def notice_of_suspension_def
        case_prod_unfold Let_def split: FaultHandlerCode.splits)
qed

lemma checksum_verify_safe:
  assumes "in_transfer d" "env_safe env" "current_check_timer (tst d) = tm"
  shows "holds (\<lambda>ok d'. in_transfer d' \<and> current_check_timer (tst d') = tm) dest_inv (dest_checksum_verify env x d)"
proof -
  let ?v = "vf_checksum_verify (de_vfs env) (vfs d) (dest_path_buf (file_properties (tparams d)))
      (md_checksum_type (metadata_params (tst d))) x (cksum_buf (tparams d))"
  obtain r buf where v: "?v = (r, buf)" by fastforce
  then have np: "r \<noteq> Panic" using assms(2) by (metis env_safe_def fst_conv)
  show ?thesis
    using assms np
    by (auto simp: dest_checksum_verify_def v Let_def split: res.splits FilestoreError.splits
        intro!: holds_bind [OF declare_fault_safe])
qed

lemma file_data_safe:
  assumes "dest_inv d" "env_safe env"
  shows "holds (\<lambda>_ d'. in_transfer d') dest_inv (handle_file_data env raw d)"
proof (cases "d_state d = StateIdle \<or> step d \<noteq> ReceivingFileDataPdus \<and> step d \<noteq> ReceivingFileDataPdusWithCheckLimitHandling")
  case True
  then show ?thesis using assms(1) by (simp add: handle_file_data_def)
next
  case False
  then have it: "in_transfer d" using assms(1) by (auto simp: dest_inv_def)
  show ?thesis
    unfolding handle_file_data_def if_not_P [OF False] Let_def
    apply (intro holds_pure holds_bind [where P = "\<lambda>_. in_transfer"])
    subgoal using env_safe_np(7) [OF assms(2)] by simp
    subgoal using it by (cases rule: in_transferE [OF it]) simp_all
    subgoal premises prems for fd x d1
    proof -
      obtain r v where w: "vf_write_data (de_vfs env) (vfs d1) (dest_path_buf (file_properties (tparams d1)))
          (fd_offset fd) (fd_file_data fd) = (r, v)" by fastforce
      have "in_transfer (d1\<lparr>vfs := v\<rparr>)" using prems(2) by simp
      moreover have "r \<noteq> Panic" using env_safe_np(4) [OF assms(2)] w by metis
      ultimately show ?thesis
        by (cases r) (auto simp: w inv_defs in_transfer_inv intro!: holds_bind [OF declare_fault_safe])
    qed
    subgoal using assms(1) .
    done
qed

lemma check_limit_start_safe:
  "in_transfer d \<Longrightarrow> holds (\<lambda>_. in_transfer) dest_inv (start_check_limit_handling env d)"
  by (auto simp: start_check_limit_handling_def inv_defs Let_def)

lemma no_error_eof_safe:
  assumes "in_transfer d" "env_safe env"
  shows "holds (\<lambda>_. in_transfer) dest_inv (handle_no_error_eof_pdu env eof d)"
  unfolding handle_no_error_eof_pdu_def Let_def
  apply (intro holds_bind [where P = "\<lambda>_. in_transfer"])
  subgoal using assms(1) by (auto intro!: holds_map holds_mono [OF declare_fault_safe])
  subgoal premises prems for stop d0
    apply (intro holds_if)
    subgoal using prems by simp
    apply (intro holds_bind [where P = "\<lambda>_. in_transfer"] holds_if)
    subgoal using prems assms(2) by (auto intro!: holds_map holds_mono [OF checksum_verify_safe] in_transfer_inv)
    subgoal using prems by simp
    subgoal for bad d2 by (auto intro!: holds_map holds_mono [OF declare_fault_safe])
    subgoal by simp
    subgoal by (intro holds_map holds_mono [OF check_limit_start_safe]) auto
    subgoal by simp
    done
  done

lemma transfer_complete_safe: "in_transfer d \<Longrightarrow> in_transfer (file_transfer_complete_transition d)"
  by (auto simp: file_transfer_complete_transition_def inv_defs)

lemma eof_safe:
  assumes "dest_inv d" "env_safe env" "\<And>eof. de_eof env raw = Ok eof \<Longrightarrow> eof_condition_code eof = NoError"
  shows "holds (\<lambda>_. in_transfer) dest_inv (handle_eof_pdu env raw d)"
proof (cases "d_state d = StateIdle \<or> step d \<noteq> ReceivingFileDataPdus")
  case True
  then show ?thesis using assms(1) by (simp add: handle_eof_pdu_def)
next
  case False
  then have it: "in_transfer d" using assms(1) by (auto simp: dest_inv_def)
  show ?thesis
    unfolding handle_eof_pdu_def if_not_P [OF False] Let_def
    apply (intro holds_pure holds_bind [where P = "\<lambda>_. in_transfer"])
    subgoal using env_safe_np(8) [OF assms(2)] by simp
    subgoal using it by (cases rule: in_transferE [OF it]) simp_all
    subgoal premises prems for eof x d1
    proof -
      have "eof_condition_code eof = NoError" using prems(1) assms(3) by (cases "de_eof env raw") auto
      then show ?thesis
        using prems(2) no_error_eof_safe [OF prems(2) assms(2)]
        by (auto intro!: holds_bind [where P = "\<lambda>_. in_transfer"] transfer_complete_safe)
    qed
    subgoal using assms(1) .
    done
qed

lemma check_limit_safe:
  assumes "in_transfer d" "env_safe env"
  shows "holds (\<lambda>_. in_transfer) dest_inv (check_limit_handling env d)"
proof (cases "current_check_timer (tst d)")
  case None
  then show ?thesis using assms(1) by (simp add: check_limit_handling_def)
next
  case (Some tm)
  show ?thesis
    unfolding check_limit_handling_def Some option.case Let_def
    apply (intro holds_if holds_bind [OF checksum_verify_safe [OF assms Some]])
    subgoal by (simp add: transfer_complete_safe)
    subgoal premises prems for ok d1
    proof -
      have it: "in_transfer d1" and "current_check_timer (tst d1) = Some tm" using prems by auto
      then show ?thesis
        by (cases rule: in_transferE [OF it]) (auto intro!: holds_map holds_mono [OF declare_fault_safe])
    qed
    subgoal using assms(1) by simp
    done
qed

lemma copy_options_none: "list_all (\<lambda>opt. \<not> tlv_is_msg_to_user opt) opts \<Longrightarrow> copy_options opts d = (Ok (), d)"
  by (induction opts) auto

lemma metadata_safe:
  assumes "dest_inv d" "env_safe env"
    and md: "\<And>md. de_metadata env raw = Ok md \<Longrightarrow>
      (mdp_src_file_name md \<noteq> [] \<or> mdp_dest_file_name md \<noteq> []) \<and> length (mdp_src_file_name md) \<le> 255 \<and>
      length (mdp_dest_file_name md) \<le> 255 \<and> pc_trans_mode (mdp_conf md) = Unacknowledged \<and>
      list_all (\<lambda>opt. \<not> tlv_is_msg_to_user opt) (mdp_options md)"
  shows "holds (\<lambda>_ d'. busy d' \<and> step d' = TransactionStart) dest_inv (handle_metadata_pdu env raw d)"
proof (cases "d_state d = StateIdle")
  case False
  then show ?thesis using assms(1) by (simp add: handle_metadata_pdu_def)
next
  case True
  then have st: "dest_static d" using assms(1) by (auto simp: inv_defs dest_inv_def)
  show ?thesis
  proof (cases "de_metadata env raw")
    case (Ok m)
    then show ?thesis
      using True st md [OF Ok]
      by (auto simp: handle_metadata_pdu_def store_file_names_def copy_options_none copy_into_def inv_defs dest_inv_def
          TransactionParams_reset_def get_remote_config_def Let_def split: option.splits)
  qed (use True assms env_safe_np(6) [OF assms(2)] in \<open>auto simp: handle_metadata_pdu_def\<close>)
qed

lemma transaction_start_safe:
  assumes "busy d" "step d = TransactionStart" "env_safe env"
  shows "holds (\<lambda>_. in_transfer) dest_inv (transaction_start env d)"
proof -
  let ?fp = "file_properties (tparams d)"
  have sl: "slice 0 (dest_file_name_len ?fp) (dest_file_name ?fp) = Ok (take (dest_file_name_len ?fp) (dest_file_name ?fp))"
      "slice 0 (src_file_name_len ?fp) (src_file_name ?fp) = Ok (take (src_file_name_len ?fp) (src_file_name ?fp))"
    and ms: "msgs_to_user_size (tparams d) = 0"
    using assms(1) by (simp_all add: inv_defs slice_def)
  have np: "fst (if vf_exists (de_vfs env) v path then vf_truncate_file (de_vfs env) v path else vf_create_file (de_vfs env) v path) \<noteq> Panic"
    for v path using assms(3) by (simp add: env_safe_def)
  have rd: "read_msgs_to_user f buf 0 0 [] = Ok []" for f :: "bytes \<Rightarrow> ('d, bytes) res" and buf by (subst read_msgs_to_user.simps) simp
  show ?thesis
    unfolding transaction_start_def sl res_try.simps Let_def
    apply (intro holds_if holds_pure holds_case np)
    apply (simp_all add: ms rd split del: if_split)
    apply (use assms(1,2) in \<open>auto simp: dest_inv_def inv_defs split: if_splits option.splits\<close>)
    done
qed

lemma completion_notice_safe:
  assumes "in_transfer d" "env_safe env"
  shows "holds (\<lambda>_. in_transfer) dest_inv (notice_of_completion env d)"
proof (cases rule: in_transferE [OF assms(1)])
  case (1 tid cfg)
  obtain r v where w: "vf_remove_file (de_vfs env) (vfs d) (dest_path_buf (file_properties (tparams d))) = (r, v)" by fastforce
  then have "r \<noteq> Panic" using env_safe_np(3) [OF assms(2)] by metis
  then have rm: "holds (\<lambda>_. in_transfer) dest_inv (if completion_disposition (tst d) = Completed then (Ok (), d) else
      (case vf_remove_file (de_vfs env) (vfs d) (dest_path_buf (file_properties (tparams d))) of
         (r, v') \<Rightarrow> res_try (res_map_err DestFilestore r) (d\<lparr>vfs := v'\<rparr>)
           (\<lambda>_. (Ok (), upd_tstate (\<lambda>t. t\<lparr>file_status := DiscardDeliberately\<rparr>) (d\<lparr>vfs := v'\<rparr>)))))"
    using assms(1) unfolding w by (cases r) (auto simp: inv_defs dest_inv_def)
  show ?thesis
    unfolding notice_of_completion_def Let_def
    apply (intro holds_bind [where P = "\<lambda>_ d. in_transfer d"])
    subgoal using rm assms(1) 1(2) by (auto simp: )
    subgoal premises prems for x d1 using prems by (cases rule: in_transferE [OF prems]) simp
    done
qed

lemma finished_pdu_safe:
  assumes "in_transfer d" "env_safe env"
  shows "holds (\<lambda>_. in_transfer) dest_inv (send_finished_pdu env d)"
proof -
  obtain r buf where w: "de_finished_write env (finished_pdu d) (packet_buf d) = (r, buf)" by fastforce
  have it: "in_transfer (d\<lparr>packet_buf := buf\<rparr>)" using assms(1) by (simp add: inv_defs)
  show ?thesis
  proof (cases r)
    case (Ok len)
    then have "len \<le> length buf" using env_safe_np(11) [OF assms(2)] w by blast
    moreover obtain r2 s' where s: "de_send_pdu env (packet_sender d) PduFileDirective (Some FinishedPdu) (take len buf) = (r2, s')" by fastforce
    then have "r2 \<noteq> Panic" using env_safe_np(10) [OF assms(2)] by metis
    ultimately show ?thesis using assms(1) Ok
      by (cases r2) (auto simp: send_finished_pdu_def w s slice_def inv_defs dest_inv_def)
  next
    case Panic
    then show ?thesis using env_safe_np(9) [OF assms(2)] w by metis
  qed (use it in \<open>auto simp: send_finished_pdu_def w in_transfer_inv\<close>)
qed

lemma reset_safe: "busy d \<Longrightarrow> dest_static (dest_reset d) \<and> d_state (dest_reset d) = StateIdle"
  by (simp add: dest_reset_def TransactionParams_reset_def inv_defs)

definition ended :: "('v, 's, 't) DestinationHandler \<Rightarrow> bool" where
  "ended d \<longleftrightarrow> dest_static d \<and> d_state d = StateIdle \<and> step d = StepIdle \<or> busy d \<and> step d = SendingFinishedPdu"

lemma completion_safe:
  assumes "in_transfer d" "env_safe env"
  shows "holds (\<lambda>_. ended) dest_inv (transfer_completion env d)"
  unfolding transfer_completion_def Let_def
  apply (rule holds_bind [OF completion_notice_safe [OF assms]])
  apply (rule holds_if)
  subgoal by (rule holds_bind [OF finished_pdu_safe [OF _ assms(2)]]) (auto simp: ended_def inv_defs)
  subgoal by (auto simp: ended_def dest_reset_def TransactionParams_reset_def inv_defs)
  done

lemma fsm_end_safe:
  assumes "in_transfer d \<or> ended d"
  shows "holds (\<lambda>_. dest_inv) dest_inv (if step d = SendingAckPdu then (Panic, d)
    else if step d = SendingFinishedPdu then (Ok sent, dest_reset d) else (Ok sent, d))"
  using assms
proof
  assume "in_transfer d"
  then show ?thesis by (auto simp: in_transfer_inv) (simp_all add: in_transfer_def)
next
  assume "ended d"
  then show ?thesis using reset_safe [of d] by (auto simp: ended_def dest_inv_def)
qed

lemma fsm_busy_safe:
  assumes "busy d" "step d = TransactionStart \<or> in_transfer d" "env_safe env"
  shows "holds (\<lambda>_. dest_inv) dest_inv (fsm_busy env d)"
  unfolding fsm_busy_def Let_def
  apply (rule holds_bind [where P = "\<lambda>_. in_transfer"])
  subgoal using assms transaction_start_safe [OF assms(1) _ assms(3)] by auto
  apply (rule holds_bind [where P = "\<lambda>_. in_transfer"])
  subgoal using check_limit_safe [OF _ assms(3)] by simp
  apply (rule holds_bind [where P = "\<lambda>_ d. in_transfer d \<or> ended d"])
  subgoal for x d1 y d2 using holds_mono [OF completion_safe [OF _ assms(3)]] by simp
  subgoal by (rule fsm_end_safe)
  done

lemma insert_packet_safe:
  assumes "dest_inv d" "env_safe env" "supported env p"
  shows "holds (\<lambda>_ d'. busy d' \<and> (step d' = TransactionStart \<or> in_transfer d')) dest_inv (insert_packet env p d)"
proof -
  let ?Q = "\<lambda>_ d'. busy d' \<and> (step d' = TransactionStart \<or> in_transfer d')"
  have b: "in_transfer d' \<Longrightarrow> busy d'" for d' :: "('a, 'b, 'c) DestinationHandler" by (simp add: in_transfer_def)
  have sup: "\<And>eof. de_eof env (pi_raw_packet p) = Ok eof \<Longrightarrow> eof_condition_code eof = NoError"
     "\<And>md. de_metadata env (pi_raw_packet p) = Ok md \<Longrightarrow>
      (mdp_src_file_name md \<noteq> [] \<or> mdp_dest_file_name md \<noteq> []) \<and> length (mdp_src_file_name md) \<le> 255 \<and>
      length (mdp_dest_file_name md) \<le> 255 \<and> pc_trans_mode (mdp_conf md) = Unacknowledged \<and>
      list_all (\<lambda>opt. \<not> tlv_is_msg_to_user opt) (mdp_options md)"
    "pi_pdu_directive p \<notin> {Some AckPdu, Some PromptPdu}" "pi_target p = DestEntity \<or> pi_pdu_directive p \<noteq> None"
    using assms(3) by (auto simp: supported_def)
  have "holds ?Q dest_inv (handle_file_data env (pi_raw_packet p) d)"
    by (rule holds_mono [OF file_data_safe [OF assms(1,2)]]) (auto simp: b)
  moreover have "holds ?Q dest_inv (handle_eof_pdu env (pi_raw_packet p) d)"
    by (rule holds_mono [OF eof_safe [OF assms(1,2) sup(1)]]) (auto simp: b)
  moreover have "holds ?Q dest_inv (handle_metadata_pdu env (pi_raw_packet p) d)"
    by (rule holds_mono [OF metadata_safe [OF assms(1,2) sup(2)]]) auto
  ultimately show ?thesis
    using sup(3,4) assms(1)
    by (auto simp: insert_packet_def handle_file_directive_def split: PduType.splits option.splits FileDirectiveType.splits)
qed

text \<open>The handlers a sequence of calls leads to, where a call without a packet is made during a transfer only.\<close>

inductive dest_reach ::
    "('v, 's, 't, 'pe) DestEnv \<Rightarrow> ('v, 's, 't) DestinationHandler \<Rightarrow> ('v, 's, 't) DestinationHandler \<Rightarrow> bool"
  for env d0 where
  dr_new: "dest_reach env d0 d0"
| dr_packet: "dest_reach env d0 d \<Longrightarrow> supported env p \<Longrightarrow> dest_reach env d0 (snd (state_machine env (Some p) d))"
| dr_poll: "dest_reach env d0 d \<Longrightarrow> d_state d = StateBusy \<Longrightarrow> dest_reach env d0 (snd (state_machine env None d))"

lemma holds_inv: "holds (\<lambda>_. P) P m \<Longrightarrow> fst m \<noteq> Panic \<and> P (snd m)"
  by (cases m; cases "fst m") auto

lemma state_machine_safe:
  assumes "dest_inv d" "env_safe env" "case p of None \<Rightarrow> d_state d = StateBusy | Some pk \<Rightarrow> supported env pk"
  shows "fst (state_machine env p d) \<noteq> Panic \<and> dest_inv (snd (state_machine env p d))"
proof (rule holds_inv)
  show "holds (\<lambda>_. dest_inv) dest_inv (state_machine env p d)"
    unfolding state_machine_def Let_def
    apply (rule holds_bind [where P = "\<lambda>_ d. busy d \<and> (step d = TransactionStart \<or> in_transfer d)"])
    subgoal using assms insert_packet_safe [OF assms(1,2)]
      by (auto simp: dest_inv_def in_transfer_def split: option.splits)
    subgoal for x d1 using fsm_busy_safe [of d1 env] assms(2) by (auto simp: busy_def)
    done
qed

lemma dest_reach_inv: "dest_reach env d0 d \<Longrightarrow> dest_inv d0 \<Longrightarrow> env_safe env \<Longrightarrow> dest_inv d"
  by (induction rule: dest_reach.induct) (auto intro: state_machine_safe [THEN conjunct2])

lemma new_handler_inv:
  "(\<And>code. get_fault_handler (default_fault_handler cfg) code \<noteq> AbandonTransaction) \<Longrightarrow>
   dest_inv (DestinationHandler_new dmd dconf cfg n sender v tab)"
  by (simp add: DestinationHandler_new_def TransactionParams_default_def TransferState_default_def FileProperties_default_def
      dest_inv_def dest_static_def)

text \<open>
  C5: a new handler none of whose faults abandons the transaction never panics on the packets of the
  implemented part of the protocol, in any order and number, and on polls during a transfer: the
  transaction id, the remote entity and the timer are there whenever the code unwraps them, and the
  state and the step agree. It is never left in the steps of the acknowledged mode.
\<close>

theorem dest_never_panics:
  assumes "dest_reach env (DestinationHandler_new dmd dconf cfg n sender v tab) d" "env_safe env"
    and "\<And>code. get_fault_handler (default_fault_handler cfg) code \<noteq> AbandonTransaction"
  shows "dest_inv d \<and> (supported env p \<longrightarrow> fst (state_machine env (Some p) d) \<noteq> Panic) \<and>
    (d_state d = StateBusy \<longrightarrow> fst (state_machine env None d) \<noteq> Panic)"
proof -
  have inv: "dest_inv d" using dest_reach_inv [OF assms(1) new_handler_inv assms(2)] assms(3) by blast
  then show ?thesis
    using state_machine_safe [OF inv assms(2), of "Some p"] state_machine_safe [OF inv assms(2), of None] by simp
qed

subsection \<open>Witness\<close>

lemma demo_env_safe: "env_safe demo_env"
proof -
  have "fst (Native_checksum_verify demo_crc (\<lambda>_. None) v path ty x buf) \<noteq> Panic" for v path ty x buf
    by (cases ty) (auto simp: Native_checksum_verify_def calc_modular_checksum_def open_file_def os_open_def case_prod_unfold Let_def
        split: option.splits fs_node.splits)
  then show ?thesis
    using native_fs.never_panics [where crc = demo_crc and os = "\<lambda>_. None"]
    by (simp add: env_safe_def demo_env_def)
qed

theorem dest_never_panics_witness:
  "\<exists>p. supported demo_env p \<and> fst (state_machine demo_env (Some p) (snd (state_machine demo_env (directive_packet MetadataPdu [7]) demo_dest))) \<noteq> Panic"
proof -
  define p where "p = \<lparr>pi_pdu_type = PduFileData, pi_pdu_directive = None, pi_target = DestEntity, pi_raw_packet = [0, 1 :: u8]\<rparr>"
  have p: "supported demo_env p" by (simp add: supported_def p_def demo_env_def)
  have m: "supported demo_env (the (directive_packet MetadataPdu [7]))"
    by (simp add: supported_def directive_packet_def demo_dest_defs)
  have fh: "get_fault_handler (default_fault_handler demo_local) code \<noteq> AbandonTransaction" for code
    by (cases code) (simp_all add: get_fault_handler_def demo_local_def DefaultFaultHandler_new_def)
  have r: "dest_reach demo_env demo_dest (snd (state_machine demo_env (directive_packet MetadataPdu [7]) demo_dest))"
    using dr_packet [OF dr_new m] by (simp add: directive_packet_def)
  show ?thesis
    using dest_never_panics [OF r [unfolded demo_dest_def] demo_env_safe fh, of p] p by (auto simp: demo_dest_def)
qed

end
