(* ===== verification/Requests.thy ===== *)
theory Requests
  imports Services Mode
begin

text \<open>
  Requests to components: action and housekeeping requests and replies (\<^verbatim>\<open>satrs/src/action.rs\<close>,
  \<^verbatim>\<open>satrs/src/hk.rs\<close>, \<^verbatim>\<open>satrs/src/pus/action.rs\<close>), the result codes (\<^verbatim>\<open>satrs-shared/src/res_code.rs\<close> and
  \<^verbatim>\<open>satrs-example/src/config.rs\<close>) and the request router of the example application
  (\<^verbatim>\<open>satrs-example/src/requests.rs\<close>), which sends them to the component they are for.
\<close>

subsection \<open>Requests and replies\<close>

datatype ActionRequestVariant = ActionNoData | ActionStoreData PoolAddr | ActionVecData bytes

record ActionRequest =
  arq_action_id :: u32
  arq_variant :: ActionRequestVariant

definition ActionRequest_new :: "u32 \<Rightarrow> ActionRequestVariant \<Rightarrow> ActionRequest" where
  "ActionRequest_new i v = \<lparr>arq_action_id = i, arq_variant = v\<rparr>"

datatype HkRequestVariant = OneShot | EnablePeriodic | DisablePeriodic | ModifyCollectionInterval u32

record HkRequest =
  hk_unique_id :: u32
  hk_variant :: HkRequestVariant

definition HkRequest_new :: "u32 \<Rightarrow> HkRequestVariant \<Rightarrow> HkRequest" where
  "HkRequest_new i v = \<lparr>hk_unique_id = i, hk_variant = v\<rparr>"

datatype ActionReplyVariant =
    ActionCompleted
  | ActionStepSuccess u16
  | ActionCompletionFailed ResultU16 "Params option"
  | ActionStepFailed ResultU16 u16 "Params option"

record ActionReplyPus =
  arp_action_id :: u32
  arp_variant :: ActionReplyVariant

datatype HkReplyVariant = HkAck | HkFailed ResultU16

record HkReply =
  hkr_unique_id :: u32
  hkr_variant :: HkReplyVariant

text \<open>An active action request is an active request with the id of the action.\<close>

record ('pid, 'psc) ActivePusActionRequestStd =
  aar_action_id :: u32
  aar_common :: "('pid, 'psc) ActivePusRequestStd"

definition ActivePusActionRequestStd_new ::
    "nat \<Rightarrow> u32 \<Rightarrow> ComponentId \<Rightarrow> ('pid, 'psc) TcStateToken \<Rightarrow> nat \<Rightarrow> ('pid, 'psc) ActivePusActionRequestStd" where
  "ActivePusActionRequestStd_new now action_id target_id token timeout =
     \<lparr>aar_action_id = action_id, aar_common = ActivePusRequestStd_new now target_id token timeout\<rparr>"

text \<open>The trait \<^verbatim>\<open>ActiveRequestProvider\<close> and its two implementations.\<close>

record ('i, 'pid, 'psc) ActiveRequestProvider =
  ap_target_id :: "'i \<Rightarrow> ComponentId"
  ap_token :: "'i \<Rightarrow> ('pid, 'psc) TcStateToken"
  ap_set_token :: "'i \<Rightarrow> ('pid, 'psc) TcStateToken \<Rightarrow> 'i"
  ap_has_timed_out :: "nat \<Rightarrow> 'i \<Rightarrow> bool"

definition ActivePusRequestStd_provider ::
    "(('pid, 'psc) ActivePusRequestStd, 'pid, 'psc) ActiveRequestProvider" where
  "ActivePusRequestStd_provider =
     \<lparr>ap_target_id = ar_target_id, ap_token = ar_token, ap_set_token = ActivePusRequestStd_set_token,
      ap_has_timed_out = has_timed_out\<rparr>"

definition ActivePusActionRequestStd_provider ::
    "(('pid, 'psc) ActivePusActionRequestStd, 'pid, 'psc) ActiveRequestProvider" where
  "ActivePusActionRequestStd_provider =
     \<lparr>ap_target_id = (\<lambda>r. ar_target_id (aar_common r)), ap_token = (\<lambda>r. ar_token (aar_common r)),
      ap_set_token = (\<lambda>r t. r\<lparr>aar_common := ActivePusRequestStd_set_token (aar_common r) t\<rparr>),
      ap_has_timed_out = (\<lambda>now r. has_timed_out now (aar_common r))\<rparr>"

subsection \<open>Result codes\<close>

definition ResultU16_new :: "u8 \<Rightarrow> u8 \<Rightarrow> ResultU16" where
  "ResultU16_new g u = \<lparr>rc_group_id = g, rc_unique_id = u\<rparr>"

definition ResultU16_raw :: "ResultU16 \<Rightarrow> u16" where
  "ResultU16_raw r = push_bit 8 (ucast (rc_group_id r)) OR ucast (rc_unique_id r)"

definition ResultU16_from :: "u16 \<Rightarrow> ResultU16" where
  "ResultU16_from value = ResultU16_new (ucast (drop_bit 8 value AND 0xff)) (ucast (value AND 0xff))"

definition ResultU16_write_to_be_bytes :: "ResultU16 \<Rightarrow> bytes \<Rightarrow> (ByteConversionError, nat) res \<times> bytes" where
  "ResultU16_write_to_be_bytes r buf =
     (if length buf < 2 then (Err (ToSliceTooSmall (length buf) 2), buf)
      else (Ok 2, buf[0 := rc_group_id r, 1 := rc_unique_id r]))"

definition ResultU16_enum :: "ResultU16 \<Rightarrow> EcssEnumeration" where
  "ResultU16_enum r = \<lparr>ee_size = 2, ee_write = ResultU16_write_to_be_bytes r\<rparr>"

text \<open>The codes of the example; the groups are 0 for telecommands, 1 for housekeeping, 2 for modes.\<close>

datatype tmtc_err =
    INVALID_PUS_SERVICE | INVALID_PUS_SUBSERVICE | PUS_SERVICE_NOT_IMPLEMENTED | PUS_SUBSERVICE_NOT_IMPLEMENTED
  | UNKNOWN_TARGET_ID | ROUTING_ERROR | REQUEST_TIMEOUT | NOT_ENOUGH_APP_DATA

fun tmtc_err_code :: "tmtc_err \<Rightarrow> ResultU16" where
  "tmtc_err_code INVALID_PUS_SERVICE = ResultU16_new 0 0"
| "tmtc_err_code INVALID_PUS_SUBSERVICE = ResultU16_new 0 1"
| "tmtc_err_code PUS_SERVICE_NOT_IMPLEMENTED = ResultU16_new 0 2"
| "tmtc_err_code PUS_SUBSERVICE_NOT_IMPLEMENTED = ResultU16_new 0 3"
| "tmtc_err_code UNKNOWN_TARGET_ID = ResultU16_new 0 4"
| "tmtc_err_code ROUTING_ERROR = ResultU16_new 0 5"
| "tmtc_err_code REQUEST_TIMEOUT = ResultU16_new 0 6"
| "tmtc_err_code NOT_ENOUGH_APP_DATA = ResultU16_new 0 2"

datatype hk_err = TARGET_ID_MISSING | UNIQUE_ID_MISSING | HK_UNKNOWN_TARGET_ID | COLLECTION_INTERVAL_MISSING

fun hk_err_code :: "hk_err \<Rightarrow> ResultU16" where
  "hk_err_code TARGET_ID_MISSING = ResultU16_new 1 0"
| "hk_err_code UNIQUE_ID_MISSING = ResultU16_new 1 1"
| "hk_err_code HK_UNKNOWN_TARGET_ID = ResultU16_new 1 2"
| "hk_err_code COLLECTION_INTERVAL_MISSING = ResultU16_new 1 3"

definition WRONG_MODE :: ResultU16 where
  "WRONG_MODE = ResultU16_new 2 0"

abbreviation tmtc_code :: "tmtc_err \<Rightarrow> EcssEnumeration" where
  "tmtc_code e \<equiv> ResultU16_enum (tmtc_err_code e)"

abbreviation hk_code :: "hk_err \<Rightarrow> EcssEnumeration" where
  "hk_code e \<equiv> ResultU16_enum (hk_err_code e)"

subsection \<open>The request router\<close>

datatype CompositeRequest = CompositeHk HkRequest | CompositeAction ActionRequest

record GenericRequestRouter =
  router_id :: ComponentId
  composite_router_map :: "ComponentId \<rightharpoonup> nat"
  mode_router_map :: "ComponentId \<rightharpoonup> nat"

text \<open>The channels of the components: the queues of the routed requests.\<close>

record RequestNet =
  composite_net :: "CompositeRequest GenericMessage net"
  mode_net :: "ModeRequest GenericMessage net"

text \<open>
  The senders are bounded and their \<^verbatim>\<open>send\<close> waits while the channel is full; a call that waits has no
  result.
\<close>

definition route_composite ::
    "GenericRequestRouter \<Rightarrow> MessageMetadata \<Rightarrow> ComponentId \<Rightarrow> CompositeRequest \<Rightarrow> RequestNet \<Rightarrow>
     ((GenericRoutingError, unit) res \<times> RequestNet) option" where
  "route_composite router info target_id request w =
     (case composite_router_map router target_id of
        None \<Rightarrow> Some (Err (UnknownTargetId target_id), w)
      | Some h \<Rightarrow>
          map_option (\<lambda>(r, c). (res_map_err (\<lambda>_. RoutingSend RxDisconnected) r, w\<lparr>composite_net := (composite_net w)(h := c)\<rparr>))
            (mpsc_sync_send (composite_net w h) (GenericMessage_new info request)))"

definition route_hk ::
    "GenericRequestRouter \<Rightarrow> MessageMetadata \<Rightarrow> ComponentId \<Rightarrow> HkRequest \<Rightarrow> RequestNet \<Rightarrow>
     ((GenericRoutingError, unit) res \<times> RequestNet) option" where
  "route_hk router info target_id request w = route_composite router info target_id (CompositeHk request) w"

definition route_action ::
    "GenericRequestRouter \<Rightarrow> MessageMetadata \<Rightarrow> ComponentId \<Rightarrow> ActionRequest \<Rightarrow> RequestNet \<Rightarrow>
     ((GenericRoutingError, unit) res \<times> RequestNet) option" where
  "route_action router info target_id request w = route_composite router info target_id (CompositeAction request) w"

definition route_mode ::
    "GenericRequestRouter \<Rightarrow> MessageMetadata \<Rightarrow> ComponentId \<Rightarrow> ModeRequest \<Rightarrow> RequestNet \<Rightarrow>
     ((GenericRoutingError, unit) res \<times> RequestNet) option" where
  "route_mode router info target_id request w =
     (case mode_router_map router target_id of
        None \<Rightarrow> Some (Err (UnknownTargetId target_id), w)
      | Some h \<Rightarrow>
          map_option (\<lambda>(r, c). (res_map_err (\<lambda>_. RoutingSend RxDisconnected) r, w\<lparr>mode_net := (mode_net w)(h := c)\<rparr>))
            (mpsc_sync_send (mode_net w h) (GenericMessage_new info request)))"

text \<open>A failed routing is reported as a completion failure with the target as failure data.\<close>

definition handle_error_generic ::
    "('pid, 'psc) Spacepackets \<Rightarrow> ('s, 'pe) EcssTmSender \<Rightarrow> ('i, 'pid, 'psc) ActiveRequestProvider \<Rightarrow> 'i \<Rightarrow>
     GenericRoutingError \<Rightarrow> 's \<Rightarrow> VerificationReporter \<Rightarrow> bytes \<Rightarrow> ('e, unit) res \<times> 's \<times> VerificationReporter" where
  "handle_error_generic sp send_tm prov info e s v time_stamp =
     res_try (res_unwrap (VerificationToken_try_accepted (ap_token prov info))) (s, v) (\<lambda>accepted.
       let (code, data) = (case e of
             UnknownTargetId i \<Rightarrow> (UNKNOWN_TARGET_ID, to_be_bytes i)
           | RoutingSend _ \<Rightarrow> (ROUTING_ERROR, to_be_bytes (ap_target_id prov info)));
           (r, sv) = completion_failure sp send_tm s v accepted (FailParams_new time_stamp (tmtc_code code) data)
       in (res_unwrap r, sv))"

subsection \<open>Reports on a vector channel\<close>

text \<open>
  What the report methods do when telemetry goes out as vectors over channel \<open>k\<close>: one packet is pushed
  when the receiver is alive and the report fits into the reporter's buffer.
\<close>

lemma ResultU16_enum_writes: "ecss_enum_writes (ResultU16_enum r) [rc_group_id r, rc_unique_id r]"
proof -
  have "buf[0 := a, Suc 0 := b] = overwrite 0 [a, b] buf" if "\<not> length buf < 2" for a b :: u8 and buf
    using that by (cases buf; cases "tl buf") (auto simp: overwrite_def)
  then show ?thesis
    by (auto simp: ecss_enum_writes_def ResultU16_enum_def ResultU16_write_to_be_bytes_def)
qed

definition reporter_ok :: "nat \<Rightarrow> PacketAsVec net \<Rightarrow> nat \<Rightarrow> VerificationReporter \<Rightarrow> bool" where
  "reporter_ok k w n v \<longleftrightarrow> rx_alive (w k) \<and> length (source_data_buf v) = n \<and> tm_hook v = (\<lambda>tm. tm)"

abbreviation code_bytes :: "ResultU16 \<Rightarrow> bytes" where
  "code_bytes c \<equiv> [rc_group_id c, rc_unique_id c]"

definition report_packet :: "('pid, 'psc) Spacepackets \<Rightarrow> TmOps \<Rightarrow> VerificationReporter \<Rightarrow> VerifSubservice \<Rightarrow> bytes \<Rightarrow>
    ('pid, 'psc) RequestId \<Rightarrow> bytes \<Rightarrow> PacketAsVec" where
  "report_packet sp ops v sub ts rid rest = PacketAsVec_new (owner_id v) (the_ok (tm_to_vec ops
     (verif_tm (reporter_creator v) (verif_subservice sp sub) 0 0 ts (to_be_bytes (RequestId_raw sp rid) @ rest))))"

definition push_report :: "('pid, 'psc) Spacepackets \<Rightarrow> TmOps \<Rightarrow> nat \<Rightarrow> VerifSubservice \<Rightarrow> bytes \<Rightarrow> ('pid, 'psc) RequestId \<Rightarrow>
    bytes \<Rightarrow> PacketAsVec net \<times> VerificationReporter \<Rightarrow> PacketAsVec net \<times> VerificationReporter" where
  "push_report sp ops k sub ts rid rest wv =
     (let (w, v) = wv
      in (w(k := (w k)\<lparr>ch_queue := ch_queue (w k) @ [report_packet sp ops v sub ts rid rest]\<rparr>),
          v\<lparr>source_data_buf := to_be_bytes (RequestId_raw sp rid) @ rest @ drop (4 + length rest) (source_data_buf v)\<rparr>))"

lemma push_report_ok [simp]:
  "push_report sp ops k sub ts rid rest (w, v) = (w', v') \<Longrightarrow> reporter_ok k w n v \<Longrightarrow> 4 + length rest \<le> n \<Longrightarrow>
     reporter_ok k w' n v'"
  by (auto simp: push_report_def reporter_ok_def)

lemma push_report_pair:
  "reporter_ok k w n v \<Longrightarrow> 4 + length rest \<le> n \<Longrightarrow>
     reporter_ok k (fst (push_report sp ops k sub ts rid rest (w, v))) n (snd (push_report sp ops k sub ts rid rest (w, v)))"
  by (rule push_report_ok [OF prod.collapse [symmetric]])

lemma push_report_sel [simp]:
  "ch_queue (fst (push_report sp ops k sub ts rid rest (w, v)) k) = ch_queue (w k) @ [report_packet sp ops v sub ts rid rest]"
  "rx_alive (fst (push_report sp ops k sub ts rid rest (w, v)) j) = rx_alive (w j)"
  "tm_hook (snd (push_report sp ops k sub ts rid rest (w, v))) = tm_hook v"
  "owner_id (snd (push_report sp ops k sub ts rid rest (w, v))) = owner_id v"
  "reporter_creator (snd (push_report sp ops k sub ts rid rest (w, v))) = reporter_creator v"
  by (simp_all add: push_report_def)

lemma push_report_length [simp]:
  "4 + length rest \<le> length (source_data_buf v) \<Longrightarrow>
     length (source_data_buf (snd (push_report sp ops k sub ts rid rest (w, v)))) = length (source_data_buf v)"
  by (simp add: push_report_def)

lemma report_packet_cong:
  "owner_id v = owner_id v' \<Longrightarrow> reporter_creator v = reporter_creator v' \<Longrightarrow>
     report_packet sp ops v = report_packet sp ops v'"
  by (auto simp: report_packet_def fun_eq_iff)

lemma vec_success_reports:
  assumes "tm_ops_ok ops" "reporter_ok k w n v" "4 \<le> n"
  shows "acceptance_success sp (MpscTmAsVecSender_send_tm ops k) w v t0 ts =
      (Ok (VerificationToken (token_request_id t0)), push_report sp ops k TmAcceptanceSuccess ts (token_request_id t0) [] (w, v))"
    and "start_success sp (MpscTmAsVecSender_send_tm ops k) w v t1 ts =
      (Ok (VerificationToken (token_request_id t1)), push_report sp ops k TmStartSuccess ts (token_request_id t1) [] (w, v))"
    and "completion_success sp (MpscTmAsVecSender_send_tm ops k) w v t ts =
      (Ok (), push_report sp ops k TmCompletionSuccess ts (token_request_id t) [] (w, v))"
  using assms
  by (simp_all add: reporter_ok_def reporter_defs creator_defs no_token_def create_success_tm [where bs = "[]"] report_tm_def
      vec_send_eq push_report_def report_packet_def Let_def)

lemma vec_step_success:
  assumes "tm_ops_ok ops" "reporter_ok k w n v" "ecss_enum_writes e bs" "4 + length bs \<le> n"
  shows "step_success sp (MpscTmAsVecSender_send_tm ops k) w v t ts e =
      (Ok (), push_report sp ops k TmStepSuccess ts (token_request_id t) bs (w, v))"
  using assms
  by (simp add: reporter_ok_def reporter_defs creator_defs no_token_def create_success_tm [where bs = bs] report_tm_def
      vec_send_eq push_report_def report_packet_def Let_def)

text \<open>A failure report that does not fit is an error, and nothing is sent.\<close>

lemma vec_failure_reports:
  assumes "tm_ops_ok ops" "reporter_ok k w n v"
  shows "start_failure sp (MpscTmAsVecSender_send_tm ops k) w v t1 (FailParams_new ts (ResultU16_enum c) data) =
      (if n < 6 + length data then (Err (TmtcPus (PusByteConversion (ToSliceTooSmall n (6 + length data)))), w, v)
       else (Ok (), push_report sp ops k TmStartFailure ts (token_request_id t1) (code_bytes c @ data) (w, v)))"
    and "completion_failure sp (MpscTmAsVecSender_send_tm ops k) w v t (FailParams_new ts (ResultU16_enum c) data) =
      (if n < 6 + length data then (Err (TmtcPus (PusByteConversion (ToSliceTooSmall n (6 + length data)))), w, v)
       else (Ok (), push_report sp ops k TmCompletionFailure ts (token_request_id t) (code_bytes c @ data) (w, v)))"
  using assms ResultU16_enum_writes [of c]
  by (auto simp add: reporter_ok_def reporter_defs creator_defs no_token_def create_fail_tm [where bs = "[]" and cs = "code_bytes c"]
      report_tm_def vec_send_eq push_report_def report_packet_def FailParams_new_def Let_def)

lemma fail_params_no_data: "FailParams_new_no_fail_data ts e = FailParams_new ts e []"
  by (simp add: FailParams_new_no_fail_data_def FailParams_new_def)

end
