(* ===== verification/Targeted_Service.thy ===== *)
theory Targeted_Service
  imports Requests
begin

text \<open>
  The services of the example application that turn a telecommand into a request to a component
  (\<^verbatim>\<open>satrs-example/src/pus/mod.rs\<close>): the generic service over a converter, a router and a reply handler, and
  the three services made from it, for actions (\<^verbatim>\<open>satrs-example/src/pus/action.rs\<close>), modes
  (\<^verbatim>\<open>satrs-example/src/pus/mode.rs\<close>) and housekeeping (\<^verbatim>\<open>satrs-example/src/pus/hk.rs\<close>). Log output is not part of
  the model.
\<close>

subsection \<open>Converters and reply handlers\<close>

text \<open>
  \<^verbatim>\<open>PusTcToRequestConverter::convert\<close> and the methods of \<^verbatim>\<open>PusReplyHandler\<close> report through the telemetry
  sender and the verification reporter, whose states they return. The current instant is an argument.
\<close>

type_synonym ('st, 'i, 'rq, 's, 'pid, 'psc) RequestConverter =
  "'st \<Rightarrow> nat \<Rightarrow> (TcStateAccepted, 'pid, 'psc) VerificationToken \<Rightarrow> PusTc \<Rightarrow> 's \<Rightarrow> VerificationReporter \<Rightarrow> bytes \<Rightarrow>
   (GenericConversionError, 'i \<times> 'rq) res \<times> 's \<times> VerificationReporter"

record ('i, 'rp, 'rh, 's, 'pe) PusReplyHandler =
  rh_handle_unrequested_reply :: "'rh \<Rightarrow> 'rp GenericMessage \<Rightarrow> 's \<Rightarrow> ('pe EcssTmtcError, unit) res \<times> 's \<times> 'rh"
  rh_handle_reply :: "'rh \<Rightarrow> 'rp GenericMessage \<Rightarrow> 'i \<Rightarrow> 's \<Rightarrow> VerificationReporter \<Rightarrow> bytes \<Rightarrow>
    ('pe EcssTmtcError, bool) res \<times> 's \<times> VerificationReporter \<times> 'rh"
  rh_handle_request_timeout :: "'rh \<Rightarrow> 'i \<Rightarrow> 's \<Rightarrow> VerificationReporter \<Rightarrow> bytes \<Rightarrow>
    ('pe EcssTmtcError, unit) res \<times> 's \<times> VerificationReporter \<times> 'rh"

text \<open>
  \<^verbatim>\<open>verif_reporter.start_failure(...).expect(...)\<close> in a converter, followed by the return of an error.
\<close>

definition fail_start ::
    "('pid, 'psc) Spacepackets \<Rightarrow> ('s, 'pe) EcssTmSender \<Rightarrow> (TcStateAccepted, 'pid, 'psc) VerificationToken \<Rightarrow> 's \<Rightarrow>
     VerificationReporter \<Rightarrow> FailParams \<Rightarrow> GenericConversionError \<Rightarrow>
     (GenericConversionError, 'a) res \<times> 's \<times> VerificationReporter" where
  "fail_start sp send_tm token s v params e =
     (let (r, sv) = start_failure sp send_tm s v token params in res_try (res_unwrap r) sv (\<lambda>_. (Err e, sv)))"

definition generic_pus_request_timeout_handler ::
    "('pid, 'psc) Spacepackets \<Rightarrow> ('s, 'pe) EcssTmSender \<Rightarrow> ('i, 'pid, 'psc) ActiveRequestProvider \<Rightarrow> 'i \<Rightarrow> 's \<Rightarrow>
     VerificationReporter \<Rightarrow> bytes \<Rightarrow> ('pe EcssTmtcError, unit) res \<times> 's \<times> VerificationReporter" where
  "generic_pus_request_timeout_handler sp send_tm prov info s v time_stamp =
     res_try (res_unwrap (VerificationToken_try_started (ap_token prov info))) (s, v) (\<lambda>started.
       completion_failure sp send_tm s v started (FailParams_new time_stamp (tmtc_code REQUEST_TIMEOUT) []))"

subsection \<open>The generic service\<close>

record ('pid, 'psc, 's, 'c, 'rx, 'pe, 'st, 'i, 'rq, 'rp, 'rh) TargetedEnv =
  te_pus :: "('pid, 'psc, 's, 'c, 'rx, 'pe) PusEnv"
  te_tc_req_id :: "PusTc \<Rightarrow> ('pid, 'psc) RequestId"
  te_provider :: "('i, 'pid, 'psc) ActiveRequestProvider"
  te_convert :: "('st, 'i, 'rq, 's, 'pid, 'psc) RequestConverter"
  te_route :: "GenericRequestRouter \<Rightarrow> MessageMetadata \<Rightarrow> ComponentId \<Rightarrow> 'rq \<Rightarrow> RequestNet \<Rightarrow>
    ((GenericRoutingError, unit) res \<times> RequestNet) option"
  te_reply :: "('i, 'rp, 'rh, 's, 'pe) PusReplyHandler"

record ('s, 'c, 'rx, 'st, 'i, 'rp, 'rh) PusTargetedRequestService =
  ts_service_helper :: "('s, 'c, 'rx) PusServiceHelper"
  request_router :: GenericRequestRouter
  request_converter :: 'st
  active_request_map :: "'i DefaultActiveRequestMap"
  reply_handler :: 'rh
  reply_receiver :: "'rp GenericMessage chan"
  request_net :: RequestNet

definition PusTargetedRequestService_new ::
    "('s, 'c, 'rx) PusServiceHelper \<Rightarrow> 'st \<Rightarrow> 'i DefaultActiveRequestMap \<Rightarrow> 'rh \<Rightarrow> GenericRequestRouter \<Rightarrow>
     'rp GenericMessage chan \<Rightarrow> RequestNet \<Rightarrow> ('s, 'c, 'rx, 'st, 'i, 'rp, 'rh) PusTargetedRequestService" where
  "PusTargetedRequestService_new h conv m rh router rx w =
     \<lparr>ts_service_helper = h, request_router = router, request_converter = conv, active_request_map = m,
      reply_handler = rh, reply_receiver = rx, request_net = w\<rparr>"

abbreviation set_sv ::
    "'s \<times> VerificationReporter \<Rightarrow> ('s, 'c, 'rx, 'st, 'i, 'rp, 'rh) PusTargetedRequestService \<Rightarrow>
     ('s, 'c, 'rx, 'st, 'i, 'rp, 'rh) PusTargetedRequestService" where
  "set_sv sv t \<equiv> t\<lparr>ts_service_helper := (ts_service_helper t)\<lparr>tm_sender_state := fst sv, verif_reporter := snd sv\<rparr>\<rparr>"

abbreviation ts_sender :: "('s, 'c, 'rx, 'st, 'i, 'rp, 'rh) PusTargetedRequestService \<Rightarrow> 's" where
  "ts_sender t \<equiv> tm_sender_state (ts_service_helper t)"

abbreviation ts_reporter :: "('s, 'c, 'rx, 'st, 'i, 'rp, 'rh) PusTargetedRequestService \<Rightarrow> VerificationReporter" where
  "ts_reporter t \<equiv> verif_reporter (ts_service_helper t)"

text \<open>A conversion error is reported as a completion failure, with data that depends on the error.\<close>

definition handle_conversion_to_request_error ::
    "('pid, 'psc, 's, 'c, 'rx, 'pe, 'st, 'i, 'rq, 'rp, 'rh) TargetedEnv \<Rightarrow> GenericConversionError \<Rightarrow>
     (TcStateAccepted, 'pid, 'psc) VerificationToken \<Rightarrow> bytes \<Rightarrow>
     ('s, 'c, 'rx, 'st, 'i, 'rp, 'rh) PusTargetedRequestService \<Rightarrow>
     ('e, unit) res \<times> ('s, 'c, 'rx, 'st, 'i, 'rp, 'rh) PusTargetedRequestService" where
  "handle_conversion_to_request_error env e token time_stamp t =
     (let report = (\<lambda>code data.
            let (r, sv) = completion_failure (env_sp (te_pus env)) (env_send_tm (te_pus env)) (ts_sender t) (ts_reporter t) token
                  (FailParams_new time_stamp (tmtc_code code) data)
            in (res_unwrap r, set_sv sv t))
      in (case e of
            ConvWrongService service \<Rightarrow> report INVALID_PUS_SERVICE [service]
          | InvalidSubservice subservice \<Rightarrow> report INVALID_PUS_SUBSERVICE [subservice]
          | NotEnoughAppData expected found \<Rightarrow>
              report NOT_ENOUGH_APP_DATA (to_be_bytes (of_nat found :: u32) @ to_be_bytes (of_nat expected :: u32))
          | InvalidAppData _ \<Rightarrow> (Ok (), t)))"

definition targeted_poll_and_handle_next_tc ::
    "('pid, 'psc, 's, 'c, 'rx, 'pe, 'st, 'i, 'rq, 'rp, 'rh) TargetedEnv \<Rightarrow> nat \<Rightarrow> bytes \<Rightarrow>
     ('s, 'c, 'rx, 'st, 'i, 'rp, 'rh) PusTargetedRequestService \<Rightarrow>
     (('pe PusPacketHandlingError, HandlingStatus) res \<times> ('s, 'c, 'rx, 'st, 'i, 'rp, 'rh) PusTargetedRequestService) option" where
  "targeted_poll_and_handle_next_tc env now time_stamp t0 =
     (let prov = te_provider env; sp = env_sp (te_pus env); send_tm = env_send_tm (te_pus env);
          (r, h1) = poll_tc (te_pus env) (ts_service_helper t0); t1 = t0\<lparr>ts_service_helper := h1\<rparr>
      in (case r of
            Err e \<Rightarrow> Some (Err e, t1)
          | Panic \<Rightarrow> Some (Panic, t1)
          | Ok None \<Rightarrow> Some (Ok HandledEmpty, t1)
          | Ok (Some (token, tc)) \<Rightarrow>
              (let (rc, sv) = te_convert env (request_converter t1) now token tc (ts_sender t1) (ts_reporter t1) time_stamp;
                   t2 = set_sv sv t1
               in (case rc of
                     Panic \<Rightarrow> Some (Panic, t2)
                   | Err e \<Rightarrow>
                       (let (r3, t3) = handle_conversion_to_request_error env e token time_stamp t2
                        in Some (res_try r3 t3 (\<lambda>_. (Err (RequestConversion e), t3))))
                   | Ok (info, request) \<Rightarrow>
                       (case VerificationToken_try_accepted (ap_token prov info) of
                          Ok accepted \<Rightarrow>
                            (let rid = RequestId_raw sp (te_tc_req_id env tc)
                             in (case te_route env (request_router t2) (MessageMetadata_new rid (helper_id (ts_service_helper t2)))
                                        (ap_target_id prov info) request (request_net t2) of
                                   None \<Rightarrow> None
                                 | Some (Ok u, w) \<Rightarrow>
                                     (let t3 = t2\<lparr>request_net := w\<rparr>;
                                          (rs, sv) = start_success sp send_tm (ts_sender t3) (ts_reporter t3) accepted time_stamp;
                                          t4 = set_sv sv t3
                                      in Some (res_try (res_unwrap rs) t4 (\<lambda>started.
                                           (Ok HandledOne, t4\<lparr>active_request_map := DefaultActiveRequestMap_insert (active_request_map t4) rid
                                              (ap_set_token prov info (TokenStarted started))\<rparr>))))
                                 | Some (Err e, w) \<Rightarrow>
                                     (let t3 = t2\<lparr>request_net := w\<rparr>;
                                          (rs, sv) = handle_error_generic sp send_tm prov info e (ts_sender t3) (ts_reporter t3) time_stamp;
                                          t4 = set_sv sv t3
                                      in Some (res_try rs t4 (\<lambda>_. (Err (RequestRouting e), t4))))
                                 | Some (Panic, w) \<Rightarrow> Some (Panic, t2\<lparr>request_net := w\<rparr>)))
                        | _ \<Rightarrow> Some (Panic, t2))))))"

definition targeted_handle_reply ::
    "('pid, 'psc, 's, 'c, 'rx, 'pe, 'st, 'i, 'rq, 'rp, 'rh) TargetedEnv \<Rightarrow> 'rp GenericMessage \<Rightarrow> bytes \<Rightarrow>
     ('s, 'c, 'rx, 'st, 'i, 'rp, 'rh) PusTargetedRequestService \<Rightarrow>
     ('pe EcssTmtcError, unit) res \<times> ('s, 'c, 'rx, 'st, 'i, 'rp, 'rh) PusTargetedRequestService" where
  "targeted_handle_reply env reply time_stamp t =
     (case DefaultActiveRequestMap_get (active_request_map t) (GenericMessage_request_id reply) of
        None \<Rightarrow>
          (let (r, s, rh) = rh_handle_unrequested_reply (te_reply env) (reply_handler t) reply (ts_sender t)
           in (r, set_sv (s, ts_reporter t) (t\<lparr>reply_handler := rh\<rparr>)))
      | Some active_request \<Rightarrow>
          (let (r, s, v, rh) = rh_handle_reply (te_reply env) (reply_handler t) reply active_request (ts_sender t) (ts_reporter t) time_stamp;
               t1 = set_sv (s, v) (t\<lparr>reply_handler := rh\<rparr>)
           in (case r of
                 Panic \<Rightarrow> (Panic, t1)
               | _ \<Rightarrow>
                   (res_map (\<lambda>_. ()) r,
                    if is_err r \<or> is_ok r \<and> the_ok r
                    then t1\<lparr>active_request_map := snd (DefaultActiveRequestMap_remove (active_request_map t1) (GenericMessage_request_id reply))\<rparr>
                    else t1))))"

definition targeted_poll_and_handle_next_reply ::
    "('pid, 'psc, 's, 'c, 'rx, 'pe, 'st, 'i, 'rq, 'rp, 'rh) TargetedEnv \<Rightarrow> bytes \<Rightarrow>
     ('s, 'c, 'rx, 'st, 'i, 'rp, 'rh) PusTargetedRequestService \<Rightarrow>
     ('pe EcssTmtcError, HandlingStatus) res \<times> ('s, 'c, 'rx, 'st, 'i, 'rp, 'rh) PusTargetedRequestService" where
  "targeted_poll_and_handle_next_reply env time_stamp t =
     (let (r, rx) = mpsc_try_recv (reply_receiver t); t1 = t\<lparr>reply_receiver := rx\<rparr>
      in (case r of
            Ok reply \<Rightarrow> (let (r2, t2) = targeted_handle_reply env reply time_stamp t1 in (res_map (\<lambda>_. HandledOne) r2, t2))
          | Err TryRecvEmpty \<Rightarrow> (Ok HandledEmpty, t1)
          | Err TryRecvDisconnected \<Rightarrow> (Err (TmtcReceive (TxDisconnected None)), t1)
          | Panic \<Rightarrow> (Panic, t1)))"

text \<open>
  The timeout check visits the active requests in the order \<open>ids\<close> of the hash map, collects those that
  timed out, and removes them.
\<close>

definition check_for_request_timeouts ::
    "('pid, 'psc, 's, 'c, 'rx, 'pe, 'st, 'i, 'rq, 'rp, 'rh) TargetedEnv \<Rightarrow> nat \<Rightarrow> u32 list \<Rightarrow>
     ('s, 'c, 'rx, 'st, 'i, 'rp, 'rh) PusTargetedRequestService \<Rightarrow>
     ('s, 'c, 'rx, 'st, 'i, 'rp, 'rh) PusTargetedRequestService" where
  "check_for_request_timeouts env now ids t =
     (let requests_to_delete = filter (\<lambda>rid. case active_request_map t rid of
            Some info \<Rightarrow> ap_has_timed_out (te_provider env) now info | None \<Rightarrow> False) ids
      in if requests_to_delete \<noteq> []
         then t\<lparr>active_request_map := fold (\<lambda>rid m. snd (DefaultActiveRequestMap_remove m rid)) requests_to_delete (active_request_map t)\<rparr>
         else t)"

text \<open>The default handlers of \<^verbatim>\<open>TargetedPusService\<close>: an error counts as nothing to do.\<close>

definition poll_and_handle_next_tc_default_handler ::
    "('pid, 'psc, 's, 'c, 'rx, 'pe, 'st, 'i, 'rq, 'rp, 'rh) TargetedEnv \<Rightarrow> nat \<Rightarrow> bytes \<Rightarrow>
     ('s, 'c, 'rx, 'st, 'i, 'rp, 'rh) PusTargetedRequestService \<Rightarrow>
     (('e, HandlingStatus) res \<times> ('s, 'c, 'rx, 'st, 'i, 'rp, 'rh) PusTargetedRequestService) option" where
  "poll_and_handle_next_tc_default_handler env now time_stamp t =
     map_option (\<lambda>(r, t'). (case r of Err _ \<Rightarrow> Ok HandledEmpty | Ok status \<Rightarrow> Ok status | Panic \<Rightarrow> Panic, t'))
       (targeted_poll_and_handle_next_tc env now time_stamp t)"

definition poll_and_handle_next_reply_default_handler ::
    "('pid, 'psc, 's, 'c, 'rx, 'pe, 'st, 'i, 'rq, 'rp, 'rh) TargetedEnv \<Rightarrow> bytes \<Rightarrow>
     ('s, 'c, 'rx, 'st, 'i, 'rp, 'rh) PusTargetedRequestService \<Rightarrow>
     ('e, HandlingStatus) res \<times> ('s, 'c, 'rx, 'st, 'i, 'rp, 'rh) PusTargetedRequestService" where
  "poll_and_handle_next_reply_default_handler env time_stamp t =
     (let (r, t') = targeted_poll_and_handle_next_reply env time_stamp t
      in (case r of Err _ \<Rightarrow> Ok HandledEmpty | Ok status \<Rightarrow> Ok status | Panic \<Rightarrow> Panic, t'))"

subsection \<open>The action service\<close>

text \<open>
  \<^verbatim>\<open>EcssEnumU16::new\<close> of the packet library is the argument \<open>eu16\<close>. The state is the failure data buffer;
  its old contents are never read, since a parameter is written over the part that is then used, so the
  model keeps the buffer as it is.
\<close>

definition ActionReplyHandler_handle_reply ::
    "('pid, 'psc) Spacepackets \<Rightarrow> ('s, 'pe) EcssTmSender \<Rightarrow> (u16 \<Rightarrow> EcssEnumeration) \<Rightarrow> bytes \<Rightarrow>
     ActionReplyPus GenericMessage \<Rightarrow> ('pid, 'psc) ActivePusActionRequestStd \<Rightarrow> 's \<Rightarrow> VerificationReporter \<Rightarrow> bytes \<Rightarrow>
     ('pe EcssTmtcError, bool) res \<times> 's \<times> VerificationReporter \<times> bytes" where
  "ActionReplyHandler_handle_reply sp send_tm eu16 buf reply active_request s v timestamp =
     (let (r, sv) =
        res_try (res_unwrap (VerificationToken_try_started (ap_token ActivePusActionRequestStd_provider active_request))) (s, v) (\<lambda>token.
          case arp_variant (message reply) of
            ActionCompletionFailed error_code params \<Rightarrow>
              (let (r, sv) = handle_completion_failure_with_generic_params sp send_tm s v token
                     \<lparr>fh_timestamp = timestamp, fh_error_code = ResultU16_enum error_code, fh_small_data_buf = buf, fh_params = params\<rparr>
               in (res_map (\<lambda>_. True) r, sv))
          | ActionStepFailed error_code step params \<Rightarrow>
              (let (r, sv) = handle_step_failure_with_generic_params sp send_tm s v token
                     \<lparr>fh_timestamp = timestamp, fh_error_code = ResultU16_enum error_code, fh_small_data_buf = buf, fh_params = params\<rparr>
                     (eu16 step)
               in (res_map (\<lambda>_. True) r, sv))
          | ActionCompleted \<Rightarrow>
              (let (r, sv) = completion_success sp send_tm s v token timestamp in (res_map (\<lambda>_. True) r, sv))
          | ActionStepSuccess step \<Rightarrow>
              (let (r, sv) = step_success sp send_tm s v token timestamp (eu16 step) in (res_map (\<lambda>_. False) r, sv)))
      in (r, fst sv, snd sv, buf))"

definition ActionReplyHandler_ops ::
    "('pid, 'psc) Spacepackets \<Rightarrow> ('s, 'pe) EcssTmSender \<Rightarrow> (u16 \<Rightarrow> EcssEnumeration) \<Rightarrow>
     (('pid, 'psc) ActivePusActionRequestStd, ActionReplyPus, bytes, 's, 'pe) PusReplyHandler" where
  "ActionReplyHandler_ops sp send_tm eu16 =
     \<lparr>rh_handle_unrequested_reply = (\<lambda>rh reply s. (Ok (), s, rh)),
      rh_handle_reply = ActionReplyHandler_handle_reply sp send_tm eu16,
      rh_handle_request_timeout = (\<lambda>rh info s v ts.
        let (r, s', v') = generic_pus_request_timeout_handler sp send_tm ActivePusActionRequestStd_provider info s v ts
        in (r, s', v', rh))\<rparr>"

text \<open>The timeout of an action is 30 seconds, in units of which \<open>per_sec\<close> make a second.\<close>

definition ActionRequestConverter_convert ::
    "('pid, 'psc) Spacepackets \<Rightarrow> ('s, 'pe) EcssTmSender \<Rightarrow> nat \<Rightarrow>
     (unit, ('pid, 'psc) ActivePusActionRequestStd, ActionRequest, 's, 'pid, 'psc) RequestConverter" where
  "ActionRequestConverter_convert sp send_tm per_sec st now token tc s v time_stamp =
     (let user_data = tc_user_data tc
      in if length user_data < 8
         then fail_start sp send_tm token s v (FailParams_new_no_fail_data time_stamp (tmtc_code NOT_ENOUGH_APP_DATA))
                (NotEnoughAppData 8 (length user_data))
         else
           res_try (res_unwrap (UniqueApidTargetId_from_pus_tc (tc_apid tc) user_data)) (s, v) (\<lambda>target.
           res_try (slice 4 8 user_data) (s, v) (\<lambda>raw.
             let action_id = from_be_bytes raw
             in if tc_subservice tc = 128
                then res_try (if length user_data = 8 then Ok ActionNoData
                              else res_map ActionVecData (slice 8 (length user_data) user_data)) (s, v) (\<lambda>variant.
                     (Ok (ActivePusActionRequestStd_new now action_id (UniqueApidTargetId_raw target) (TokenAccepted token) (30 * per_sec),
                          ActionRequest_new action_id variant), s, v))
                else fail_start sp send_tm token s v (FailParams_new_no_fail_data time_stamp (tmtc_code INVALID_PUS_SUBSERVICE))
                       (InvalidSubservice (tc_subservice tc)))))"

subsection \<open>The mode service\<close>

datatype ModeSubservice =
    TcSetMode | TcReadMode | TcAnnounceMode | TcAnnounceModeRecursive | TmModeReply | TmCantReachMode | TmWrongModeReply

definition ModeSubservice_try_from :: "u8 \<Rightarrow> ModeSubservice option" where
  "ModeSubservice_try_from n =
     map_of [(1, TcSetMode), (3, TcReadMode), (4, TcAnnounceMode), (5, TcAnnounceModeRecursive), (6, TmModeReply),
       (7, TmCantReachMode), (8, TmWrongModeReply)] n"

text \<open>\<open>pid_apid\<close> is the APID of a packet id of the packet library; the handler state is the id of its owner.\<close>

definition mode_reply_tm :: "u16 \<Rightarrow> bytes \<Rightarrow> bytes \<Rightarrow> PusTmCreator" where
  "mode_reply_tm apid time_stamp data =
     \<lparr>pt_apid = apid, pt_seq_count = 0, pt_service = 200, pt_subservice = 6, pt_msg_counter = 0, pt_dest_id = 0,
      pt_time_stamp = time_stamp, pt_source_data = data\<rparr>"

definition ModeReplyHandler_handle_reply ::
    "('pid, 'psc) Spacepackets \<Rightarrow> ('s, 'pe) EcssTmSender \<Rightarrow> ('pid \<Rightarrow> u16) \<Rightarrow> ComponentId \<Rightarrow>
     ModeReply GenericMessage \<Rightarrow> ('pid, 'psc) ActivePusRequestStd \<Rightarrow> 's \<Rightarrow> VerificationReporter \<Rightarrow> bytes \<Rightarrow>
     ('pe EcssTmtcError, bool) res \<times> 's \<times> VerificationReporter \<times> ComponentId" where
  "ModeReplyHandler_handle_reply sp send_tm pid_apid owner reply active_request s v time_stamp =
     (let (r, sv) =
        res_try (res_unwrap (VerificationToken_try_started (ap_token ActivePusRequestStd_provider active_request))) (s, v) (\<lambda>token.
          case message reply of
            ModeReply mode_reply \<Rightarrow>
              (let (rw, source_data) = ModeAndSubmode_write_to_be_bytes mode_reply (replicate 12 0)
               in res_try (res_unwrap rw) (s, v) (\<lambda>_.
                  let apid = pid_apid (packet_id (RequestId_from sp (GenericMessage_request_id reply)));
                      (r1, s1) = send_tm s owner (Direct (mode_reply_tm apid time_stamp source_data))
                  in res_try r1 (s1, v) (\<lambda>_. completion_success sp send_tm s1 v token time_stamp)))
          | CantReachMode error_code \<Rightarrow>
              completion_failure sp send_tm s v token (FailParams_new time_stamp (ResultU16_enum error_code) [])
          | WrongMode expected reached \<Rightarrow>
              (let (rw1, w1) = ModeAndSubmode_write_to_be_bytes expected (replicate RAW_LEN 0);
                   (rw2, w2) = ModeAndSubmode_write_to_be_bytes reached (replicate (24 - RAW_LEN) 0)
               in res_try (res_unwrap rw1) (s, v) (\<lambda>n1.
                  res_try (res_unwrap rw2) (s, v) (\<lambda>n2.
                  res_try (slice 0 (n1 + n2) (w1 @ w2)) (s, v) (\<lambda>error_info.
                    completion_failure sp send_tm s v token
                      (FailParams_new time_stamp (ResultU16_enum WRONG_MODE) error_info))))))
      in (res_map (\<lambda>_. True) r, fst sv, snd sv, owner))"

definition ModeReplyHandler_ops ::
    "('pid, 'psc) Spacepackets \<Rightarrow> ('s, 'pe) EcssTmSender \<Rightarrow> ('pid \<Rightarrow> u16) \<Rightarrow>
     (('pid, 'psc) ActivePusRequestStd, ModeReply, ComponentId, 's, 'pe) PusReplyHandler" where
  "ModeReplyHandler_ops sp send_tm pid_apid =
     \<lparr>rh_handle_unrequested_reply = (\<lambda>rh reply s. (Ok (), s, rh)),
      rh_handle_reply = ModeReplyHandler_handle_reply sp send_tm pid_apid,
      rh_handle_request_timeout = (\<lambda>rh info s v ts.
        let (r, s', v') = generic_pus_request_timeout_handler sp send_tm ActivePusRequestStd_provider info s v ts
        in (r, s', v', rh))\<rparr>"

definition ModeRequestConverter_convert ::
    "('pid, 'psc) Spacepackets \<Rightarrow> ('s, 'pe) EcssTmSender \<Rightarrow> nat \<Rightarrow>
     (unit, ('pid, 'psc) ActivePusRequestStd, ModeRequest, 's, 'pid, 'psc) RequestConverter" where
  "ModeRequestConverter_convert sp send_tm per_sec st now token tc s v time_stamp =
     (let user_data = tc_user_data tc;
          not_enough_app_data = (\<lambda>expected.
            fail_start sp send_tm token s v (FailParams_new_no_fail_data time_stamp (tmtc_code NOT_ENOUGH_APP_DATA))
              (NotEnoughAppData expected (length user_data)));
          invalid_subservice =
            fail_start sp send_tm token s v (FailParams_new_no_fail_data time_stamp (tmtc_code INVALID_PUS_SUBSERVICE))
              (InvalidSubservice (tc_subservice tc))
      in if length user_data < 4 then not_enough_app_data 4
         else
           res_try (res_unwrap (UniqueApidTargetId_from_pus_tc (tc_apid tc) user_data)) (s, v) (\<lambda>target.
             let active = ActivePusRequestStd_new now (UniqueApidTargetId_raw target) (TokenAccepted token) (30 * per_sec)
             in (case ModeSubservice_try_from (tc_subservice tc) of
                   Some TcSetMode \<Rightarrow>
                     if length user_data < 4 + RAW_LEN then not_enough_app_data (4 + RAW_LEN)
                     else res_try (res_bind (slice 4 (length user_data) user_data)
                                     (\<lambda>raw. res_unwrap (ModeAndSubmode_from_be_bytes raw))) (s, v) (\<lambda>mode.
                            (Ok (active, SetMode mode), s, v))
                 | Some TcReadMode \<Rightarrow> (Ok (active, ReadMode), s, v)
                 | Some TcAnnounceMode \<Rightarrow> (Ok (active, AnnounceMode), s, v)
                 | Some TcAnnounceModeRecursive \<Rightarrow> (Ok (active, AnnounceModeRecursive), s, v)
                 | _ \<Rightarrow> invalid_subservice)))"

subsection \<open>The housekeeping service\<close>

text \<open>The subservices of \<^verbatim>\<open>spacepackets::ecss::hk\<close> the code names; \<open>try_sub\<close> reads a number.\<close>

datatype HkSubservice =
    TcEnableHkGeneration | TcEnableDiagGeneration | TcDisableHkGeneration | TcDisableDiagGeneration
  | TcReportHkReportStructures | TmHkPacket | TcGenerateOneShotHk | TcGenerateOneShotDiag
  | TcModifyDiagCollectionInterval | TcModifyHkCollectionInterval | HkOther

definition HkReplyHandler_handle_reply ::
    "('pid, 'psc) Spacepackets \<Rightarrow> ('s, 'pe) EcssTmSender \<Rightarrow> unit \<Rightarrow>
     HkReply GenericMessage \<Rightarrow> ('pid, 'psc) ActivePusRequestStd \<Rightarrow> 's \<Rightarrow> VerificationReporter \<Rightarrow> bytes \<Rightarrow>
     ('pe EcssTmtcError, bool) res \<times> 's \<times> VerificationReporter \<times> unit" where
  "HkReplyHandler_handle_reply sp send_tm rh reply active_request s v time_stamp =
     (let (r, sv) =
        res_try (res_unwrap (VerificationToken_try_started (ap_token ActivePusRequestStd_provider active_request))) (s, v) (\<lambda>token.
          let (r, sv) = (case hkr_variant (message reply) of
                 HkAck \<Rightarrow> completion_success sp send_tm s v token time_stamp
               | HkFailed code \<Rightarrow> completion_failure sp send_tm s v token (FailParams_new time_stamp (ResultU16_enum code) []))
          in (res_unwrap r, sv))
      in (res_map (\<lambda>_. True) r, fst sv, snd sv, rh))"

definition HkReplyHandler_ops ::
    "('pid, 'psc) Spacepackets \<Rightarrow> ('s, 'pe) EcssTmSender \<Rightarrow>
     (('pid, 'psc) ActivePusRequestStd, HkReply, unit, 's, 'pe) PusReplyHandler" where
  "HkReplyHandler_ops sp send_tm =
     \<lparr>rh_handle_unrequested_reply = (\<lambda>rh reply s. (Ok (), s, rh)),
      rh_handle_reply = HkReplyHandler_handle_reply sp send_tm,
      rh_handle_request_timeout = (\<lambda>rh info s v ts.
        let (r, s', v') = generic_pus_request_timeout_handler sp send_tm ActivePusRequestStd_provider info s v ts
        in (r, s', v', rh))\<rparr>"

text \<open>The converter state is its timeout. Two of the subservices are a \<^verbatim>\<open>todo!\<close>.\<close>

definition HkRequestConverter_convert ::
    "('pid, 'psc) Spacepackets \<Rightarrow> ('s, 'pe) EcssTmSender \<Rightarrow> (u8 \<Rightarrow> HkSubservice option) \<Rightarrow>
     (nat, ('pid, 'psc) ActivePusRequestStd, HkRequest, 's, 'pid, 'psc) RequestConverter" where
  "HkRequestConverter_convert sp send_tm try_sub timeout now token tc s v time_stamp =
     (let user_data = tc_user_data tc; subservice = tc_subservice tc;
          len_raw = to_be_bytes (of_nat (length user_data) :: u32);
          fail = (\<lambda>code data e. fail_start sp send_tm token s v (FailParams_new time_stamp code data) e)
      in if user_data = [] then fail (tmtc_code NOT_ENOUGH_APP_DATA) len_raw (NotEnoughAppData 4 0)
         else if length user_data < 8
         then fail (if length user_data < 4 then hk_code TARGET_ID_MISSING else hk_code UNIQUE_ID_MISSING) len_raw (NotEnoughAppData 8 4)
         else
           res_try (res_unwrap (UniqueApidTargetId_from_pus_tc (tc_apid tc) user_data)) (s, v) (\<lambda>target.
           res_try (slice 4 8 user_data) (s, v) (\<lambda>raw.
             let unique_id = from_be_bytes raw;
                 request = (\<lambda>variant. (Ok (ActivePusRequestStd_new now (UniqueApidTargetId_raw target) (TokenAccepted token) timeout,
                    HkRequest_new unique_id variant), s, v))
             in (case try_sub subservice of
                   None \<Rightarrow> fail (tmtc_code INVALID_PUS_SUBSERVICE) [subservice] (InvalidSubservice subservice)
                 | Some sub \<Rightarrow>
                     if sub = TcEnableHkGeneration \<or> sub = TcEnableDiagGeneration then request EnablePeriodic
                     else if sub = TcDisableHkGeneration \<or> sub = TcDisableDiagGeneration then request DisablePeriodic
                     else if sub = TcReportHkReportStructures \<or> sub = TmHkPacket then (Panic, s, v)
                     else if sub = TcGenerateOneShotHk \<or> sub = TcGenerateOneShotDiag then request OneShot
                     else if sub = TcModifyDiagCollectionInterval \<or> sub = TcModifyHkCollectionInterval
                     then if length user_data < 12
                          then fail (tmtc_code NOT_ENOUGH_APP_DATA) [] (NotEnoughAppData 12 (length user_data))
                          else res_try (slice 8 12 user_data) (s, v) (\<lambda>raw. request (ModifyCollectionInterval (from_be_bytes raw)))
                     else fail (tmtc_code PUS_SUBSERVICE_NOT_IMPLEMENTED) [subservice] (InvalidSubservice subservice)))))"

end
