(* ===== verification/Tc_Distributor.thy ===== *)
theory Tc_Distributor
  imports Requests
begin

text \<open>
  The telecommand distributor of the example application (\<^verbatim>\<open>satrs-example/src/pus/mod.rs\<close>, with the component
  ids of \<^verbatim>\<open>satrs-example/src/config.rs\<close> and the time stamp helper of \<^verbatim>\<open>satrs-example/src/lib.rs\<close>): it
  accepts every readable telecommand and forwards it to the channel of its service. Log output is not part
  of the model.
\<close>

subsection \<open>Component ids and the reporter\<close>

datatype CustomPusServiceId = CustomMode | CustomHealth

definition CustomPusServiceId_try_from :: "u8 \<Rightarrow> CustomPusServiceId option" where
  "CustomPusServiceId_try_from n = map_of [(200, CustomMode), (201, CustomHealth)] n"

datatype Apid = ApidSched | ApidGenericPus | ApidAcs | ApidCfdp | ApidTmtc | ApidEps

fun Apid_num :: "Apid \<Rightarrow> u16" where
  "Apid_num ApidSched = 1"
| "Apid_num ApidGenericPus = 2"
| "Apid_num ApidAcs = 3"
| "Apid_num ApidCfdp = 4"
| "Apid_num ApidTmtc = 5"
| "Apid_num ApidEps = 6"

datatype component =
    PUS_ACTION_SERVICE | PUS_EVENT_MANAGEMENT | PUS_ROUTING_SERVICE | PUS_TEST_SERVICE | PUS_MODE_SERVICE
  | PUS_HK_SERVICE | PUS_SCHED_SERVICE | MGM_HANDLER_0 | PCDU_HANDLER | UDP_SERVER | TCP_SERVER

definition target_id :: "Apid \<Rightarrow> u32 \<Rightarrow> UniqueApidTargetId" where
  "target_id a i = \<lparr>ut_apid = Apid_num a, ut_unique_id = i\<rparr>"

fun component_target :: "component \<Rightarrow> UniqueApidTargetId" where
  "component_target PUS_ACTION_SERVICE = target_id ApidGenericPus 3"
| "component_target PUS_EVENT_MANAGEMENT = target_id ApidGenericPus 0"
| "component_target PUS_ROUTING_SERVICE = target_id ApidGenericPus 1"
| "component_target PUS_TEST_SERVICE = target_id ApidGenericPus 2"
| "component_target PUS_MODE_SERVICE = target_id ApidGenericPus 4"
| "component_target PUS_HK_SERVICE = target_id ApidGenericPus 5"
| "component_target PUS_SCHED_SERVICE = target_id ApidSched 0"
| "component_target MGM_HANDLER_0 = target_id ApidAcs 0"
| "component_target PCDU_HANDLER = target_id ApidEps 0"
| "component_target UDP_SERVER = target_id ApidTmtc 0"
| "component_target TCP_SERVER = target_id ApidTmtc 1"

abbreviation component_id :: "component \<Rightarrow> ComponentId" where
  "component_id c \<equiv> UniqueApidTargetId_raw (component_target c)"

definition create_verification_reporter ::
    "('pid, 'psc) Spacepackets \<Rightarrow> ComponentId \<Rightarrow> u16 \<Rightarrow> ('e, VerificationReporter) res" where
  "create_verification_reporter sp owner apid =
     res_bind (opt_unwrap (VerificationReporterCfg_new sp apid 1 2 8)) (\<lambda>verif_cfg.
       VerificationReporter_new sp owner verif_cfg)"

subsection \<open>The time stamp helper\<close>

text \<open>
  \<^verbatim>\<open>CdsTime\<close> of the packet library: it is updated from the clock, whose reading is an argument, and
  writes itself into a buffer.
\<close>

record 'cds CdsOps =
  cds_now_with_u16_days :: "nat \<Rightarrow> (unit, 'cds) res"
  cds_update_from_now :: "nat \<Rightarrow> 'cds \<Rightarrow> (unit, unit) res \<times> 'cds"
  cds_write_to_bytes :: "'cds \<Rightarrow> bytes \<Rightarrow> (unit, nat) res \<times> bytes"

record 'cds TimestampHelper =
  stamper :: 'cds
  stamp :: bytes

definition TimestampHelper_default :: "'cds CdsOps \<Rightarrow> nat \<Rightarrow> ('e, 'cds TimestampHelper) res" where
  "TimestampHelper_default cds now =
     res_bind (res_unwrap (cds_now_with_u16_days cds now)) (\<lambda>c. Ok \<lparr>stamper = c, stamp = replicate 7 0\<rparr>)"

definition update_from_now ::
    "'cds CdsOps \<Rightarrow> nat \<Rightarrow> 'cds TimestampHelper \<Rightarrow> ('e, unit) res \<times> 'cds TimestampHelper" where
  "update_from_now cds now h =
     (let (r, c) = cds_update_from_now cds now (stamper h); h1 = h\<lparr>stamper := c\<rparr>
      in res_try (res_unwrap r) h1 (\<lambda>_.
         let (r2, raw) = cds_write_to_bytes cds c (stamp h1)
         in (res_map (\<lambda>_. ()) (res_unwrap r2), h1\<lparr>stamp := raw\<rparr>)))"

subsection \<open>The distributor\<close>

text \<open>
  \<^verbatim>\<open>PusServiceId\<close> of the packet library: the services the code names and the others. \<open>de_hdr\<close> gives the
  version, packet id and sequence control of a telecommand, from which its request id is made.
\<close>

datatype PusServiceId =
    ServiceTest | ServiceHousekeeping | ServiceEvent | ServiceScheduling | ServiceAction | ServiceOther u8

record ('pid, 'psc, 's, 'pe, 'cds) DistEnv =
  de_sp :: "('pid, 'psc) Spacepackets"
  de_send_tm :: "('s, 'pe) EcssTmSender"
  de_read_tc :: "bytes \<Rightarrow> ('pe PusError, PusTc) res"
  de_hdr :: "PusTc \<Rightarrow> u8 \<times> 'pid \<times> 'psc"
  de_cds :: "'cds CdsOps"
  de_service :: "u8 \<Rightarrow> PusServiceId option"
  de_service_num :: "PusServiceId \<Rightarrow> u8"

text \<open>The router holds the sending ends of the service channels, which are handles into the net.\<close>

record PusTcMpscRouter =
  test_tc_sender :: nat
  event_tc_sender :: nat
  sched_tc_sender :: nat
  hk_tc_sender :: nat
  action_tc_sender :: nat
  mode_tc_sender :: nat

record ('pid, 'psc, 's, 'cds) PusTcDistributor =
  dist_id :: ComponentId
  dist_tm_sender :: 's
  dist_verif_reporter :: VerificationReporter
  pus_router :: PusTcMpscRouter
  stamp_helper :: "'cds TimestampHelper"
  service_net :: "('pid, 'psc) EcssTcAndToken net"

definition PusTcDistributor_new ::
    "('pid, 'psc, 's, 'pe, 'cds) DistEnv \<Rightarrow> nat \<Rightarrow> 's \<Rightarrow> PusTcMpscRouter \<Rightarrow> ('pid, 'psc) EcssTcAndToken net \<Rightarrow>
     ('e, ('pid, 'psc, 's, 'cds) PusTcDistributor) res" where
  "PusTcDistributor_new env now s router w =
     res_bind (create_verification_reporter (de_sp env) (component_id PUS_ROUTING_SERVICE)
        (ut_apid (component_target PUS_ROUTING_SERVICE))) (\<lambda>v.
     res_bind (TimestampHelper_default (de_cds env) now) (\<lambda>helper.
       Ok \<lparr>dist_id = component_id PUS_ROUTING_SERVICE, dist_tm_sender = s, dist_verif_reporter = v, pus_router = router,
           stamp_helper = helper, service_net = w\<rparr>))"

text \<open>Sending to the channel of a service.\<close>

definition forward_tc ::
    "nat \<Rightarrow> ('pid, 'psc) EcssTcAndToken \<Rightarrow> ('pid, 'psc, 's, 'cds) PusTcDistributor \<Rightarrow>
     (GenericSendError, unit) res \<times> ('pid, 'psc, 's, 'cds) PusTcDistributor" where
  "forward_tc h tc d =
     (let (r, w) = on_chan (\<lambda>c. mpsc_send c tc) (service_net d) h
      in (res_map_err GenericSendError_from_send r, d\<lparr>service_net := w\<rparr>))"

text \<open>The start failure that answers a telecommand with no service.\<close>

definition dist_start_failure ::
    "('pid, 'psc, 's, 'pe, 'cds) DistEnv \<Rightarrow> (TcStateAccepted, 'pid, 'psc) VerificationToken \<Rightarrow> tmtc_err \<Rightarrow> bytes \<Rightarrow>
     ('pid, 'psc, 's, 'cds) PusTcDistributor \<Rightarrow> ('pe EcssTmtcError, unit) res \<times> ('pid, 'psc, 's, 'cds) PusTcDistributor" where
  "dist_start_failure env token code data d =
     (let (r, s, v) = start_failure (de_sp env) (de_send_tm env) (dist_tm_sender d) (dist_verif_reporter d) token
            (FailParams_new (stamp (stamp_helper d)) (tmtc_code code) data)
      in (r, d\<lparr>dist_tm_sender := s, dist_verif_reporter := v\<rparr>))"

definition handle_tc_generic ::
    "('pid, 'psc, 's, 'pe, 'cds) DistEnv \<Rightarrow> nat \<Rightarrow> ComponentId \<Rightarrow> PoolAddr option \<Rightarrow> bytes \<Rightarrow>
     ('pid, 'psc, 's, 'cds) PusTcDistributor \<Rightarrow>
     (GenericSendError, HandlingStatus) res \<times> ('pid, 'psc, 's, 'cds) PusTcDistributor" where
  "handle_tc_generic env now sender_id addr_opt raw_tc d =
     (case de_read_tc env raw_tc of
        Err _ \<Rightarrow> (Ok HandledOne, d)
      | Panic \<Rightarrow> (Panic, d)
      | Ok pus_tc \<Rightarrow>
          (let (ver, pid, ps) = de_hdr env pus_tc;
               init_token = add_tc (reporter_creator (dist_verif_reporter d)) ver pid ps;
               (ru, helper) = update_from_now (de_cds env) now (stamp_helper d);
               d1 = d\<lparr>stamp_helper := helper\<rparr>
           in res_try ru d1 (\<lambda>_.
              let (ra, s, v) = acceptance_success (de_sp env) (de_send_tm env) (dist_tm_sender d1) (dist_verif_reporter d1)
                    init_token (stamp (stamp_helper d1));
                  d2 = d1\<lparr>dist_tm_sender := s, dist_verif_reporter := v\<rparr>
              in res_try (res_unwrap ra) d2 (\<lambda>accepted_token.
                 let tc_in_mem = (case addr_opt of
                       Some store_addr \<Rightarrow> TcPool (PacketInPool_new sender_id store_addr)
                     | None \<Rightarrow> TcVec (PacketAsVec_new sender_id raw_tc));
                     msg = \<lparr>tc_in_memory = tc_in_mem, tc_token = Some (TokenAccepted accepted_token)\<rparr>;
                     router = pus_router d2;
                     number = tc_service pus_tc;
                     (r, d3) = (case de_service env number of
                        Some ServiceTest \<Rightarrow> forward_tc (test_tc_sender router) msg d2
                      | Some ServiceHousekeeping \<Rightarrow> forward_tc (hk_tc_sender router) msg d2
                      | Some ServiceEvent \<Rightarrow> forward_tc (event_tc_sender router) msg d2
                      | Some ServiceScheduling \<Rightarrow> forward_tc (sched_tc_sender router) msg d2
                      | Some standard_service \<Rightarrow>
                          (let (rf, d') = dist_start_failure env accepted_token PUS_SERVICE_NOT_IMPLEMENTED
                                 [de_service_num env standard_service] d2
                           in (if rf = Panic then Panic else Ok (), d'))
                      | None \<Rightarrow>
                          (case CustomPusServiceId_try_from number of
                             Some CustomMode \<Rightarrow> forward_tc (mode_tc_sender router) msg d2
                           | Some CustomHealth \<Rightarrow> (Ok (), d2)
                           | None \<Rightarrow>
                               (let (rf, d') = dist_start_failure env accepted_token INVALID_PUS_SUBSERVICE [number] d2
                                in (res_unwrap rf, d'))))
                 in res_try r d3 (\<lambda>_. (Ok HandledOne, d3))))))"

definition handle_tc_packet_vec ::
    "('pid, 'psc, 's, 'pe, 'cds) DistEnv \<Rightarrow> nat \<Rightarrow> PacketAsVec \<Rightarrow> ('pid, 'psc, 's, 'cds) PusTcDistributor \<Rightarrow>
     (GenericSendError, HandlingStatus) res \<times> ('pid, 'psc, 's, 'cds) PusTcDistributor" where
  "handle_tc_packet_vec env now p d = handle_tc_generic env now (pav_sender_id p) None (pav_packet p) d"

definition handle_tc_packet_in_store ::
    "('pid, 'psc, 's, 'pe, 'cds) DistEnv \<Rightarrow> nat \<Rightarrow> PacketInPool \<Rightarrow> bytes \<Rightarrow> ('pid, 'psc, 's, 'cds) PusTcDistributor \<Rightarrow>
     (GenericSendError, HandlingStatus) res \<times> ('pid, 'psc, 's, 'cds) PusTcDistributor" where
  "handle_tc_packet_in_store env now p pus_tc_copy d =
     handle_tc_generic env now (pip_sender_id p) (Some (pip_store_addr p)) pus_tc_copy d"

subsection \<open>What becomes of a telecommand\<close>

datatype tc_fate = Forwarded nat | Ignored | Refused tmtc_err

definition tc_fate :: "('pid, 'psc, 's, 'pe, 'cds) DistEnv \<Rightarrow> PusTcMpscRouter \<Rightarrow> u8 \<Rightarrow> tc_fate" where
  "tc_fate env router number =
     (case de_service env number of
        Some ServiceTest \<Rightarrow> Forwarded (test_tc_sender router)
      | Some ServiceHousekeeping \<Rightarrow> Forwarded (hk_tc_sender router)
      | Some ServiceEvent \<Rightarrow> Forwarded (event_tc_sender router)
      | Some ServiceScheduling \<Rightarrow> Forwarded (sched_tc_sender router)
      | Some _ \<Rightarrow> Refused PUS_SERVICE_NOT_IMPLEMENTED
      | None \<Rightarrow> if number = 200 then Forwarded (mode_tc_sender router)
                else if number = 201 then Ignored else Refused INVALID_PUS_SUBSERVICE)"

lemma forward_tc_eq:
  "forward_tc h msg d =
     (if rx_alive (service_net d h) then (Ok (), d\<lparr>service_net := (service_net d)(h := (service_net d h)
         \<lparr>ch_queue := ch_queue (service_net d h) @ [msg]\<rparr>)\<rparr>)
      else (Err RxDisconnected, d\<lparr>service_net := service_net d\<rparr>))"
  by (simp add: forward_tc_def on_chan_def mpsc_send_def GenericSendError_from_send_def)

lemma vec_dist_start_failure:
  assumes "tm_ops_ok ops" "de_send_tm env = MpscTmAsVecSender_send_tm ops k"
    and "reporter_ok k (dist_tm_sender d) 15 (dist_verif_reporter d)"
  shows "dist_start_failure env token code [x] d =
    (let (s, v) = push_report (de_sp env) ops k TmStartFailure (stamp (stamp_helper d)) (token_request_id token)
           (code_bytes (tmtc_err_code code) @ [x]) (dist_tm_sender d, dist_verif_reporter d)
     in (Ok (), d\<lparr>dist_tm_sender := s, dist_verif_reporter := v\<rparr>))"
  using assms by (simp add: dist_start_failure_def vec_failure_reports case_prod_unfold Let_def)

text \<open>A telecommand is accepted, and what happens next is its fate.\<close>

definition accepted_dist :: "('pid, 'psc, PacketAsVec net, 'pe, 'cds) DistEnv \<Rightarrow> TmOps \<Rightarrow> nat \<Rightarrow> ('pid, 'psc) RequestId \<Rightarrow>
    'cds TimestampHelper \<Rightarrow> ('pid, 'psc, PacketAsVec net, 'cds) PusTcDistributor \<Rightarrow> ('pid, 'psc, PacketAsVec net, 'cds) PusTcDistributor" where
  "accepted_dist env ops k rid helper d =
     (let sv = push_report (de_sp env) ops k TmAcceptanceSuccess (stamp helper) rid [] (dist_tm_sender d, dist_verif_reporter d)
      in d\<lparr>stamp_helper := helper, dist_tm_sender := fst sv, dist_verif_reporter := snd sv\<rparr>)"

lemma accepted_dist_sel [simp]:
  "service_net (accepted_dist env ops k rid helper d) = service_net d"
  "pus_router (accepted_dist env ops k rid helper d) = pus_router d"
  "stamp_helper (accepted_dist env ops k rid helper d) = helper"
  "ch_queue (dist_tm_sender (accepted_dist env ops k rid helper d) k) = ch_queue (dist_tm_sender d k) @
     [report_packet (de_sp env) ops (dist_verif_reporter d) TmAcceptanceSuccess (stamp helper) rid []]"
  "report_packet sp ops (dist_verif_reporter (accepted_dist env ops k rid helper d)) = report_packet sp ops (dist_verif_reporter d)"
  by (auto simp: accepted_dist_def Let_def intro!: report_packet_cong)

lemma accepted_dist_ok:
  "reporter_ok k (dist_tm_sender d) 15 (dist_verif_reporter d) \<Longrightarrow>
     reporter_ok k (dist_tm_sender (accepted_dist env ops k rid helper d)) 15 (dist_verif_reporter (accepted_dist env ops k rid helper d))"
  by (simp add: accepted_dist_def push_report_pair Let_def)

lemma dist_run:
  fixes sender :: ComponentId
  assumes "tm_ops_ok ops" "de_send_tm env = MpscTmAsVecSender_send_tm ops k"
    and "reporter_ok k (dist_tm_sender d) 15 (dist_verif_reporter d)"
    and "\<forall>n s. de_service env n = Some s \<longrightarrow> de_service_num env s = n"
    and "de_read_tc env raw = Ok tc" "de_hdr env tc = (ver, pid, ps)"
    and "update_from_now (de_cds env) now (stamp_helper d) = (Ok () :: (GenericSendError, unit) res, helper)"
  defines "rid \<equiv> RequestId_new ver pid ps"
  defines "fate \<equiv> tc_fate env (pus_router d) (tc_service tc)"
  defines "msg \<equiv> \<lparr>tc_in_memory = TcVec \<lparr>pav_sender_id = sender, pav_packet = raw\<rparr>, tc_token = Some (TokenAccepted (VerificationToken rid))\<rparr>"
  defines "d2 \<equiv> accepted_dist env ops k rid helper d"
  shows "handle_tc_generic env now sender None raw d =
      (let (r, d3) = (case fate of Forwarded h \<Rightarrow> forward_tc h msg d2 | Ignored \<Rightarrow> (Ok (), d2)
             | Refused e \<Rightarrow> (let p = push_report (de_sp env) ops k TmStartFailure (stamp helper) rid
                   (code_bytes (tmtc_err_code e) @ [tc_service tc]) (dist_tm_sender d2, dist_verif_reporter d2)
                 in (Ok (), d2\<lparr>dist_tm_sender := fst p, dist_verif_reporter := snd p\<rparr>)))
       in res_try r d3 (\<lambda>_. (Ok HandledOne, d3)))"
proof -
  obtain w1 v1 where sv: "push_report (de_sp env) ops k TmAcceptanceSuccess (stamp helper) rid [] (dist_tm_sender d, dist_verif_reporter d) =
      (w1, v1)" by fastforce
  have d2: "d2 = d\<lparr>stamp_helper := helper, dist_tm_sender := w1, dist_verif_reporter := v1\<rparr>"
    by (simp add: d2_def accepted_dist_def sv)
  have acc: "acceptance_success (de_sp env) (de_send_tm env) (dist_tm_sender d) (dist_verif_reporter d)
      (VerificationToken rid) (stamp helper) = (Ok (VerificationToken rid), w1, v1)"
    using sv by (simp add: assms(2) vec_success_reports (1) [OF assms(1,3)])
  have fail: "dist_start_failure env (VerificationToken rid) code [tc_service tc] d2 =
      (Ok (), d2\<lparr>dist_tm_sender := fst p, dist_verif_reporter := snd p\<rparr>)"
    if "p = push_report (de_sp env) ops k TmStartFailure (stamp helper) rid (code_bytes (tmtc_err_code code) @ [tc_service tc]) (w1, v1)" for code p
    using that vec_dist_start_failure [OF assms(1,2) accepted_dist_ok [OF assms(3)], of "VerificationToken rid" code "tc_service tc" env ops rid helper]
    by (simp add: d2_def [symmetric] d2 case_prod_unfold Let_def)
  note handler = handle_tc_generic_def assms(5-7) add_tc_def add_tc_with_req_id_def VerificationToken_new_def
  note outcome = fate_def tc_fate_def msg_def forward_tc_eq fail [OF refl, unfolded d2 rid_def] PacketAsVec_new_def
    CustomPusServiceId_try_from_def
  show ?thesis
  proof (cases "de_service env (tc_service tc)")
    case None
    then show ?thesis using acc by (simp add: handler outcome rid_def Let_def d2)
  next
    case (Some s)
    then show ?thesis using acc assms(4) by (cases s) (simp_all add: handler outcome rid_def Let_def d2)
  qed
qed

text \<open>
  C14: the distributor. A readable telecommand is accepted: the acceptance report is sent first, with the
  new time stamp. The telecommand is then put, with its accepted token and its sender, on the channel of the
  test, housekeeping, event, scheduling or mode service, and on no other; service 201 is dropped, and any
  other service is answered with a start failure report. In particular the action service gets no
  telecommand. When the service has gone the call is an error.
\<close>

theorem tc_distribution:
  fixes sender :: ComponentId
  assumes "tm_ops_ok ops" "de_send_tm env = MpscTmAsVecSender_send_tm ops k"
    and "reporter_ok k (dist_tm_sender d) 15 (dist_verif_reporter d)"
    and "\<forall>n s. de_service env n = Some s \<longrightarrow> de_service_num env s = n"
    and "de_read_tc env raw = Ok tc" "de_hdr env tc = (ver, pid, ps)"
    and "update_from_now (de_cds env) now (stamp_helper d) = (Ok () :: (GenericSendError, unit) res, helper)"
  defines "rid \<equiv> RequestId_new ver pid ps"
  defines "fate \<equiv> tc_fate env (pus_router d) (tc_service tc)"
  defines "msg \<equiv> \<lparr>tc_in_memory = TcVec \<lparr>pav_sender_id = sender, pav_packet = raw\<rparr>, tc_token = Some (TokenAccepted (VerificationToken rid))\<rparr>"
  shows "\<exists>r d'. handle_tc_generic env now sender None raw d = (r, d') \<and>
    r = (case fate of Forwarded h \<Rightarrow> if rx_alive (service_net d h) then Ok HandledOne else Err RxDisconnected | _ \<Rightarrow> Ok HandledOne) \<and>
    ch_queue (dist_tm_sender d' k) = ch_queue (dist_tm_sender d k) @
      report_packet (de_sp env) ops (dist_verif_reporter d) TmAcceptanceSuccess (stamp helper) rid [] #
      (case fate of
         Refused e \<Rightarrow> [report_packet (de_sp env) ops (dist_verif_reporter d) TmStartFailure (stamp helper) rid
                        (code_bytes (tmtc_err_code e) @ [tc_service tc])]
       | _ \<Rightarrow> []) \<and>
    service_net d' =
      (case fate of
         Forwarded h \<Rightarrow> if rx_alive (service_net d h)
           then (service_net d)(h := (service_net d h)\<lparr>ch_queue := ch_queue (service_net d h) @ [msg]\<rparr>) else service_net d
       | _ \<Rightarrow> service_net d)"
  by (cases fate)
    (simp_all add: dist_run [OF assms(1-7)] fate_def [symmetric] msg_def [symmetric] rid_def [symmetric] forward_tc_eq Let_def)

subsection \<open>Witnesses\<close>

definition demo_open :: "'m list \<Rightarrow> 'm chan" where
  "demo_open q = \<lparr>ch_queue = q, ch_bound = 4, rx_alive = True, tx_alive = True\<rparr>"

lemma demo_open_sel [simp]:
  "ch_queue (demo_open q) = q" "ch_bound (demo_open q) = 4" "rx_alive (demo_open q)" "tx_alive (demo_open q)"
  by (simp_all add: demo_open_def)

definition demo_hdr :: "PusTc \<Rightarrow> u8 \<times> 13 word \<times> u16" where
  "demo_hdr tc = (0, 5, 9)"

definition demo_cds :: "nat CdsOps" where
  "demo_cds = \<lparr>cds_now_with_u16_days = Ok, cds_update_from_now = (\<lambda>now c. (Ok (), now)),
     cds_write_to_bytes = (\<lambda>c buf. (Ok 7, replicate 7 0))\<rparr>"

definition demo_dist_env :: "(13 word, u16, PacketAsVec net, unit, nat) DistEnv" where
  "demo_dist_env = \<lparr>de_sp = demo_sp, de_send_tm = MpscTmAsVecSender_send_tm demo_ops 0, de_read_tc = demo_read_tc, de_hdr = demo_hdr,
     de_cds = demo_cds,
     de_service = map_of [(17, ServiceTest), (3, ServiceHousekeeping), (5, ServiceEvent), (11, ServiceScheduling), (8, ServiceAction)],
     de_service_num = (\<lambda>s. case s of ServiceTest \<Rightarrow> 17 | ServiceHousekeeping \<Rightarrow> 3 | ServiceEvent \<Rightarrow> 5 | ServiceScheduling \<Rightarrow> 11
       | ServiceAction \<Rightarrow> 8 | ServiceOther n \<Rightarrow> n)\<rparr>"

definition demo_dist :: "(13 word, u16, PacketAsVec net, nat) PusTcDistributor" where
  "demo_dist = the_ok (PusTcDistributor_new demo_dist_env 3 (\<lambda>_. demo_open []) \<lparr>test_tc_sender = 0, event_tc_sender = 1, sched_tc_sender = 2,
     hk_tc_sender = 3, action_tc_sender = 4, mode_tc_sender = 5\<rparr> (\<lambda>_. demo_open []) :: (unit, _) res)"

lemma demo_reporter_created:
  "create_verification_reporter demo_sp i 2 = Ok \<lparr>owner_id = i, source_data_buf = replicate 15 0,
     reporter_creator = \<lparr>dest_id = 0, creator_apid = 2\<rparr>, tm_hook = (\<lambda>tm. tm)\<rparr>"
  by (simp add: create_verification_reporter_def VerificationReporterCfg_new_def VerificationReporter_new_def SIZE_AS_BYTES_def
      VerificationReporter_new_with_hook_def VerificationReportCreator_new_def demo_sp_def)

lemma demo_dist_eq:
  "demo_dist = \<lparr>dist_id = component_id PUS_ROUTING_SERVICE, dist_tm_sender = (\<lambda>_. demo_open []),
     dist_verif_reporter = the_ok (create_verification_reporter demo_sp (component_id PUS_ROUTING_SERVICE) 2 :: (unit, _) res),
     pus_router = \<lparr>test_tc_sender = 0, event_tc_sender = 1, sched_tc_sender = 2, hk_tc_sender = 3, action_tc_sender = 4, mode_tc_sender = 5\<rparr>,
     stamp_helper = \<lparr>stamper = 3, stamp = replicate 7 0\<rparr>, service_net = (\<lambda>_. demo_open [])\<rparr>"
  by (simp add: demo_dist_def PusTcDistributor_new_def demo_dist_env_def TimestampHelper_default_def demo_cds_def target_id_def
      demo_reporter_created)

lemma demo_dist_ok:
  "reporter_ok 0 (dist_tm_sender demo_dist) 15 (dist_verif_reporter demo_dist)"
  "\<forall>n s. de_service demo_dist_env n = Some s \<longrightarrow> de_service_num demo_dist_env s = n"
  "update_from_now (de_cds demo_dist_env) 4 (stamp_helper demo_dist) = (Ok (), \<lparr>stamper = 4, stamp = replicate 7 0\<rparr>)"
  "de_send_tm demo_dist_env = MpscTmAsVecSender_send_tm demo_ops 0" "de_sp demo_dist_env = demo_sp"
  "de_read_tc demo_dist_env = demo_read_tc" "de_hdr demo_dist_env tc = (0, 5, 9)"
  by (auto simp: demo_dist_eq demo_reporter_created reporter_ok_def demo_dist_env_def update_from_now_def demo_cds_def demo_hdr_def
      split: if_splits)

lemma demo_report_sub: "pav_packet (report_packet demo_sp demo_ops v sub ts rid rest) = [verif_subservice demo_sp sub]"
  by (simp add: report_packet_def PacketAsVec_new_def demo_vec_sub verif_tm_def)

theorem tc_distribution_witness:
  "\<exists>d'. handle_tc_generic demo_dist_env 4 9 None [8, 128] demo_dist = (Ok HandledOne, d') \<and>
     map pav_packet (ch_queue (dist_tm_sender d' 0)) = [[1], [4]] \<and> service_net d' = service_net demo_dist"
proof -
  have fate: "tc_fate demo_dist_env r 8 = Refused PUS_SERVICE_NOT_IMPLEMENTED" for r
    by (simp add: tc_fate_def demo_dist_env_def)
  have tc: "de_read_tc demo_dist_env [8, 128] = Ok (demo_parsed 8 128 [])" by (simp add: demo_dist_ok)
  have q: "ch_queue (dist_tm_sender demo_dist 0) = []" by (simp add: demo_dist_eq)
  show ?thesis
    using tc_distribution [OF demo_ops_ok demo_dist_ok(4,1,2) tc demo_dist_ok(7,3), of 9]
    by (auto simp: fate q demo_dist_ok demo_report_sub) (simp_all add: demo_sp_def)
qed

end
