(* ===== verification/Targeted_Lifecycle.thy ===== *)
theory Targeted_Lifecycle
  imports Targeted_Service Tc_Distributor
begin

text \<open>
  The action, mode and housekeeping services as the example application builds them for telecommands and
  telemetry on the heap, and what they promise: the tokens of the active requests, the absence of panics,
  rejected telecommands, timeouts and the life of a request.
\<close>

subsection \<open>The services of the example\<close>

type_synonym ('pid, 'psc, 'st, 'i, 'rp, 'rh) vec_service =
  "(PacketAsVec net, EcssTcInVecConverter, ('pid, 'psc) EcssTcAndToken chan, 'st, 'i, 'rp, 'rh) PusTargetedRequestService"

type_synonym ('pid, 'psc, 'pe, 'st, 'i, 'rq, 'rp, 'rh) vec_service_env =
  "('pid, 'psc, PacketAsVec net, EcssTcInVecConverter, ('pid, 'psc) EcssTcAndToken chan, 'pe, 'st, 'i, 'rq, 'rp, 'rh) TargetedEnv"

definition tc_request_id :: "(PusTc \<Rightarrow> u8 \<times> 'pid \<times> 'psc) \<Rightarrow> PusTc \<Rightarrow> ('pid, 'psc) RequestId" where
  "tc_request_id hdr tc = (let (ver, pid, ps) = hdr tc in RequestId_new ver pid ps)"

definition action_env ::
    "('pid, 'psc) Spacepackets \<Rightarrow> TmOps \<Rightarrow> nat \<Rightarrow> (bytes \<Rightarrow> ('pe PusError, PusTc) res) \<Rightarrow> (PusTc \<Rightarrow> u8 \<times> 'pid \<times> 'psc) \<Rightarrow>
     (u16 \<Rightarrow> EcssEnumeration) \<Rightarrow> nat \<Rightarrow>
     ('pid, 'psc, 'pe, unit, ('pid, 'psc) ActivePusActionRequestStd, ActionRequest, ActionReplyPus, bytes) vec_service_env" where
  "action_env sp ops k read_tc hdr eu16 per_sec =
     \<lparr>te_pus = vec_env sp ops k read_tc, te_tc_req_id = tc_request_id hdr, te_provider = ActivePusActionRequestStd_provider,
      te_convert = ActionRequestConverter_convert sp (MpscTmAsVecSender_send_tm ops k :: (PacketAsVec net, 'pe) EcssTmSender) per_sec,
      te_route = route_action,
      te_reply = ActionReplyHandler_ops sp (MpscTmAsVecSender_send_tm ops k) eu16\<rparr>"

definition mode_env ::
    "('pid, 'psc) Spacepackets \<Rightarrow> TmOps \<Rightarrow> nat \<Rightarrow> (bytes \<Rightarrow> ('pe PusError, PusTc) res) \<Rightarrow> (PusTc \<Rightarrow> u8 \<times> 'pid \<times> 'psc) \<Rightarrow>
     ('pid \<Rightarrow> u16) \<Rightarrow> nat \<Rightarrow>
     ('pid, 'psc, 'pe, unit, ('pid, 'psc) ActivePusRequestStd, ModeRequest, ModeReply, ComponentId) vec_service_env" where
  "mode_env sp ops k read_tc hdr pid_apid per_sec =
     \<lparr>te_pus = vec_env sp ops k read_tc, te_tc_req_id = tc_request_id hdr, te_provider = ActivePusRequestStd_provider,
      te_convert = ModeRequestConverter_convert sp (MpscTmAsVecSender_send_tm ops k :: (PacketAsVec net, 'pe) EcssTmSender) per_sec,
      te_route = route_mode,
      te_reply = ModeReplyHandler_ops sp (MpscTmAsVecSender_send_tm ops k) pid_apid\<rparr>"

definition hk_env ::
    "('pid, 'psc) Spacepackets \<Rightarrow> TmOps \<Rightarrow> nat \<Rightarrow> (bytes \<Rightarrow> ('pe PusError, PusTc) res) \<Rightarrow> (PusTc \<Rightarrow> u8 \<times> 'pid \<times> 'psc) \<Rightarrow>
     (u8 \<Rightarrow> HkSubservice option) \<Rightarrow>
     ('pid, 'psc, 'pe, nat, ('pid, 'psc) ActivePusRequestStd, HkRequest, HkReply, unit) vec_service_env" where
  "hk_env sp ops k read_tc hdr try_sub =
     \<lparr>te_pus = vec_env sp ops k read_tc, te_tc_req_id = tc_request_id hdr, te_provider = ActivePusRequestStd_provider,
      te_convert = HkRequestConverter_convert sp (MpscTmAsVecSender_send_tm ops k :: (PacketAsVec net, 'pe) EcssTmSender) try_sub,
      te_route = route_hk,
      te_reply = HkReplyHandler_ops sp (MpscTmAsVecSender_send_tm ops k)\<rparr>"

text \<open>The common part of the constructors: the helper of the service with a new reporter.\<close>

definition service_helper_dynamic ::
    "('pid, 'psc) Spacepackets \<Rightarrow> component \<Rightarrow> PacketAsVec net \<Rightarrow> ('pid, 'psc) EcssTcAndToken chan \<Rightarrow>
     ('e, (PacketAsVec net, EcssTcInVecConverter, ('pid, 'psc) EcssTcAndToken chan) PusServiceHelper) res" where
  "service_helper_dynamic sp c tm_funnel_tx rx =
     res_bind (create_verification_reporter sp (component_id c) (ut_apid (component_target c))) (\<lambda>v.
       Ok (PusServiceHelper_new (component_id c) rx tm_funnel_tx v \<lparr>vc_sender_id = None, pus_tc_raw = None\<rparr>))"

definition create_action_service_dynamic ::
    "('pid, 'psc) Spacepackets \<Rightarrow> PacketAsVec net \<Rightarrow> ('pid, 'psc) EcssTcAndToken chan \<Rightarrow> GenericRequestRouter \<Rightarrow>
     ActionReplyPus GenericMessage chan \<Rightarrow> RequestNet \<Rightarrow>
     ('e, ('pid, 'psc, unit, ('pid, 'psc) ActivePusActionRequestStd, ActionReplyPus, bytes) vec_service) res" where
  "create_action_service_dynamic sp tm_funnel_tx pus_action_rx action_router reply_rx net =
     res_bind (service_helper_dynamic sp PUS_ACTION_SERVICE tm_funnel_tx pus_action_rx) (\<lambda>h.
       Ok (PusTargetedRequestService_new h () Map.empty (replicate 128 0) action_router reply_rx net))"

definition create_mode_service_dynamic ::
    "('pid, 'psc) Spacepackets \<Rightarrow> PacketAsVec net \<Rightarrow> ('pid, 'psc) EcssTcAndToken chan \<Rightarrow> GenericRequestRouter \<Rightarrow>
     ModeReply GenericMessage chan \<Rightarrow> RequestNet \<Rightarrow>
     ('e, ('pid, 'psc, unit, ('pid, 'psc) ActivePusRequestStd, ModeReply, ComponentId) vec_service) res" where
  "create_mode_service_dynamic sp tm_funnel_tx pus_mode_rx mode_router reply_rx net =
     res_bind (service_helper_dynamic sp PUS_MODE_SERVICE tm_funnel_tx pus_mode_rx) (\<lambda>h.
       Ok (PusTargetedRequestService_new h () Map.empty (component_id PUS_MODE_SERVICE) mode_router reply_rx net))"

definition create_hk_service_dynamic ::
    "('pid, 'psc) Spacepackets \<Rightarrow> nat \<Rightarrow> PacketAsVec net \<Rightarrow> ('pid, 'psc) EcssTcAndToken chan \<Rightarrow> GenericRequestRouter \<Rightarrow>
     HkReply GenericMessage chan \<Rightarrow> RequestNet \<Rightarrow>
     ('e, ('pid, 'psc, nat, ('pid, 'psc) ActivePusRequestStd, HkReply, unit) vec_service) res" where
  "create_hk_service_dynamic sp per_sec tm_funnel_tx pus_hk_rx router reply_rx net =
     res_bind (service_helper_dynamic sp PUS_HK_SERVICE tm_funnel_tx pus_hk_rx) (\<lambda>h.
       Ok (PusTargetedRequestService_new h (60 * per_sec) Map.empty () router reply_rx net))"

subsection \<open>The tokens of the active requests\<close>

text \<open>Every active request holds a token in the started state.\<close>

definition started_only :: "('i, 'pid, 'psc) ActiveRequestProvider \<Rightarrow> 'i DefaultActiveRequestMap \<Rightarrow> bool" where
  "started_only prov m \<longleftrightarrow> (\<forall>rid info. m rid = Some info \<longrightarrow> (\<exists>t. ap_token prov info = TokenStarted t))"

lemma started_only_update:
  "started_only prov m \<Longrightarrow> ap_token prov info = TokenStarted t \<Longrightarrow> started_only prov (m(rid \<mapsto> info))"
  "started_only prov m \<Longrightarrow> started_only prov (m(rid := None))"
  by (auto simp: started_only_def)

lemma remove_all:
  "fold (\<lambda>rid m. snd (DefaultActiveRequestMap_remove m rid)) ids m = m |` (- set ids)"
  by (induction ids arbitrary: m)
    (auto simp: DefaultActiveRequestMap_remove_def restrict_map_def fun_eq_iff)

text \<open>
  What the generic service relies on: the provider returns the token that was set, and a successful
  conversion hands on the accepted token and reports nothing.
\<close>

locale request_service =
  fixes env :: "('pid, 'psc, 's, 'c, 'rx, 'pe, 'st, 'i, 'rq, 'rp, 'rh) TargetedEnv"
  assumes token_set: "ap_token (te_provider env) (ap_set_token (te_provider env) i tok) = tok"
    and convert_token: "te_convert env st now token tc s v ts = (Ok (info, rq), s', v') \<Longrightarrow>
      ap_token (te_provider env) info = TokenAccepted token \<and> s' = s \<and> v' = v"
begin

lemma conversion_error_map:
  "active_request_map (snd (handle_conversion_to_request_error env e token ts t)) = active_request_map t"
  by (simp add: handle_conversion_to_request_error_def Let_def case_prod_unfold split: GenericConversionError.split)

lemma poll_keeps_started:
  assumes "targeted_poll_and_handle_next_tc env now ts t = Some (r, t')" "started_only (te_provider env) (active_request_map t)"
  shows "started_only (te_provider env) (active_request_map t')"
  using assms
  by (auto simp: targeted_poll_and_handle_next_tc_def Let_def case_prod_unfold res_try_case DefaultActiveRequestMap_insert_def
      token_set conversion_error_map intro!: started_only_update split: res.splits option.splits prod.splits)

lemma reply_keeps_started:
  assumes "started_only (te_provider env) (active_request_map t)"
  shows "started_only (te_provider env) (active_request_map (snd (targeted_handle_reply env reply ts t)))"
  using assms
  by (auto simp: targeted_handle_reply_def Let_def case_prod_unfold DefaultActiveRequestMap_remove_def
      intro!: started_only_update split: res.splits option.splits)

lemma timeouts_keep_started:
  "started_only (te_provider env) (active_request_map t) \<Longrightarrow>
     started_only (te_provider env) (active_request_map (check_for_request_timeouts env now ids t))"
  by (auto simp: check_for_request_timeouts_def remove_all started_only_def restrict_map_def Let_def split: if_splits)

end

lemmas provider_defs = ActivePusRequestStd_provider_def ActivePusActionRequestStd_provider_def
  ActivePusRequestStd_set_token_def ActivePusRequestStd_new_def ActivePusActionRequestStd_new_def

lemma service_env_sel [simp]:
  "te_pus (action_env sp ops k read_tc hdr eu16 per_sec) = vec_env sp ops k read_tc"
  "te_tc_req_id (action_env sp ops k read_tc hdr eu16 per_sec) = tc_request_id hdr"
  "te_provider (action_env sp ops k read_tc hdr eu16 per_sec) = ActivePusActionRequestStd_provider"
  "te_convert (action_env sp ops k read_tc hdr eu16 per_sec) =
     ActionRequestConverter_convert sp (MpscTmAsVecSender_send_tm ops k :: (PacketAsVec net, 'pe) EcssTmSender) per_sec"
  "te_route (action_env sp ops k read_tc hdr eu16 per_sec) = route_action"
  "te_reply (action_env sp ops k read_tc hdr eu16 per_sec) = ActionReplyHandler_ops sp (MpscTmAsVecSender_send_tm ops k) eu16"
  "te_pus (mode_env sp ops k read_tc hdr pid_apid per_sec) = vec_env sp ops k read_tc"
  "te_tc_req_id (mode_env sp ops k read_tc hdr pid_apid per_sec) = tc_request_id hdr"
  "te_provider (mode_env sp ops k read_tc hdr pid_apid per_sec) = ActivePusRequestStd_provider"
  "te_convert (mode_env sp ops k read_tc hdr pid_apid per_sec) =
     ModeRequestConverter_convert sp (MpscTmAsVecSender_send_tm ops k :: (PacketAsVec net, 'pe) EcssTmSender) per_sec"
  "te_route (mode_env sp ops k read_tc hdr pid_apid per_sec) = route_mode"
  "te_reply (mode_env sp ops k read_tc hdr pid_apid per_sec) = ModeReplyHandler_ops sp (MpscTmAsVecSender_send_tm ops k) pid_apid"
  "te_provider (hk_env sp ops k read_tc hdr try_sub) = ActivePusRequestStd_provider"
  "te_convert (hk_env sp ops k read_tc hdr try_sub) = HkRequestConverter_convert sp (MpscTmAsVecSender_send_tm ops k :: (PacketAsVec net, 'pe) EcssTmSender) try_sub"
  for read_tc :: "bytes \<Rightarrow> ('pe PusError, PusTc) res"
  by (simp_all add: action_env_def mode_env_def hk_env_def)

lemma fail_start_not_ok: "fail_start sp send_tm token s v params e \<noteq> (Ok x, sv)"
  by (auto simp: fail_start_def res_try_case Let_def case_prod_unfold split: res.splits)

interpretation action_requests: request_service "action_env sp ops k read_tc hdr eu16 per_sec"
  for sp ops k read_tc hdr eu16 per_sec
  by unfold_locales
    (auto simp: ActionRequestConverter_convert_def provider_defs res_try_case fail_start_not_ok Let_def
      split: if_splits res.splits)

interpretation mode_requests: request_service "mode_env sp ops k read_tc hdr pid_apid per_sec"
  for sp ops k read_tc hdr pid_apid per_sec
  by unfold_locales
    (auto simp: ModeRequestConverter_convert_def provider_defs res_try_case fail_start_not_ok Let_def
      split: if_splits res.splits option.splits ModeSubservice.splits)

interpretation hk_requests: request_service "hk_env sp ops k read_tc hdr try_sub"
  for sp ops k read_tc hdr try_sub
  by unfold_locales
    (auto simp: HkRequestConverter_convert_def provider_defs res_try_case fail_start_not_ok Let_def
      split: if_splits res.splits option.splits)

subsection \<open>The absence of panics\<close>

declare res_map_Panic [simp] res_map_err_Panic [simp] res_bind_Ok_Panic [simp]

lemma recv_vec_cases:
  "retrieve_and_accept_next_packet (vec_env sp ops k read_tc) h = (r, h') \<Longrightarrow>
     r \<noteq> Panic \<and> tm_sender_state h' = tm_sender_state h \<and> verif_reporter h' = verif_reporter h"
  by (cases "ch_queue (tc_receiver h)"; cases "tc_token (hd (ch_queue (tc_receiver h)))";
      cases "the (tc_token (hd (ch_queue (tc_receiver h))))")
    (auto simp: retrieve_and_accept_next_packet_def MpscTcReceiver_recv_tc_def mpsc_try_recv_def Let_def split: if_splits)

lemma vec_cache_safe [simp]: "fst (ic_cache EcssTcInVecConverter_ops c m) \<noteq> Panic"
  by (simp add: EcssTcInVecConverter_ops_def EcssTcInVecConverter_cache_def Let_def split: TcInMemory.split)

lemma poll_tc_safe:
  assumes poll: "poll_tc (vec_env sp ops k read_tc) h = (r, h')" and read: "\<And>raw. read_tc raw \<noteq> Panic"
  shows "r \<noteq> Panic \<and> tm_sender_state h' = tm_sender_state h \<and> verif_reporter h' = verif_reporter h"
proof -
  obtain r1 h1 where r1: "retrieve_and_accept_next_packet (vec_env sp ops k read_tc) h = (r1, h1)" by fastforce
  have conv: "converter_convert read_tc EcssTcInVecConverter_ops c \<noteq> Panic" for c
    using read by (simp add: converter_convert_def)
  show ?thesis
    using poll r1 conv recv_vec_cases [OF r1]
    by (auto simp: poll_tc_def res_try_case Let_def case_prod_unfold split: res.splits option.splits)
qed

lemma conversion_error_safe:
  assumes "tm_ops_ok ops" "te_pus env = vec_env sp ops k read_tc" "reporter_ok k (ts_sender t) 15 (ts_reporter t)"
    and "handle_conversion_to_request_error env e token ts t = (r, t')"
  shows "r \<noteq> Panic \<and> reporter_ok k (ts_sender t') 15 (ts_reporter t') \<and> reply_handler t' = reply_handler t \<and> reply_receiver t' = reply_receiver t"
  using assms
  by (auto simp: handle_conversion_to_request_error_def vec_failure_reports Let_def case_prod_unfold
      intro!: push_report_pair split: GenericConversionError.splits)

lemma handle_error_generic_safe:
  assumes "tm_ops_ok ops" "reporter_ok k w 15 v" "ap_token prov info = TokenAccepted token"
    and "handle_error_generic sp (MpscTmAsVecSender_send_tm ops k) prov info e w v ts = (r, w', v')"
  shows "r \<noteq> Panic \<and> reporter_ok k w' 15 v'"
  using assms
  by (auto simp: handle_error_generic_def vec_failure_reports Let_def case_prod_unfold
      intro!: push_report_pair split: GenericRoutingError.splits)

text \<open>
  The invariant of a service with the reporter of \<^verbatim>\<open>create_verification_reporter\<close>, whose buffer has 15
  bytes: started tokens, a live telemetry channel \<open>k\<close>, the invariant \<open>rh_ok\<close> of the reply handler, and
  only replies with \<open>reply_ok\<close> waiting.
\<close>

definition service_inv :: "('pid, 'psc, 'pe, 'st, 'i, 'rq, 'rp, 'rh) vec_service_env \<Rightarrow> nat \<Rightarrow> ('rh \<Rightarrow> bool) \<Rightarrow>
    ('rp GenericMessage \<Rightarrow> bool) \<Rightarrow> ('pid, 'psc, 'st, 'i, 'rp, 'rh) vec_service \<Rightarrow> bool" where
  "service_inv env k rh_ok reply_ok t \<longleftrightarrow> started_only (te_provider env) (active_request_map t) \<and>
     reporter_ok k (ts_sender t) 15 (ts_reporter t) \<and> rh_ok (reply_handler t) \<and>
     list_all reply_ok (ch_queue (reply_receiver t))"

text \<open>
  The services whose converter and reply handler do not panic as long as telemetry can be sent, under
  the condition \<open>lib_ok\<close> on the packet library.
\<close>

locale safe_request_service = request_service env
  for env :: "('pid, 'psc, 'pe, 'st, 'i, 'rq, 'rp, 'rh) vec_service_env" +
  fixes sp :: "('pid, 'psc) Spacepackets" and ops :: TmOps and k :: nat
    and read_tc :: "bytes \<Rightarrow> ('pe PusError, PusTc) res" and rh_ok :: "'rh \<Rightarrow> bool"
    and reply_ok :: "'rp GenericMessage \<Rightarrow> bool" and lib_ok :: bool
  assumes env_vec: "te_pus env = vec_env sp ops k read_tc"
    and ops_ok: "lib_ok \<Longrightarrow> tm_ops_ok ops"
    and read_total: "lib_ok \<Longrightarrow> read_tc raw \<noteq> Panic"
    and convert_safe: "lib_ok \<Longrightarrow> reporter_ok k w 15 v \<Longrightarrow> te_convert env st now token tc w v ts = (r, w', v') \<Longrightarrow>
      r \<noteq> Panic \<and> reporter_ok k w' 15 v'"
    and route_safe: "te_route env router info target rq net = Some (rr, net') \<Longrightarrow> rr \<noteq> Panic"
    and unrequested_safe: "rh_handle_unrequested_reply (te_reply env) rh reply w = (ru, w', rh') \<Longrightarrow>
      ru \<noteq> Panic \<and> w' = w \<and> rh' = rh"
    and reply_safe: "lib_ok \<Longrightarrow> rh_ok rh \<Longrightarrow> reply_ok reply \<Longrightarrow> ap_token (te_provider env) i = TokenStarted tok \<Longrightarrow> reporter_ok k w 15 v \<Longrightarrow>
      rh_handle_reply (te_reply env) rh reply i w v ts = (rb, w', v', rh') \<Longrightarrow> rb \<noteq> Panic \<and> reporter_ok k w' 15 v' \<and> rh_ok rh'"
begin

lemma routed_safe:
  assumes lib: lib_ok and conv: "te_convert env st now token tc w v ts = (Ok (info, rq), w2, v2)" and ok: "reporter_ok k w 15 v"
  shows "start_success sp (MpscTmAsVecSender_send_tm ops k) w v token ts =
      (Ok (VerificationToken (token_request_id token)), push_report sp ops k TmStartSuccess ts (token_request_id token) [] (w, v))"
    and "VerificationToken_try_accepted (ap_token (te_provider env) info) = Ok token"
  using convert_token [OF conv] ok vec_success_reports (2) [OF ops_ok [OF lib] ok] by simp_all

lemma poll_safe:
  assumes lib: lib_ok and poll: "targeted_poll_and_handle_next_tc env now ts t = Some (r, t')" and inv: "service_inv env k rh_ok reply_ok t"
  shows "r \<noteq> Panic \<and> service_inv env k rh_ok reply_ok t'"
proof -
  note [simp] = service_inv_def targeted_poll_and_handle_next_tc_def env_vec Let_def
  obtain r1 h1 where p: "poll_tc (vec_env sp ops k read_tc) (ts_service_helper t) = (r1, h1)" by fastforce
  have h1: "r1 \<noteq> Panic" "tm_sender_state h1 = ts_sender t" "verif_reporter h1 = ts_reporter t"
    using poll_tc_safe [OF p] read_total [OF lib] by auto
  have ok: "reporter_ok k (ts_sender t) 15 (ts_reporter t)" "rh_ok (reply_handler t)" using inv by simp_all
  have "r \<noteq> Panic \<and> reporter_ok k (ts_sender t') 15 (ts_reporter t') \<and> rh_ok (reply_handler t') \<and> reply_receiver t' = reply_receiver t"
  proof (cases "\<exists>token tc. r1 = Ok (Some (token, tc))")
    case False
    then show ?thesis using poll p h1 ok by (cases r1; cases "the_ok r1") auto
  next
    case True
    then obtain token tc where r1: "r1 = Ok (Some (token, tc))" by blast
    obtain rc w2 v2 where c: "te_convert env (request_converter t) now token tc (ts_sender t) (ts_reporter t) ts = (rc, w2, v2)"
      using prod_cases3 by blast
    have c': "rc \<noteq> Panic" "reporter_ok k w2 15 v2" using convert_safe [OF lib ok(1) c] by simp_all
    show ?thesis
    proof (cases rc)
      case (Err e)
      define t2 where "t2 = set_sv (w2, v2) (t\<lparr>ts_service_helper := h1\<rparr>)"
      obtain r3 :: "('pe PusPacketHandlingError, unit) res" and t3 where e: "handle_conversion_to_request_error env e token ts t2 = (r3, t3)" by fastforce
      have "Some (r, t') = Some (res_try r3 t3 (\<lambda>_. (Err (RequestConversion e), t3)))"
        using poll p h1 r1 c Err e by (simp add: t2_def)
      then show ?thesis
        using conversion_error_safe [OF ops_ok [OF lib] env_vec _ e] c' ok(2) by (cases r3) (simp_all add: t2_def)
    next
      case (Ok x)
      obtain info rq where x: "x = (info, rq)" by fastforce
      note s = routed_safe [OF lib c [unfolded Ok x] ok(1)] and tok = convert_token [OF c [unfolded Ok x]]
      define rr where "rr = te_route env (request_router t) (MessageMetadata_new (RequestId_raw sp (te_tc_req_id env tc)) (helper_id h1))
        (ap_target_id (te_provider env) info) rq (request_net t)"
      obtain rt net where rt: "rr = Some (rt, net)" "rt \<noteq> Panic"
        using poll p h1 r1 c Ok x s tok route_safe by (cases rr) (auto simp: rr_def split: option.splits)
      show ?thesis
      proof (cases rt)
        case (Ok u)
        then show ?thesis
          using poll p h1 r1 c \<open>rc = Ok x\<close> x s(2) tok rt(1) ok
          by (auto simp: case_prod_unfold rr_def s(1) push_report_pair)
      next
        case (Err e)
        obtain re :: "('pe PusPacketHandlingError, unit) res" and w3 v3 where
          e: "handle_error_generic sp (MpscTmAsVecSender_send_tm ops k :: (PacketAsVec net, 'pe) EcssTmSender) (te_provider env) info e
            (ts_sender t) (ts_reporter t) ts = (re, w3, v3)"
          using prod_cases3 by blast
        have "re \<noteq> Panic \<and> reporter_ok k w3 15 v3" using handle_error_generic_safe [OF ops_ok [OF lib] ok(1) _ e] tok by blast
        then show ?thesis
          using poll p h1 r1 c \<open>rc = Ok x\<close> x s tok rt(1) ok(2) Err e by (cases re) (auto simp: rr_def)
      qed (use rt in simp)
    qed (use c' in simp)
  qed
  then show ?thesis
    using poll_keeps_started [OF poll] inv by simp
qed

lemma reply_handled_safe:
  assumes lib_ok "service_inv env k rh_ok reply_ok t" "targeted_handle_reply env reply ts t = (r, t')" "reply_ok reply"
  shows "r \<noteq> Panic \<and> service_inv env k rh_ok reply_ok t'"
proof (cases "active_request_map t (GenericMessage_request_id reply)")
  case None
  obtain ru w' rh' where u: "rh_handle_unrequested_reply (te_reply env) (reply_handler t) reply (ts_sender t) = (ru, w', rh')"
    using prod_cases3 by blast
  then show ?thesis
    using assms None unrequested_safe [OF u]
    by (auto simp: targeted_handle_reply_def DefaultActiveRequestMap_get_def service_inv_def)
next
  case (Some info)
  then obtain tok where tok: "ap_token (te_provider env) info = TokenStarted tok"
    using assms(2) by (auto simp: service_inv_def started_only_def)
  obtain rb w' v' rh' where h: "rh_handle_reply (te_reply env) (reply_handler t) reply info (ts_sender t) (ts_reporter t) ts =
      (rb, w', v', rh')"
    using prod_cases4 by blast
  have "rb \<noteq> Panic \<and> reporter_ok k w' 15 v' \<and> rh_ok rh'"
    using reply_safe [OF assms(1) _ assms(4) tok _ h] assms(2) by (simp add: service_inv_def)
  then show ?thesis
    using assms Some h reply_keeps_started [of t reply ts]
    by (cases rb) (auto simp: targeted_handle_reply_def DefaultActiveRequestMap_get_def service_inv_def Let_def split: if_splits)
qed
end

text \<open>
  A service together with its surroundings: it handles telecommands and replies and checks timeouts, and
  in between others use the channels, but the receiver of the telemetry stays alive and
  the replies that arrive have \<open>reply_ok\<close>.
\<close>

inductive targeted_reach ::
    "('pid, 'psc, 'pe, 'st, 'i, 'rq, 'rp, 'rh) vec_service_env \<Rightarrow> nat \<Rightarrow> ('rp GenericMessage \<Rightarrow> bool) \<Rightarrow>
     ('pid, 'psc, 'st, 'i, 'rp, 'rh) vec_service \<Rightarrow> ('pid, 'psc, 'st, 'i, 'rp, 'rh) vec_service \<Rightarrow> bool" for env k reply_ok t0 where
  reach_start: "targeted_reach env k reply_ok t0 t0"
| reach_tc: "targeted_reach env k reply_ok t0 t \<Longrightarrow> targeted_poll_and_handle_next_tc env now ts t = Some (r, t') \<Longrightarrow> targeted_reach env k reply_ok t0 t'"
| reach_reply: "targeted_reach env k reply_ok t0 t \<Longrightarrow> targeted_poll_and_handle_next_reply env ts t = (r', t') \<Longrightarrow> targeted_reach env k reply_ok t0 t'"
| reach_timeout: "targeted_reach env k reply_ok t0 t \<Longrightarrow> targeted_reach env k reply_ok t0 (check_for_request_timeouts env now ids t)"
| reach_others: "targeted_reach env k reply_ok t0 t \<Longrightarrow> rx_alive (w k) \<Longrightarrow> list_all reply_ok (ch_queue rx) \<Longrightarrow>
    targeted_reach env k reply_ok t0 (t\<lparr>reply_receiver := rx, request_net := net,
      ts_service_helper := (ts_service_helper t)\<lparr>tc_receiver := tcs, tm_sender_state := w\<rparr>\<rparr>)"

context safe_request_service
begin

lemma poll_reply_safe:
  assumes lib: lib_ok and inv: "service_inv env k rh_ok reply_ok t"
    and poll: "targeted_poll_and_handle_next_reply env ts t = (r, t')"
  shows "r \<noteq> Panic \<and> service_inv env k rh_ok reply_ok t'"
proof (cases "ch_queue (reply_receiver t)")
  case Nil
  then show ?thesis
    using inv poll by (auto simp: targeted_poll_and_handle_next_reply_def mpsc_try_recv_def split: if_splits)
next
  case (Cons reply rest)
  define t1 where "t1 = t\<lparr>reply_receiver := (reply_receiver t)\<lparr>ch_queue := rest\<rparr>\<rparr>"
  obtain r2 t2 where h: "targeted_handle_reply env reply ts t1 = (r2, t2)" by fastforce
  have "(r, t') = (res_map (\<lambda>_. HandledOne) r2, t2)"
    using poll Cons h by (simp add: targeted_poll_and_handle_next_reply_def mpsc_try_recv_def t1_def)
  moreover have "service_inv env k rh_ok reply_ok t1" "reply_ok reply"
    using inv Cons by (simp_all add: service_inv_def t1_def)
  ultimately show ?thesis using reply_handled_safe [OF lib _ h] by simp
qed

lemma timeouts_safe:
  "service_inv env k rh_ok reply_ok t \<Longrightarrow> service_inv env k rh_ok reply_ok (check_for_request_timeouts env now ids t)"
  using timeouts_keep_started [of t now ids] by (auto simp: service_inv_def check_for_request_timeouts_def Let_def)

lemma reach_inv:
  assumes lib_ok "targeted_reach env k reply_ok t0 t" "service_inv env k rh_ok reply_ok t0"
  shows "service_inv env k rh_ok reply_ok t"
  using assms(2,3)
proof (induction rule: targeted_reach.induct)
  case (reach_tc t now ts r t')
  then show ?case using poll_safe assms(1) by blast
next
  case (reach_reply t ts r t')
  then show ?case using poll_reply_safe assms(1) by blast
next
  case (reach_timeout t now ids)
  then show ?case using timeouts_safe by blast
qed (auto simp: service_inv_def reporter_ok_def)

end

subsection \<open>Failure reports with parameters\<close>

text \<open>The failure data a parameter stands for.\<close>

fun params_data :: "Params option \<Rightarrow> bytes \<Rightarrow> bool" where
  "params_data None data \<longleftrightarrow> data = []"
| "params_data (Some (Heapless p)) data \<longleftrightarrow> heapless_bytes p data \<and> length data \<le> 128"
| "params_data (Some (Vec vec)) data \<longleftrightarrow> data = vec"
| "params_data (Some (String str)) data \<longleftrightarrow> data = str"
| "params_data (Some (Store a)) data \<longleftrightarrow> data = []"

definition params_propagated :: "Params option \<Rightarrow> bool" where
  "params_propagated p \<longleftrightarrow> (\<forall>a. p \<noteq> Some (Store a))"

lemma heapless_fail_data_ok:
  "heapless_bytes p bs \<Longrightarrow> length bs \<le> length buf \<Longrightarrow> heapless_fail_data buf p = Ok bs"
  using length_heapless_bytes [of p bs] by (simp add: heapless_fail_data_def slice_def heapless_write)

lemma vec_step_failure:
  assumes "tm_ops_ok ops" "reporter_ok k w n v" "ecss_enum_writes e bs"
  shows "step_failure sp (MpscTmAsVecSender_send_tm ops k) w v t (FailParamsWithStep_new ts e (ResultU16_enum c) data) =
      (if n < 6 + length bs + length data
       then (Err (TmtcPus (PusByteConversion (ToSliceTooSmall n (6 + length bs + length data)))), w, v)
       else (Ok (), push_report sp ops k TmStepFailure ts (token_request_id t) (bs @ code_bytes c @ data) (w, v)))"
  using assms ResultU16_enum_writes [of c]
  by (auto simp add: reporter_ok_def reporter_defs creator_defs no_token_def create_fail_tm [where bs = bs and cs = "code_bytes c"]
      report_tm_def vec_send_eq push_report_def report_packet_def FailParams_new_def FailParamsWithStep_new_def Let_def add.assoc)

lemma vec_completion_failure_generic:
  assumes "tm_ops_ok ops" "reporter_ok k w n v" "params_data p data" "length buf = 128"
  shows "handle_completion_failure_with_generic_params sp (MpscTmAsVecSender_send_tm ops k) w v t
      \<lparr>fh_timestamp = ts, fh_error_code = ResultU16_enum c, fh_small_data_buf = buf, fh_params = p\<rparr> =
      (if n < 6 + length data then (Err (TmtcPus (PusByteConversion (ToSliceTooSmall n (6 + length data)))), w, v)
       else (Ok (params_propagated p), push_report sp ops k TmCompletionFailure ts (token_request_id t) (code_bytes c @ data) (w, v)))"
  using assms
  by (cases "(p, data)" rule: params_data.cases)
    (auto simp add: handle_completion_failure_with_generic_params_def vec_failure_reports heapless_fail_data_ok
      params_propagated_def case_prod_unfold Let_def)

lemma vec_step_failure_generic:
  assumes "tm_ops_ok ops" "reporter_ok k w n v" "params_data p data" "length buf = 128" "ecss_enum_writes e bs"
  shows "handle_step_failure_with_generic_params sp (MpscTmAsVecSender_send_tm ops k) w v t
      \<lparr>fh_timestamp = ts, fh_error_code = ResultU16_enum c, fh_small_data_buf = buf, fh_params = p\<rparr> e =
      (if n < 6 + length bs + length data
       then (Err (TmtcPus (PusByteConversion (ToSliceTooSmall n (6 + length bs + length data)))), w, v)
       else (Ok (params_propagated p), push_report sp ops k TmStepFailure ts (token_request_id t) (bs @ code_bytes c @ data) (w, v)))"
  using assms(3,4)
  by (cases "(p, data)" rule: params_data.cases)
    (auto simp add: handle_step_failure_with_generic_params_def vec_step_failure [OF assms(1,2,5)] heapless_fail_data_ok
      params_propagated_def case_prod_unfold Let_def)

subsection \<open>The three services do not panic\<close>

lemma vec_fail_start:
  "tm_ops_ok ops \<Longrightarrow> reporter_ok k w n v \<Longrightarrow> 6 + length data \<le> n \<Longrightarrow>
     fail_start sp (MpscTmAsVecSender_send_tm ops k) token w v (FailParams_new ts (ResultU16_enum c) data) e =
       (Err e, push_report sp ops k TmStartFailure ts (token_request_id token) (code_bytes c @ data) (w, v))"
  by (simp add: fail_start_def vec_failure_reports case_prod_unfold)

lemma target_of_tc:
  "4 \<le> length user_data \<Longrightarrow>
     UniqueApidTargetId_from_pus_tc apid user_data = Ok \<lparr>ut_apid = apid, ut_unique_id = from_be_bytes (take 4 user_data)\<rparr>"
  by (simp add: UniqueApidTargetId_from_pus_tc_def slice_def)

lemma route_safe_all:
  "route_action router info target rq net = Some (r, net') \<Longrightarrow> r \<noteq> Panic"
  "route_hk router info target rh net = Some (r, net') \<Longrightarrow> r \<noteq> Panic"
  "route_mode router info target rm net = Some (r, net') \<Longrightarrow> r \<noteq> Panic"
  by (auto simp: route_action_def route_hk_def route_composite_def route_mode_def mpsc_sync_send_def
      split: option.splits if_splits)

definition enum_u16_ok :: "(u16 \<Rightarrow> EcssEnumeration) \<Rightarrow> bool" where
  "enum_u16_ok eu16 \<longleftrightarrow> (\<forall>n. ecss_enum_writes (eu16 n) (to_be_bytes n))"

text \<open>A reply whose failure parameters the packet library can write.\<close>

definition action_reply_ok :: "ActionReplyPus GenericMessage \<Rightarrow> bool" where
  "action_reply_ok m \<longleftrightarrow>
     (case arp_variant (message m) of
        ActionCompletionFailed c p \<Rightarrow> \<exists>data. params_data p data
      | ActionStepFailed c s p \<Rightarrow> \<exists>data. params_data p data
      | _ \<Rightarrow> True)"

lemma action_convert_safe:
  assumes "tm_ops_ok ops" "reporter_ok k w 15 v"
    and "ActionRequestConverter_convert sp (MpscTmAsVecSender_send_tm ops k) per_sec st now token tc w v ts = (r, w', v')"
  shows "r \<noteq> Panic \<and> reporter_ok k w' 15 v'"
  using assms
  by (auto simp: ActionRequestConverter_convert_def fail_params_no_data vec_fail_start target_of_tc slice_def Let_def not_less
      dest!: push_report_ok split: if_splits)

lemma mode_convert_safe:
  assumes "tm_ops_ok ops" "reporter_ok k w 15 v"
    and "ModeRequestConverter_convert sp (MpscTmAsVecSender_send_tm ops k) per_sec st now token tc w v ts = (r, w', v')"
  shows "r \<noteq> Panic \<and> reporter_ok k w' 15 v'"
  using assms
  by (auto simp: ModeRequestConverter_convert_def fail_params_no_data vec_fail_start target_of_tc slice_def Let_def not_less
      RAW_LEN_def ModeAndSubmode_from_be_bytes_def
      dest!: push_report_ok split: if_splits option.splits ModeSubservice.splits)

lemma hk_convert_safe:
  assumes "tm_ops_ok ops" "reporter_ok k w 15 v" "\<And>n. try_sub n \<noteq> Some TcReportHkReportStructures \<and> try_sub n \<noteq> Some TmHkPacket"
    and "HkRequestConverter_convert sp (MpscTmAsVecSender_send_tm ops k) try_sub st now token tc w v ts = (r, w', v')"
  shows "r \<noteq> Panic \<and> reporter_ok k w' 15 v'"
  using assms
  by (auto simp: HkRequestConverter_convert_def vec_fail_start target_of_tc slice_def Let_def not_less
      dest!: push_report_ok split: if_splits option.splits)

lemma action_reply_safe:
  assumes "tm_ops_ok ops" "enum_u16_ok eu16" "length buf = 128" "action_reply_ok reply"
    and "ap_token ActivePusActionRequestStd_provider info = TokenStarted tok" "reporter_ok k w 15 v"
    and h: "ActionReplyHandler_handle_reply sp (MpscTmAsVecSender_send_tm ops k) eu16 buf reply info w v ts = (r, w', v', buf')"
  shows "r \<noteq> Panic \<and> reporter_ok k w' 15 v' \<and> length buf' = 128"
proof -
  have e: "ecss_enum_writes (eu16 n) (to_be_bytes n)" for n using assms(2) by (simp add: enum_u16_ok_def)
  note reports = vec_success_reports (3) [OF assms(1,6)] vec_step_success [OF assms(1,6) e]
    vec_completion_failure_generic [OF assms(1,6) _ assms(3)] vec_step_failure_generic [OF assms(1,6) _ assms(3) e]
  show ?thesis
  proof (cases "arp_variant (message reply)")
    case (ActionCompletionFailed c p)
    then obtain data where "params_data p data" using assms(4) by (auto simp: action_reply_ok_def)
    then show ?thesis using assms ActionCompletionFailed
      by (auto simp: ActionReplyHandler_handle_reply_def reports case_prod_unfold push_report_pair split: if_splits)
  next
    case (ActionStepFailed c s p)
    then obtain data where "params_data p data" using assms(4) by (auto simp: action_reply_ok_def)
    then show ?thesis using assms ActionStepFailed
      by (auto simp: ActionReplyHandler_handle_reply_def reports case_prod_unfold push_report_pair split: if_splits)
  qed (use assms in \<open>auto simp: ActionReplyHandler_handle_reply_def reports case_prod_unfold push_report_pair\<close>)
qed

definition mode_bytes :: "ModeAndSubmode \<Rightarrow> bytes" where
  "mode_bytes m = to_be_bytes (mode m) @ to_be_bytes (submode m)"

lemma mode_written:
  "6 \<le> n \<Longrightarrow> ModeAndSubmode_write_to_be_bytes m (replicate n 0) = (Ok 6, mode_bytes m @ replicate (n - 6) 0)"
  by (simp add: ModeAndSubmode_write_to_be_bytes_def RAW_LEN_def copy_into_def overwrite_def mode_bytes_def)

lemma mode_reply_handled:
  assumes "tm_ops_ok ops" "ap_token ActivePusRequestStd_provider info = TokenStarted tok" "reporter_ok k w n v" "6 \<le> n"
  shows "ModeReplyHandler_handle_reply sp (MpscTmAsVecSender_send_tm ops k) pid_apid owner reply info w v ts =
    (case message reply of
       ModeReply m \<Rightarrow>
         (let tm = mode_reply_tm (pid_apid (packet_id (RequestId_from sp (GenericMessage_request_id reply)))) ts
                (mode_bytes m @ replicate 6 0);
              (w', v') = push_report sp ops k TmCompletionSuccess ts (token_request_id tok) [] (w(k := push_tm ops owner tm (w k)), v)
          in (Ok True, w', v', owner))
     | CantReachMode code \<Rightarrow>
         (let (w', v') = push_report sp ops k TmCompletionFailure ts (token_request_id tok) (code_bytes code) (w, v)
          in (Ok True, w', v', owner))
     | WrongMode expected reached \<Rightarrow>
         if n < 18 then (Err (TmtcPus (PusByteConversion (ToSliceTooSmall n 18))), w, v, owner)
         else (let (w', v') = push_report sp ops k TmCompletionFailure ts (token_request_id tok)
                     (code_bytes WRONG_MODE @ mode_bytes expected @ mode_bytes reached) (w, v)
               in (Ok True, w', v', owner)))"
proof -
  have alive: "rx_alive (w k)" using assms(3) by (simp add: reporter_ok_def)
  have ok: "reporter_ok k (w(k := push_tm ops i tm (w k))) n v" for i tm
    using assms(3) by (simp add: reporter_ok_def)
  have len: "length (mode_bytes m) = 6" for m by (simp add: mode_bytes_def)
  note reports = vec_success_reports (3) [OF assms(1) ok] vec_failure_reports [OF assms(1,3)]
  show ?thesis
  proof (cases "message reply")
    case (ModeReply m)
    then show ?thesis
      using assms alive by (simp add: ModeReplyHandler_handle_reply_def mode_written vec_send_eq reports Let_def case_prod_unfold)
  next
    case (CantReachMode code)
    then show ?thesis using assms by (simp add: ModeReplyHandler_handle_reply_def reports Let_def case_prod_unfold)
  next
    case (WrongMode expected reached)
    then show ?thesis
      using assms by (simp add: ModeReplyHandler_handle_reply_def mode_written RAW_LEN_def slice_def len reports Let_def case_prod_unfold)
  qed
qed

lemma mode_reply_safe:
  assumes "tm_ops_ok ops" "ap_token ActivePusRequestStd_provider info = TokenStarted tok" "reporter_ok k w 15 v"
    and h: "ModeReplyHandler_handle_reply sp (MpscTmAsVecSender_send_tm ops k) pid_apid owner reply info w v ts = (r, w', v', owner')"
  shows "r \<noteq> Panic \<and> reporter_ok k w' 15 v'"
proof -
  have ok: "reporter_ok k (w(k := push_tm ops i tm (w k))) 15 v" for i tm
    using assms(3) by (simp add: reporter_ok_def)
  show ?thesis
    using h assms(3)
    by (auto simp: mode_reply_handled [OF assms(1-3)] Let_def case_prod_unfold push_report_pair ok split: ModeReply.splits)
qed

lemma hk_reply_safe:
  assumes "tm_ops_ok ops" "ap_token ActivePusRequestStd_provider info = TokenStarted tok" "reporter_ok k w 15 v"
    and h: "HkReplyHandler_handle_reply sp (MpscTmAsVecSender_send_tm ops k) () reply info w v ts = (r, w', v', u)"
  shows "r \<noteq> Panic \<and> reporter_ok k w' 15 v'"
  using assms
  by (auto simp: HkReplyHandler_handle_reply_def vec_success_reports vec_failure_reports case_prod_unfold push_report_pair
      split: HkReplyVariant.splits)

lemmas reply_ops_defs = ActionReplyHandler_ops_def ModeReplyHandler_ops_def HkReplyHandler_ops_def

lemma hk_env_sel [simp]:
  "te_pus (hk_env sp ops k read_tc hdr try_sub) = vec_env sp ops k read_tc"
  "te_route (hk_env sp ops k read_tc hdr try_sub) = route_hk"
  "te_reply (hk_env sp ops k read_tc hdr try_sub) = HkReplyHandler_ops sp (MpscTmAsVecSender_send_tm ops k)"
  by (simp_all add: hk_env_def)

abbreviation total_reader :: "(bytes \<Rightarrow> ('pe PusError, PusTc) res) \<Rightarrow> bool" where
  "total_reader read_tc \<equiv> \<forall>raw. read_tc raw \<noteq> Panic"

interpretation safe_action: safe_request_service "action_env sp ops k read_tc hdr eu16 per_sec" sp ops k read_tc
    "\<lambda>buf. length buf = 128" action_reply_ok "tm_ops_ok ops \<and> total_reader read_tc \<and> enum_u16_ok eu16"
  for sp ops k read_tc hdr eu16 per_sec
proof (unfold_locales, goal_cases)
  case (4 w v st now token tc ts r w' v')
  then show ?case
    by (intro action_convert_safe [where ops = ops and w = w and v = v and sp = sp and per_sec = per_sec and st = st and now = now and token = token and tc = tc
      and ts = ts]) simp_all
next
  case (5 router info target rq net rr net')
  then show ?case using route_safe_all(1) by simp
next
  case (7 rh reply i tok w v ts rb w' v' rh')
  then show ?case
    by (intro action_reply_safe [where ops = ops and ?eu16.0 = eu16 and buf = rh and info = i and tok = tok and w = w and v = v
      and sp = sp and ts = ts and reply = reply]) (simp_all add: reply_ops_defs)
qed (auto simp: reply_ops_defs)

interpretation safe_mode: safe_request_service "mode_env sp ops k read_tc hdr pid_apid per_sec" sp ops k read_tc
    "\<lambda>_. True" "\<lambda>_. True" "tm_ops_ok ops \<and> total_reader read_tc"
  for sp ops k read_tc hdr pid_apid per_sec
proof (unfold_locales, goal_cases)
  case (4 w v st now token tc ts r w' v')
  then show ?case
    by (intro mode_convert_safe [where ops = ops and w = w and v = v and sp = sp and per_sec = per_sec and st = st and now = now and token = token and tc = tc
      and ts = ts]) simp_all
next
  case (5 router info target rq net rr net')
  then show ?case using route_safe_all(3) by simp
next
  case (7 rh reply i tok w v ts rb w' v' rh')
  then show ?case
    using mode_reply_safe [where ops = ops and pid_apid = pid_apid and owner = rh and info = i and tok = tok and w = w and v = v and sp = sp and ts = ts
      and reply = reply and k = k and r = rb and w' = w' and v' = v'] by (simp add: reply_ops_defs)
qed (auto simp: reply_ops_defs)

interpretation safe_hk: safe_request_service "hk_env sp ops k read_tc hdr try_sub" sp ops k read_tc
    "\<lambda>_. True" "\<lambda>_. True" "tm_ops_ok ops \<and> total_reader read_tc \<and>
      (\<forall>n. try_sub n \<noteq> Some TcReportHkReportStructures \<and> try_sub n \<noteq> Some TmHkPacket)"
  for sp ops k read_tc hdr try_sub
proof (unfold_locales, goal_cases)
  case (4 w v st now token tc ts r w' v')
  then show ?case
    by (intro hk_convert_safe [where ops = ops and w = w and v = v and sp = sp and try_sub = try_sub and st = st and now = now and token = token and tc = tc
      and ts = ts]) simp_all
next
  case (5 router info target rq net rr net')
  then show ?case using route_safe_all(2) by simp
next
  case (7 rh reply i tok w v ts rb w' v' rh')
  then show ?case
    using hk_reply_safe [where ops = ops and info = i and tok = tok and w = w and v = v and sp = sp and ts = ts
      and reply = reply and k = k and r = rb and w' = w' and v' = v'] by (simp add: reply_ops_defs)
qed (auto simp: reply_ops_defs)

subsection \<open>Properties of the services\<close>

lemma created_reporter:
  assumes "service_helper_dynamic sp c w rx = Ok h" "rx_alive (w k)"
  shows "reporter_ok k (tm_sender_state h) 15 (verif_reporter h)"
  using assms
  by (auto simp: service_helper_dynamic_def create_verification_reporter_def VerificationReporterCfg_new_def
      VerificationReporter_new_def VerificationReporter_new_with_hook_def VerificationReportCreator_new_def
      PusServiceHelper_new_def SIZE_AS_BYTES_def reporter_ok_def split: if_splits)

lemma created_service_inv:
  "create_action_service_dynamic sp w rx router reply_rx net = Ok ta \<Longrightarrow> rx_alive (w k) \<Longrightarrow>
     list_all action_reply_ok (ch_queue reply_rx) \<Longrightarrow>
     service_inv (action_env sp ops k read_tc hdr eu16 per_sec) k (\<lambda>buf. length buf = 128) action_reply_ok ta"
  "create_mode_service_dynamic sp w rx router mode_rx net = Ok tm \<Longrightarrow> rx_alive (w k) \<Longrightarrow>
     service_inv (mode_env sp ops k read_tc hdr pid_apid per_sec) k (\<lambda>_. True) (\<lambda>_. True) tm"
  subgoal
    using created_reporter [of sp PUS_ACTION_SERVICE w rx _ k]
    by (auto simp: create_action_service_dynamic_def res_bind_eq_Ok PusTargetedRequestService_new_def service_inv_def started_only_def)
  subgoal
    using created_reporter [of sp PUS_MODE_SERVICE w rx _ k]
    by (auto simp: create_mode_service_dynamic_def res_bind_eq_Ok PusTargetedRequestService_new_def service_inv_def started_only_def
        list_all_iff)
  done

text \<open>
  C13: the action service does not panic. From the moment it is created, whatever telecommands and replies
  it handles, whatever is timed out and whatever others do with its channels, as long as the telemetry
  channel is alive no call for the next telecommand or the next reply panics, and every active request
  holds a token in the started state.
\<close>

theorem action_service_no_panic:
  assumes "tm_ops_ok ops" "\<forall>raw. read_tc raw \<noteq> Panic" "enum_u16_ok eu16"
    and "create_action_service_dynamic sp w rx router reply_rx net = Ok t0" "rx_alive (w k)"
    and "list_all action_reply_ok (ch_queue reply_rx)"
    and "targeted_reach (action_env sp ops k read_tc hdr eu16 per_sec) k action_reply_ok t0 t"
  shows "targeted_poll_and_handle_next_tc (action_env sp ops k read_tc hdr eu16 per_sec) now ts t \<noteq> Some (Panic, t') \<and>
    fst (targeted_poll_and_handle_next_reply (action_env sp ops k read_tc hdr eu16 per_sec) ts t) \<noteq> Panic \<and>
    (active_request_map t rid = Some info \<longrightarrow> (\<exists>tok. ar_token (aar_common info) = TokenStarted tok))"
proof -
  note inv = safe_action.reach_inv [OF _ assms(7) created_service_inv(1) [OF assms(4-6)]]
  show ?thesis
    using inv safe_action.poll_safe [OF _ _ inv] safe_action.poll_reply_safe [OF _ inv prod.collapse [symmetric]] assms(1-3)
    by (auto simp: service_inv_def started_only_def provider_defs)
qed

text \<open>
  C36: the timeout check. In whatever order the map is visited, the check removes exactly the requests that
  have timed out and changes nothing else, so no report is sent for them.
\<close>

theorem request_timeouts:
  assumes "dom (active_request_map t) \<subseteq> set ids"
  shows "check_for_request_timeouts env now ids t =
    t\<lparr>active_request_map := active_request_map t |` {rid. \<exists>info. active_request_map t rid = Some info \<and>
        \<not> ap_has_timed_out (te_provider env) now info}\<rparr>"
proof -
  let ?gone = "filter (\<lambda>rid. case active_request_map t rid of Some info \<Rightarrow> ap_has_timed_out (te_provider env) now info | None \<Rightarrow> False) ids"
  have keep: "active_request_map t |` (- set ?gone) = active_request_map t |` {rid. \<exists>info. active_request_map t rid = Some info \<and>
      \<not> ap_has_timed_out (te_provider env) now info}"
    using assms by (auto simp: restrict_map_def fun_eq_iff split: option.splits)
  show ?thesis
  proof (cases "?gone = []")
    case True
    have "active_request_map t |` (- set ?gone) = active_request_map t" unfolding True by (simp add: restrict_map_def)
    then show ?thesis using True keep by (simp add: check_for_request_timeouts_def Let_def)
  next
    case False
    then show ?thesis using keep by (simp add: check_for_request_timeouts_def remove_all Let_def)
  qed
qed

lemma push_report_again:
  "ch_queue (fst (push_report sp ops k sub ts rid rest (push_report sp ops k sub' ts rid rest' (w, v))) k) =
     ch_queue (w k) @ [report_packet sp ops v sub' ts rid rest', report_packet sp ops v sub ts rid rest]"
  by (simp add: push_report_def report_packet_def)

text \<open>
  C34: a rejected action telecommand. Application data of less than eight bytes or a subservice other
  than 128 is answered by two reports, a start failure from the converter and then a completion failure
  from the service whose failure data give the lengths or the subservice. The call returns the conversion
  error, nothing is routed and no request becomes active.
\<close>

theorem action_rejected:
  assumes "tm_ops_ok ops" "reporter_ok k (ts_sender t) 15 (ts_reporter t)"
    and "ch_queue (tc_receiver (ts_service_helper t)) = \<lparr>tc_in_memory = TcVec p, tc_token = Some (TokenAccepted tok)\<rparr> # rest"
    and "read_tc (pav_packet p) = Ok tc" "length (tc_user_data tc) < 8 \<or> tc_subservice tc \<noteq> 128"
  shows "\<exists>t'. targeted_poll_and_handle_next_tc (action_env sp ops k read_tc hdr eu16 per_sec) now ts t =
      Some (Err (RequestConversion (if length (tc_user_data tc) < 8 then NotEnoughAppData 8 (length (tc_user_data tc))
        else InvalidSubservice (tc_subservice tc))), t') \<and>
    (let c = code_bytes (tmtc_err_code (if length (tc_user_data tc) < 8 then NOT_ENOUGH_APP_DATA else INVALID_PUS_SUBSERVICE));
         data = (if length (tc_user_data tc) < 8 then to_be_bytes (of_nat (length (tc_user_data tc)) :: u32) @ to_be_bytes (8 :: u32)
           else [tc_subservice tc])
     in ch_queue (ts_sender t' k) = ch_queue (ts_sender t k) @
       [report_packet sp ops (ts_reporter t) TmStartFailure ts (token_request_id tok) c,
        report_packet sp ops (ts_reporter t) TmCompletionFailure ts (token_request_id tok) (c @ data)]) \<and>
    active_request_map t' = active_request_map t \<and> request_net t' = request_net t \<and>
    ch_queue (tc_receiver (ts_service_helper t')) = rest"
proof -
  let ?c = "tmtc_err_code (if length (tc_user_data tc) < 8 then NOT_ENOUGH_APP_DATA else INVALID_PUS_SUBSERVICE)"
  let ?sv = "push_report sp ops k TmStartFailure ts (token_request_id tok) (code_bytes ?c) (ts_sender t, ts_reporter t)"
  obtain w1 v1 where sv: "?sv = (w1, v1)" by fastforce
  have ok: "reporter_ok k w1 15 v1" using push_report_ok [OF sv assms(2)] by simp
  have conv: "ActionRequestConverter_convert sp (MpscTmAsVecSender_send_tm ops k) per_sec st now tok tc (ts_sender t) (ts_reporter t) ts =
      (Err (if length (tc_user_data tc) < 8 then NotEnoughAppData 8 (length (tc_user_data tc)) else InvalidSubservice (tc_subservice tc)), w1, v1)" for st
    using assms sv
    by (auto simp: ActionRequestConverter_convert_def fail_params_no_data vec_fail_start target_of_tc slice_def Let_def)
  show ?thesis
    using push_report_again [of sp ops k TmCompletionFailure ts "token_request_id tok" _ TmStartFailure "code_bytes ?c" "ts_sender t" "ts_reporter t"]
    by (auto simp: targeted_poll_and_handle_next_tc_def poll_tc_vec [where read_tc = read_tc, OF assms(3,4)] conv handle_conversion_to_request_error_def
        vec_failure_reports [OF assms(1) ok] sv Let_def case_prod_unfold)
qed

text \<open>
  C35: a mode that was not reached is never reported. The failure data of the wrong mode reply have twelve
  bytes, but the reporter of the mode service has room for eight: the report can not be created, the call
  returns that error, the request is removed from the active ones, and no completion report is ever sent.
\<close>

theorem wrong_mode_unreported:
  assumes "tm_ops_ok ops" "\<forall>raw. read_tc raw \<noteq> Panic"
    and "create_mode_service_dynamic sp w rx router mode_rx net = Ok t0" "rx_alive (w k)"
    and "targeted_reach (mode_env sp ops k read_tc hdr pid_apid per_sec) k (\<lambda>_. True) t0 t"
    and "active_request_map t (GenericMessage_request_id reply) = Some info" "message reply = WrongMode expected reached"
  shows "targeted_handle_reply (mode_env sp ops k read_tc hdr pid_apid per_sec) reply ts t =
    (Err (TmtcPus (PusByteConversion (ToSliceTooSmall 15 18))),
     t\<lparr>active_request_map := (active_request_map t)(GenericMessage_request_id reply := None)\<rparr>)"
proof -
  note inv = safe_mode.reach_inv [OF _ assms(5) created_service_inv(2) [OF assms(3,4)]]
  have ok: "reporter_ok k (ts_sender t) 15 (ts_reporter t)" using inv assms(1,2) by (simp add: service_inv_def)
  obtain tok where tok: "ap_token ActivePusRequestStd_provider info = TokenStarted tok"
    using inv assms(1,2,6) unfolding service_inv_def started_only_def by (metis service_env_sel(9))
  show ?thesis
    using assms(6,7)
    by (simp add: targeted_handle_reply_def reply_ops_defs mode_reply_handled [OF assms(1) tok ok] DefaultActiveRequestMap_get_def
        DefaultActiveRequestMap_remove_def)
qed

subsection \<open>The life of a request\<close>

lemma targeted_poll_routed:
  assumes "poll_tc (te_pus env) (ts_service_helper t) = (Ok (Some (token, tc)), h1)"
    and "te_convert env (request_converter t) now token tc (tm_sender_state h1) (verif_reporter h1) ts =
      (Ok (info, rq), tm_sender_state h1, verif_reporter h1)"
    and "ap_token (te_provider env) info = TokenAccepted token"
    and "te_route env (request_router t) (MessageMetadata_new (RequestId_raw (env_sp (te_pus env)) (te_tc_req_id env tc)) (helper_id h1))
      (ap_target_id (te_provider env) info) rq (request_net t) = Some (Ok (), net')"
    and "start_success (env_sp (te_pus env)) (env_send_tm (te_pus env)) (tm_sender_state h1) (verif_reporter h1) token ts =
      (Ok started, sv)"
  shows "targeted_poll_and_handle_next_tc env now ts t = Some (Ok HandledOne,
    t\<lparr>ts_service_helper := h1\<lparr>tm_sender_state := fst sv, verif_reporter := snd sv\<rparr>, request_net := net',
      active_request_map := (active_request_map t)(RequestId_raw (env_sp (te_pus env)) (te_tc_req_id env tc) \<mapsto>
        ap_set_token (te_provider env) info (TokenStarted started))\<rparr>)"
  using assms
  by (simp add: targeted_poll_and_handle_next_tc_def DefaultActiveRequestMap_insert_def Let_def)

text \<open>The request a mode telecommand stands for.\<close>

definition mode_request :: "PusTc \<Rightarrow> ModeRequest option" where
  "mode_request tc =
     (let data = drop 4 (tc_user_data tc)
      in if length (tc_user_data tc) < 4 then None
         else if tc_subservice tc = 1
         then if length data < 6 then None
              else Some (SetMode \<lparr>mode = from_be_bytes (take 4 data), submode = from_be_bytes (take 2 (drop 4 data))\<rparr>)
         else map_of [(3, ReadMode), (4, AnnounceMode), (5, AnnounceModeRecursive)] (tc_subservice tc))"

definition mode_target :: "PusTc \<Rightarrow> ComponentId" where
  "mode_target tc = UniqueApidTargetId_raw \<lparr>ut_apid = tc_apid tc, ut_unique_id = from_be_bytes (take 4 (tc_user_data tc))\<rparr>"

lemma mode_convert_ok:
  assumes "mode_request tc = Some rq"
  shows "ModeRequestConverter_convert sp send_tm per_sec st now token tc s v ts =
    (Ok (ActivePusRequestStd_new now (mode_target tc) (TokenAccepted token) (30 * per_sec), rq), s, v)"
proof -
  have "4 \<le> length (tc_user_data tc)" using assms by (simp add: mode_request_def Let_def split: if_splits)
  then show ?thesis
    using assms
    by (auto simp: ModeRequestConverter_convert_def mode_request_def mode_target_def ModeSubservice_try_from_def target_of_tc slice_def
        RAW_LEN_def ModeAndSubmode_from_be_bytes_def Let_def split: if_splits)
qed

lemma mode_poll_ok:
  fixes sp :: "('pid, 'psc) Spacepackets" and hdr :: "PusTc \<Rightarrow> u8 \<times> 'pid \<times> 'psc" and ts :: bytes
  assumes "tm_ops_ok ops" "reporter_ok k (ts_sender t) n (ts_reporter t)" "4 \<le> n"
    and "ch_queue (tc_receiver (ts_service_helper t)) = \<lparr>tc_in_memory = TcVec p, tc_token = Some (TokenAccepted tok)\<rparr> # rest"
    and "read_tc (pav_packet p) = Ok tc" "mode_request tc = Some rq"
    and "mode_router_map (request_router t) (mode_target tc) = Some h"
    and "rx_alive (mode_net (request_net t) h)" "length (ch_queue (mode_net (request_net t) h)) < ch_bound (mode_net (request_net t) h)"
  defines "rid \<equiv> RequestId_raw sp (tc_request_id hdr tc)"
  defines "sv \<equiv> push_report sp ops k TmStartSuccess ts (token_request_id tok) [] (ts_sender t, ts_reporter t)"
  shows "targeted_poll_and_handle_next_tc (mode_env sp ops k read_tc hdr pid_apid per_sec) now ts t = Some (Ok HandledOne,
    t\<lparr>ts_service_helper := (ts_service_helper t)\<lparr>tc_receiver := (tc_receiver (ts_service_helper t))\<lparr>ch_queue := rest\<rparr>,
        tc_in_mem_converter := \<lparr>vc_sender_id = Some (pav_sender_id p), pus_tc_raw = Some (pav_packet p)\<rparr>,
        tm_sender_state := fst sv, verif_reporter := snd sv\<rparr>,
      request_net := (request_net t)\<lparr>mode_net := (mode_net (request_net t))(h := (mode_net (request_net t) h)
        \<lparr>ch_queue := ch_queue (mode_net (request_net t) h) @
          [GenericMessage_new (MessageMetadata_new rid (helper_id (ts_service_helper t))) rq]\<rparr>)\<rparr>,
      active_request_map := (active_request_map t)(rid \<mapsto>
        ActivePusRequestStd_new now (mode_target tc) (TokenStarted (VerificationToken (token_request_id tok))) (30 * per_sec))\<rparr>)"
  using assms(7-9)
  by (subst targeted_poll_routed [where tc = tc and token = tok and rq = rq and sv = sv
        and info = "ActivePusRequestStd_new now (mode_target tc) (TokenAccepted tok) (30 * per_sec)"])
    (simp_all add: poll_tc_vec [where read_tc = read_tc, OF assms(4,5)] mode_convert_ok [OF assms(6)] provider_defs route_mode_def
      mpsc_sync_send_def vec_success_reports [OF assms(1-3)] rid_def sv_def)

lemma mode_reply_polled:
  assumes "tm_ops_ok ops" "spacepackets_ok sp" "version_number rid \<le> 7" "reporter_ok k (ts_sender t) 15 (ts_reporter t)"
    and "ch_queue (reply_receiver t) = [GenericMessage_new (MessageMetadata_new (RequestId_raw sp rid) i) (ModeReply m)]"
    and "active_request_map t (RequestId_raw sp rid) = Some info" "ar_token info = TokenStarted (VerificationToken rid)"
  shows "\<exists>t'. targeted_poll_and_handle_next_reply (mode_env sp ops k read_tc hdr pid_apid per_sec) ts t = (Ok HandledOne, t') \<and>
    ch_queue (ts_sender t' k) = ch_queue (ts_sender t k) @
      [PacketAsVec_new (reply_handler t) (the_ok (tm_to_vec ops (mode_reply_tm (pid_apid (packet_id rid)) ts (mode_bytes m @ replicate 6 0)))),
       report_packet sp ops (ts_reporter t) TmCompletionSuccess ts rid []] \<and>
    active_request_map t' = (active_request_map t)(RequestId_raw sp rid := None)"
proof -
  have rid: "RequestId_from sp (RequestId_raw sp rid) = rid"
    using RequestId_from_raw [OF assms(2), of rid] assms(3) by (simp add: mask_eq_exp_minus_1)
  have tok: "ap_token ActivePusRequestStd_provider info = TokenStarted (VerificationToken rid)"
    using assms(7) by (simp add: provider_defs)
  show ?thesis
    using assms(5,6) rid
    by (simp add: targeted_poll_and_handle_next_reply_def mpsc_try_recv_def targeted_handle_reply_def reply_ops_defs
        DefaultActiveRequestMap_get_def DefaultActiveRequestMap_remove_def GenericMessage_request_id_def GenericMessage_new_def
        MessageMetadata_new_def mode_reply_handled [OF assms(1) tok assms(4)] Let_def case_prod_unfold)
qed

subsection \<open>Witnesses for the services\<close>

definition demo_eu16 :: "u16 \<Rightarrow> EcssEnumeration" where
  "demo_eu16 n = \<lparr>ee_size = 2, ee_write = (\<lambda>buf. if length buf < 2 then (Err (ToSliceTooSmall (length buf) 2), buf)
     else (Ok 2, overwrite 0 (to_be_bytes n) buf))\<rparr>"

lemma demo_eu16_ok: "enum_u16_ok demo_eu16"
  by (simp add: enum_u16_ok_def ecss_enum_writes_def demo_eu16_def)

lemma demo_read_total: "\<forall>raw. demo_read_tc raw \<noteq> Panic"
  by (simp add: demo_read_tc_def split: list.split)

definition demo_requests :: RequestNet where
  "demo_requests = \<lparr>composite_net = (\<lambda>_. demo_open []), mode_net = (\<lambda>_. demo_open [])\<rparr>"

definition demo_router :: GenericRequestRouter where
  "demo_router = \<lparr>router_id = 0, composite_router_map = (\<lambda>_. Some 0), mode_router_map = (\<lambda>_. Some 0)\<rparr>"

definition demo_tcs :: "bytes \<Rightarrow> (13 word, u16) EcssTcAndToken chan" where
  "demo_tcs raw = demo_open [\<lparr>tc_in_memory = TcVec \<lparr>pav_sender_id = 1, pav_packet = raw\<rparr>,
     tc_token = Some (TokenAccepted (VerificationToken demo_rid))\<rparr>]"

definition demo_action :: "bytes \<Rightarrow>
    (13 word, u16, unit, (13 word, u16) ActivePusActionRequestStd, ActionReplyPus, bytes) vec_service" where
  "demo_action raw = the_ok (create_action_service_dynamic demo_sp (\<lambda>_. demo_open []) (demo_tcs raw) demo_router (demo_open []) demo_requests
     :: (unit, _) res)"

definition demo_mode :: "bytes \<Rightarrow> (13 word, u16, unit, (13 word, u16) ActivePusRequestStd, ModeReply, ComponentId) vec_service" where
  "demo_mode raw = the_ok (create_mode_service_dynamic demo_sp (\<lambda>_. demo_open []) (demo_tcs raw) demo_router (demo_open []) demo_requests
     :: (unit, _) res)"

lemma demo_created:
  "create_action_service_dynamic demo_sp (\<lambda>_. demo_open []) (demo_tcs raw) demo_router (demo_open []) demo_requests = Ok (demo_action raw)"
  "create_mode_service_dynamic demo_sp (\<lambda>_. demo_open []) (demo_tcs raw) demo_router (demo_open []) demo_requests = Ok (demo_mode raw)"
  by (simp_all add: demo_action_def demo_mode_def create_action_service_dynamic_def create_mode_service_dynamic_def
      service_helper_dynamic_def demo_reporter_created target_id_def)

abbreviation demo_action_env where
  "demo_action_env \<equiv> action_env demo_sp demo_ops 0 demo_read_tc demo_hdr demo_eu16 1"

abbreviation demo_mode_env where
  "demo_mode_env \<equiv> mode_env demo_sp demo_ops 0 demo_read_tc demo_hdr (\<lambda>pid. ucast pid) 1"

lemma demo_service_inv:
  "service_inv demo_action_env 0 (\<lambda>buf. length buf = 128) action_reply_ok (demo_action raw)"
  "service_inv demo_mode_env 0 (\<lambda>_. True) (\<lambda>_. True) (demo_mode raw)"
  using created_service_inv(1) [OF demo_created(1)] created_service_inv(2) [OF demo_created(2)] by simp_all

lemma demo_service_sel [simp]:
  "tc_receiver (ts_service_helper (demo_action raw)) = demo_tcs raw" "tc_receiver (ts_service_helper (demo_mode raw)) = demo_tcs raw"
  "ts_sender (demo_action raw) = (\<lambda>_. demo_open [])" "request_router (demo_mode raw) = demo_router" "request_net (demo_mode raw) = demo_requests"
  "active_request_map (demo_action raw) = Map.empty"
  by (simp_all add: demo_action_def demo_mode_def create_action_service_dynamic_def create_mode_service_dynamic_def
      service_helper_dynamic_def demo_reporter_created target_id_def PusTargetedRequestService_new_def PusServiceHelper_new_def)

theorem action_service_no_panic_witness:
  "targeted_poll_and_handle_next_tc demo_action_env 5 [] (demo_action [8, 128, 0, 0, 0, 7, 0, 0, 0, 1]) \<noteq> Some (Panic, demo_action []) \<and>
   fst (targeted_poll_and_handle_next_reply demo_action_env [] (demo_action [])) \<noteq> Panic"
  using action_service_no_panic [OF demo_ops_ok demo_read_total demo_eu16_ok demo_created(1) _ _ reach_start] by simp

theorem request_timeouts_witness:
  "active_request_map (check_for_request_timeouts demo_action_env 100 [2, 1]
     ((demo_action [])\<lparr>active_request_map := [1 \<mapsto> ActivePusActionRequestStd_new 3 8 9 (TokenStarted (VerificationToken demo_rid)) 30,
       2 \<mapsto> ActivePusActionRequestStd_new 90 8 9 (TokenStarted (VerificationToken demo_rid)) 30]\<rparr>)) =
   [2 \<mapsto> ActivePusActionRequestStd_new 90 8 9 (TokenStarted (VerificationToken demo_rid)) 30]"
  by (subst request_timeouts)
    (auto simp: provider_defs has_timed_out_def restrict_map_def fun_eq_iff)

theorem action_rejected_witness:
  "\<exists>t'. targeted_poll_and_handle_next_tc demo_action_env 5 [] (demo_action [8, 128]) =
     Some (Err (RequestConversion (NotEnoughAppData 8 0)), t') \<and>
   map pav_packet (ch_queue (ts_sender t' 0)) = [[4], [8]] \<and> active_request_map t' = Map.empty"
proof -
  have ok: "reporter_ok 0 (ts_sender (demo_action [8, 128])) 15 (ts_reporter (demo_action [8, 128]))"
    using demo_service_inv(1) by (simp add: service_inv_def)
  have tc: "demo_read_tc (pav_packet \<lparr>pav_sender_id = 1, pav_packet = [8, 128]\<rparr>) = Ok (demo_parsed 8 128 [])" by simp
  show ?thesis
    using action_rejected [where read_tc = demo_read_tc and t = "demo_action [8, 128]" and tc = "demo_parsed 8 128 []" and k = 0, OF demo_ops_ok ok _ tc,
        where tok = "VerificationToken demo_rid" and rest = "[]" and sp = demo_sp and hdr = demo_hdr and ?eu16.0 = demo_eu16 and per_sec = 1
          and now = 5 and ts = "[]"]
    by (auto simp: demo_tcs_def demo_report_sub Let_def) (simp_all add: demo_sp_def)
qed

theorem wrong_mode_unreported_witness:
  "\<exists>t. ts_sender (snd (targeted_handle_reply demo_mode_env (GenericMessage_new (MessageMetadata_new (RequestId_raw demo_sp demo_rid) 5)
       (WrongMode \<lparr>mode = 1, submode = 0\<rparr> \<lparr>mode = 0, submode = 0\<rparr>)) [] t)) = ts_sender t \<and>
     active_request_map t (RequestId_raw demo_sp demo_rid) \<noteq> None"
proof -
  have inv: "reporter_ok 0 (ts_sender (demo_mode [200, 3, 0, 0, 0, 7])) 15 (ts_reporter (demo_mode [200, 3, 0, 0, 0, 7]))"
    using demo_service_inv(2) by (simp add: service_inv_def)
  have rid: "tc_request_id demo_hdr tc = demo_rid" for tc by (simp add: tc_request_id_def demo_hdr_def demo_rid_def)
  obtain t where poll: "targeted_poll_and_handle_next_tc demo_mode_env 5 [] (demo_mode [200, 3, 0, 0, 0, 7]) = Some (Ok HandledOne, t)"
    and act: "active_request_map t (RequestId_raw demo_sp demo_rid) \<noteq> None"
    using mode_poll_ok [OF demo_ops_ok inv, where tok = "VerificationToken demo_rid" and rest = "[]" and read_tc = demo_read_tc
        and p = "\<lparr>pav_sender_id = 1, pav_packet = [200, 3, 0, 0, 0, 7]\<rparr>" and tc = "demo_parsed 200 3 [0, 0, 0, 7]" and rq = ReadMode
        and h = 0 and sp = demo_sp and hdr = demo_hdr]
    by (simp add: demo_tcs_def mode_request_def demo_router_def demo_requests_def rid)
  obtain info where info: "active_request_map t (RequestId_raw demo_sp demo_rid) = Some info" using act by blast
  have "targeted_reach demo_mode_env 0 (\<lambda>_. True) (demo_mode [200, 3, 0, 0, 0, 7]) t" by (rule reach_tc [OF reach_start poll])
  from wrong_mode_unreported [OF demo_ops_ok demo_read_total demo_created(2) _ this,
      of "GenericMessage_new (MessageMetadata_new (RequestId_raw demo_sp demo_rid) 5) (WrongMode \<lparr>mode = 1, submode = 0\<rparr> \<lparr>mode = 0, submode = 0\<rparr>)"]
  show ?thesis
    using info by (intro exI [of _ t]) (simp add: GenericMessage_new_def GenericMessage_request_id_def MessageMetadata_new_def)
qed

end
