(* ===== verification/Executable.thy ===== *)
theory Executable
  imports Messaging
begin

text \<open>
  Task execution (\<^verbatim>\<open>satrs/src/executable.rs\<close>): the loops of the threads that run one task or several tasks
  periodically. A task works on the state it owns and on a world it shares with the rest of the system; the
  thread itself and its sleeping are not part of the model.
\<close>

subsection \<open>Tasks\<close>

datatype OpResult = OpOk | TerminationRequested

datatype ExecutionType = Infinite | Cycles u32 | OneShot

text \<open>The trait \<^verbatim>\<open>Executable\<close> over the tasks \<^typ>\<open>'x\<close> and the world \<^typ>\<open>'w\<close>.\<close>

record ('x, 'w, 'e) Executable =
  exec_type :: "'x \<Rightarrow> ExecutionType"
  periodic_op :: "'x \<Rightarrow> 32 word \<Rightarrow> 'w \<Rightarrow> ('e, OpResult) res \<times> 'x \<times> 'w"

text \<open>
  The termination handler is a bus reader of a third-party crate: \<open>term i\<close> is what it receives in
  iteration \<open>i\<close>, if there is a handler.
\<close>

type_synonym term_handler = "(nat \<Rightarrow> (TryRecvError, unit) res) option"

fun terminated :: "term_handler \<Rightarrow> nat \<Rightarrow> bool" where
  "terminated None i = False"
| "terminated (Some t) i = (case t i of Err TryRecvEmpty \<Rightarrow> False | _ \<Rightarrow> True)"

subsection \<open>One task\<close>

text \<open>
  The loop may run forever, in which case it has no value. The cycle counter panics when it overflows.
\<close>

partial_function (option) exec_sched_single ::
    "('x, 'w, 'e) Executable \<Rightarrow> 32 word \<Rightarrow> term_handler \<Rightarrow> nat \<Rightarrow> u32 \<Rightarrow> 'x \<Rightarrow> 'w \<Rightarrow> (('e, OpResult) res \<times> 'w) option" where
  "exec_sched_single ex op_code term i cycle_count x w =
     (if terminated term i then Some (Ok OpOk, w)
      else (case exec_type ex x of
              OneShot \<Rightarrow>
                (case periodic_op ex x op_code w of
                   (Ok _, x', w') \<Rightarrow> Some (Ok OpOk, w')
                 | (Err e, x', w') \<Rightarrow> Some (Err e, w')
                 | (Panic, x', w') \<Rightarrow> Some (Panic, w'))
            | Infinite \<Rightarrow>
                (case periodic_op ex x op_code w of
                   (Ok _, x', w') \<Rightarrow> exec_sched_single ex op_code term (i + 1) cycle_count x' w'
                 | (Err e, x', w') \<Rightarrow> Some (Err e, w')
                 | (Panic, x', w') \<Rightarrow> Some (Panic, w'))
            | Cycles cycles \<Rightarrow>
                (case periodic_op ex x op_code w of
                   (Ok _, x', w') \<Rightarrow>
                     if cycle_count = - 1 then Some (Panic, w')
                     else if cycle_count + 1 = cycles then Some (Ok OpOk, w')
                     else exec_sched_single ex op_code term (i + 1) (cycle_count + 1) x' w'
                 | (Err e, x', w') \<Rightarrow> Some (Err e, w')
                 | (Panic, x', w') \<Rightarrow> Some (Panic, w'))))"

subsection \<open>Several tasks\<close>

text \<open>
  One pass over the tasks from index \<open>idx\<close> on, with the cycle counters and the removal flags.
\<close>

fun count_overflows :: "ExecutionType \<Rightarrow> u32 \<Rightarrow> bool" where
  "count_overflows (Cycles c) n = (n = - 1)"
| "count_overflows t n = False"

fun exec_round ::
    "('x, 'w, 'e) Executable \<Rightarrow> 32 word \<Rightarrow> nat \<Rightarrow> 'x list \<Rightarrow> u32 list \<Rightarrow> bool list \<Rightarrow> 'w \<Rightarrow>
     ('e, unit) res \<times> 'x list \<times> u32 list \<times> bool list \<times> 'w" where
  "exec_round ex op_code idx [] counts flags w = (Ok (), [], counts, flags, w)"
| "exec_round ex op_code idx (x # xs) counts flags w =
     (let (r, x', w') = periodic_op ex x op_code w
      in (case r of
            Err e \<Rightarrow> (Err e, x' # xs, counts, flags, w')
          | Panic \<Rightarrow> (Panic, x' # xs, counts, flags, w')
          | Ok _ \<Rightarrow>
              if count_overflows (exec_type ex x) (counts ! idx) then (Panic, x' # xs, counts, flags, w')
              else
              (let (counts', flags') =
                 (case exec_type ex x of
                    OneShot \<Rightarrow> (counts, flags[idx := True])
                  | Infinite \<Rightarrow> (counts, flags)
                  | Cycles cycles \<Rightarrow>
                      (let counts' = counts[idx := counts ! idx + 1]
                       in (counts', if counts' ! idx = cycles then flags[idx := True] else flags)));
                   (r2, xs', counts2, flags2, w2) = exec_round ex op_code (idx + 1) xs counts' flags' w'
               in (r2, x' # xs', counts2, flags2, w2))))"

text \<open>\<^verbatim>\<open>retain\<close> with an iterator over the removal flags.\<close>

definition retain :: "bool list \<Rightarrow> 'a list \<Rightarrow> 'a list" where
  "retain flags xs = map fst (filter (\<lambda>p. \<not> snd p) (zip xs flags))"

partial_function (option) exec_multi_loop ::
    "('x, 'w, 'e) Executable \<Rightarrow> bool \<Rightarrow> 32 word \<Rightarrow> term_handler \<Rightarrow> nat \<Rightarrow> 'x list \<Rightarrow> u32 list \<Rightarrow> bool list \<Rightarrow> 'w \<Rightarrow>
     (('e, OpResult) res \<times> 'w) option" where
  "exec_multi_loop ex has_freq op_code term i xs counts flags w =
     (case exec_round ex op_code 0 xs counts (if terminated term i then map (\<lambda>_. True) flags else flags) w of
        (Err e, _, _, _, w') \<Rightarrow> Some (Err e, w')
      | (Panic, _, _, _, w') \<Rightarrow> Some (Panic, w')
      | (Ok _, xs', counts', flags', w') \<Rightarrow>
          if retain flags' xs' = [] then Some (Ok OpOk, w')
          else if \<not> has_freq then Some (Panic, w')
          else exec_multi_loop ex has_freq op_code term (i + 1) (retain flags' xs') (retain flags' counts')
                 (filter (\<lambda>b. \<not> b) flags') w')"

definition exec_sched_multi ::
    "('x, 'w, 'e) Executable \<Rightarrow> bool \<Rightarrow> 32 word \<Rightarrow> term_handler \<Rightarrow> 'x list \<Rightarrow> 'w \<Rightarrow> (('e, OpResult) res \<times> 'w) option" where
  "exec_sched_multi ex has_freq op_code term xs w =
     exec_multi_loop ex has_freq op_code term 0 xs (replicate (length xs) 0) (replicate (length xs) False) w"

subsection \<open>Rounds\<close>

text \<open>The number of times a task is to be run, and the calls in the order of the rounds.\<close>

fun exec_limit :: "ExecutionType \<Rightarrow> nat" where
  "exec_limit OneShot = 1"
| "exec_limit (Cycles c) = unat c"
| "exec_limit Infinite = 0"

definition due :: "('x, 'w, 'e) Executable \<Rightarrow> nat \<Rightarrow> 'x list \<Rightarrow> 'x list" where
  "due ex r xs = filter (\<lambda>x. r < exec_limit (exec_type ex x)) xs"

definition rounds :: "('x, 'w, 'e) Executable \<Rightarrow> nat \<Rightarrow> nat \<Rightarrow> 'x list \<Rightarrow> 'x list" where
  "rounds ex r n xs = concat (map (\<lambda>q. due ex q xs) [r..<n])"

text \<open>Tasks that succeed, act on the world only, and are to be run a number of times.\<close>

definition bounded_task :: "('x, 'w, 'e) Executable \<Rightarrow> 32 word \<Rightarrow> ('x \<Rightarrow> 'w \<Rightarrow> 'w) \<Rightarrow> 'x \<Rightarrow> bool" where
  "bounded_task ex op_code act x \<longleftrightarrow>
     exec_type ex x \<noteq> Infinite \<and> (\<forall>w. \<exists>res. periodic_op ex x op_code w = (Ok res, x, act x w))"

lemma word_reached:
  fixes c :: u32
  assumes "r < unat c"
  shows "(of_nat (Suc r) = c) = (Suc r = unat c)"
proof -
  have "Suc r < 2 ^ 32" using assms unsigned_less [of c, where 'a = nat] by simp
  then have "unat (of_nat (Suc r) :: u32) = Suc r"
    using take_bit_nat_eq_self [of "Suc r" 32] by (simp add: unat_of_nat del: of_nat_Suc)
  then show ?thesis by (metis word_unat_eq_iff)
qed

lemma count_fits:
  assumes "r < unat (c :: u32)"
  shows "(of_nat r :: u32) \<noteq> - 1"
proof -
  have c: "unat c \<le> 4294967295" using unsigned_less [of c, where 'a = nat] by simp
  then have "unat (of_nat r :: u32) = r" using assms take_bit_nat_eq_self [of r 32] by (simp add: unat_of_nat)
  moreover have "unat (- 1 :: u32) = 4294967295" by (simp add: unsigned_minus_1_eq_mask mask_eq_exp_minus_1)
  ultimately show ?thesis using assms c by (metis leD)
qed

lemma exec_round_bounded:
  assumes "\<forall>x\<in>set ys. bounded_task ex op_code act x \<and> r < exec_limit (exec_type ex x)"
    and "length cs = idx" "length fs = idx"
  shows "exec_round ex op_code idx ys (cs @ replicate (length ys) (of_nat r)) (fs @ replicate (length ys) False) w =
    (Ok (), ys, cs @ map (\<lambda>x. if exec_type ex x = OneShot then of_nat r else of_nat (Suc r)) ys,
     fs @ map (\<lambda>x. Suc r = exec_limit (exec_type ex x)) ys, fold act ys w)"
  using assms
proof (induction ys arbitrary: idx cs fs w)
  case (Cons x ys)
  then have "bounded_task ex op_code act x" by simp
  then obtain res where op: "periodic_op ex x op_code w = (Ok res, x, act x w)" unfolding bounded_task_def by blast
  have lim: "r < exec_limit (exec_type ex x)" "exec_type ex x \<noteq> Infinite" using Cons.prems by (auto simp: bounded_task_def)
  let ?c = "if exec_type ex x = OneShot then of_nat r else of_nat (Suc r) :: u32"
  let ?f = "Suc r = exec_limit (exec_type ex x)"
  have IH: "exec_round ex op_code (Suc idx) ys ((cs @ [?c]) @ replicate (length ys) (of_nat r))
      ((fs @ [?f]) @ replicate (length ys) False) (act x w) =
    (Ok (), ys, (cs @ [?c]) @ map (\<lambda>x. if exec_type ex x = OneShot then of_nat r else of_nat (Suc r)) ys,
     (fs @ [?f]) @ map (\<lambda>x. Suc r = exec_limit (exec_type ex x)) ys, fold act ys (act x w))"
    using Cons.prems by (intro Cons.IH) auto
  show ?case
  proof (cases "exec_type ex x")
    case (Cycles c)
    have w: "(of_nat r + 1 = c) = (Suc r = unat c)" "(of_nat r :: u32) \<noteq> - 1"
      using word_reached [of r c] count_fits [of r c] lim Cycles by (simp_all add: add.commute)
    show ?thesis
    proof (cases "Suc r = unat c")
      case True
      then have "of_nat r + 1 = c" "1 + of_nat r = c" using w(1) by (simp_all add: add.commute)
      then show ?thesis using IH op Cons.prems Cycles True w(2) by (simp add: Let_def nth_append list_update_append)
    next
      case False
      then show ?thesis
        using IH op Cons.prems Cycles w by (simp add: Let_def nth_append list_update_append add.commute [of 1])
    qed
  qed (use IH op lim Cons.prems in \<open>simp_all add: Let_def nth_append list_update_append\<close>)
qed simp

lemma retain_map: "retain (map P xs) (map g xs) = map g (filter (\<lambda>x. \<not> P x) xs)"
  by (induction xs) (auto simp: retain_def)

lemma due_next: "filter (\<lambda>x. Suc r \<noteq> exec_limit (exec_type ex x)) (due ex r xs) = due ex (Suc r) xs"
  unfolding due_def filter_filter by (rule filter_cong) auto

lemma due_counts:
  "map (\<lambda>x. if exec_type ex x = OneShot then c else d) (due ex (Suc r) xs) = replicate (length (due ex (Suc r) xs)) d"
  by (induction xs) (auto simp: due_def)

lemma due_empty: "due ex r xs = [] \<Longrightarrow> r \<le> q \<Longrightarrow> due ex q xs = []"
  by (auto simp: due_def filter_empty_conv)

lemma rounds_empty: "due ex r xs = [] \<Longrightarrow> rounds ex r n xs = []"
  by (auto simp: rounds_def intro: due_empty)

lemma exec_multi_loop_bounded:
  assumes "\<forall>x\<in>set xs. bounded_task ex op_code act x \<and> exec_limit (exec_type ex x) \<le> n"
  shows "exec_multi_loop ex True op_code None i (due ex r xs) (replicate (length (due ex r xs)) (of_nat r))
    (replicate (length (due ex r xs)) False) w = Some (Ok OpOk, fold act (rounds ex r n xs) w)"
proof (induction "n - r" arbitrary: r w i)
  case 0
  have e: "due ex r xs = []" using 0 assms by (auto simp: due_def filter_empty_conv)
  show ?case using rounds_empty [OF e] by (simp add: exec_multi_loop.simps e retain_def)
next
  case (Suc k)
  let ?ys = "due ex r xs"
  have round: "exec_round ex op_code 0 ?ys (replicate (length ?ys) (of_nat r)) (replicate (length ?ys) False) w =
      (Ok (), ?ys, map (\<lambda>x. if exec_type ex x = OneShot then of_nat r else of_nat (Suc r)) ?ys,
       map (\<lambda>x. Suc r = exec_limit (exec_type ex x)) ?ys, fold act ?ys w)"
    using exec_round_bounded [of ?ys ex op_code act r "[]" 0 "[]" w] assms by (auto simp: due_def)
  have flags: "filter (\<lambda>b. \<not> b) (map (\<lambda>x. Suc r = exec_limit (exec_type ex x)) ?ys) = replicate (length (due ex (Suc r) xs)) False"
    by (subst due_next [symmetric]) (auto simp: filter_map o_def intro: replicate_eqI)
  have now: "rounds ex r n xs = ?ys @ rounds ex (Suc r) n xs"
    using Suc.hyps(2) by (simp add: rounds_def upt_conv_Cons)
  have kept: "retain (map (\<lambda>x. Suc r = exec_limit (exec_type ex x)) ?ys) ?ys = due ex (Suc r) xs"
    using retain_map [of "\<lambda>x. Suc r = exec_limit (exec_type ex x)" ?ys "\<lambda>x. x"] due_next [of r ex xs] by simp
  show ?case
  proof (cases "due ex (Suc r) xs = []")
    case True
    then show ?thesis
      using rounds_empty [OF True] by (subst exec_multi_loop.simps) (simp add: round kept now)
  next
    case False
    have IH: "exec_multi_loop ex True op_code None (i + 1) (due ex (Suc r) xs) (replicate (length (due ex (Suc r) xs)) (of_nat (Suc r)))
        (replicate (length (due ex (Suc r) xs)) False) (fold act ?ys w) = Some (Ok OpOk, fold act (rounds ex (Suc r) n xs) (fold act ?ys w))"
      using Suc.hyps by (intro Suc.hyps) simp
    show ?thesis
      using IH False by (subst exec_multi_loop.simps) (simp add: round kept now retain_map due_next due_counts flags del: of_nat_Suc)
  qed
qed

lemma count_due: "count_list (due ex q xs) x = (if q < exec_limit (exec_type ex x) then count_list xs x else 0)"
  by (induction xs) (auto simp: due_def)

lemma count_rounds:
  "exec_limit (exec_type ex x) \<le> n \<Longrightarrow> count_list (rounds ex 0 n xs) x = exec_limit (exec_type ex x) * count_list xs x"
proof -
  have "count_list (rounds ex 0 m xs) x = min m (exec_limit (exec_type ex x)) * count_list xs x" for m
    by (induction m) (auto simp: rounds_def count_due min_def not_le split: if_splits)
  then show "exec_limit (exec_type ex x) \<le> n \<Longrightarrow> count_list (rounds ex 0 n xs) x = exec_limit (exec_type ex x) * count_list xs x"
    by (simp add: min_def)
qed

text \<open>
  C37: running several tasks. Tasks that succeed and are to be run once or a number of times are run in
  rounds, each round in the order of the tasks, every task exactly as often as it asks for, and then the
  thread ends. Without a task frequency the thread panics after the first round if a task is left.
\<close>

theorem exec_multi_rounds:
  assumes "\<forall>x\<in>set xs. bounded_task ex op_code act x \<and> 0 < exec_limit (exec_type ex x) \<and> exec_limit (exec_type ex x) \<le> n"
  shows "exec_sched_multi ex True op_code None xs w = Some (Ok OpOk, fold act (rounds ex 0 n xs) w) \<and>
    exec_sched_multi ex False op_code None xs w =
      Some (if \<exists>x\<in>set xs. 1 < exec_limit (exec_type ex x) then Panic else Ok OpOk, fold act xs w) \<and>
    (x \<in> set xs \<longrightarrow> count_list (rounds ex 0 n xs) x = exec_limit (exec_type ex x) * count_list xs x)"
proof -
  have all: "due ex 0 xs = xs" using assms by (simp add: due_def)
  have first: "exec_round ex op_code 0 xs (replicate (length xs) 0) (replicate (length xs) False) w =
      (Ok (), xs, map (\<lambda>x. if exec_type ex x = OneShot then 0 else 1) xs, map (\<lambda>x. 1 = exec_limit (exec_type ex x)) xs, fold act xs w)"
    using exec_round_bounded [of xs ex op_code act 0 "[]" 0 "[]" w] assms by simp
  have left: "retain (map (\<lambda>x. 1 = exec_limit (exec_type ex x)) xs) xs = due ex 1 xs"
    using retain_map [of "\<lambda>x. 1 = exec_limit (exec_type ex x)" xs "\<lambda>x. x"] due_next [of 0 ex xs] all by simp
  have "exec_sched_multi ex False op_code None xs w =
      Some (if \<exists>x\<in>set xs. 1 < exec_limit (exec_type ex x) then Panic else Ok OpOk, fold act xs w)"
    using left by (subst exec_sched_multi_def, subst exec_multi_loop.simps) (auto simp: first due_def filter_empty_conv)
  moreover have "exec_sched_multi ex True op_code None xs w = Some (Ok OpOk, fold act (rounds ex 0 n xs) w)"
    using exec_multi_loop_bounded [of xs ex op_code act n 0 0 w] assms all by (simp add: exec_sched_multi_def)
  ultimately show ?thesis using count_rounds [of ex x n xs] assms by auto
qed

text \<open>
  A single task with a number of cycles is run that often.
\<close>

lemma exec_single_cycles:
  assumes "bounded_task ex op_code act x" "exec_type ex x = Cycles c" "r < unat c"
  shows "exec_sched_single ex op_code None i (of_nat r) x w = Some (Ok OpOk, (act x ^^ (unat c - r)) w)"
  using assms(3)
proof (induction "unat c - r" arbitrary: r i w)
  case (Suc k)
  obtain res where op: "periodic_op ex x op_code w = (Ok res, x, act x w)" using assms(1) unfolding bounded_task_def by blast
  have w: "(of_nat r + 1 = c) = (Suc r = unat c)" "(of_nat r :: u32) \<noteq> - 1"
    using word_reached [of r c] count_fits [of r c] Suc.prems by (simp_all add: add.commute)
  show ?case
  proof (cases "Suc r = unat c")
    case True
    then have "unat c - r = 1" by simp
    then show ?thesis using w True by (subst exec_sched_single.simps) (simp add: assms(2) op)
  next
    case False
    have "exec_sched_single ex op_code None (i + 1) (of_nat (Suc r)) x (act x w) = Some (Ok OpOk, (act x ^^ (unat c - Suc r)) (act x w))"
      using Suc.hyps(2) Suc.prems False by (intro Suc.hyps(1)) auto
    moreover have "unat c - r = Suc (unat c - Suc r)" using Suc.prems by simp
    ultimately show ?thesis using w False
      by (subst exec_sched_single.simps) (simp add: assms(2) op add.commute [of 1] funpow_Suc_right del: funpow.simps)
  qed
qed simp

subsection \<open>Witnesses\<close>

text \<open>Tasks that note their number and are run that many times.\<close>

definition demo_tasks :: "(nat, nat list, unit) Executable" where
  "demo_tasks = \<lparr>exec_type = (\<lambda>x. if x = 1 then OneShot else Cycles (of_nat x)), periodic_op = (\<lambda>x op_code w. (Ok OpOk, x, w @ [x]))\<rparr>"

theorem exec_multi_rounds_witness:
  "exec_sched_multi demo_tasks True 0 None [2, 1, 3] [] = Some (Ok OpOk, [2, 1, 3, 2, 3, 3])"
proof -
  have b: "\<forall>x\<in>set [2, 1, 3]. bounded_task demo_tasks 0 (\<lambda>x w. w @ [x]) x \<and> 0 < exec_limit (exec_type demo_tasks x) \<and>
      exec_limit (exec_type demo_tasks x) \<le> 3"
    by (simp add: bounded_task_def demo_tasks_def)
  have "rounds demo_tasks 0 3 [2, 1, 3] = [2, 1, 3, 2, 3, 3]"
    by (simp add: rounds_def due_def demo_tasks_def upt_rec)
  then show ?thesis using exec_multi_rounds [OF b, of "[]"] by simp
qed

end
