(* ===== verification/Tcp_Server.thy ===== *)
theory Tcp_Server
  imports Encoding
begin

text \<open>
  The TCP and UDP servers of \<^verbatim>\<open>satrs/src/hal/std\<close>: the generic TCP server (\<^verbatim>\<open>tcp_server.rs\<close>) with its
  parsers of telecommands and senders of telemetry for tightly packed space packets
  (\<^verbatim>\<open>tcp_spacepackets_server.rs\<close>) and for COBS frames (\<^verbatim>\<open>tcp_cobs_server.rs\<close>), and the UDP server
  (\<^verbatim>\<open>udp_server.rs\<close>). Sockets, the poll and the listener belong to other libraries and are arguments.
  The counters of a connection are written as wrapping at 2^32 packets.
\<close>

subsection \<open>The parts of the TCP server\<close>

datatype io_error = IoWouldBlock | IoTimedOut | IoOther nat

record 'a ServerConfig =
  cfg_id :: ComponentId
  cfg_addr :: 'a
  cfg_inner_loop_delay :: nat
  tm_buffer_size :: nat
  tc_buffer_size :: nat
  reuse_addr :: bool
  reuse_port :: bool

definition ServerConfig_new :: "ComponentId \<Rightarrow> 'a \<Rightarrow> nat \<Rightarrow> nat \<Rightarrow> nat \<Rightarrow> 'a ServerConfig" where
  "ServerConfig_new i addr delay tm_size tc_size =
     \<lparr>cfg_id = i, cfg_addr = addr, cfg_inner_loop_delay = delay, tm_buffer_size = tm_size, tc_buffer_size = tc_size,
      reuse_addr = True, reuse_port = True\<rparr>"

datatype ('te, 'e) TcpTmtcError = TcpTmError 'te | TcpTcError 'e | TcpIo io_error

datatype ConnectionResult = AcceptTimeout | HandledConnections u32

record 'a HandledConnectionInfo =
  conn_addr :: 'a
  num_received_tcs :: u32
  num_sent_tms :: u32
  stopped_by_signal :: bool

definition HandledConnectionInfo_new :: "'a \<Rightarrow> 'a HandledConnectionInfo" where
  "HandledConnectionInfo_new addr =
     \<lparr>conn_addr = addr, num_received_tcs = 0, num_sent_tms = 0, stopped_by_signal = False\<rparr>"

text \<open>
  \<^verbatim>\<open>TcpTcParser::handle_tc_parsing\<close> gets the buffer, the packet sender and the two write indices and
  changes the buffer, the connection info, the next write index and what the sender delivers into.
  \<^verbatim>\<open>TcpTmSender::handle_tm_sending\<close> gets the buffer, the telemetry source and the stream. A call that does
  not return has no result.
\<close>

type_synonym ('a, 's, 'te, 'e) TcpTcParser =
  "bytes \<Rightarrow> ComponentId \<Rightarrow> ('s, 'e) PacketSenderRaw \<Rightarrow> 'a HandledConnectionInfo \<Rightarrow> nat \<Rightarrow> nat \<Rightarrow> 's \<Rightarrow>
   ((('te, 'e) TcpTmtcError, unit) res \<times> bytes \<times> 'a HandledConnectionInfo \<times> nat \<times> 's) option"

type_synonym ('src, 'te) PacketSource = "'src \<Rightarrow> bytes \<Rightarrow> ('te, nat) res \<times> bytes \<times> 'src"

type_synonym ('tmh, 'src, 'a, 'st, 'te, 'e) TcpTmSender =
  "'tmh \<Rightarrow> bytes \<Rightarrow> 'src \<Rightarrow> 'a HandledConnectionInfo \<Rightarrow> 'st \<Rightarrow>
   ((('te, 'e) TcpTmtcError, bool) res \<times> 'tmh \<times> bytes \<times> 'src \<times> 'a HandledConnectionInfo \<times> 'st) option"

text \<open>
  The stream: \<^verbatim>\<open>read\<close> into a buffer with some space yields the bytes it put at the start of it.
\<close>

record 'st TcpStream =
  tcp_read :: "'st \<Rightarrow> nat \<Rightarrow> (io_error, bytes) res \<times> 'st"
  tcp_write_all :: "'st \<Rightarrow> bytes \<Rightarrow> (io_error, unit) res \<times> 'st"

subsection \<open>Space packets\<close>

definition sp_handle_tc_parsing ::
    "'h SpHeaderOps \<Rightarrow> ('h \<Rightarrow> bytes \<Rightarrow> SpValidity) \<Rightarrow> ('a, 's, 'te, 'e) TcpTcParser" where
  "sp_handle_tc_parsing sph validate tc_buffer sender_id tc_sender conn_result current_write_idx next_write_idx s =
     (case (slice 0 current_write_idx tc_buffer :: (unit, bytes) res) of
        Ok window \<Rightarrow>
          (case parse_buffer_for_ccsds_space_packets sph window validate sender_id tc_sender s of
             None \<Rightarrow> None
           | Some (Err e, s') \<Rightarrow> Some (Err (TcpTcError e), tc_buffer, conn_result, next_write_idx, s')
           | Some (Panic, s') \<Rightarrow> Some (Panic, tc_buffer, conn_result, next_write_idx, s')
           | Some (Ok parse_result, s') \<Rightarrow>
               (let conn_result' = conn_result\<lparr>num_received_tcs := num_received_tcs conn_result + packets_found parse_result\<rparr>
                in case incomplete_tail_start parse_result of
                     None \<Rightarrow> Some (Ok (), tc_buffer, conn_result', next_write_idx, s')
                   | Some broken_tail_start \<Rightarrow>
                       (case (slice broken_tail_start current_write_idx tc_buffer :: (unit, bytes) res) of
                          Ok tail \<Rightarrow>
                            Some (Ok (), overwrite 0 tail tc_buffer, conn_result', current_write_idx - broken_tail_start, s')
                        | _ \<Rightarrow> Some (Panic, tc_buffer, conn_result, next_write_idx, s'))))
      | _ \<Rightarrow> Some (Panic, tc_buffer, conn_result, next_write_idx, s))"

partial_function (option) sp_tm_loop ::
    "'st TcpStream \<Rightarrow> ('src, 'te) PacketSource \<Rightarrow> bool \<Rightarrow> unit \<Rightarrow> bytes \<Rightarrow> 'src \<Rightarrow> 'a HandledConnectionInfo \<Rightarrow> 'st \<Rightarrow>
     ((('te, 'e) TcpTmtcError, bool) res \<times> unit \<times> bytes \<times> 'src \<times> 'a HandledConnectionInfo \<times> 'st) option" where
  "sp_tm_loop stream retrieve_packet tm_was_sent h tm_buffer tm_source conn_result st =
     (case retrieve_packet tm_source tm_buffer of
        (Err e, buf, src) \<Rightarrow> Some (Err (TcpTmError e), h, buf, src, conn_result, st)
      | (Panic, buf, src) \<Rightarrow> Some (Panic, h, buf, src, conn_result, st)
      | (Ok read_tm_len, buf, src) \<Rightarrow>
          if read_tm_len = 0 then Some (Ok tm_was_sent, h, buf, src, conn_result, st)
          else
            (case (slice 0 read_tm_len buf :: (unit, bytes) res) of
               Ok tm \<Rightarrow>
                 (case tcp_write_all stream st tm of
                    (Ok _, st') \<Rightarrow>
                      sp_tm_loop stream retrieve_packet True h buf src
                        (conn_result\<lparr>num_sent_tms := num_sent_tms conn_result + 1\<rparr>) st'
                  | (Err e, st') \<Rightarrow>
                      Some (Err (TcpIo e), h, buf, src, conn_result\<lparr>num_sent_tms := num_sent_tms conn_result + 1\<rparr>, st')
                  | (Panic, st') \<Rightarrow>
                      Some (Panic, h, buf, src, conn_result\<lparr>num_sent_tms := num_sent_tms conn_result + 1\<rparr>, st'))
             | _ \<Rightarrow> Some (Panic, h, buf, src, conn_result\<lparr>num_sent_tms := num_sent_tms conn_result + 1\<rparr>, st)))"

definition SpacepacketsTmSender_handle_tm_sending ::
    "'st TcpStream \<Rightarrow> ('src, 'te) PacketSource \<Rightarrow> (unit, 'src, 'a, 'st, 'te, 'e) TcpTmSender" where
  "SpacepacketsTmSender_handle_tm_sending stream retrieve_packet = sp_tm_loop stream retrieve_packet False"

subsection \<open>COBS frames\<close>

definition CobsTcParser_handle_tc_parsing :: "Cobs \<Rightarrow> ('a, 's, 'te, 'e) TcpTcParser" where
  "CobsTcParser_handle_tc_parsing cb tc_buffer sender_id tc_sender conn_result current_write_idx next_write_idx s =
     (case (slice 0 current_write_idx tc_buffer :: (unit, bytes) res) of
        Ok window \<Rightarrow>
          (let (r, window', next', s') = parse_buffer_for_cobs_encoded_packets cb window sender_id tc_sender next_write_idx s;
               tc_buffer' = overwrite 0 window' tc_buffer
           in case r of
                Ok n \<Rightarrow> Some (Ok (), tc_buffer', conn_result\<lparr>num_received_tcs := num_received_tcs conn_result + n\<rparr>, next', s')
              | Err e \<Rightarrow> Some (Err (TcpTcError e), tc_buffer', conn_result, next', s')
              | Panic \<Rightarrow> Some (Panic, tc_buffer', conn_result, next', s'))
      | _ \<Rightarrow> Some (Panic, tc_buffer, conn_result, next_write_idx, s))"

text \<open>The state of \<^verbatim>\<open>CobsTmSender\<close> is its encoding buffer.\<close>

definition CobsTmSender_new :: "Cobs \<Rightarrow> nat \<Rightarrow> bytes" where
  "CobsTmSender_new cb tm_buf_size = replicate (max_encoding_length cb tm_buf_size) 0"

text \<open>The frame of one telemetry packet in the encoding buffer; indexing behind its end panics.\<close>

definition cobs_tm_frame :: "Cobs \<Rightarrow> bytes \<Rightarrow> bytes \<Rightarrow> (unit, bytes) res \<times> bytes" where
  "cobs_tm_frame cb tm enc_buf =
     (if enc_buf = [] then (Panic, enc_buf)
      else
        let b0 = enc_buf[0 := 0]; (r, w) = cobs_encode cb tm (drop 1 b0); b1 = overwrite 1 w b0
        in res_try r b1 (\<lambda>n.
             if 1 + n < length b1
             then let b2 = b1[1 + n := 0] in (slice 0 (1 + n + 1) b2, b2)
             else (Panic, b1)))"

partial_function (option) cobs_tm_loop ::
    "Cobs \<Rightarrow> 'st TcpStream \<Rightarrow> ('src, 'te) PacketSource \<Rightarrow> bool \<Rightarrow> bytes \<Rightarrow> bytes \<Rightarrow> 'src \<Rightarrow> 'a HandledConnectionInfo \<Rightarrow> 'st \<Rightarrow>
     ((('te, 'e) TcpTmtcError, bool) res \<times> bytes \<times> bytes \<times> 'src \<times> 'a HandledConnectionInfo \<times> 'st) option" where
  "cobs_tm_loop cb stream retrieve_packet tm_was_sent enc_buf tm_buffer tm_source conn_result st =
     (case retrieve_packet tm_source tm_buffer of
        (Err e, buf, src) \<Rightarrow> Some (Err (TcpTmError e), enc_buf, buf, src, conn_result, st)
      | (Panic, buf, src) \<Rightarrow> Some (Panic, enc_buf, buf, src, conn_result, st)
      | (Ok read_tm_len, buf, src) \<Rightarrow>
          if read_tm_len = 0 then Some (Ok tm_was_sent, enc_buf, buf, src, conn_result, st)
          else
            (case (res_bind (slice 0 read_tm_len buf) (\<lambda>tm. Ok (cobs_tm_frame cb tm enc_buf)) :: (unit, (unit, bytes) res \<times> bytes) res) of
               Ok (Ok frame, enc_buf') \<Rightarrow>
                 (case tcp_write_all stream st frame of
                    (Ok _, st') \<Rightarrow>
                      cobs_tm_loop cb stream retrieve_packet True enc_buf' buf src
                        (conn_result\<lparr>num_sent_tms := num_sent_tms conn_result + 1\<rparr>) st'
                  | (Err e, st') \<Rightarrow>
                      Some (Err (TcpIo e), enc_buf', buf, src, conn_result\<lparr>num_sent_tms := num_sent_tms conn_result + 1\<rparr>, st')
                  | (Panic, st') \<Rightarrow>
                      Some (Panic, enc_buf', buf, src, conn_result\<lparr>num_sent_tms := num_sent_tms conn_result + 1\<rparr>, st'))
             | Ok (_, enc_buf') \<Rightarrow> Some (Panic, enc_buf', buf, src, conn_result\<lparr>num_sent_tms := num_sent_tms conn_result + 1\<rparr>, st)
             | _ \<Rightarrow> Some (Panic, enc_buf, buf, src, conn_result\<lparr>num_sent_tms := num_sent_tms conn_result + 1\<rparr>, st)))"

definition CobsTmSender_handle_tm_sending ::
    "Cobs \<Rightarrow> 'st TcpStream \<Rightarrow> ('src, 'te) PacketSource \<Rightarrow> (bytes, 'src, 'a, 'st, 'te, 'e) TcpTmSender" where
  "CobsTmSender_handle_tm_sending cb stream retrieve_packet = cobs_tm_loop cb stream retrieve_packet False"

subsection \<open>The generic server\<close>

record ('fh, 'src, 's, 'tmh) TcpTmtcGenericServer =
  srv_id :: ComponentId
  finished_handler :: 'fh
  srv_tm_source :: 'src
  srv_tm_buffer :: bytes
  srv_tc_sender :: 's
  srv_tc_buffer :: bytes
  srv_tm_handler :: 'tmh

text \<open>
  What the server calls: the packet sender, the parser, the telemetry sender, the handler of finished
  connections, and the stop signal as it is read after an idle turn of the connection.
\<close>

record ('fh, 'src, 's, 'tmh, 'a, 'st, 'te, 'e) TcpEnv =
  tcp_stream :: "'st TcpStream"
  tcp_send :: "('s, 'e) PacketSenderRaw"
  tcp_parser :: "('a, 's, 'te, 'e) TcpTcParser"
  tcp_tm_sender :: "('tmh, 'src, 'a, 'st, 'te, 'e) TcpTmSender"
  tcp_finished :: "'fh \<Rightarrow> 'a HandledConnectionInfo \<Rightarrow> 'fh"
  tcp_stop_signal :: "('st \<Rightarrow> bool) option"

definition TcpTmtcGenericServer_new ::
    "'a ServerConfig \<Rightarrow> 'tmh \<Rightarrow> 'src \<Rightarrow> 's \<Rightarrow> 'fh \<Rightarrow> ('fh, 'src, 's, 'tmh) TcpTmtcGenericServer" where
  "TcpTmtcGenericServer_new cfg tm_sender tm_source tc_receiver finished =
     \<lparr>srv_id = cfg_id cfg, finished_handler = finished, srv_tm_source = tm_source,
      srv_tm_buffer = replicate (tm_buffer_size cfg) 0, srv_tc_sender = tc_receiver,
      srv_tc_buffer = replicate (tc_buffer_size cfg) 0, srv_tm_handler = tm_sender\<rparr>"

definition server_parse ::
    "('fh, 'src, 's, 'tmh, 'a, 'st, 'te, 'e) TcpEnv \<Rightarrow> ('fh, 'src, 's, 'tmh) TcpTmtcGenericServer \<Rightarrow>
     'a HandledConnectionInfo \<Rightarrow> nat \<Rightarrow> nat \<Rightarrow>
     ((('te, 'e) TcpTmtcError, unit) res \<times> ('fh, 'src, 's, 'tmh) TcpTmtcGenericServer \<times> 'a HandledConnectionInfo \<times> nat) option" where
  "server_parse env k info current_write_idx next_write_idx =
     map_option (\<lambda>(r, buf, info', next', s). (r, k\<lparr>srv_tc_buffer := buf, srv_tc_sender := s\<rparr>, info', next'))
       (tcp_parser env (srv_tc_buffer k) (srv_id k) (tcp_send env) info current_write_idx next_write_idx (srv_tc_sender k))"

definition server_send_tm ::
    "('fh, 'src, 's, 'tmh, 'a, 'st, 'te, 'e) TcpEnv \<Rightarrow> ('fh, 'src, 's, 'tmh) TcpTmtcGenericServer \<Rightarrow>
     'a HandledConnectionInfo \<Rightarrow> 'st \<Rightarrow>
     ((('te, 'e) TcpTmtcError, bool) res \<times> ('fh, 'src, 's, 'tmh) TcpTmtcGenericServer \<times> 'a HandledConnectionInfo \<times> 'st) option" where
  "server_send_tm env k info st =
     map_option (\<lambda>(r, h, buf, src, info', st').
         (r, k\<lparr>srv_tm_handler := h, srv_tm_buffer := buf, srv_tm_source := src\<rparr>, info', st'))
       (tcp_tm_sender env (srv_tm_handler k) (srv_tm_buffer k) (srv_tm_source k) info st)"

text \<open>
  The loop over the reads. Its value tells whether it ended by the stop signal. The capacity of the
  telecommand buffer, which is never resized, is its length.
\<close>

partial_function (option) connection_loop ::
    "('fh, 'src, 's, 'tmh, 'a, 'st, 'te, 'e) TcpEnv \<Rightarrow> ('fh, 'src, 's, 'tmh) TcpTmtcGenericServer \<Rightarrow> 'st \<Rightarrow>
     'a HandledConnectionInfo \<Rightarrow> nat \<Rightarrow> nat \<Rightarrow>
     ((('te, 'e) TcpTmtcError, bool) res \<times> ('fh, 'src, 's, 'tmh) TcpTmtcGenericServer \<times> 'st \<times> 'a HandledConnectionInfo) option" where
  "connection_loop env k st info current_write_idx next_write_idx =
     (if length (srv_tc_buffer k) < current_write_idx then Some (Panic, k, st, info)
      else
        (case tcp_read (tcp_stream env) st (length (srv_tc_buffer k) - current_write_idx) of
           (Ok d, st1) \<Rightarrow>
             if d = [] then
               if current_write_idx > 0 then
                 (case server_parse env k info current_write_idx next_write_idx of
                    None \<Rightarrow> None
                  | Some (Ok _, k1, info1, next1) \<Rightarrow> Some (Ok False, k1, st1, info1)
                  | Some (Err e, k1, info1, next1) \<Rightarrow> Some (Err e, k1, st1, info1)
                  | Some (Panic, k1, info1, next1) \<Rightarrow> Some (Panic, k1, st1, info1))
               else Some (Ok False, k, st1, info)
             else if current_write_idx + length d = length (srv_tc_buffer k) then
               (case server_parse env (k\<lparr>srv_tc_buffer := overwrite current_write_idx d (srv_tc_buffer k)\<rparr>) info
                       (current_write_idx + length d) next_write_idx of
                  None \<Rightarrow> None
                | Some (Ok _, k1, info1, next1) \<Rightarrow> connection_loop env k1 st1 info1 next1 next1
                | Some (Err e, k1, info1, next1) \<Rightarrow> Some (Err e, k1, st1, info1)
                | Some (Panic, k1, info1, next1) \<Rightarrow> Some (Panic, k1, st1, info1))
             else connection_loop env (k\<lparr>srv_tc_buffer := overwrite current_write_idx d (srv_tc_buffer k)\<rparr>) st1 info
                    (current_write_idx + length d) next_write_idx
         | (Panic, st1) \<Rightarrow> Some (Panic, k, st1, info)
         | (Err (IoOther n), st1) \<Rightarrow> Some (Err (TcpIo (IoOther n)), k, st1, info)
         | (Err _, st1) \<Rightarrow>
             (case server_parse env k info current_write_idx next_write_idx of
                None \<Rightarrow> None
              | Some (Err e, k1, info1, next1) \<Rightarrow> Some (Err e, k1, st1, info1)
              | Some (Panic, k1, info1, next1) \<Rightarrow> Some (Panic, k1, st1, info1)
              | Some (Ok _, k1, info1, next1) \<Rightarrow>
                  (case server_send_tm env k1 info1 st1 of
                     None \<Rightarrow> None
                   | Some (Err e, k2, info2, st2) \<Rightarrow> Some (Err e, k2, st2, info2)
                   | Some (Panic, k2, info2, st2) \<Rightarrow> Some (Panic, k2, st2, info2)
                   | Some (Ok tm_sent, k2, info2, st2) \<Rightarrow>
                       if \<not> tm_sent \<and> (case tcp_stop_signal env of Some load \<Rightarrow> load st2 | None \<Rightarrow> False)
                       then Some (Ok True, k2, st2, info2\<lparr>stopped_by_signal := True\<rparr>)
                       else connection_loop env k2 st2 info2 next1 next1))))"

definition handle_accepted_connection ::
    "('fh, 'src, 's, 'tmh, 'a, 'st, 'te, 'e) TcpEnv \<Rightarrow> ('fh, 'src, 's, 'tmh) TcpTmtcGenericServer \<Rightarrow> 'st \<Rightarrow> 'a \<Rightarrow>
     ((('te, 'e) TcpTmtcError, unit) res \<times> ('fh, 'src, 's, 'tmh) TcpTmtcGenericServer \<times> 'st) option" where
  "handle_accepted_connection env k st addr =
     (case connection_loop env k st (HandledConnectionInfo_new addr) 0 0 of
        None \<Rightarrow> None
      | Some (Err e, k1, st1, info1) \<Rightarrow> Some (Err e, k1, st1)
      | Some (Panic, k1, st1, info1) \<Rightarrow> Some (Panic, k1, st1)
      | Some (Ok stopped, k1, st1, info1) \<Rightarrow>
          if stopped then Some (Ok (), k1\<lparr>finished_handler := tcp_finished env (finished_handler k1) info1\<rparr>, st1)
          else
            (case server_send_tm env k1 info1 st1 of
               None \<Rightarrow> None
             | Some (Err e, k2, info2, st2) \<Rightarrow> Some (Err e, k2, st2)
             | Some (Panic, k2, info2, st2) \<Rightarrow> Some (Panic, k2, st2)
             | Some (Ok _, k2, info2, st2) \<Rightarrow>
                 Some (Ok (), k2\<lparr>finished_handler := tcp_finished env (finished_handler k2) info2\<rparr>, st2)))"

text \<open>
  The listener: a poll yields the tokens of its events, an accept a stream and the address of the client.
\<close>

record ('n, 'st, 'a) TcpListener =
  mio_poll :: "'n \<Rightarrow> (io_error, nat list) res \<times> 'n"
  mio_accept :: "'n \<Rightarrow> (io_error, 'st \<times> 'a) res \<times> 'n"
  mio_reregister :: "'n \<Rightarrow> (io_error, unit) res \<times> 'n"

text \<open>The error of the reregistration replaces the error that led to it.\<close>

definition reregister_then ::
    "('n, 'st, 'a) TcpListener \<Rightarrow> ('te, 'e) TcpTmtcError \<Rightarrow> ('fh, 'src, 's, 'tmh) TcpTmtcGenericServer \<Rightarrow> 'n \<Rightarrow>
     (('te, 'e) TcpTmtcError, u32) res \<times> ('fh, 'src, 's, 'tmh) TcpTmtcGenericServer \<times> 'n" where
  "reregister_then l e k n =
     (case mio_reregister l n of
        (Ok _, n') \<Rightarrow> (Err e, k, n')
      | (Err e', n') \<Rightarrow> (Err (TcpIo e'), k, n')
      | (Panic, n') \<Rightarrow> (Panic, k, n'))"

partial_function (option) accept_loop ::
    "('n, 'st, 'a) TcpListener \<Rightarrow> ('fh, 'src, 's, 'tmh, 'a, 'st, 'te, 'e) TcpEnv \<Rightarrow>
     ('fh, 'src, 's, 'tmh) TcpTmtcGenericServer \<Rightarrow> 'n \<Rightarrow> u32 \<Rightarrow>
     ((('te, 'e) TcpTmtcError, u32) res \<times> ('fh, 'src, 's, 'tmh) TcpTmtcGenericServer \<times> 'n) option" where
  "accept_loop l env k n handled_connections =
     (case mio_accept l n of
        (Ok (stream, addr), n1) \<Rightarrow>
          (case handle_accepted_connection env k stream addr of
             None \<Rightarrow> None
           | Some (Ok _, k1, st1) \<Rightarrow> accept_loop l env k1 n1 (handled_connections + 1)
           | Some (Err e, k1, st1) \<Rightarrow> Some (reregister_then l e k1 n1)
           | Some (Panic, k1, st1) \<Rightarrow> Some (Panic, k1, n1))
      | (Err IoWouldBlock, n1) \<Rightarrow> Some (Ok handled_connections, k, n1)
      | (Err e, n1) \<Rightarrow> Some (reregister_then l (TcpIo e) k n1)
      | (Panic, n1) \<Rightarrow> Some (Panic, k, n1))"

definition handle_all_connections ::
    "('n, 'st, 'a) TcpListener \<Rightarrow> ('fh, 'src, 's, 'tmh, 'a, 'st, 'te, 'e) TcpEnv \<Rightarrow>
     ('fh, 'src, 's, 'tmh) TcpTmtcGenericServer \<Rightarrow> 'n \<Rightarrow>
     ((('te, 'e) TcpTmtcError, ConnectionResult) res \<times> ('fh, 'src, 's, 'tmh) TcpTmtcGenericServer \<times> 'n) option" where
  "handle_all_connections l env k n =
     (case mio_poll l n of
        (Err e, n1) \<Rightarrow> Some (Err (TcpIo e), k, n1)
      | (Panic, n1) \<Rightarrow> Some (Panic, k, n1)
      | (Ok tokens, n1) \<Rightarrow>
          if \<exists>t\<in>set tokens. t \<noteq> 0 then Some (Panic, k, n1)
          else
            map_option (\<lambda>(r, k2, n2). (res_map (\<lambda>c. if c > 0 then HandledConnections c else AcceptTimeout) r, k2, n2))
              (if tokens \<noteq> [] then accept_loop l env k n1 0 else Some (Ok 0, k, n1)))"

subsection \<open>The UDP server\<close>

datatype 'e ReceiveResult = NothingReceived | ReceiveIo io_error | ReceiveSend 'e

record ('a, 's) UdpTcServer =
  udp_id :: ComponentId
  recv_buf :: bytes
  sender_addr :: "'a option"
  udp_tc_sender :: 's

definition UdpTcServer_new :: "ComponentId \<Rightarrow> nat \<Rightarrow> 's \<Rightarrow> ('a, 's) UdpTcServer" where
  "UdpTcServer_new i max_recv_size tc_sender =
     \<lparr>udp_id = i, recv_buf = replicate max_recv_size 0, sender_addr = None, udp_tc_sender = tc_sender\<rparr>"

text \<open>\<^verbatim>\<open>socket.recv_from\<close> fills the buffer and yields the number of bytes and the address of the client.\<close>

definition UdpTcServer_try_recv_tc ::
    "('n \<Rightarrow> bytes \<Rightarrow> (io_error, nat \<times> 'a) res \<times> bytes \<times> 'n) \<Rightarrow> ('s, 'e) PacketSenderRaw \<Rightarrow> ('a, 's) UdpTcServer \<times> 'n \<Rightarrow>
     ('e ReceiveResult, nat \<times> 'a) res \<times> ('a, 's) UdpTcServer \<times> 'n" where
  "UdpTcServer_try_recv_tc recv_from send_packet = (\<lambda>(u, n).
     (case recv_from n (recv_buf u) of
        (Ok (num_bytes, sender), buf, n') \<Rightarrow>
          (let u1 = u\<lparr>recv_buf := buf, sender_addr := Some sender\<rparr>
           in res_try (slice 0 num_bytes buf) (u1, n') (\<lambda>packet.
                let (r, s) = send_packet (udp_tc_sender u1) (udp_id u1) packet; u2 = u1\<lparr>udp_tc_sender := s\<rparr>
                in res_try (res_map_err ReceiveSend r) (u2, n') (\<lambda>_. (Ok (num_bytes, sender), u2, n'))))
      | (Err (IoOther k), buf, n') \<Rightarrow> (Err (ReceiveIo (IoOther k)), u\<lparr>recv_buf := buf\<rparr>, n')
      | (Err _, buf, n') \<Rightarrow> (Err NothingReceived, u\<lparr>recv_buf := buf\<rparr>, n')
      | (Panic, buf, n') \<Rightarrow> (Panic, u\<lparr>recv_buf := buf\<rparr>, n')))"

definition UdpTcServer_last_sender :: "('a, 's) UdpTcServer \<Rightarrow> 'a option" where
  "UdpTcServer_last_sender u = sender_addr u"

subsection \<open>Connections\<close>

text \<open>
  A connection as the stream shows it: chunks of bytes, and moments without data in between; when nothing
  is pending the client has closed the connection. Written bytes are collected.
\<close>

datatype tcp_event = TcpData bytes | TcpBlock

definition stream_ok :: "'st TcpStream \<Rightarrow> ('st \<Rightarrow> tcp_event list) \<Rightarrow> ('st \<Rightarrow> bytes) \<Rightarrow> bool" where
  "stream_ok stream pending written \<longleftrightarrow>
     (\<forall>st n d es. pending st = TcpData d # es \<longrightarrow> d \<noteq> [] \<longrightarrow> length d \<le> n \<longrightarrow>
        (\<exists>st'. tcp_read stream st n = (Ok d, st') \<and> pending st' = es \<and> written st' = written st)) \<and>
     (\<forall>st n es. pending st = TcpBlock # es \<longrightarrow>
        (\<exists>st'. tcp_read stream st n = (Err IoWouldBlock, st') \<and> pending st' = es \<and> written st' = written st)) \<and>
     (\<forall>st n. pending st = [] \<longrightarrow>
        (\<exists>st'. tcp_read stream st n = (Ok [], st') \<and> pending st' = [] \<and> written st' = written st)) \<and>
     (\<forall>st d. \<exists>st'. tcp_write_all stream st d = (Ok (), st') \<and> pending st' = pending st \<and> written st' = written st @ d)"

lemma overwrite_overwrite:
  "n + length a + length b \<le> length xs \<Longrightarrow> overwrite (n + length a) b (overwrite n a xs) = overwrite n (a @ b) xs"
  by (simp add: overwrite_def add_ac)

lemma read_chunk:
  assumes "stream_ok (tcp_stream env) pending written" "pending st = TcpData d # es" "d \<noteq> []"
    and "cur + length d < length (srv_tc_buffer k)"
  shows "\<exists>st'. pending st' = es \<and> written st' = written st \<and>
    connection_loop env k st info cur nxt =
      connection_loop env (k\<lparr>srv_tc_buffer := overwrite cur d (srv_tc_buffer k)\<rparr>) st' info (cur + length d) nxt"
proof -
  have "length d \<le> length (srv_tc_buffer k) - cur" using assms(4) by simp
  then obtain st' where "tcp_read (tcp_stream env) st (length (srv_tc_buffer k) - cur) = (Ok d, st')"
      "pending st' = es" "written st' = written st"
    using assms(1-3) unfolding stream_ok_def by meson
  then show ?thesis using assms(3,4) by (intro exI [of _ st']) (simp add: connection_loop.simps [of env k st])
qed

lemma read_chunks:
  assumes "stream_ok (tcp_stream env) pending written" "pending st = map TcpData ds @ es" "[] \<notin> set ds"
    and "cur + length (concat ds) < length (srv_tc_buffer k)"
  shows "\<exists>st'. pending st' = es \<and> written st' = written st \<and>
    connection_loop env k st info cur nxt =
      connection_loop env (k\<lparr>srv_tc_buffer := overwrite cur (concat ds) (srv_tc_buffer k)\<rparr>) st' info (cur + length (concat ds)) nxt"
  using assms(2-)
proof (induction ds arbitrary: k st cur)
  case Nil
  then show ?case by (intro exI [of _ st]) (simp add: overwrite_def)
next
  case (Cons d ds)
  obtain st1 where st1: "pending st1 = map TcpData ds @ es" "written st1 = written st"
      "connection_loop env k st info cur nxt =
        connection_loop env (k\<lparr>srv_tc_buffer := overwrite cur d (srv_tc_buffer k)\<rparr>) st1 info (cur + length d) nxt"
    using read_chunk [OF assms(1), of st d "map TcpData ds @ es" cur k info nxt] Cons.prems by fastforce
  let ?k = "k\<lparr>srv_tc_buffer := overwrite cur d (srv_tc_buffer k)\<rparr>"
  have fit: "cur + length d + length (concat ds) < length (srv_tc_buffer ?k)" "[] \<notin> set ds"
    using Cons.prems by (simp_all add: add_ac)
  show ?case using Cons.IH [OF st1(1) fit(2) fit(1)] st1 overwrite_overwrite [of cur d "concat ds" "srv_tc_buffer k"] Cons.prems
    by (simp add: add_ac)
qed

lemma block_step:
  assumes "stream_ok (tcp_stream env) pending written" "pending st = TcpBlock # es" "tcp_stop_signal env = None"
    and "cur \<le> length (srv_tc_buffer k)" "server_parse env k info cur nxt = Some (Ok (), k1, info1, nxt1)"
  shows "\<exists>st1. pending st1 = es \<and> written st1 = written st \<and>
    (\<forall>b k2 info2 st2. server_send_tm env k1 info1 st1 = Some (Ok b, k2, info2, st2) \<longrightarrow>
      connection_loop env k st info cur nxt = connection_loop env k2 st2 info2 nxt1 nxt1)"
proof -
  obtain st1 where "tcp_read (tcp_stream env) st (length (srv_tc_buffer k) - cur) = (Err IoWouldBlock, st1)"
      "pending st1 = es" "written st1 = written st"
    using assms(1,2) unfolding stream_ok_def by meson
  then show ?thesis using assms(3-) by (intro exI [of _ st1]) (simp add: connection_loop.simps [of env k st])
qed

lemma close_step:
  assumes "stream_ok (tcp_stream env) pending written" "pending st = []"
  shows "\<exists>st1. pending st1 = [] \<and> written st1 = written st \<and>
    connection_loop env k st info 0 nxt = Some (Ok False, k, st1, info)"
proof -
  obtain st1 where "tcp_read (tcp_stream env) st (length (srv_tc_buffer k)) = (Ok [], st1)"
      "pending st1 = []" "written st1 = written st"
    using assms unfolding stream_ok_def by meson
  then show ?thesis by (intro exI [of _ st1]) (simp add: connection_loop.simps [of env k st])
qed

subsection \<open>Parsers\<close>

text \<open>
  The contract of a parser on a buffer that holds whole frames: every packet is sent and counted, and the
  write index is left alone.
\<close>

locale tc_parser =
  fixes parse :: "('a, 's, 'te, 'e) TcpTcParser"
    and frame :: "bytes \<Rightarrow> bytes"
    and packet_ok :: "bytes \<Rightarrow> bool"
  assumes whole: "\<forall>p\<in>set ps. packet_ok p \<Longrightarrow> cur \<le> length buf \<Longrightarrow> take cur buf = concat (map frame ps) \<Longrightarrow>
    send_all send i s ps = (Ok (), s') \<Longrightarrow>
    \<exists>buf'. parse buf i send info cur nxt s =
      Some (Ok (), buf', info\<lparr>num_received_tcs := num_received_tcs info + of_nat (length ps)\<rparr>, nxt, s') \<and>
      length buf' = length buf"
begin

lemma burst_parsed:
  assumes "stream_ok (tcp_stream env) pending written" "tcp_parser env = parse" "tcp_stop_signal env = None"
    and "pending st = map TcpData ds @ TcpBlock # es" "[] \<notin> set ds" "concat ds = concat (map frame ps)"
    and "length (concat ds) < length (srv_tc_buffer k)" "\<forall>p\<in>set ps. packet_ok p"
    and "send_all (tcp_send env) (srv_id k) (srv_tc_sender k) ps = (Ok (), s')"
  obtains buf st1 info1 where "length buf = length (srv_tc_buffer k)" "pending st1 = es" "written st1 = written st"
    "info1 = info\<lparr>num_received_tcs := num_received_tcs info + of_nat (length ps)\<rparr>"
    "\<And>b k2 info2 st2. server_send_tm env (k\<lparr>srv_tc_buffer := buf, srv_tc_sender := s'\<rparr>) info1 st1 = Some (Ok b, k2, info2, st2) \<Longrightarrow>
      connection_loop env k st info 0 nxt = connection_loop env k2 st2 info2 nxt nxt"
proof -
  let ?n = "length (concat ds)"
  let ?k = "k\<lparr>srv_tc_buffer := overwrite 0 (concat ds) (srv_tc_buffer k)\<rparr>"
  let ?info = "info\<lparr>num_received_tcs := num_received_tcs info + of_nat (length ps)\<rparr>"
  obtain st0 where st0: "pending st0 = TcpBlock # es" "written st0 = written st"
      "connection_loop env k st info 0 nxt = connection_loop env ?k st0 info ?n nxt"
    using read_chunks [OF assms(1,4,5), of 0 k info nxt] assms(7) by auto
  have len: "length (srv_tc_buffer ?k) = length (srv_tc_buffer k)" using assms(7) by (simp add: overwrite_def)
  obtain buf where buf: "parse (srv_tc_buffer ?k) (srv_id k) (tcp_send env) info ?n nxt (srv_tc_sender k) =
      Some (Ok (), buf, ?info, nxt, s')" "length buf = length (srv_tc_buffer k)"
    using whole [OF assms(8) _ _ assms(9), of ?n "srv_tc_buffer ?k" info nxt] assms(6,7) len by (auto simp: overwrite_def)
  have p: "server_parse env ?k info ?n nxt = Some (Ok (), k\<lparr>srv_tc_buffer := buf, srv_tc_sender := s'\<rparr>, ?info, nxt)"
    using buf(1) by (simp add: server_parse_def assms(2))
  have n: "?n \<le> length (srv_tc_buffer ?k)" using assms(7) len by simp
  obtain st1 where st1: "pending st1 = es" "written st1 = written st0"
      "\<forall>b k2 info2 st2. server_send_tm env (k\<lparr>srv_tc_buffer := buf, srv_tc_sender := s'\<rparr>) ?info st1 = Some (Ok b, k2, info2, st2) \<longrightarrow>
      connection_loop env ?k st0 info ?n nxt = connection_loop env k2 st2 info2 nxt nxt"
    using block_step [OF assms(1) st0(1) assms(3) n p] by blast
  show thesis by (rule that [OF buf(2) st1(1) _ refl]) (use st0 st1(2,3) in auto)
qed

end

interpretation sp_parser: tc_parser "sp_handle_tc_parsing sph validate" "\<lambda>p. p" "valid_packet sph validate" for sph validate
proof (unfold_locales, goal_cases)
  case (1 ps cur buf send i s s' info nxt)
  have "slice 0 cur buf = (Ok (concat ps) :: (unit, bytes) res)" using 1 by (simp add: slice_def)
  moreover have "parse_buffer_for_ccsds_space_packets sph (concat ps) validate i send s =
      Some (Ok \<lparr>packets_found = of_nat (length ps), incomplete_tail_start = None\<rparr>, s')"
    using ccsds_loop_packets [of ps sph validate "[]" i send "[]"] 1
    by (simp add: parse_buffer_for_ccsds_space_packets_def)
  ultimately show ?case by (simp add: sp_handle_tc_parsing_def)
qed

lemma cobs_parse_frames:
  assumes "\<forall>p\<in>set ps. cobs_ok cb enc \<and> p \<noteq> []" "send_all send i s ps = (Ok (), s')"
  shows "\<exists>buf. parse_buffer_for_cobs_encoded_packets cb (concat (map (cobs_frame enc) ps)) i send nxt s =
      (Ok (of_nat (length ps)), buf, nxt, s') \<and> length buf = length (concat (map (cobs_frame enc) ps))"
proof (cases ps)
  case Nil
  then show ?thesis using assms(2) by (simp add: parse_buffer_for_cobs_encoded_packets_def)
next
  case (Cons p qs)
  then have ok: "cobs_ok cb enc" "[] \<notin> set ps" using assms(1) by auto
  let ?st = "\<lparr>cs_buf = concat (map (cobs_frame enc) ps), start_index_packet = 0, start_found = False, cs_packets_found = 0, cs_sender = s\<rparr>"
  show ?thesis
    using cobs_loop_frames [OF ok, of ?st "[]" "[]" send i "Ok ()" s'] assms(2)
    by (auto simp: parse_buffer_for_cobs_encoded_packets_def)
qed

interpretation cobs_parser: tc_parser "CobsTcParser_handle_tc_parsing cb" "cobs_frame enc" "\<lambda>p. cobs_ok cb enc \<and> p \<noteq> []" for cb enc
proof (unfold_locales, goal_cases)
  case (1 ps cur buf send i s s' info nxt)
  have "slice 0 cur buf = (Ok (concat (map (cobs_frame enc) ps)) :: (unit, bytes) res)" using 1 by (simp add: slice_def)
  moreover have "length (concat (map (cobs_frame enc) ps)) \<le> length buf" using 1(2) arg_cong [OF 1(3), of length] by simp
  ultimately show ?case using cobs_parse_frames [OF 1(1,4), of nxt] by (auto simp: CobsTcParser_handle_tc_parsing_def overwrite_def)
qed

subsection \<open>Telemetry\<close>

text \<open>The contract of a telemetry source that is a queue of packets.\<close>

locale packet_source =
  fixes retrieve :: "('src, 'te) PacketSource"
    and queue :: "'src \<Rightarrow> bytes list"
    and usable :: "'src \<Rightarrow> bool"
  assumes exhausted: "usable src \<Longrightarrow> queue src = [] \<Longrightarrow> retrieve src buf = (Ok 0, buf, src)"
    and retrieved: "usable src \<Longrightarrow> queue src = p # q \<Longrightarrow> length p \<le> length buf \<Longrightarrow>
      \<exists>src'. retrieve src buf = (Ok (length p), overwrite 0 p buf, src') \<and> usable src' \<and> queue src' = q"
begin

lemma sp_drained:
  assumes "stream_ok stream pending written" "usable src" "\<forall>p\<in>set (queue src). p \<noteq> [] \<and> length p \<le> length buf"
  shows "\<exists>buf' src' st'. sp_tm_loop stream retrieve b h buf src info st =
      Some (Ok (b \<or> queue src \<noteq> []), h, buf', src', info\<lparr>num_sent_tms := num_sent_tms info + of_nat (length (queue src))\<rparr>, st') \<and>
    length buf' = length buf \<and> usable src' \<and> queue src' = [] \<and> pending st' = pending st \<and>
    written st' = written st @ concat (queue src)"
  using assms(2,3)
proof (induction "queue src" arbitrary: src b buf info st)
  case Nil
  then show ?case by (simp add: sp_tm_loop.simps [of stream] exhausted)
next
  case (Cons p q)
  have p: "p \<noteq> []" "length p \<le> length buf" using Cons.hyps(2) Cons.prems(2) by (metis list.set_intros(1))+
  obtain src1 where src1: "retrieve src buf = (Ok (length p), overwrite 0 p buf, src1)" "usable src1" "queue src1 = q"
    using retrieved [OF Cons.prems(1) Cons.hyps(2) [symmetric] p(2)] by blast
  obtain st1 where st1: "tcp_write_all stream st p = (Ok (), st1)" "pending st1 = pending st" "written st1 = written st @ p"
    using assms(1) unfolding stream_ok_def by meson
  have sl: "slice 0 (length p) (overwrite 0 p buf) = (Ok p :: (unit, bytes) res)" using p by (simp add: slice_def overwrite_def)
  have len: "length (overwrite 0 p buf) = length buf" using p by (simp add: overwrite_def)
  have q: "\<forall>p\<in>set (queue src1). p \<noteq> [] \<and> length p \<le> length (overwrite 0 p' buf)" if "p' = p" for p'
    using Cons.hyps(2) Cons.prems(2) src1(3) len that by (metis list.set_intros(2))
  show ?case
    using Cons.hyps(1) [OF src1(3) [symmetric] src1(2) q [OF refl], of True "info\<lparr>num_sent_tms := num_sent_tms info + 1\<rparr>" st1]
      Cons.hyps(2) [symmetric] src1 st1 p(1) len
    by (subst sp_tm_loop.simps) (simp add: sl add_ac)
qed

end

text \<open>A frame fits the encoding buffer when there is room for both sentinels.\<close>

lemma cobs_tm_frame_fits:
  assumes "cobs_ok cb enc" "tm \<noteq> []" "length (enc tm) + 2 \<le> length b"
  shows "\<exists>b'. cobs_tm_frame cb tm b = (Ok (cobs_frame enc tm), b') \<and> length b' = length b"
proof -
  obtain x y where b: "b = x # y" "length (enc tm) + 1 \<le> length y" using assms(3) by (cases b) auto
  have "cobs_encode cb tm y = (Ok (length (enc tm)), overwrite 0 (enc tm) y)"
    using assms(1,2) b(2) by (simp add: cobs_ok_def)
  moreover obtain z r where zr: "drop (length (enc tm)) y = z # r" using b(2) by (cases "drop (length (enc tm)) y") auto
  moreover have "length y = length (enc tm) + Suc (length r)" using arg_cong [OF zr, of length] b(2) by simp
  ultimately show ?thesis using b
    by (simp add: cobs_tm_frame_def overwrite_def slice_def cobs_frame_def list_update_append)
qed

text \<open>
  The encoding buffer has the length of the longest encoding and no room for the sentinels: a telemetry
  packet of the size of the telemetry buffer with the longest encoding panics the server.
\<close>

lemma cobs_tm_frame_full:
  assumes "\<And>b. length b < length (enc tm) \<Longrightarrow> fst (cobs_encode cb tm b) = Panic"
    and "enc tm \<noteq> []" "length (enc tm) = max_encoding_length cb (length tm)"
  shows "fst (cobs_tm_frame cb tm (CobsTmSender_new cb (length tm))) = Panic"
proof -
  let ?b = "replicate (length (enc tm)) (0 :: u8)"
  have "fst (cobs_encode cb tm (drop 1 (?b[0 := 0]))) = Panic" using assms(1) [of "drop 1 (?b[0 := 0])"] assms(2) by simp
  then show ?thesis using assms(2,3)
    by (cases "cobs_encode cb tm (drop 1 (?b[0 := 0]))") (simp add: cobs_tm_frame_def CobsTmSender_new_def Let_def)
qed

subsection \<open>Packets that are split\<close>

lemma sp_parse_rest:
  assumes "\<forall>p\<in>set ps. valid_packet sph validate p" "length rem < 7 \<or> incomplete_packet sph validate rem"
    and "cur \<le> length buf" "take cur buf = concat ps @ rem" "send_all send i s ps = (Ok (), s')"
  shows "sp_handle_tc_parsing sph validate buf i send info cur nxt s =
    Some (Ok (), if length rem < 7 then buf else overwrite 0 rem buf,
      info\<lparr>num_received_tcs := num_received_tcs info + of_nat (length ps)\<rparr>, if length rem < 7 then nxt else length rem, s')"
proof -
  have "slice 0 cur buf = (Ok (concat ps @ rem) :: (unit, bytes) res)" using assms(3,4) by (simp add: slice_def)
  moreover have cur: "cur = length (concat ps) + length rem" using arg_cong [OF assms(4), of length] assms(3) by simp
  moreover have "drop (length (concat ps)) (take cur buf) = rem" using assms(4) by simp
  then have "slice (length (concat ps)) cur buf = (Ok rem :: (unit, bytes) res)"
    using assms(3) cur by (simp add: slice_def drop_take)
  moreover have "parse_buffer_for_ccsds_space_packets sph (concat ps @ rem) validate i send s =
      Some (Ok \<lparr>packets_found = of_nat (length ps),
        incomplete_tail_start = (if length rem < 7 then None else Some (length (concat ps)))\<rparr>, s')"
    using ccsds_loop_packets [OF assms(1,2), of i send "[]"] assms(5)
    by (simp add: parse_buffer_for_ccsds_space_packets_def)
  ultimately show ?thesis by (simp add: sp_handle_tc_parsing_def)
qed

text \<open>A chunk, and a moment without data when there is no telemetry.\<close>

lemma chunk_block:
  assumes "stream_ok (tcp_stream env) pending written" "tcp_stop_signal env = None"
    and "pending st = TcpData d # TcpBlock # es" "d \<noteq> []" "cur + length d < length (srv_tc_buffer k)"
    and parse: "tcp_parser env (overwrite cur d (srv_tc_buffer k)) (srv_id k) (tcp_send env) info (cur + length d) nxt (srv_tc_sender k) =
      Some (Ok (), buf, info1, nxt1, s')"
    and idle: "\<And>info st. tcp_tm_sender env (srv_tm_handler k) (srv_tm_buffer k) (srv_tm_source k) info st =
      Some (Ok False, srv_tm_handler k, srv_tm_buffer k, srv_tm_source k, info, st)"
  obtains st1 where "pending st1 = es" "written st1 = written st"
    "connection_loop env k st info cur nxt = connection_loop env (k\<lparr>srv_tc_buffer := buf, srv_tc_sender := s'\<rparr>) st1 info1 nxt1 nxt1"
proof -
  let ?k = "k\<lparr>srv_tc_buffer := overwrite cur d (srv_tc_buffer k)\<rparr>"
  let ?k1 = "k\<lparr>srv_tc_buffer := buf, srv_tc_sender := s'\<rparr>"
  obtain st0 where st0: "pending st0 = TcpBlock # es" "written st0 = written st"
      "connection_loop env k st info cur nxt = connection_loop env ?k st0 info (cur + length d) nxt"
    using read_chunk [OF assms(1,3,4,5)] by blast
  have p: "server_parse env ?k info (cur + length d) nxt = Some (Ok (), ?k1, info1, nxt1)"
    using parse by (simp add: server_parse_def)
  have len: "cur + length d \<le> length (srv_tc_buffer ?k)" using assms(5) by (simp add: overwrite_def)
  obtain st1 where st1: "pending st1 = es" "written st1 = written st0"
      "\<And>b k2 info2 st2. server_send_tm env ?k1 info1 st1 = Some (Ok b, k2, info2, st2) \<Longrightarrow>
        connection_loop env ?k st0 info (cur + length d) nxt = connection_loop env k2 st2 info2 nxt1 nxt1"
    using block_step [OF assms(1) st0(1) assms(2) len p] by blast
  have "server_send_tm env ?k1 info1 st1 = Some (Ok False, ?k1, info1, st1)"
    using idle by (simp add: server_send_tm_def)
  from st1(3) [OF this] show thesis using st0(2,3) st1(2) by (intro that [OF st1(1)]) simp_all
qed

lemma sp_idle:
  assumes "retrieve src buf = (Ok 0, buf, src)"
  shows "SpacepacketsTmSender_handle_tm_sending stream retrieve h buf src info st = Some (Ok False, h, buf, src, info, st)"
  using assms by (simp add: SpacepacketsTmSender_handle_tm_sending_def sp_tm_loop.simps [of stream])

text \<open>The header of a packet is its first six bytes, and the validator looks at nothing else.\<close>

definition header_only :: "'h SpHeaderOps \<Rightarrow> ('h \<Rightarrow> bytes \<Rightarrow> SpValidity) \<Rightarrow> bool" where
  "header_only sph validate \<longleftrightarrow>
     (\<forall>p q. 6 \<le> length p \<longrightarrow> take 6 p = take 6 q \<longrightarrow> sp_from_be_bytes sph p = sp_from_be_bytes sph q) \<and>
     (\<forall>h p q. validate h p = validate h q)"

lemma header_only_same:
  assumes "header_only sph validate" "valid_packet sph validate a" "take 6 q = take 6 a" "7 \<le> length q"
  shows "\<exists>h. sp_from_be_bytes sph q = Ok h \<and> sp_total_len sph h = length a \<and> validate h q = SpValid"
proof -
  obtain h where h: "sp_from_be_bytes sph a = Ok h" "sp_total_len sph h = length a" "validate h a = SpValid" "7 \<le> length a"
    using assms(2) unfolding valid_packet_def by (metis append_Nil2)
  have "6 \<le> length a" using h(4) by simp
  then have "sp_from_be_bytes sph a = sp_from_be_bytes sph q"
    using assms(1,3) unfolding header_only_def by metis
  moreover have "validate h q = validate h a" using assms(1) unfolding header_only_def by blast
  ultimately show ?thesis using h by (intro exI [of _ h]) simp
qed

lemma header_only_valid:
  assumes "header_only sph validate" "valid_packet sph validate a" "take 6 q = take 6 a" "length q = length a"
  shows "valid_packet sph validate q"
proof -
  have "7 \<le> length a" using assms(2) by (simp add: valid_packet_def)
  then have "take 6 (q @ rest) = take 6 a" "7 \<le> length (q @ rest)" for rest using assms(3,4) by simp_all
  then show ?thesis
    using header_only_same [OF assms(1,2)] assms(4) \<open>7 \<le> length a\<close> unfolding valid_packet_def by metis
qed

lemma overwrite_at_start: "take (length a) (overwrite 0 a xs) = a"
  by (simp add: overwrite_def)

lemma sp_chunk_block:
  assumes "stream_ok (tcp_stream env) pending written" "tcp_stop_signal env = None"
    and "tcp_parser env = sp_handle_tc_parsing sph validate"
    and "pending st = TcpData d # TcpBlock # es" "d \<noteq> []" "cur + length d < length (srv_tc_buffer k)"
    and ps: "\<forall>p\<in>set ps. valid_packet sph validate p" "length rem < 7 \<or> incomplete_packet sph validate rem"
      "take cur (srv_tc_buffer k) @ d = concat ps @ rem" "send_all (tcp_send env) (srv_id k) (srv_tc_sender k) ps = (Ok (), s')"
    and idle: "\<And>info st. tcp_tm_sender env (srv_tm_handler k) (srv_tm_buffer k) (srv_tm_source k) info st =
      Some (Ok False, srv_tm_handler k, srv_tm_buffer k, srv_tm_source k, info, st)"
    and nxt1: "nxt \<le> cur + length d" "nxt1 = (if length rem < 7 then nxt else length rem)"
  obtains st1 buf info1 where "pending st1 = es" "length buf = length (srv_tc_buffer k)"
    "take nxt1 buf = (if length rem < 7 then take nxt (take cur (srv_tc_buffer k) @ d) else rem)"
    "connection_loop env k st info cur nxt = connection_loop env (k\<lparr>srv_tc_buffer := buf, srv_tc_sender := s'\<rparr>) st1 info1 nxt1 nxt1"
proof -
  let ?b = "overwrite cur d (srv_tc_buffer k)"
  define buf where "buf = (if length rem < 7 then ?b else overwrite 0 rem ?b)"
  have len: "length ?b = length (srv_tc_buffer k)" "cur + length d \<le> length ?b" using assms(6) by (simp_all add: overwrite_def)
  have tk: "take (cur + length d) ?b = take cur (srv_tc_buffer k) @ d" using assms(6) by (simp add: overwrite_def)
  have rem: "length rem \<le> length ?b" using arg_cong [OF ps(3), of length] assms(6) len by simp
  have parse: "tcp_parser env ?b (srv_id k) (tcp_send env) info (cur + length d) nxt (srv_tc_sender k) =
      Some (Ok (), buf, info\<lparr>num_received_tcs := num_received_tcs info + of_nat (length ps)\<rparr>, nxt1, s')"
    using sp_parse_rest [OF ps(1,2) len(2) _ ps(4), of info nxt] tk ps(3) by (simp add: assms(3) buf_def nxt1(2))
  have "take nxt ?b = take nxt (take (cur + length d) ?b)" using nxt1(1) by (simp add: min_absorb1)
  then have "take nxt ?b = take nxt (take cur (srv_tc_buffer k) @ d)" by (simp only: tk)
  then have nxt: "take nxt1 buf = (if length rem < 7 then take nxt (take cur (srv_tc_buffer k) @ d) else rem)"
    using nxt1(2) by (simp add: buf_def overwrite_at_start)
  have "length buf = length (srv_tc_buffer k)" using rem len(1) by (simp add: buf_def length_overwrite)
  then show thesis
    using chunk_block [OF assms(1,2,4,5,6) parse idle] that nxt by metis
qed

text \<open>
  C25: a packet that arrives in two pieces with a pause between them spoils what follows. The server
  joins the pieces and sends the packet, but keeps the write index of the first piece, which is reset
  only when there is an incomplete packet again. So the first piece still precedes the next packet in the
  buffer: the server then sends the first piece of the old packet joined with the start of the new one,
  and the new packet is never sent.
\<close>

theorem tcp_split_packet:
  assumes "stream_ok (tcp_stream env) pending written" "tcp_stop_signal env = None"
    and env: "tcp_parser env = sp_handle_tc_parsing sph validate"
      "tcp_tm_sender env = SpacepacketsTmSender_handle_tm_sending (tcp_stream env) retrieve"
      "retrieve (srv_tm_source k) (srv_tm_buffer k) = (Ok 0, srv_tm_buffer k, srv_tm_source k)"
    and packets: "header_only sph validate" "valid_packet sph validate (a1 @ a2)" "valid_packet sph validate b"
      "7 \<le> length a1" "a2 \<noteq> []" "length a2 \<le> length b" "length b < length a2 + 7"
    and fit: "length (a1 @ a2) < length (srv_tc_buffer k)" "length (a1 @ b) < length (srv_tc_buffer k)"
    and script: "pending st = [TcpData a1, TcpBlock, TcpData a2, TcpBlock, TcpData b, TcpBlock]"
    and send: "send_all (tcp_send env) (srv_id k) (srv_tc_sender k) [a1 @ a2, a1 @ take (length a2) b] = (Ok (), s')"
  shows "\<exists>k' st'. handle_accepted_connection env k st addr = Some (Ok (), k', st') \<and> srv_tc_sender k' = s'"
proof -
  let ?info = "HandledConnectionInfo_new addr" and ?c = "a1 @ take (length a2) b" and ?n = "length a1"
  let ?buf = "srv_tc_buffer k" and ?tail = "drop (length a2) b"
  obtain s1 where s1: "send_all (tcp_send env) (srv_id k) (srv_tc_sender k) [a1 @ a2] = (Ok (), s1)"
      "send_all (tcp_send env) (srv_id k) s1 [?c] = (Ok (), s')"
    using send by (auto simp: Let_def res_try_case split: prod.splits res.splits)
  have inc: "incomplete_packet sph validate a1"
    using header_only_same [OF packets(1,2), of a1] packets(4,5) unfolding incomplete_packet_def by auto
  have c: "valid_packet sph validate ?c"
    by (rule header_only_valid [OF packets(1,2)]) (use packets(4,6) in simp_all)
  have short: "length b - length a2 < 7" "b \<noteq> []" using packets(5,6,7) by auto
  have idle: "tcp_tm_sender env h (srv_tm_buffer k) (srv_tm_source k) info st =
      Some (Ok False, h, srv_tm_buffer k, srv_tm_source k, info, st)" for h info st
    unfolding env(2) by (rule sp_idle [of retrieve, OF env(3)])
  let ?k = "\<lambda>buf s. k\<lparr>srv_tc_buffer := buf, srv_tc_sender := s\<rparr>"
  obtain st1 buf1 info1 where 1: "pending st1 = [TcpData a2, TcpBlock, TcpData b, TcpBlock]" "length buf1 = length ?buf"
      "take ?n buf1 = a1" "connection_loop env k st ?info 0 0 = connection_loop env (?k buf1 (srv_tc_sender k)) st1 info1 ?n ?n"
    by (rule sp_chunk_block [OF assms(1,2) env(1), of st a1 _ 0 k "[]" a1 "srv_tc_sender k" 0 ?n ?info])
      (use script packets(4) fit inc idle in auto)
  obtain st2 buf2 info2 where 2: "pending st2 = [TcpData b, TcpBlock]" "length buf2 = length ?buf"
      "take ?n buf2 = a1"
      "connection_loop env (?k buf1 (srv_tc_sender k)) st1 info1 ?n ?n = connection_loop env (?k buf2 s1) st2 info2 ?n ?n"
    by (rule sp_chunk_block [OF assms(1,2) env(1), of st1 a2 _ ?n "?k buf1 (srv_tc_sender k)" "[a1 @ a2]" "[]" s1 ?n ?n info1])
      (use 1 packets fit s1 idle in auto)
  obtain st3 buf3 info3 where 3: "pending st3 = []" "length buf3 = length ?buf" "take ?n buf3 = a1"
      "connection_loop env (?k buf2 s1) st2 info2 ?n ?n = connection_loop env (?k buf3 s') st3 info3 ?n ?n"
    by (rule sp_chunk_block [OF assms(1,2) env(1), of st2 b _ ?n "?k buf2 s1" "[?c]" ?tail s' ?n ?n info2])
      (use 2 packets fit c s1 idle short in auto)
  obtain st4 where st4: "tcp_read (tcp_stream env) st3 (length buf3 - ?n) = (Ok [], st4)"
    using assms(1) 3(1) unfolding stream_ok_def by meson
  have "tcp_parser env buf3 (srv_id k) (tcp_send env) info3 ?n ?n s' =
      Some (Ok (), overwrite 0 a1 buf3, info3\<lparr>num_received_tcs := num_received_tcs info3 + of_nat (length [])\<rparr>, ?n, s')"
    using sp_parse_rest [of "[]" sph validate a1 ?n buf3 "tcp_send env" "srv_id k" s' s' info3 ?n] inc 3(2,3) fit packets(4) by (simp add: env(1))
  then have "connection_loop env (?k buf3 s') st3 info3 ?n ?n = Some (Ok False, ?k (overwrite 0 a1 buf3) s', st4, info3)"
    using st4 fit 3(2) packets(4) by (subst connection_loop.simps) (auto simp: server_parse_def)
  then show ?thesis
    using 1(4) 2(4) 3(4) idle by (simp add: handle_accepted_connection_def server_send_tm_def)
qed

lemma cobs_split_unparsed:
  assumes "cobs_ok cb enc" "p \<noteq> []" "cobs_frame enc p = f1 @ f2" "f1 \<noteq> []" "f2 \<noteq> []"
  shows "\<exists>buf. parse_buffer_for_cobs_encoded_packets cb f1 i send nxt s = (Ok 0, buf, nxt, s) \<and> length buf = length f1"
    and "\<exists>buf. parse_buffer_for_cobs_encoded_packets cb f2 i send nxt s = (Ok 0, buf, nxt, s) \<and> length buf = length f2"
proof -
  have nz: "0 \<notin> set (enc p)" using assms(1,2) by (simp add: cobs_ok_def)
  obtain t where t: "f1 = 0 # t" "enc p @ [0] = t @ f2" using assms(3,4) by (cases f1) (auto simp: cobs_frame_def)
  obtain u where u: "f2 = u @ [0]" using t(2) assms(5) by (metis append_butlast_last_id last_appendR last_snoc)
  have e: "enc p = t @ u" using t(2) u by simp
  let ?st = "\<lambda>f. \<lparr>cs_buf = f, start_index_packet = 0, start_found = False, cs_packets_found = 0, cs_sender = s\<rparr>"
  have "cobs_loop cb i send [0..<length f1] (?st f1) = (Ok (), (?st f1)\<lparr>start_index_packet := 1, start_found := True\<rparr>)"
    using cobs_loop_tail [of "?st f1" "[]" f1 cb i send] nz e t(1) by simp
  then show "\<exists>buf. parse_buffer_for_cobs_encoded_packets cb f1 i send nxt s = (Ok 0, buf, nxt, s) \<and> length buf = length f1"
    by (simp add: parse_buffer_for_cobs_encoded_packets_def)
  have "\<forall>k\<in>set [0..<length u]. cs_buf (?st f2) ! k \<noteq> 0" using nz e u by (auto simp: nth_append in_set_conv_nth)
  then have "cobs_loop cb i send [0..<length f2] (?st f2) = cobs_loop cb i send [length u] (?st f2)"
    using cobs_loop_skip [of "[0..<length u]" "?st f2" cb i send "[length u]"] u by simp
  also have "\<dots> = (Ok (), (?st f2)\<lparr>start_index_packet := length u + 1, start_found := True\<rparr>)"
    by (simp add: u nth_append)
  finally show "\<exists>buf. parse_buffer_for_cobs_encoded_packets cb f2 i send nxt s = (Ok 0, buf, nxt, s) \<and> length buf = length f2"
    by (simp add: parse_buffer_for_cobs_encoded_packets_def)
qed

lemma cobs_window:
  assumes "length f \<le> length xs" "parse_buffer_for_cobs_encoded_packets cb f i send nxt s = (Ok 0, buf, nxt, s)" "length buf = length f"
  shows "\<exists>xs'. CobsTcParser_handle_tc_parsing cb (overwrite 0 f xs) i send info (length f) nxt s =
      Some (Ok (), xs', info\<lparr>num_received_tcs := num_received_tcs info + 0\<rparr>, nxt, s) \<and> length xs' = length xs"
proof -
  have "slice 0 (length f) (overwrite 0 f xs) = (Ok f :: (unit, bytes) res)"
    using assms(1) by (simp add: slice_def overwrite_def)
  then show ?thesis using assms by (simp add: CobsTcParser_handle_tc_parsing_def)
qed

text \<open>
  C26: a COBS frame that arrives in two pieces with a pause between them is lost. The first piece is only
  kept when a packet precedes it in the same buffer, and the second piece alone is no frame: nothing is
  sent, nothing is counted, and the connection ends without an error.
\<close>

theorem tcp_cobs_split_lost:
  assumes "stream_ok (tcp_stream env) pending written" "tcp_stop_signal env = None"
    and env: "tcp_parser env = CobsTcParser_handle_tc_parsing cb"
      "tcp_tm_sender env = CobsTmSender_handle_tm_sending cb (tcp_stream env) retrieve"
      "retrieve (srv_tm_source k) (srv_tm_buffer k) = (Ok 0, srv_tm_buffer k, srv_tm_source k)"
    and frame: "cobs_ok cb enc" "p \<noteq> []" "cobs_frame enc p = f1 @ f2" "f1 \<noteq> []" "f2 \<noteq> []"
      "length (cobs_frame enc p) < length (srv_tc_buffer k)"
    and script: "pending st = [TcpData f1, TcpBlock, TcpData f2, TcpBlock]"
  shows "\<exists>k' st'. handle_accepted_connection env k st addr = Some (Ok (), k', st') \<and>
    srv_tc_sender k' = srv_tc_sender k \<and>
    finished_handler k' = tcp_finished env (finished_handler k) (HandledConnectionInfo_new addr)"
proof -
  let ?info = "HandledConnectionInfo_new addr"
  let ?k = "\<lambda>buf. k\<lparr>srv_tc_buffer := buf, srv_tc_sender := srv_tc_sender k\<rparr>"
  have len: "length f1 < length (srv_tc_buffer k)" "length f2 < length (srv_tc_buffer k)"
    using frame(6) arg_cong [OF frame(3), of length] by simp_all
  have idle: "tcp_tm_sender env h (srv_tm_buffer k) (srv_tm_source k) info st =
      Some (Ok False, h, srv_tm_buffer k, srv_tm_source k, info, st)" for h info st
    using env(3) by (simp add: env(2) CobsTmSender_handle_tm_sending_def cobs_tm_loop.simps [of cb])
  note unparsed = cobs_split_unparsed [OF frame(1-5), where i = "srv_id k" and send = "tcp_send env" and s = "srv_tc_sender k" and nxt = 0]
  obtain x1 where x1: "tcp_parser env (overwrite 0 f1 (srv_tc_buffer k)) (srv_id k) (tcp_send env) ?info
      (length f1) 0 (srv_tc_sender k) = Some (Ok (), x1, ?info, 0, srv_tc_sender k)" "length x1 = length (srv_tc_buffer k)"
    using unparsed(1) cobs_window [where xs = "srv_tc_buffer k" and f = f1] len(1) unfolding env(1) by fastforce
  obtain st1 where st1: "pending st1 = [TcpData f2, TcpBlock]"
      "connection_loop env k st ?info 0 0 = connection_loop env (?k x1) st1 ?info 0 0"
    by (rule chunk_block [OF assms(1,2) script, of 0 k ?info 0 x1 ?info 0 "srv_tc_sender k"])
      (use frame len x1 idle in auto)
  obtain x2 where x2: "tcp_parser env (overwrite 0 f2 x1) (srv_id k) (tcp_send env) ?info
      (length f2) 0 (srv_tc_sender k) = Some (Ok (), x2, ?info, 0, srv_tc_sender k)"
    using unparsed(2) cobs_window [where xs = x1 and f = f2] len(2) x1(2) unfolding env(1) by fastforce
  obtain st2 where st2: "pending st2 = []"
      "connection_loop env (?k x1) st1 ?info 0 0 = connection_loop env (?k x2) st2 ?info 0 0"
    by (rule chunk_block [OF assms(1,2) st1(1), of 0 "?k x1" ?info 0 x2 ?info 0 "srv_tc_sender k"])
      (use frame len x1 x2 idle in auto)
  show ?thesis
    using close_step [OF assms(1) st2(1), of "?k x2" ?info 0] st1(2) st2(2) idle
    by (auto simp: handle_accepted_connection_def server_send_tm_def)
qed

subsection \<open>Witnesses\<close>

text \<open>A stream that plays a list of events.\<close>

definition demo_stream :: "(tcp_event list \<times> bytes) TcpStream" where
  "demo_stream =
     \<lparr>tcp_read = (\<lambda>(es, out) n. case es of
          [] \<Rightarrow> (Ok [], [], out)
        | TcpData d # es' \<Rightarrow> if length d \<le> n then (Ok d, es', out) else (Ok (take n d), TcpData (drop n d) # es', out)
        | TcpBlock # es' \<Rightarrow> (Err IoWouldBlock, es', out)),
      tcp_write_all = (\<lambda>(es, out) d. (Ok (), es, out @ d))\<rparr>"

lemma demo_stream_ok: "stream_ok demo_stream fst snd"
  by (auto simp: stream_ok_def demo_stream_def)

definition demo_no_tm :: "(unit, unit) PacketSource" where
  "demo_no_tm src buf = (Ok 0, buf, src)"

definition demo_tcp_env ::
    "(nat, bytes list, unit, unit) TcpTcParser \<Rightarrow> ('tmh, 'src, nat, tcp_event list \<times> bytes, unit, unit) TcpTmSender \<Rightarrow>
     (nat HandledConnectionInfo list, 'src, bytes list, 'tmh, nat, tcp_event list \<times> bytes, unit, unit) TcpEnv" where
  "demo_tcp_env parser tm_sender =
     \<lparr>tcp_stream = demo_stream, tcp_send = demo_collect, tcp_parser = parser, tcp_tm_sender = tm_sender,
      tcp_finished = (\<lambda>fh info. fh @ [info]), tcp_stop_signal = None\<rparr>"

definition demo_server :: "'tmh \<Rightarrow> 'src \<Rightarrow> (nat HandledConnectionInfo list, 'src, bytes list, 'tmh) TcpTmtcGenericServer" where
  "demo_server h src = TcpTmtcGenericServer_new (ServerConfig_new 5 (0 :: nat) 400 16 32) h src [] []"

lemmas demo_server_defs = demo_server_def demo_tcp_env_def TcpTmtcGenericServer_new_def ServerConfig_new_def demo_no_tm_def

lemma demo_header_only: "header_only demo_sph (\<lambda>_ _. SpValid)"
proof -
  have "sp_from_be_bytes demo_sph p = sp_from_be_bytes demo_sph q" if t: "take 6 p = take 6 q" and l: "6 \<le> length p" for p q
  proof -
    have "6 \<le> length q" using arg_cong [OF t, of length] l by simp
    moreover have "p ! i = q ! i" if "i < 6" for i using t that by (metis nth_take)
    ultimately show ?thesis using l by (simp add: demo_sph_def)
  qed
  then show ?thesis by (simp add: header_only_def)
qed


theorem tcp_split_packet_witness:
  "\<exists>k' st'. handle_accepted_connection
      (demo_tcp_env (sp_handle_tc_parsing demo_sph (\<lambda>_ _. SpValid)) (SpacepacketsTmSender_handle_tm_sending demo_stream demo_no_tm))
      (demo_server () ())
      ([TcpData [0, 0, 0, 0, 0, 7, 1], TcpBlock, TcpData [2, 3, 4, 5, 6, 7, 8], TcpBlock,
        TcpData [0, 0, 0, 0, 0, 6, 9, 9, 9, 9, 9, 9, 9], TcpBlock], []) 3 = Some (Ok (), k', st') \<and>
    srv_tc_sender k' = [[0, 0, 0, 0, 0, 7, 1, 2, 3, 4, 5, 6, 7, 8], [0, 0, 0, 0, 0, 7, 1, 0, 0, 0, 0, 0, 6, 9]]"
proof -
  let ?env = "demo_tcp_env (sp_handle_tc_parsing demo_sph (\<lambda>_ _. SpValid)) (SpacepacketsTmSender_handle_tm_sending demo_stream demo_no_tm)"
  have s: "stream_ok (tcp_stream ?env) fst snd" using demo_stream_ok by (simp add: demo_tcp_env_def)
  have v: "valid_packet demo_sph (\<lambda>_ _. SpValid) ([0, 0, 0, 0, 0, 7, 1] @ [2, 3, 4, 5, 6, 7, 8])"
      "valid_packet demo_sph (\<lambda>_ _. SpValid) [0, 0, 0, 0, 0, 6, 9, 9, 9, 9, 9, 9, 9]"
    by (simp_all add: valid_packet_def demo_sph_def)
  show ?thesis
    using tcp_split_packet [OF s _ _ _ _ demo_header_only v, where retrieve = demo_no_tm and k = "demo_server () ()" and addr = 3
        and st = "([TcpData [0, 0, 0, 0, 0, 7, 1], TcpBlock, TcpData [2, 3, 4, 5, 6, 7, 8], TcpBlock,
          TcpData [0, 0, 0, 0, 0, 6, 9, 9, 9, 9, 9, 9, 9], TcpBlock], [])"
        and s' = "[[0, 0, 0, 0, 0, 7, 1, 2, 3, 4, 5, 6, 7, 8], [0, 0, 0, 0, 0, 7, 1, 0, 0, 0, 0, 0, 6, 9]]"]
    by (simp add: demo_server_defs)
qed


theorem tcp_cobs_split_lost_witness:
  "\<exists>k' st'. handle_accepted_connection
      (demo_tcp_env (CobsTcParser_handle_tc_parsing demo_cobs) (CobsTmSender_handle_tm_sending demo_cobs demo_stream demo_no_tm))
      (demo_server [] ()) ([TcpData [0, 2], TcpBlock, TcpData [5, 0], TcpBlock], []) 3 = Some (Ok (), k', st') \<and>
    srv_tc_sender k' = [] \<and> finished_handler k' = [HandledConnectionInfo_new 3]"
proof -
  let ?env = "demo_tcp_env (CobsTcParser_handle_tc_parsing demo_cobs) (CobsTmSender_handle_tm_sending demo_cobs demo_stream demo_no_tm)"
  let ?k = "demo_server ([] :: bytes) ()"
  have s: "stream_ok (tcp_stream ?env) fst snd" using demo_stream_ok by (simp add: demo_tcp_env_def)
  have e: "tcp_stop_signal ?env = None" "tcp_parser ?env = CobsTcParser_handle_tc_parsing demo_cobs"
    "tcp_tm_sender ?env = CobsTmSender_handle_tm_sending demo_cobs (tcp_stream ?env) demo_no_tm" by (simp_all add: demo_tcp_env_def)
  have f: "cobs_frame demo_enc [5] = [0, 2] @ [5, 0]" by (simp add: cobs_frame_def demo_enc_def)
  have r: "demo_no_tm (srv_tm_source ?k) (srv_tm_buffer ?k) = (Ok 0, srv_tm_buffer ?k, srv_tm_source ?k)" by (simp add: demo_no_tm_def)
  have l: "length (cobs_frame demo_enc [5]) < length (srv_tc_buffer ?k)" by (simp add: f demo_server_defs)
  have "[0, 2 :: u8] \<noteq> []" "[5, 0 :: u8] \<noteq> []" "[5 :: u8] \<noteq> []" by simp_all
  from tcp_cobs_split_lost [where retrieve = demo_no_tm, OF s e r demo_cobs_ok this(3) f this(1,2) l,
      of "([TcpData [0, 2], TcpBlock, TcpData [5, 0], TcpBlock], [])" 3]
  show ?thesis by (simp only: fst_conv simp_thms) (simp only: demo_server_defs TcpTmtcGenericServer.simps TcpEnv.simps append_Nil)
qed

end
