(* ===== verification/Tm_Sink.thy ===== *)
theory Tm_Sink
  imports Tc_Distributor Seq_Count Tcp_Server
begin

text \<open>
  The ground interface of the example application: the tasks that take telecommands from the servers to
  the distributor (\<^verbatim>\<open>tmtc/tc_source.rs\<close>), the sinks that give every telemetry packet its sequence count
  and message count (\<^verbatim>\<open>tmtc/tm_sink.rs\<close>), and the queues and handlers that hand it to the TCP and UDP
  servers (\<^verbatim>\<open>interface/tcp.rs\<close>, \<^verbatim>\<open>interface/udp.rs\<close>).
\<close>

subsection \<open>The telemetry queue of the TCP server\<close>

text \<open>
  \<^verbatim>\<open>Arc<Mutex<VecDeque>>\<close>: all clones are one queue, and a panic while the lock is held poisons it, after
  which \<^verbatim>\<open>lock().expect\<close> panics.
\<close>

record SyncTcpTmSource =
  tm_queue :: "bytes list"
  tm_queue_poisoned :: bool
  max_packets_stored :: nat
  silent_packet_overwrite :: bool

definition SyncTcpTmSource_new :: "nat \<Rightarrow> SyncTcpTmSource" where
  "SyncTcpTmSource_new n =
     \<lparr>tm_queue = [], tm_queue_poisoned = False, max_packets_stored = n, silent_packet_overwrite = True\<rparr>"

definition SyncTcpTmSource_add_tm :: "SyncTcpTmSource \<Rightarrow> bytes \<Rightarrow> ('e, unit) res \<times> SyncTcpTmSource" where
  "SyncTcpTmSource_add_tm s tm =
     (if tm_queue_poisoned s then (Panic, s)
      else
        let q = (if length (tm_queue s) > max_packets_stored s then tl (tm_queue s) else tm_queue s)
        in (Ok (), s\<lparr>tm_queue := q @ [tm]\<rparr>))"

definition SyncTcpTmSource_retrieve_packet ::
    "SyncTcpTmSource \<Rightarrow> bytes \<Rightarrow> (unit, nat) res \<times> bytes \<times> SyncTcpTmSource" where
  "SyncTcpTmSource_retrieve_packet s buffer =
     (if tm_queue_poisoned s then (Panic, buffer, s)
      else
        (case tm_queue s of
           [] \<Rightarrow> (Ok 0, buffer, s)
         | next_vec # q \<Rightarrow>
             if length buffer < length next_vec then (Panic, buffer, s\<lparr>tm_queue_poisoned := True\<rparr>)
             else (Ok (length next_vec), overwrite 0 next_vec buffer, s\<lparr>tm_queue := q\<rparr>)))"

text \<open>\<^verbatim>\<open>packet_id()\<close> of a header is a parameter.\<close>

definition SimplePacketValidator_validate ::
    "('h \<Rightarrow> 'pid) \<Rightarrow> 'pid set \<Rightarrow> 'h \<Rightarrow> bytes \<Rightarrow> SpValidity" where
  "SimplePacketValidator_validate packet_id_of valid_ids sp_header raw_buf =
     (if packet_id_of sp_header \<in> valid_ids then SpValid else SpSkip)"

subsection \<open>Counters\<close>

text \<open>
  \<^verbatim>\<open>PusTmZeroCopyWriter\<close> of the packet library writes into the packet it borrows, so that its methods
  are functions of the bytes of the packet: whether the bytes are a telemetry packet with a time stamp of
  \<^verbatim>\<open>MIN_CDS_FIELD_LEN\<close> bytes, the fields read and set here, and the writing of the checksum. The last
  three components are the readers of what is set and of the rest of the packet.
\<close>

record ZeroCopyWriter =
  zc_new :: "bytes \<Rightarrow> bool"
  zc_apid :: "bytes \<Rightarrow> u16"
  zc_service :: "bytes \<Rightarrow> u8"
  zc_set_seq_count :: "u16 \<Rightarrow> bytes \<Rightarrow> bytes"
  zc_set_msg_count :: "u16 \<Rightarrow> bytes \<Rightarrow> bytes"
  zc_finish :: "bytes \<Rightarrow> bytes"
  zc_max_seq_count :: u16
  zc_seq_count :: "bytes \<Rightarrow> u16"
  zc_msg_count :: "bytes \<Rightarrow> u16"
  zc_rest :: "bytes \<Rightarrow> bytes"
  zc_checksum_ok :: "bytes \<Rightarrow> bool"

text \<open>\<^verbatim>\<open>entry(apid).or_default().get_and_increment()\<close>.\<close>

definition CcsdsSeqCounterMap_get_and_increment ::
    "u16 \<Rightarrow> (u16 \<rightharpoonup> CcsdsSimpleSeqCountProvider) \<Rightarrow> u16 \<Rightarrow>
     (unit, u16) res \<times> (u16 \<rightharpoonup> CcsdsSimpleSeqCountProvider)" where
  "CcsdsSeqCounterMap_get_and_increment max_seq_count m apid =
     (let p = (case m apid of Some p \<Rightarrow> p | None \<Rightarrow> CcsdsSimpleSeqCountProvider_default max_seq_count);
          (r, p') = SeqCountProviderSimple_get_and_increment p
      in (r, m(apid \<mapsto> p')))"

record TmFunnelCommon =
  seq_counter_map :: "u16 \<rightharpoonup> CcsdsSimpleSeqCountProvider"
  msg_counter_map :: "u8 \<rightharpoonup> u16"
  sync_tm_tcp_source :: SyncTcpTmSource

definition TmFunnelCommon_new :: "SyncTcpTmSource \<Rightarrow> TmFunnelCommon" where
  "TmFunnelCommon_new src =
     \<lparr>seq_counter_map = Map.empty, msg_counter_map = Map.empty, sync_tm_tcp_source = src\<rparr>"

definition apply_packet_processing ::
    "ZeroCopyWriter \<Rightarrow> TmFunnelCommon \<Rightarrow> bytes \<Rightarrow> (unit, unit) res \<times> TmFunnelCommon \<times> bytes" where
  "apply_packet_processing zc c buf =
     (let (r, m) = CcsdsSeqCounterMap_get_and_increment (zc_max_seq_count zc) (seq_counter_map c) (zc_apid zc buf);
          c1 = c\<lparr>seq_counter_map := m\<rparr>
      in res_try r (c1, buf) (\<lambda>n.
           let buf1 = zc_set_seq_count zc n buf;
               service = zc_service zc buf1;
               entry = (case msg_counter_map c1 service of Some e \<Rightarrow> e | None \<Rightarrow> 0);
               buf2 = zc_set_msg_count zc entry buf1
           in res_try (if entry = - 1 then Ok 0 else word_succ_checked entry) (c1, buf2) (\<lambda>entry'.
                (Ok (), c1\<lparr>msg_counter_map := (msg_counter_map c1)(service \<mapsto> entry')\<rparr>, zc_finish zc buf2))))"

definition TmFunnelCommon_add_tm :: "TmFunnelCommon \<Rightarrow> bytes \<Rightarrow> (unit, unit) res \<times> TmFunnelCommon" where
  "TmFunnelCommon_add_tm c tm =
     (let (r, s) = SyncTcpTmSource_add_tm (sync_tm_tcp_source c) tm in (r, c\<lparr>sync_tm_tcp_source := s\<rparr>))"

subsection \<open>The sinks\<close>

text \<open>\<^verbatim>\<open>Receiver::recv\<close> waits on an empty channel that still has a sender; a call that waits has no result.\<close>

definition mpsc_recv :: "'m chan \<Rightarrow> ((unit, 'm) res \<times> 'm chan) option" where
  "mpsc_recv c =
     (case ch_queue c of
        x # xs \<Rightarrow> Some (Ok x, c\<lparr>ch_queue := xs\<rparr>)
      | [] \<Rightarrow> if tx_alive c then None else Some (Err (), c))"

text \<open>The writer is created with \<^verbatim>\<open>expect\<close> and then processed.\<close>

definition process_tm :: "ZeroCopyWriter \<Rightarrow> TmFunnelCommon \<Rightarrow> bytes \<Rightarrow> (unit, unit) res \<times> TmFunnelCommon \<times> bytes" where
  "process_tm zc c buf = (if zc_new zc buf then apply_packet_processing zc c buf else (Panic, c, buf))"

record TmSinkDynamic =
  dyn_common :: TmFunnelCommon
  dyn_tm_funnel_rx :: nat
  dyn_tm_server_tx :: nat

definition TmSinkDynamic_new :: "SyncTcpTmSource \<Rightarrow> nat \<Rightarrow> nat \<Rightarrow> TmSinkDynamic" where
  "TmSinkDynamic_new src rx tx =
     \<lparr>dyn_common = TmFunnelCommon_new src, dyn_tm_funnel_rx = rx, dyn_tm_server_tx = tx\<rparr>"

definition TmSinkDynamic_operation ::
    "ZeroCopyWriter \<Rightarrow> TmSinkDynamic \<times> PacketAsVec net \<Rightarrow> ((unit, unit) res \<times> TmSinkDynamic \<times> PacketAsVec net) option" where
  "TmSinkDynamic_operation zc = (\<lambda>(k, w).
     (case mpsc_recv (w (dyn_tm_funnel_rx k)) of
        None \<Rightarrow> None
      | Some (Ok tm, ch) \<Rightarrow>
          (let w1 = w(dyn_tm_funnel_rx k := ch);
               (r, c1, packet) = process_tm zc (dyn_common k) (pav_packet tm)
           in Some (res_try r (k\<lparr>dyn_common := c1\<rparr>, w1) (\<lambda>_.
                let (r2, c2) = TmFunnelCommon_add_tm c1 packet; k2 = k\<lparr>dyn_common := c2\<rparr>
                in res_try r2 (k2, w1) (\<lambda>_.
                     let (r3, w2) = on_chan (\<lambda>c. mpsc_send c (tm\<lparr>pav_packet := packet\<rparr>)) w1 (dyn_tm_server_tx k)
                     in (res_unwrap r3, k2, w2)))))
      | Some (_, ch) \<Rightarrow> Some (Ok (), k, w)))"

text \<open>The bytes \<^verbatim>\<open>modify\<close> hands to its closure.\<close>

definition stored_block :: "StaticMemoryPool \<Rightarrow> PoolAddr \<Rightarrow> bytes" where
  "stored_block p raw_addr =
     (let addr = StaticPoolAddr_from raw_addr
      in case (addr_check p addr, raw_pos p addr, get (pool p) (unat (pool_idx addr))) of
           (Ok n, Some pos, Some subpool) \<Rightarrow> take n (drop pos subpool)
         | _ \<Rightarrow> [])"

record TmSinkStatic =
  st_common :: TmFunnelCommon
  st_tm_funnel_rx :: nat
  st_tm_server_tx :: nat

definition TmSinkStatic_new :: "SyncTcpTmSource \<Rightarrow> nat \<Rightarrow> nat \<Rightarrow> TmSinkStatic" where
  "TmSinkStatic_new src rx tx =
     \<lparr>st_common = TmFunnelCommon_new src, st_tm_funnel_rx = rx, st_tm_server_tx = tx\<rparr>"

text \<open>
  The lock on the pool is held from before the packet is processed until the end of the block, also while
  the blocking \<^verbatim>\<open>SyncSender::send\<close> waits, so that every panic poisons the lock.
\<close>

definition TmSinkStatic_operation ::
    "ZeroCopyWriter \<Rightarrow> TmSinkStatic \<times> PacketInPool net \<times> SharedPacketPool \<Rightarrow>
     ((unit, unit) res \<times> TmSinkStatic \<times> PacketInPool net \<times> SharedPacketPool) option" where
  "TmSinkStatic_operation zc = (\<lambda>(k, w, sh).
     (case mpsc_recv (w (st_tm_funnel_rx k)) of
        None \<Rightarrow> None
      | Some (Ok pus_tm_in_pool, ch) \<Rightarrow>
          (let w1 = w(st_tm_funnel_rx k := ch); addr = pip_store_addr pus_tm_in_pool; p = locked_pool sh;
               (r, p') = StaticMemoryPool_modify p addr (\<lambda>buf. snd (snd (process_tm zc (st_common k) buf)));
               (rc, c1, tm_copy) = process_tm zc (st_common k) (stored_block p addr);
               k1 = k\<lparr>st_common := c1\<rparr>; poisoned = sh\<lparr>lock_poisoned := True, locked_pool := p'\<rparr>
           in if lock_poisoned sh then Some (Panic, k, w1, sh)
              else if \<not> is_ok r then Some (Panic, k, w1, poisoned)
              else if \<not> is_ok rc then Some (Panic, k1, w1, poisoned)
              else
                (case mpsc_sync_send (w1 (st_tm_server_tx k)) pus_tm_in_pool of
                   None \<Rightarrow> None
                 | Some (Ok _, ch2) \<Rightarrow>
                     (let (r2, c2) = TmFunnelCommon_add_tm c1 tm_copy
                      in if is_ok r2
                         then Some (Ok (), k\<lparr>st_common := c2\<rparr>, w1(st_tm_server_tx k := ch2), sh\<lparr>locked_pool := p'\<rparr>)
                         else Some (Panic, k\<lparr>st_common := c2\<rparr>, w1(st_tm_server_tx k := ch2), poisoned))
                 | Some (_, ch2) \<Rightarrow> Some (Panic, k1, w1(st_tm_server_tx k := ch2), poisoned)))
      | Some (_, ch) \<Rightarrow> Some (Ok (), k, w, sh)))"

subsection \<open>Telemetry to the UDP client\<close>

text \<open>
  \<^verbatim>\<open>socket.send_to\<close> acts on the network \<open>'io\<close>; its errors are only logged. The loops take what is in the
  channel.
\<close>

function StaticUdpTmHandler_send_tm_to_udp_client ::
    "(bytes \<Rightarrow> 'io \<Rightarrow> 'io) \<Rightarrow> PacketInPool chan \<Rightarrow> SharedPacketPool \<Rightarrow> 'io \<Rightarrow>
     ('e, unit) res \<times> PacketInPool chan \<times> SharedPacketPool \<times> 'io" where
  "StaticUdpTmHandler_send_tm_to_udp_client send_to rx sh io =
     (case mpsc_try_recv rx of
        (Ok pus_tm_in_pool, rx') \<Rightarrow>
          if lock_poisoned sh then StaticUdpTmHandler_send_tm_to_udp_client send_to rx' sh io
          else
            let pg = PoolGuard_new (locked_pool sh) (pip_store_addr pus_tm_in_pool);
                sh' = sh\<lparr>locked_pool := g_pool (PoolGuard_drop StaticMemoryPool_provider pg)\<rparr>
            in (case PoolGuard_read_as_vec StaticMemoryPool_provider pg of
                  Err e \<Rightarrow> StaticUdpTmHandler_send_tm_to_udp_client send_to rx' sh' io
                | Ok buf \<Rightarrow> StaticUdpTmHandler_send_tm_to_udp_client send_to rx' sh' (send_to buf io)
                | Panic \<Rightarrow> (Panic, rx', sh'\<lparr>lock_poisoned := True\<rparr>, io))
      | (_, rx') \<Rightarrow> (Ok (), rx', sh, io))"
  by pat_completeness auto

termination
  by (relation "measure (\<lambda>(_, rx, _). length (ch_queue rx))") (auto simp: mpsc_try_recv_def split: list.splits)

declare StaticUdpTmHandler_send_tm_to_udp_client.simps [simp del]

function DynamicUdpTmHandler_send_tm_to_udp_client ::
    "(bytes \<Rightarrow> 'io \<Rightarrow> 'io) \<Rightarrow> PacketAsVec chan \<Rightarrow> 'io \<Rightarrow> PacketAsVec chan \<times> 'io" where
  "DynamicUdpTmHandler_send_tm_to_udp_client send_to rx io =
     (case mpsc_try_recv rx of
        (Ok tm, rx') \<Rightarrow> DynamicUdpTmHandler_send_tm_to_udp_client send_to rx' (send_to (pav_packet tm) io)
      | (_, rx') \<Rightarrow> (rx', io))"
  by pat_completeness auto

termination
  by (relation "measure (\<lambda>(_, rx, _). length (ch_queue rx))") (auto simp: mpsc_try_recv_def split: list.splits)

declare DynamicUdpTmHandler_send_tm_to_udp_client.simps [simp del]

subsection \<open>The UDP server of the example\<close>

definition poll_tc_server ::
    "('n \<Rightarrow> bytes \<Rightarrow> (io_error, nat \<times> 'a) res \<times> bytes \<times> 'n) \<Rightarrow> ('s, 'e) PacketSenderRaw \<Rightarrow> ('a, 's) UdpTcServer \<times> 'n \<Rightarrow>
     (unit, HandlingStatus) res \<times> ('a, 's) UdpTcServer \<times> 'n" where
  "poll_tc_server recv_from send_packet un =
     (case UdpTcServer_try_recv_tc recv_from send_packet un of
        (Ok _, un') \<Rightarrow> (Ok HandledOne, un')
      | (Err _, un') \<Rightarrow> (Ok HandledEmpty, un')
      | (Panic, un') \<Rightarrow> (Panic, un'))"

partial_function (option) poll_tc_server_loop ::
    "('n \<Rightarrow> bytes \<Rightarrow> (io_error, nat \<times> 'a) res \<times> bytes \<times> 'n) \<Rightarrow> ('s, 'e) PacketSenderRaw \<Rightarrow> ('a, 's) UdpTcServer \<times> 'n \<Rightarrow>
     ((unit, unit) res \<times> ('a, 's) UdpTcServer \<times> 'n) option" where
  "poll_tc_server_loop recv_from send_packet un =
     (case poll_tc_server recv_from send_packet un of
        (Ok HandledEmpty, un') \<Rightarrow> Some (Ok (), un')
      | (Ok _, un') \<Rightarrow> poll_tc_server_loop recv_from send_packet un'
      | (_, un') \<Rightarrow> Some (Panic, un'))"

text \<open>
  \<^verbatim>\<open>UdpTmtcServer::periodic_operation\<close>: telemetry is sent once a client is known. The handler gets the
  address of the client and acts on its own state and the network.
\<close>

definition UdpTmtcServer_periodic_operation ::
    "('n \<Rightarrow> bytes \<Rightarrow> (io_error, nat \<times> 'a) res \<times> bytes \<times> 'n) \<Rightarrow> ('s, 'e) PacketSenderRaw \<Rightarrow>
     ('a \<Rightarrow> 'h \<times> 'n \<Rightarrow> (unit, unit) res \<times> 'h \<times> 'n) \<Rightarrow> 'h \<Rightarrow> ('a, 's) UdpTcServer \<times> 'n \<Rightarrow>
     ((unit, unit) res \<times> 'h \<times> ('a, 's) UdpTcServer \<times> 'n) option" where
  "UdpTmtcServer_periodic_operation recv_from send_packet send_tm_to_udp_client h un =
     (case poll_tc_server_loop recv_from send_packet un of
        None \<Rightarrow> None
      | Some (Ok _, u, n) \<Rightarrow>
          Some (case UdpTcServer_last_sender u of
                  Some recv_addr \<Rightarrow>
                    (let (r, h', n') = send_tm_to_udp_client recv_addr (h, n) in (r, h', u, n'))
                | None \<Rightarrow> (Ok (), h, u, n))
      | Some (_, u, n) \<Rightarrow> Some (Panic, h, u, n))"

subsection \<open>The sources of telecommands\<close>

text \<open>
  \<^verbatim>\<open>poll_tc\<close> hands one telecommand to the distributor; what the distributor returns is dropped.
\<close>

definition TcSourceTaskDynamic_poll_tc ::
    "('pid, 'psc, 's, 'pe, 'cds) DistEnv \<Rightarrow> nat \<Rightarrow> PacketAsVec chan \<times> ('pid, 'psc, 's, 'cds) PusTcDistributor \<Rightarrow>
     (unit, HandlingStatus) res \<times> PacketAsVec chan \<times> ('pid, 'psc, 's, 'cds) PusTcDistributor" where
  "TcSourceTaskDynamic_poll_tc env now = (\<lambda>(rx, d).
     (case mpsc_try_recv rx of
        (Ok packet_as_vec, rx') \<Rightarrow>
          (case handle_tc_packet_vec env now packet_as_vec d of
             (Panic, d') \<Rightarrow> (Panic, rx', d')
           | (_, d') \<Rightarrow> (Ok HandledOne, rx', d'))
      | (Panic, rx') \<Rightarrow> (Panic, rx', d)
      | (Err _, rx') \<Rightarrow> (Ok HandledEmpty, rx', d)))"

record TcSourceTaskStatic =
  ts_tc_receiver :: "PacketInPool chan"
  ts_tc_buf :: bytes

definition TcSourceTaskStatic_new :: "PacketInPool chan \<Rightarrow> TcSourceTaskStatic" where
  "TcSourceTaskStatic_new rx = \<lparr>ts_tc_receiver = rx, ts_tc_buf = replicate 4096 0\<rparr>"

text \<open>The whole buffer is handed on, with what earlier telecommands left behind the packet.\<close>

definition TcSourceTaskStatic_poll_tc ::
    "('pid, 'psc, 's, 'pe, 'cds) DistEnv \<Rightarrow> nat \<Rightarrow> SharedPacketPool \<Rightarrow>
     TcSourceTaskStatic \<times> ('pid, 'psc, 's, 'cds) PusTcDistributor \<Rightarrow>
     (unit, HandlingStatus) res \<times> TcSourceTaskStatic \<times> ('pid, 'psc, 's, 'cds) PusTcDistributor" where
  "TcSourceTaskStatic_poll_tc env now sh = (\<lambda>(t, d).
     (case mpsc_try_recv (ts_tc_receiver t) of
        (Ok packet_in_pool, rx') \<Rightarrow>
          if lock_poisoned sh then (Panic, t\<lparr>ts_tc_receiver := rx'\<rparr>, d)
          else
            (case StaticMemoryPool_read (locked_pool sh) (pip_store_addr packet_in_pool) (ts_tc_buf t) of
               (Ok _, buf) \<Rightarrow>
                 (case handle_tc_packet_in_store env now packet_in_pool buf d of
                    (Panic, d') \<Rightarrow> (Panic, t\<lparr>ts_tc_receiver := rx', ts_tc_buf := buf\<rparr>, d')
                  | (_, d') \<Rightarrow> (Ok HandledOne, t\<lparr>ts_tc_receiver := rx', ts_tc_buf := buf\<rparr>, d'))
             | (_, buf) \<Rightarrow> (Panic, t\<lparr>ts_tc_receiver := rx', ts_tc_buf := buf\<rparr>, d))
      | (Panic, rx') \<Rightarrow> (Panic, t\<lparr>ts_tc_receiver := rx'\<rparr>, d)
      | (Err _, rx') \<Rightarrow> (Ok HandledEmpty, t\<lparr>ts_tc_receiver := rx'\<rparr>, d)))"

subsection \<open>Numbering\<close>

text \<open>
  What the code relies on: setting a field of a telemetry packet and writing its checksum leave the other
  fields alone, and nothing resizes the packet. A sequence count fits when it is at most the maximum.
\<close>

definition zc_same :: "ZeroCopyWriter \<Rightarrow> bytes \<Rightarrow> bytes \<Rightarrow> bool" where
  "zc_same zc b b' \<longleftrightarrow>
     zc_new zc b' \<and> zc_apid zc b' = zc_apid zc b \<and> zc_service zc b' = zc_service zc b \<and> zc_rest zc b' = zc_rest zc b"

definition zc_ok :: "ZeroCopyWriter \<Rightarrow> bool" where
  "zc_ok zc \<longleftrightarrow>
     (\<forall>b. zc_new zc b \<longrightarrow>
        (\<forall>n \<le> zc_max_seq_count zc. zc_same zc b (zc_set_seq_count zc n b) \<and> zc_seq_count zc (zc_set_seq_count zc n b) = n) \<and>
        (\<forall>n. zc_same zc b (zc_set_msg_count zc n b) \<and> zc_seq_count zc (zc_set_msg_count zc n b) = zc_seq_count zc b \<and>
          zc_msg_count zc (zc_set_msg_count zc n b) = n) \<and>
        zc_same zc b (zc_finish zc b) \<and> zc_seq_count zc (zc_finish zc b) = zc_seq_count zc b \<and>
        zc_msg_count zc (zc_finish zc b) = zc_msg_count zc b \<and> zc_checksum_ok zc (zc_finish zc b)) \<and>
     (\<forall>b n. length (zc_set_seq_count zc n b) = length b \<and> length (zc_set_msg_count zc n b) = length b \<and>
        length (zc_finish zc b) = length b)"

text \<open>The counters after the packets \<open>bs\<close>, and the packet \<open>b\<close> with its counts after them.\<close>

definition funnel_inv :: "ZeroCopyWriter \<Rightarrow> TmFunnelCommon \<Rightarrow> bytes list \<Rightarrow> bool" where
  "funnel_inv zc c bs \<longleftrightarrow>
     (\<forall>a. let p = (case seq_counter_map c a of Some p \<Rightarrow> p | None \<Rightarrow> CcsdsSimpleSeqCountProvider_default (zc_max_seq_count zc))
          in max_val p = zc_max_seq_count zc \<and>
             unat (seq_count p) = count_list (map (zc_apid zc) bs) a mod (unat (zc_max_seq_count zc) + 1)) \<and>
     (\<forall>s. (case msg_counter_map c s of Some e \<Rightarrow> e | None \<Rightarrow> 0) = of_nat (count_list (map (zc_service zc) bs) s))"

definition numbered :: "ZeroCopyWriter \<Rightarrow> bytes list \<Rightarrow> bytes \<Rightarrow> bytes \<Rightarrow> bool" where
  "numbered zc bs b b' \<longleftrightarrow> zc_same zc b b' \<and> zc_checksum_ok zc b' \<and>
     unat (zc_seq_count zc b') = count_list (map (zc_apid zc) bs) (zc_apid zc b) mod (unat (zc_max_seq_count zc) + 1) \<and>
     zc_msg_count zc b' = of_nat (count_list (map (zc_service zc) bs) (zc_service zc b))"

lemma funnel_inv_new: "funnel_inv zc (TmFunnelCommon_new src) []"
  by (simp add: funnel_inv_def TmFunnelCommon_new_def CcsdsSimpleSeqCountProvider_default_def
      SeqCountProviderSimple_new_custom_max_val_def)

lemma count_mod_step:
  assumes "unat v = n mod (unat m + 1)"
  shows "unat (if v = m then 0 else v + 1) = Suc n mod (unat m + 1)" "v \<le> (m :: u16)"
proof -
  have lt: "n mod (unat m + 1) < unat m + 1" by simp
  then show le: "v \<le> m" using assms by (simp add: word_le_nat_alt)
  show "unat (if v = m then 0 else v + 1) = Suc n mod (unat m + 1)"
  proof (cases "v = m")
    case True
    then have "Suc (n mod (unat m + 1)) = unat m + 1" using assms by simp
    then show ?thesis using True by (simp add: mod_Suc)
  next
    case False
    then have "n mod (unat m + 1) \<noteq> unat m" using assms by (metis word_unat_eq_iff)
    then show ?thesis using False succ_mod_bound(1) [OF le] assms by (simp add: mod_Suc)
  qed
qed

lemma seq_counter_step:
  assumes "funnel_inv zc c bs"
  obtains n m where
    "CcsdsSeqCounterMap_get_and_increment (zc_max_seq_count zc) (seq_counter_map c) (zc_apid zc b) = (Ok n, m)"
    "n \<le> zc_max_seq_count zc"
    "unat n = count_list (map (zc_apid zc) bs) (zc_apid zc b) mod (unat (zc_max_seq_count zc) + 1)"
    "\<And>a. let p = (case m a of Some p \<Rightarrow> p | None \<Rightarrow> CcsdsSimpleSeqCountProvider_default (zc_max_seq_count zc))
      in max_val p = zc_max_seq_count zc \<and>
        unat (seq_count p) = count_list (map (zc_apid zc) (bs @ [b])) a mod (unat (zc_max_seq_count zc) + 1)"
proof -
  let ?p = "case seq_counter_map c (zc_apid zc b) of Some p \<Rightarrow> p | None \<Rightarrow> CcsdsSimpleSeqCountProvider_default (zc_max_seq_count zc)"
  have p: "max_val ?p = zc_max_seq_count zc"
      "unat (seq_count ?p) = count_list (map (zc_apid zc) bs) (zc_apid zc b) mod (unat (zc_max_seq_count zc) + 1)"
    using assms unfolding funnel_inv_def Let_def by blast+
  note step = count_mod_step [OF p(2)]
  obtain p' where p': "SeqCountProviderSimple_get_and_increment ?p = (Ok (seq_count ?p), p')" "max_val p' = max_val ?p"
      "seq_count p' = (if seq_count ?p = max_val ?p then 0 else seq_count ?p + 1)"
    using simple_counter.next_count [of ?p] step(2) p(1) by auto
  show thesis
  proof (rule that [of "seq_count ?p" "(seq_counter_map c)(zc_apid zc b \<mapsto> p')"])
    fix a
    show "let p = (case ((seq_counter_map c)(zc_apid zc b \<mapsto> p')) a of Some p \<Rightarrow> p
            | None \<Rightarrow> CcsdsSimpleSeqCountProvider_default (zc_max_seq_count zc))
      in max_val p = zc_max_seq_count zc \<and>
        unat (seq_count p) = count_list (map (zc_apid zc) (bs @ [b])) a mod (unat (zc_max_seq_count zc) + 1)"
      using assms p' p(1) step(1) unfolding funnel_inv_def by (cases "a = zc_apid zc b") (auto simp: Let_def)
  qed (use p p' step(2) in \<open>simp_all add: CcsdsSeqCounterMap_get_and_increment_def\<close>)
qed

lemma process_tm_numbered:
  assumes "zc_ok zc" "funnel_inv zc c bs" "zc_new zc b"
  obtains c' b' where "process_tm zc c b = (Ok (), c', b')" "funnel_inv zc c' (bs @ [b])"
    "sync_tm_tcp_source c' = sync_tm_tcp_source c" "numbered zc bs b b'"
proof -
  obtain n m where nm: "CcsdsSeqCounterMap_get_and_increment (zc_max_seq_count zc) (seq_counter_map c) (zc_apid zc b) = (Ok n, m)"
      "n \<le> zc_max_seq_count zc"
      "unat n = count_list (map (zc_apid zc) bs) (zc_apid zc b) mod (unat (zc_max_seq_count zc) + 1)"
      "\<And>a. let p = (case m a of Some p \<Rightarrow> p | None \<Rightarrow> CcsdsSimpleSeqCountProvider_default (zc_max_seq_count zc))
        in max_val p = zc_max_seq_count zc \<and>
          unat (seq_count p) = count_list (map (zc_apid zc) (bs @ [b])) a mod (unat (zc_max_seq_count zc) + 1)"
    using seq_counter_step [OF assms(2), of b thesis] by blast
  let ?s = "zc_service zc b"
  define e where "e = (case msg_counter_map c ?s of Some e \<Rightarrow> e | None \<Rightarrow> 0)"
  have e: "e = of_nat (count_list (map (zc_service zc) bs) ?s)" using assms(2) by (simp add: funnel_inv_def e_def)
  let ?b1 = "zc_set_seq_count zc n b"
  let ?b2 = "zc_set_msg_count zc e ?b1"
  have b1: "zc_same zc b ?b1" "zc_seq_count zc ?b1 = n" using assms(1,3) nm(2) unfolding zc_ok_def by blast+
  have b2: "zc_same zc ?b1 ?b2" "zc_seq_count zc ?b2 = n" "zc_msg_count zc ?b2 = e"
    using assms(1) b1 unfolding zc_ok_def zc_same_def by metis+
  have b3: "zc_same zc ?b2 (zc_finish zc ?b2)" "zc_seq_count zc (zc_finish zc ?b2) = n" "zc_msg_count zc (zc_finish zc ?b2) = e"
      "zc_checksum_ok zc (zc_finish zc ?b2)"
    using assms(1) b2 unfolding zc_ok_def zc_same_def by metis+
  have succ: "(if e = - 1 then Ok 0 else word_succ_checked e) = (Ok (e + 1) :: (unit, u16) res)"
    by (simp add: word_succ_checked_def)
  let ?c = "c\<lparr>seq_counter_map := m, msg_counter_map := (msg_counter_map c)(?s \<mapsto> e + 1)\<rparr>"
  have "process_tm zc c b = (Ok (), ?c, zc_finish zc ?b2)"
    using assms(3) nm(1) b1(1) succ by (simp add: process_tm_def apply_packet_processing_def zc_same_def e_def [symmetric])
  moreover have "funnel_inv zc ?c (bs @ [b])"
    using nm(4) assms(2) e unfolding funnel_inv_def by (simp add: Let_def)
  moreover have "numbered zc bs b (zc_finish zc ?b2)"
    using b1 b2 b3 nm(3) e by (simp add: numbered_def zc_same_def)
  ultimately show thesis using that [of ?c "zc_finish zc ?b2"] by simp
qed

lemma process_tm_length: "zc_ok zc \<Longrightarrow> length (snd (snd (process_tm zc c b))) = length b"
  by (auto simp: process_tm_def apply_packet_processing_def zc_ok_def Let_def res_try_case split: prod.splits res.splits)

text \<open>The queue of the TCP server after the packets \<open>tms\<close>: one packet more than its maximum.\<close>

definition tcp_queue :: "nat \<Rightarrow> bytes list \<Rightarrow> bytes list" where
  "tcp_queue n tms = drop (length tms - (n + 1)) tms"

lemma tcp_queue_step:
  "(if length (tcp_queue n tms) > n then tl (tcp_queue n tms) else tcp_queue n tms) @ [tm] = tcp_queue n (tms @ [tm])"
proof (cases "n < length tms")
  case True
  then have "length tms - n = Suc (length tms - Suc n)" by simp
  then show ?thesis using True by (simp add: tcp_queue_def tl_drop [symmetric] drop_Suc)
qed (simp add: tcp_queue_def)

lemma funnel_inv_tcp [simp]: "funnel_inv zc (c\<lparr>sync_tm_tcp_source := s\<rparr>) bs = funnel_inv zc c bs"
  by (simp add: funnel_inv_def)

subsection \<open>The dynamic sink\<close>

text \<open>Turns of the sink, until one does not end regularly.\<close>

fun sink_run :: "ZeroCopyWriter \<Rightarrow> nat \<Rightarrow> TmSinkDynamic \<times> PacketAsVec net \<Rightarrow>
    ((unit, unit) res \<times> TmSinkDynamic \<times> PacketAsVec net) option" where
  "sink_run zc 0 kw = Some (Ok (), kw)"
| "sink_run zc (Suc n) kw =
     (case TmSinkDynamic_operation zc kw of
        Some (Ok _, kw') \<Rightarrow> sink_run zc n kw'
      | other \<Rightarrow> other)"

definition sink_inv :: "ZeroCopyWriter \<Rightarrow> nat \<Rightarrow> bytes list \<Rightarrow> bytes list \<Rightarrow> TmFunnelCommon \<Rightarrow> bool" where
  "sink_inv zc n bs tms c \<longleftrightarrow> funnel_inv zc c bs \<and> \<not> tm_queue_poisoned (sync_tm_tcp_source c) \<and>
     max_packets_stored (sync_tm_tcp_source c) = n \<and> tm_queue (sync_tm_tcp_source c) = tcp_queue n tms"

lemma sink_inv_new: "sink_inv zc n [] [] (TmFunnelCommon_new (SyncTcpTmSource_new n))"
  by (simp add: sink_inv_def funnel_inv_new) (simp add: TmFunnelCommon_new_def SyncTcpTmSource_new_def tcp_queue_def)

lemma sink_inv_step:
  assumes "zc_ok zc" "sink_inv zc n bs tms c" "zc_new zc b"
  obtains c1 c2 b' where "process_tm zc c b = (Ok (), c1, b')" "numbered zc bs b b'"
    "TmFunnelCommon_add_tm c1 b' = (Ok (), c2)" "sink_inv zc n (bs @ [b]) (tms @ [b']) c2"
proof -
  obtain c1 b' where c1: "process_tm zc c b = (Ok (), c1, b')" "funnel_inv zc c1 (bs @ [b])"
      "sync_tm_tcp_source c1 = sync_tm_tcp_source c" "numbered zc bs b b'"
    using process_tm_numbered [OF assms(1) _ assms(3)] assms(2) unfolding sink_inv_def by metis
  let ?src = "sync_tm_tcp_source c"
  let ?c2 = "c1\<lparr>sync_tm_tcp_source := ?src\<lparr>tm_queue := tcp_queue n (tms @ [b'])\<rparr>\<rparr>"
  have "TmFunnelCommon_add_tm c1 b' = (Ok (), ?c2)"
    using assms(2) tcp_queue_step [of n tms b']
    by (auto simp: TmFunnelCommon_add_tm_def SyncTcpTmSource_add_tm_def sink_inv_def c1(3) Let_def)
  moreover have "sink_inv zc n (bs @ [b]) (tms @ [b']) ?c2"
    using assms(2) c1(2) by (simp add: sink_inv_def)
  ultimately show thesis using that c1(1,4) by blast
qed

lemma dynamic_operation:
  assumes "zc_ok zc" "sink_inv zc n bs tms (dyn_common k)" "zc_new zc (pav_packet tm)"
    and "ch_queue (w (dyn_tm_funnel_rx k)) = tm # q" "dyn_tm_funnel_rx k \<noteq> dyn_tm_server_tx k" "rx_alive (w (dyn_tm_server_tx k))"
  obtains b' c w' where "numbered zc bs (pav_packet tm) b'" "sink_inv zc n (bs @ [pav_packet tm]) (tms @ [b']) c"
    "TmSinkDynamic_operation zc (k, w) = Some (Ok (), k\<lparr>dyn_common := c\<rparr>, w')"
    "w' = w(dyn_tm_funnel_rx k := (w (dyn_tm_funnel_rx k))\<lparr>ch_queue := q\<rparr>, dyn_tm_server_tx k :=
       (w (dyn_tm_server_tx k))\<lparr>ch_queue := ch_queue (w (dyn_tm_server_tx k)) @ [tm\<lparr>pav_packet := b'\<rparr>]\<rparr>)"
proof -
  obtain c1 c2 b' where b': "process_tm zc (dyn_common k) (pav_packet tm) = (Ok (), c1, b')" "numbered zc bs (pav_packet tm) b'"
      "TmFunnelCommon_add_tm c1 b' = (Ok (), c2)" "sink_inv zc n (bs @ [pav_packet tm]) (tms @ [b']) c2"
    by (rule sink_inv_step [OF assms(1-3)])
  show thesis
    by (rule that [OF b'(2,4) _ refl])
      (use assms(4-) b' in \<open>simp add: TmSinkDynamic_operation_def mpsc_recv_def chan_defs\<close>)
qed

lemma sink_run_numbered:
  assumes "zc_ok zc" "rx \<noteq> tx"
    and "ch_queue (w rx) = q" "\<forall>tm\<in>set q. zc_new zc (pav_packet tm)" "rx_alive (w tx)" "sink_inv zc n bs tms (dyn_common k)"
      "dyn_tm_funnel_rx k = rx" "dyn_tm_server_tx k = tx"
  shows "\<exists>k' w' out. sink_run zc (length q) (k, w) = Some (Ok (), k', w') \<and> ch_queue (w' rx) = [] \<and>
    ch_queue (w' tx) = ch_queue (w tx) @ out \<and> length out = length q \<and>
    (\<forall>i < length out. pav_sender_id (out ! i) = pav_sender_id (q ! i) \<and>
      numbered zc (bs @ map pav_packet (take i q)) (pav_packet (q ! i)) (pav_packet (out ! i))) \<and>
    tm_queue (sync_tm_tcp_source (dyn_common k')) = tcp_queue n (tms @ map pav_packet out)"
  using assms(3-)
proof (induction q arbitrary: k w bs tms)
  case Nil
  then show ?case by (auto simp: sink_inv_def)
next
  case (Cons tm q)
  obtain b' c w1 where 1: "numbered zc bs (pav_packet tm) b'" "sink_inv zc n (bs @ [pav_packet tm]) (tms @ [b']) c"
      "TmSinkDynamic_operation zc (k, w) = Some (Ok (), k\<lparr>dyn_common := c\<rparr>, w1)"
      "w1 = w(rx := (w rx)\<lparr>ch_queue := q\<rparr>, tx := (w tx)\<lparr>ch_queue := ch_queue (w tx) @ [tm\<lparr>pav_packet := b'\<rparr>]\<rparr>)"
    using dynamic_operation [OF assms(1) Cons.prems(4), of tm w q] Cons.prems assms(2) by auto
  have w1: "ch_queue (w1 rx) = q" "rx_alive (w1 tx)" "ch_queue (w1 tx) = ch_queue (w tx) @ [tm\<lparr>pav_packet := b'\<rparr>]"
      "\<forall>tm\<in>set q. zc_new zc (pav_packet tm)" "dyn_tm_funnel_rx (k\<lparr>dyn_common := c\<rparr>) = rx" "dyn_tm_server_tx (k\<lparr>dyn_common := c\<rparr>) = tx"
      "sink_inv zc n (bs @ [pav_packet tm]) (tms @ [b']) (dyn_common (k\<lparr>dyn_common := c\<rparr>))"
    using 1(2,4) Cons.prems assms(2) by simp_all
  obtain k' w' out where 2: "sink_run zc (length q) (k\<lparr>dyn_common := c\<rparr>, w1) = Some (Ok (), k', w')" "ch_queue (w' rx) = []"
      "ch_queue (w' tx) = ch_queue (w1 tx) @ out" "length out = length q"
      "\<forall>i < length out. pav_sender_id (out ! i) = pav_sender_id (q ! i) \<and>
        numbered zc ((bs @ [pav_packet tm]) @ map pav_packet (take i q)) (pav_packet (q ! i)) (pav_packet (out ! i))"
      "tm_queue (sync_tm_tcp_source (dyn_common k')) = tcp_queue n ((tms @ [b']) @ map pav_packet out)"
    using Cons.IH [OF w1(1,4,2,7,5,6)] by blast
  show ?case
    using 1(1,3) 2 w1(3)
    by (intro exI [of _ k'] exI [of _ w'] exI [of _ "tm\<lparr>pav_packet := b'\<rparr> # out"]) (auto simp: nth_Cons split: nat.splits)
qed

text \<open>
  C10: the telemetry sink numbers all telemetry. From its start, whatever packets it gets, it forwards
  each of them, in order and from its sender, unchanged but for the counts and a right checksum: the
  sequence count is the number of earlier packets with the same APID, wrapping at the 14-bit maximum, and
  the message count is the number of earlier packets of the same service, wrapping at 16 bits. The queue
  of the TCP server holds the last of them, one more than its configured maximum.
\<close>

theorem tm_sink_counters:
  assumes "zc_ok zc" "rx \<noteq> tx" "rx_alive (w tx)" "\<forall>tm\<in>set (ch_queue (w rx)). zc_new zc (pav_packet tm)"
  shows "\<exists>k' w' out. sink_run zc (length (ch_queue (w rx))) (TmSinkDynamic_new (SyncTcpTmSource_new n) rx tx, w) = Some (Ok (), k', w') \<and>
    ch_queue (w' rx) = [] \<and> ch_queue (w' tx) = ch_queue (w tx) @ out \<and>
    length out = length (ch_queue (w rx)) \<and>
    (\<forall>i < length out. pav_sender_id (out ! i) = pav_sender_id (ch_queue (w rx) ! i) \<and>
      numbered zc (map pav_packet (take i (ch_queue (w rx)))) (pav_packet (ch_queue (w rx) ! i)) (pav_packet (out ! i))) \<and>
    tm_queue (sync_tm_tcp_source (dyn_common k')) = tcp_queue n (map pav_packet out)"
  using sink_run_numbered [OF assms(1,2) refl assms(4,3), of n "[]" "[]" "TmSinkDynamic_new (SyncTcpTmSource_new n) rx tx"]
    sink_inv_new [of zc n] by (simp add: TmSinkDynamic_new_def)

subsection \<open>A session with the TCP server\<close>

interpretation tcp_source: packet_source SyncTcpTmSource_retrieve_packet tm_queue "\<lambda>s. \<not> tm_queue_poisoned s"
  by unfold_locales (auto simp: SyncTcpTmSource_retrieve_packet_def)

lemma send_all_append:
  "send_all send i s (ps @ qs) = (let (r, s') = send_all send i s ps in res_try r s' (\<lambda>_. send_all send i s' qs))"
proof (induction ps arbitrary: s)
  case (Cons p ps)
  then show ?case by (cases "send s i p"; cases "fst (send s i p)") (auto simp: Let_def split: prod.splits)
qed simp

lemma send_all_append_Ok:
  assumes "send_all send i s (ps @ qs) = (Ok (), s')"
  obtains s1 where "send_all send i s ps = (Ok (), s1)" "send_all send i s1 qs = (Ok (), s')"
  using assms by (cases "send_all send i s ps"; cases "fst (send_all send i s ps)") (auto simp: send_all_append)

text \<open>The environment of the TCP server of the example: space packets, and the queue of the sink.\<close>

definition sp_server_env ::
    "'h SpHeaderOps \<Rightarrow> ('h \<Rightarrow> bytes \<Rightarrow> SpValidity) \<Rightarrow>
     ('fh, SyncTcpTmSource, 's, unit, 'a, 'st, unit, 'e) TcpEnv \<Rightarrow> bool" where
  "sp_server_env sph validate env \<longleftrightarrow> tcp_parser env = sp_handle_tc_parsing sph validate \<and>
     tcp_tm_sender env = SpacepacketsTmSender_handle_tm_sending (tcp_stream env) SyncTcpTmSource_retrieve_packet \<and>
     tcp_stop_signal env = None"

lemma server_drained:
  assumes "stream_ok (tcp_stream env) pending written" "sp_server_env sph validate env"
    and "\<not> tm_queue_poisoned (srv_tm_source k)"
    and "\<forall>p\<in>set (tm_queue (srv_tm_source k)). p \<noteq> [] \<and> length p \<le> length (srv_tm_buffer k)"
  obtains b buf src st' where "server_send_tm env k info st =
      Some (Ok b, k\<lparr>srv_tm_handler := (), srv_tm_buffer := buf, srv_tm_source := src\<rparr>,
        info\<lparr>num_sent_tms := num_sent_tms info + of_nat (length (tm_queue (srv_tm_source k)))\<rparr>, st')"
    "length buf = length (srv_tm_buffer k)" "\<not> tm_queue_poisoned src" "tm_queue src = []" "pending st' = pending st"
    "written st' = written st @ concat (tm_queue (srv_tm_source k))"
proof -
  let ?q = "tm_queue (srv_tm_source k)"
  obtain buf src st' where d: "tcp_tm_sender env () (srv_tm_buffer k) (srv_tm_source k) info st =
      Some (Ok (False \<or> ?q \<noteq> []), (), buf, src, info\<lparr>num_sent_tms := num_sent_tms info + of_nat (length ?q)\<rparr>, st')"
      "length buf = length (srv_tm_buffer k)" "\<not> tm_queue_poisoned src" "tm_queue src = []" "pending st' = pending st"
      "written st' = written st @ concat ?q"
    using tcp_source.sp_drained [OF assms(1,3,4), of False "()" info st] assms(2)
    unfolding sp_server_env_def SpacepacketsTmSender_handle_tm_sending_def by fastforce
  show thesis by (rule that [OF _ d(2-)]) (simp add: server_send_tm_def d(1))
qed

text \<open>A script of bursts, each followed by a moment without data; each is the packets \<open>ps\<close> in any chunks.\<close>

definition burst_ok :: "'h SpHeaderOps \<Rightarrow> ('h \<Rightarrow> bytes \<Rightarrow> SpValidity) \<Rightarrow> nat \<Rightarrow> bytes list \<Rightarrow> bytes list \<Rightarrow> bool" where
  "burst_ok sph validate n ds ps \<longleftrightarrow> [] \<notin> set ds \<and> concat ds = concat ps \<and> length (concat ps) < n \<and>
     (\<forall>p\<in>set ps. valid_packet sph validate p)"

definition bursts :: "bytes list list \<Rightarrow> tcp_event list" where
  "bursts dss = concat (map (\<lambda>ds. map TcpData ds @ [TcpBlock]) dss)"

lemma bursts_simps [simp]: "bursts [] = []" "bursts (ds # dss) = map TcpData ds @ TcpBlock # bursts dss"
  by (simp_all add: bursts_def)

lemma session_loop:
  fixes k :: "('fh, SyncTcpTmSource, 's, unit) TcpTmtcGenericServer"
  assumes "stream_ok (tcp_stream env) pending written" "sp_server_env sph validate env"
    and "list_all2 (burst_ok sph validate N) dss pss" "length (srv_tc_buffer k) = N" "pending st = bursts dss"
    and "send_all (tcp_send env) (srv_id k) (srv_tc_sender k) (concat pss) = (Ok (), s')"
    and "\<not> tm_queue_poisoned (srv_tm_source k)"
    and "\<forall>p\<in>set (tm_queue (srv_tm_source k)). p \<noteq> [] \<and> length p \<le> length (srv_tm_buffer k)"
  shows "\<exists>k1 st1 n. connection_loop env k st info 0 0 =
      Some (Ok False, k1, st1, info\<lparr>num_received_tcs := num_received_tcs info + of_nat (length (concat pss)),
        num_sent_tms := num_sent_tms info + of_nat n\<rparr>) \<and>
    srv_tc_sender k1 = s' \<and> finished_handler k1 = finished_handler k \<and> \<not> tm_queue_poisoned (srv_tm_source k1) \<and>
    length (srv_tm_buffer k1) = length (srv_tm_buffer k) \<and>
    n + length (tm_queue (srv_tm_source k1)) = length (tm_queue (srv_tm_source k)) \<and>
    (\<forall>p\<in>set (tm_queue (srv_tm_source k1)). p \<noteq> [] \<and> length p \<le> length (srv_tm_buffer k)) \<and>
    written st1 @ concat (tm_queue (srv_tm_source k1)) = written st @ concat (tm_queue (srv_tm_source k))"
  using assms(3-)
proof (induction dss pss arbitrary: k st info rule: list_all2_induct)
  case Nil
  then have none: "pending st = []" "srv_tc_sender k = s'" by simp_all
  obtain st1 where "written st1 = written st" "connection_loop env k st info 0 0 = Some (Ok False, k, st1, info)"
    using close_step [OF assms(1) none(1), of k info 0] by blast
  then show ?case using Nil none(2) by (intro exI [of _ k] exI [of _ st1] exI [of _ 0]) simp
next
  case (Cons ds dss ps pss)
  have d: "[] \<notin> set ds" "concat ds = concat (map (\<lambda>p. p) ps)" "length (concat ds) < length (srv_tc_buffer k)"
      "\<forall>p\<in>set ps. valid_packet sph validate p"
    using Cons.hyps(1) Cons.prems(1) by (simp_all add: burst_ok_def)
  have pend: "pending st = map TcpData ds @ TcpBlock # bursts dss" using Cons.prems(2) by simp
  have env: "tcp_parser env = sp_handle_tc_parsing sph validate" "tcp_stop_signal env = None"
    using assms(2) by (simp_all add: sp_server_env_def)
  obtain s1 where s1: "send_all (tcp_send env) (srv_id k) (srv_tc_sender k) ps = (Ok (), s1)"
      "send_all (tcp_send env) (srv_id k) s1 (concat pss) = (Ok (), s')"
    using Cons.prems(3) by (auto elim: send_all_append_Ok)
  let ?i1 = "info\<lparr>num_received_tcs := num_received_tcs info + of_nat (length ps)\<rparr>"
  obtain buf st0 where st0: "length buf = length (srv_tc_buffer k)" "pending st0 = bursts dss" "written st0 = written st"
      "\<And>b k2 info2 st2. server_send_tm env (k\<lparr>srv_tc_buffer := buf, srv_tc_sender := s1\<rparr>) ?i1 st0 = Some (Ok b, k2, info2, st2) \<Longrightarrow>
        connection_loop env k st info 0 0 = connection_loop env k2 st2 info2 0 0"
    using sp_parser.burst_parsed [OF assms(1) env pend d s1(1), of info 0] by metis
  let ?k1 = "k\<lparr>srv_tc_buffer := buf, srv_tc_sender := s1\<rparr>"
  let ?q = "tm_queue (srv_tm_source k)"
  obtain b tmb src st1 where st1: "server_send_tm env ?k1 ?i1 st0 =
      Some (Ok b, ?k1\<lparr>srv_tm_handler := (), srv_tm_buffer := tmb, srv_tm_source := src\<rparr>, ?i1\<lparr>num_sent_tms := num_sent_tms ?i1 + of_nat (length ?q)\<rparr>, st1)"
      "length tmb = length (srv_tm_buffer k)" "\<not> tm_queue_poisoned src" "tm_queue src = []" "pending st1 = pending st0"
      "written st1 = written st0 @ concat ?q"
    by (rule server_drained [OF assms(1,2), where k = ?k1 and info = ?i1 and st = st0]) (use Cons.prems(4,5) in simp_all)
  let ?k2 = "?k1\<lparr>srv_tm_handler := (), srv_tm_buffer := tmb, srv_tm_source := src\<rparr>"
  note loop = st0(4) [OF st1(1)]
  have k2: "list_all2 (burst_ok sph validate N) dss pss" "length (srv_tc_buffer ?k2) = N" "pending st1 = bursts dss"
      "send_all (tcp_send env) (srv_id ?k2) (srv_tc_sender ?k2) (concat pss) = (Ok (), s')" "\<not> tm_queue_poisoned (srv_tm_source ?k2)"
      "\<forall>p\<in>set (tm_queue (srv_tm_source ?k2)). p \<noteq> [] \<and> length p \<le> length (srv_tm_buffer ?k2)"
    using Cons.hyps(2) Cons.prems(1) st0(1,2) st1(2-5) s1(2) by simp_all
  let ?i2 = "?i1\<lparr>num_sent_tms := num_sent_tms ?i1 + of_nat (length ?q)\<rparr>"
  obtain k3 st3 n where 3: "connection_loop env ?k2 st1 ?i2 0 0 =
      Some (Ok False, k3, st3, ?i2\<lparr>num_received_tcs := num_received_tcs ?i2 + of_nat (length (concat pss)),
        num_sent_tms := num_sent_tms ?i2 + of_nat n\<rparr>)"
      "srv_tc_sender k3 = s'" "finished_handler k3 = finished_handler ?k2" "\<not> tm_queue_poisoned (srv_tm_source k3)"
      "length (srv_tm_buffer k3) = length (srv_tm_buffer ?k2)"
      "n + length (tm_queue (srv_tm_source k3)) = length (tm_queue (srv_tm_source ?k2))"
      "written st3 @ concat (tm_queue (srv_tm_source k3)) = written st1 @ concat (tm_queue (srv_tm_source ?k2))"
    using Cons.IH [OF k2(2-), of ?i2] by blast
  have n: "n = 0" "tm_queue (srv_tm_source k3) = []" using 3(6) st1(4) by simp_all
  show ?case
    by (rule exI [of _ k3], rule exI [of _ st3], rule exI [of _ "length ?q"])
      (use 3 n st0(3) st1(2,4,6) in \<open>simp add: loop add_ac\<close>)
qed

text \<open>
  C8: a session with the TCP server of the example. A client sends any number of bursts of whole space
  packets, each in arbitrary chunks and smaller than the telecommand buffer, and closes the connection.
  Then exactly the packets were handed to the packet sender, in order, the queued telemetry was sent to
  the client, in order, and the handler of finished connections got the right counts.
\<close>

theorem tcp_session:
  fixes k :: "('fh, SyncTcpTmSource, 's, unit) TcpTmtcGenericServer"
  assumes "stream_ok (tcp_stream env) pending written" "sp_server_env sph validate env"
    and "list_all2 (burst_ok sph validate (length (srv_tc_buffer k))) dss pss" "pending st = bursts dss"
    and "send_all (tcp_send env) (srv_id k) (srv_tc_sender k) (concat pss) = (Ok (), s')"
    and "\<not> tm_queue_poisoned (srv_tm_source k)"
    and "\<forall>p\<in>set (tm_queue (srv_tm_source k)). p \<noteq> [] \<and> length p \<le> length (srv_tm_buffer k)"
  shows "\<exists>k' st'. handle_accepted_connection env k st client = Some (Ok (), k', st') \<and> srv_tc_sender k' = s' \<and>
    tm_queue (srv_tm_source k') = [] \<and> written st' = written st @ concat (tm_queue (srv_tm_source k)) \<and>
    finished_handler k' = tcp_finished env (finished_handler k)
      \<lparr>conn_addr = client, num_received_tcs = of_nat (length (concat pss)),
       num_sent_tms = of_nat (length (tm_queue (srv_tm_source k))), stopped_by_signal = False\<rparr>"
proof -
  let ?info = "HandledConnectionInfo_new client"
  obtain k1 st1 n where 1: "connection_loop env k st ?info 0 0 =
      Some (Ok False, k1, st1, ?info\<lparr>num_received_tcs := num_received_tcs ?info + of_nat (length (concat pss)),
        num_sent_tms := num_sent_tms ?info + of_nat n\<rparr>)"
      "srv_tc_sender k1 = s'" "finished_handler k1 = finished_handler k" "\<not> tm_queue_poisoned (srv_tm_source k1)"
      "length (srv_tm_buffer k1) = length (srv_tm_buffer k)"
      "n + length (tm_queue (srv_tm_source k1)) = length (tm_queue (srv_tm_source k))"
      "\<forall>p\<in>set (tm_queue (srv_tm_source k1)). p \<noteq> [] \<and> length p \<le> length (srv_tm_buffer k)"
      "written st1 @ concat (tm_queue (srv_tm_source k1)) = written st @ concat (tm_queue (srv_tm_source k))"
    using session_loop [where k = k and st = st and info = ?info, OF assms(1-3) refl assms(4-)] by blast
  let ?i1 = "?info\<lparr>num_received_tcs := num_received_tcs ?info + of_nat (length (concat pss)),
        num_sent_tms := num_sent_tms ?info + of_nat n\<rparr>"
  obtain b tmb src st2 where 2: "server_send_tm env k1 ?i1 st1 =
      Some (Ok b, k1\<lparr>srv_tm_handler := (), srv_tm_buffer := tmb, srv_tm_source := src\<rparr>,
        ?i1\<lparr>num_sent_tms := num_sent_tms ?i1 + of_nat (length (tm_queue (srv_tm_source k1)))\<rparr>, st2)"
      "tm_queue src = []" "written st2 = written st1 @ concat (tm_queue (srv_tm_source k1))"
    by (rule server_drained [OF assms(1,2), where k = k1 and info = ?i1 and st = st1]) (use 1(4,5,7) in simp_all)
  have sum: "(of_nat n + of_nat (length (tm_queue (srv_tm_source k1))) :: u32) = of_nat (length (tm_queue (srv_tm_source k)))"
    using 1(6) by (metis of_nat_add)
  let ?k2 = "k1\<lparr>srv_tm_handler := (), srv_tm_buffer := tmb, srv_tm_source := src\<rparr>"
  let ?i2 = "?i1\<lparr>num_sent_tms := num_sent_tms ?i1 + of_nat (length (tm_queue (srv_tm_source k1)))\<rparr>"
  have "handle_accepted_connection env k st client =
      Some (Ok (), ?k2\<lparr>finished_handler := tcp_finished env (finished_handler ?k2) ?i2\<rparr>, st2)"
    by (simp add: handle_accepted_connection_def 1(1) 2(1))
  moreover have "?i2 = \<lparr>conn_addr = client, num_received_tcs = of_nat (length (concat pss)),
       num_sent_tms = of_nat (length (tm_queue (srv_tm_source k))), stopped_by_signal = False\<rparr>"
    using sum by (simp add: HandledConnectionInfo_new_def)
  ultimately show ?thesis using 1(2,3,8) 2(2,3)
    by (intro exI [of _ "?k2\<lparr>finished_handler := tcp_finished env (finished_handler ?k2) ?i2\<rparr>"] exI [of _ st2]) simp
qed

subsection \<open>The static sink\<close>

lemma stored_block_content:
  assumes "wf_pool p" "pool_content p v = Some d"
  shows "stored_block p v = d"
proof (rule content_SomeD [OF assms])
  fix a assume a: "StaticPoolAddr_from v = a" "addr_slot p a" "slot_size p a \<noteq> STORE_FREE"
    "d = take (slot_size p a) (drop (slot_pos p (unat (pool_idx a)) (unat (packet_idx a))) (pool p ! unat (pool_idx a)))"
  have i: "unat (pool_idx a) < length (pool p)" using a(2) wf_poolD(1) [OF assms(1)] by (simp add: valid_slot_def)
  have "addr_check p a = Ok (slot_size p a)" using a(3) by (simp add: addr_check_valid [OF assms(1) a(2)])
  moreover have "get (pool p) (unat (pool_idx a)) = Some (pool p ! unat (pool_idx a))" using i by (simp add: get_def)
  ultimately show ?thesis unfolding stored_block_def a(1) a(4) by (simp only: Let_def raw_pos_valid [OF a(2)] prod.case res.case option.case)
qed

text \<open>
  One turn of the sink that works on the pool: the packet is numbered in place, under its address, and
  every other packet stays; the address is handed on and the packet is queued for the TCP server.
\<close>

lemma static_operation:
  assumes "zc_ok zc" "sink_inv zc n bs tms (st_common k)" "shared_inv sh"
    and "shared_content sh (pip_store_addr m) = Some b" "zc_new zc b"
    and "ch_queue (w (st_tm_funnel_rx k)) = m # q" "st_tm_funnel_rx k \<noteq> st_tm_server_tx k"
    and "rx_alive (w (st_tm_server_tx k))" "length (ch_queue (w (st_tm_server_tx k))) < ch_bound (w (st_tm_server_tx k))"
  shows "\<exists>b' c w' sh'. TmSinkStatic_operation zc (k, w, sh) = Some (Ok (), k\<lparr>st_common := c\<rparr>, w', sh') \<and>
    numbered zc bs b b' \<and> sink_inv zc n (bs @ [b]) (tms @ [b']) c \<and> shared_inv sh' \<and>
    shared_content sh' = (shared_content sh)(pip_store_addr m \<mapsto> b') \<and>
    ch_queue (w' (st_tm_funnel_rx k)) = q \<and>
    ch_queue (w' (st_tm_server_tx k)) = ch_queue (w (st_tm_server_tx k)) @ [m]"
proof -
  let ?u = "\<lambda>buf. snd (snd (process_tm zc (st_common k) buf))"
  obtain c1 c2 b' where b': "process_tm zc (st_common k) b = (Ok (), c1, b')" "numbered zc bs b b'"
      "TmFunnelCommon_add_tm c1 b' = (Ok (), c2)" "sink_inv zc n (bs @ [b]) (tms @ [b']) c2"
    by (rule sink_inv_step [OF assms(1,2,5)])
  have inv: "pool_inv (locked_pool sh)" "\<not> lock_poisoned sh" using assms(3) by (simp_all add: shared_inv_def)
  obtain p' where p': "StaticMemoryPool_modify (locked_pool sh) (pip_store_addr m) ?u = (Ok (), p')" "pool_inv p'"
      "pool_content p' = (pool_content (locked_pool sh))(pip_store_addr m \<mapsto> b')"
    using static_pool.modify_some [where u = ?u, OF inv(1) process_tm_length [OF assms(1)] assms(4)] b'(1) by auto
  have blk: "stored_block (locked_pool sh) (pip_store_addr m) = b"
    using stored_block_content [OF _ assms(4)] inv(1) by (simp add: pool_inv_def)
  let ?ch = "\<lambda>h x. (w h)\<lparr>ch_queue := x\<rparr>"
  have "TmSinkStatic_operation zc (k, w, sh) = Some (Ok (), k\<lparr>st_common := c2\<rparr>,
      w(st_tm_funnel_rx k := ?ch (st_tm_funnel_rx k) q,
        st_tm_server_tx k := ?ch (st_tm_server_tx k) (ch_queue (w (st_tm_server_tx k)) @ [m])), sh\<lparr>locked_pool := p'\<rparr>)"
    using assms(6-) inv(2) p'(1) b'(1,3) blk
    by (simp add: TmSinkStatic_operation_def mpsc_recv_def mpsc_sync_send_def Let_def)
  moreover have "shared_inv (sh\<lparr>locked_pool := p'\<rparr>)"
      "shared_content (sh\<lparr>locked_pool := p'\<rparr>) = (shared_content sh)(pip_store_addr m \<mapsto> b')"
    using p'(2,3) inv(2) by (simp_all add: shared_inv_def)
  ultimately show ?thesis
    by (intro exI conjI) (assumption | rule b'(2,4) | use assms(7) in simp)+
qed

subsection \<open>Witnesses\<close>

text \<open>A telemetry packet with one byte for the APID, one for the service, four for the counts and a checksum byte.\<close>

definition demo_zc :: ZeroCopyWriter where
  "demo_zc =
     \<lparr>zc_new = (\<lambda>b. length b = 7), zc_apid = (\<lambda>b. ucast (b ! 0)), zc_service = (\<lambda>b. b ! 1),
      zc_set_seq_count = (\<lambda>n b. b[2 := to_be_bytes n ! 0, 3 := to_be_bytes n ! 1]),
      zc_set_msg_count = (\<lambda>n b. b[4 := to_be_bytes n ! 0, 5 := to_be_bytes n ! 1]),
      zc_finish = (\<lambda>b. b[6 := 1]), zc_max_seq_count = 1,
      zc_seq_count = (\<lambda>b. from_be_bytes [b ! 2, b ! 3]), zc_msg_count = (\<lambda>b. from_be_bytes [b ! 4, b ! 5]),
      zc_rest = (\<lambda>b. drop 7 b), zc_checksum_ok = (\<lambda>b. b ! 6 = 1)\<rparr>"

lemma demo_zc_ok: "zc_ok demo_zc"
proof -
  have w: "from_be_bytes [to_be_bytes n ! 0, to_be_bytes n ! 1] = n" for n :: u16
  proof -
    have "length (to_be_bytes n) = 2" by simp
    then have "[to_be_bytes n ! 0, to_be_bytes n ! 1] = to_be_bytes n"
      by (cases "to_be_bytes n" rule: list.exhaust; cases "tl (to_be_bytes n)" rule: list.exhaust) auto
    then show ?thesis by simp
  qed
  show ?thesis by (simp add: zc_ok_def zc_same_def demo_zc_def w [simplified])
qed

definition demo_tms :: "PacketAsVec list" where
  "demo_tms = map (PacketAsVec_new 4) [[1, 5, 0, 0, 0, 0, 0], [1, 3, 0, 0, 0, 0, 0], [1, 5, 0, 0, 0, 0, 0]]"

definition demo_tm_net :: "PacketAsVec net" where
  "demo_tm_net h = \<lparr>ch_queue = (if h = 0 then demo_tms else []), ch_bound = 0, rx_alive = True, tx_alive = True\<rparr>"

theorem tm_sink_counters_witness:
  "\<exists>k' w' out. sink_run demo_zc 3 (TmSinkDynamic_new (SyncTcpTmSource_new 1) 0 1, demo_tm_net) = Some (Ok (), k', w') \<and>
    ch_queue (w' 1) = out \<and> length out = 3 \<and> unat (zc_seq_count demo_zc (pav_packet (out ! 2))) = 0 \<and>
    zc_msg_count demo_zc (pav_packet (out ! 2)) = 1 \<and>
    tm_queue (sync_tm_tcp_source (dyn_common k')) = map pav_packet (tl out)"
proof -
  have q: "ch_queue (demo_tm_net 0) = demo_tms" "ch_queue (demo_tm_net (Suc 0)) = []" "length demo_tms = 3"
    by (simp_all add: demo_tm_net_def demo_tms_def)
  have new: "\<forall>tm\<in>set (ch_queue (demo_tm_net 0)). zc_new demo_zc (pav_packet tm)"
    by (simp add: q demo_tms_def demo_zc_def PacketAsVec_new_def)
  have alive: "rx_alive (demo_tm_net 1)" by (simp add: demo_tm_net_def)
  obtain k' w' out where r: "sink_run demo_zc 3 (TmSinkDynamic_new (SyncTcpTmSource_new 1) 0 1, demo_tm_net) = Some (Ok (), k', w')"
      "ch_queue (w' 1) = out" "length out = 3"
      "\<forall>i < length out. numbered demo_zc (map pav_packet (take i demo_tms)) (pav_packet (demo_tms ! i)) (pav_packet (out ! i))"
      "tm_queue (sync_tm_tcp_source (dyn_common k')) = tcp_queue 1 (map pav_packet out)"
    using tm_sink_counters [OF demo_zc_ok _ alive new, of 1] by (auto simp: q)
  have "numbered demo_zc (map pav_packet (take 2 demo_tms)) (pav_packet (demo_tms ! 2)) (pav_packet (out ! 2))" using r(3,4) by simp
  then have "unat (zc_seq_count demo_zc (pav_packet (out ! 2))) = 0" "zc_msg_count demo_zc (pav_packet (out ! 2)) = 1"
    by (simp_all add: numbered_def demo_tms_def PacketAsVec_new_def) (simp_all add: demo_zc_def)
  moreover have "tcp_queue 1 (map pav_packet out) = map pav_packet (tl out)"
    using r(3) by (simp add: tcp_queue_def drop_Suc map_tl)
  ultimately show ?thesis using r by auto
qed

definition demo_tm_source :: SyncTcpTmSource where
  "demo_tm_source = (SyncTcpTmSource_new 4)\<lparr>tm_queue := [[1, 2], [3]]\<rparr>"

theorem tcp_session_witness:
  "\<exists>k' st'. handle_accepted_connection
      (demo_tcp_env (sp_handle_tc_parsing demo_sph (\<lambda>_ _. SpValid))
        (SpacepacketsTmSender_handle_tm_sending demo_stream SyncTcpTmSource_retrieve_packet))
      (demo_server () demo_tm_source) ([TcpData [0, 0, 0], TcpData [0, 0, 0, 9], TcpBlock], []) 3 = Some (Ok (), k', st') \<and>
    srv_tc_sender k' = [[0, 0, 0, 0, 0, 0, 9]] \<and> snd st' = [1, 2, 3] \<and>
    finished_handler k' = [\<lparr>conn_addr = 3, num_received_tcs = 1, num_sent_tms = 2, stopped_by_signal = False\<rparr>]"
proof -
  let ?v = "\<lambda>_ _. SpValid"
  let ?env = "demo_tcp_env (sp_handle_tc_parsing demo_sph ?v)
        (SpacepacketsTmSender_handle_tm_sending demo_stream SyncTcpTmSource_retrieve_packet)"
  let ?k = "demo_server () demo_tm_source"
  have s: "stream_ok (tcp_stream ?env) fst snd" using demo_stream_ok by (simp add: demo_tcp_env_def)
  have e: "sp_server_env demo_sph ?v ?env" by (simp add: sp_server_env_def demo_tcp_env_def)
  have b: "list_all2 (burst_ok demo_sph ?v (length (srv_tc_buffer ?k))) [[[0, 0, 0], [0, 0, 0, 9]]] [[[0, 0, 0, 0, 0, 0, 9]]]"
    by (simp add: burst_ok_def demo_server_defs valid_packet_def demo_sph_def)
  have send: "send_all (tcp_send ?env) (srv_id ?k) (srv_tc_sender ?k) (concat [[[0, 0, 0, 0, 0, 0, 9]]]) =
      (Ok (), [[0, 0, 0, 0, 0, 0, 9]])"
    by (simp add: demo_server_defs)
  have q: "\<not> tm_queue_poisoned (srv_tm_source ?k)"
      "\<forall>p\<in>set (tm_queue (srv_tm_source ?k)). p \<noteq> [] \<and> length p \<le> length (srv_tm_buffer ?k)"
    by (simp_all add: demo_server_defs demo_tm_source_def SyncTcpTmSource_new_def)
  have k: "tm_queue (srv_tm_source ?k) = [[1, 2], [3]]" "finished_handler ?k = []" "tcp_finished ?env = (\<lambda>fh info. fh @ [info])"
    by (simp_all add: demo_server_defs demo_tm_source_def)
  have p: "fst ([TcpData [0, 0, 0], TcpData [0, 0, 0, 9], TcpBlock], []) = bursts [[[0, 0, 0], [0, 0, 0, 9]]]" by simp
  from tcp_session [OF s e b p send q, of 3] show ?thesis by (simp only: k) auto
qed

end
