(* ===== verification/Mgm_Handler.thy ===== *)
theory Mgm_Handler
  imports Tc_Distributor
begin

text \<open>
  The magnetometer handler of the example application (\<^verbatim>\<open>satrs-example/src/acs/mgm.rs\<close>) with what it
  stands on: the housekeeping helper (\<^verbatim>\<open>satrs-example/src/hk.rs\<close>), the power switch helper
  (\<^verbatim>\<open>satrs-example/src/eps/mod.rs\<close>) and the single precision arithmetic that scales the sensor values.
\<close>

subsection \<open>Shared state and request queues\<close>

text \<open>\<^verbatim>\<open>Arc<Mutex>\<close>: a value behind a lock, which panics on use once it is poisoned.\<close>

record 'a mutex =
  guarded :: 'a
  poisoned :: bool

definition lock_unwrap :: "'a mutex \<Rightarrow> ('e, 'a) res" where
  "lock_unwrap l = (if poisoned l then Panic else Ok (guarded l))"

text \<open>
  The loop both device handlers use for their request queues: requests are handled until the queue is
  empty. Any other receive error is logged and the queue is read again, so the loop may not end.
\<close>

partial_function (option) drain_requests ::
    "('st \<Rightarrow> (TryRecvError, 'm) res \<times> 'st) \<Rightarrow> ('m \<Rightarrow> 'st \<Rightarrow> (unit, unit) res \<times> 'st) \<Rightarrow> 'st \<Rightarrow>
     ((unit, unit) res \<times> 'st) option" where
  "drain_requests recv handle s =
     (case recv s of
        (Ok x, s1) \<Rightarrow> (case handle x s1 of
            (Ok _, s2) \<Rightarrow> drain_requests recv handle s2
          | (r, s2) \<Rightarrow> Some (r, s2))
      | (Err TryRecvEmpty, s1) \<Rightarrow> Some (Ok (), s1)
      | (Err TryRecvDisconnected, s1) \<Rightarrow> drain_requests recv handle s1
      | (Panic, s1) \<Rightarrow> Some (Panic, s1))"

lemma drain_stuck:
  assumes "recv s = (Err TryRecvDisconnected, s)"
  shows "drain_requests recv handle s = None"
proof -
  have "recv s \<noteq> (Err TryRecvDisconnected, s)" if "drain_requests recv handle s = Some y" for y
    by (rule drain_requests.raw_induct [where P = "\<lambda>recv handle s y. recv s \<noteq> (Err TryRecvDisconnected, s)", OF _ that])
      (fastforce split: prod.splits)
  with assms show ?thesis by (cases "drain_requests recv handle s") auto
qed

lemma drain_keeps:
  assumes "drain_requests recv handle s = Some (r, s')"
    and "\<And>s r s'. recv s = (r, s') \<Longrightarrow> k s' = k s" "\<And>x s r s'. handle x s = (r, s') \<Longrightarrow> k s' = k s"
  shows "k s' = k s"
proof -
  have "(\<forall>s r s'. recv s = (r, s') \<longrightarrow> k s' = k s) \<longrightarrow> (\<forall>x s r s'. handle x s = (r, s') \<longrightarrow> k s' = k s) \<longrightarrow> k (snd (r, s')) = k s"
  proof (rule drain_requests.raw_induct [where P = "\<lambda>recv handle s y. (\<forall>s r s'. recv s = (r, s') \<longrightarrow> k s' = k s) \<longrightarrow>
      (\<forall>x s r s'. handle x s = (r, s') \<longrightarrow> k s' = k s) \<longrightarrow> k (snd y) = k s", OF _ assms(1)], goal_cases)
    case (1 f recv handle s y)
    then show ?case by (auto split: prod.splits res.splits TryRecvError.splits) (metis snd_conv)+
  qed
  then show ?thesis using assms(2,3) by simp
qed

text \<open>
  What a handler promises of a queue it drains: a request is taken from the front while there is one, and
  handling a request neither takes another one nor closes the queue.
\<close>

locale request_queue =
  fixes recv :: "'st \<Rightarrow> (TryRecvError, 'm) res \<times> 'st"
    and handle :: "'m \<Rightarrow> 'st \<Rightarrow> (unit, unit) res \<times> 'st"
    and pending :: "'st \<Rightarrow> 'm list"
    and open_queue :: "'st \<Rightarrow> bool"
  assumes recv_some: "pending s = x # xs \<Longrightarrow> \<exists>s'. recv s = (Ok x, s') \<and> pending s' = xs \<and> open_queue s' = open_queue s"
    and recv_empty: "pending s = [] \<Longrightarrow> open_queue s \<Longrightarrow> recv s = (Err TryRecvEmpty, s)"
    and recv_closed: "pending s = [] \<Longrightarrow> \<not> open_queue s \<Longrightarrow> recv s = (Err TryRecvDisconnected, s)"
    and handle_keeps: "handle x s = (r, s') \<Longrightarrow> pending s' = pending s \<and> open_queue s' = open_queue s"
begin

lemma drain_ends:
  assumes "open_queue s"
  shows "\<exists>r s'. drain_requests recv handle s = Some (r, s') \<and> open_queue s' \<and> (r = Ok () \<longrightarrow> pending s' = [])"
  using assms
proof (induction "pending s" arbitrary: s)
  case Nil
  then show ?case using recv_empty [of s] by (subst drain_requests.simps) simp
next
  case (Cons x xs)
  obtain s1 where s1: "recv s = (Ok x, s1)" "pending s1 = xs" "open_queue s1" using recv_some [of s x xs] Cons by auto
  obtain r s2 where s2: "handle x s1 = (r, s2)" by fastforce
  then have k: "xs = pending s2" "open_queue s2" using handle_keeps s1 by auto
  show ?case using Cons(1) [OF k] s1 s2 k by (subst drain_requests.simps) (cases r, auto)
qed

lemma drain_empty:
  assumes "pending s = []" "open_queue s"
  shows "drain_requests recv handle s = Some (Ok (), s)"
  using recv_empty [OF assms] by (subst drain_requests.simps) simp

lemma drain_one:
  assumes "pending s = [x]" "open_queue s" "recv s = (Ok x, s1)" "handle x s1 = (Ok (), s2)"
  shows "drain_requests recv handle s = Some (Ok (), s2)"
proof -
  have "pending s2 = []" "open_queue s2"
    using assms recv_some [of s x "[]"] handle_keeps [of x s1 "Ok ()" s2] by auto
  then show ?thesis using assms(3,4) by (subst drain_requests.simps) (simp add: drain_empty)
qed

lemma drain_closed:
  assumes "pending s = []" "\<not> open_queue s"
  shows "drain_requests recv handle s = None"
  by (rule drain_stuck) (rule recv_closed [OF assms])

end

subsection \<open>Single precision numbers\<close>

text \<open>
  \<^verbatim>\<open>f32\<close> is kept as its bits. \<open>f32_ratio n d\<close> is the number nearest to n/d, ties to even: the ratio is
  counted in the smallest representable step and cut to 24 significant bits; a carry out of the
  significand lands in the exponent by the layout of the format. Results that overflow do not arise from
  the 16 bit values that are scaled here, and a zero is positive.
\<close>

fun bit_length :: "nat \<Rightarrow> nat" where
  "bit_length n = (if n = 0 then 0 else Suc (bit_length (n div 2)))"

declare bit_length.simps [simp del]

definition f32_ratio :: "int \<Rightarrow> nat \<Rightarrow> u32" where
  "f32_ratio n d =
     (let num = nat \<bar>n\<bar> * 2 ^ 149;
          shift = bit_length (num div d) - 24;
          den = d * 2 ^ shift;
          q = num div den; r = num mod den;
          significand = (if den < 2 * r \<or> (2 * r = den \<and> odd q) then q + 1 else q)
      in word_of_nat ((if n < 0 then 2 ^ 31 else 0) + shift * 2 ^ 23 + significand))"

definition f32_units :: "u32 \<Rightarrow> int" where
  "f32_units x =
     (let e = unat (drop_bit 23 x) mod 2 ^ 8; f = int (unat x mod 2 ^ 23);
          v = (if e = 0 then f else (2 ^ 23 + f) * 2 ^ (e - 1))
      in if bit x 31 then - v else v)"

definition f32_mult :: "u32 \<Rightarrow> u32 \<Rightarrow> u32" where
  "f32_mult x y = f32_ratio (f32_units x * f32_units y) (2 ^ (149 + 149))"

definition FIELD_LSB_PER_GAUSS_4_SENS :: u32 where
  "FIELD_LSB_PER_GAUSS_4_SENS = f32_ratio 1 6842"

definition GAUSS_TO_MICROTESLA_FACTOR :: u32 where
  "GAUSS_TO_MICROTESLA_FACTOR = 100"

definition scale_raw :: "16 word \<Rightarrow> u32" where
  "scale_raw raw =
     f32_mult (f32_mult (f32_ratio (sint raw) 1) (f32_ratio (uint GAUSS_TO_MICROTESLA_FACTOR) 1)) FIELD_LSB_PER_GAUSS_4_SENS"

definition to_le_bytes :: "'a::len word \<Rightarrow> bytes" where
  "to_le_bytes w = rev (to_be_bytes w)"

definition from_le_bytes :: "bytes \<Rightarrow> 'a::len word" where
  "from_le_bytes bs = from_be_bytes (rev bs)"

lemma from_le_bytes_to_le_bytes [simp]:
  "8 dvd LENGTH('a) \<Longrightarrow> from_le_bytes (to_le_bytes (w :: 'a::len word)) = w"
  by (simp add: from_le_bytes_def to_le_bytes_def)

subsection \<open>The housekeeping helper\<close>

record HkUniqueId =
  hk_target_id :: UniqueApidTargetId
  hk_set_id :: u32

definition HkUniqueId_write_to_be_bytes :: "HkUniqueId \<Rightarrow> bytes \<Rightarrow> (ByteConversionError, nat) res \<times> bytes" where
  "HkUniqueId_write_to_be_bytes i buf =
     (if length buf < 8 then (Err (ToSliceTooSmall (length buf) 8), buf)
      else res_try (copy_into 0 (to_be_bytes (ut_unique_id (hk_target_id i))) buf) buf (\<lambda>b1.
        res_try (copy_into 4 (to_be_bytes (hk_set_id i)) b1) b1 (\<lambda>b2. (Ok 8, b2))))"

text \<open>
  The subservice number of a housekeeping report is the first argument. The writer gets the rest of the
  buffer and gives back its contents.
\<close>

definition generate_hk_report_packet ::
    "u8 \<Rightarrow> UniqueApidTargetId \<Rightarrow> bytes \<Rightarrow> u32 \<Rightarrow> (bytes \<Rightarrow> (ByteConversionError, nat) res \<times> bytes) \<Rightarrow> bytes \<Rightarrow>
     (ByteConversionError, PusTmCreator) res \<times> bytes" where
  "generate_hk_report_packet subservice component timestamp set_id hk_data_writer buf =
     res_try (copy_into 0 (to_be_bytes (ut_unique_id component)) buf) buf (\<lambda>b1.
     res_try (copy_into 4 (to_be_bytes set_id) b1) b1 (\<lambda>b2.
       let (r, second_half) = hk_data_writer (drop 8 b2); b3 = take 8 b2 @ second_half
       in res_try r b3 (\<lambda>hk_data_len. res_try (slice 0 (8 + hk_data_len) b3) b3 (\<lambda>source_data.
            (Ok \<lparr>pt_apid = ut_apid component, pt_seq_count = 0, pt_service = 3, pt_subservice = subservice, pt_msg_counter = 0,
                pt_dest_id = 0, pt_time_stamp = timestamp, pt_source_data = source_data\<rparr>, b3)))))"

subsection \<open>The power switch helper\<close>

datatype PcduSwitch = SwitchMgm | SwitchMgt

fun PcduSwitch_num :: "PcduSwitch \<Rightarrow> u16" where
  "PcduSwitch_num SwitchMgm = 0"
| "PcduSwitch_num SwitchMgt = 1"

record SwitchSet =
  set_valid :: bool
  switch_map :: "PcduSwitch \<rightharpoonup> SwitchState"

definition SwitchSet_default :: SwitchSet where
  "SwitchSet_default = \<lparr>set_valid = False, switch_map = Map.empty\<rparr>"

datatype SwitchInfoError = SwitchIdNotInMap PcduSwitch | SwitchSetInvalid
datatype SwitchCommandingError = SwitchSend GenericSendError

text \<open>The helper reaches the channel to the power unit, at its handle, and the switch set shared with it.\<close>

record PowerSwitchHelper =
  switcher_net :: "SwitchRequest GenericMessage net"
  switcher_tx :: nat
  shared_switch_set :: "SwitchSet mutex"

definition PowerSwitchHelper_switch_state :: "PowerSwitchHelper \<Rightarrow> PcduSwitch \<Rightarrow> (SwitchInfoError, SwitchState) res" where
  "PowerSwitchHelper_switch_state h i =
     res_bind (lock_unwrap (shared_switch_set h)) (\<lambda>switch_set.
       if \<not> set_valid switch_set then Err SwitchSetInvalid
       else case switch_map switch_set i of Some st \<Rightarrow> Ok st | None \<Rightarrow> Err (SwitchIdNotInMap i))"

definition PowerSwitchHelper_switch_delay_ms :: nat where
  "PowerSwitchHelper_switch_delay_ms = 1000"

definition PowerSwitchHelper_send_switch_on_cmd ::
    "PowerSwitchHelper \<Rightarrow> MessageMetadata \<Rightarrow> PcduSwitch \<Rightarrow> (SwitchCommandingError, unit) res \<times> PowerSwitchHelper" where
  "PowerSwitchHelper_send_switch_on_cmd h info i =
     (let (r, w) = MpscSwitchCmdSenderBounded_send_switch_on_cmd (switcher_net h) (switcher_tx h) info (PcduSwitch_num i)
      in (res_map_err SwitchSend r, h\<lparr>switcher_net := w\<rparr>))"

definition PowerSwitchHelper_send_switch_off_cmd ::
    "PowerSwitchHelper \<Rightarrow> MessageMetadata \<Rightarrow> PcduSwitch \<Rightarrow> (SwitchCommandingError, unit) res \<times> PowerSwitchHelper" where
  "PowerSwitchHelper_send_switch_off_cmd h info i =
     (let (r, w) = MpscSwitchCmdSenderBounded_send_switch_off_cmd (switcher_net h) (switcher_tx h) info (PcduSwitch_num i)
      in (res_map_err SwitchSend r, h\<lparr>switcher_net := w\<rparr>))"

subsection \<open>The sensor interfaces\<close>

definition NR_OF_DATA_AND_CFG_REGISTERS :: nat where
  "NR_OF_DATA_AND_CFG_REGISTERS = 14"

definition X_LOWBYTE_IDX :: nat where
  "X_LOWBYTE_IDX = 9"

definition Y_LOWBYTE_IDX :: nat where
  "Y_LOWBYTE_IDX = 11"

definition Z_LOWBYTE_IDX :: nat where
  "Z_LOWBYTE_IDX = 13"

lemmas register_defs = NR_OF_DATA_AND_CFG_REGISTERS_def X_LOWBYTE_IDX_def Y_LOWBYTE_IDX_def Z_LOWBYTE_IDX_def

record MgmLis3RawValues =
  raw_x :: "16 word"
  raw_y :: "16 word"
  raw_z :: "16 word"

text \<open>An implementation of \<^verbatim>\<open>SpiInterface::transfer\<close> gives the new contents of the receive buffer.\<close>

type_synonym ('c, 'e) SpiInterface = "'c \<Rightarrow> bytes \<Rightarrow> bytes \<Rightarrow> (('e, unit) res \<times> bytes) \<times> 'c"

definition SpiDummyInterface_transfer :: "(MgmLis3RawValues, 'e) SpiInterface" where
  "SpiDummyInterface_transfer d tx rx =
     (res_try (copy_into X_LOWBYTE_IDX (to_le_bytes (raw_x d)) rx) rx (\<lambda>rx1.
      res_try (copy_into Y_LOWBYTE_IDX (to_be_bytes (raw_y d)) rx1) rx1 (\<lambda>rx2.
      res_try (copy_into Z_LOWBYTE_IDX (to_be_bytes (raw_z d)) rx2) rx2 (\<lambda>rx3. (Ok (), rx3)))), d)"

text \<open>
  The interface to the simulator. \<open>await\<close> is the receive with timeout on the reply channel: what the
  simulator answers in time, if anything. \<open>parse\<close> is \<^verbatim>\<open>MgmLis3MdlReply::from_sim_message\<close>, up to the raw
  values, which is decided by the JSON library.
\<close>

record ('rq, 'rp) SpiSimInterface =
  sim_request_tx :: "'rq chan"
  sim_reply_rx :: "'rp chan"

definition SpiSimInterface_transfer ::
    "'rq \<Rightarrow> ('rp chan \<Rightarrow> 'rp option \<times> 'rp chan) \<Rightarrow> ('rp \<Rightarrow> (unit, MgmLis3RawValues) res) \<Rightarrow>
     (('rq, 'rp) SpiSimInterface, 'e) SpiInterface" where
  "SpiSimInterface_transfer request await parse s tx rx =
     (let (_, c) = mpsc_send (sim_request_tx s) request; (reply, c2) = await (sim_reply_rx s);
          s' = s\<lparr>sim_request_tx := c, sim_reply_rx := c2\<rparr>
      in (case reply of
            None \<Rightarrow> (Ok (), rx)
          | Some sim_reply \<Rightarrow> res_try (res_unwrap (parse sim_reply)) rx (\<lambda>raw.
              res_try (copy_into X_LOWBYTE_IDX (to_le_bytes (raw_x raw)) rx) rx (\<lambda>rx1.
              res_try (copy_into Y_LOWBYTE_IDX (to_le_bytes (raw_y raw)) rx1) rx1 (\<lambda>rx2.
              res_try (copy_into Z_LOWBYTE_IDX (to_le_bytes (raw_z raw)) rx2) rx2 (\<lambda>rx3. (Ok (), rx3))))), s'))"

datatype ('rq, 'rp) SpiSimInterfaceWrapper = SpiDummy MgmLis3RawValues | SpiSim "('rq, 'rp) SpiSimInterface"

definition SpiSimInterfaceWrapper_transfer ::
    "'rq \<Rightarrow> ('rp chan \<Rightarrow> 'rp option \<times> 'rp chan) \<Rightarrow> ('rp \<Rightarrow> (unit, MgmLis3RawValues) res) \<Rightarrow>
     (('rq, 'rp) SpiSimInterfaceWrapper, 'e) SpiInterface" where
  "SpiSimInterfaceWrapper_transfer request await parse i tx rx =
     (case i of
        SpiDummy d \<Rightarrow> map_prod id SpiDummy (SpiDummyInterface_transfer d tx rx)
      | SpiSim s \<Rightarrow> map_prod id SpiSim (SpiSimInterface_transfer request await parse s tx rx))"

subsection \<open>The handler\<close>

datatype DeviceMode = DeviceOff | DeviceOn | DeviceNormal

fun DeviceMode_num :: "DeviceMode \<Rightarrow> u32" where
  "DeviceMode_num DeviceOff = 0"
| "DeviceMode_num DeviceOn = 1"
| "DeviceMode_num DeviceNormal = 2"

definition NO_SENDER :: ComponentId where
  "NO_SENDER = - 1"

datatype TransitionState = TransitionIdle | PowerSwitching | TransitionDone

definition MGM_SensorData :: u32 where
  "MGM_SensorData = 0"

record MgmData =
  mgm_valid :: bool
  mgm_x :: u32
  mgm_y :: u32
  mgm_z :: u32

record MpscModeLeafInterface =
  request_rx :: "ModeRequest GenericMessage chan"
  reply_to_pus_tx :: "ModeReply GenericMessage chan"
  reply_to_parent_tx :: "ModeReply GenericMessage chan"

record BufWrapper =
  tx_buf :: bytes
  rx_buf :: bytes
  tm_buf :: bytes

definition BufWrapper_default :: BufWrapper where
  "BufWrapper_default = \<lparr>tx_buf = replicate 32 0, rx_buf = replicate 32 0, tm_buf = replicate 32 0\<rparr>"

record ModeHelpers =
  mode_current :: ModeAndSubmode
  transition_target :: "ModeAndSubmode option"
  mode_requestor :: "MessageMetadata option"
  transition_state :: TransitionState

definition ModeHelpers_default :: ModeHelpers where
  "ModeHelpers_default = \<lparr>mode_current = ModeAndSubmode_new (DeviceMode_num DeviceOff) 0, transition_target = None, mode_requestor = None,
     transition_state = TransitionIdle\<rparr>"

text \<open>
  The handler is generic in its sensor interface, telemetry sender and switch helper; the methods it uses
  of them are fields of its environment. The clock reading is an argument of the periodic operation.
\<close>

record ('w, 'se, 'ie, 's, 'pe, 'c, 'ce, 'cds) MgmEnv =
  me_send_switch_on_cmd :: "'w \<Rightarrow> MessageMetadata \<Rightarrow> PcduSwitch \<Rightarrow> ('se, unit) res \<times> 'w"
  me_switch_state :: "'w \<Rightarrow> PcduSwitch \<Rightarrow> ('ie, SwitchState) res"
  me_send_tm :: "('s, 'pe) EcssTmSender"
  me_transfer :: "('c, 'ce) SpiInterface"
  me_cds :: "'cds CdsOps"
  me_hk_packet :: u8

record ('w, 's, 'c, 'cds) MgmHandlerLis3Mdl =
  mgm_id :: UniqueApidTargetId
  mgm_mode_interface :: MpscModeLeafInterface
  mgm_composite_rx :: "CompositeRequest GenericMessage chan"
  mgm_hk_reply_tx :: "HkReply GenericMessage chan"
  mgm_switch_helper :: 'w
  mgm_tm_sender :: 's
  mgm_com :: 'c
  shared_mgm_set :: "MgmData mutex"
  mode_helpers :: ModeHelpers
  bufs :: BufWrapper
  mgm_stamp :: "'cds TimestampHelper"

definition MgmHandlerLis3Mdl_new ::
    "'cds CdsOps \<Rightarrow> nat \<Rightarrow> UniqueApidTargetId \<Rightarrow> MpscModeLeafInterface \<Rightarrow> CompositeRequest GenericMessage chan \<Rightarrow>
     HkReply GenericMessage chan \<Rightarrow> 'w \<Rightarrow> 's \<Rightarrow> 'c \<Rightarrow> MgmData mutex \<Rightarrow> ('e, ('w, 's, 'c, 'cds) MgmHandlerLis3Mdl) res" where
  "MgmHandlerLis3Mdl_new cds now i leaf composite hk w s c d =
     res_bind (TimestampHelper_default cds now) (\<lambda>helper.
       Ok \<lparr>mgm_id = i, mgm_mode_interface = leaf, mgm_composite_rx = composite, mgm_hk_reply_tx = hk, mgm_switch_helper = w,
           mgm_tm_sender = s, mgm_com = c, shared_mgm_set = d, mode_helpers = ModeHelpers_default,
           bufs = BufWrapper_default, mgm_stamp = helper\<rparr>)"

paragraph \<open>Mode requests\<close>

text \<open>Sending a reply to the mode service, common to both device handlers.\<close>

definition leaf_send_mode_reply ::
    "MpscModeLeafInterface \<Rightarrow> MessageMetadata \<Rightarrow> ModeReply \<Rightarrow> (ModeError, unit) res \<times> MpscModeLeafInterface" where
  "leaf_send_mode_reply leaf requestor reply =
     (let (r, c) = mpsc_send (reply_to_pus_tx leaf) (GenericMessage_new requestor reply)
      in (res_map_err (\<lambda>_. Messaging (Send RxDisconnected)) r, leaf\<lparr>reply_to_pus_tx := c\<rparr>))"

definition mgm_send_mode_reply ::
    "('w, 's, 'c, 'cds) MgmHandlerLis3Mdl \<Rightarrow> MessageMetadata \<Rightarrow> ModeReply \<Rightarrow>
     (ModeError, unit) res \<times> ('w, 's, 'c, 'cds) MgmHandlerLis3Mdl" where
  "mgm_send_mode_reply h requestor reply =
     (let (r, leaf) = leaf_send_mode_reply (mgm_mode_interface h) requestor reply
      in (r, h\<lparr>mgm_mode_interface := leaf\<rparr>))"

definition mgm_handle_mode_reached ::
    "('w, 's, 'c, 'cds) MgmHandlerLis3Mdl \<Rightarrow> MessageMetadata option \<Rightarrow>
     (ModeError, unit) res \<times> ('w, 's, 'c, 'cds) MgmHandlerLis3Mdl" where
  "mgm_handle_mode_reached h0 requestor =
     (let h = h0\<lparr>mode_helpers := (mode_helpers h0)\<lparr>transition_target := None\<rparr>\<rparr>
      in case requestor of
           None \<Rightarrow> (Ok (), h)
         | Some info \<Rightarrow>
             if mm_sender_id info = NO_SENDER then (Ok (), h)
             else if mm_sender_id info \<noteq> component_id PUS_MODE_SERVICE then (Ok (), h)
             else mgm_send_mode_reply h info (ModeReply (mode_current (mode_helpers h))))"

definition mgm_start_transition ::
    "('w, 's, 'c, 'cds) MgmHandlerLis3Mdl \<Rightarrow> MessageMetadata \<Rightarrow> ModeAndSubmode \<Rightarrow>
     (ModeError, unit) res \<times> ('w, 's, 'c, 'cds) MgmHandlerLis3Mdl" where
  "mgm_start_transition h0 requestor m =
     (let h = h0\<lparr>mode_helpers := (mode_helpers h0)\<lparr>mode_current := m\<rparr>\<rparr>
      in if mode m = DeviceMode_num DeviceOff then
           res_try (lock_unwrap (shared_mgm_set h)) h (\<lambda>d.
             mgm_handle_mode_reached (h\<lparr>shared_mgm_set := (shared_mgm_set h)\<lparr>guarded := d\<lparr>mgm_valid := False\<rparr>\<rparr>\<rparr>) (Some requestor))
         else if mode m = DeviceMode_num DeviceNormal \<or> mode m = DeviceMode_num DeviceOn then
           (Ok (), h\<lparr>mode_helpers := (mode_helpers h)\<lparr>transition_state := TransitionIdle, mode_requestor := Some requestor,
                       transition_target := Some m\<rparr>\<rparr>)
         else (Ok (), h))"

definition mgm_mode_handler :: "(('w, 's, 'c, 'cds) MgmHandlerLis3Mdl, ModeError) ModeRequestHandler" where
  "mgm_mode_handler =
     \<lparr>mh_mode_and_submode = (\<lambda>h. mode_current (mode_helpers h)),
      mh_start_transition = mgm_start_transition,
      mh_announce_mode = (\<lambda>h _ _. h),
      mh_handle_mode_info = (\<lambda>h _ _. (Ok (), h)),
      mh_send_mode_reply = mgm_send_mode_reply\<rparr>"

text \<open>The result of a mode request is only logged; a panic goes on.\<close>

fun log_failure :: "('e, unit) res \<times> 's \<Rightarrow> (unit, unit) res \<times> 's" where
  "log_failure (Panic, s) = (Panic, s)"
| "log_failure (_, s) = (Ok (), s)"

definition mgm_recv_mode ::
    "('w, 's, 'c, 'cds) MgmHandlerLis3Mdl \<Rightarrow> (TryRecvError, ModeRequest GenericMessage) res \<times> ('w, 's, 'c, 'cds) MgmHandlerLis3Mdl" where
  "mgm_recv_mode h =
     (let (r, c) = mpsc_try_recv (request_rx (mgm_mode_interface h))
      in (r, h\<lparr>mgm_mode_interface := (mgm_mode_interface h)\<lparr>request_rx := c\<rparr>\<rparr>))"

definition mgm_handle_mode_requests ::
    "('w, 's, 'c, 'cds) MgmHandlerLis3Mdl \<Rightarrow> ((unit, unit) res \<times> ('w, 's, 'c, 'cds) MgmHandlerLis3Mdl) option" where
  "mgm_handle_mode_requests h =
     drain_requests mgm_recv_mode (\<lambda>x h. log_failure (handle_mode_request mgm_mode_handler h x)) h"

paragraph \<open>Housekeeping requests\<close>

definition mgm_hk_writer :: "MgmData \<Rightarrow> bytes \<Rightarrow> (ByteConversionError, nat) res \<times> bytes" where
  "mgm_hk_writer d hk_buf =
     res_try (index hk_buf 0) hk_buf (\<lambda>_.
       let b0 = hk_buf[0 := (if mgm_valid d then 1 else 0)]
       in res_try (copy_into 1 (to_be_bytes (mgm_x d)) b0) b0 (\<lambda>b1.
          res_try (copy_into 5 (to_be_bytes (mgm_y d)) b1) b1 (\<lambda>b2.
          res_try (copy_into 9 (to_be_bytes (mgm_z d)) b2) b2 (\<lambda>b3. (Ok 13, b3)))))"

definition mgm_handle_hk_request ::
    "('w, 'se, 'ie, 's, 'pe, 'c, 'ce, 'cds) MgmEnv \<Rightarrow> MessageMetadata \<Rightarrow> HkRequest \<Rightarrow> ('w, 's, 'c, 'cds) MgmHandlerLis3Mdl \<Rightarrow>
     (unit, unit) res \<times> ('w, 's, 'c, 'cds) MgmHandlerLis3Mdl" where
  "mgm_handle_hk_request env requestor hk_request h =
     (case hk_variant hk_request of
        OneShot \<Rightarrow>
          res_try (lock_unwrap (shared_mgm_set h)) h (\<lambda>mgm_snapshot.
          let (r, buf) = generate_hk_report_packet (me_hk_packet env) (mgm_id h) (stamp (mgm_stamp h)) MGM_SensorData
                (mgm_hk_writer mgm_snapshot) (tm_buf (bufs h));
              h1 = h\<lparr>bufs := (bufs h)\<lparr>tm_buf := buf\<rparr>\<rparr>
          in case r of
               Ok hk_tm \<Rightarrow>
                 let (rs, s) = me_send_tm env (mgm_tm_sender h1) (UniqueApidTargetId_raw (mgm_id h1)) (Direct hk_tm);
                     h2 = h1\<lparr>mgm_tm_sender := s\<rparr>
                 in res_try (res_unwrap rs) h2 (\<lambda>_.
                      let (rr, c) = mpsc_send (mgm_hk_reply_tx h2)
                            (GenericMessage_new requestor \<lparr>hkr_unique_id = hk_unique_id hk_request, hkr_variant = HkAck\<rparr>)
                      in (res_unwrap rr, h2\<lparr>mgm_hk_reply_tx := c\<rparr>))
             | Err _ \<Rightarrow> (Ok (), h1)
             | Panic \<Rightarrow> (Panic, h1))
      | _ \<Rightarrow> (Panic, h))"

definition mgm_recv_composite ::
    "('w, 's, 'c, 'cds) MgmHandlerLis3Mdl \<Rightarrow>
     (TryRecvError, CompositeRequest GenericMessage) res \<times> ('w, 's, 'c, 'cds) MgmHandlerLis3Mdl" where
  "mgm_recv_composite h = (let (r, c) = mpsc_try_recv (mgm_composite_rx h) in (r, h\<lparr>mgm_composite_rx := c\<rparr>))"

definition mgm_handle_composite ::
    "('w, 'se, 'ie, 's, 'pe, 'c, 'ce, 'cds) MgmEnv \<Rightarrow> CompositeRequest GenericMessage \<Rightarrow> ('w, 's, 'c, 'cds) MgmHandlerLis3Mdl \<Rightarrow>
     (unit, unit) res \<times> ('w, 's, 'c, 'cds) MgmHandlerLis3Mdl" where
  "mgm_handle_composite env x h =
     (case message x of
        CompositeHk hk_request \<Rightarrow> mgm_handle_hk_request env (requestor_info x) hk_request h
      | CompositeAction _ \<Rightarrow> (Ok (), h))"

definition mgm_handle_composite_requests ::
    "('w, 'se, 'ie, 's, 'pe, 'c, 'ce, 'cds) MgmEnv \<Rightarrow> ('w, 's, 'c, 'cds) MgmHandlerLis3Mdl \<Rightarrow>
     ((unit, unit) res \<times> ('w, 's, 'c, 'cds) MgmHandlerLis3Mdl) option" where
  "mgm_handle_composite_requests env h = drain_requests mgm_recv_composite (mgm_handle_composite env) h"

paragraph \<open>Sensor and mode transition\<close>

definition poll_sensor ::
    "('w, 'se, 'ie, 's, 'pe, 'c, 'ce, 'cds) MgmEnv \<Rightarrow> ('w, 's, 'c, 'cds) MgmHandlerLis3Mdl \<Rightarrow>
     (unit, unit) res \<times> ('w, 's, 'c, 'cds) MgmHandlerLis3Mdl" where
  "poll_sensor env h =
     res_try (slice 0 (NR_OF_DATA_AND_CFG_REGISTERS + 1) (tx_buf (bufs h))) h (\<lambda>tx.
     res_try (slice 0 (NR_OF_DATA_AND_CFG_REGISTERS + 1) (rx_buf (bufs h))) h (\<lambda>rx.
       let ((r, rx'), c) = me_transfer env (mgm_com h) tx rx;
           h1 = h\<lparr>mgm_com := c, bufs := (bufs h)\<lparr>rx_buf := overwrite 0 rx' (rx_buf (bufs h))\<rparr>\<rparr>
       in res_try (res_unwrap r) h1 (\<lambda>_.
          res_try (slice X_LOWBYTE_IDX (X_LOWBYTE_IDX + 2) (rx_buf (bufs h1))) h1 (\<lambda>x.
          res_try (slice Y_LOWBYTE_IDX (Y_LOWBYTE_IDX + 2) (rx_buf (bufs h1))) h1 (\<lambda>y.
          res_try (slice Z_LOWBYTE_IDX (Z_LOWBYTE_IDX + 2) (rx_buf (bufs h1))) h1 (\<lambda>z.
          res_try (lock_unwrap (shared_mgm_set h1)) h1 (\<lambda>_.
            (Ok (), h1\<lparr>shared_mgm_set := (shared_mgm_set h1)\<lparr>guarded :=
               \<lparr>mgm_valid = True, mgm_x = scale_raw (from_le_bytes x), mgm_y = scale_raw (from_le_bytes y),
                mgm_z = scale_raw (from_le_bytes z)\<rparr>\<rparr>\<rparr>))))))))"

definition set_transition_state ::
    "TransitionState \<Rightarrow> ('w, 's, 'c, 'cds) MgmHandlerLis3Mdl \<Rightarrow> ('w, 's, 'c, 'cds) MgmHandlerLis3Mdl" where
  "set_transition_state t h = h\<lparr>mode_helpers := (mode_helpers h)\<lparr>transition_state := t\<rparr>\<rparr>"

definition mgm_handle_mode_transition ::
    "('w, 'se, 'ie, 's, 'pe, 'c, 'ce, 'cds) MgmEnv \<Rightarrow> ModeAndSubmode \<Rightarrow> ('w, 's, 'c, 'cds) MgmHandlerLis3Mdl \<Rightarrow>
     (unit, unit) res \<times> ('w, 's, 'c, 'cds) MgmHandlerLis3Mdl" where
  "mgm_handle_mode_transition env target h =
     (if mode target = DeviceMode_num DeviceOn \<or> mode target = DeviceMode_num DeviceNormal then
        let h1 = (if transition_state (mode_helpers h) = TransitionIdle then
                    let (_, w) = me_send_switch_on_cmd env (mgm_switch_helper h)
                          (MessageMetadata_new 0 (UniqueApidTargetId_raw (mgm_id h))) SwitchMgm
                    in set_transition_state PowerSwitching (h\<lparr>mgm_switch_helper := w\<rparr>)
                  else h)
        in res_try (if transition_state (mode_helpers h1) = PowerSwitching
                    then res_unwrap (is_switch_on (me_switch_state env (mgm_switch_helper h1)) SwitchMgm) else Ok False) h1 (\<lambda>on.
             let h2 = (if on then set_transition_state TransitionDone h1 else h1)
             in if transition_state (mode_helpers h2) = TransitionDone then
                  res_try (opt_unwrap (transition_target (mode_helpers h2))) h2 (\<lambda>m.
                    let (r, h3) = mgm_handle_mode_reached (h2\<lparr>mode_helpers := (mode_helpers h2)\<lparr>mode_current := m\<rparr>\<rparr>)
                          (mode_requestor (mode_helpers h2))
                    in res_try (res_unwrap r) h3 (\<lambda>_. (Ok (), set_transition_state TransitionIdle h3)))
                else (Ok (), h2))
      else (Ok (), h))"

text \<open>Everything in one cycle: requests, the transition under way, and the sensor in normal mode.\<close>

definition mgm_periodic_operation ::
    "('w, 'se, 'ie, 's, 'pe, 'c, 'ce, 'cds) MgmEnv \<Rightarrow> nat \<Rightarrow> ('w, 's, 'c, 'cds) MgmHandlerLis3Mdl \<Rightarrow>
     ((unit, unit) res \<times> ('w, 's, 'c, 'cds) MgmHandlerLis3Mdl) option" where
  "mgm_periodic_operation env now h0 =
     and_then (Some (let (r, st) = update_from_now (me_cds env) now (mgm_stamp h0) in (r, h0\<lparr>mgm_stamp := st\<rparr>))) (\<lambda>h1.
     and_then (mgm_handle_composite_requests env h1) (\<lambda>h2.
     and_then (mgm_handle_mode_requests h2) (\<lambda>h3.
     and_then (Some (case transition_target (mode_helpers h3) of
                 Some target \<Rightarrow> mgm_handle_mode_transition env target h3
               | None \<Rightarrow> (Ok (), h3))) (\<lambda>h4.
       if mode (mode_current (mode_helpers h4)) = DeviceMode_num DeviceNormal then Some (poll_sensor env h4)
       else Some (Ok (), h4)))))"

subsection \<open>The request queues of the handler\<close>

lemma mgm_reached_keeps:
  "mgm_handle_mode_reached h info = (r, h') \<Longrightarrow> request_rx (mgm_mode_interface h') = request_rx (mgm_mode_interface h) \<and>
     mgm_composite_rx h' = mgm_composite_rx h"
  by (auto simp: mgm_handle_mode_reached_def mgm_send_mode_reply_def leaf_send_mode_reply_def Let_def
      split: option.splits if_splits prod.splits)

lemma mgm_mode_request_keeps:
  assumes "log_failure (handle_mode_request mgm_mode_handler h x) = (r, h')"
  shows "request_rx (mgm_mode_interface h') = request_rx (mgm_mode_interface h)"
proof -
  have "request_rx (mgm_mode_interface (snd (handle_mode_request mgm_mode_handler h x))) = request_rx (mgm_mode_interface h)"
    by (auto simp: handle_mode_request_def mgm_mode_handler_def mgm_start_transition_def lock_unwrap_def mgm_send_mode_reply_def
        leaf_send_mode_reply_def Let_def snd_def split: ModeRequest.splits prod.splits if_splits dest!: mgm_reached_keeps)
  then show ?thesis using assms by (cases "handle_mode_request mgm_mode_handler h x"; cases "fst (handle_mode_request mgm_mode_handler h x)") auto
qed

interpretation mgm_modes: request_queue mgm_recv_mode
  "\<lambda>x h. log_failure (handle_mode_request mgm_mode_handler h x)"
  "\<lambda>h. ch_queue (request_rx (mgm_mode_interface h))" "\<lambda>h. tx_alive (request_rx (mgm_mode_interface h))"
  by unfold_locales (auto simp: mgm_recv_mode_def mpsc_try_recv_def Let_def dest!: mgm_mode_request_keeps split: list.splits)

lemma mgm_composite_keeps:
  "mgm_handle_composite env x h = (r, h') \<Longrightarrow> mgm_composite_rx h' = mgm_composite_rx h \<and>
     mgm_mode_interface h' = mgm_mode_interface h \<and> mode_helpers h' = mode_helpers h \<and> mgm_switch_helper h' = mgm_switch_helper h"
  by (auto simp: mgm_handle_composite_def mgm_handle_hk_request_def lock_unwrap_def Let_def res_try_case
      split: CompositeRequest.splits HkRequestVariant.splits prod.splits res.splits if_splits)

interpretation mgm_composites: request_queue mgm_recv_composite "mgm_handle_composite env"
  "\<lambda>h. ch_queue (mgm_composite_rx h)" "\<lambda>h. tx_alive (mgm_composite_rx h)"
  by unfold_locales (auto simp: mgm_recv_composite_def mpsc_try_recv_def Let_def dest!: mgm_composite_keeps split: list.splits)

end
