(* ===== verification/Pcdu_Handler.thy ===== *)
theory Pcdu_Handler
  imports Mgm_Handler
begin

text \<open>
  The power unit handler of the example application (\<^verbatim>\<open>satrs-example/src/eps/pcdu.rs\<close>) with its serial
  interfaces and the messages of the simulator it speaks (\<^verbatim>\<open>satrs-minisim/src/lib.rs\<close>), and the two
  device tasks of \<^verbatim>\<open>satrs-example/src/main.rs\<close> that meet at the switch request channel and the switch
  set.
\<close>

subsection \<open>Simulator messages\<close>

datatype SimComponent = SimCtrl | SimMgmLis3Mdl | SimMgt | SimPcdu

record SimReply =
  sim_target :: SimComponent
  sim_payload :: bytes

text \<open>A request to the simulator; its time stamp is always the epoch here.\<close>

record SimRequest =
  rq_target :: SimComponent
  rq_payload :: bytes

datatype PcduRequest = SwitchDevice PcduSwitch SwitchStateBinary | RequestSwitchInfo
datatype PcduReply = SwitchInfo "PcduSwitch \<rightharpoonup> SwitchStateBinary"

datatype SimMessageError = SerdeJson | TargetRequestMissmatch SimReply

text \<open>
  The JSON library: a value is serialised, which may fail, and parsed back. The law is the round trip it
  documents.
\<close>

record 'a Codec =
  ser :: "'a \<Rightarrow> (unit, bytes) res"
  de :: "bytes \<Rightarrow> (unit, 'a) res"

definition codec_ok :: "'a Codec \<Rightarrow> bool" where
  "codec_ok c \<longleftrightarrow> (\<forall>x. \<exists>b. ser c x = Ok b \<and> de c b = Ok x)"

lemma codec_okE:
  assumes "codec_ok c"
  obtains b where "ser c x = Ok b" "de c b = Ok x"
  using assms unfolding codec_ok_def by blast

record PcduJson =
  json_request :: "PcduRequest Codec"
  json_reply :: "PcduReply Codec"
  json_sim_reply :: "SimReply Codec"
  json_switch_set :: "SwitchSet Codec"

definition SimReply_new :: "SimComponent \<Rightarrow> 'a Codec \<Rightarrow> 'a \<Rightarrow> ('e, SimReply) res" where
  "SimReply_new target c x = res_bind (res_unwrap (ser c x)) (\<lambda>b. Ok \<lparr>sim_target = target, sim_payload = b\<rparr>)"

definition SimRequest_new_with_epoch_time :: "SimComponent \<Rightarrow> 'a Codec \<Rightarrow> 'a \<Rightarrow> ('e, SimRequest) res" where
  "SimRequest_new_with_epoch_time target c x =
     res_bind (res_unwrap (ser c x)) (\<lambda>b. Ok \<lparr>rq_target = target, rq_payload = b\<rparr>)"

definition from_sim_message :: "SimComponent \<Rightarrow> 'a Codec \<Rightarrow> SimReply \<Rightarrow> (SimMessageError, 'a) res" where
  "from_sim_message target c x =
     (if sim_target x = target then res_map_err (\<lambda>_. SerdeJson) (de c (sim_payload x))
      else Err (TargetRequestMissmatch x))"

definition SwitchMapBinaryWrapper_default :: "PcduSwitch \<rightharpoonup> SwitchStateBinary" where
  "SwitchMapBinaryWrapper_default = [SwitchMgm \<mapsto> BinaryOff, SwitchMgt \<mapsto> BinaryOff]"

definition from_binary_switch_map_ref :: "(PcduSwitch \<rightharpoonup> SwitchStateBinary) \<Rightarrow> (PcduSwitch \<rightharpoonup> SwitchState)" where
  "from_binary_switch_map_ref m = map_option SwitchState_from \<circ> m"

subsection \<open>Serial interfaces\<close>

text \<open>
  \<^verbatim>\<open>try_recv_replies\<close> calls a closure for every reply; the closure's captured state is passed through it.
\<close>

type_synonym ('a, 'e) ReplyHandler = "bytes \<Rightarrow> 'a \<Rightarrow> ('e, unit) res \<times> 'a"

record SerialInterfaceToSim =
  pcdu_sim_request_tx :: "SimRequest chan"
  pcdu_sim_reply_rx :: "SimReply chan"

definition SerialInterfaceToSim_send ::
    "PcduJson \<Rightarrow> SerialInterfaceToSim \<Rightarrow> bytes \<Rightarrow> ('e, unit) res \<times> SerialInterfaceToSim" where
  "SerialInterfaceToSim_send js i data =
     res_try (res_unwrap (de (json_request js) data)) i (\<lambda>request.
     res_try (SimRequest_new_with_epoch_time SimPcdu (json_request js) request) i (\<lambda>sim_request.
       let (r, c) = mpsc_send (pcdu_sim_request_tx i) sim_request in (res_unwrap r, i\<lparr>pcdu_sim_request_tx := c\<rparr>)))"

function sim_reply_loop ::
    "PcduJson \<Rightarrow> ('a, 'e) ReplyHandler \<Rightarrow> 'a \<Rightarrow> SimReply chan \<Rightarrow> (('e, unit) res \<times> 'a) \<times> SimReply chan" where
  "sim_reply_loop js f a c =
     (case mpsc_try_recv c of
        (Ok reply, c1) \<Rightarrow>
          (case ser (json_sim_reply js) reply of
             Ok b \<Rightarrow> (case f b a of (Ok _, a1) \<Rightarrow> sim_reply_loop js f a1 c1 | (r, a1) \<Rightarrow> ((r, a1), c1))
           | _ \<Rightarrow> ((Panic, a), c1))
      | (_, c1) \<Rightarrow> ((Ok (), a), c1))"
  by auto
termination
  by (relation "measure (\<lambda>(js, f, a, c). length (ch_queue c))") (auto simp: mpsc_try_recv_def split: list.splits)

definition SerialInterfaceToSim_try_recv_replies ::
    "PcduJson \<Rightarrow> SerialInterfaceToSim \<Rightarrow> ('a, 'e) ReplyHandler \<Rightarrow> 'a \<Rightarrow> (('e, unit) res \<times> 'a) \<times> SerialInterfaceToSim" where
  "SerialInterfaceToSim_try_recv_replies js i f a =
     (let (r, c) = sim_reply_loop js f a (pcdu_sim_reply_rx i) in (r, i\<lparr>pcdu_sim_reply_rx := c\<rparr>))"

record SerialInterfaceDummy =
  dummy_switch_map :: "PcduSwitch \<rightharpoonup> SwitchStateBinary"
  reply_deque :: "SimReply list"

definition SerialInterfaceDummy_default :: SerialInterfaceDummy where
  "SerialInterfaceDummy_default = \<lparr>dummy_switch_map = SwitchMapBinaryWrapper_default, reply_deque = []\<rparr>"

definition SerialInterfaceDummy_send ::
    "PcduJson \<Rightarrow> SerialInterfaceDummy \<Rightarrow> bytes \<Rightarrow> ('e, unit) res \<times> SerialInterfaceDummy" where
  "SerialInterfaceDummy_send js i data =
     res_try (res_unwrap (de (json_request js) data)) i (\<lambda>pcdu_req.
       case pcdu_req of
         SwitchDevice switch st \<Rightarrow> (Ok (), i\<lparr>dummy_switch_map := (dummy_switch_map i)(switch \<mapsto> st)\<rparr>)
       | RequestSwitchInfo \<Rightarrow>
           res_try (SimReply_new SimPcdu (json_reply js) (SwitchInfo (dummy_switch_map i))) i (\<lambda>reply.
             (Ok (), i\<lparr>reply_deque := reply_deque i @ [reply]\<rparr>)))"

fun dummy_reply_loop ::
    "PcduJson \<Rightarrow> ('a, 'e) ReplyHandler \<Rightarrow> 'a \<Rightarrow> SimReply list \<Rightarrow> (('e, unit) res \<times> 'a) \<times> SimReply list" where
  "dummy_reply_loop js f a [] = ((Ok (), a), [])"
| "dummy_reply_loop js f a (reply # replies) =
     (case ser (json_sim_reply js) reply of
        Ok b \<Rightarrow> (case f b a of (Ok _, a1) \<Rightarrow> dummy_reply_loop js f a1 replies | (r, a1) \<Rightarrow> ((r, a1), replies))
      | _ \<Rightarrow> ((Panic, a), replies))"

definition SerialInterfaceDummy_try_recv_replies ::
    "PcduJson \<Rightarrow> SerialInterfaceDummy \<Rightarrow> ('a, 'e) ReplyHandler \<Rightarrow> 'a \<Rightarrow> (('e, unit) res \<times> 'a) \<times> SerialInterfaceDummy" where
  "SerialInterfaceDummy_try_recv_replies js i f a =
     (let (r, q) = dummy_reply_loop js f a (reply_deque i) in (r, i\<lparr>reply_deque := q\<rparr>))"

datatype SerialSimInterfaceWrapper = SerialDummy SerialInterfaceDummy | SerialSim SerialInterfaceToSim

definition SerialSimInterfaceWrapper_send ::
    "PcduJson \<Rightarrow> SerialSimInterfaceWrapper \<Rightarrow> bytes \<Rightarrow> ('e, unit) res \<times> SerialSimInterfaceWrapper" where
  "SerialSimInterfaceWrapper_send js i data =
     (case i of
        SerialDummy d \<Rightarrow> map_prod id SerialDummy (SerialInterfaceDummy_send js d data)
      | SerialSim s \<Rightarrow> map_prod id SerialSim (SerialInterfaceToSim_send js s data))"

definition SerialSimInterfaceWrapper_try_recv_replies ::
    "PcduJson \<Rightarrow> SerialSimInterfaceWrapper \<Rightarrow> ('a, 'e) ReplyHandler \<Rightarrow> 'a \<Rightarrow>
     (('e, unit) res \<times> 'a) \<times> SerialSimInterfaceWrapper" where
  "SerialSimInterfaceWrapper_try_recv_replies js i f a =
     (case i of
        SerialDummy d \<Rightarrow> map_prod id SerialDummy (SerialInterfaceDummy_try_recv_replies js d f a)
      | SerialSim s \<Rightarrow> map_prod id SerialSim (SerialInterfaceToSim_try_recv_replies js s f a))"

subsection \<open>The handler\<close>

datatype OpCode = RegularOp | PollAndRecvReplies

definition PCDU_SwitcherSet :: u32 where
  "PCDU_SwitcherSet = 0"

record ('s, 'pe, 'c, 'ce, 'cds) PcduEnv =
  pe_json :: PcduJson
  pe_switch_try_from :: "u16 \<Rightarrow> PcduSwitch option"
  pe_send_tm :: "('s, 'pe) EcssTmSender"
  pe_com_send :: "'c \<Rightarrow> bytes \<Rightarrow> ('ce, unit) res \<times> 'c"
  pe_try_recv_replies :: "'c \<Rightarrow> (SwitchSet mutex, 'ce) ReplyHandler \<Rightarrow> SwitchSet mutex \<Rightarrow> (('ce, unit) res \<times> SwitchSet mutex) \<times> 'c"
  pe_cds :: "'cds CdsOps"
  pe_hk_packet :: u8

record ('s, 'c, 'cds) PcduHandler =
  pcdu_id :: UniqueApidTargetId
  pcdu_mode_interface :: MpscModeLeafInterface
  pcdu_composite_rx :: "CompositeRequest GenericMessage chan"
  pcdu_hk_reply_tx :: "HkReply GenericMessage chan"
  switch_request_rx :: "SwitchRequest GenericMessage chan"
  pcdu_tm_sender :: 's
  pcdu_com :: 'c
  shared_switch_map :: "SwitchSet mutex"
  pcdu_mode :: ModeAndSubmode
  pcdu_stamp :: "'cds TimestampHelper"
  pcdu_tm_buf :: bytes

definition PcduHandler_new ::
    "'cds CdsOps \<Rightarrow> nat \<Rightarrow> UniqueApidTargetId \<Rightarrow> MpscModeLeafInterface \<Rightarrow> CompositeRequest GenericMessage chan \<Rightarrow>
     HkReply GenericMessage chan \<Rightarrow> SwitchRequest GenericMessage chan \<Rightarrow> 's \<Rightarrow> 'c \<Rightarrow> SwitchSet mutex \<Rightarrow>
     ('e, ('s, 'c, 'cds) PcduHandler) res" where
  "PcduHandler_new cds now i leaf composite hk switch_rx s c l =
     res_bind (TimestampHelper_default cds now) (\<lambda>helper.
       Ok \<lparr>pcdu_id = i, pcdu_mode_interface = leaf, pcdu_composite_rx = composite, pcdu_hk_reply_tx = hk,
           switch_request_rx = switch_rx, pcdu_tm_sender = s, pcdu_com = c, shared_switch_map = l,
           pcdu_mode = ModeAndSubmode_new (DeviceMode_num DeviceOff) 0, pcdu_stamp = helper, pcdu_tm_buf = replicate 256 0\<rparr>)"

paragraph \<open>Mode requests\<close>

definition pcdu_send_mode_reply ::
    "('s, 'c, 'cds) PcduHandler \<Rightarrow> MessageMetadata \<Rightarrow> ModeReply \<Rightarrow> (ModeError, unit) res \<times> ('s, 'c, 'cds) PcduHandler" where
  "pcdu_send_mode_reply h requestor reply =
     (let (r, leaf) = leaf_send_mode_reply (pcdu_mode_interface h) requestor reply
      in (r, h\<lparr>pcdu_mode_interface := leaf\<rparr>))"

definition pcdu_handle_mode_reached ::
    "('s, 'c, 'cds) PcduHandler \<Rightarrow> MessageMetadata option \<Rightarrow> (ModeError, unit) res \<times> ('s, 'c, 'cds) PcduHandler" where
  "pcdu_handle_mode_reached h requestor =
     (case requestor of
        None \<Rightarrow> (Ok (), h)
      | Some info \<Rightarrow>
          if mm_sender_id info = NO_SENDER then (Ok (), h)
          else if mm_sender_id info \<noteq> component_id PUS_MODE_SERVICE then (Ok (), h)
          else pcdu_send_mode_reply h info (ModeReply (pcdu_mode h)))"

definition pcdu_start_transition ::
    "('s, 'c, 'cds) PcduHandler \<Rightarrow> MessageMetadata \<Rightarrow> ModeAndSubmode \<Rightarrow> (ModeError, unit) res \<times> ('s, 'c, 'cds) PcduHandler" where
  "pcdu_start_transition h0 requestor m =
     (let h = h0\<lparr>pcdu_mode := m\<rparr>
      in res_try (if mode m = DeviceMode_num DeviceOff
                  then res_map (\<lambda>l. l\<lparr>set_valid := False\<rparr>) (lock_unwrap (shared_switch_map h))
                  else Ok (guarded (shared_switch_map h))) h (\<lambda>l.
           pcdu_handle_mode_reached (h\<lparr>shared_switch_map := (shared_switch_map h)\<lparr>guarded := l\<rparr>\<rparr>) (Some requestor)))"

definition pcdu_mode_handler :: "(('s, 'c, 'cds) PcduHandler, ModeError) ModeRequestHandler" where
  "pcdu_mode_handler =
     \<lparr>mh_mode_and_submode = pcdu_mode,
      mh_start_transition = pcdu_start_transition,
      mh_announce_mode = (\<lambda>h _ _. h),
      mh_handle_mode_info = (\<lambda>h _ _. (Ok (), h)),
      mh_send_mode_reply = pcdu_send_mode_reply\<rparr>"

definition pcdu_recv_mode ::
    "('s, 'c, 'cds) PcduHandler \<Rightarrow> (TryRecvError, ModeRequest GenericMessage) res \<times> ('s, 'c, 'cds) PcduHandler" where
  "pcdu_recv_mode h =
     (let (r, c) = mpsc_try_recv (request_rx (pcdu_mode_interface h))
      in (r, h\<lparr>pcdu_mode_interface := (pcdu_mode_interface h)\<lparr>request_rx := c\<rparr>\<rparr>))"

definition pcdu_handle_mode_requests ::
    "('s, 'c, 'cds) PcduHandler \<Rightarrow> ((unit, unit) res \<times> ('s, 'c, 'cds) PcduHandler) option" where
  "pcdu_handle_mode_requests h =
     drain_requests pcdu_recv_mode (\<lambda>x h. log_failure (handle_mode_request pcdu_mode_handler h x)) h"

paragraph \<open>Housekeeping requests\<close>

text \<open>The writer gives the length of the serialised switch set and leaves the buffer as it is.\<close>

definition pcdu_hk_writer :: "PcduJson \<Rightarrow> SwitchSet mutex \<Rightarrow> bytes \<Rightarrow> (ByteConversionError, nat) res \<times> bytes" where
  "pcdu_hk_writer js l hk_buf =
     res_try (lock_unwrap l) hk_buf (\<lambda>switch_map_snapshot.
     res_try (res_unwrap (ser (json_switch_set js) switch_map_snapshot)) hk_buf (\<lambda>switch_map_json.
       if length hk_buf < length switch_map_json
       then (Err (ToSliceTooSmall (length hk_buf) (length switch_map_json)), hk_buf)
       else (Ok (length switch_map_json), hk_buf)))"

definition pcdu_handle_hk_request ::
    "('s, 'pe, 'c, 'ce, 'cds) PcduEnv \<Rightarrow> MessageMetadata \<Rightarrow> HkRequest \<Rightarrow> ('s, 'c, 'cds) PcduHandler \<Rightarrow>
     (unit, unit) res \<times> ('s, 'c, 'cds) PcduHandler" where
  "pcdu_handle_hk_request env requestor hk_request h =
     (case hk_variant hk_request of
        OneShot \<Rightarrow>
          if hk_unique_id hk_request = PCDU_SwitcherSet then
            let (r, buf) = generate_hk_report_packet (pe_hk_packet env) (pcdu_id h) (stamp (pcdu_stamp h)) PCDU_SwitcherSet
                  (pcdu_hk_writer (pe_json env) (shared_switch_map h)) (pcdu_tm_buf h);
                h1 = h\<lparr>pcdu_tm_buf := buf\<rparr>
            in case r of
                 Ok hk_tm \<Rightarrow>
                   let (rs, s) = pe_send_tm env (pcdu_tm_sender h1) (UniqueApidTargetId_raw (pcdu_id h1)) (Direct hk_tm);
                       h2 = h1\<lparr>pcdu_tm_sender := s\<rparr>
                   in res_try (res_unwrap rs) h2 (\<lambda>_.
                        let (rr, c) = mpsc_send (pcdu_hk_reply_tx h2)
                              (GenericMessage_new requestor \<lparr>hkr_unique_id = hk_unique_id hk_request, hkr_variant = HkAck\<rparr>)
                        in (res_unwrap rr, h2\<lparr>pcdu_hk_reply_tx := c\<rparr>))
               | Err _ \<Rightarrow> (Ok (), h1)
               | Panic \<Rightarrow> (Panic, h1)
          else (Ok (), h)
      | _ \<Rightarrow> (Panic, h))"

definition pcdu_recv_composite ::
    "('s, 'c, 'cds) PcduHandler \<Rightarrow> (TryRecvError, CompositeRequest GenericMessage) res \<times> ('s, 'c, 'cds) PcduHandler" where
  "pcdu_recv_composite h = (let (r, c) = mpsc_try_recv (pcdu_composite_rx h) in (r, h\<lparr>pcdu_composite_rx := c\<rparr>))"

definition pcdu_handle_composite ::
    "('s, 'pe, 'c, 'ce, 'cds) PcduEnv \<Rightarrow> CompositeRequest GenericMessage \<Rightarrow> ('s, 'c, 'cds) PcduHandler \<Rightarrow>
     (unit, unit) res \<times> ('s, 'c, 'cds) PcduHandler" where
  "pcdu_handle_composite env x h =
     (case message x of
        CompositeHk hk_request \<Rightarrow> pcdu_handle_hk_request env (requestor_info x) hk_request h
      | CompositeAction _ \<Rightarrow> (Ok (), h))"

definition pcdu_handle_composite_requests ::
    "('s, 'pe, 'c, 'ce, 'cds) PcduEnv \<Rightarrow> ('s, 'c, 'cds) PcduHandler \<Rightarrow>
     ((unit, unit) res \<times> ('s, 'c, 'cds) PcduHandler) option" where
  "pcdu_handle_composite_requests env h = drain_requests pcdu_recv_composite (pcdu_handle_composite env) h"

paragraph \<open>Switch requests and replies of the power unit\<close>

definition handle_periodic_commands ::
    "('s, 'pe, 'c, 'ce, 'cds) PcduEnv \<Rightarrow> ('s, 'c, 'cds) PcduHandler \<Rightarrow> (unit, unit) res \<times> ('s, 'c, 'cds) PcduHandler" where
  "handle_periodic_commands env h =
     res_try (res_unwrap (ser (json_request (pe_json env)) RequestSwitchInfo)) h (\<lambda>b.
       let (r, c) = pe_com_send env (pcdu_com h) b in log_failure (r, h\<lparr>pcdu_com := c\<rparr>))"

definition send_switch_request ::
    "('s, 'pe, 'c, 'ce, 'cds) PcduEnv \<Rightarrow> SwitchRequest \<Rightarrow> ('s, 'c, 'cds) PcduHandler \<Rightarrow>
     (unit, unit) res \<times> ('s, 'c, 'cds) PcduHandler" where
  "send_switch_request env rq h =
     (case pe_switch_try_from env (switch_id rq) of
        None \<Rightarrow> (Panic, h)
      | Some pcdu_switch \<Rightarrow>
          res_try (res_unwrap (ser (json_request (pe_json env)) (SwitchDevice pcdu_switch (target_state rq)))) h (\<lambda>b.
            let (r, c) = pe_com_send env (pcdu_com h) b in (res_unwrap r, h\<lparr>pcdu_com := c\<rparr>)))"

lemma send_switch_request_rx:
  "send_switch_request env rq h = (r, h') \<Longrightarrow> switch_request_rx h' = switch_request_rx h"
  by (auto simp: send_switch_request_def res_try_case split: option.splits res.splits prod.splits)

function handle_switch_requests ::
    "('s, 'pe, 'c, 'ce, 'cds) PcduEnv \<Rightarrow> ('s, 'c, 'cds) PcduHandler \<Rightarrow> (unit, unit) res \<times> ('s, 'c, 'cds) PcduHandler" where
  "handle_switch_requests env h =
     (case mpsc_try_recv (switch_request_rx h) of
        (Ok rq, c) \<Rightarrow> (case send_switch_request env (message rq) (h\<lparr>switch_request_rx := c\<rparr>) of
            (Ok _, h1) \<Rightarrow> handle_switch_requests env h1
          | (r, h1) \<Rightarrow> (r, h1))
      | (_, c) \<Rightarrow> (Ok (), h\<lparr>switch_request_rx := c\<rparr>))"
  by auto
termination
  by (relation "measure (\<lambda>(env, h). length (ch_queue (switch_request_rx h)))")
    (auto simp: mpsc_try_recv_def split: list.splits dest!: send_switch_request_rx [OF sym])

definition pcdu_reply_handler :: "PcduJson \<Rightarrow> (SwitchSet mutex, 'e) ReplyHandler" where
  "pcdu_reply_handler js reply l =
     res_try (res_unwrap (de (json_sim_reply js) reply)) l (\<lambda>sim_reply.
     res_try (res_unwrap (from_sim_message SimPcdu (json_reply js) sim_reply)) l (\<lambda>pcdu_reply.
       case pcdu_reply of SwitchInfo switch_info \<Rightarrow>
         res_try (lock_unwrap l) l (\<lambda>_.
           (Ok (), l\<lparr>guarded := \<lparr>set_valid = True, switch_map = from_binary_switch_map_ref switch_info\<rparr>\<rparr>))))"

definition poll_and_handle_replies ::
    "('s, 'pe, 'c, 'ce, 'cds) PcduEnv \<Rightarrow> ('s, 'c, 'cds) PcduHandler \<Rightarrow> (unit, unit) res \<times> ('s, 'c, 'cds) PcduHandler" where
  "poll_and_handle_replies env h =
     (let ((r, l), c) = pe_try_recv_replies env (pcdu_com h) (pcdu_reply_handler (pe_json env)) (shared_switch_map h)
      in log_failure (r, h\<lparr>pcdu_com := c, shared_switch_map := l\<rparr>))"

definition pcdu_periodic_operation ::
    "('s, 'pe, 'c, 'ce, 'cds) PcduEnv \<Rightarrow> nat \<Rightarrow> OpCode \<Rightarrow> ('s, 'c, 'cds) PcduHandler \<Rightarrow>
     ((unit, unit) res \<times> ('s, 'c, 'cds) PcduHandler) option" where
  "pcdu_periodic_operation env now op_code h0 =
     (case op_code of
        RegularOp \<Rightarrow>
          and_then (Some (let (r, st) = update_from_now (pe_cds env) now (pcdu_stamp h0) in (r, h0\<lparr>pcdu_stamp := st\<rparr>))) (\<lambda>h1.
          and_then (pcdu_handle_composite_requests env h1) (\<lambda>h2.
          and_then (pcdu_handle_mode_requests h2) (\<lambda>h3.
          and_then (Some (handle_switch_requests env h3)) (\<lambda>h4.
            if mode (pcdu_mode h4) = DeviceMode_num DeviceNormal \<or> mode (pcdu_mode h4) = DeviceMode_num DeviceOn
            then Some (handle_periodic_commands env h4) else Some (Ok (), h4)))))
      | PollAndRecvReplies \<Rightarrow> Some (poll_and_handle_replies env h0))"

subsection \<open>The request queues of the handler\<close>

lemma pcdu_mode_request_keeps:
  assumes "log_failure (handle_mode_request pcdu_mode_handler h x) = (r, h')"
  shows "request_rx (pcdu_mode_interface h') = request_rx (pcdu_mode_interface h)"
proof -
  have "request_rx (pcdu_mode_interface (snd (handle_mode_request pcdu_mode_handler h x))) = request_rx (pcdu_mode_interface h)"
    by (auto simp: handle_mode_request_def pcdu_mode_handler_def pcdu_start_transition_def lock_unwrap_def pcdu_send_mode_reply_def
        pcdu_handle_mode_reached_def leaf_send_mode_reply_def Let_def snd_def split: ModeRequest.splits prod.splits if_splits)
  then show ?thesis
    using assms by (cases "handle_mode_request pcdu_mode_handler h x"; cases "fst (handle_mode_request pcdu_mode_handler h x)") auto
qed

interpretation pcdu_modes: request_queue pcdu_recv_mode
  "\<lambda>x h. log_failure (handle_mode_request pcdu_mode_handler h x)"
  "\<lambda>h. ch_queue (request_rx (pcdu_mode_interface h))" "\<lambda>h. tx_alive (request_rx (pcdu_mode_interface h))"
  by unfold_locales (auto simp: pcdu_recv_mode_def mpsc_try_recv_def Let_def dest!: pcdu_mode_request_keeps split: list.splits)

lemma pcdu_composite_keeps:
  "pcdu_handle_composite env x h = (r, h') \<Longrightarrow> pcdu_composite_rx h' = pcdu_composite_rx h \<and>
     pcdu_mode_interface h' = pcdu_mode_interface h \<and> pcdu_mode h' = pcdu_mode h \<and> shared_switch_map h' = shared_switch_map h"
  by (auto simp: pcdu_handle_composite_def pcdu_handle_hk_request_def Let_def res_try_case
      split: CompositeRequest.splits HkRequestVariant.splits prod.splits res.splits if_splits)

interpretation pcdu_composites: request_queue pcdu_recv_composite "pcdu_handle_composite env"
  "\<lambda>h. ch_queue (pcdu_composite_rx h)" "\<lambda>h. tx_alive (pcdu_composite_rx h)"
  by unfold_locales (auto simp: pcdu_recv_composite_def mpsc_try_recv_def Let_def dest!: pcdu_composite_keeps split: list.splits)

subsection \<open>The housekeeping report\<close>

text \<open>
  The report of the switch set has the length of the serialised set, but its data are what the buffer
  held before: nothing writes the serialised set into it.
\<close>

lemma pcdu_hk_no_data:
  assumes "hk_variant rq = OneShot" "hk_unique_id rq = PCDU_SwitcherSet" "\<not> poisoned (shared_switch_map h)"
    and "ser (json_switch_set (pe_json env)) (guarded (shared_switch_map h)) = Ok js" "length js \<le> 248"
    and "length (pcdu_tm_buf h) = 256"
    and "pe_send_tm env (pcdu_tm_sender h) (UniqueApidTargetId_raw (pcdu_id h)) (Direct
      \<lparr>pt_apid = ut_apid (pcdu_id h), pt_seq_count = 0, pt_service = 3, pt_subservice = pe_hk_packet env, pt_msg_counter = 0,
       pt_dest_id = 0, pt_time_stamp = stamp (pcdu_stamp h),
       pt_source_data = to_be_bytes (ut_unique_id (pcdu_id h)) @ to_be_bytes (0 :: u32) @ take (length js) (drop 8 (pcdu_tm_buf h))\<rparr>) =
      (Ok (), s)"
    and "rx_alive (pcdu_hk_reply_tx h)"
  shows "\<exists>h'. pcdu_handle_hk_request env info rq h = (Ok (), h') \<and> pcdu_tm_sender h' = s \<and>
    drop 8 (pcdu_tm_buf h') = drop 8 (pcdu_tm_buf h)"
proof -
  let ?b = "pcdu_tm_buf h"
  have g: "generate_hk_report_packet (pe_hk_packet env) (pcdu_id h) (stamp (pcdu_stamp h)) PCDU_SwitcherSet
        (pcdu_hk_writer (pe_json env) (shared_switch_map h)) ?b =
      (Ok \<lparr>pt_apid = ut_apid (pcdu_id h), pt_seq_count = 0, pt_service = 3, pt_subservice = pe_hk_packet env, pt_msg_counter = 0,
         pt_dest_id = 0, pt_time_stamp = stamp (pcdu_stamp h),
         pt_source_data = to_be_bytes (ut_unique_id (pcdu_id h)) @ to_be_bytes (0 :: u32) @ take (length js) (drop 8 ?b)\<rparr>,
       to_be_bytes (ut_unique_id (pcdu_id h)) @ to_be_bytes (0 :: u32) @ drop 8 ?b)"
    using assms by (simp add: generate_hk_report_packet_def PCDU_SwitcherSet_def copy_into_def overwrite_def pcdu_hk_writer_def
        lock_unwrap_def slice_def Let_def)
  show ?thesis using assms by (simp add: pcdu_handle_hk_request_def g mpsc_send_def Let_def)
qed

end
