(* ===== verification/Device_Tasks.thy ===== *)
theory Device_Tasks
  imports Pcdu_Handler
begin

text \<open>
  The two device tasks of \<^verbatim>\<open>satrs-example/src/main.rs\<close> together: the magnetometer handler commands its
  power switch through the power unit handler and learns the switch state from the set the two share.
  The properties follow a mode command through both.
\<close>

subsection \<open>The tasks\<close>

text \<open>
  Both handlers hold ends of the same channels: the switch requests, the mode and housekeeping replies and
  the telemetry, and the lock of the switch set. The magnetometer handler's record has their state; the
  power unit handler is run on it and gives it back.
\<close>

record ('s, 'c, 'p, 'cds) DeviceTasks =
  dev_mgm :: "(PowerSwitchHelper, 's, 'c, 'cds) MgmHandlerLis3Mdl"
  dev_pcdu :: "('s, 'p, 'cds) PcduHandler"

definition connect_pcdu :: "('s, 'c, 'p, 'cds) DeviceTasks \<Rightarrow> ('s, 'p, 'cds) PcduHandler" where
  "connect_pcdu d =
     (let m = dev_mgm d; p = dev_pcdu d; w = mgm_switch_helper m
      in p\<lparr>switch_request_rx := switcher_net w (switcher_tx w), shared_switch_map := shared_switch_set w,
           pcdu_tm_sender := mgm_tm_sender m, pcdu_hk_reply_tx := mgm_hk_reply_tx m,
           pcdu_mode_interface := (pcdu_mode_interface p)\<lparr>reply_to_pus_tx := reply_to_pus_tx (mgm_mode_interface m)\<rparr>\<rparr>)"

definition disconnect_pcdu :: "('s, 'c, 'p, 'cds) DeviceTasks \<Rightarrow> ('s, 'p, 'cds) PcduHandler \<Rightarrow> ('s, 'c, 'p, 'cds) DeviceTasks" where
  "disconnect_pcdu d p =
     (let m = dev_mgm d; w = mgm_switch_helper m
      in \<lparr>dev_mgm = m\<lparr>mgm_switch_helper := w\<lparr>switcher_net := (switcher_net w)(switcher_tx w := switch_request_rx p),
              shared_switch_set := shared_switch_map p\<rparr>, mgm_tm_sender := pcdu_tm_sender p, mgm_hk_reply_tx := pcdu_hk_reply_tx p,
              mgm_mode_interface := (mgm_mode_interface m)\<lparr>reply_to_pus_tx := reply_to_pus_tx (pcdu_mode_interface p)\<rparr>\<rparr>,
          dev_pcdu = p\<rparr>)"

text \<open>One round of the AOCS thread and one round of the EPS thread.\<close>

definition aocs_task ::
    "(PowerSwitchHelper, 'se, 'ie, 's, 'pe, 'c, 'ce, 'cds) MgmEnv \<Rightarrow> nat \<Rightarrow> ('s, 'c, 'p, 'cds) DeviceTasks \<Rightarrow>
     ((unit, unit) res \<times> ('s, 'c, 'p, 'cds) DeviceTasks) option" where
  "aocs_task env now d = map_option (map_prod id (\<lambda>m. d\<lparr>dev_mgm := m\<rparr>)) (mgm_periodic_operation env now (dev_mgm d))"

definition run_pcdu ::
    "('s, 'pe, 'p, 'qe, 'cds) PcduEnv \<Rightarrow> nat \<Rightarrow> OpCode \<Rightarrow> ('s, 'c, 'p, 'cds) DeviceTasks \<Rightarrow>
     ((unit, unit) res \<times> ('s, 'c, 'p, 'cds) DeviceTasks) option" where
  "run_pcdu env now op_code d =
     map_option (map_prod id (disconnect_pcdu d)) (pcdu_periodic_operation env now op_code (connect_pcdu d))"

definition eps_task ::
    "('s, 'pe, 'p, 'qe, 'cds) PcduEnv \<Rightarrow> nat \<Rightarrow> ('s, 'c, 'p, 'cds) DeviceTasks \<Rightarrow>
     ((unit, unit) res \<times> ('s, 'c, 'p, 'cds) DeviceTasks) option" where
  "eps_task env now d =
     and_then (run_pcdu env now RegularOp d) (\<lambda>d1.
     and_then (run_pcdu env now PollAndRecvReplies d1) (\<lambda>d2. run_pcdu env now PollAndRecvReplies d2))"

subsection \<open>The environment of the application\<close>

text \<open>
  The clock of the time stamps does not fail, and the conversion of a switch number gives back the switch
  it stands for.
\<close>

definition clock_ok :: "'cds CdsOps \<Rightarrow> bool" where
  "clock_ok cds \<longleftrightarrow> (\<forall>now c buf. fst (cds_update_from_now cds now c) = Ok () \<and> is_ok (fst (cds_write_to_bytes cds c buf)))"

lemma clock_okE:
  assumes "clock_ok cds"
  obtains st where "update_from_now cds now h = (Ok (), st)"
proof -
  obtain c where c: "cds_update_from_now cds now (stamper h) = (Ok (), c)"
    using assms by (metis clock_ok_def prod.collapse)
  obtain n raw where "cds_write_to_bytes cds c (stamp h) = (Ok n, raw)"
    using assms by (metis clock_ok_def is_ok_iff prod.collapse)
  then show thesis using c by (intro that) (simp add: update_from_now_def Let_def)
qed

definition app_mgm_env ::
    "('s, 'pe) EcssTmSender \<Rightarrow> 'rq \<Rightarrow> ('rp chan \<Rightarrow> 'rp option \<times> 'rp chan) \<Rightarrow> ('rp \<Rightarrow> (unit, MgmLis3RawValues) res) \<Rightarrow>
     'cds CdsOps \<Rightarrow> u8 \<Rightarrow>
     (PowerSwitchHelper, SwitchCommandingError, SwitchInfoError, 's, 'pe, ('rq, 'rp) SpiSimInterfaceWrapper, unit, 'cds) MgmEnv" where
  "app_mgm_env send rq await parse cds hk =
     \<lparr>me_send_switch_on_cmd = PowerSwitchHelper_send_switch_on_cmd, me_switch_state = PowerSwitchHelper_switch_state,
      me_send_tm = send, me_transfer = SpiSimInterfaceWrapper_transfer rq await parse, me_cds = cds, me_hk_packet = hk\<rparr>"

definition app_pcdu_env ::
    "('s, 'pe) EcssTmSender \<Rightarrow> PcduJson \<Rightarrow> (u16 \<Rightarrow> PcduSwitch option) \<Rightarrow> 'cds CdsOps \<Rightarrow> u8 \<Rightarrow>
     ('s, 'pe, SerialSimInterfaceWrapper, unit, 'cds) PcduEnv" where
  "app_pcdu_env send js try_from cds hk =
     \<lparr>pe_json = js, pe_switch_try_from = try_from, pe_send_tm = send, pe_com_send = SerialSimInterfaceWrapper_send js,
      pe_try_recv_replies = SerialSimInterfaceWrapper_try_recv_replies js, pe_cds = cds, pe_hk_packet = hk\<rparr>"

subsection \<open>Cycles of the magnetometer handler\<close>

text \<open>The handler with open queues, no housekeeping request, and the dummy sensor.\<close>

definition mgm_ready :: "('w, 's, ('rq, 'rp) SpiSimInterfaceWrapper, 'cds) MgmHandlerLis3Mdl \<Rightarrow> bool" where
  "mgm_ready h \<longleftrightarrow> (\<exists>d. mgm_com h = SpiDummy d) \<and> length (tx_buf (bufs h)) = 32 \<and> length (rx_buf (bufs h)) = 32 \<and>
     \<not> poisoned (shared_mgm_set h) \<and> ch_queue (mgm_composite_rx h) = [] \<and> tx_alive (mgm_composite_rx h) \<and>
     tx_alive (request_rx (mgm_mode_interface h))"

lemma poll_dummy:
  fixes env :: "('w, 'se, 'ie, 's, 'pe, ('rq, 'rp) SpiSimInterfaceWrapper, 'ce, 'cds) MgmEnv"
  assumes "mgm_ready h" and env: "me_transfer env = SpiSimInterfaceWrapper_transfer rq await parse"
  obtains h' where "poll_sensor env h = (Ok (), h')" "mgm_ready h'" "mgm_valid (guarded (shared_mgm_set h'))"
    "mgm_mode_interface h' = mgm_mode_interface h" "mode_helpers h' = mode_helpers h" "mgm_switch_helper h' = mgm_switch_helper h"
proof -
  obtain d where d: "mgm_com h = SpiDummy d" using assms by (auto simp: mgm_ready_def)
  obtain rx where rx: "SpiDummyInterface_transfer d (take 15 (tx_buf (bufs h))) (take 15 (rx_buf (bufs h))) =
      ((Ok () :: ('ce, unit) res, rx), d)" "length rx = 15"
    using assms(1) by (auto simp: SpiDummyInterface_transfer_def register_defs copy_into_def mgm_ready_def to_le_bytes_def)
  have "\<exists>h'. poll_sensor env h = (Ok (), h') \<and> mgm_ready h' \<and> mgm_valid (guarded (shared_mgm_set h')) \<and>
    mgm_mode_interface h' = mgm_mode_interface h \<and> mode_helpers h' = mode_helpers h \<and> mgm_switch_helper h' = mgm_switch_helper h"
    using assms(1) d rx
    by (simp add: poll_sensor_def register_defs slice_def env SpiSimInterfaceWrapper_transfer_def lock_unwrap_def mgm_ready_def Let_def)
  then show thesis using that by blast
qed

text \<open>A cycle without a housekeeping request: the mode requests, the transition, and the sensor.\<close>

definition mgm_requests_and_modes ::
    "('w, 'se, 'ie, 's, 'pe, 'c, 'ce, 'cds) MgmEnv \<Rightarrow> ('w, 's, 'c, 'cds) MgmHandlerLis3Mdl \<Rightarrow>
     ((unit, unit) res \<times> ('w, 's, 'c, 'cds) MgmHandlerLis3Mdl) option" where
  "mgm_requests_and_modes env h =
     and_then (mgm_handle_mode_requests h) (\<lambda>h3.
     and_then (Some (case transition_target (mode_helpers h3) of
                 Some target \<Rightarrow> mgm_handle_mode_transition env target h3
               | None \<Rightarrow> (Ok (), h3))) (\<lambda>h4.
       if mode (mode_current (mode_helpers h4)) = DeviceMode_num DeviceNormal then Some (poll_sensor env h4)
       else Some (Ok (), h4)))"

lemma mgm_cycle:
  assumes ready: "mgm_ready h" and clock: "clock_ok (me_cds env)"
  obtains st where "mgm_ready (h\<lparr>mgm_stamp := st\<rparr>)" "mgm_periodic_operation env now h = mgm_requests_and_modes env (h\<lparr>mgm_stamp := st\<rparr>)"
proof -
  obtain st where st: "update_from_now (me_cds env) now (mgm_stamp h) = ((Ok () :: (unit, unit) res), st)" using clock by (rule clock_okE)
  have "mgm_handle_composite_requests env (h\<lparr>mgm_stamp := st\<rparr>) = Some (Ok (), h\<lparr>mgm_stamp := st\<rparr>)"
    unfolding mgm_handle_composite_requests_def using ready by (intro mgm_composites.drain_empty) (auto simp: mgm_ready_def)
  then show thesis using ready st by (intro that) (auto simp: mgm_periodic_operation_def mgm_requests_and_modes_def mgm_ready_def)
qed

text \<open>The mode command is taken: the handler has the new mode at once and a transition to it.\<close>

definition transition_started ::
    "MessageMetadata \<Rightarrow> ModeAndSubmode \<Rightarrow> ('w, 's, 'c, 'cds) MgmHandlerLis3Mdl \<Rightarrow> ('w, 's, 'c, 'cds) MgmHandlerLis3Mdl" where
  "transition_started info m h =
     h\<lparr>mgm_mode_interface := (mgm_mode_interface h)\<lparr>request_rx := (request_rx (mgm_mode_interface h))\<lparr>ch_queue := []\<rparr>\<rparr>,
       mode_helpers := \<lparr>mode_current = m, transition_target = Some m, mode_requestor = Some info, transition_state = TransitionIdle\<rparr>\<rparr>"

lemma mgm_takes_command:
  assumes "ch_queue (request_rx (mgm_mode_interface h)) = [\<lparr>requestor_info = info, message = SetMode m\<rparr>]"
    and "tx_alive (request_rx (mgm_mode_interface h))" "mode m \<in> {1, 2}"
  shows "mgm_handle_mode_requests h = Some (Ok (), transition_started info m h)"
  unfolding mgm_handle_mode_requests_def
  by (rule mgm_modes.drain_one [OF assms(1,2)])
    (use assms in \<open>auto simp: mgm_recv_mode_def mpsc_try_recv_def transition_started_def handle_mode_request_def mgm_mode_handler_def
      mgm_start_transition_def Let_def\<close>)

text \<open>The start of the transition: the switch command is sent and the switch is looked up.\<close>

definition switch_commanded :: "ComponentId \<Rightarrow> PowerSwitchHelper \<Rightarrow> PowerSwitchHelper" where
  "switch_commanded i w = snd (PowerSwitchHelper_send_switch_on_cmd w (MessageMetadata_new 0 i) SwitchMgm)"

lemma switch_commanded_sel [simp]:
  "shared_switch_set (switch_commanded i w) = shared_switch_set w" "switcher_tx (switch_commanded i w) = switcher_tx w"
  "rx_alive (switcher_net w (switcher_tx w)) \<Longrightarrow> length (ch_queue (switcher_net w (switcher_tx w))) < ch_bound (switcher_net w (switcher_tx w)) \<Longrightarrow>
   switcher_net (switch_commanded i w) (switcher_tx w) = (switcher_net w (switcher_tx w))
     \<lparr>ch_queue := ch_queue (switcher_net w (switcher_tx w)) @ [switch_cmd (MessageMetadata_new 0 i) 0 BinaryOn]\<rparr>"
  by (simp_all add: switch_commanded_def PowerSwitchHelper_send_switch_on_cmd_def MpscSwitchCmdSenderBounded_send_switch_on_cmd_def
      chan_defs split: prod.splits)

lemma transition_waits:
  assumes env: "me_send_switch_on_cmd env = PowerSwitchHelper_send_switch_on_cmd" "me_switch_state env = PowerSwitchHelper_switch_state"
    and "mode m \<in> {1, 2}" "mode_helpers h = \<lparr>mode_current = m, transition_target = Some m, mode_requestor = Some info, transition_state = TransitionIdle\<rparr>"
    and "\<not> poisoned (shared_switch_set (mgm_switch_helper h))" "set_valid (guarded (shared_switch_set (mgm_switch_helper h)))"
    and "switch_map (guarded (shared_switch_set (mgm_switch_helper h))) SwitchMgm = Some st" "st \<noteq> SwitchOn"
  shows "mgm_handle_mode_transition env m h = (Ok (), set_transition_state PowerSwitching
    (h\<lparr>mgm_switch_helper := switch_commanded (UniqueApidTargetId_raw (mgm_id h)) (mgm_switch_helper h)\<rparr>))"
proof -
  let ?w = "switch_commanded (UniqueApidTargetId_raw (mgm_id h)) (mgm_switch_helper h)"
  have "is_switch_on (PowerSwitchHelper_switch_state ?w) SwitchMgm = Ok False"
    using assms by (simp add: is_switch_on_def PowerSwitchHelper_switch_state_def lock_unwrap_def)
  then show ?thesis using assms
    by (auto simp: mgm_handle_mode_transition_def set_transition_state_def switch_commanded_def Let_def split_def)
qed

lemma transition_panics:
  assumes env: "me_send_switch_on_cmd env = PowerSwitchHelper_send_switch_on_cmd" "me_switch_state env = PowerSwitchHelper_switch_state"
    and "mode m \<in> {1, 2}" "mode_helpers h = \<lparr>mode_current = m, transition_target = Some m, mode_requestor = Some info, transition_state = TransitionIdle\<rparr>"
    and "\<not> set_valid (guarded (shared_switch_set (mgm_switch_helper h)))"
  shows "fst (mgm_handle_mode_transition env m h) = Panic"
proof -
  let ?w = "switch_commanded (UniqueApidTargetId_raw (mgm_id h)) (mgm_switch_helper h)"
  have "res_unwrap (is_switch_on (PowerSwitchHelper_switch_state ?w) SwitchMgm) = (Panic :: (unit, bool) res)"
    using assms(5) by (simp add: is_switch_on_def PowerSwitchHelper_switch_state_def lock_unwrap_def)
  then show ?thesis using assms
    by (auto simp: mgm_handle_mode_transition_def set_transition_state_def switch_commanded_def Let_def split_def)
qed

lemma transition_completes:
  assumes env: "me_switch_state env = PowerSwitchHelper_switch_state"
    and "mode m \<in> {1, 2}" "mode_helpers h = \<lparr>mode_current = m, transition_target = Some m, mode_requestor = Some info, transition_state = PowerSwitching\<rparr>"
    and "\<not> poisoned (shared_switch_set (mgm_switch_helper h))" "set_valid (guarded (shared_switch_set (mgm_switch_helper h)))"
    and "switch_map (guarded (shared_switch_set (mgm_switch_helper h))) SwitchMgm = Some SwitchOn"
    and "mm_sender_id info = component_id PUS_MODE_SERVICE" "rx_alive (reply_to_pus_tx (mgm_mode_interface h))"
  obtains h' where "mgm_handle_mode_transition env m h = (Ok (), h')" "mgm_switch_helper h' = mgm_switch_helper h" "mgm_ready h' = mgm_ready h"
    "mode_helpers h' = \<lparr>mode_current = m, transition_target = None, mode_requestor = Some info, transition_state = TransitionIdle\<rparr>"
    "ch_queue (reply_to_pus_tx (mgm_mode_interface h')) =
       ch_queue (reply_to_pus_tx (mgm_mode_interface h)) @ [\<lparr>requestor_info = info, message = ModeReply m\<rparr>]"
proof -
  have on: "is_switch_on (PowerSwitchHelper_switch_state (mgm_switch_helper h)) SwitchMgm = Ok True"
    using assms by (simp add: is_switch_on_def PowerSwitchHelper_switch_state_def lock_unwrap_def)
  have no: "component_id PUS_MODE_SERVICE \<noteq> NO_SENDER"
    by (simp add: UniqueApidTargetId_raw_def target_id_def NO_SENDER_def)
  have "\<exists>h'. mgm_handle_mode_transition env m h = (Ok (), h') \<and> mgm_switch_helper h' = mgm_switch_helper h \<and> mgm_ready h' = mgm_ready h \<and>
    mode_helpers h' = \<lparr>mode_current = m, transition_target = None, mode_requestor = Some info, transition_state = TransitionIdle\<rparr> \<and>
    ch_queue (reply_to_pus_tx (mgm_mode_interface h')) =
       ch_queue (reply_to_pus_tx (mgm_mode_interface h)) @ [\<lparr>requestor_info = info, message = ModeReply m\<rparr>]"
    using assms on no
    by (auto simp: mgm_handle_mode_transition_def set_transition_state_def mgm_handle_mode_reached_def mgm_send_mode_reply_def
        leaf_send_mode_reply_def mpsc_send_def GenericMessage_new_def mgm_ready_def Let_def)
  then show thesis using that by blast
qed

subsection \<open>Cycles of the power unit handler\<close>

text \<open>The handler in an active mode with open queues, no mode or housekeeping request, and the dummy power unit.\<close>

definition pcdu_ready :: "SerialInterfaceDummy \<Rightarrow> ('s, SerialSimInterfaceWrapper, 'cds) PcduHandler \<Rightarrow> bool" where
  "pcdu_ready i h \<longleftrightarrow> pcdu_com h = SerialDummy i \<and> mode (pcdu_mode h) \<in> {1, 2} \<and>
     ch_queue (pcdu_composite_rx h) = [] \<and> tx_alive (pcdu_composite_rx h) \<and>
     ch_queue (request_rx (pcdu_mode_interface h)) = [] \<and> tx_alive (request_rx (pcdu_mode_interface h))"

lemma dummy_switch:
  assumes "codec_ok (json_request js)" "codec_ok (json_reply js)"
  obtains b where "ser (json_request js) (SwitchDevice sw st) = Ok b"
    "SerialSimInterfaceWrapper_send js (SerialDummy i) b = (Ok (), SerialDummy (i\<lparr>dummy_switch_map := (dummy_switch_map i)(sw \<mapsto> st)\<rparr>))"
proof -
  obtain b where "ser (json_request js) (SwitchDevice sw st) = Ok b" "de (json_request js) b = Ok (SwitchDevice sw st)"
    using assms(1) by (rule codec_okE)
  then show thesis by (intro that [of b]) (simp_all add: SerialSimInterfaceWrapper_send_def SerialInterfaceDummy_send_def)
qed

lemma dummy_info:
  assumes "codec_ok (json_request js)" "codec_ok (json_reply js)"
  obtains b c where "ser (json_request js) RequestSwitchInfo = Ok b" "de (json_reply js) c = Ok (SwitchInfo (dummy_switch_map i))"
    "SerialSimInterfaceWrapper_send js (SerialDummy i) b =
       (Ok (), SerialDummy (i\<lparr>reply_deque := reply_deque i @ [\<lparr>sim_target = SimPcdu, sim_payload = c\<rparr>]\<rparr>))"
proof -
  obtain b where b: "ser (json_request js) RequestSwitchInfo = Ok b" "de (json_request js) b = Ok RequestSwitchInfo"
    using assms(1) by (rule codec_okE)
  obtain c where c: "ser (json_reply js) (SwitchInfo (dummy_switch_map i)) = Ok c" "de (json_reply js) c = Ok (SwitchInfo (dummy_switch_map i))"
    using assms(2) by (rule codec_okE)
  show thesis using b c
    by (intro that [of b c]) (simp_all add: SerialSimInterfaceWrapper_send_def SerialInterfaceDummy_send_def SimReply_new_def)
qed

lemma dummy_poll:
  assumes "codec_ok (json_sim_reply js)" "de (json_reply js) c = Ok (SwitchInfo sw)" "\<not> poisoned l"
    and "reply_deque i = [\<lparr>sim_target = SimPcdu, sim_payload = c\<rparr>]"
  shows "SerialSimInterfaceWrapper_try_recv_replies js (SerialDummy i) (pcdu_reply_handler js) l =
    ((Ok (), l\<lparr>guarded := \<lparr>set_valid = True, switch_map = from_binary_switch_map_ref sw\<rparr>\<rparr>), SerialDummy (i\<lparr>reply_deque := []\<rparr>))"
proof -
  obtain b where b: "ser (json_sim_reply js) \<lparr>sim_target = SimPcdu, sim_payload = c\<rparr> = Ok b"
    "de (json_sim_reply js) b = Ok \<lparr>sim_target = SimPcdu, sim_payload = c\<rparr>"
    using assms(1) by (rule codec_okE)
  then show ?thesis using assms
    by (simp add: SerialSimInterfaceWrapper_try_recv_replies_def SerialInterfaceDummy_try_recv_replies_def pcdu_reply_handler_def
        from_sim_message_def lock_unwrap_def)
qed

lemma pcdu_regular:
  fixes try_from :: "u16 \<Rightarrow> PcduSwitch option"
  assumes env: "env = app_pcdu_env send js try_from cds hk" "clock_ok cds" "codec_ok (json_request js)" "codec_ok (json_reply js)"
    "try_from 0 = Some SwitchMgm"
    and h: "pcdu_ready i h" "reply_deque i = []" "ch_queue (switch_request_rx h) = [switch_cmd info 0 BinaryOn]"
  obtains h' i' c where "pcdu_periodic_operation env now RegularOp h = Some (Ok (), h')" "pcdu_ready i' h'"
    "dummy_switch_map i' = (dummy_switch_map i)(SwitchMgm \<mapsto> BinaryOn)" "reply_deque i' = [\<lparr>sim_target = SimPcdu, sim_payload = c\<rparr>]"
    "de (json_reply js) c = Ok (SwitchInfo (dummy_switch_map i'))" "shared_switch_map h' = shared_switch_map h"
    "pcdu_mode_interface h' = pcdu_mode_interface h" "switch_request_rx h' = (switch_request_rx h)\<lparr>ch_queue := []\<rparr>"
proof -
  obtain st where st: "update_from_now cds now (pcdu_stamp h) = ((Ok () :: (unit, unit) res), st)" using env(2) by (rule clock_okE)
  let ?h1 = "h\<lparr>pcdu_stamp := st\<rparr>" and ?i = "i\<lparr>dummy_switch_map := (dummy_switch_map i)(SwitchMgm \<mapsto> BinaryOn)\<rparr>"
  have comp: "pcdu_handle_composite_requests env ?h1 = Some (Ok (), ?h1)"
    unfolding pcdu_handle_composite_requests_def using h by (intro pcdu_composites.drain_empty) (auto simp: pcdu_ready_def)
  have mode: "pcdu_handle_mode_requests ?h1 = Some (Ok (), ?h1)"
    unfolding pcdu_handle_mode_requests_def using h by (intro pcdu_modes.drain_empty) (auto simp: pcdu_ready_def)
  obtain b1 where b1: "ser (json_request js) (SwitchDevice SwitchMgm BinaryOn) = Ok b1"
    "SerialSimInterfaceWrapper_send js (SerialDummy i) b1 = ((Ok () :: (unit, unit) res), SerialDummy ?i)"
    using dummy_switch [OF env(3,4)] .
  obtain b2 c where b2: "ser (json_request js) RequestSwitchInfo = Ok b2" "de (json_reply js) c = Ok (SwitchInfo (dummy_switch_map ?i))"
    "SerialSimInterfaceWrapper_send js (SerialDummy ?i) b2 =
       ((Ok () :: (unit, unit) res), SerialDummy (?i\<lparr>reply_deque := reply_deque ?i @ [\<lparr>sim_target = SimPcdu, sim_payload = c\<rparr>]\<rparr>))"
    using dummy_info [OF env(3,4)] .
  let ?h2 = "?h1\<lparr>switch_request_rx := (switch_request_rx h)\<lparr>ch_queue := []\<rparr>, pcdu_com := SerialDummy ?i\<rparr>"
  have sw: "handle_switch_requests env ?h1 = (Ok (), ?h2)"
    using h b1 env by (subst handle_switch_requests.simps, subst handle_switch_requests.simps)
      (simp add: mpsc_try_recv_def send_switch_request_def switch_cmd_def GenericMessage_new_def app_pcdu_env_def pcdu_ready_def
       del: handle_switch_requests.simps)
  let ?i3 = "?i\<lparr>reply_deque := [\<lparr>sim_target = SimPcdu, sim_payload = c\<rparr>]\<rparr>"
  have com: "handle_periodic_commands env ?h2 = (Ok (), ?h2\<lparr>pcdu_com := SerialDummy ?i3\<rparr>)"
    using b2 env h by (simp add: handle_periodic_commands_def app_pcdu_env_def)
  have "pcdu_periodic_operation env now RegularOp h = Some (Ok (), ?h2\<lparr>pcdu_com := SerialDummy ?i3\<rparr>)"
    using st comp mode sw com h
    by (auto simp: pcdu_periodic_operation_def env pcdu_ready_def app_pcdu_env_def simp del: handle_switch_requests.simps)
  then show thesis using h b2 by (intro that [of "?h2\<lparr>pcdu_com := SerialDummy ?i3\<rparr>" ?i3 c]) (auto simp: pcdu_ready_def)
qed

lemma pcdu_poll:
  assumes env: "env = app_pcdu_env send js try_from cds hk" "codec_ok (json_sim_reply js)" "de (json_reply js) c = Ok (SwitchInfo sw)"
    and h: "pcdu_ready i h" "reply_deque i = [\<lparr>sim_target = SimPcdu, sim_payload = c\<rparr>]" "\<not> poisoned (shared_switch_map h)"
  shows "pcdu_periodic_operation env now PollAndRecvReplies h = Some (Ok (), h\<lparr>pcdu_com := SerialDummy (i\<lparr>reply_deque := []\<rparr>),
    shared_switch_map := (shared_switch_map h)\<lparr>guarded := \<lparr>set_valid = True, switch_map = from_binary_switch_map_ref sw\<rparr>\<rparr>\<rparr>)"
  using h dummy_poll [OF env(2,3) h(3,2), where ?'a = unit]
  by (simp add: pcdu_periodic_operation_def poll_and_handle_replies_def env(1) app_pcdu_env_def pcdu_ready_def)

lemma pcdu_poll_nothing:
  assumes "env = app_pcdu_env send js try_from cds hk" "pcdu_com h = SerialDummy i" "reply_deque i = []"
  shows "pcdu_periodic_operation env now PollAndRecvReplies h = Some (Ok (), h)"
  using assms by (simp add: pcdu_periodic_operation_def poll_and_handle_replies_def app_pcdu_env_def
      SerialSimInterfaceWrapper_try_recv_replies_def SerialInterfaceDummy_try_recv_replies_def)

lemma connect_disconnect [simp]:
  "connect_pcdu (disconnect_pcdu d p) = p" "disconnect_pcdu (disconnect_pcdu d p) q = disconnect_pcdu d q"
  by (simp_all add: connect_pcdu_def disconnect_pcdu_def Let_def)

text \<open>A round of the power unit task carries out the queued switch command and publishes the new state.\<close>

lemma eps_round:
  assumes env: "env = app_pcdu_env send js try_from cds hk" "clock_ok cds" "codec_ok (json_request js)" "codec_ok (json_reply js)"
    "codec_ok (json_sim_reply js)" "try_from 0 = Some SwitchMgm"
    and p: "pcdu_ready i (connect_pcdu d)" "reply_deque i = []" "ch_queue (switch_request_rx (connect_pcdu d)) = [switch_cmd info 0 BinaryOn]"
    "\<not> poisoned (shared_switch_map (connect_pcdu d))"
  obtains p' i' where "eps_task env now d = Some (Ok (), disconnect_pcdu d p')" "pcdu_com p' = SerialDummy i'"
    "dummy_switch_map i' SwitchMgm = Some BinaryOn" "\<not> poisoned (shared_switch_map p')" "set_valid (guarded (shared_switch_map p'))"
    "switch_map (guarded (shared_switch_map p')) SwitchMgm = Some SwitchOn" "pcdu_mode_interface p' = pcdu_mode_interface (connect_pcdu d)"
proof -
  obtain p1 i1 c where p1: "pcdu_periodic_operation env now RegularOp (connect_pcdu d) = Some (Ok (), p1)" "pcdu_ready i1 p1"
    "dummy_switch_map i1 = (dummy_switch_map i)(SwitchMgm \<mapsto> BinaryOn)" "reply_deque i1 = [\<lparr>sim_target = SimPcdu, sim_payload = c\<rparr>]"
    "de (json_reply js) c = Ok (SwitchInfo (dummy_switch_map i1))" "shared_switch_map p1 = shared_switch_map (connect_pcdu d)"
    "pcdu_mode_interface p1 = pcdu_mode_interface (connect_pcdu d)" "switch_request_rx p1 = (switch_request_rx (connect_pcdu d))\<lparr>ch_queue := []\<rparr>"
    using pcdu_regular [OF env(1-4,6) p(1-3)] .
  let ?p2 = "p1\<lparr>pcdu_com := SerialDummy (i1\<lparr>reply_deque := []\<rparr>),
    shared_switch_map := (shared_switch_map p1)\<lparr>guarded := \<lparr>set_valid = True, switch_map = from_binary_switch_map_ref (dummy_switch_map i1)\<rparr>\<rparr>\<rparr>"
  have p2: "pcdu_periodic_operation env now PollAndRecvReplies p1 = Some (Ok (), ?p2)"
    by (rule pcdu_poll [OF env(1,5) p1(5,2,4)]) (simp add: p1 p)
  have p3: "pcdu_periodic_operation env now PollAndRecvReplies ?p2 = Some (Ok (), ?p2)"
    by (rule pcdu_poll_nothing [OF env(1), where i = "i1\<lparr>reply_deque := []\<rparr>"]) simp_all
  have "eps_task env now d = Some (Ok (), disconnect_pcdu d ?p2)" by (simp add: eps_task_def run_pcdu_def p1(1) p2 p3)
  then show thesis using p p1 by (intro that [of ?p2 "i1\<lparr>reply_deque := []\<rparr>"]) (auto simp: from_binary_switch_map_ref_def)
qed

subsection \<open>A mode command through both tasks\<close>

lemma mgm_ready_steps [simp]:
  "mgm_ready (transition_started info m h) = mgm_ready h" "mgm_ready (h\<lparr>mgm_switch_helper := w\<rparr>) = mgm_ready h"
  "mgm_ready (set_transition_state t h) = mgm_ready h"
  by (simp_all add: mgm_ready_def transition_started_def set_transition_state_def)

lemma mgm_poll_or_not:
  assumes "mgm_ready h" "me_transfer env = SpiSimInterfaceWrapper_transfer rq await parse"
  obtains h' where "(if mode (mode_current (mode_helpers h)) = DeviceMode_num DeviceNormal then Some (poll_sensor env h) else Some (Ok (), h)) =
      Some (Ok (), h')" "mgm_ready h'" "mode (mode_current (mode_helpers h)) = 2 \<longrightarrow> mgm_valid (guarded (shared_mgm_set h'))"
    "mgm_mode_interface h' = mgm_mode_interface h" "mode_helpers h' = mode_helpers h" "mgm_switch_helper h' = mgm_switch_helper h"
proof (cases "mode (mode_current (mode_helpers h)) = 2")
  case True
  obtain h' where "poll_sensor env h = (Ok (), h')" "mgm_ready h'" "mgm_valid (guarded (shared_mgm_set h'))"
    "mgm_mode_interface h' = mgm_mode_interface h" "mode_helpers h' = mode_helpers h" "mgm_switch_helper h' = mgm_switch_helper h"
    using assms by (rule poll_dummy)
  then show thesis using True by (intro that [of h']) simp_all
next
  case False
  then show thesis using assms by (intro that [of h]) simp_all
qed

lemma mgm_first_round:
  assumes env: "env = app_mgm_env send rq await parse cds hk" "clock_ok cds"
    and h: "mgm_ready h" "ch_queue (request_rx (mgm_mode_interface h)) = [\<lparr>requestor_info = info, message = SetMode m\<rparr>]" "mode m \<in> {1, 2}"
    and w: "\<not> poisoned (shared_switch_set (mgm_switch_helper h))" "set_valid (guarded (shared_switch_set (mgm_switch_helper h)))"
    "switch_map (guarded (shared_switch_set (mgm_switch_helper h))) SwitchMgm = Some st" "st \<noteq> SwitchOn"
  obtains h' where "mgm_periodic_operation env now h = Some (Ok (), h')" "mgm_ready h'" "mode m = 2 \<longrightarrow> mgm_valid (guarded (shared_mgm_set h'))"
    "reply_to_pus_tx (mgm_mode_interface h') = reply_to_pus_tx (mgm_mode_interface h)" "ch_queue (request_rx (mgm_mode_interface h')) = []"
    "mode_helpers h' = \<lparr>mode_current = m, transition_target = Some m, mode_requestor = Some info, transition_state = PowerSwitching\<rparr>"
    "mgm_switch_helper h' = switch_commanded (UniqueApidTargetId_raw (mgm_id h)) (mgm_switch_helper h)"
proof -
  have fields: "me_cds env = cds" "me_transfer env = SpiSimInterfaceWrapper_transfer rq await parse"
    "me_send_switch_on_cmd env = PowerSwitchHelper_send_switch_on_cmd" "me_switch_state env = PowerSwitchHelper_switch_state"
    by (simp_all add: env app_mgm_env_def)
  have clock: "clock_ok (me_cds env)" by (simp add: fields env(2))
  obtain ts where ts: "mgm_ready (h\<lparr>mgm_stamp := ts\<rparr>)" and cyc: "mgm_periodic_operation env now h = mgm_requests_and_modes env (h\<lparr>mgm_stamp := ts\<rparr>)" using h(1) clock by (rule mgm_cycle)
  let ?h3 = "transition_started info m (h\<lparr>mgm_stamp := ts\<rparr>)"
  let ?h4 = "set_transition_state PowerSwitching
    (?h3\<lparr>mgm_switch_helper := switch_commanded (UniqueApidTargetId_raw (mgm_id ?h3)) (mgm_switch_helper ?h3)\<rparr>)"
  have req: "mgm_handle_mode_requests (h\<lparr>mgm_stamp := ts\<rparr>) = Some (Ok (), ?h3)"
    using h by (intro mgm_takes_command) (auto simp: mgm_ready_def)
  have tr: "mgm_handle_mode_transition env m ?h3 = (Ok (), ?h4)"
    using h w by (intro transition_waits [OF fields(3,4), of m _ info st]) (auto simp: transition_started_def)
  have tgt: "transition_target (mode_helpers ?h3) = Some m" by (simp add: transition_started_def)
  have cur: "mode_current (mode_helpers ?h4) = m" by (simp add: transition_started_def set_transition_state_def)
  have r4: "mgm_ready ?h4" using ts by simp
  obtain h' where h': "(if mode (mode_current (mode_helpers ?h4)) = DeviceMode_num DeviceNormal then Some (poll_sensor env ?h4) else Some (Ok (), ?h4)) =
      Some (Ok (), h')" "mgm_ready h'" "mode (mode_current (mode_helpers ?h4)) = 2 \<longrightarrow> mgm_valid (guarded (shared_mgm_set h'))"
    "mgm_mode_interface h' = mgm_mode_interface ?h4" "mode_helpers h' = mode_helpers ?h4" "mgm_switch_helper h' = mgm_switch_helper ?h4"
    using r4 fields(2) by (rule mgm_poll_or_not)
  have "mgm_periodic_operation env now h = Some (Ok (), h')"
    by (simp only: cyc mgm_requests_and_modes_def req tr tgt h'(1) and_then.simps option.case)
  then show thesis using h'(2-) cur by (intro that [of h']) (auto simp: transition_started_def set_transition_state_def)
qed

lemma mgm_second_round:
  assumes env: "env = app_mgm_env send rq await parse cds hk" "clock_ok cds"
    and h: "mgm_ready h" "ch_queue (request_rx (mgm_mode_interface h)) = []" "mode m \<in> {1, 2}"
    "mode_helpers h = \<lparr>mode_current = m, transition_target = Some m, mode_requestor = Some info, transition_state = PowerSwitching\<rparr>"
    "mm_sender_id info = component_id PUS_MODE_SERVICE" "rx_alive (reply_to_pus_tx (mgm_mode_interface h))"
    and w: "\<not> poisoned (shared_switch_set (mgm_switch_helper h))" "set_valid (guarded (shared_switch_set (mgm_switch_helper h)))"
    "switch_map (guarded (shared_switch_set (mgm_switch_helper h))) SwitchMgm = Some SwitchOn"
  obtains h' where "mgm_periodic_operation env now h = Some (Ok (), h')"
    "mode_helpers h' = \<lparr>mode_current = m, transition_target = None, mode_requestor = Some info, transition_state = TransitionIdle\<rparr>"
    "ch_queue (reply_to_pus_tx (mgm_mode_interface h')) =
       ch_queue (reply_to_pus_tx (mgm_mode_interface h)) @ [\<lparr>requestor_info = info, message = ModeReply m\<rparr>]"
proof -
  have fields: "me_cds env = cds" "me_transfer env = SpiSimInterfaceWrapper_transfer rq await parse"
    "me_switch_state env = PowerSwitchHelper_switch_state"
    by (simp_all add: env app_mgm_env_def)
  have clock: "clock_ok (me_cds env)" by (simp add: fields env(2))
  obtain ts where ts: "mgm_ready (h\<lparr>mgm_stamp := ts\<rparr>)" and cyc: "mgm_periodic_operation env now h = mgm_requests_and_modes env (h\<lparr>mgm_stamp := ts\<rparr>)" using h(1) clock by (rule mgm_cycle)
  let ?h3 = "h\<lparr>mgm_stamp := ts\<rparr>"
  have req: "mgm_handle_mode_requests ?h3 = Some (Ok (), ?h3)"
    unfolding mgm_handle_mode_requests_def using h by (intro mgm_modes.drain_empty) (auto simp: mgm_ready_def)
  have tgt: "transition_target (mode_helpers ?h3) = Some m" by (simp add: h)
  obtain h4 where h4: "mgm_handle_mode_transition env m ?h3 = (Ok (), h4)" "mgm_ready h4 = mgm_ready ?h3"
    "mode_helpers h4 = \<lparr>mode_current = m, transition_target = None, mode_requestor = Some info, transition_state = TransitionIdle\<rparr>"
    "ch_queue (reply_to_pus_tx (mgm_mode_interface h4)) =
       ch_queue (reply_to_pus_tx (mgm_mode_interface h)) @ [\<lparr>requestor_info = info, message = ModeReply m\<rparr>]"
    by (rule transition_completes [OF fields(3) h(3), of ?h3 info]) (use h w in auto)
  have r4: "mgm_ready h4" using ts h4(2) by simp
  obtain h' where h': "(if mode (mode_current (mode_helpers h4)) = DeviceMode_num DeviceNormal then Some (poll_sensor env h4) else Some (Ok (), h4)) =
      Some (Ok (), h')" "mgm_ready h'" "mode (mode_current (mode_helpers h4)) = 2 \<longrightarrow> mgm_valid (guarded (shared_mgm_set h'))"
    "mgm_mode_interface h' = mgm_mode_interface h4" "mode_helpers h' = mode_helpers h4" "mgm_switch_helper h' = mgm_switch_helper h4"
    using r4 fields(2) by (rule mgm_poll_or_not)
  have "mgm_periodic_operation env now h = Some (Ok (), h')"
    by (simp only: cyc mgm_requests_and_modes_def req h4(1) tgt h'(1) and_then.simps option.case)
  then show thesis using h'(2-) h4 by (intro that [of h']) auto
qed

subsection \<open>Properties\<close>

definition mode_replies :: "('s, 'c, 'p, 'cds) DeviceTasks \<Rightarrow> ModeReply GenericMessage list" where
  "mode_replies d = ch_queue (reply_to_pus_tx (mgm_mode_interface (dev_mgm d)))"

lemma pcdu_ready_connect [simp]: "pcdu_ready i (connect_pcdu d) = pcdu_ready i (dev_pcdu d)"
  by (simp add: pcdu_ready_def connect_pcdu_def Let_def)

text \<open>
  C9: switching the magnetometer on. The handler has an unanswered command of the mode service to go to
  its on or normal mode, its switch is known not to be on, and the power unit handler is active. Then one
  round of the AOCS task, one of the EPS task and one more of the AOCS task all return normally, and after
  them the command has been answered exactly once, with the commanded mode and to its requestor: no reply
  is sent before the switch is reported on, the switch command reaches the power unit, the shared switch
  set shows the new state, and no transition is left. It also shows that the handler is in the commanded
  mode already after the first round, while its switch is off: in normal mode it then has read the
  unpowered sensor and marked the values valid.
\<close>

theorem mgm_power_on:
  fixes d :: "('s, ('rq, 'rp) SpiSimInterfaceWrapper, SerialSimInterfaceWrapper, 'cds) DeviceTasks"
  assumes env: "menv = app_mgm_env send rq await parse cds hk" "penv = app_pcdu_env send js try_from cds hk" "clock_ok cds"
    and json: "codec_ok (json_request js)" "codec_ok (json_reply js)" "codec_ok (json_sim_reply js)"
    and conv: "\<And>s. try_from (PcduSwitch_num s) = Some s"
    and mgm: "mgm_ready (dev_mgm d)" "rx_alive (reply_to_pus_tx (mgm_mode_interface (dev_mgm d)))"
    and cmd: "ch_queue (request_rx (mgm_mode_interface (dev_mgm d))) = [\<lparr>requestor_info = info, message = SetMode m\<rparr>]"
      "mode m \<in> {1, 2}" "mm_sender_id info = component_id PUS_MODE_SERVICE"
    and link: "mgm_switch_helper (dev_mgm d) = w" "\<not> poisoned (shared_switch_set w)" "set_valid (guarded (shared_switch_set w))"
      "switch_map (guarded (shared_switch_set w)) SwitchMgm = Some st" "st \<noteq> SwitchOn"
      "rx_alive (switcher_net w (switcher_tx w))" "ch_queue (switcher_net w (switcher_tx w)) = []" "0 < ch_bound (switcher_net w (switcher_tx w))"
    and pcdu: "pcdu_ready i (dev_pcdu d)" "reply_deque i = []"
  shows "\<exists>d1 d2 d3 i2.
    aocs_task menv t1 d = Some (Ok (), d1) \<and> eps_task penv t2 d1 = Some (Ok (), d2) \<and> aocs_task menv t3 d2 = Some (Ok (), d3) \<and>
    mode_replies d1 = mode_replies d \<and> mode_replies d2 = mode_replies d \<and>
    mode_replies d3 = mode_replies d @ [\<lparr>requestor_info = info, message = ModeReply m\<rparr>] \<and>
    mode_current (mode_helpers (dev_mgm d1)) = m \<and> (mode m = 2 \<longrightarrow> mgm_valid (guarded (shared_mgm_set (dev_mgm d1)))) \<and>
    switch_map (guarded (shared_switch_set (mgm_switch_helper (dev_mgm d1)))) SwitchMgm = Some st \<and>
    pcdu_com (dev_pcdu d2) = SerialDummy i2 \<and> dummy_switch_map i2 SwitchMgm = Some BinaryOn \<and>
    switch_map (guarded (shared_switch_set (mgm_switch_helper (dev_mgm d2)))) SwitchMgm = Some SwitchOn \<and>
    mode_current (mode_helpers (dev_mgm d3)) = m \<and> transition_target (mode_helpers (dev_mgm d3)) = None"
proof -
  note sw = link(2-5) [folded link(1)]
  obtain h1 where h1: "mgm_periodic_operation menv t1 (dev_mgm d) = Some (Ok (), h1)" "mgm_ready h1"
    "mode m = 2 \<longrightarrow> mgm_valid (guarded (shared_mgm_set h1))"
    "reply_to_pus_tx (mgm_mode_interface h1) = reply_to_pus_tx (mgm_mode_interface (dev_mgm d))" "ch_queue (request_rx (mgm_mode_interface h1)) = []"
    "mode_helpers h1 = \<lparr>mode_current = m, transition_target = Some m, mode_requestor = Some info, transition_state = PowerSwitching\<rparr>"
    "mgm_switch_helper h1 = switch_commanded (UniqueApidTargetId_raw (mgm_id (dev_mgm d))) (mgm_switch_helper (dev_mgm d))"
    using mgm_first_round [OF env(1,3) mgm(1) cmd(1,2) sw] .
  let ?d1 = "d\<lparr>dev_mgm := h1\<rparr>" and ?c = "switch_cmd (MessageMetadata_new 0 (UniqueApidTargetId_raw (mgm_id (dev_mgm d)))) 0 BinaryOn"
  have q: "ch_queue (switch_request_rx (connect_pcdu ?d1)) = [?c]" "\<not> poisoned (shared_switch_map (connect_pcdu ?d1))"
    using link h1(7) by (simp_all add: connect_pcdu_def Let_def)
  have t0: "try_from 0 = Some SwitchMgm" using conv [of SwitchMgm] by simp
  have rdy: "pcdu_ready i (connect_pcdu ?d1)" using pcdu(1) by simp
  obtain p2 i2 where p2: "eps_task penv t2 ?d1 = Some (Ok (), disconnect_pcdu ?d1 p2)" "pcdu_com p2 = SerialDummy i2"
    "dummy_switch_map i2 SwitchMgm = Some BinaryOn" "\<not> poisoned (shared_switch_map p2)" "set_valid (guarded (shared_switch_map p2))"
    "switch_map (guarded (shared_switch_map p2)) SwitchMgm = Some SwitchOn" "pcdu_mode_interface p2 = pcdu_mode_interface (connect_pcdu ?d1)"
    using eps_round [OF env(2,3) json t0 rdy pcdu(2) q] .
  let ?d2 = "disconnect_pcdu ?d1 p2"
  have d2: "mgm_ready (dev_mgm ?d2)" "mgm_mode_interface (dev_mgm ?d2) = mgm_mode_interface h1" "mode_helpers (dev_mgm ?d2) = mode_helpers h1"
    "shared_switch_set (mgm_switch_helper (dev_mgm ?d2)) = shared_switch_map p2" "dev_pcdu ?d2 = p2"
    using h1(2) p2(7) by (simp_all add: disconnect_pcdu_def connect_pcdu_def mgm_ready_def Let_def)
  obtain h3 where h3: "mgm_periodic_operation menv t3 (dev_mgm ?d2) = Some (Ok (), h3)"
    "mode_helpers h3 = \<lparr>mode_current = m, transition_target = None, mode_requestor = Some info, transition_state = TransitionIdle\<rparr>"
    "ch_queue (reply_to_pus_tx (mgm_mode_interface h3)) =
       ch_queue (reply_to_pus_tx (mgm_mode_interface (dev_mgm ?d2))) @ [\<lparr>requestor_info = info, message = ModeReply m\<rparr>]"
    by (rule mgm_second_round [OF env(1,3) d2(1) _ cmd(2) _ cmd(3)]) (use h1 d2 mgm p2 in auto)
  show ?thesis
    by (intro exI [of _ ?d1] exI [of _ ?d2] exI [of _ "?d2\<lparr>dev_mgm := h3\<rparr>"] exI [of _ i2])
      (use h1 p2 d2 h3 link in \<open>simp add: aocs_task_def mode_replies_def\<close>)
qed

text \<open>
  C29: the magnetometer handler needs a valid switch set. While the switch set is not valid, as it is from
  the start of the application until the first reply of the power unit and again after the power unit
  handler was sent to its off mode, a command to the on or normal mode makes the AOCS task panic.
\<close>

theorem mgm_needs_switch_info:
  fixes d :: "('s, ('rq, 'rp) SpiSimInterfaceWrapper, 'p, 'cds) DeviceTasks"
  assumes env: "menv = app_mgm_env send rq await parse cds hk" "clock_ok cds"
    and mgm: "mgm_ready (dev_mgm d)"
    and cmd: "ch_queue (request_rx (mgm_mode_interface (dev_mgm d))) = [\<lparr>requestor_info = info, message = SetMode m\<rparr>]" "mode m \<in> {1, 2}"
    and link: "\<not> set_valid (guarded (shared_switch_set (mgm_switch_helper (dev_mgm d))))"
  shows "\<exists>d1. aocs_task menv now d = Some (Panic, d1)"
proof -
  have fields: "me_cds menv = cds" "me_send_switch_on_cmd menv = PowerSwitchHelper_send_switch_on_cmd"
    "me_switch_state menv = PowerSwitchHelper_switch_state"
    by (simp_all add: env app_mgm_env_def)
  have clock: "clock_ok (me_cds menv)" by (simp add: fields env(2))
  obtain ts where ts: "mgm_ready ((dev_mgm d)\<lparr>mgm_stamp := ts\<rparr>)"
    and cyc: "mgm_periodic_operation menv now (dev_mgm d) = mgm_requests_and_modes menv ((dev_mgm d)\<lparr>mgm_stamp := ts\<rparr>)"
    using mgm clock by (rule mgm_cycle)
  let ?h3 = "transition_started info m ((dev_mgm d)\<lparr>mgm_stamp := ts\<rparr>)"
  have req: "mgm_handle_mode_requests ((dev_mgm d)\<lparr>mgm_stamp := ts\<rparr>) = Some (Ok (), ?h3)"
    using mgm cmd by (intro mgm_takes_command) (auto simp: mgm_ready_def)
  have tgt: "transition_target (mode_helpers ?h3) = Some m" by (simp add: transition_started_def)
  have "fst (mgm_handle_mode_transition menv m ?h3) = Panic"
    using cmd link by (intro transition_panics [OF fields(2,3), of m _ info]) (auto simp: transition_started_def)
  then obtain h4 where tr: "mgm_handle_mode_transition menv m ?h3 = (Panic, h4)" by (cases "mgm_handle_mode_transition menv m ?h3") auto
  have "mgm_periodic_operation menv now (dev_mgm d) = Some (Panic, h4)"
    by (simp only: cyc mgm_requests_and_modes_def req tgt tr and_then.simps option.case)
  then show ?thesis by (simp add: aocs_task_def)
qed

text \<open>
  C28: when the magnetometer handler returns. With both request queues open a cycle always comes to an end,
  whatever is queued; once every sender of the housekeeping and action requests is gone and the queue is
  empty, the cycle never ends.
\<close>

theorem mgm_cycle_ends:
  assumes "clock_ok (me_cds env)"
  shows "(tx_alive (mgm_composite_rx h) \<and> tx_alive (request_rx (mgm_mode_interface h)) \<longrightarrow> mgm_periodic_operation env now h \<noteq> None) \<and>
    (\<not> tx_alive (mgm_composite_rx h) \<and> ch_queue (mgm_composite_rx h) = [] \<longrightarrow> mgm_periodic_operation env now h = None)"
proof -
  obtain st where st: "update_from_now (me_cds env) now (mgm_stamp h) = ((Ok () :: (unit, unit) res), st)" using assms by (rule clock_okE)
  let ?h = "h\<lparr>mgm_stamp := st\<rparr>"
  have "mgm_periodic_operation env now h \<noteq> None" if alive: "tx_alive (mgm_composite_rx h)" "tx_alive (request_rx (mgm_mode_interface h))"
  proof -
    obtain r h2 where h2: "drain_requests mgm_recv_composite (mgm_handle_composite env) ?h = Some (r, h2)"
      using mgm_composites.drain_ends [of ?h env] alive by auto
    have "mgm_mode_interface h2 = mgm_mode_interface ?h"
      using h2 by (rule drain_keeps) (auto simp: mgm_recv_composite_def split: prod.splits dest: mgm_composite_keeps)
    then obtain r3 h3 where h3: "mgm_handle_mode_requests h2 = Some (r3, h3)"
      unfolding mgm_handle_mode_requests_def using mgm_modes.drain_ends [of h2] alive by auto
    have tail: "mgm_requests_and_modes env h2 \<noteq> None"
      unfolding mgm_requests_and_modes_def h3 by (intro and_then_total) simp
    have "mgm_periodic_operation env now h = and_then (Some (r, h2)) (mgm_requests_and_modes env)"
      using st h2 by (simp add: mgm_periodic_operation_def mgm_handle_composite_requests_def mgm_requests_and_modes_def [abs_def])
    then show ?thesis using tail by (cases r) simp_all
  qed
  moreover have "mgm_periodic_operation env now h = None" if "\<not> tx_alive (mgm_composite_rx h)" "ch_queue (mgm_composite_rx h) = []"
    using st mgm_composites.drain_closed [of ?h env] that by (simp add: mgm_periodic_operation_def mgm_handle_composite_requests_def)
  ultimately show ?thesis by blast
qed

subsection \<open>Witnesses\<close>

text \<open>A byte encoding in place of JSON.\<close>

fun enc_switch :: "PcduSwitch \<Rightarrow> u8" where
  "enc_switch SwitchMgm = 0"
| "enc_switch SwitchMgt = 1"

fun enc_state :: "SwitchStateBinary option \<Rightarrow> u8" where
  "enc_state None = 0"
| "enc_state (Some BinaryOff) = 1"
| "enc_state (Some BinaryOn) = 2"

definition dec_state :: "u8 \<Rightarrow> SwitchStateBinary option" where
  "dec_state b = (if b = 0 then None else if b = 1 then Some BinaryOff else Some BinaryOn)"

lemma dec_enc_state [simp]: "dec_state (enc_state s) = s"
  by (cases s rule: enc_state.cases) (simp_all add: dec_state_def)

fun enc_component :: "SimComponent \<Rightarrow> u8" where
  "enc_component SimCtrl = 0"
| "enc_component SimMgmLis3Mdl = 1"
| "enc_component SimMgt = 2"
| "enc_component SimPcdu = 3"

definition dec_component :: "u8 \<Rightarrow> SimComponent" where
  "dec_component b = (if b = 0 then SimCtrl else if b = 1 then SimMgmLis3Mdl else if b = 2 then SimMgt else SimPcdu)"

definition demo_json :: PcduJson where
  "demo_json =
     \<lparr>json_request = \<lparr>ser = (\<lambda>r. Ok (case r of SwitchDevice s st \<Rightarrow> [enc_switch s, enc_state (Some st)] | RequestSwitchInfo \<Rightarrow> [])),
        de = (\<lambda>b. case b of [s, st] \<Rightarrow> Ok (SwitchDevice (if s = 0 then SwitchMgm else SwitchMgt) (the (dec_state st))) | _ \<Rightarrow> Ok RequestSwitchInfo)\<rparr>,
      json_reply = \<lparr>ser = (\<lambda>r. case r of SwitchInfo sw \<Rightarrow> Ok [enc_state (sw SwitchMgm), enc_state (sw SwitchMgt)]),
        de = (\<lambda>b. case b of [x, y] \<Rightarrow> Ok (SwitchInfo (\<lambda>s. case s of SwitchMgm \<Rightarrow> dec_state x | SwitchMgt \<Rightarrow> dec_state y)) | _ \<Rightarrow> Err ())\<rparr>,
      json_sim_reply = \<lparr>ser = (\<lambda>r. Ok (enc_component (sim_target r) # sim_payload r)),
        de = (\<lambda>b. case b of [] \<Rightarrow> Err () | t # p \<Rightarrow> Ok \<lparr>sim_target = dec_component t, sim_payload = p\<rparr>)\<rparr>,
      json_switch_set = \<lparr>ser = (\<lambda>s. Ok (if set_valid s then [1] else [0])), de = (\<lambda>b. Err ())\<rparr>\<rparr>"

lemma demo_json_ok:
  "codec_ok (json_request demo_json)" "codec_ok (json_reply demo_json)" "codec_ok (json_sim_reply demo_json)"
proof -
  have "(if enc_switch s = 0 then SwitchMgm else SwitchMgt) = s" for s by (cases s) simp_all
  then show "codec_ok (json_request demo_json)"
    by (auto simp: codec_ok_def demo_json_def split: PcduRequest.splits)
  have "(\<lambda>s. case s of SwitchMgm \<Rightarrow> sw SwitchMgm | SwitchMgt \<Rightarrow> sw SwitchMgt) = sw" for sw :: "PcduSwitch \<rightharpoonup> SwitchStateBinary"
    by (rule ext) (simp split: PcduSwitch.split)
  then show "codec_ok (json_reply demo_json)" by (auto simp: codec_ok_def demo_json_def split: PcduReply.splits)
  have "dec_component (enc_component t) = t" for t by (cases t) (simp_all add: dec_component_def)
  then show "codec_ok (json_sim_reply demo_json)" by (simp add: codec_ok_def demo_json_def)
qed

lemma demo_clock_ok: "clock_ok demo_cds"
  by (simp add: clock_ok_def demo_cds_def)

definition demo_requestor_info :: MessageMetadata where
  "demo_requestor_info = \<lparr>mm_request_id = 7, mm_sender_id = component_id PUS_MODE_SERVICE\<rparr>"

definition demo_normal :: ModeAndSubmode where
  "demo_normal = ModeAndSubmode_new (DeviceMode_num DeviceNormal) 0"

definition demo_leaf :: "ModeRequest GenericMessage list \<Rightarrow> MpscModeLeafInterface" where
  "demo_leaf q = \<lparr>request_rx = demo_open q, reply_to_pus_tx = demo_open [], reply_to_parent_tx = demo_open []\<rparr>"

definition demo_devices :: "SwitchSet \<Rightarrow> (unit, (unit, unit) SpiSimInterfaceWrapper, SerialSimInterfaceWrapper, nat) DeviceTasks" where
  "demo_devices sw =
     \<lparr>dev_mgm = the_ok (MgmHandlerLis3Mdl_new demo_cds 3 (component_target MGM_HANDLER_0)
        (demo_leaf [\<lparr>requestor_info = demo_requestor_info, message = SetMode demo_normal\<rparr>]) (demo_open []) (demo_open [])
        \<lparr>switcher_net = (\<lambda>_. demo_open []), switcher_tx = 0, shared_switch_set = \<lparr>guarded = sw, poisoned = False\<rparr>\<rparr> ()
        (SpiDummy \<lparr>raw_x = 1, raw_y = 2, raw_z = 3\<rparr>)
        \<lparr>guarded = \<lparr>mgm_valid = False, mgm_x = 0, mgm_y = 0, mgm_z = 0\<rparr>, poisoned = False\<rparr> :: (unit, _) res),
      dev_pcdu = (the_ok (PcduHandler_new demo_cds 3 (component_target PCDU_HANDLER) (demo_leaf []) (demo_open []) (demo_open []) (demo_open []) ()
        (SerialDummy SerialInterfaceDummy_default) \<lparr>guarded = sw, poisoned = False\<rparr> :: (unit, _) res))\<lparr>pcdu_mode := demo_normal\<rparr>\<rparr>"

definition demo_set :: SwitchSet where
  "demo_set = \<lparr>set_valid = True, switch_map = from_binary_switch_map_ref SwitchMapBinaryWrapper_default\<rparr>"

lemma demo_mgm:
  "mgm_ready (dev_mgm (demo_devices sw))" "rx_alive (reply_to_pus_tx (mgm_mode_interface (dev_mgm (demo_devices sw))))"
  "ch_queue (request_rx (mgm_mode_interface (dev_mgm (demo_devices sw)))) = [\<lparr>requestor_info = demo_requestor_info, message = SetMode demo_normal\<rparr>]"
  "mgm_switch_helper (dev_mgm (demo_devices sw)) =
     \<lparr>switcher_net = (\<lambda>_. demo_open []), switcher_tx = 0, shared_switch_set = \<lparr>guarded = sw, poisoned = False\<rparr>\<rparr>"
  "mode_replies (demo_devices sw) = []"
  by (simp_all add: demo_devices_def MgmHandlerLis3Mdl_new_def TimestampHelper_default_def demo_cds_def mgm_ready_def demo_leaf_def
      BufWrapper_default_def mode_replies_def)

lemma demo_pcdu: "pcdu_ready SerialInterfaceDummy_default (dev_pcdu (demo_devices sw))" "reply_deque SerialInterfaceDummy_default = []"
  by (simp_all add: demo_devices_def PcduHandler_new_def TimestampHelper_default_def demo_cds_def pcdu_ready_def demo_leaf_def demo_normal_def
      ModeAndSubmode_new_def SerialInterfaceDummy_default_def)

definition demo_menv ::
    "(PowerSwitchHelper, SwitchCommandingError, SwitchInfoError, unit, unit, (unit, unit) SpiSimInterfaceWrapper, unit, nat) MgmEnv" where
  "demo_menv = app_mgm_env EcssTmDummySender_send_tm () (\<lambda>c. (None, c)) (\<lambda>_. Err ()) demo_cds 25"

definition demo_penv :: "(unit, unit, SerialSimInterfaceWrapper, unit, nat) PcduEnv" where
  "demo_penv = app_pcdu_env EcssTmDummySender_send_tm demo_json (\<lambda>n. if n = 0 then Some SwitchMgm else if n = 1 then Some SwitchMgt else None) demo_cds 25"

theorem mgm_power_on_witness:
  "\<exists>d1 d2 d3. aocs_task demo_menv 4 (demo_devices demo_set) = Some (Ok (), d1) \<and> eps_task demo_penv 5 d1 = Some (Ok (), d2) \<and>
     aocs_task demo_menv 6 d2 = Some (Ok (), d3) \<and> mode_replies d1 = [] \<and>
     mode_replies d3 = [\<lparr>requestor_info = demo_requestor_info, message = ModeReply demo_normal\<rparr>] \<and> mgm_valid (guarded (shared_mgm_set (dev_mgm d1)))"
proof -
  have conv: "(if PcduSwitch_num s = 0 then Some SwitchMgm else if PcduSwitch_num s = 1 then Some SwitchMgt else None) = Some s" for s
    by (cases s) simp_all
  have cmd: "mode demo_normal \<in> {1, 2}" "mode demo_normal = 2" "mm_sender_id demo_requestor_info = component_id PUS_MODE_SERVICE"
    by (simp_all add: demo_normal_def ModeAndSubmode_new_def demo_requestor_info_def)
  have sw: "set_valid demo_set" "switch_map demo_set SwitchMgm = Some SwitchOff"
    by (simp_all add: demo_set_def from_binary_switch_map_ref_def SwitchMapBinaryWrapper_default_def)
  from mgm_power_on [OF demo_menv_def demo_penv_def demo_clock_ok demo_json_ok conv demo_mgm(1,2,3) cmd(1,3) demo_mgm(4) _ _ _ _ _ _ _ demo_pcdu,
      of demo_set SwitchOff 4 5 6]
  show ?thesis using cmd(2) sw demo_mgm(5) [of demo_set] by simp blast
qed

theorem mgm_needs_switch_info_witness: "\<exists>d1. aocs_task demo_menv 4 (demo_devices SwitchSet_default) = Some (Panic, d1)"
  by (rule mgm_needs_switch_info [OF demo_menv_def demo_clock_ok demo_mgm(1,3)])
    (simp_all add: demo_normal_def ModeAndSubmode_new_def demo_mgm SwitchSet_default_def)

theorem mgm_cycle_ends_witness:
  "mgm_periodic_operation demo_menv 4 (dev_mgm (demo_devices demo_set)) \<noteq> None \<and>
   mgm_periodic_operation demo_menv 4 ((dev_mgm (demo_devices demo_set))\<lparr>mgm_composite_rx := (demo_open [])\<lparr>tx_alive := False\<rparr>\<rparr>) = None"
proof -
  have c: "clock_ok (me_cds demo_menv)" by (simp add: demo_menv_def app_mgm_env_def demo_clock_ok)
  have "tx_alive (mgm_composite_rx (dev_mgm (demo_devices demo_set)))" "tx_alive (request_rx (mgm_mode_interface (dev_mgm (demo_devices demo_set))))"
    using demo_mgm(1) [of demo_set] by (simp_all add: mgm_ready_def)
  then show ?thesis using mgm_cycle_ends [OF c, of "dev_mgm (demo_devices demo_set)" 4]
    mgm_cycle_ends [OF c, of "(dev_mgm (demo_devices demo_set))\<lparr>mgm_composite_rx := (demo_open [])\<lparr>tx_alive := False\<rparr>\<rparr>" 4] by simp
qed

end
