(* ===== verification/Event_Task.thy ===== *)
theory Event_Task
  imports Event_Man Tc_Distributor
begin

text \<open>
  The event task of the example application (\<^verbatim>\<open>satrs-example/src/events.rs\<close>): it takes the enable and
  disable requests of the event service, routes one event through the event manager, and turns the events
  it is subscribed to into telemetry with the APID of their sender.
\<close>

subsection \<open>Handler of the event telemetry\<close>

text \<open>\<^verbatim>\<open>EventApidSetter::modify_tm\<close> for the current \<^verbatim>\<open>next_apid\<close>.\<close>

definition EventApidSetter_modify_tm :: "u16 \<Rightarrow> PusTmCreator \<Rightarrow> PusTmCreator" where
  "EventApidSetter_modify_tm next_apid tm = tm\<lparr>pt_apid := next_apid\<rparr>"

text \<open>\<^verbatim>\<open>update_time\<close> of \<^verbatim>\<open>main.rs\<close>: an error of the clock or of writing the stamp panics.\<close>

definition update_event_time :: "'cds CdsOps \<Rightarrow> nat \<Rightarrow> 'cds \<times> bytes \<Rightarrow> ('e, unit) res \<times> 'cds \<times> bytes" where
  "update_event_time cds now tp =
     (let (r, c) = cds_update_from_now cds now (fst tp)
      in res_try (res_unwrap r) (c, snd tp) (\<lambda>_.
           let (r2, raw) = cds_write_to_bytes cds c (snd tp) in (res_map (\<lambda>_. ()) (res_unwrap r2), c, raw)))"

type_synonym EventMessageU32 = "(EventU32, Params) EventMessage"

abbreviation bounded_ops :: "(EventSenderMpscBounded, EventMessageU32 net, EventMessageU32) EventSendProvider" where
  "bounded_ops \<equiv> EventSenderMpscBounded_ops"

record ('pid, 'psc, 's, 'cds) PusEventHandler =
  event_request_rx :: "('pid, 'psc) EventRequestWithToken chan"
  pus_event_tm_creator :: "EventU32 set PusEventTmCreatorWithMap"
  pus_event_man_rx :: nat
  event_tm_sender :: 's
  event_time :: "'cds \<times> bytes"
  small_data_buf :: bytes
  verif_handler :: VerificationReporter

record ('pid, 'psc, 's, 'pe, 'cds) EventTaskEnv =
  ete_sp :: "('pid, 'psc) Spacepackets"
  ete_subservices :: EventSubservices
  ete_send_tm :: "('s, 'pe) EcssTmSender"
  ete_cds :: "'cds CdsOps"
  ete_cds_zero :: 'cds

text \<open>
  Creation: the handler's own channel, of capacity 30, is the index \<open>own\<close> in the channels of the event
  manager, which gets its sender and a subscription to all events.
\<close>

definition PusEventHandler_new ::
    "('pid, 'psc, 's, 'pe, 'cds) EventTaskEnv \<Rightarrow> 's \<Rightarrow> VerificationReporter \<Rightarrow> EventSenderMpscBounded EventManager \<Rightarrow>
     ('pid, 'psc) EventRequestWithToken chan \<Rightarrow> nat \<Rightarrow> EventMessageU32 net \<Rightarrow>
     ('e, ('pid, 'psc, 's, 'cds) PusEventHandler \<times> EventSenderMpscBounded EventManager \<times> EventMessageU32 net) res" where
  "PusEventHandler_new env s v mgr rx own w =
     res_bind (opt_unwrap (EventReporter_new_with_hook (ete_sp env) (component_id PUS_EVENT_MANAGEMENT) 0 0 128
        (EventApidSetter_modify_tm 0))) (\<lambda>event_reporter.
       let sdr = EventSenderMpscBounded_new (component_id PUS_EVENT_MANAGEMENT) own 30;
           mgr1 = subscribe_all mgr (esp_target_id bounded_ops sdr);
           mgr2 = add_sender bounded_ops mgr1 sdr
       in Ok (\<lparr>event_request_rx = rx, pus_event_tm_creator = new_with_default_backend event_reporter, pus_event_man_rx = own,
               event_tm_sender = s, event_time = (ete_cds_zero env, replicate 7 0), small_data_buf = replicate 64 0,
               verif_handler = v\<rparr>, mgr2,
              w(own := \<lparr>ch_queue = [], ch_bound = 30, rx_alive = True, tx_alive = True\<rparr>)))"

definition report_completion ::
    "('pid, 'psc, 's, 'pe, 'cds) EventTaskEnv \<Rightarrow> ('pid, 'psc) TcStateToken \<Rightarrow> ('pid, 'psc, 's, 'cds) PusEventHandler \<Rightarrow>
     (unit, unit) res \<times> ('pid, 'psc, 's, 'cds) PusEventHandler" where
  "report_completion env token h =
     res_try (res_unwrap (VerificationToken_try_started token)) h (\<lambda>started.
       let (r, s, v) = completion_success (ete_sp env) (ete_send_tm env) (event_tm_sender h) (verif_handler h) started (snd (event_time h))
       in (res_unwrap r, h\<lparr>event_tm_sender := s, verif_handler := v\<rparr>))"

definition handle_event_request ::
    "('pid, 'psc, 's, 'pe, 'cds) EventTaskEnv \<Rightarrow> nat \<Rightarrow> ('pid, 'psc) EventRequestWithToken \<Rightarrow>
     ('pid, 'psc, 's, 'cds) PusEventHandler \<Rightarrow> (unit, unit) res \<times> ('pid, 'psc, 's, 'cds) PusEventHandler" where
  "handle_event_request env now rq h =
     (let (r, c) = (case erq_request rq of
             EventEnable event \<Rightarrow> enable_tm_for_event DefaultPusEventReportingMap_ops (pus_event_tm_creator h) event
           | EventDisable event \<Rightarrow> disable_tm_for_event DefaultPusEventReportingMap_ops (pus_event_tm_creator h) event);
          h1 = h\<lparr>pus_event_tm_creator := c\<rparr>
      in res_try (res_unwrap r) h1 (\<lambda>_.
           let (rt, tp) = update_event_time (ete_cds env) now (event_time h1); h2 = h1\<lparr>event_time := tp\<rparr>
           in res_try rt h2 (\<lambda>_. report_completion env (erq_token rq) h2)))"

lemma handle_event_request_rx: "handle_event_request env now rq h = (r, h') \<Longrightarrow> event_request_rx h' = event_request_rx h"
  by (auto simp: handle_event_request_def report_completion_def res_try_case Let_def split: prod.splits res.splits)

function handle_event_requests ::
    "('pid, 'psc, 's, 'pe, 'cds) EventTaskEnv \<Rightarrow> nat \<Rightarrow> ('pid, 'psc, 's, 'cds) PusEventHandler \<Rightarrow>
     (unit, unit) res \<times> ('pid, 'psc, 's, 'cds) PusEventHandler" where
  "handle_event_requests env now h =
     (case mpsc_try_recv (event_request_rx h) of
        (Ok rq, c) \<Rightarrow> (case handle_event_request env now rq (h\<lparr>event_request_rx := c\<rparr>) of
            (Ok _, h1) \<Rightarrow> handle_event_requests env now h1
          | (r, h1) \<Rightarrow> (r, h1))
      | (_, c) \<Rightarrow> (Ok (), h\<lparr>event_request_rx := c\<rparr>))"
  by auto
termination
  by (relation "measure (\<lambda>(env, now, h). length (ch_queue (event_request_rx h)))")
    (auto simp: mpsc_try_recv_def split: list.splits dest!: handle_event_request_rx [OF sym])

declare handle_event_requests.simps [simp del]

text \<open>The telemetry of one event: the APID of its sender is set through the hook.\<close>

definition report_event ::
    "('pid, 'psc, 's, 'pe, 'cds) EventTaskEnv \<Rightarrow> nat \<Rightarrow> EventMessageU32 \<Rightarrow> ('pid, 'psc, 's, 'cds) PusEventHandler \<Rightarrow>
     (unit, unit) res \<times> ('pid, 'psc, 's, 'cds) PusEventHandler" where
  "report_event env now msg h =
     (let c = pus_event_tm_creator h;
          c1 = c\<lparr>reporter := (reporter c)\<lparr>er_tm_hook := EventApidSetter_modify_tm (ut_apid (UniqueApidTargetId_from (em_sender_id msg)))\<rparr>\<rparr>;
          (rt, tp) = update_event_time (ete_cds env) now (event_time h);
          h1 = h\<lparr>pus_event_tm_creator := c1, event_time := tp\<rparr>
      in res_try rt h1 (\<lambda>_.
           let (r, s, c2, small) = generate_pus_event_tm_generic_with_generic_params DefaultPusEventReportingMap_ops EventU32_generic
                 (ete_subservices env) (ete_send_tm env) (event_tm_sender h1) c1 (snd tp) (em_event msg) (small_data_buf h1) (em_params msg)
           in (res_map (\<lambda>_. ()) (res_unwrap r), h1\<lparr>event_tm_sender := s, pus_event_tm_creator := c2, small_data_buf := small\<rparr>)))"

lemma report_event_rx: "report_event env now msg h = (r, h') \<Longrightarrow> pus_event_man_rx h' = pus_event_man_rx h"
  by (auto simp: report_event_def res_try_case Let_def split: prod.splits res.splits)

function generate_pus_event_tms ::
    "('pid, 'psc, 's, 'pe, 'cds) EventTaskEnv \<Rightarrow> nat \<Rightarrow> ('pid, 'psc, 's, 'cds) PusEventHandler \<Rightarrow> EventMessageU32 net \<Rightarrow>
     (unit, unit) res \<times> ('pid, 'psc, 's, 'cds) PusEventHandler \<times> EventMessageU32 net" where
  "generate_pus_event_tms env now h w =
     (case on_chan mpsc_try_recv w (pus_event_man_rx h) of
        (Ok msg, w1) \<Rightarrow> (case report_event env now msg h of
            (Ok _, h1) \<Rightarrow> generate_pus_event_tms env now h1 w1
          | (r, h1) \<Rightarrow> (r, h1, w1))
      | (_, w1) \<Rightarrow> (Ok (), h, w1))"
  by auto
termination
  by (relation "measure (\<lambda>(env, now, h, w). length (ch_queue (w (pus_event_man_rx h))))")
    (auto simp: chan_defs split: list.splits dest!: report_event_rx [OF sym])

declare generate_pus_event_tms.simps [simp del]

subsection \<open>The task\<close>

record ('pid, 'psc, 's, 'cds) EventHandler =
  pus_event_handler :: "('pid, 'psc, 's, 'cds) PusEventHandler"
  event_manager :: "EventSenderMpscBounded EventManager"
  event_net :: "EventMessageU32 net"

definition EventHandler_new ::
    "('pid, 'psc, 's, 'pe, 'cds) EventTaskEnv \<Rightarrow> 's \<Rightarrow> nat \<Rightarrow> ('pid, 'psc) EventRequestWithToken chan \<Rightarrow> nat \<Rightarrow> EventMessageU32 net \<Rightarrow>
     ('e, ('pid, 'psc, 's, 'cds) EventHandler) res" where
  "EventHandler_new env s event_rx rx own w =
     res_bind (create_verification_reporter (ete_sp env) (component_id PUS_EVENT_MANAGEMENT)
        (ut_apid (component_target PUS_EVENT_MANAGEMENT))) (\<lambda>v.
     res_bind (PusEventHandler_new env s v (EventManager_new event_rx) rx own w) (\<lambda>(h, mgr, w').
       Ok \<lparr>pus_event_handler = h, event_manager = mgr, event_net = w'\<rparr>))"

definition try_event_routing :: "('pid, 'psc, 's, 'cds) EventHandler \<Rightarrow> ('pid, 'psc, 's, 'cds) EventHandler" where
  "try_event_routing t =
     (let (_, _, w) = try_event_handling bounded_ops EventU32_generic (event_manager t) (event_net t)
      in t\<lparr>event_net := w\<rparr>)"

definition EventHandler_periodic_operation ::
    "('pid, 'psc, 's, 'pe, 'cds) EventTaskEnv \<Rightarrow> nat \<Rightarrow> ('pid, 'psc, 's, 'cds) EventHandler \<Rightarrow>
     (unit, unit) res \<times> ('pid, 'psc, 's, 'cds) EventHandler" where
  "EventHandler_periodic_operation env now t =
     (let (r, h) = handle_event_requests env now (pus_event_handler t); t1 = t\<lparr>pus_event_handler := h\<rparr>
      in res_try r t1 (\<lambda>_.
           let t2 = try_event_routing t1; (r2, h2, w) = generate_pus_event_tms env now (pus_event_handler t2) (event_net t2)
           in (r2, t2\<lparr>pus_event_handler := h2, event_net := w\<rparr>)))"

subsection \<open>One cycle of the task\<close>

text \<open>The clock gives the stamp \<open>ts\<close> at the reading \<open>now\<close>.\<close>

definition stamps :: "'cds CdsOps \<Rightarrow> nat \<Rightarrow> bytes \<Rightarrow> bool" where
  "stamps cds now ts \<longleftrightarrow> (\<forall>tp. \<exists>c. update_event_time cds now tp = (Ok () :: (unit, unit) res, (c, ts)))"

definition rq_switch :: "('pid, 'psc) EventRequestWithToken \<Rightarrow> bool \<times> EventU32" where
  "rq_switch rq = (case erq_request rq of EventEnable ev \<Rightarrow> (True, ev) | EventDisable ev \<Rightarrow> (False, ev))"

fun rq_started :: "('pid, 'psc) EventRequestWithToken \<Rightarrow> bool" where
  "rq_started rq = (case erq_token rq of TokenStarted _ \<Rightarrow> True | _ \<Rightarrow> False)"

abbreviation rq_id :: "('pid, 'psc) EventRequestWithToken \<Rightarrow> ('pid, 'psc) RequestId" where
  "rq_id rq \<equiv> TcStateToken_request_id (erq_token rq)"

definition event_enabled_in :: "('pid, 'psc, 's, 'cds) PusEventHandler \<Rightarrow> EventU32 \<Rightarrow> bool" where
  "event_enabled_in h ev \<longleftrightarrow> rm_event_enabled DefaultPusEventReportingMap_ops (reporting_map (pus_event_tm_creator h)) ev"

lemma request_handled:
  assumes env: "tm_ops_ok ops" "ete_send_tm env = MpscTmAsVecSender_send_tm ops k" "ete_sp env = sp" "stamps (ete_cds env) now ts"
    and h: "reporter_ok k (event_tm_sender h) 15 (verif_handler h)" "rq_started rq"
  obtains h' where "handle_event_request env now rq h = (Ok (), h')" "reporter_ok k (event_tm_sender h') 15 (verif_handler h')"
    "ch_queue (event_tm_sender h' k) = ch_queue (event_tm_sender h k) @ [report_packet sp ops (verif_handler h) TmCompletionSuccess ts (rq_id rq) []]"
    "report_packet sp ops (verif_handler h') = report_packet sp ops (verif_handler h)" "event_request_rx h' = event_request_rx h"
    "\<forall>ev. event_enabled_in h' ev = (if ev = snd (rq_switch rq) then fst (rq_switch rq) else event_enabled_in h ev)"
    "reporter (pus_event_tm_creator h') = reporter (pus_event_tm_creator h)" "pus_event_man_rx h' = pus_event_man_rx h"
proof -
  obtain t where t: "erq_token rq = TokenStarted t" using h(2) by (auto split: TcStateToken.splits)
  define c where "c = snd (switch_event DefaultPusEventReportingMap_ops (pus_event_tm_creator h) (rq_switch rq))"
  define sv where "sv = push_report sp ops k TmCompletionSuccess ts (token_request_id t) [] (event_tm_sender h, verif_handler h)"
  obtain c' where u: "update_event_time (ete_cds env) now (event_time h) = (Ok () :: (unit, unit) res, (c', ts))"
    using env(4) unfolding stamps_def by blast
  let ?h' = "h\<lparr>pus_event_tm_creator := c, event_time := (c', ts), event_tm_sender := fst sv, verif_handler := snd sv\<rparr>"
  have sw: "\<exists>b. (case erq_request rq of
             EventEnable event \<Rightarrow> enable_tm_for_event DefaultPusEventReportingMap_ops (pus_event_tm_creator h) event
           | EventDisable event \<Rightarrow> disable_tm_for_event DefaultPusEventReportingMap_ops (pus_event_tm_creator h) event) = (Ok b, c)"
    by (auto simp: c_def switch_event_def rq_switch_def enable_tm_for_event_def disable_tm_for_event_def DefaultPusEventReportingMap_ops_def
        split: EventRequest.splits)
  have "handle_event_request env now rq h = (Ok (), ?h')"
    using sw u env h by (auto simp: handle_event_request_def report_completion_def t vec_success_reports sv_def split_def)
  moreover have "\<forall>ev. event_enabled_in ?h' ev = (if ev = snd (rq_switch rq) then fst (rq_switch rq) else event_enabled_in h ev)"
    by (auto simp: event_enabled_in_def c_def switch_event_def enable_tm_for_event_def disable_tm_for_event_def DefaultPusEventReportingMap_ops_def)
  moreover have "reporter c = reporter (pus_event_tm_creator h)"
    by (simp add: c_def switch_event_def enable_tm_for_event_def disable_tm_for_event_def split_def Let_def)
  ultimately show thesis using h(1)
    by (intro that [of ?h']) (auto simp: sv_def t push_report_pair intro!: report_packet_cong)
qed

lemma requests_handled:
  assumes env: "tm_ops_ok ops" "ete_send_tm env = MpscTmAsVecSender_send_tm ops k" "ete_sp env = sp" "stamps (ete_cds env) now ts"
  shows "reporter_ok k (event_tm_sender h) 15 (verif_handler h) \<Longrightarrow> \<forall>rq \<in> set (ch_queue (event_request_rx h)). rq_started rq \<Longrightarrow>
    \<exists>h'. handle_event_requests env now h = (Ok (), h') \<and> reporter_ok k (event_tm_sender h') 15 (verif_handler h') \<and>
      ch_queue (event_tm_sender h' k) = ch_queue (event_tm_sender h k) @
        map (\<lambda>rq. report_packet sp ops (verif_handler h) TmCompletionSuccess ts (rq_id rq) []) (ch_queue (event_request_rx h)) \<and>
      (\<forall>ev. event_enabled_in h' ev = last_switch (\<lambda>ev. ev) (map rq_switch (ch_queue (event_request_rx h))) ev (event_enabled_in h ev)) \<and>
      reporter (pus_event_tm_creator h') = reporter (pus_event_tm_creator h) \<and> pus_event_man_rx h' = pus_event_man_rx h"
proof (induction "ch_queue (event_request_rx h)" arbitrary: h)
  case Nil
  then show ?case by (subst handle_event_requests.simps) (simp add: mpsc_try_recv_def event_enabled_in_def)
next
  case (Cons rq rqs)
  let ?h = "h\<lparr>event_request_rx := (event_request_rx h)\<lparr>ch_queue := rqs\<rparr>\<rparr>"
  have q: "ch_queue (event_request_rx h) = rq # rqs" using Cons(2) by simp
  have pre: "reporter_ok k (event_tm_sender ?h) 15 (verif_handler ?h)" "rq_started rq" using Cons(3,4) q by (auto simp del: rq_started.simps)
  obtain h1 where h1: "handle_event_request env now rq ?h = (Ok (), h1)" "reporter_ok k (event_tm_sender h1) 15 (verif_handler h1)"
    "ch_queue (event_tm_sender h1 k) = ch_queue (event_tm_sender ?h k) @ [report_packet sp ops (verif_handler ?h) TmCompletionSuccess ts (rq_id rq) []]"
    "report_packet sp ops (verif_handler h1) = report_packet sp ops (verif_handler ?h)" "event_request_rx h1 = event_request_rx ?h"
    "\<forall>ev. event_enabled_in h1 ev = (if ev = snd (rq_switch rq) then fst (rq_switch rq) else event_enabled_in ?h ev)"
    "reporter (pus_event_tm_creator h1) = reporter (pus_event_tm_creator ?h)" "pus_event_man_rx h1 = pus_event_man_rx ?h"
    by (rule request_handled [OF env pre])
  have step: "handle_event_requests env now h = handle_event_requests env now h1"
    using q h1(1) by (subst handle_event_requests.simps) (simp add: mpsc_try_recv_def)
  have "rqs = ch_queue (event_request_rx h1)" "\<forall>rq \<in> set (ch_queue (event_request_rx h1)). rq_started rq"
    using h1(5) Cons(4) q by (auto simp del: rq_started.simps)
  from Cons(1) [OF this(1) h1(2) this(2)] obtain h2 where h2: "handle_event_requests env now h1 = (Ok (), h2)" "reporter_ok k (event_tm_sender h2) 15 (verif_handler h2)"
    "ch_queue (event_tm_sender h2 k) = ch_queue (event_tm_sender h1 k) @
        map (\<lambda>rq. report_packet sp ops (verif_handler h1) TmCompletionSuccess ts (rq_id rq) []) (ch_queue (event_request_rx h1))"
    "\<forall>ev. event_enabled_in h2 ev = last_switch (\<lambda>ev. ev) (map rq_switch (ch_queue (event_request_rx h1))) ev (event_enabled_in h1 ev)"
    "reporter (pus_event_tm_creator h2) = reporter (pus_event_tm_creator h1)" "pus_event_man_rx h2 = pus_event_man_rx h1" by blast
  obtain on e where sw: "rq_switch rq = (on, e)" by (cases "rq_switch rq")
  show ?case unfolding step
    by (intro exI [of _ h2]) (use h1 h2 q sw in \<open>simp add: event_enabled_in_def\<close>)
qed

lemma event_reported:
  assumes env: "tm_ops_ok ops" "ete_send_tm env = MpscTmAsVecSender_send_tm ops k" "stamps (ete_cds env) now ts"
    and h: "rx_alive (event_tm_sender h k)" "length (er_source_data_buf (reporter (pus_event_tm_creator h))) = 128" "em_params msg = None"
  obtains h' where "report_event env now msg h = (Ok (), h')" "pus_event_man_rx h' = pus_event_man_rx h"
    "ch_queue (event_tm_sender h' k) = ch_queue (event_tm_sender h k) @
      (if event_enabled_in h (em_event msg) then [PacketAsVec_new (er_id (reporter (pus_event_tm_creator h))) (the_ok (tm_to_vec ops
        ((event_tm (ete_subservices env) (reporter (pus_event_tm_creator h)) (severity (em_event msg)) ts (to_be_bytes (EventU32_raw (em_event msg))))
           \<lparr>pt_apid := ut_apid (UniqueApidTargetId_from (em_sender_id msg))\<rparr>)))] else [])"
proof -
  obtain c' where u: "update_event_time (ete_cds env) now (event_time h) = (Ok () :: (unit, unit) res, (c', ts))"
    using env(3) unfolding stamps_def by blast
  have "\<exists>h'. report_event env now msg h = (Ok (), h') \<and> pus_event_man_rx h' = pus_event_man_rx h \<and>
    ch_queue (event_tm_sender h' k) = ch_queue (event_tm_sender h k) @
      (if event_enabled_in h (em_event msg) then [PacketAsVec_new (er_id (reporter (pus_event_tm_creator h))) (the_ok (tm_to_vec ops
        ((event_tm (ete_subservices env) (reporter (pus_event_tm_creator h)) (severity (em_event msg)) ts (to_be_bytes (EventU32_raw (em_event msg))))
           \<lparr>pt_apid := ut_apid (UniqueApidTargetId_from (em_sender_id msg))\<rparr>)))] else [])"
    using u h env
    by (simp add: report_event_def generate_pus_event_tm_generic_with_generic_params_def event_tm_generic_eq vec_send_eq event_enabled_in_def
        EventApidSetter_modify_tm_def event_tm_def Let_def)
  then show thesis using that by blast
qed

text \<open>
  The wiring of a created task: the handler's own channel is the only subscriber, to all events; the
  channel is empty between cycles.
\<close>

definition event_task_ok :: "nat \<Rightarrow> ('pid, 'psc, PacketAsVec net, 'cds) EventHandler \<Rightarrow> bool" where
  "event_task_ok k t \<longleftrightarrow>
     (let h = pus_event_handler t; own = pus_event_man_rx h; i = component_id PUS_EVENT_MANAGEMENT
      in listener_map (event_manager t) = [KeyAll \<mapsto> [i]] \<and>
         sender_map (event_manager t) = [i \<mapsto> EventSenderMpscBounded_new i own 30] \<and> event_receiver (event_manager t) \<noteq> own \<and>
         event_net t own = \<lparr>ch_queue = [], ch_bound = 30, rx_alive = True, tx_alive = True\<rparr> \<and>
         reporter_ok k (event_tm_sender h) 15 (verif_handler h) \<and>
         length (er_source_data_buf (reporter (pus_event_tm_creator h))) = 128)"

lemma event_routed:
  assumes "event_task_ok k t" "ch_queue (event_net t (event_receiver (event_manager t))) = msg # rest"
  shows "try_event_routing t = t\<lparr>event_net := (event_net t)
    (event_receiver (event_manager t) := (event_net t (event_receiver (event_manager t)))\<lparr>ch_queue := rest\<rparr>,
     pus_event_man_rx (pus_event_handler t) := \<lparr>ch_queue = [msg], ch_bound = 30, rx_alive = True, tx_alive = True\<rparr>)\<rparr>"
proof -
  have "subscribers EventU32_generic (event_manager t) (em_event msg) = [component_id PUS_EVENT_MANAGEMENT]"
    using assms(1) by (simp add: subscribers_def event_task_ok_def Let_def)
  then show ?thesis
    using assms bounded_events.handling_received [where w = "event_net t" and mgr = "event_manager t" and ge = EventU32_generic, OF assms(2)]
    by (simp add: try_event_routing_def event_task_ok_def Let_def get_send_event_provider_def EventSenderMpscBounded_ops_def
        EventSenderMpscBounded_new_def EventSenderMpscBounded_send_def chan_defs)
qed

text \<open>
  C11: a cycle of the event task. It completes every waiting enable and disable request with a report, in
  order, and then routes the next event. The event goes out as one event report, under the APID of the
  component that sent it, exactly when the last request for this event enables it or there was none and it
  was enabled before; every other queued event waits for a later cycle.
\<close>

theorem event_task_cycle:
  assumes env: "tm_ops_ok ops" "ete_send_tm env = MpscTmAsVecSender_send_tm ops k" "ete_sp env = sp" "stamps (ete_cds env) now ts"
    and t: "event_task_ok k t" "pus_event_handler t = h" "ch_queue (event_request_rx h) = rqs" "\<forall>rq \<in> set rqs. rq_started rq"
    and ev: "ch_queue (event_net t (event_receiver (event_manager t))) = msg # rest" "em_params msg = None"
  shows "\<exists>t'. EventHandler_periodic_operation env now t = (Ok (), t') \<and>
    ch_queue (event_tm_sender (pus_event_handler t') k) = ch_queue (event_tm_sender h k) @
      map (\<lambda>rq. report_packet sp ops (verif_handler h) TmCompletionSuccess ts (rq_id rq) []) rqs @
      (if last_switch (\<lambda>ev. ev) (map rq_switch rqs) (em_event msg) (event_enabled_in h (em_event msg))
       then [PacketAsVec_new (er_id (reporter (pus_event_tm_creator h))) (the_ok (tm_to_vec ops
         ((event_tm (ete_subservices env) (reporter (pus_event_tm_creator h)) (severity (em_event msg)) ts (to_be_bytes (EventU32_raw (em_event msg))))
            \<lparr>pt_apid := ut_apid (UniqueApidTargetId_from (em_sender_id msg))\<rparr>)))] else []) \<and>
    ch_queue (event_net t' (event_receiver (event_manager t'))) = rest"
proof -
  have ok: "reporter_ok k (event_tm_sender h) 15 (verif_handler h)" using t(1,2) by (simp add: event_task_ok_def Let_def)
  obtain h1 where h1: "handle_event_requests env now h = (Ok (), h1)" "reporter_ok k (event_tm_sender h1) 15 (verif_handler h1)"
    "ch_queue (event_tm_sender h1 k) = ch_queue (event_tm_sender h k) @
        map (\<lambda>rq. report_packet sp ops (verif_handler h) TmCompletionSuccess ts (rq_id rq) []) rqs"
    "\<forall>ev. event_enabled_in h1 ev = last_switch (\<lambda>ev. ev) (map rq_switch rqs) ev (event_enabled_in h ev)"
    "reporter (pus_event_tm_creator h1) = reporter (pus_event_tm_creator h)" "pus_event_man_rx h1 = pus_event_man_rx h"
    using requests_handled [OF env ok] t(3,4) by auto
  let ?t1 = "t\<lparr>pus_event_handler := h1\<rparr>"
  have t1: "event_task_ok k ?t1" "ch_queue (event_net ?t1 (event_receiver (event_manager ?t1))) = msg # rest"
    using t(1,2) h1 ev(1) by (simp_all add: event_task_ok_def Let_def)
  note routed = event_routed [OF t1]
  have pre: "rx_alive (event_tm_sender h1 k)" "length (er_source_data_buf (reporter (pus_event_tm_creator h1))) = 128"
    using h1(2) t1(1) by (simp_all add: reporter_ok_def event_task_ok_def Let_def)
  obtain h2 where h2: "report_event env now msg h1 = (Ok (), h2)" "pus_event_man_rx h2 = pus_event_man_rx h1"
    "ch_queue (event_tm_sender h2 k) = ch_queue (event_tm_sender h1 k) @
      (if event_enabled_in h1 (em_event msg) then [PacketAsVec_new (er_id (reporter (pus_event_tm_creator h1))) (the_ok (tm_to_vec ops
        ((event_tm (ete_subservices env) (reporter (pus_event_tm_creator h1)) (severity (em_event msg)) ts (to_be_bytes (EventU32_raw (em_event msg))))
           \<lparr>pt_apid := ut_apid (UniqueApidTargetId_from (em_sender_id msg))\<rparr>)))] else [])"
    using event_reported [OF env(1,2,4) pre ev(2)] .
  let ?own = "pus_event_man_rx h1" and ?w = "event_net (try_event_routing ?t1)"
  have own: "?w ?own = \<lparr>ch_queue = [msg], ch_bound = 30, rx_alive = True, tx_alive = True\<rparr>" by (simp add: routed)
  have gen: "generate_pus_event_tms env now h1 ?w = (Ok (), h2, ?w(?own := (?w ?own)\<lparr>ch_queue := []\<rparr>))"
    using h2(1,2) own by (subst generate_pus_event_tms.simps, subst generate_pus_event_tms.simps) (simp add: chan_defs)
  have "event_receiver (event_manager ?t1) \<noteq> ?own" using t1(1) by (simp add: event_task_ok_def Let_def)
  then show ?thesis using gen h1 h2 t(2)
    by (simp add: EventHandler_periodic_operation_def routed Let_def)
qed

subsection \<open>Witnesses\<close>

lemma created_event_task_ok:
  assumes "EventHandler_new env s event_rx rx own w = (Ok t :: ('e, _) res)" "rx_alive (s k)" "event_rx \<noteq> own"
    and "create_verification_reporter (ete_sp env) (component_id PUS_EVENT_MANAGEMENT) (ut_apid (component_target PUS_EVENT_MANAGEMENT)) =
      (Ok v :: ('e, _) res)"
    and "length (source_data_buf v) = 15" "tm_hook v = (\<lambda>tm. tm)"
  shows "event_task_ok k t"
  using assms
  by (cases "EventReportCreator_new (ete_sp env) 0 0")
    (auto simp: EventHandler_new_def PusEventHandler_new_def EventReporter_new_with_hook_def EventManager_new_def
      subscribe_all_def update_listeners_def add_listener_def add_sender_def contains_send_event_provider_def add_send_event_provider_def
      EventSenderMpscBounded_ops_def EventSenderMpscBounded_new_def new_with_default_backend_def event_task_ok_def reporter_ok_def Let_def)

definition demo_event_env :: "(13 word, u16, PacketAsVec net, unit, nat) EventTaskEnv" where
  "demo_event_env = \<lparr>ete_sp = demo_sp, ete_subservices = demo_subservices, ete_send_tm = MpscTmAsVecSender_send_tm demo_ops 0,
     ete_cds = demo_cds, ete_cds_zero = 0\<rparr>"

definition demo_rq :: "EventRequest \<Rightarrow> (13 word, u16) EventRequestWithToken" where
  "demo_rq rq = \<lparr>erq_request = rq, erq_token = TokenStarted (VerificationToken \<lparr>version_number = 0, packet_id = 5, psc = 9\<rparr>)\<rparr>"

definition demo_event_task :: "(13 word, u16, PacketAsVec net, nat) EventHandler" where
  "demo_event_task = the_ok (EventHandler_new demo_event_env (\<lambda>_. demo_open []) 0
     (demo_open [demo_rq (EventDisable demo_event), demo_rq (EventEnable demo_event)]) 1
     (\<lambda>_. demo_open [EventMessage_new 77 demo_event]) :: (unit, _) res)"

theorem event_task_cycle_witness:
  "\<exists>t'. EventHandler_periodic_operation demo_event_env 4 demo_event_task = (Ok (), t') \<and>
     map pav_packet (ch_queue (event_tm_sender (pus_event_handler t') 0)) = [[7], [7], [2]]"
proof -
  have v: "create_verification_reporter (ete_sp demo_event_env) (component_id PUS_EVENT_MANAGEMENT) (ut_apid (component_target PUS_EVENT_MANAGEMENT)) =
    (Ok \<lparr>owner_id = component_id PUS_EVENT_MANAGEMENT, source_data_buf = replicate 15 0,
       reporter_creator = \<lparr>dest_id = 0, creator_apid = 2\<rparr>, tm_hook = (\<lambda>tm. tm)\<rparr> :: (unit, _) res)"
    by (simp add: demo_event_env_def target_id_def demo_reporter_created)
  have new: "EventHandler_new demo_event_env (\<lambda>_. demo_open []) 0
     (demo_open [demo_rq (EventDisable demo_event), demo_rq (EventEnable demo_event)]) 1 (\<lambda>_. demo_open [EventMessage_new 77 demo_event]) =
    (Ok demo_event_task :: (unit, _) res)"
    unfolding demo_event_task_def EventHandler_new_def v
    by (simp add: PusEventHandler_new_def EventReporter_new_with_hook_def EventReportCreator_new_def demo_event_env_def demo_sp_def Let_def)
  have ok: "event_task_ok 0 demo_event_task" by (rule created_event_task_ok [OF new _ _ v]) simp_all
  have st: "stamps (ete_cds demo_event_env) 4 (replicate 7 0)"
    by (simp add: stamps_def update_event_time_def demo_event_env_def demo_cds_def)
  have q: "ch_queue (event_request_rx (pus_event_handler demo_event_task)) = [demo_rq (EventDisable demo_event), demo_rq (EventEnable demo_event)]"
    "ch_queue (event_tm_sender (pus_event_handler demo_event_task) 0) = []"
    "ch_queue (event_net demo_event_task (event_receiver (event_manager demo_event_task))) = [EventMessage_new 77 demo_event]"
    unfolding demo_event_task_def EventHandler_new_def v
    by (simp_all add: PusEventHandler_new_def EventReporter_new_with_hook_def EventReportCreator_new_def demo_event_env_def demo_sp_def EventManager_new_def
      subscribe_all_def update_listeners_def add_sender_def Let_def)
  have sub: "pav_packet (PacketAsVec_new i (the_ok (tm_to_vec demo_ops tm))) = [pt_subservice tm]" for i tm
    by (simp add: PacketAsVec_new_def demo_vec_sub)
  from event_task_cycle [OF demo_ops_ok _ _ st ok refl q(1) _ q(3), of demo_sp]
  show ?thesis
    by (auto simp: demo_rq_def rq_switch_def q(2) demo_report_sub sub event_tm_def severity_subservice_def EventMessage_new_def EventMessage_new_generic_def
        demo_event_env_def demo_event_def) (simp_all add: demo_sp_def demo_subservices_def)
qed

end
