(* ===== verification/Pus_Stack.thy ===== *)
theory Pus_Stack
  imports Event_Task Targeted_Service Scheduler_Pool
begin

text \<open>
  The PUS task of the example application: the wrappers that make the test, scheduling and event services
  of the library its direct services (\<^verbatim>\<open>satrs-example/src/pus/test.rs\<close>, \<^verbatim>\<open>scheduler.rs\<close>, \<^verbatim>\<open>event.rs\<close>) and the
  loop over all services (\<^verbatim>\<open>pus/stack.rs\<close>).
\<close>

subsection \<open>The direct services\<close>

text \<open>
  What the wrappers make of a handler's result: an error counts as nothing to do, to avoid permanent loops;
  a subservice the service does not know counts as handled. The errors the handler reports are logged.
\<close>

fun direct_status :: "('e, ('pid, 'psc) DirectPusPacketHandlerResult) res \<Rightarrow> (unit, HandlingStatus) res" where
  "direct_status (Ok (Handled st)) = Ok st"
| "direct_status (Ok (CustomSubservice n token)) = Ok HandledOne"
| "direct_status (Ok (SubserviceNotImplemented n token)) = Ok HandledOne"
| "direct_status (Err e) = Ok HandledEmpty"
| "direct_status Panic = Panic"

definition EventServiceWrapper_poll_and_handle_next_tc ::
    "('pid, 'psc, 's, 'c, 'rx, 'pe) PusEnv \<Rightarrow> EventSubservices \<Rightarrow> bytes \<Rightarrow> ('s, 'c, 'rx, 'pid, 'psc) PusEventServiceHandler \<Rightarrow>
     (unit, HandlingStatus) res \<times> ('s, 'c, 'rx, 'pid, 'psc) PusEventServiceHandler" where
  "EventServiceWrapper_poll_and_handle_next_tc env es time_stamp h =
     (let (r, _, h') = PusEventServiceHandler_poll_and_handle_next_tc env es h time_stamp in (direct_status r, h'))"

text \<open>The scheduling service with its pool, the buffer for released telecommands and the releaser.\<close>

record ('s, 'c, 'rx, 't, 'd, 'p, 'r) SchedulingServiceWrapper =
  pus_11_handler :: "('s, 'c, 'rx, 't, 'd) PusSchedServiceHandler"
  sched_tc_pool :: 'p
  releaser_buf :: bytes
  tc_releaser :: 'r

definition SchedulingServiceWrapper_poll_and_handle_next_tc ::
    "('pid, 'psc, 's, 'c, 'rx, 'pe) PusEnv \<Rightarrow> (u8 \<Rightarrow> SchedSubservice option) \<Rightarrow> 'p PoolProvider \<Rightarrow>
     (bytes \<Rightarrow> 'pe + PusTc) \<Rightarrow> (bytes \<Rightarrow> 'te + 't \<times> nat) \<Rightarrow> ('t::linorder \<Rightarrow> 'd \<Rightarrow> 't) \<Rightarrow> bytes \<Rightarrow>
     ('s, 'c, 'rx, 't, 'd, 'p, 'r) SchedulingServiceWrapper \<Rightarrow>
     (unit, HandlingStatus) res \<times> ('s, 'c, 'rx, 't, 'd, 'p, 'r) SchedulingServiceWrapper" where
  "SchedulingServiceWrapper_poll_and_handle_next_tc env try_sub ops read_tc read_time time_add time_stamp w =
     (let (r, _, sh, p) = PusSchedServiceHandler_poll_and_handle_next_tc env try_sub ops read_tc read_time time_add
            (pus_11_handler w) time_stamp (sched_tc_pool w)
      in (direct_status r, w\<lparr>pus_11_handler := sh, sched_tc_pool := p\<rparr>))"

text \<open>
  \<^verbatim>\<open>TcReleaser::release\<close> for the two kinds of telecommand sources, on the state of the releaser: a failed
  \<^verbatim>\<open>expect\<close> makes it \<open>Panic\<close>, and a call that waits, because the bounded channel of the pool sender is full,
  has no state; in both cases nothing more is released. The telecommand always counts as released.
\<close>

type_synonym 'r releaser_state = "(unit, 'r) res option"
type_synonym 'r TcReleaser = "ComponentId \<Rightarrow> bool \<Rightarrow> TcInfo \<Rightarrow> bytes \<Rightarrow> 'r releaser_state \<Rightarrow> bool \<times> 'r releaser_state"

definition Sender_release :: "PacketAsVec chan TcReleaser" where
  "Sender_release sender on info tc r =
     (True,
      case r of
        Some (Ok c) \<Rightarrow>
          if on then let (rs, c') = mpsc_send c (PacketAsVec_new sender tc) in Some (res_bind (res_unwrap rs) (\<lambda>_. Ok c'))
          else r
      | _ \<Rightarrow> r)"

definition PacketSenderWithSharedPool_release :: "(SharedPacketPool \<times> PacketInPool chan) TcReleaser" where
  "PacketSenderWithSharedPool_release sender on info tc r =
     (True,
      case r of
        Some (Ok (sh, c)) \<Rightarrow>
          if \<not> on then r
          else if lock_poisoned sh then Some Panic
          else (case StaticMemoryPool_add (locked_pool sh) tc of
                  (Ok released_tc_addr, p) \<Rightarrow>
                    map_option (\<lambda>(rs, c'). res_bind (res_unwrap rs) (\<lambda>_. Ok (sh\<lparr>locked_pool := p\<rparr>, c')))
                      (mpsc_sync_send c (PacketInPool_new sender released_tc_addr))
                | _ \<Rightarrow> Some Panic)
      | _ \<Rightarrow> r)"

text \<open>\<^verbatim>\<open>release_tcs\<close>: \<open>now\<close> is the clock reading of \<^verbatim>\<open>update_time_from_now\<close>, which may fail.\<close>

definition release_tcs ::
    "'p PoolProvider \<Rightarrow> 'r TcReleaser \<Rightarrow> (unit, 't) res \<Rightarrow> ('s, 'c, 'rx, 't::linorder, 'd, 'p, 'r) SchedulingServiceWrapper \<Rightarrow>
     ((unit, unit) res \<times> ('s, 'c, 'rx, 't, 'd, 'p, 'r) SchedulingServiceWrapper) option" where
  "release_tcs ops release now w =
     (let i = helper_id (service_helper (pus_11_handler w))
      in case now of
           Ok t \<Rightarrow>
             (let (r, sched, st) = release_telecommands_with_buffer ops (release i) (update_time t (scheduler (pus_11_handler w)))
                    (sched_tc_pool w) (Some (Ok (tc_releaser w))) (releaser_buf w);
                  w1 = w\<lparr>pus_11_handler := (pus_11_handler w)\<lparr>scheduler := sched\<rparr>, sched_tc_pool := rs_pool st,
                         releaser_buf := (case rs_buf st of Some b \<Rightarrow> b | None \<Rightarrow> releaser_buf w)\<rparr>
              in case rs_user st of
                   None \<Rightarrow> None
                 | Some (Ok u) \<Rightarrow> Some (res_map (\<lambda>_. ()) (res_unwrap r), w1\<lparr>tc_releaser := u\<rparr>)
                 | Some _ \<Rightarrow> Some (Panic, w1))
         | _ \<Rightarrow> Some (Panic, w))"

paragraph \<open>The test service with the test event\<close>

record ('s, 'c, 'rx) TestCustomServiceWrapper =
  test_handler :: "('s, 'c, 'rx) PusServiceHelper"
  test_event_tx :: "EventMessageU32 chan"

definition TEST_EVENT :: EventU32 where
  "TEST_EVENT = \<lparr>severity = Info, group_id = 0, unique_id = 0\<rparr>"

text \<open>
  A custom subservice: 128 sends the test event and reports start and completion, every other one is a
  start failure. The blocking send waits while the channel is full, which has no result. The packet is read
  again from the converter.
\<close>

definition handle_custom_test ::
    "('pid, 'psc, 's, 'c, 'rx, 'pe) PusEnv \<Rightarrow> bytes \<Rightarrow> u8 \<Rightarrow> (TcStateAccepted, 'pid, 'psc) VerificationToken \<Rightarrow>
     ('s, 'c, 'rx) TestCustomServiceWrapper \<Rightarrow> ((unit, HandlingStatus) res \<times> ('s, 'c, 'rx) TestCustomServiceWrapper) option" where
  "handle_custom_test env time_stamp subservice token w =
     (let h = test_handler w
      in case env_read_tc env (ic_tc_slice_raw (env_conv env) (tc_in_mem_converter h)) of
           Ok tc \<Rightarrow>
             if subservice = 128 then
               (case mpsc_sync_send (test_event_tx w) (EventMessage_new (component_id PUS_TEST_SERVICE) TEST_EVENT) of
                  None \<Rightarrow> None
                | Some (Ok _, c) \<Rightarrow>
                    let w1 = w\<lparr>test_event_tx := c\<rparr>; (r, _, h1) = try_start env h token time_stamp; w2 = w1\<lparr>test_handler := h1\<rparr>
                    in (case r of
                          Ok None \<Rightarrow> Some (Ok HandledOne, w2)
                        | Ok (Some started) \<Rightarrow>
                            let (r2, _, h2) = try_completion env h1 started time_stamp
                            in Some (if r2 = Panic then Panic else Ok HandledOne, w1\<lparr>test_handler := h2\<rparr>)
                        | _ \<Rightarrow> Some (Panic, w2))
                | Some (_, c) \<Rightarrow> Some (Panic, w\<lparr>test_event_tx := c\<rparr>))
             else
               let (r, s, v) = start_failure (env_sp env) (env_send_tm env) (tm_sender_state h) (verif_reporter h) token
                     (FailParams_new time_stamp (tmtc_code INVALID_PUS_SUBSERVICE) [tc_subservice tc])
               in Some (res_map (\<lambda>_. HandledOne) (res_unwrap r), w\<lparr>test_handler := h\<lparr>tm_sender_state := s, verif_reporter := v\<rparr>\<rparr>)
         | _ \<Rightarrow> Some (Panic, w))"

definition TestCustomServiceWrapper_poll_and_handle_next_tc ::
    "('pid, 'psc, 's, 'c, 'rx, 'pe) PusEnv \<Rightarrow> bytes \<Rightarrow> ('s, 'c, 'rx) TestCustomServiceWrapper \<Rightarrow>
     ((unit, HandlingStatus) res \<times> ('s, 'c, 'rx) TestCustomServiceWrapper) option" where
  "TestCustomServiceWrapper_poll_and_handle_next_tc env time_stamp w =
     (let (r, _, h) = PusService17TestHandler_poll_and_handle_next_tc env (test_handler w) time_stamp; w1 = w\<lparr>test_handler := h\<rparr>
      in case r of
           Ok (CustomSubservice subservice token) \<Rightarrow> handle_custom_test env time_stamp subservice token w1
         | _ \<Rightarrow> Some (direct_status r, w1))"

subsection \<open>The stack\<close>












subsection \<open>Properties\<close>
















end
