(* ===== verification/Spec2Isabelle.thy ===== *)
theory Spec2Isabelle
  imports Heapless_Pool Scheduler_Pool Params Events Mode Services Event_Man Seq_Count Encoding Cfdp_Safety Targeted_Lifecycle Executable Tm_Sink Device_Tasks Pus_Stack
begin

text \<open>
  A verification development of sat-rs, a Rust library for the on-board software of small satellites, and of
  the example application built on it. Paths are relative to \<^verbatim>\<open>satrs/src\<close> unless they start with
  \<^verbatim>\<open>satrs-example\<close> or \<^verbatim>\<open>satrs-minisim\<close>.

  \<^bold>\<open>The program.\<close> Telecommands come in over TCP or UDP as space packets or COBS frames. A server splits them
  off and hands them to the telecommand source task, which gives them to the distributor. The distributor
  reports the acceptance and puts each telecommand on the channel of its PUS service. Direct services (test,
  scheduling, events) do the work themselves; targeted services (action, mode, housekeeping) turn the
  telecommand into a request to a component, keep it as an active request and report what the component
  replies. Every step is answered by verification reports. Telemetry goes from all services and components
  over a channel to the telemetry sink, which sets the counters and hands it back to the servers. Packets are
  either vectors or live in a shared static pool and are passed by address. Beside this stand the event
  manager and the event task, the device handlers with the power switches, and the CFDP file receiver.

  \<^bold>\<open>How code is modelled.\<close> A struct is a record, an enum a datatype, an integer a word of its width, a byte
  slice a list of bytes; \<^verbatim>\<open>usize\<close> is a natural number. An operation takes the state and gives back its result
  with the new state. The result type \<^verbatim>\<open>res\<close> of \<^verbatim>\<open>Prelude\<close> has the Ok and Err of the code and a third value for
  a panic, so unwrap, expect, indexing out of range, todo! and arithmetic overflow are branches; packet
  counters of the parsers and servers are words that wrap, as their theories say. A trait is a record of
  functions or a function type; what its clients rely on is a locale, interpreted on the implementations. A
  channel of the standard library is a record with its queue, bound and whether its ends are alive; handles
  are indices into a store of channels, so clones share one channel. A call that waits for ever has no
  result (None), and a loop that may not end is a partial function into an option. Libraries that are not
  part of the repository (packet and time formats, COBS, CRC, JSON, sockets, the heapless collections) are
  arguments with their documented laws as hypotheses; each such property has a witness on concrete functions.

  \<^bold>\<open>Theories, code and results.\<close>
  \<^item> \<^verbatim>\<open>Prelude\<close>: results, slices, byte orders, sequencing.
  \<^item> \<^verbatim>\<open>Pool_Provider\<close>, \<^verbatim>\<open>Static_Pool\<close>, \<^verbatim>\<open>Heapless_Pool\<close> (\<^verbatim>\<open>pool.rs\<close>): the provider trait as a locale over a partial
    map, and both pools as its interpretations. Every sequence of operations refines the map and keeps the
    invariant, for the heapless pool when it was grown in ascending order of block size; which slot an addition
    takes and with which error it fails; added data is read back. A heapless pool that was grown with larger
    blocks first and spills loses stored data.
  \<^item> \<^verbatim>\<open>BTree_Map\<close>, \<^verbatim>\<open>Scheduler\<close>, \<^verbatim>\<open>Scheduler_Pool\<close> (\<^verbatim>\<open>pus/scheduler.rs\<close>): insertion, deletion, release and reset of
    time-tagged telecommands on any pool; a release hands over every due telecommand once and in order; a
    missing packet blocks all later ones.
  \<^item> \<^verbatim>\<open>Params\<close>, \<^verbatim>\<open>Events\<close>, \<^verbatim>\<open>Seq_Count\<close> (\<^verbatim>\<open>params.rs\<close>, \<^verbatim>\<open>events.rs\<close>, \<^verbatim>\<open>seq_count.rs\<close>): encodings with their round trips,
    event ids, counters that wrap at their maximum.
  \<^item> \<^verbatim>\<open>Messaging\<close>, \<^verbatim>\<open>Mode\<close> (\<^verbatim>\<open>queue.rs\<close>, \<^verbatim>\<open>request.rs\<close>, \<^verbatim>\<open>mode.rs\<close>, \<^verbatim>\<open>power.rs\<close>): channels, targeted messages, mode requests and
    power switch commands.
  \<^item> \<^verbatim>\<open>Pus_Types\<close>, \<^verbatim>\<open>Verification\<close>, \<^verbatim>\<open>Tmtc\<close> (\<^verbatim>\<open>pus/mod.rs\<close>, \<^verbatim>\<open>pus/verification.rs\<close>, \<^verbatim>\<open>tmtc\<close>): the typed tokens, all reports,
    telemetry senders and the shared pool; what callers can do with copyable tokens as a step
    relation, and which reports of a telecommand always come after which.
  \<^item> \<^verbatim>\<open>Pus_Service\<close>, \<^verbatim>\<open>Services\<close> (\<^verbatim>\<open>pus/mod.rs\<close>, \<^verbatim>\<open>pus/test.rs\<close>, \<^verbatim>\<open>pus/scheduler_srv.rs\<close>, \<^verbatim>\<open>pus/event_srv.rs\<close>): the service helper
    and the three direct services, from the channel to the last report.
  \<^item> \<^verbatim>\<open>Pus_Events\<close>, \<^verbatim>\<open>Event_Man\<close> (\<^verbatim>\<open>pus/event.rs\<close>, \<^verbatim>\<open>pus/event_man.rs\<close>, \<^verbatim>\<open>event_man.rs\<close>): event reports, the two reporting maps
    as interpretations of one locale, which events are reported after any commands, and routing to the
    subscribers.
  \<^item> \<^verbatim>\<open>Encoding\<close> (\<^verbatim>\<open>encoding\<close>): the space packet and COBS parsers, with the round trip and the treatment of split
    packets at the end of a buffer.
  \<^item> \<^verbatim>\<open>Cfdp\<close>, \<^verbatim>\<open>Filestore\<close>, \<^verbatim>\<open>Cfdp_Dest\<close>, \<^verbatim>\<open>Cfdp_Transfer\<close>, \<^verbatim>\<open>Cfdp_Safety\<close> (\<^verbatim>\<open>cfdp\<close>): the file receiver as a state machine over a
    file system; a transfer writes exactly the segments, checksums agree with their definition, the check
    limit ends a transfer, reachable states keep the invariant and do not panic.
  \<^item> \<^verbatim>\<open>Requests\<close>, \<^verbatim>\<open>Targeted_Service\<close>, \<^verbatim>\<open>Targeted_Lifecycle\<close> (\<^verbatim>\<open>satrs-example/src/requests.rs\<close>, \<^verbatim>\<open>satrs-example/src/pus\<close>):
    router, converters, reply handlers and the generic service; absence of panics, rejected and timed-out
    requests.
  \<^item> \<^verbatim>\<open>Tc_Distributor\<close> (\<^verbatim>\<open>satrs-example/src/pus/mod.rs\<close>, \<^verbatim>\<open>config.rs\<close>): the fate of every telecommand.
  \<^item> \<^verbatim>\<open>Executable\<close> (\<^verbatim>\<open>executable.rs\<close>): the task loops and how often each task runs.
  \<^item> \<^verbatim>\<open>Tcp_Server\<close> (\<^verbatim>\<open>hal/std\<close>): connections as event sequences, both framings, the accept loop, the UDP server; a
    packet that arrives in two pieces with a pause spoils the next one.
  \<^item> \<^verbatim>\<open>Tm_Sink\<close> (\<^verbatim>\<open>satrs-example/src/tmtc\<close>, \<^verbatim>\<open>satrs-example/src/interface\<close>): telemetry counters and a whole TCP session.
  \<^item> \<^verbatim>\<open>Mgm_Handler\<close>, \<^verbatim>\<open>Pcdu_Handler\<close>, \<^verbatim>\<open>Device_Tasks\<close> (\<^verbatim>\<open>satrs-example/src/acs/mgm.rs\<close>, \<^verbatim>\<open>eps\<close>, \<^verbatim>\<open>hk.rs\<close>, and the message types
    of \<^verbatim>\<open>satrs-minisim/src/lib.rs\<close>): both device handlers and their two threads; a mode command through both;
    when a cycle ends and when it panics. Single precision numbers are their bits, with exact rounding.
  \<^item> \<^verbatim>\<open>Event_Task\<close>, \<^verbatim>\<open>Pus_Stack\<close> (\<^verbatim>\<open>satrs-example/src/events.rs\<close>, \<^verbatim>\<open>pus/stack.rs\<close> and the service wrappers): a cycle of the
    event task and the loop over all services, with the polls of every round and the timeout checks.
  \<^item> This theory: a mode telecommand from the distributor over the mode service to the component and back.

  \<^bold>\<open>Bounds and loops.\<close> There is no fuel. Loops over a queue, a buffer or a list recurse on it, with a measure
  where the recursion is not structural; the loop over the services is bounded by the 500 rounds of the code;
  loops that end only through their environment (connections, request queues whose senders may vanish,
  tasks without a cycle count) are partial functions, and the properties state when they return.

  \<^bold>\<open>Not modelled.\<close> Binding of sockets, creation of threads, sleeping and log output have no effect on the
  modelled state. The UDP client of the simulator and the simulator itself are driven by a socket and by a
  simulation library outside the repository. The exporter of result codes and its macro run at build time.
  The embedded examples are register access under an interrupt scheduler. The ground scripts only send
  fixed telecommands. The mode tree tables have no operations, and the CFDP source handler is a struct with
  its id. The constructors of the example services for the shared pool differ from the modelled ones only in
  the packet converter. Of the file system, seeks and writes that fail half way are left out, and the modular
  checksum assumes full reads of regular files. Telemetry of different services has no order among each other in the stack loop.
\<close>

subsection \<open>From a telecommand to its completion\<close>

text \<open>The mode service on the channel its telecommands come from, with the telemetry channel shared.\<close>

definition attach :: "('pid, 'psc, PacketAsVec net, 'cds) PusTcDistributor \<Rightarrow> nat \<Rightarrow> ('pid, 'psc, 'st, 'i, 'rp, 'rh) vec_service \<Rightarrow>
    ('pid, 'psc, 'st, 'i, 'rp, 'rh) vec_service" where
  "attach d c t = t\<lparr>ts_service_helper := (ts_service_helper t)\<lparr>tc_receiver := service_net d c, tm_sender_state := dist_tm_sender d\<rparr>\<rparr>"

text \<open>
  C1: the whole path of a mode telecommand. The distributor accepts it and forwards it to the mode
  service, which sends the request it stands for to the addressed component and reports the start; when the
  component replies with its mode, the service sends the mode as telemetry of service 200 with the APID of
  the telecommand, and the completion. So the telemetry channel has got exactly the acceptance report, the
  start report, the mode and the completion report, in this order, and the request is no longer active.
\<close>

theorem mode_command:
  fixes sp :: "('pid, 'psc) Spacepackets" and env :: "('pid, 'psc, PacketAsVec net, 'pe, 'cds) DistEnv" and sender :: ComponentId
    and pid_apid :: "'pid \<Rightarrow> u16" and per_sec :: nat
  assumes "tm_ops_ok ops" "spacepackets_ok sp" "ver \<le> 7"
    and env: "de_sp env = sp" "de_send_tm env = MpscTmAsVecSender_send_tm ops k" "de_service env 200 = None"
      "\<forall>n s. de_service env n = Some s \<longrightarrow> de_service_num env s = n"
    and dist: "reporter_ok k (dist_tm_sender d) 15 (dist_verif_reporter d)"
      "update_from_now (de_cds env) now (stamp_helper d) = (Ok () :: (GenericSendError, unit) res, helper)"
      "ch_queue (service_net d (mode_tc_sender (pus_router d))) = []" "rx_alive (service_net d (mode_tc_sender (pus_router d)))"
    and tc: "de_read_tc env raw = Ok tc" "de_hdr env tc = (ver, pid, ps)" "tc_service tc = 200" "mode_request tc = Some rq"
    and service: "length (source_data_buf (ts_reporter t)) = 15" "tm_hook (ts_reporter t) = (\<lambda>tm. tm)"
      "mode_router_map (request_router t) (mode_target tc) = Some h" "rx_alive (mode_net (request_net t) h)"
      "length (ch_queue (mode_net (request_net t) h)) < ch_bound (mode_net (request_net t) h)"
    and reply: "ch_queue rx = [GenericMessage_new (MessageMetadata_new (RequestId_raw sp (RequestId_new ver pid ps)) (helper_id (ts_service_helper t)))
      (ModeReply m)]"
  defines "menv \<equiv> mode_env sp ops k (de_read_tc env) (de_hdr env) pid_apid per_sec"
  defines "rid \<equiv> RequestId_new ver pid ps"
  shows "\<exists>d1 t2 t3. handle_tc_packet_vec env now \<lparr>pav_sender_id = sender, pav_packet = raw\<rparr> d = (Ok HandledOne, d1) \<and>
    targeted_poll_and_handle_next_tc menv now ts (attach d1 (mode_tc_sender (pus_router d)) t) = Some (Ok HandledOne, t2) \<and>
    ch_queue (mode_net (request_net t2) h) = ch_queue (mode_net (request_net t) h) @
      [GenericMessage_new (MessageMetadata_new (RequestId_raw sp rid) (helper_id (ts_service_helper t))) rq] \<and>
    targeted_poll_and_handle_next_reply menv ts (t2\<lparr>reply_receiver := rx\<rparr>) = (Ok HandledOne, t3) \<and>
    ch_queue (ts_sender t3 k) = ch_queue (dist_tm_sender d k) @
      [report_packet sp ops (dist_verif_reporter d) TmAcceptanceSuccess (stamp helper) rid [],
       report_packet sp ops (ts_reporter t) TmStartSuccess ts rid [],
       PacketAsVec_new (reply_handler t) (the_ok (tm_to_vec ops (mode_reply_tm (pid_apid pid) ts (mode_bytes m @ replicate 6 0)))),
       report_packet sp ops (ts_reporter t) TmCompletionSuccess ts rid []] \<and>
    active_request_map t3 = (active_request_map t)(RequestId_raw sp rid := None)"
proof -
  let ?c = "mode_tc_sender (pus_router d)"
  define d1 where "d1 = (accepted_dist env ops k rid helper d)\<lparr>service_net := (service_net d)(?c := (service_net d ?c)\<lparr>ch_queue :=
    [\<lparr>tc_in_memory = TcVec \<lparr>pav_sender_id = sender, pav_packet = raw\<rparr>, tc_token = Some (TokenAccepted (VerificationToken rid))\<rparr>]\<rparr>)\<rparr>"
  have fate: "tc_fate env (pus_router d) 200 = Forwarded ?c" by (simp add: tc_fate_def env)
  have h1: "handle_tc_packet_vec env now \<lparr>pav_sender_id = sender, pav_packet = raw\<rparr> d = (Ok HandledOne, d1)"
    using dist_run [OF assms(1) env(2) dist(1) env(4) tc(1,2) dist(2), of sender] dist(3,4) tc(3) fate
    by (simp add: handle_tc_packet_vec_def forward_tc_eq d1_def rid_def)
  define t1 where "t1 = attach d1 ?c t"
  have ok: "reporter_ok k (ts_sender t1) 15 (ts_reporter t1)"
    using accepted_dist_ok [OF dist(1), of env ops rid helper] service(1,2) by (simp add: t1_def attach_def d1_def reporter_ok_def)
  define sv where "sv = push_report sp ops k TmStartSuccess ts rid [] (ts_sender t1, ts_reporter t1)"
  obtain t2 where h2: "targeted_poll_and_handle_next_tc menv now ts t1 = Some (Ok HandledOne, t2)"
    and t2: "ts_sender t2 = fst sv" "ts_reporter t2 = snd sv" "reply_handler t2 = reply_handler t"
      "ch_queue (mode_net (request_net t2) h) = ch_queue (mode_net (request_net t) h) @
        [GenericMessage_new (MessageMetadata_new (RequestId_raw sp rid) (helper_id (ts_service_helper t))) rq]"
      "active_request_map t2 = (active_request_map t)(RequestId_raw sp rid \<mapsto>
        ActivePusRequestStd_new now (mode_target tc) (TokenStarted (VerificationToken rid)) (30 * per_sec))"
    using mode_poll_ok [OF assms(1) ok, where tok = "VerificationToken rid" and rest = "[]" and read_tc = "de_read_tc env" and tc = tc
        and rq = rq and h = h and sp = sp and hdr = "de_hdr env" and ts = ts and pid_apid = pid_apid and per_sec = per_sec and now = now
        and p = "\<lparr>pav_sender_id = sender, pav_packet = raw\<rparr>"]
      tc(1,2,4) service(3-5)
    by (simp add: menv_def t1_def attach_def d1_def sv_def tc_request_id_def rid_def)
  have ok2: "reporter_ok k (fst sv) 15 (snd sv)" using ok by (simp add: sv_def push_report_pair)
  obtain t3 where h3: "targeted_poll_and_handle_next_reply menv ts (t2\<lparr>reply_receiver := rx\<rparr>) = (Ok HandledOne, t3)"
    and q3: "ch_queue (ts_sender t3 k) = ch_queue (fst sv k) @
       [PacketAsVec_new (reply_handler t) (the_ok (tm_to_vec ops (mode_reply_tm (pid_apid pid) ts (mode_bytes m @ replicate 6 0)))),
        report_packet sp ops (snd sv) TmCompletionSuccess ts rid []]"
    and m3: "active_request_map t3 = (active_request_map t)(RequestId_raw sp rid := None)"
    using mode_reply_polled [OF assms(1,2), where rid = rid and t = "t2\<lparr>reply_receiver := rx\<rparr>" and k = k and m = m
        and i = "helper_id (ts_service_helper t)" and read_tc = "de_read_tc env" and hdr = "de_hdr env" and pid_apid = pid_apid
        and per_sec = per_sec and ts = ts]
      reply t2 ok2 assms(3)
    by (simp add: menv_def ActivePusRequestStd_new_def rid_def RequestId_new_def) blast
  have "ch_queue (fst sv k) = ch_queue (dist_tm_sender d k) @
      [report_packet sp ops (dist_verif_reporter d) TmAcceptanceSuccess (stamp helper) rid [],
       report_packet sp ops (ts_reporter t) TmStartSuccess ts rid []]"
    "report_packet sp ops (snd sv) = report_packet sp ops (ts_reporter t)"
    using env(1) by (auto simp: sv_def t1_def attach_def d1_def intro!: report_packet_cong)
  then show ?thesis using h1 h2 h3 q3 m3 t2(4) t1_def by (intro exI [of _ d1] exI [of _ t2] exI [of _ t3]) simp
qed

theorem mode_command_witness:
  "\<exists>d1 t2 t3. handle_tc_packet_vec demo_dist_env 4 \<lparr>pav_sender_id = 9, pav_packet = [200, 3, 0, 0, 0, 7]\<rparr> demo_dist = (Ok HandledOne, d1) \<and>
     targeted_poll_and_handle_next_tc demo_mode_env 4 [] (attach d1 5 (demo_mode [])) = Some (Ok HandledOne, t2) \<and>
     targeted_poll_and_handle_next_reply demo_mode_env [] (t2\<lparr>reply_receiver := demo_open [GenericMessage_new
       (MessageMetadata_new (RequestId_raw demo_sp demo_rid) (helper_id (ts_service_helper (demo_mode [])))) (ModeReply \<lparr>mode = 1, submode = 0\<rparr>)]\<rparr>) =
       (Ok HandledOne, t3) \<and>
     map pav_packet (ch_queue (ts_sender t3 0)) = [[1], [3], [6], [7]]"
proof -
  have tc: "de_read_tc demo_dist_env [200, 3, 0, 0, 0, 7] = Ok (demo_parsed 200 3 [0, 0, 0, 7])" by (simp add: demo_dist_ok)
  have rq: "mode_request (demo_parsed 200 3 [0, 0, 0, 7]) = Some ReadMode" by (simp add: mode_request_def)
  have serv: "de_service demo_dist_env 200 = None" by (simp add: demo_dist_env_def)
  have inv: "reporter_ok 0 (ts_sender (demo_mode [])) 15 (ts_reporter (demo_mode []))"
    using demo_service_inv(2) by (simp add: service_inv_def)
  have dist: "mode_tc_sender (pus_router demo_dist) = 5" "service_net demo_dist = (\<lambda>_. demo_open [])" "dist_tm_sender demo_dist = (\<lambda>_. demo_open [])"
    by (simp_all add: demo_dist_eq)
  have read: "de_hdr demo_dist_env = demo_hdr" "RequestId_new 0 5 9 = demo_rid"
    by (simp_all add: demo_dist_env_def demo_rid_def)
  have sub: "the_ok (tm_to_vec demo_ops (mode_reply_tm a ts data)) = [6]" for a ts data by (simp add: demo_vec_sub mode_reply_tm_def)
  show ?thesis
    using mode_command [OF demo_ops_ok demo_sp_ok _ demo_dist_ok(5,4) serv demo_dist_ok(2,1,3) _ _ tc demo_dist_ok(7) _ rq,
        of "demo_mode []" 0 "demo_open [GenericMessage_new (MessageMetadata_new (RequestId_raw demo_sp demo_rid)
          (helper_id (ts_service_helper (demo_mode [])))) (ModeReply \<lparr>mode = 1, submode = 0\<rparr>)]" "\<lparr>mode = 1, submode = 0\<rparr>" 9
        "\<lambda>pid. ucast pid" 1 "[]"] inv
    by (auto simp: dist read demo_dist_ok(6) demo_requests_def demo_router_def reporter_ok_def sub demo_report_sub PacketAsVec_new_def)
      (simp_all add: demo_sp_def)
qed

end
